(* ===== verification/Prelude.thy ===== *)
theory Prelude
  imports Complex_Main
begin

text \<open>
  Shared vocabulary of the development: unsigned 64-bit arithmetic with the saturation that the
  Rust code asks for, ordered maps (\<open>BTreeMap\<close>) as key-sorted association lists, and the
  collections of rewrite rules the component theories add to.
\<close>

named_theorems bt_simps "lookup laws of the ordered map operations"
named_theorems sat_simps "laws of saturating 64-bit arithmetic"

section \<open>Unsigned 64-bit integers\<close>

text \<open>
  Counters, identities and ticks of the program are \<open>u64\<close>. They are natural numbers here, and
  every addition the code performs on them is \<open>saturating_add\<close> or \<open>wrapping_add\<close>, written out below.
\<close>

type_synonym u64 = nat

definition u64_max :: nat where
  "u64_max = 2 ^ 64 - 1"

definition saturating_add :: "u64 \<Rightarrow> u64 \<Rightarrow> u64" where
  "saturating_add a b = min (a + b) u64_max"

definition wrapping_add :: "u64 \<Rightarrow> u64 \<Rightarrow> u64" where
  "wrapping_add a b = (a + b) mod (u64_max + 1)"

lemma saturating_add_le [sat_simps]: "saturating_add a b \<le> u64_max"
  by (simp add: saturating_add_def)

lemma saturating_add_exact [sat_simps]: "a + b \<le> u64_max \<Longrightarrow> saturating_add a b = a + b"
  by (simp add: saturating_add_def)

lemma saturating_add_below: "saturating_add a b < u64_max \<Longrightarrow> saturating_add a b = a + b"
  by (auto simp: saturating_add_def min_def split: if_splits)

lemma saturating_add_mono: "a \<le> a' \<Longrightarrow> saturating_add a b \<le> saturating_add a' b"
  by (auto simp: saturating_add_def)

lemma le_saturating_add: "a \<le> u64_max \<Longrightarrow> a \<le> saturating_add a b"
  by (simp add: saturating_add_def)

section \<open>Ordered maps\<close>

text \<open>
  A \<open>BTreeMap\<close> is the list of its entries in key order, which is the order in which the code
  iterates over it. The lookup laws hold for every list; only the correspondence between
  iteration and lookup needs the order (\<open>bt_wf\<close>).
\<close>

type_synonym ('k, 'v) btree_map = "('k \<times> 'v) list"

definition bt_get :: "('k, 'v) btree_map \<Rightarrow> 'k \<Rightarrow> 'v option" where
  "bt_get m k = map_of m k"

fun bt_insert :: "'k::linorder \<Rightarrow> 'v \<Rightarrow> ('k, 'v) btree_map \<Rightarrow> ('k, 'v) btree_map" where
  "bt_insert k v [] = [(k, v)]"
| "bt_insert k v ((k', v') # m) =
     (if k = k' then (k, v) # m
      else if k < k' then (k, v) # (k', v') # m
      else (k', v') # bt_insert k v m)"

definition bt_remove :: "'k \<Rightarrow> ('k, 'v) btree_map \<Rightarrow> ('k, 'v) btree_map" where
  "bt_remove k m = filter (\<lambda>p. fst p \<noteq> k) m"

text \<open>\<open>get_mut\<close> followed by an assignment through the reference.\<close>

definition bt_modify :: "'k \<Rightarrow> ('v \<Rightarrow> 'v) \<Rightarrow> ('k, 'v) btree_map \<Rightarrow> ('k, 'v) btree_map" where
  "bt_modify k f m = map (\<lambda>p. if fst p = k then (fst p, f (snd p)) else p) m"

definition bt_values :: "('k, 'v) btree_map \<Rightarrow> 'v list" where
  "bt_values m = map snd m"

definition bt_map_values :: "('v \<Rightarrow> 'v) \<Rightarrow> ('k, 'v) btree_map \<Rightarrow> ('k, 'v) btree_map" where
  "bt_map_values f m = map (\<lambda>p. (fst p, f (snd p))) m"

definition bt_contains :: "('k, 'v) btree_map \<Rightarrow> 'k \<Rightarrow> bool" where
  "bt_contains m k \<longleftrightarrow> bt_get m k \<noteq> None"

definition bt_wf :: "('k::linorder, 'v) btree_map \<Rightarrow> bool" where
  "bt_wf m \<longleftrightarrow> sorted_wrt (<) (map fst m)"

lemma bt_get_Nil [simp, bt_simps]: "bt_get [] k = None"
  by (simp add: bt_get_def)

lemma bt_get_Cons [simp]: "bt_get ((k, v) # m) k' = (if k' = k then Some v else bt_get m k')"
  by (auto simp: bt_get_def)

lemma bt_get_insert [simp, bt_simps]:
  "bt_get (bt_insert k v m) k' = (if k' = k then Some v else bt_get m k')"
  by (induction k v m rule: bt_insert.induct) auto

lemma bt_get_remove [simp, bt_simps]:
  "bt_get (bt_remove k m) k' = (if k' = k then None else bt_get m k')"
  by (induction m) (auto simp: bt_remove_def bt_get_def)

lemma bt_get_modify [simp, bt_simps]:
  "bt_get (bt_modify k f m) k' = (if k' = k then map_option f (bt_get m k') else bt_get m k')"
  by (induction m) (auto simp: bt_modify_def bt_get_def)

lemma bt_get_map_values [simp, bt_simps]:
  "bt_get (bt_map_values f m) k = map_option f (bt_get m k)"
  by (induction m) (auto simp: bt_map_values_def bt_get_def)

lemma bt_get_in_values: "bt_get m k = Some v \<Longrightarrow> v \<in> set (bt_values m)"
  by (force simp: bt_get_def bt_values_def dest: map_of_SomeD)

lemma set_fst_bt_insert: "set (map fst (bt_insert k v m)) = insert k (set (map fst m))"
  by (induction k v m rule: bt_insert.induct) auto

lemma bt_wf_Nil [simp, intro]: "bt_wf []"
  by (simp add: bt_wf_def)

lemma bt_wf_insert [intro]: "bt_wf m \<Longrightarrow> bt_wf (bt_insert k v m)"
proof (induction k v m rule: bt_insert.induct)
  case (2 k v k' v' m)
  then show ?case
    using set_fst_bt_insert [of k v m]
    by (force simp: bt_wf_def simp flip: set_map)
qed (simp add: bt_wf_def)

lemma bt_wf_remove [intro]: "bt_wf m \<Longrightarrow> bt_wf (bt_remove k m)"
  by (induction m) (auto simp: bt_wf_def bt_remove_def)

lemma map_fst_bt_modify [simp]: "map fst (bt_modify k f m) = map fst m"
  by (simp add: bt_modify_def comp_def if_distrib cong: if_cong)

lemma bt_wf_modify [simp]: "bt_wf (bt_modify k f m) \<longleftrightarrow> bt_wf m"
  by (simp add: bt_wf_def)

lemma bt_wf_map_values [simp]: "bt_wf (bt_map_values f m) \<longleftrightarrow> bt_wf m"
  by (simp add: bt_wf_def bt_map_values_def comp_def)

lemma bt_wf_distinct: "bt_wf m \<Longrightarrow> distinct (map fst m)"
  unfolding bt_wf_def using strict_sorted_iff by blast

text \<open>On a well-formed map, iterating over the values visits exactly what lookups return.\<close>

lemma bt_values_iff: "bt_wf m \<Longrightarrow> v \<in> set (bt_values m) \<longleftrightarrow> (\<exists>k. bt_get m k = Some v)"
  using bt_wf_distinct [of m]
  by (force simp: bt_values_def bt_get_def map_of_eq_Some_iff)

lemma bt_entries_iff: "bt_wf m \<Longrightarrow> (k, v) \<in> set m \<longleftrightarrow> bt_get m k = Some v"
  using bt_wf_distinct [of m] by (simp add: bt_get_def map_of_eq_Some_iff)

lemma bt_wf_filter: "bt_wf m \<Longrightarrow> bt_wf (filter P m)"
  by (induction m) (auto simp: bt_wf_def)

lemma bt_get_filter:
  "bt_wf m \<Longrightarrow> bt_get (filter P m) k = Some v \<longleftrightarrow> bt_get m k = Some v \<and> P (k, v)"
  using bt_wf_filter [of m P] by (auto simp flip: bt_entries_iff)

end
