(* ===== verification/Player_Api.thy ===== *)
theory Player_Api
  imports F64
begin

text \<open>
  The player vocabulary of \<open>sorotte-player-api/src/lib.rs\<close>: identities, causal orders, command
  and load results, transport deltas and snapshots, the normalized player events and the
  acknowledged event batches that carry them. Enum constructors keep their Rust names and are
  written with their type in front; record fields carry a short prefix for their struct.
\<close>

section \<open>Identities and orders\<close>

type_synonym PlayerMediaGeneration = u64
type_synonym PlayerCommandId = u64
type_synonym PlayerAttachmentEpoch = u64
type_synonym LoadAttemptId = u64
type_synonym i64 = int

definition epoch_next :: "PlayerAttachmentEpoch \<Rightarrow> PlayerAttachmentEpoch" where
  "epoch_next e = saturating_add e 1"

record PlayerEventOrder =
  eo_epoch :: PlayerAttachmentEpoch
  eo_sequence :: u64

record PlayerSequenceBoundary =
  sb_epoch :: PlayerAttachmentEpoch
  sb_through :: u64

record PlayerObservationTimestamp =
  ot_observed_at :: u64
  ot_delivery_reference :: u64

section \<open>Results\<close>

datatype PlayerCommandFailureKind = TimedOut | MediaEnded | TransportDisconnected | Unknown

datatype PlayerMediaLoadFailureKind =
  LoadAborted | FormatUnsupported | Network | HelperMissing | HelperBroken | Unknown

datatype PlayerPhysicalLoadOutcome =
  Ended | Stopped | Failed PlayerMediaLoadFailureKind | NeverStarted | TransportDisconnected

datatype PlayerLoadAttemptResult =
  Loaded | Superseded | Failed PlayerMediaLoadFailureKind | NeverStarted
  | TransportDisconnected | Indeterminate

datatype PlayerCommandSemanticResult =
  Completed | Superseded | Failed PlayerCommandFailureKind | CompletionNotObserved
  | TransportDisconnected

record LoadAttemptOutcome =
  lo_epoch :: PlayerAttachmentEpoch
  lo_attempt_id :: LoadAttemptId
  lo_media_generation :: PlayerMediaGeneration
  lo_command_id :: "PlayerCommandId option"
  lo_requested_target :: string
  lo_loaded_target :: "string option"
  lo_result :: PlayerLoadAttemptResult

record PlayerCommandOutcome =
  co_epoch :: PlayerAttachmentEpoch
  co_command_id :: PlayerCommandId
  co_media_generation :: "PlayerMediaGeneration option"
  co_result :: PlayerCommandSemanticResult

datatype PlayerSemanticOutcome =
  Command PlayerCommandOutcome | LoadAttempt LoadAttemptOutcome

record SequencedPlayerSemanticOutcome =
  so_order :: PlayerEventOrder
  so_outcome :: PlayerSemanticOutcome

section \<open>Transport observations\<close>

datatype PlayerTransportPhase =
  Empty | Loading | Prebuffering | ReadyPaused | Playing | Rebuffering | Seeking | Ended | Failed

datatype PlayerTimelineKind = Unknown | Vod | SlidingLive

record PlayerSeekableRange =
  sr_start_seconds :: f64
  sr_end_seconds :: f64

datatype 'a SnapshotField = Known 'a | KnownAbsent | Unavailable

record PlayerTransportDelta =
  td_load_attempt_id :: "LoadAttemptId option"
  td_media_generation :: "PlayerMediaGeneration option"
  td_observed_at :: "PlayerObservationTimestamp option"
  td_phase :: "PlayerTransportPhase option"
  td_position_seconds :: "f64 option"
  td_playback_rate :: "f64 option"
  td_logical_pause :: "bool option"
  td_paused_for_cache :: "bool option"
  td_cache_percentage :: "f64 option"
  td_seeking :: "bool option"
  td_seekable :: "bool option"
  td_timeline_kind :: "PlayerTimelineKind option"
  td_core_idle :: "bool option"
  td_demuxer_cache_idle :: "bool option"
  td_playback_restart_sequence :: "u64 option"
  td_eof_reached :: "bool option"
  td_seekable_ranges :: "PlayerSeekableRange list option"
  td_known_live_seekable_window :: "PlayerSeekableRange option"
  td_buffered_duration_seconds :: "f64 option"
  td_buffered_bytes :: "u64 option"
  td_input_rate_bytes_per_second :: "u64 option"
  td_error_kind :: "PlayerMediaLoadFailureKind option"

record PlayerTransportSnapshot =
  ts_load_attempt_id :: "LoadAttemptId SnapshotField"
  ts_media_generation :: "PlayerMediaGeneration SnapshotField"
  ts_observed_at :: "PlayerObservationTimestamp SnapshotField"
  ts_phase :: "PlayerTransportPhase SnapshotField"
  ts_position_seconds :: "f64 SnapshotField"
  ts_playback_rate :: "f64 SnapshotField"
  ts_logical_pause :: "bool SnapshotField"
  ts_paused_for_cache :: "bool SnapshotField"
  ts_cache_percentage :: "f64 SnapshotField"
  ts_seeking :: "bool SnapshotField"
  ts_seekable :: "bool SnapshotField"
  ts_timeline_kind :: "PlayerTimelineKind SnapshotField"
  ts_core_idle :: "bool SnapshotField"
  ts_demuxer_cache_idle :: "bool SnapshotField"
  ts_playback_restart_sequence :: "u64 SnapshotField"
  ts_eof_reached :: "bool SnapshotField"
  ts_seekable_ranges :: "PlayerSeekableRange list SnapshotField"
  ts_known_live_seekable_window :: "PlayerSeekableRange SnapshotField"
  ts_buffered_duration_seconds :: "f64 SnapshotField"
  ts_buffered_bytes :: "u64 SnapshotField"
  ts_input_rate_bytes_per_second :: "u64 SnapshotField"
  ts_error_kind :: "PlayerMediaLoadFailureKind SnapshotField"

text \<open>\<open>Default\<close>: every field is \<open>Unavailable\<close>.\<close>

definition default_transport_snapshot :: PlayerTransportSnapshot where
  "default_transport_snapshot =
     \<lparr>ts_load_attempt_id = Unavailable, ts_media_generation = Unavailable,
      ts_observed_at = Unavailable, ts_phase = Unavailable, ts_position_seconds = Unavailable,
      ts_playback_rate = Unavailable, ts_logical_pause = Unavailable,
      ts_paused_for_cache = Unavailable, ts_cache_percentage = Unavailable,
      ts_seeking = Unavailable, ts_seekable = Unavailable, ts_timeline_kind = Unavailable,
      ts_core_idle = Unavailable, ts_demuxer_cache_idle = Unavailable,
      ts_playback_restart_sequence = Unavailable, ts_eof_reached = Unavailable,
      ts_seekable_ranges = Unavailable, ts_known_live_seekable_window = Unavailable,
      ts_buffered_duration_seconds = Unavailable, ts_buffered_bytes = Unavailable,
      ts_input_rate_bytes_per_second = Unavailable, ts_error_kind = Unavailable\<rparr>"

text \<open>One use of the \<open>apply!\<close> macro: a present value overwrites the field, an omitted one keeps it.\<close>

definition apply_field :: "'a SnapshotField \<Rightarrow> 'a option \<Rightarrow> 'a SnapshotField" where
  "apply_field old v = (case v of Some x \<Rightarrow> Known x | None \<Rightarrow> old)"

definition apply_delta :: "PlayerTransportSnapshot \<Rightarrow> PlayerTransportDelta \<Rightarrow> PlayerTransportSnapshot" where
  "apply_delta s d =
     \<lparr>ts_load_attempt_id = apply_field (ts_load_attempt_id s) (td_load_attempt_id d),
      ts_media_generation = apply_field (ts_media_generation s) (td_media_generation d),
      ts_observed_at = apply_field (ts_observed_at s) (td_observed_at d),
      ts_phase = apply_field (ts_phase s) (td_phase d),
      ts_position_seconds = apply_field (ts_position_seconds s) (td_position_seconds d),
      ts_playback_rate = apply_field (ts_playback_rate s) (td_playback_rate d),
      ts_logical_pause = apply_field (ts_logical_pause s) (td_logical_pause d),
      ts_paused_for_cache = apply_field (ts_paused_for_cache s) (td_paused_for_cache d),
      ts_cache_percentage = apply_field (ts_cache_percentage s) (td_cache_percentage d),
      ts_seeking = apply_field (ts_seeking s) (td_seeking d),
      ts_seekable = apply_field (ts_seekable s) (td_seekable d),
      ts_timeline_kind = apply_field (ts_timeline_kind s) (td_timeline_kind d),
      ts_core_idle = apply_field (ts_core_idle s) (td_core_idle d),
      ts_demuxer_cache_idle = apply_field (ts_demuxer_cache_idle s) (td_demuxer_cache_idle d),
      ts_playback_restart_sequence =
        apply_field (ts_playback_restart_sequence s) (td_playback_restart_sequence d),
      ts_eof_reached = apply_field (ts_eof_reached s) (td_eof_reached d),
      ts_seekable_ranges = apply_field (ts_seekable_ranges s) (td_seekable_ranges d),
      ts_known_live_seekable_window =
        apply_field (ts_known_live_seekable_window s) (td_known_live_seekable_window d),
      ts_buffered_duration_seconds =
        apply_field (ts_buffered_duration_seconds s) (td_buffered_duration_seconds d),
      ts_buffered_bytes = apply_field (ts_buffered_bytes s) (td_buffered_bytes d),
      ts_input_rate_bytes_per_second =
        apply_field (ts_input_rate_bytes_per_second s) (td_input_rate_bytes_per_second d),
      ts_error_kind = apply_field (ts_error_kind s) (td_error_kind d)\<rparr>"

definition rebase :: "PlayerTransportSnapshot \<Rightarrow> PlayerTransportSnapshot \<Rightarrow> PlayerTransportSnapshot" where
  "rebase s authoritative = authoritative"

record PlayerActiveLoadSnapshot =
  al_attempt_id :: LoadAttemptId
  al_media_generation :: PlayerMediaGeneration
  al_command_id :: "PlayerCommandId option"
  al_playlist_entry_id :: "i64 option"
  al_physical_file_loaded :: bool
  al_semantic_load_result :: "PlayerLoadAttemptResult option"
  al_logical_ownership_revoked :: bool

record PlayerAuthoritativeSnapshot =
  as_epoch :: PlayerAttachmentEpoch
  as_boundary :: PlayerSequenceBoundary
  as_transport :: PlayerTransportSnapshot
  as_active_load :: "PlayerActiveLoadSnapshot SnapshotField"
  as_current_playlist_entry_id :: "i64 SnapshotField"
  as_current_path :: "string SnapshotField"

section \<open>Events and batches\<close>

record LocalFileUpdate =
  lf_name :: string
  lf_duration_seconds :: "f64 option"
  lf_size_bytes :: "u64 option"
  lf_path :: "string option"

text \<open>The fields of the struct-like variants are constructor arguments, in the source's order.\<close>

datatype PlayerEvent =
    AttachmentReplaced PlayerAttachmentEpoch
  | LocalFileChanged LoadAttemptId PlayerMediaGeneration LocalFileUpdate
  | TransportDelta PlayerTransportDelta
  | LoadAttemptBound LoadAttemptId PlayerMediaGeneration "PlayerCommandId option" i64
  | LoadAttemptStarting LoadAttemptId PlayerMediaGeneration "PlayerCommandId option" i64 bool
  | LoadAttemptActive LoadAttemptId PlayerMediaGeneration "PlayerCommandId option" i64
  | LoadAttemptLogicalOwnershipRevoked LoadAttemptId PlayerMediaGeneration LoadAttemptId
  | LoadAttemptTerminal LoadAttemptId PlayerMediaGeneration PlayerPhysicalLoadOutcome
  | LogicalPlaybackTerminal PlayerMediaGeneration LoadAttemptId PlayerPhysicalLoadOutcome
  | EventGapDetected

record SequencedPlayerEvent =
  se_order :: PlayerEventOrder
  se_event :: PlayerEvent

record PlayerEventAcknowledgementToken =
  at_epoch :: PlayerAttachmentEpoch
  at_value :: u64

record PlayerEventBatch =
  eb_epoch :: PlayerAttachmentEpoch
  eb_boundary :: PlayerSequenceBoundary
  eb_snapshot :: "PlayerAuthoritativeSnapshot option"
  eb_events :: "SequencedPlayerEvent list"
  eb_semantic_outcomes :: "SequencedPlayerSemanticOutcome list"
  eb_token :: PlayerEventAcknowledgementToken

end
