(* ===== verification/F64_Order.thy ===== *)
theory F64_Order
  imports F64 "HOL-Library.Product_Lexorder"
begin

text \<open>
  The rest of the \<open>f64\<close> interface: \<open>min\<close>, products and quotients, \<open>clamp\<close>, which panics on an
  empty or NaN interval, and the total order of \<open>total_cmp\<close>. Rounding is shown to be monotone,
  so that adding one value to both ends of an interval keeps the ends in order. Zero has no sign
  here: \<open>total_cmp\<close> takes the two zeros as equal and a quotient by zero takes it as positive.
\<close>

section \<open>Operations\<close>

definition f64_min :: "f64 \<Rightarrow> f64 \<Rightarrow> f64" where
  "f64_min x y = (if x = NaN then y else if y = NaN \<or> f64_le x y then x else y)"

definition f64_infinity :: "bool \<Rightarrow> f64" where
  "f64_infinity negative = (if negative then NInf else PInf)"

fun f64_mul :: "f64 \<Rightarrow> f64 \<Rightarrow> f64" where
  "f64_mul (Fin a) (Fin b) = round_f64 (a * b)"
| "f64_mul NaN _ = NaN"
| "f64_mul _ NaN = NaN"
| "f64_mul (Fin a) y = (if a = 0 then NaN else f64_infinity ((a < 0) \<noteq> (y = NInf)))"
| "f64_mul x (Fin b) = (if b = 0 then NaN else f64_infinity ((b < 0) \<noteq> (x = NInf)))"
| "f64_mul x y = f64_infinity (x \<noteq> y)"

fun f64_div :: "f64 \<Rightarrow> f64 \<Rightarrow> f64" where
  "f64_div (Fin a) (Fin b) =
     (if b = 0 then if a = 0 then NaN else f64_infinity (a < 0) else round_f64 (a / b))"
| "f64_div NaN _ = NaN"
| "f64_div _ NaN = NaN"
| "f64_div (Fin a) _ = Fin 0"
| "f64_div x (Fin b) = f64_infinity ((b < 0) \<noteq> (x = NInf))"
| "f64_div _ _ = NaN"

text \<open>\<open>f64::clamp\<close>; \<open>None\<close> is the panic of its assertion \<open>min <= max\<close>.\<close>

definition f64_clamp :: "f64 \<Rightarrow> f64 \<Rightarrow> f64 \<Rightarrow> f64 option" where
  "f64_clamp x lo hi =
     (if f64_le lo hi
      then Some (let x = (if f64_lt x lo then lo else x) in if f64_lt hi x then hi else x)
      else None)"

text \<open>\<open>(lo..=hi).contains(&x)\<close>.\<close>

definition f64_within :: "f64 \<Rightarrow> f64 \<Rightarrow> f64 \<Rightarrow> bool" where
  "f64_within lo hi x \<longleftrightarrow> f64_le lo x \<and> f64_le x hi"

section \<open>The total order\<close>

instantiation f64 :: linorder
begin

definition less_eq_f64 :: "f64 \<Rightarrow> f64 \<Rightarrow> bool" where
  "less_eq_f64 x y \<longleftrightarrow> y = NaN \<or> f64_le x y"

definition less_f64 :: "f64 \<Rightarrow> f64 \<Rightarrow> bool" where
  "less_f64 x y \<longleftrightarrow> x \<noteq> NaN \<and> (y = NaN \<or> f64_lt x y)"

instance
proof
  fix x y z :: f64
  show "x < y \<longleftrightarrow> x \<le> y \<and> \<not> y \<le> x"
    by (cases x; cases y) (auto simp: less_eq_f64_def less_f64_def)
  show "x \<le> x"
    by (cases x) (auto simp: less_eq_f64_def)
  show "x \<le> y \<Longrightarrow> y \<le> z \<Longrightarrow> x \<le> z"
    by (cases x; cases y; cases z) (auto simp: less_eq_f64_def)
  show "x \<le> y \<Longrightarrow> y \<le> x \<Longrightarrow> x = y"
    by (cases x; cases y) (auto simp: less_eq_f64_def)
  show "x \<le> y \<or> y \<le> x"
    by (cases x; cases y) (auto simp: less_eq_f64_def)
qed

end

lemma f64_le_iff: "f64_le x y \<longleftrightarrow> y \<noteq> NaN \<and> x \<le> y"
  by (cases x; cases y) (auto simp: less_eq_f64_def)

lemma f64_lt_iff: "f64_lt x y \<longleftrightarrow> y \<noteq> NaN \<and> x < y"
  by (cases x; cases y) (auto simp: less_f64_def)

lemma f64_le_NaN [simp]: "\<not> f64_le x NaN" "\<not> f64_le NaN x"
  by (cases x; simp)+

lemma f64_le_total: "x \<noteq> NaN \<Longrightarrow> y \<noteq> NaN \<Longrightarrow> f64_le x y \<or> f64_le y x"
  by (cases x; cases y) auto

lemma NaN_greatest [simp]: "x \<le> NaN"
  by (simp add: less_eq_f64_def)

lemma NaN_le_iff [simp]: "NaN \<le> x \<longleftrightarrow> x = NaN"
  by (cases x) (auto simp: less_eq_f64_def)

lemma f64_max_eq: "x \<noteq> NaN \<Longrightarrow> y \<noteq> NaN \<Longrightarrow> f64_max x y = max x y"
  by (auto simp: f64_max_def max_def f64_le_iff)

lemma f64_max_not_NaN: "f64_max x y = NaN \<longleftrightarrow> x = NaN \<and> y = NaN"
  by (auto simp: f64_max_def)

lemma f64_min_le: "x \<noteq> NaN \<Longrightarrow> f64_le (f64_min x y) x" "y \<noteq> NaN \<Longrightarrow> f64_le (f64_min x y) y"
  by (cases x; cases y; auto simp: f64_min_def)+

lemma f64_clamp_panics_iff: "f64_clamp x lo hi = None \<longleftrightarrow> \<not> f64_le lo hi"
  by (simp add: f64_clamp_def)

lemma f64_clamp_within: "f64_clamp x lo hi = Some y \<Longrightarrow> x \<noteq> NaN \<Longrightarrow> f64_within lo hi y"
  by (cases x; cases lo; cases hi) (auto simp: f64_clamp_def f64_within_def Let_def split: if_splits)

section \<open>Rounding is monotone\<close>

lemma quotient_of_pos: "0 < a \<Longrightarrow> quotient_of a = (n, d) \<Longrightarrow> 0 < n \<and> 0 < d \<and> a = of_int n / of_int d"
  using quotient_of_div [of a n d] quotient_of_denom_pos [of a n d]
  by (auto simp: zero_less_divide_iff)

lemma pow2_nonneg [simp]: "0 \<le> pow2 e"
  using pow2_pos [of e] by linarith

lemma pow2_nat: "pow2 (int n) = 2 ^ n"
  by (simp add: pow2_def)

lemma pow2_diff: "pow2 (a - b) = pow2 a / pow2 b"
  by (simp add: pow2_powi power_int_diff)

lemma pow2_Suc: "pow2 (e + 1) = 2 * pow2 e"
  by (simp add: pow2_add) (simp add: pow2_def)

lemma pow2_split: "pow2 e = 2 ^ n * pow2 (e - int n)"
  using pow2_add [of "int n" "e - int n"] by (simp add: pow2_nat)

lemma bit_length_rat:
  "0 < n \<Longrightarrow> pow2 (int (bit_length (nat n)) - 1) \<le> of_int n \<and> (of_int n :: rat) < pow2 (int (bit_length (nat n)))"
proof -
  assume n: "0 < n"
  let ?l = "bit_length (nat n)"
  have b: "2 ^ (?l - 1) \<le> nat n" "nat n < 2 ^ ?l" "0 < ?l"
    using bit_length_bounds [of "nat n"] n by auto
  have "pow2 (int ?l - 1) = 2 ^ (?l - 1)"
    using b(3) pow2_nat [of "?l - 1"] by (simp add: of_nat_diff)
  moreover have "(2::rat) ^ (?l - 1) \<le> of_nat (nat n)" "of_nat (nat n) < (2::rat) ^ ?l"
    using of_nat_mono [OF b(1), where 'a = rat] of_nat_less_iff [where 'a = rat, THEN iffD2, OF b(2)]
    by simp_all
  moreover have "(of_nat (nat n) :: rat) = of_int n" using n by simp
  ultimately show ?thesis by (simp only: pow2_nat)
qed

lemma binary_exponent_bounds:
  assumes "0 < a"
  shows "pow2 (binary_exponent a) \<le> a \<and> a < pow2 (binary_exponent a + 1)"
proof -
  obtain n d where q: "quotient_of a = (n, d)" by fastforce
  let ?k = "int (bit_length (nat n)) - int (bit_length (nat d))"
  from quotient_of_pos [OF assms q] have nd: "0 < n" "0 < d" "a = of_int n / of_int d" by auto
  let ?n = "of_int n :: rat" and ?d = "of_int d :: rat"
  let ?N = "pow2 (int (bit_length (nat n)))" and ?D = "pow2 (int (bit_length (nat d)))"
  have bn: "?N / 2 \<le> ?n" "?n < ?N" and bd: "?D / 2 \<le> ?d" "?d < ?D"
    using bit_length_rat [OF nd(1)] bit_length_rat [OF nd(2)]
    by (simp_all add: pow2_diff pow2_def [of 1])
  have d0: "0 < ?d" using nd by simp
  have upper: "a < pow2 (?k + 1)"
  proof -
    have "a < ?N / ?d" using bn(2) d0 nd(3) by (simp add: divide_strict_right_mono)
    also have "\<dots> \<le> ?N / (?D / 2)" using bd(1) d0 by (intro divide_left_mono) auto
    also have "\<dots> = pow2 (?k + 1)" by (simp add: pow2_Suc pow2_diff)
    finally show ?thesis .
  qed
  have lower: "pow2 (?k - 1) \<le> a"
  proof -
    have "pow2 (?k - 1) = (?N / 2) / ?D" by (simp add: pow2_diff pow2_def [of 1])
    also have "\<dots> \<le> ?n / ?D" using bn(1) by (intro divide_right_mono) (auto simp: less_imp_le)
    also have "\<dots> \<le> ?n / ?d" using bd(2) d0 nd(1) by (intro divide_left_mono) auto
    finally show ?thesis using nd(3) by simp
  qed
  show ?thesis
    using upper lower by (auto simp: binary_exponent_def q Let_def)
qed

lemma binary_exponent_mono: "0 < a \<Longrightarrow> a \<le> b \<Longrightarrow> binary_exponent a \<le> binary_exponent b"
proof -
  assume "0 < a" "a \<le> b"
  then have "pow2 (binary_exponent a) < pow2 (binary_exponent b + 1)"
    using binary_exponent_bounds [of a] binary_exponent_bounds [of b] by fastforce
  then show ?thesis by (simp add: pow2_less_iff)
qed

lemma round_half_even_bounds: "\<lfloor>x\<rfloor> \<le> round_half_even x \<and> round_half_even x \<le> \<lceil>x\<rceil>"
proof -
  have "\<not> \<lceil>x\<rceil> \<le> \<lfloor>x\<rfloor> \<Longrightarrow> \<lceil>x\<rceil> = \<lfloor>x\<rfloor> + 1" "\<lfloor>x\<rfloor> \<le> \<lceil>x\<rceil>"
    by linarith+
  moreover have "\<lceil>x\<rceil> \<le> \<lfloor>x\<rfloor> \<Longrightarrow> x = of_int \<lfloor>x\<rfloor>" by linarith
  ultimately show ?thesis
    by (cases "\<lceil>x\<rceil> \<le> \<lfloor>x\<rfloor>") (auto simp: round_half_even_def Let_def)
qed

lemma round_half_even_mono: "x \<le> y \<Longrightarrow> round_half_even x \<le> round_half_even y"
proof (cases "\<lfloor>x\<rfloor> = \<lfloor>y\<rfloor>")
  case True
  assume "x \<le> y"
  then have "x - of_int \<lfloor>x\<rfloor> \<le> y - of_int \<lfloor>y\<rfloor>" using True by simp
  then show ?thesis using True by (auto simp: round_half_even_def Let_def)
next
  case False
  assume le: "x \<le> y"
  then have "\<lfloor>x\<rfloor> + 1 \<le> \<lfloor>y\<rfloor>" using False floor_mono [OF le] by linarith
  then have "\<lceil>x\<rceil> \<le> \<lfloor>y\<rfloor>" by linarith
  then show ?thesis using round_half_even_bounds [of x] round_half_even_bounds [of y] by linarith
qed

text \<open>The magnitude that \<open>round_f64\<close> computes for a positive argument.\<close>

definition rounded :: "rat \<Rightarrow> rat" where
  "rounded a =
     (let u = pow2 (max (binary_exponent a) (- 1022) - 52) in of_int (round_half_even (a / u)) * u)"

lemma round_f64_eq:
  "round_f64 r =
     (if r = 0 then Fin 0
      else if pow2 1024 \<le> rounded \<bar>r\<bar> then (if 0 < r then PInf else NInf)
      else Fin (if 0 < r then rounded \<bar>r\<bar> else - rounded \<bar>r\<bar>))"
  by (simp add: round_f64_def rounded_def Let_def)

lemma round_half_even_int: "round_half_even (of_int k) = k"
  by (simp add: round_half_even_def)

lemma rounded_nonneg: "0 < a \<Longrightarrow> 0 \<le> rounded a"
proof -
  let ?x = "a / pow2 (max (binary_exponent a) (- 1022) - 52)"
  assume "0 < a"
  then have "0 \<le> \<lfloor>?x\<rfloor>" by (simp add: less_imp_le)
  from order_trans [OF this conjunct1 [OF round_half_even_bounds]] show ?thesis
    unfolding rounded_def Let_def by (intro mult_nonneg_nonneg) simp_all
qed

lemma rounded_scaled:
  assumes "x \<le> of_int k" shows "of_int (round_half_even x) \<le> (of_int k :: rat)"
  using round_half_even_mono [OF assms] by (simp add: round_half_even_int)

lemma rounded_mono:
  assumes "0 < a" "a \<le> b"
  shows "rounded a \<le> rounded b"
proof -
  let ?e = "\<lambda>x. max (binary_exponent x) (- 1022)"
  have e: "?e a \<le> ?e b" using binary_exponent_mono [OF assms] by simp
  show ?thesis
  proof (cases "?e a = ?e b")
    case True
    let ?u = "pow2 (?e b - 52)"
    have "round_half_even (a / ?u) \<le> round_half_even (b / ?u)"
      using assms(2) by (intro round_half_even_mono divide_right_mono) (auto simp: less_imp_le)
    then show ?thesis
      using True by (simp add: rounded_def Let_def mult_right_mono less_imp_le)
  next
    case False
    with e have less: "?e a + 1 \<le> ?e b" and eb: "?e b = binary_exponent b" by auto
    let ?u = "pow2 (?e a - 52)" and ?v = "pow2 (?e b - 52)"
    have top: "pow2 (?e a + 1) = 2 ^ 53 * ?u" and bot: "pow2 (?e b) = 2 ^ 52 * ?v"
      using pow2_split [of "?e a + 1" 53] pow2_split [of "?e b" 52] by simp_all
    have "a < pow2 (binary_exponent a + 1)" using binary_exponent_bounds assms(1) by blast
    also have "\<dots> \<le> pow2 (?e a + 1)" by (intro pow2_mono) simp
    finally have "a / ?u \<le> of_int (2 ^ 53)" using top by (simp add: divide_le_eq less_imp_le)
    then have "rounded a \<le> pow2 (?e a + 1)"
      unfolding rounded_def Let_def top using rounded_scaled [of "a / ?u" "2 ^ 53"]
      by (intro mult_right_mono) (auto simp: less_imp_le)
    also have "\<dots> \<le> pow2 (?e b)" using less by (rule pow2_mono)
    also have "\<dots> \<le> rounded b"
    proof -
      have "pow2 (?e b) \<le> b" using binary_exponent_bounds [of b] assms eb by simp
      then have "of_int (2 ^ 52) \<le> b / ?v" using bot by (simp add: le_divide_eq)
      then have "2 ^ 52 \<le> round_half_even (b / ?v)"
        using round_half_even_mono round_half_even_int by metis
      then have "(of_int (2 ^ 52) :: rat) \<le> of_int (round_half_even (b / ?v))"
        by (simp only: of_int_le_iff)
      then have "(2 ^ 52 :: rat) \<le> of_int (round_half_even (b / ?v))" by simp
      then show ?thesis
        unfolding rounded_def Let_def bot by (intro mult_right_mono) (auto simp: less_imp_le)
    qed
    finally show ?thesis .
  qed
qed

theorem round_f64_mono: "a \<le> b \<Longrightarrow> f64_le (round_f64 a) (round_f64 b)"
proof -
  assume le: "a \<le> b"
  consider "0 < a" | "b < 0" | "a \<le> 0 \<and> 0 \<le> b" by linarith
  then show ?thesis
  proof cases
    case 1
    with rounded_mono [OF 1 le] le show ?thesis by (auto simp: round_f64_eq)
  next
    case 2
    with rounded_mono [of "- b" "- a"] le show ?thesis by (auto simp: round_f64_eq)
  next
    case 3
    with rounded_nonneg [of "- a"] rounded_nonneg [of b] show ?thesis
      by (auto simp: round_f64_eq)
  qed
qed

lemma f64_le_infinite: "f64_le NInf x \<longleftrightarrow> x \<noteq> NaN" "f64_le x PInf \<longleftrightarrow> x \<noteq> NaN"
  by (cases x; simp)+

lemma f64_add_mono:
  "f64_le x y \<Longrightarrow> f64_is_finite d \<Longrightarrow> f64_le (f64_add x d) (f64_add y d)"
  by (cases x; cases y; cases d) (auto simp: round_f64_mono f64_le_infinite)

section \<open>Exact values\<close>

text \<open>A value with at most 53 binary digits above \<open>2^-1074\<close> is not rounded.\<close>

lemma rounded_exact:
  assumes "0 < k" "k < 2 ^ 53" "n \<le> 1074"
  shows "rounded (of_int k / 2 ^ n) = of_int k / 2 ^ n"
proof -
  define a :: rat where "a = of_int k / 2 ^ n"
  define e where "e = max (binary_exponent a) (- 1022)"
  have a: "0 < a" using assms(1) by (simp add: a_def)
  have "pow2 (binary_exponent a) \<le> a" using binary_exponent_bounds [OF a] by simp
  also have "a < pow2 (53 - int n)"
  proof -
    have "of_int k < (of_int (2 ^ 53) :: rat)" using assms(2) by (simp only: of_int_less_iff)
    moreover have "pow2 (53 - int n) = 2 ^ 53 / 2 ^ n" using pow2_nat [of 53] pow2_nat [of n] by (simp add: pow2_diff)
    ultimately show ?thesis unfolding a_def by (simp add: divide_strict_right_mono)
  qed
  finally have "e \<le> 52 - int n" using assms(3) by (simp add: e_def pow2_less_iff)
  then obtain m where m: "52 - int n - e = int m" by (metis zle_iff_zadd add_diff_cancel_left')
  have "a / pow2 (e - 52) = of_int (k * 2 ^ m)"
  proof -
    have "int n + (e - 52) = - int m" using m by simp
    then have "2 ^ n * pow2 (e - 52) * 2 ^ m = (1::rat)"
      using pow2_add [of "int n" "e - 52"] pow2_add [of "- int m" "int m"] by (simp add: pow2_nat pow2_def [of 0])
    then show ?thesis unfolding a_def by (simp add: field_simps)
  qed
  then have "round_half_even (a / pow2 (e - 52)) = k * 2 ^ m" "a = of_int (k * 2 ^ m) * pow2 (e - 52)"
    using round_half_even_int [of "k * 2 ^ m"] pow2_pos [of "e - 52"] by (simp_all add: field_simps)
  then show ?thesis unfolding rounded_def Let_def a_def [symmetric] e_def [symmetric] by simp
qed

lemma round_f64_exact:
  assumes "0 < k" "k < 2 ^ 53" "n \<le> 1074"
  shows "round_f64 (of_int k / 2 ^ n) = Fin (of_int k / 2 ^ n)"
    and "round_f64 (- (of_int k / 2 ^ n)) = Fin (- (of_int k / 2 ^ n))"
proof -
  have "of_int k < (of_int (2 ^ 53) :: rat)" using assms(2) by (simp only: of_int_less_iff)
  moreover have "of_int k / 2 ^ n \<le> (of_int k :: rat)" using assms(1) by (simp add: divide_le_eq)
  moreover have "of_int (2 ^ 53) \<le> pow2 1024" using pow2_mono [of 53 1024] pow2_nat [of 53] by simp
  ultimately have "\<not> pow2 1024 \<le> of_int k / 2 ^ n" by linarith
  then show "round_f64 (of_int k / 2 ^ n) = Fin (of_int k / 2 ^ n)"
      "round_f64 (- (of_int k / 2 ^ n)) = Fin (- (of_int k / 2 ^ n))"
    using assms(1) by (simp_all add: round_f64_eq rounded_exact [OF assms] zero_less_divide_iff divide_less_0_iff)
qed

text \<open>Small integers and sixteenths are represented exactly.\<close>

lemma round_f64_small:
  "round_f64 0 = Fin 0" "round_f64 1 = Fin 1" "round_f64 (- 1) = Fin (- 1)"
  "(numeral k :: int) < 2 ^ 53 \<Longrightarrow> round_f64 (numeral k) = Fin (numeral k)"
  "(numeral k :: int) < 2 ^ 53 \<Longrightarrow> round_f64 (- numeral k) = Fin (- numeral k)"
  "round_f64 (1 / 16) = Fin (1 / 16)"
  using round_f64_exact [of 1 0] round_f64_exact [of "numeral k" 0] round_f64_exact [of 1 4]
  by (simp_all add: round_f64_def)

end
