(* ===== verification/Playback_Types.thy ===== *)
theory Playback_Types
  imports Player_Api F64_Order "HOL-Library.Monad_Syntax"
begin

text \<open>
  The data of the client's playback coordinator (\<open>sorotte-client-core/src/playback_coordinator.rs\<close>):
  its configuration, what the room asks for, what the player reports, the commands in flight, the
  recovery episode, the preparation of a seek into data that is not buffered, and the coordinator
  itself. Constructors are written with their type in front; record fields carry a short prefix.
\<close>

type_synonym u32 = nat

definition u32_max :: nat where
  "u32_max = 2 ^ 32 - 1"

definition saturating_add_u32 :: "u32 \<Rightarrow> u32 \<Rightarrow> u32" where
  "saturating_add_u32 a b = min (a + b) u32_max"

section \<open>Constants\<close>

definition MIN_ADVANCEMENT_SECONDS :: f64 where
  "MIN_ADVANCEMENT_SECONDS = round_f64 (1 / 100)"

definition NORMAL_PLAYBACK_RATE :: f64 where
  "NORMAL_PLAYBACK_RATE = Fin 1"

definition CONSERVATIVE_CATCHUP_RATE_WITHOUT_HEADROOM :: f64 where
  "CONSERVATIVE_CATCHUP_RATE_WITHOUT_HEADROOM = round_f64 (103 / 100)"

definition HEALTHY_CATCHUP_BUFFER_SECONDS :: f64 where
  "HEALTHY_CATCHUP_BUFFER_SECONDS = Fin 2"

definition MAXIMUM_CATCHUP_EPISODE_SECONDS :: f64 where
  "MAXIMUM_CATCHUP_EPISODE_SECONDS = Fin 300"

definition SEEK_PREPARATION_TIMEOUT_SECONDS :: f64 where
  "SEEK_PREPARATION_TIMEOUT_SECONDS = Fin 60"

definition SEEK_PREPARATION_MAX_STABILIZATION_SECONDS :: f64 where
  "SEEK_PREPARATION_MAX_STABILIZATION_SECONDS = Fin 1"

definition NEAREST_BUFFERED_TARGET_LIMIT_SECONDS :: f64 where
  "NEAREST_BUFFERED_TARGET_LIMIT_SECONDS = Fin 15"

text \<open>The tolerance \<open>0.001\<close> with which playback rates are compared.\<close>

definition rate_tolerance :: f64 where
  "rate_tolerance = round_f64 (1 / 1000)"

section \<open>Media\<close>

datatype MediaTransportKind = LocalFile | NetworkVod | LiveSliding | NonSeekable

definition default_seekable :: "MediaTransportKind \<Rightarrow> bool" where
  "default_seekable kind \<longleftrightarrow>
     kind \<in> {MediaTransportKind.LocalFile, MediaTransportKind.NetworkVod, MediaTransportKind.LiveSliding}"

definition allows_rate_correction :: "MediaTransportKind \<Rightarrow> bool" where
  "allows_rate_correction kind \<longleftrightarrow> kind \<noteq> MediaTransportKind.NonSeekable"

text \<open>An identity is the trimmed text it was made from; the error case of its constructor is the caller's.\<close>

type_synonym LogicalMediaId = string

datatype MediaLoadIntent = NewPlayback | Replay | TransportRefresh

record MediaLoadPlan =
  lp_media_generation :: u64
  lp_load_attempt :: u64
  lp_logical_media_changed :: bool
  lp_playback_episode_changed :: bool
  lp_load_intent :: MediaLoadIntent

section \<open>Configuration\<close>

datatype RecoveryPolicy = PreserveContent | Balanced | StayClosest | PauseRoom

record PlaybackCoordinatorConfig =
  cf_recovery_policy :: RecoveryPolicy
  cf_negligible_lag_seconds :: f64
  cf_hard_seek_threshold_seconds :: f64
  cf_maximum_catchup_rate :: f64
  cf_maximum_hard_seeks_per_episode :: u32
  cf_stability_interval_seconds :: f64
  cf_position_tolerance_seconds :: f64
  cf_command_timeout_seconds :: f64
  cf_command_retry_budget :: u32
  cf_command_retry_cooldown_seconds :: f64
  cf_seek_preparation_timeout_seconds :: f64
  cf_seek_preparation_minimum_headroom_seconds :: f64
  cf_nearest_buffered_target_limit_seconds :: f64

definition default_playback_config :: PlaybackCoordinatorConfig where
  "default_playback_config =
     \<lparr>cf_recovery_policy = RecoveryPolicy.Balanced, cf_negligible_lag_seconds = Fin 1,
      cf_hard_seek_threshold_seconds = Fin 8, cf_maximum_catchup_rate = round_f64 (105 / 100),
      cf_maximum_hard_seeks_per_episode = 1, cf_stability_interval_seconds = Fin 4,
      cf_position_tolerance_seconds = round_f64 (35 / 100), cf_command_timeout_seconds = Fin 10,
      cf_command_retry_budget = 1, cf_command_retry_cooldown_seconds = Fin 2,
      cf_seek_preparation_timeout_seconds = SEEK_PREPARATION_TIMEOUT_SECONDS,
      cf_seek_preparation_minimum_headroom_seconds = HEALTHY_CATCHUP_BUFFER_SECONDS,
      cf_nearest_buffered_target_limit_seconds = NEAREST_BUFFERED_TARGET_LIMIT_SECONDS\<rparr>"

text \<open>A configured value is replaced by its default when it is not finite or out of range.\<close>

definition finite_or :: "(f64 \<Rightarrow> bool) \<Rightarrow> f64 \<Rightarrow> f64 \<Rightarrow> f64" where
  "finite_or rejected default_value x = (if \<not> f64_is_finite x \<or> rejected x then default_value else x)"

definition negative :: "f64 \<Rightarrow> bool" where
  "negative x = f64_lt x (Fin 0)"

definition not_positive :: "f64 \<Rightarrow> bool" where
  "not_positive x = f64_le x (Fin 0)"

definition replace_rejected :: "PlaybackCoordinatorConfig \<Rightarrow> PlaybackCoordinatorConfig" where
  "replace_rejected self =
     (let defaults = default_playback_config;
          self = self\<lparr>cf_negligible_lag_seconds :=
            finite_or negative (cf_negligible_lag_seconds defaults) (cf_negligible_lag_seconds self)\<rparr>;
          self = self\<lparr>cf_hard_seek_threshold_seconds :=
            finite_or (\<lambda>x. f64_le x (cf_negligible_lag_seconds self))
              (cf_hard_seek_threshold_seconds defaults) (cf_hard_seek_threshold_seconds self)\<rparr>;
          self = self\<lparr>cf_maximum_catchup_rate :=
            finite_or (\<lambda>x. \<not> f64_within NORMAL_PLAYBACK_RATE (Fin (5 / 4)) x)
              (cf_maximum_catchup_rate defaults) (cf_maximum_catchup_rate self)\<rparr>;
          self = self\<lparr>cf_stability_interval_seconds :=
            finite_or not_positive (cf_stability_interval_seconds defaults) (cf_stability_interval_seconds self)\<rparr>;
          self = self\<lparr>cf_position_tolerance_seconds :=
            finite_or negative (cf_position_tolerance_seconds defaults) (cf_position_tolerance_seconds self)\<rparr>;
          self = self\<lparr>cf_command_timeout_seconds :=
            finite_or not_positive (cf_command_timeout_seconds defaults) (cf_command_timeout_seconds self)\<rparr>;
          self = self\<lparr>cf_command_retry_cooldown_seconds :=
            finite_or negative (cf_command_retry_cooldown_seconds defaults) (cf_command_retry_cooldown_seconds self)\<rparr>;
          self = self\<lparr>cf_seek_preparation_timeout_seconds :=
            finite_or not_positive (cf_seek_preparation_timeout_seconds defaults)
              (cf_seek_preparation_timeout_seconds self)\<rparr>
      in self)"

definition normalized :: "PlaybackCoordinatorConfig \<Rightarrow> PlaybackCoordinatorConfig option" where
  "normalized self =
     (let defaults = default_playback_config;
          self = replace_rejected self;
          minimum_seek_preparation_timeout =
            f64_min (cf_command_timeout_seconds self) MAXIMUM_CATCHUP_EPISODE_SECONDS
      in do {
        timeout \<leftarrow> f64_clamp (cf_seek_preparation_timeout_seconds self)
          minimum_seek_preparation_timeout MAXIMUM_CATCHUP_EPISODE_SECONDS;
        headroom \<leftarrow> f64_clamp
          (finite_or negative (cf_seek_preparation_minimum_headroom_seconds defaults)
             (cf_seek_preparation_minimum_headroom_seconds self)) (Fin 0) (Fin 60);
        limit \<leftarrow> f64_clamp
          (finite_or not_positive (cf_nearest_buffered_target_limit_seconds defaults)
             (cf_nearest_buffered_target_limit_seconds self)) (Fin 1) (Fin 60);
        Some (self\<lparr>cf_seek_preparation_timeout_seconds := timeout,
          cf_seek_preparation_minimum_headroom_seconds := headroom,
          cf_nearest_buffered_target_limit_seconds := limit\<rparr>)
      })"

section \<open>What the room asks for\<close>

record DesiredRoomPlayback =
  dp_media_generation :: u64
  dp_state_revision :: u64
  dp_paused :: bool
  dp_anchor_position_seconds :: f64
  dp_anchor_observed_at_seconds :: f64
  dp_force_seek :: bool

datatype DesiredRoomPlaybackUpdateKind =
  Ordinary | ExplicitSeek | ExplicitSeekAlreadyDispatched | AuthoritativeSeekAfterSupersededDispatch

definition position_at :: "DesiredRoomPlayback \<Rightarrow> f64 \<Rightarrow> f64" where
  "position_at self now_seconds =
     (let elapsed = (if dp_paused self then Fin 0
                     else f64_max (f64_sub now_seconds (dp_anchor_observed_at_seconds self)) (Fin 0))
      in f64_max (f64_add (dp_anchor_position_seconds self) elapsed) (Fin 0))"

section \<open>What the player reports\<close>

record PlayerTransportObservation =
  tp_media_generation :: u64
  tp_observed_at_seconds :: f64
  tp_phase :: "PlayerTransportPhase option"
  tp_position_seconds :: "f64 option"
  tp_playback_rate :: "f64 option"
  tp_logical_pause :: "bool option"
  tp_paused_for_cache :: "bool option"
  tp_seeking :: "bool option"
  tp_seekable :: "bool option"
  tp_timeline_kind :: "PlayerTimelineKind option"
  tp_seekable_ranges :: "PlayerSeekableRange list option"
  tp_known_live_seekable_window :: "PlayerSeekableRange option"
  tp_core_idle :: "bool option"
  tp_playback_restart_sequence :: "u64 option"
  tp_cache_buffering_percent :: "f64 option"
  tp_buffered_ahead_seconds :: "f64 option"
  tp_input_rate_bytes_per_second :: "u64 option"

definition new_transport_observation :: "u64 \<Rightarrow> f64 \<Rightarrow> PlayerTransportObservation" where
  "new_transport_observation media_generation observed_at_seconds =
     \<lparr>tp_media_generation = media_generation, tp_observed_at_seconds = observed_at_seconds,
      tp_phase = None, tp_position_seconds = None, tp_playback_rate = None, tp_logical_pause = None,
      tp_paused_for_cache = None, tp_seeking = None, tp_seekable = None, tp_timeline_kind = None,
      tp_seekable_ranges = None, tp_known_live_seekable_window = None, tp_core_idle = None,
      tp_playback_restart_sequence = None, tp_cache_buffering_percent = None,
      tp_buffered_ahead_seconds = None, tp_input_rate_bytes_per_second = None\<rparr>"

record ObservedPositionSample =
  ps_observation_sequence :: u64
  ps_observed_at_seconds :: f64
  ps_position_seconds :: f64

record ObservedState =
  os_observed_at_seconds :: f64
  os_phase :: PlayerTransportPhase
  os_position_seconds :: "f64 option"
  os_position_sample :: "ObservedPositionSample option"
  os_playback_rate :: "f64 option"
  os_logical_pause :: "bool option"
  os_paused_for_cache :: bool
  os_seeking :: bool
  os_seekable :: "bool option"
  os_seekable_window :: "(f64 \<times> f64) option"
  os_timeline_kind :: "PlayerTimelineKind option"
  os_known_live_seekable_window :: "PlayerSeekableRange option"
  os_core_idle :: "bool option"
  os_playback_restart_sequence :: u64
  os_cache_buffering_percent :: "f64 option"
  os_buffered_ahead_seconds :: "f64 option"

section \<open>Commands\<close>

type_synonym CoordinatorCommandId = u64

definition new_command_id :: "u64 \<Rightarrow> CoordinatorCommandId" where
  "new_command_id value = (if value = 0 then 1 else value)"

datatype PlayerPlayIntent = Resume | StartAfterLoad u64 | StartAfterSeek u64

datatype CoordinatorPlayerCommand =
  SetPaused bool | Play PlayerPlayIntent | SetPosition f64 | SetPlaybackRate f64

datatype PendingCommandKind =
  Pause
| Play (baseline_position: "f64 option") (play_intent: PlayerPlayIntent)
| Seek (target_position_seconds: f64) (baseline_restart_sequence: u64) (buffered_alternative: bool)
| Rate (target_rate: f64)

record PendingCommand =
  cm_id :: CoordinatorCommandId
  cm_revision :: u64
  cm_issued_at_seconds :: f64
  cm_accepted :: bool
  cm_kind :: PendingCommandKind

section \<open>Episodes\<close>

record RecoveryEpisode =
  re_id :: u64
  re_media_generation :: u64
  re_entered_at_seconds :: f64
  re_hard_seek_attempts :: u32
  re_post_cache_baseline_at_seconds :: "f64 option"
  re_stable_since_seconds :: "f64 option"
  re_catchup_deadline_seconds :: "f64 option"
  re_decision_made :: bool
  re_cache_metrics_frozen_until_decision :: bool
  re_catchup_active :: bool
  re_seek_active :: bool
  re_gentle_catchup_only :: bool
  re_degraded :: bool

record RecoveryEpisodeSnapshot =
  rs_id :: u64
  rs_media_generation :: u64
  rs_entered_at_seconds :: f64
  rs_hard_seek_attempts :: u32
  rs_stable_since_seconds :: "f64 option"
  rs_catchup_deadline_seconds :: "f64 option"
  rs_degraded :: bool

datatype SeekTargetAvailability = Cached | FetchRequired | Unknown | OutsideLiveWindow | NonSeekable

datatype SeekPreparationPhase = Seeking | Fetching | Refilling | ReadyToJoin | CatchingUp

datatype SeekPreparationDegradedReason =
  NonSeekable | OutsideLiveWindow | TimedOut | TimelineWindowUnavailable | TransportFailed

datatype SeekPreparationTerminalOutcome =
  Ready | Superseded | Cancelled | Degraded SeekPreparationDegradedReason

record SeekPreparationSnapshot =
  ss_id :: u64
  ss_media_generation :: u64
  ss_load_attempt :: u64
  ss_room_revision :: u64
  ss_latest_room_revision :: u64
  ss_requested_target_seconds :: f64
  ss_frozen_target_seconds :: f64
  ss_frozen_room_anchor_position_seconds :: f64
  ss_frozen_room_anchor_observed_at_seconds :: f64
  ss_latest_room_position_seconds :: f64
  ss_availability :: SeekTargetAvailability
  ss_phase :: SeekPreparationPhase
  ss_cache_buffering_percent :: "f64 option"
  ss_buffered_ahead_seconds :: "f64 option"
  ss_nearest_safe_buffered_position_seconds :: "f64 option"
  ss_started_at_seconds :: f64
  ss_terminal_outcome :: "SeekPreparationTerminalOutcome option"
  ss_can_keep_waiting :: bool
  ss_can_cancel_and_remain :: bool
  ss_can_join_nearest_buffered :: bool

record SeekPreparationEpisode =
  sp_id :: u64
  sp_media_generation :: u64
  sp_load_attempt :: u64
  sp_room_revision :: u64
  sp_latest_room_revision :: u64
  sp_latest_room_paused :: bool
  sp_requested_target_seconds :: f64
  sp_frozen_target_seconds :: f64
  sp_frozen_room_anchor_position_seconds :: f64
  sp_frozen_room_anchor_observed_at_seconds :: f64
  sp_latest_room_position_seconds :: f64
  sp_availability :: SeekTargetAvailability
  sp_phase :: SeekPreparationPhase
  sp_cache_buffering_percent :: "f64 option"
  sp_buffered_ahead_seconds :: "f64 option"
  sp_input_rate_bytes_per_second :: "u64 option"
  sp_nearest_safe_buffered_position_seconds :: "f64 option"
  sp_started_at_seconds :: f64
  sp_deadline_seconds :: f64
  sp_primary_seek_command_id :: "CoordinatorCommandId option"
  sp_primary_seek_issued :: bool
  sp_primary_seek_observation_sequence :: "u64 option"
  sp_refill_started_observation_sequence :: "u64 option"
  sp_refill_released_after_seek :: bool
  sp_stable_playable_since :: "(u64 \<times> f64) option"

definition episode_snapshot ::
  "SeekPreparationEpisode \<Rightarrow> SeekPreparationTerminalOutcome option \<Rightarrow> SeekPreparationSnapshot" where
  "episode_snapshot self terminal_outcome =
     (let active = (terminal_outcome = None) in
      \<lparr>ss_id = sp_id self, ss_media_generation = sp_media_generation self,
       ss_load_attempt = sp_load_attempt self, ss_room_revision = sp_room_revision self,
       ss_latest_room_revision = sp_latest_room_revision self,
       ss_requested_target_seconds = sp_requested_target_seconds self,
       ss_frozen_target_seconds = sp_frozen_target_seconds self,
       ss_frozen_room_anchor_position_seconds = sp_frozen_room_anchor_position_seconds self,
       ss_frozen_room_anchor_observed_at_seconds = sp_frozen_room_anchor_observed_at_seconds self,
       ss_latest_room_position_seconds = sp_latest_room_position_seconds self,
       ss_availability = sp_availability self, ss_phase = sp_phase self,
       ss_cache_buffering_percent = sp_cache_buffering_percent self,
       ss_buffered_ahead_seconds = sp_buffered_ahead_seconds self,
       ss_nearest_safe_buffered_position_seconds = sp_nearest_safe_buffered_position_seconds self,
       ss_started_at_seconds = sp_started_at_seconds self, ss_terminal_outcome = terminal_outcome,
       ss_can_keep_waiting = active,
       ss_can_cancel_and_remain = (active \<and> \<not> sp_primary_seek_issued self),
       ss_can_join_nearest_buffered =
         (active \<and> \<not> sp_latest_room_paused self \<and> sp_nearest_safe_buffered_position_seconds self \<noteq> None)\<rparr>)"

record RateOverride =
  ro_episode_id :: u64
  ro_reset_requested :: bool
  ro_reset_command_observation_sequence :: "u64 option"

section \<open>Actions, diagnostics and metrics\<close>

datatype DegradedPlaybackReason =
  NonSeekableLag | HardSeekBudgetExhausted | CatchupDidNotConverge | RecoveryCommandTimedOut
  | TimelineWindowUnavailable | TransportFailed

datatype PlaybackCoordinatorAction =
  Execute CoordinatorCommandId CoordinatorPlayerCommand
| RequestRoomPause u64
| RevisionApplied u64 u64
| Started u64 u64 f64
| Degraded u64 "u64 option" DegradedPlaybackReason
| CommandTimedOut CoordinatorCommandId

datatype PlaybackDiagnostic =
  Empty | Loading | Prebuffering | ReadyWaitingForRoom | Starting | Playing | Rebuffering
  | RecoveringByCatchup | RecoveringBySeek | Degraded | Ended | Failed

record PlaybackCoordinatorMetrics =
  pm_first_frame_latency_seconds :: "f64 option"
  pm_started_ack_latency_seconds :: "f64 option"
  pm_buffer_episode_count :: u64
  pm_total_buffer_duration_seconds :: f64
  pm_hard_seek_count :: u64
  pm_gentle_catchup_count :: u64
  pm_degraded_recovery_count :: u64
  pm_stale_generation_observations :: u64
  pm_stale_timestamp_observations :: u64
  pm_command_timeouts :: u64
  pm_applied_revision_count :: u64
  pm_steady_state_skew_seconds :: "f64 option"
  pm_last_buffered_ahead_seconds :: "f64 option"
  pm_last_input_rate_bytes_per_second :: "u64 option"

definition default_playback_metrics :: PlaybackCoordinatorMetrics where
  "default_playback_metrics =
     \<lparr>pm_first_frame_latency_seconds = None, pm_started_ack_latency_seconds = None,
      pm_buffer_episode_count = 0, pm_total_buffer_duration_seconds = Fin 0, pm_hard_seek_count = 0,
      pm_gentle_catchup_count = 0, pm_degraded_recovery_count = 0,
      pm_stale_generation_observations = 0, pm_stale_timestamp_observations = 0,
      pm_command_timeouts = 0, pm_applied_revision_count = 0, pm_steady_state_skew_seconds = None,
      pm_last_buffered_ahead_seconds = None, pm_last_input_rate_bytes_per_second = None\<rparr>"

section \<open>The coordinator\<close>

record MediaState =
  ms_logical_id :: LogicalMediaId
  ms_generation :: u64
  ms_load_attempt :: u64
  ms_kind :: MediaTransportKind
  ms_prepared_at_seconds :: f64
  ms_load_restart_baseline :: u64

text \<open>
  Every operation that produces actions starts with an empty vector, hands it to the helpers as
  \<open>actions: &mut Vec<PlaybackCoordinatorAction>\<close> and returns it. That vector is the last field:
  after an operation it holds what the operation returned.
\<close>

record PlaybackCoordinator =
  pc_config :: PlaybackCoordinatorConfig
  pc_media :: "MediaState option"
  pc_desired :: "DesiredRoomPlayback option"
  pc_observed :: "ObservedState option"
  pc_recovery :: "RecoveryEpisode option"
  pc_seek_preparation :: "SeekPreparationEpisode option"
  pc_last_seek_preparation_terminal :: "SeekPreparationSnapshot option"
  pc_cached_seekable_ranges :: "PlayerSeekableRange list option"
  pc_pending_commands :: "PendingCommand list"
  pc_next_media_generation :: u64
  pc_next_recovery_episode_id :: u64
  pc_next_seek_preparation_id :: u64
  pc_next_command_id :: u64
  pc_last_applied_revision :: "u64 option"
  pc_applied_observation_revision :: "(u64 \<times> u64) option"
  pc_last_started_revision :: "u64 option"
  pc_desired_seek_satisfied_revision :: "u64 option"
  pc_required_seek_dispatch_revision :: "u64 option"
  pc_authoritative_alignment_guard_revision :: "u64 option"
  pc_completed_seek_restart_baseline :: "u64 option"
  pc_rate_override :: "RateOverride option"
  pc_observation_sequence :: u64
  pc_last_playback_rate_observation_sequence :: "u64 option"
  pc_retry_not_before_seconds :: f64
  pc_failed_command_attempts :: u32
  pc_command_budget_degraded :: bool
  pc_pending_degraded_reason :: "DegradedPlaybackReason option"
  pc_diagnostic :: PlaybackDiagnostic
  pc_metrics :: PlaybackCoordinatorMetrics
  pc_actions :: "PlaybackCoordinatorAction list"

definition new_coordinator :: "PlaybackCoordinatorConfig \<Rightarrow> PlaybackCoordinator option" where
  "new_coordinator config = do {
     config \<leftarrow> normalized config;
     Some \<lparr>pc_config = config, pc_media = None, pc_desired = None, pc_observed = None,
       pc_recovery = None, pc_seek_preparation = None, pc_last_seek_preparation_terminal = None,
       pc_cached_seekable_ranges = None, pc_pending_commands = [], pc_next_media_generation = 0,
       pc_next_recovery_episode_id = 0, pc_next_seek_preparation_id = 0, pc_next_command_id = 0,
       pc_last_applied_revision = None, pc_applied_observation_revision = None,
       pc_last_started_revision = None, pc_desired_seek_satisfied_revision = None,
       pc_required_seek_dispatch_revision = None, pc_authoritative_alignment_guard_revision = None,
       pc_completed_seek_restart_baseline = None, pc_rate_override = None,
       pc_observation_sequence = 0, pc_last_playback_rate_observation_sequence = None,
       pc_retry_not_before_seconds = Fin 0, pc_failed_command_attempts = 0,
       pc_command_budget_degraded = False, pc_pending_degraded_reason = None,
       pc_diagnostic = PlaybackDiagnostic.Empty, pc_metrics = default_playback_metrics,
       pc_actions = []\<rparr>
   }"

end
