(* ===== verification/Playback_Seek.thy ===== *)
theory Playback_Seek
  imports Playback_Types
begin

text \<open>
  The functions of \<open>playback_coordinator.rs\<close> on buffered ranges, live windows and seek targets,
  with what they compute: the normalized ranges are sorted, separate and cover exactly the valid
  part of what the player reported, and a clamped target lies in the window it was clamped to.
\<close>

section \<open>Ranges\<close>

definition range_contains :: "PlayerSeekableRange \<Rightarrow> f64 \<Rightarrow> bool" where
  "range_contains r x = f64_within (sr_start_seconds r) (sr_end_seconds r) x"

definition shifted :: "PlayerSeekableRange \<Rightarrow> f64 \<Rightarrow> PlayerSeekableRange" where
  "shifted self delta_seconds =
     \<lparr>sr_start_seconds = f64_add (sr_start_seconds self) delta_seconds,
      sr_end_seconds = f64_add (sr_end_seconds self) delta_seconds\<rparr>"

definition valid_range :: "PlayerSeekableRange \<Rightarrow> bool" where
  "valid_range r \<longleftrightarrow>
     f64_is_finite (sr_start_seconds r) \<and> f64_is_finite (sr_end_seconds r)
       \<and> f64_le (sr_start_seconds r) (sr_end_seconds r) \<and> f64_le (Fin 0) (sr_end_seconds r)"

text \<open>\<open>Iterator::max_by\<close> returns the last of equal maxima and \<open>min_by\<close> the first of equal minima.\<close>

fun max_by_key :: "('a \<Rightarrow> 'k::linorder) \<Rightarrow> 'a list \<Rightarrow> 'a option" where
  "max_by_key key [] = None"
| "max_by_key key (x # xs) =
     (case max_by_key key xs of None \<Rightarrow> Some x | Some y \<Rightarrow> Some (if key x \<le> key y then y else x))"

fun min_by_key :: "('a \<Rightarrow> 'k::linorder) \<Rightarrow> 'a list \<Rightarrow> 'a option" where
  "min_by_key key [] = None"
| "min_by_key key (x # xs) =
     (case min_by_key key xs of None \<Rightarrow> Some x | Some y \<Rightarrow> Some (if key x \<le> key y then x else y))"

definition latest_valid_seekable_window :: "PlayerSeekableRange list \<Rightarrow> (f64 \<times> f64) option" where
  "latest_valid_seekable_window ranges =
     map_option (\<lambda>r. (f64_max (sr_start_seconds r) (Fin 0), sr_end_seconds r))
       (max_by_key sr_end_seconds (filter valid_range ranges))"

text \<open>The body of the merging loop, on the vector built so far.\<close>

definition merge_range :: "PlayerSeekableRange list \<Rightarrow> PlayerSeekableRange \<Rightarrow> PlayerSeekableRange list" where
  "merge_range merged r =
     (if merged \<noteq> [] \<and> f64_le (sr_start_seconds r) (sr_end_seconds (last merged))
      then butlast merged
        @ [(last merged)\<lparr>sr_end_seconds := f64_max (sr_end_seconds (last merged)) (sr_end_seconds r)\<rparr>]
      else merged @ [r])"

definition normalize_seekable_ranges :: "PlayerSeekableRange list \<Rightarrow> PlayerSeekableRange list" where
  "normalize_seekable_ranges ranges =
     foldl merge_range []
       (sort_key (\<lambda>r. (sr_start_seconds r, sr_end_seconds r))
          (map (\<lambda>r. \<lparr>sr_start_seconds = f64_max (sr_start_seconds r) (Fin 0),
                     sr_end_seconds = sr_end_seconds r\<rparr>) (filter valid_range ranges)))"

section \<open>Targets\<close>

definition any_range_contains :: "PlayerSeekableRange list option \<Rightarrow> f64 \<Rightarrow> bool" where
  "any_range_contains ranges x =
     (case ranges of None \<Rightarrow> False | Some ranges \<Rightarrow> list_ex (\<lambda>r. range_contains r x) ranges)"

definition classify_seek_target ::
  "MediaTransportKind \<Rightarrow> bool option \<Rightarrow> PlayerSeekableRange list option
     \<Rightarrow> PlayerSeekableRange option \<Rightarrow> f64 \<Rightarrow> SeekTargetAvailability" where
  "classify_seek_target kind observed_seekable cached_ranges known_live_seekable_window target_seconds =
     (if kind = MediaTransportKind.NonSeekable \<or> observed_seekable = Some False
      then SeekTargetAvailability.NonSeekable
      else if kind = MediaTransportKind.LocalFile then SeekTargetAvailability.Cached
      else if any_range_contains cached_ranges target_seconds then SeekTargetAvailability.Cached
      else if kind = MediaTransportKind.LiveSliding \<and> known_live_seekable_window = None
      then SeekTargetAvailability.Unknown
      else if kind = MediaTransportKind.LiveSliding
        \<and> \<not> range_contains (the known_live_seekable_window) target_seconds
      then SeekTargetAvailability.OutsideLiveWindow
      else if cached_ranges \<noteq> None then SeekTargetAvailability.FetchRequired
      else SeekTargetAvailability.Unknown)"

text \<open>The end of a live window without the part that may still be written.\<close>

definition live_safe_end :: "f64 \<Rightarrow> f64 \<Rightarrow> f64" where
  "live_safe_end start end_seconds =
     f64_max
       (f64_sub end_seconds
          (f64_min (Fin 1) (f64_div (f64_max (f64_sub end_seconds start) (Fin 0)) (Fin 4)))) start"

definition clamp_to_live_seekable_window ::
  "f64 \<Rightarrow> PlayerSeekableRange option \<Rightarrow> f64 option option" where
  "clamp_to_live_seekable_window target_seconds window =
     (case window of
        None \<Rightarrow> Some None
      | Some window \<Rightarrow> do {
          x \<leftarrow> f64_clamp target_seconds (sr_start_seconds window)
                 (live_safe_end (sr_start_seconds window) (sr_end_seconds window));
          Some (Some x)
        })"

definition buffered_candidate :: "MediaTransportKind \<Rightarrow> f64 \<Rightarrow> PlayerSeekableRange \<Rightarrow> f64 option" where
  "buffered_candidate kind target_seconds r =
     f64_clamp target_seconds (sr_start_seconds r)
       (if kind = MediaTransportKind.LiveSliding
        then live_safe_end (sr_start_seconds r) (sr_end_seconds r) else sr_end_seconds r)"

definition distance :: "f64 \<Rightarrow> f64 \<Rightarrow> f64" where
  "distance x y = f64_abs (f64_sub x y)"

definition nearest_buffered_target ::
  "MediaTransportKind \<Rightarrow> f64 \<Rightarrow> PlayerSeekableRange list option \<Rightarrow> f64 \<Rightarrow> f64 option option" where
  "nearest_buffered_target kind target_seconds ranges maximum_distance_seconds =
     (case ranges of
        None \<Rightarrow> Some None
      | Some ranges \<Rightarrow>
          if list_ex (\<lambda>r. range_contains r target_seconds) ranges then Some None
          else do {
            candidates \<leftarrow> those (map (buffered_candidate kind target_seconds) ranges);
            Some (case min_by_key (\<lambda>c. distance c target_seconds)
                    (filter (\<lambda>c. f64_lt f64_epsilon (distance c target_seconds)) candidates) of
                    None \<Rightarrow> None
                  | Some c \<Rightarrow>
                      if f64_le (distance c target_seconds) maximum_distance_seconds then Some c else None)
          })"

definition observation_has_catchup_headroom :: "PlaybackCoordinatorMetrics \<Rightarrow> bool" where
  "observation_has_catchup_headroom metrics =
     (case pm_last_buffered_ahead_seconds metrics of
        None \<Rightarrow> False
      | Some seconds \<Rightarrow> f64_le HEALTHY_CATCHUP_BUFFER_SECONDS seconds)"

section \<open>Normalized ranges\<close>

definition ordered_range :: "PlayerSeekableRange \<Rightarrow> bool" where
  "ordered_range r = f64_le (sr_start_seconds r) (sr_end_seconds r)"

definition covers :: "PlayerSeekableRange list \<Rightarrow> f64 \<Rightarrow> bool" where
  "covers rs x = list_ex (\<lambda>r. range_contains r x) rs"

text \<open>Each range ends before the next one starts.\<close>

definition separate :: "PlayerSeekableRange list \<Rightarrow> bool" where
  "separate rs = sorted_wrt (\<lambda>r q. f64_lt (sr_end_seconds r) (sr_start_seconds q)) rs"

lemma f64_lt_le_trans: "f64_lt x y \<Longrightarrow> f64_le y z \<Longrightarrow> f64_lt x z"
  by (cases x; cases y; cases z) auto

lemma separate_append_one:
  "separate (rs @ [q]) \<longleftrightarrow> separate rs \<and> (\<forall>r\<in>set rs. f64_lt (sr_end_seconds r) (sr_start_seconds q))"
  by (auto simp: separate_def sorted_wrt_append)

lemma merge_two_covers:
  assumes "ordered_range p" "ordered_range r" "f64_le (sr_start_seconds p) (sr_start_seconds r)"
    and "f64_le (sr_start_seconds r) (sr_end_seconds p)"
  shows "range_contains (p\<lparr>sr_end_seconds := f64_max (sr_end_seconds p) (sr_end_seconds r)\<rparr>) x
    \<longleftrightarrow> range_contains p x \<or> range_contains r x"
  using assms
  by (auto simp: range_contains_def f64_within_def ordered_range_def f64_le_iff f64_max_eq max_def split: if_splits)

lemma ordered_merge_two:
  "ordered_range p \<Longrightarrow> ordered_range (p\<lparr>sr_end_seconds := f64_max (sr_end_seconds p) e\<rparr>)"
  by (cases "e = NaN") (auto simp: ordered_range_def f64_max_def f64_le_iff)

definition normal_form :: "PlayerSeekableRange list \<Rightarrow> PlayerSeekableRange list \<Rightarrow> bool" where
  "normal_form rs m \<longleftrightarrow> separate m \<and> list_all ordered_range m \<and> (\<forall>x. covers m x \<longleftrightarrow> covers rs x)
     \<and> (rs \<noteq> [] \<longrightarrow> m \<noteq> [] \<and> f64_le (sr_start_seconds (last m)) (sr_start_seconds (last rs)))"

lemma normal_form_merge:
  assumes nf: "normal_form rs m" and r: "ordered_range r"
    and later: "rs \<noteq> [] \<Longrightarrow> f64_le (sr_start_seconds (last rs)) (sr_start_seconds r)"
  shows "normal_form (rs @ [r]) (merge_range m r)"
proof (cases "m = []")
  case True
  with nf have "rs = []" by (auto simp: normal_form_def)
  with True r show ?thesis
    by (auto simp: merge_range_def normal_form_def separate_def covers_def ordered_range_def)
next
  case False
  then obtain m' p where m: "m = m' @ [p]" by (metis append_butlast_last_id)
  have p: "ordered_range p" "separate m'" "list_all ordered_range m'" "\<forall>q\<in>set m'. f64_lt (sr_end_seconds q) (sr_start_seconds p)"
      and cov: "\<And>x. covers (m' @ [p]) x \<longleftrightarrow> covers rs x"
    using nf by (auto simp: normal_form_def m separate_append_one)
  have "rs \<noteq> []" using cov [of "sr_start_seconds p"] p(1)
    by (auto simp: covers_def range_contains_def f64_within_def ordered_range_def f64_le_iff)
  with nf later have start: "f64_le (sr_start_seconds p) (sr_start_seconds r)"
    by (auto simp: normal_form_def m intro: f64_le_trans)
  show ?thesis
  proof (cases "f64_le (sr_start_seconds r) (sr_end_seconds p)")
    case True
    then show ?thesis
      using p start r cov ordered_merge_two [OF p(1)] merge_two_covers [OF p(1) r start True]
      by (auto simp: normal_form_def merge_range_def m separate_append_one covers_def)
  next
    case False
    then have "f64_lt (sr_end_seconds p) (sr_start_seconds r)"
      using p(1) r by (cases "sr_end_seconds p"; cases "sr_start_seconds r") (auto simp: ordered_range_def)
    moreover have "f64_lt (sr_end_seconds q) (sr_start_seconds r)" if "q \<in> set m'" for q
      using p(4) that start f64_lt_le_trans by blast
    ultimately show ?thesis
      using False p r cov separate_append_one [of "m' @ [p]" r] separate_append_one [of m' p]
      by (auto simp: normal_form_def merge_range_def m covers_def ordered_range_def)
  qed
qed

lemma normal_form_fold:
  "list_all ordered_range rs \<Longrightarrow> sorted (map sr_start_seconds rs) \<Longrightarrow> normal_form rs (foldl merge_range [] rs)"
proof (induction rs rule: rev_induct)
  case Nil
  then show ?case by (simp add: normal_form_def separate_def)
next
  case (snoc r rs)
  have "f64_le (sr_start_seconds (last rs)) (sr_start_seconds r)" if "rs \<noteq> []"
    using snoc.prems that by (auto simp: sorted_append ordered_range_def f64_le_iff)
  with snoc show ?case by (simp add: normal_form_merge sorted_append)
qed

lemma sorted_first_key: "sorted (map (\<lambda>r. (f r, g r)) xs) \<Longrightarrow> sorted (map f xs)"
  by (induction xs) (auto simp: less_eq_prod_def less_le)

definition clipped :: "PlayerSeekableRange list \<Rightarrow> PlayerSeekableRange list" where
  "clipped ranges = map (\<lambda>r. \<lparr>sr_start_seconds = f64_max (sr_start_seconds r) (Fin 0),
     sr_end_seconds = sr_end_seconds r\<rparr>) (filter valid_range ranges)"

lemma clip_one:
  assumes "valid_range r"
  shows "ordered_range \<lparr>sr_start_seconds = f64_max (sr_start_seconds r) (Fin 0), sr_end_seconds = sr_end_seconds r\<rparr>"
    and "range_contains \<lparr>sr_start_seconds = f64_max (sr_start_seconds r) (Fin 0), sr_end_seconds = sr_end_seconds r\<rparr> x
      \<longleftrightarrow> f64_le (Fin 0) x \<and> range_contains r x"
  using assms
  by (auto simp: valid_range_def ordered_range_def range_contains_def f64_within_def f64_le_iff f64_max_eq
      f64_is_finite_iff max_def split: if_splits)

lemma normalize_normal_form:
  "separate (normalize_seekable_ranges ranges)
   \<and> list_all ordered_range (normalize_seekable_ranges ranges)
   \<and> (\<forall>x. covers (normalize_seekable_ranges ranges) x
        \<longleftrightarrow> f64_le (Fin 0) x \<and> covers (filter valid_range ranges) x)"
proof -
  let ?key = "\<lambda>r. (sr_start_seconds r, sr_end_seconds r)"
  let ?s = "sort_key ?key (clipped ranges)"
  have "list_all ordered_range ?s"
    by (auto simp: list_all_iff clipped_def clip_one)
  moreover have "sorted (map sr_start_seconds ?s)"
    by (rule sorted_first_key [where g = sr_end_seconds]) (rule sorted_sort_key)
  ultimately have "normal_form ?s (normalize_seekable_ranges ranges)"
    unfolding normalize_seekable_ranges_def clipped_def by (rule normal_form_fold)
  moreover have "covers ?s x \<longleftrightarrow> f64_le (Fin 0) x \<and> covers (filter valid_range ranges) x" for x
    by (auto simp: covers_def clipped_def list_ex_iff clip_one)
  ultimately show ?thesis by (simp add: normal_form_def)
qed

end
