(* ===== verification/Playback_Coordinator.thy ===== *)
theory Playback_Coordinator
  imports Playback_Seek
begin

text \<open>
  The operations of \<open>PlaybackCoordinator\<close>. An operation on \<open>&mut self\<close> takes the coordinator last
  and returns it; one whose code can reach \<open>clamp\<close> or \<open>expect\<close> returns an option, and \<open>None\<close> is
  the panic. Private helpers come first, in the order in which they depend on each other.
\<close>

section \<open>Options\<close>

definition is_some_and :: "'a option \<Rightarrow> ('a \<Rightarrow> bool) \<Rightarrow> bool" where
  "is_some_and x P = (case x of None \<Rightarrow> False | Some v \<Rightarrow> P v)"

definition is_none_or :: "'a option \<Rightarrow> ('a \<Rightarrow> bool) \<Rightarrow> bool" where
  "is_none_or x P = (case x of None \<Rightarrow> True | Some v \<Rightarrow> P v)"

definition opt_filter :: "('a \<Rightarrow> bool) \<Rightarrow> 'a option \<Rightarrow> 'a option" where
  "opt_filter P x = (case x of None \<Rightarrow> None | Some v \<Rightarrow> if P v then Some v else None)"

definition opt_else :: "'a option \<Rightarrow> 'a option \<Rightarrow> 'a option" where
  "opt_else x y = (case x of None \<Rightarrow> y | Some v \<Rightarrow> Some v)"

definition unwrap_or :: "'a option \<Rightarrow> 'a \<Rightarrow> 'a" where
  "unwrap_or x d = (case x of None \<Rightarrow> d | Some v \<Rightarrow> v)"

section \<open>Reading the coordinator\<close>

definition coordinator_media_generation :: "PlaybackCoordinator \<Rightarrow> u64 option" where
  "coordinator_media_generation self = map_option ms_generation (pc_media self)"

definition current_load_attempt :: "PlaybackCoordinator \<Rightarrow> u64 option" where
  "current_load_attempt self = map_option ms_load_attempt (pc_media self)"

definition generation_or_default :: "PlaybackCoordinator \<Rightarrow> u64" where
  "generation_or_default self = unwrap_or (coordinator_media_generation self) 0"

definition desired_revision :: "PlaybackCoordinator \<Rightarrow> u64 option" where
  "desired_revision self = map_option dp_state_revision (pc_desired self)"

definition near :: "PlaybackCoordinator \<Rightarrow> f64 \<Rightarrow> f64 \<Rightarrow> bool" where
  "near self x y = f64_le (distance x y) (cf_position_tolerance_seconds (pc_config self))"

definition position_matches_target :: "f64 \<Rightarrow> f64 \<Rightarrow> PlaybackCoordinator \<Rightarrow> bool" where
  "position_matches_target position target self \<longleftrightarrow> f64_is_finite position \<and> near self position target"

definition playable_phase :: "PlayerTransportPhase \<Rightarrow> bool" where
  "playable_phase phase \<longleftrightarrow> phase \<in> {PlayerTransportPhase.ReadyPaused, PlayerTransportPhase.Playing}"

definition buffering_phase :: "PlayerTransportPhase \<Rightarrow> bool" where
  "buffering_phase phase \<longleftrightarrow> phase \<in> {PlayerTransportPhase.Prebuffering, PlayerTransportPhase.Rebuffering}"

definition terminal_holds ::
  "(SeekPreparationTerminalOutcome \<Rightarrow> bool) \<Rightarrow> PlaybackCoordinator \<Rightarrow> bool" where
  "terminal_holds P self =
     is_some_and (pc_desired self) (\<lambda>desired.
       is_some_and (pc_last_seek_preparation_terminal self) (\<lambda>snapshot.
         ss_media_generation snapshot = dp_media_generation desired
         \<and> ss_latest_room_revision snapshot = dp_state_revision desired
         \<and> is_some_and (ss_terminal_outcome snapshot) P))"

fun outcome_degraded :: "SeekPreparationTerminalOutcome \<Rightarrow> bool" where
  "outcome_degraded (SeekPreparationTerminalOutcome.Degraded _) = True"
| "outcome_degraded _ = False"

definition outcome_holds :: "SeekPreparationTerminalOutcome \<Rightarrow> bool" where
  "outcome_holds outcome \<longleftrightarrow> outcome = SeekPreparationTerminalOutcome.Cancelled \<or> outcome_degraded outcome"

definition degraded_seek_preparation_holds_current_revision :: "PlaybackCoordinator \<Rightarrow> bool" where
  "degraded_seek_preparation_holds_current_revision self = terminal_holds outcome_degraded self"

definition terminal_seek_preparation_holds_current_revision :: "PlaybackCoordinator \<Rightarrow> bool" where
  "terminal_seek_preparation_holds_current_revision self = terminal_holds outcome_holds self"

definition authoritative_alignment_guards_active_preparation :: "PlaybackCoordinator \<Rightarrow> bool" where
  "authoritative_alignment_guards_active_preparation self =
     is_some_and (pc_seek_preparation self) (\<lambda>episode.
       pc_authoritative_alignment_guard_revision self = Some (sp_latest_room_revision episode))"

definition desired_seek_is_satisfied :: "DesiredRoomPlayback \<Rightarrow> PlaybackCoordinator \<Rightarrow> bool" where
  "desired_seek_is_satisfied desired self \<longleftrightarrow>
     \<not> dp_force_seek desired \<or> pc_desired_seek_satisfied_revision self = Some (dp_state_revision desired)"

definition observed_seekable :: "ObservedState \<Rightarrow> PlaybackCoordinator \<Rightarrow> bool" where
  "observed_seekable observed self =
     (case os_seekable observed of
        Some b \<Rightarrow> b
      | None \<Rightarrow> is_some_and (pc_media self) (\<lambda>media. default_seekable (ms_kind media)))"

definition clamp_seek_target :: "f64 \<Rightarrow> ObservedState \<Rightarrow> PlaybackCoordinator \<Rightarrow> f64 option" where
  "clamp_seek_target target observed self =
     (let target = f64_max target (Fin 0) in
      if any_range_contains (pc_cached_seekable_ranges self) target then Some target
      else if is_none_or (pc_media self) (\<lambda>media. ms_kind media \<noteq> MediaTransportKind.LiveSliding)
      then Some target
      else case os_known_live_seekable_window observed of
          None \<Rightarrow> Some target
        | Some window \<Rightarrow>
            f64_clamp target (sr_start_seconds window)
              (live_safe_end (sr_start_seconds window) (sr_end_seconds window)))"

definition transport_blocks_correction :: "ObservedState \<Rightarrow> bool" where
  "transport_blocks_correction observed \<longleftrightarrow>
     os_paused_for_cache observed \<or> os_seeking observed \<or> \<not> playable_phase (os_phase observed)"

definition desired_revision_pending :: "PlaybackCoordinator \<Rightarrow> u64 option" where
  "desired_revision_pending self =
     (case pc_desired self of
        None \<Rightarrow> None
      | Some desired \<Rightarrow>
          if pc_last_applied_revision self \<noteq> Some (dp_state_revision desired)
          then Some (dp_state_revision desired) else None)"

definition ordinary_correction_blocked :: "PlaybackCoordinator \<Rightarrow> bool" where
  "ordinary_correction_blocked self \<longleftrightarrow>
     pc_seek_preparation self \<noteq> None \<or> terminal_seek_preparation_holds_current_revision self
     \<or> pc_recovery self \<noteq> None \<or> pc_rate_override self \<noteq> None \<or> pc_pending_commands self \<noteq> []
     \<or> desired_revision_pending self \<noteq> None
     \<or> is_some_and (pc_observed self) transport_blocks_correction"

definition recovery_blocks_native_pause :: "PlaybackCoordinator \<Rightarrow> bool" where
  "recovery_blocks_native_pause self =
     is_some_and (pc_recovery self) (\<lambda>episode.
       re_degraded episode \<or> re_seek_active episode \<or> re_post_cache_baseline_at_seconds episode = None
       \<or> is_none_or (pc_observed self) (\<lambda>observed.
            os_paused_for_cache observed \<or> os_seeking observed \<or> \<not> playable_phase (os_phase observed)))"

definition recovery_episode :: "PlaybackCoordinator \<Rightarrow> RecoveryEpisodeSnapshot option" where
  "recovery_episode self =
     map_option (\<lambda>episode.
       \<lparr>rs_id = re_id episode, rs_media_generation = re_media_generation episode,
        rs_entered_at_seconds = re_entered_at_seconds episode,
        rs_hard_seek_attempts = re_hard_seek_attempts episode,
        rs_stable_since_seconds = re_stable_since_seconds episode,
        rs_catchup_deadline_seconds = re_catchup_deadline_seconds episode,
        rs_degraded = re_degraded episode\<rparr>) (pc_recovery self)"

definition seek_preparation_snapshot :: "PlaybackCoordinator \<Rightarrow> SeekPreparationSnapshot option" where
  "seek_preparation_snapshot self =
     (case pc_seek_preparation self of
        Some episode \<Rightarrow>
          let snapshot = episode_snapshot episode None in
          Some (if authoritative_alignment_guards_active_preparation self
                then snapshot\<lparr>ss_can_join_nearest_buffered := False\<rparr> else snapshot)
      | None \<Rightarrow>
          (case pc_last_seek_preparation_terminal self of
             None \<Rightarrow> None
           | Some snapshot \<Rightarrow>
               let recovery = pc_recovery self;
                   visible_handoff =
                     (if ss_terminal_outcome snapshot = Some SeekPreparationTerminalOutcome.Ready
                      then desired_revision_pending self \<noteq> None \<or> recovery \<noteq> None
                      else if ss_terminal_outcome snapshot = Some SeekPreparationTerminalOutcome.Superseded
                      then recovery \<noteq> None else False);
                   transport_can_join = is_some_and (pc_observed self) (\<lambda>observed.
                     playable_phase (os_phase observed) \<and> \<not> os_paused_for_cache observed \<and> \<not> os_seeking observed)
               in if \<not> visible_handoff \<or> \<not> transport_can_join \<or> is_some_and recovery re_degraded then None
                  else Some (snapshot\<lparr>ss_phase :=
                    (if is_some_and recovery (\<lambda>episode.
                          re_catchup_active episode \<or> re_seek_active episode \<or> re_gentle_catchup_only episode)
                     then SeekPreparationPhase.CatchingUp else SeekPreparationPhase.ReadyToJoin)\<rparr>)))"

definition last_seek_preparation_terminal_outcome ::
  "PlaybackCoordinator \<Rightarrow> SeekPreparationTerminalOutcome option" where
  "last_seek_preparation_terminal_outcome self =
     Option.bind (pc_last_seek_preparation_terminal self) ss_terminal_outcome"

definition local_play_handoff_pending :: "PlaybackCoordinator \<Rightarrow> bool" where
  "local_play_handoff_pending self \<longleftrightarrow>
     pc_seek_preparation self \<noteq> None \<or> terminal_seek_preparation_holds_current_revision self"

definition find_pending :: "CoordinatorCommandId \<Rightarrow> PlaybackCoordinator \<Rightarrow> PendingCommand option" where
  "find_pending command_id self = find (\<lambda>c. cm_id c = command_id) (pc_pending_commands self)"

definition pending_command_pause_target :: "CoordinatorCommandId \<Rightarrow> PlaybackCoordinator \<Rightarrow> bool option" where
  "pending_command_pause_target command_id self =
     (case find_pending command_id self of
        None \<Rightarrow> None
      | Some command \<Rightarrow>
          (case cm_kind command of
             PendingCommandKind.Pause \<Rightarrow> Some True
           | PendingCommandKind.Play _ _ \<Rightarrow> Some False
           | _ \<Rightarrow> None))"

definition active_seek_preparation_lost_command_tracking ::
  "CoordinatorCommandId \<Rightarrow> PlaybackCoordinator \<Rightarrow> bool" where
  "active_seek_preparation_lost_command_tracking command_id self \<longleftrightarrow>
     is_some_and (pc_seek_preparation self) (\<lambda>e. sp_primary_seek_command_id e = Some command_id)
     \<and> list_ex (\<lambda>c. cm_id c = command_id) (pc_pending_commands self)"

section \<open>Small updates\<close>

definition push_action :: "PlaybackCoordinatorAction \<Rightarrow> PlaybackCoordinator \<Rightarrow> PlaybackCoordinator" where
  "push_action action self = self\<lparr>pc_actions := pc_actions self @ [action]\<rparr>"

definition modify_metrics ::
  "(PlaybackCoordinatorMetrics \<Rightarrow> PlaybackCoordinatorMetrics) \<Rightarrow> PlaybackCoordinator \<Rightarrow> PlaybackCoordinator" where
  "modify_metrics f self = self\<lparr>pc_metrics := f (pc_metrics self)\<rparr>"

definition modify_recovery ::
  "(RecoveryEpisode \<Rightarrow> RecoveryEpisode) \<Rightarrow> PlaybackCoordinator \<Rightarrow> PlaybackCoordinator" where
  "modify_recovery f self = self\<lparr>pc_recovery := map_option f (pc_recovery self)\<rparr>"

definition modify_seek_preparation ::
  "(SeekPreparationEpisode \<Rightarrow> SeekPreparationEpisode) \<Rightarrow> PlaybackCoordinator \<Rightarrow> PlaybackCoordinator" where
  "modify_seek_preparation f self =
     self\<lparr>pc_seek_preparation := map_option f (pc_seek_preparation self)\<rparr>"

definition modify_terminal ::
  "(SeekPreparationSnapshot \<Rightarrow> SeekPreparationSnapshot) \<Rightarrow> PlaybackCoordinator \<Rightarrow> PlaybackCoordinator" where
  "modify_terminal f self =
     self\<lparr>pc_last_seek_preparation_terminal := map_option f (pc_last_seek_preparation_terminal self)\<rparr>"

definition retain_commands :: "(PendingCommand \<Rightarrow> bool) \<Rightarrow> PlaybackCoordinator \<Rightarrow> PlaybackCoordinator" where
  "retain_commands P self = self\<lparr>pc_pending_commands := filter P (pc_pending_commands self)\<rparr>"

definition clear_participant_status_transport_metrics :: "PlaybackCoordinator \<Rightarrow> PlaybackCoordinator" where
  "clear_participant_status_transport_metrics self =
     modify_metrics (\<lambda>m. m\<lparr>pm_steady_state_skew_seconds := None, pm_last_buffered_ahead_seconds := None,
       pm_last_input_rate_bytes_per_second := None\<rparr>) self"

definition invalidate_cache_metrics_for_seek :: "PlaybackCoordinator \<Rightarrow> PlaybackCoordinator" where
  "invalidate_cache_metrics_for_seek self =
     (let self = modify_metrics (\<lambda>m. m\<lparr>pm_last_buffered_ahead_seconds := None,
            pm_last_input_rate_bytes_per_second := None\<rparr>) self
      in self\<lparr>pc_observed := map_option (\<lambda>observed. observed\<lparr>os_cache_buffering_percent := None,
            os_buffered_ahead_seconds := None\<rparr>) (pc_observed self)\<rparr>)"

fun is_seek :: "PendingCommandKind \<Rightarrow> bool" where
  "is_seek (PendingCommandKind.Seek _ _ _) = True"
| "is_seek _ = False"

fun is_play :: "PendingCommandKind \<Rightarrow> bool" where
  "is_play (PendingCommandKind.Play _ _) = True"
| "is_play _ = False"

text \<open>A rate command whose target differs from the normal rate by more than the tolerance.\<close>

fun is_catchup_rate :: "PendingCommandKind \<Rightarrow> bool" where
  "is_catchup_rate (PendingCommandKind.Rate rate) = f64_lt rate_tolerance (distance rate NORMAL_PLAYBACK_RATE)"
| "is_catchup_rate _ = False"

fun same_kind :: "PendingCommandKind \<Rightarrow> PendingCommandKind \<Rightarrow> bool" where
  "same_kind PendingCommandKind.Pause PendingCommandKind.Pause = True"
| "same_kind (PendingCommandKind.Play _ _) (PendingCommandKind.Play _ _) = True"
| "same_kind (PendingCommandKind.Seek _ _ _) (PendingCommandKind.Seek _ _ _) = True"
| "same_kind (PendingCommandKind.Rate _) (PendingCommandKind.Rate _) = True"
| "same_kind _ _ = False"

definition request_rate_reset :: "PlaybackCoordinator \<Rightarrow> PlaybackCoordinator" where
  "request_rate_reset self =
     (case pc_rate_override self of
        None \<Rightarrow> self
      | Some rate_override \<Rightarrow>
          if ro_reset_requested rate_override then self
          else retain_commands (\<lambda>c. \<not> is_catchup_rate (cm_kind c))
                 (self\<lparr>pc_rate_override := Some (rate_override\<lparr>ro_reset_requested := True,
                    ro_reset_command_observation_sequence := None\<rparr>)\<rparr>))"

definition close_recovery_without_metrics :: "PlaybackCoordinator \<Rightarrow> PlaybackCoordinator" where
  "close_recovery_without_metrics self = (request_rate_reset self)\<lparr>pc_recovery := None\<rparr>"

definition close_recovery_with_metrics :: "f64 \<Rightarrow> PlaybackCoordinator \<Rightarrow> PlaybackCoordinator" where
  "close_recovery_with_metrics now_seconds self =
     (let self = request_rate_reset self;
          self = (case pc_recovery self of
              None \<Rightarrow> self
            | Some episode \<Rightarrow>
                modify_metrics (\<lambda>m. m\<lparr>pm_total_buffer_duration_seconds :=
                    f64_add (pm_total_buffer_duration_seconds m)
                      (f64_max (f64_sub now_seconds (re_entered_at_seconds episode)) (Fin 0))\<rparr>)
                  (self\<lparr>pc_recovery := None\<rparr>))
      in self\<lparr>pc_diagnostic := PlaybackDiagnostic.Playing\<rparr>)"

section \<open>Issuing commands\<close>

definition baseline_rate_reset :: "PendingCommandKind \<Rightarrow> PlaybackCoordinator \<Rightarrow> bool" where
  "baseline_rate_reset kind self =
     (case kind of
        PendingCommandKind.Rate rate \<Rightarrow>
          f64_le (distance rate NORMAL_PLAYBACK_RATE) rate_tolerance
          \<and> is_some_and (pc_rate_override self) ro_reset_requested
      | _ \<Rightarrow> False)"

definition command_refused :: "f64 \<Rightarrow> PendingCommandKind \<Rightarrow> PlaybackCoordinator \<Rightarrow> bool" where
  "command_refused now_seconds kind self \<longleftrightarrow>
     (\<not> baseline_rate_reset kind self \<and> kind \<noteq> PendingCommandKind.Pause
      \<and> (pc_command_budget_degraded self
         \<or> cf_command_retry_budget (pc_config self) < pc_failed_command_attempts self))
     \<or> f64_lt now_seconds (pc_retry_not_before_seconds self)
     \<or> list_ex (\<lambda>pending. same_kind (cm_kind pending) kind) (pc_pending_commands self)"

definition issue_command ::
  "u64 \<Rightarrow> f64 \<Rightarrow> PendingCommandKind \<Rightarrow> CoordinatorPlayerCommand \<Rightarrow> PlaybackCoordinator
     \<Rightarrow> CoordinatorCommandId option \<times> PlaybackCoordinator" where
  "issue_command revision now_seconds kind command self =
     (if command_refused now_seconds kind self then (None, self)
      else
        let reset = baseline_rate_reset kind self;
            self = (if is_seek kind then invalidate_cache_metrics_for_seek self else self);
            self = self\<lparr>pc_next_command_id := max (saturating_add (pc_next_command_id self) 1) 1\<rparr>;
            command_id = pc_next_command_id self;
            self = self\<lparr>pc_pending_commands := pc_pending_commands self
              @ [\<lparr>cm_id = command_id, cm_revision = revision, cm_issued_at_seconds = now_seconds,
                   cm_accepted = False, cm_kind = kind\<rparr>]\<rparr>;
            self = (if reset
              then self\<lparr>pc_rate_override := map_option (\<lambda>r. r\<lparr>ro_reset_command_observation_sequence :=
                     Some (pc_observation_sequence self)\<rparr>) (pc_rate_override self)\<rparr>
              else self)
        in (Some command_id, push_action (PlaybackCoordinatorAction.Execute command_id command) self))"

definition issue_pause :: "DesiredRoomPlayback \<Rightarrow> ObservedState \<Rightarrow> PlaybackCoordinator \<Rightarrow> PlaybackCoordinator" where
  "issue_pause desired observed self =
     (if os_logical_pause observed \<noteq> Some True
      then snd (issue_command (dp_state_revision desired) (os_observed_at_seconds observed)
                  PendingCommandKind.Pause (CoordinatorPlayerCommand.SetPaused True) self)
      else self)"

definition issue_seek ::
  "u64 \<Rightarrow> f64 \<Rightarrow> f64 \<Rightarrow> u64 \<Rightarrow> bool \<Rightarrow> PlaybackCoordinator \<Rightarrow> CoordinatorCommandId option \<times> PlaybackCoordinator" where
  "issue_seek revision now_seconds target restart_sequence alternative self =
     issue_command revision now_seconds (PendingCommandKind.Seek target restart_sequence alternative)
       (CoordinatorPlayerCommand.SetPosition target) self"

definition reconcile_rate_override ::
  "ObservedState \<Rightarrow> f64 \<Rightarrow> PlaybackCoordinator \<Rightarrow> PlaybackCoordinator" where
  "reconcile_rate_override observed command_now_seconds self =
     (case pc_rate_override self of
        None \<Rightarrow> self
      | Some rate_override \<Rightarrow>
          if \<not> ro_reset_requested rate_override
             \<and> is_some_and (pc_recovery self) (\<lambda>episode. re_id episode = ro_episode_id rate_override)
          then self
          else
            let self = (if ro_reset_requested rate_override then self else request_rate_reset self);
                baseline_confirmed_after_reset_command =
                  is_some_and (pc_rate_override self) (\<lambda>rate_override.
                    is_some_and (ro_reset_command_observation_sequence rate_override) (\<lambda>issued_after_sequence.
                      is_some_and (pc_last_playback_rate_observation_sequence self)
                        (\<lambda>observed_sequence. issued_after_sequence < observed_sequence)
                      \<and> is_some_and (os_playback_rate observed)
                          (\<lambda>rate. f64_le (distance rate NORMAL_PLAYBACK_RATE) rate_tolerance)))
            in if baseline_confirmed_after_reset_command then self\<lparr>pc_rate_override := None\<rparr>
               else snd (issue_command (unwrap_or (desired_revision self) 0) command_now_seconds
                 (PendingCommandKind.Rate NORMAL_PLAYBACK_RATE)
                 (CoordinatorPlayerCommand.SetPlaybackRate NORMAL_PLAYBACK_RATE) self))"

section \<open>Recovery\<close>

definition enter_degraded_recovery :: "DegradedPlaybackReason \<Rightarrow> PlaybackCoordinator \<Rightarrow> PlaybackCoordinator" where
  "enter_degraded_recovery reason self =
     (if is_some_and (pc_recovery self) re_degraded then self
      else
        let self = modify_recovery (\<lambda>e. e\<lparr>re_degraded := True, re_decision_made := True,
              re_catchup_active := False, re_seek_active := False, re_catchup_deadline_seconds := None\<rparr>) self;
            self = modify_metrics (\<lambda>m. m\<lparr>pm_degraded_recovery_count :=
              saturating_add (pm_degraded_recovery_count m) 1\<rparr>) self;
            self = request_rate_reset self;
            self = self\<lparr>pc_diagnostic := PlaybackDiagnostic.Degraded\<rparr>
        in push_action (PlaybackCoordinatorAction.Degraded (generation_or_default self)
             (map_option re_id (pc_recovery self)) reason) self)"

definition open_recovery :: "f64 \<Rightarrow> f64 option \<Rightarrow> bool \<Rightarrow> PlaybackCoordinator \<Rightarrow> PlaybackCoordinator" where
  "open_recovery entered_at_seconds baseline frozen self =
     (let self = self\<lparr>pc_next_recovery_episode_id := max (saturating_add (pc_next_recovery_episode_id self) 1) 1\<rparr>
      in self\<lparr>pc_recovery := Some
           \<lparr>re_id = pc_next_recovery_episode_id self, re_media_generation = generation_or_default self,
            re_entered_at_seconds = entered_at_seconds, re_hard_seek_attempts = 0,
            re_post_cache_baseline_at_seconds = baseline, re_stable_since_seconds = None,
            re_catchup_deadline_seconds = None, re_decision_made = False,
            re_cache_metrics_frozen_until_decision = frozen, re_catchup_active = False,
            re_seek_active = False, re_gentle_catchup_only = False, re_degraded = False\<rparr>\<rparr>)"

definition begin_recovery_handoff :: "f64 \<Rightarrow> PlaybackCoordinator \<Rightarrow> PlaybackCoordinator" where
  "begin_recovery_handoff now_seconds self =
     (if pc_recovery self \<noteq> None then self else open_recovery now_seconds (Some now_seconds) True self)"

definition update_recovery_episode ::
  "ObservedState \<Rightarrow> bool \<Rightarrow> bool \<Rightarrow> PlaybackCoordinator \<Rightarrow> DegradedPlaybackReason option \<times> PlaybackCoordinator" where
  "update_recovery_episode observed advancing position_sampled self =
     (if os_paused_for_cache observed \<or> os_phase observed = PlayerTransportPhase.Rebuffering
      then
        let hard_seek_rebuffered = is_some_and (pc_recovery self) (\<lambda>episode.
              re_seek_active episode \<and> 0 < re_hard_seek_attempts episode \<and> \<not> re_degraded episode);
            self = (if pc_recovery self = None
              then open_recovery (os_observed_at_seconds observed) None False
                (modify_metrics (\<lambda>m. m\<lparr>pm_buffer_episode_count :=
                   saturating_add (pm_buffer_episode_count m) 1\<rparr>) self)
              else modify_recovery (\<lambda>e. e\<lparr>re_post_cache_baseline_at_seconds := None,
                     re_stable_since_seconds := None\<rparr>) self)
        in (if hard_seek_rebuffered then Some DegradedPlaybackReason.HardSeekBudgetExhausted else None,
            self\<lparr>pc_diagnostic := PlaybackDiagnostic.Rebuffering\<rparr>)
      else
        (None,
         case pc_recovery self of
           None \<Rightarrow> self
         | Some episode \<Rightarrow>
             let episode =
                   (if os_seeking observed
                    then episode\<lparr>re_post_cache_baseline_at_seconds := None, re_stable_since_seconds := None\<rparr>
                    else if re_post_cache_baseline_at_seconds episode = None \<and> position_sampled
                    then episode\<lparr>re_post_cache_baseline_at_seconds := Some (os_observed_at_seconds observed)\<rparr>
                    else if position_sampled
                    then if advancing
                      then episode\<lparr>re_stable_since_seconds :=
                             opt_else (re_stable_since_seconds episode) (Some (os_observed_at_seconds observed))\<rparr>
                      else episode\<lparr>re_stable_since_seconds := None\<rparr>
                    else episode)
             in self\<lparr>pc_recovery := Some episode,
                  pc_diagnostic :=
                    (if re_seek_active episode then PlaybackDiagnostic.RecoveringBySeek
                     else if re_catchup_active episode then PlaybackDiagnostic.RecoveringByCatchup
                     else PlaybackDiagnostic.Starting)\<rparr>))"

definition catchup_rate :: "RecoveryEpisode \<Rightarrow> PlaybackCoordinator \<Rightarrow> f64" where
  "catchup_rate episode self =
     (let full_catchup_rate_allowed =
            (\<not> re_gentle_catchup_only episode \<and> observation_has_catchup_headroom (pc_metrics self))
      in if full_catchup_rate_allowed then cf_maximum_catchup_rate (pc_config self)
         else f64_min (cf_maximum_catchup_rate (pc_config self)) CONSERVATIVE_CATCHUP_RATE_WITHOUT_HEADROOM)"

definition catchup_deadline_after :: "f64 \<Rightarrow> f64 \<Rightarrow> PlaybackCoordinatorConfig \<Rightarrow> f64" where
  "catchup_deadline_after rate lag config =
     (let rate_gain = f64_max (f64_sub rate NORMAL_PLAYBACK_RATE) (Fin 0);
          expected_convergence_seconds = (if f64_lt f64_epsilon rate_gain then f64_div lag rate_gain
            else cf_stability_interval_seconds config)
      in f64_min
           (f64_max
              (f64_add (f64_mul expected_convergence_seconds (Fin (3 / 2))) (cf_stability_interval_seconds config))
              (f64_add (cf_command_timeout_seconds config) (cf_stability_interval_seconds config)))
           MAXIMUM_CATCHUP_EPISODE_SECONDS)"

definition begin_catchup ::
  "DesiredRoomPlayback \<Rightarrow> ObservedState \<Rightarrow> RecoveryEpisode \<Rightarrow> f64 \<Rightarrow> PlaybackCoordinator \<Rightarrow> PlaybackCoordinator" where
  "begin_catchup desired observed episode lag self =
     (let self = modify_metrics (\<lambda>m. m\<lparr>pm_gentle_catchup_count :=
            saturating_add (pm_gentle_catchup_count m) 1\<rparr>) self;
          self = modify_recovery (\<lambda>e. e\<lparr>re_catchup_active := True\<rparr>) self;
          rate = catchup_rate episode self;
          deadline_after = catchup_deadline_after rate lag (pc_config self);
          self = modify_recovery (\<lambda>e. e\<lparr>re_catchup_deadline_seconds :=
            Some (f64_add (os_observed_at_seconds observed) deadline_after)\<rparr>) self;
          self = self\<lparr>pc_rate_override := Some \<lparr>ro_episode_id = re_id episode, ro_reset_requested = False,
            ro_reset_command_observation_sequence = None\<rparr>\<rparr>
      in snd (issue_command (dp_state_revision desired) (os_observed_at_seconds observed)
           (PendingCommandKind.Rate rate) (CoordinatorPlayerCommand.SetPlaybackRate rate) self))"

definition begin_hard_seek ::
  "DesiredRoomPlayback \<Rightarrow> ObservedState \<Rightarrow> f64 \<Rightarrow> PlaybackCoordinator \<Rightarrow> PlaybackCoordinator option" where
  "begin_hard_seek desired observed room_position self = do {
     target \<leftarrow> clamp_seek_target room_position observed self;
     let self = modify_metrics (\<lambda>m. m\<lparr>pm_hard_seek_count := saturating_add (pm_hard_seek_count m) 1\<rparr>) self;
         self = modify_recovery (\<lambda>e. e\<lparr>re_hard_seek_attempts := saturating_add_u32 (re_hard_seek_attempts e) 1,
           re_seek_active := True, re_post_cache_baseline_at_seconds := None,
           re_stable_since_seconds := None\<rparr>) self
     in Some (snd (issue_seek (dp_state_revision desired) (os_observed_at_seconds observed) target
          (os_playback_restart_sequence observed) False self))
   }"

definition decide_recovery ::
  "DesiredRoomPlayback \<Rightarrow> ObservedState \<Rightarrow> RecoveryEpisode \<Rightarrow> f64 \<Rightarrow> f64 \<Rightarrow> PlaybackCoordinator
     \<Rightarrow> PlaybackCoordinator option" where
  "decide_recovery desired observed episode room_position lag self =
     (let config = pc_config self;
          policy = cf_recovery_policy config;
          negligible = f64_le lag (cf_negligible_lag_seconds config)
      in if policy = RecoveryPolicy.PreserveContent then Some self
         else if policy = RecoveryPolicy.PauseRoom
         then Some (push_action (PlaybackCoordinatorAction.RequestRoomPause (re_id episode)) self)
         else if policy = RecoveryPolicy.Balanced \<and> negligible then Some self
         else if f64_lt (cf_negligible_lag_seconds config) lag
           \<and> ((policy = RecoveryPolicy.Balanced \<and> f64_lt lag (cf_hard_seek_threshold_seconds config))
              \<or> (re_gentle_catchup_only episode
                 \<and> f64_le lag (cf_nearest_buffered_target_limit_seconds config)))
         then Some (if is_some_and (pc_media self) (\<lambda>media. allows_rate_correction (ms_kind media))
                    then begin_catchup desired observed episode lag self
                    else enter_degraded_recovery DegradedPlaybackReason.NonSeekableLag self)
         else if negligible then Some self
         else if re_gentle_catchup_only episode
         then Some (enter_degraded_recovery DegradedPlaybackReason.CatchupDidNotConverge self)
         else if observed_seekable observed self
           \<and> re_hard_seek_attempts episode < cf_maximum_hard_seeks_per_episode config
         then begin_hard_seek desired observed room_position self
         else Some (enter_degraded_recovery
           (if observed_seekable observed self then DegradedPlaybackReason.HardSeekBudgetExhausted
            else DegradedPlaybackReason.NonSeekableLag) self))"

definition settle_recovery :: "ObservedState \<Rightarrow> f64 \<Rightarrow> PlaybackCoordinator \<Rightarrow> PlaybackCoordinator" where
  "settle_recovery observed lag self =
     (let config = pc_config self;
          stable_interval_elapsed = is_some_and (pc_recovery self) (\<lambda>episode.
            is_some_and (re_stable_since_seconds episode) (\<lambda>since.
              f64_le (cf_stability_interval_seconds config) (f64_sub (os_observed_at_seconds observed) since)));
          converged = f64_le lag (cf_negligible_lag_seconds config);
          catchup_timed_out = is_some_and (pc_recovery self) (\<lambda>episode.
            re_catchup_active episode
            \<and> is_some_and (re_catchup_deadline_seconds episode) (\<lambda>deadline.
                f64_le deadline (os_observed_at_seconds observed)))
      in if catchup_timed_out \<and> \<not> converged
         then enter_degraded_recovery DegradedPlaybackReason.CatchupDidNotConverge self
         else
           let seek_failed_to_converge = is_some_and (pc_recovery self) re_seek_active;
               degraded_reason =
                 (if cf_recovery_policy config \<in> {RecoveryPolicy.PreserveContent, RecoveryPolicy.PauseRoom}
                  then Some DegradedPlaybackReason.NonSeekableLag
                  else if seek_failed_to_converge then Some DegradedPlaybackReason.HardSeekBudgetExhausted
                  else None);
               self = (if stable_interval_elapsed \<and> \<not> converged
                 then (case degraded_reason of None \<Rightarrow> self | Some reason \<Rightarrow> enter_degraded_recovery reason self)
                 else self)
           in if converged \<and> stable_interval_elapsed
              then close_recovery_with_metrics (os_observed_at_seconds observed) self else self)"

definition coordinate_recovery ::
  "DesiredRoomPlayback \<Rightarrow> ObservedState \<Rightarrow> bool \<Rightarrow> bool \<Rightarrow> PlaybackCoordinator \<Rightarrow> PlaybackCoordinator option" where
  "coordinate_recovery desired observed skew_evidence_is_fresh advancing self =
     (case pc_recovery self of
        None \<Rightarrow> Some self
      | Some episode \<Rightarrow>
          if os_paused_for_cache observed \<or> os_seeking observed \<or> \<not> advancing
             \<or> is_none_or (re_post_cache_baseline_at_seconds episode)
                 (\<lambda>baseline. f64_le (os_observed_at_seconds observed) baseline)
          then Some self
          else
            let room_position = position_at desired (os_observed_at_seconds observed);
                local_position = unwrap_or (os_position_seconds observed) room_position;
                lag = f64_max (f64_sub room_position local_position) (Fin 0);
                self = (if skew_evidence_is_fresh
                  then modify_metrics (\<lambda>m. m\<lparr>pm_steady_state_skew_seconds :=
                         Some (f64_sub local_position room_position)\<rparr>) self
                  else self)
            in do {
              self \<leftarrow> (if re_decision_made episode then Some self
                else do {
                  self \<leftarrow> decide_recovery desired observed episode room_position lag self;
                  Some (modify_recovery (\<lambda>e. e\<lparr>re_decision_made := True\<rparr>) self)
                });
              Some (settle_recovery observed lag self)
            })"

end
