(* ===== verification/Playback_Preparation.thy ===== *)
theory Playback_Preparation
  imports Playback_Coordinator
begin

text \<open>
  The preparation of seeks into data that is not buffered, the completion of commands by
  observation, and the reconciliation of the player with what the room asks for.
\<close>

section \<open>Beginning and finishing a preparation\<close>

definition finish_seek_preparation ::
  "SeekPreparationTerminalOutcome \<Rightarrow> PlaybackCoordinator \<Rightarrow> PlaybackCoordinator" where
  "finish_seek_preparation outcome self =
     (case pc_seek_preparation self of
        None \<Rightarrow> self
      | Some episode \<Rightarrow>
          let self = self\<lparr>pc_seek_preparation := None\<rparr>;
              self = (if outcome = SeekPreparationTerminalOutcome.Ready
                then modify_metrics (\<lambda>m. m\<lparr>pm_last_buffered_ahead_seconds := sp_buffered_ahead_seconds episode,
                       pm_last_input_rate_bytes_per_second := sp_input_rate_bytes_per_second episode\<rparr>) self
                else self);
              self = (case sp_primary_seek_command_id episode of
                  None \<Rightarrow> self
                | Some command_id \<Rightarrow> retain_commands (\<lambda>c. cm_id c \<noteq> command_id) self);
              episode = (if outcome = SeekPreparationTerminalOutcome.Ready
                then episode\<lparr>sp_phase := SeekPreparationPhase.ReadyToJoin\<rparr> else episode)
          in self\<lparr>pc_last_seek_preparation_terminal := Some (episode_snapshot episode (Some outcome))\<rparr>)"

text \<open>The four places that finish with a failure and take the current revision as satisfied.\<close>

definition fail_seek_preparation ::
  "SeekPreparationDegradedReason \<Rightarrow> PlaybackCoordinator \<Rightarrow> PlaybackCoordinator" where
  "fail_seek_preparation reason self =
     (finish_seek_preparation (SeekPreparationTerminalOutcome.Degraded reason) self)
       \<lparr>pc_desired_seek_satisfied_revision := desired_revision self\<rparr>"

definition nearest_if_uncached ::
  "MediaTransportKind \<Rightarrow> SeekTargetAvailability \<Rightarrow> f64 \<Rightarrow> PlaybackCoordinator \<Rightarrow> f64 option option" where
  "nearest_if_uncached kind availability requested_target self =
     (if availability \<in> {SeekTargetAvailability.FetchRequired, SeekTargetAvailability.Unknown}
      then nearest_buffered_target kind requested_target (pc_cached_seekable_ranges self)
             (cf_nearest_buffered_target_limit_seconds (pc_config self))
      else Some None)"

definition new_preparation ::
  "DesiredRoomPlayback \<Rightarrow> MediaState \<Rightarrow> f64 \<Rightarrow> f64 \<Rightarrow> SeekTargetAvailability \<Rightarrow> f64 option \<Rightarrow> PlaybackCoordinator
     \<Rightarrow> SeekPreparationEpisode" where
  "new_preparation desired media requested_target frozen_target availability nearest self =
     \<lparr>sp_id = pc_next_seek_preparation_id self, sp_media_generation = ms_generation media,
      sp_load_attempt = ms_load_attempt media, sp_room_revision = dp_state_revision desired,
      sp_latest_room_revision = dp_state_revision desired, sp_latest_room_paused = dp_paused desired,
      sp_requested_target_seconds = requested_target, sp_frozen_target_seconds = frozen_target,
      sp_frozen_room_anchor_position_seconds = dp_anchor_position_seconds desired,
      sp_frozen_room_anchor_observed_at_seconds = dp_anchor_observed_at_seconds desired,
      sp_latest_room_position_seconds = requested_target, sp_availability = availability,
      sp_phase = SeekPreparationPhase.Seeking, sp_cache_buffering_percent = None,
      sp_buffered_ahead_seconds = None, sp_input_rate_bytes_per_second = None,
      sp_nearest_safe_buffered_position_seconds = nearest,
      sp_started_at_seconds = dp_anchor_observed_at_seconds desired,
      sp_deadline_seconds = f64_add (dp_anchor_observed_at_seconds desired)
        (cf_seek_preparation_timeout_seconds (pc_config self)),
      sp_primary_seek_command_id = None, sp_primary_seek_issued = False,
      sp_primary_seek_observation_sequence = None, sp_refill_started_observation_sequence = None,
      sp_refill_released_after_seek = False, sp_stable_playable_since = None\<rparr>"

definition freeze_target ::
  "MediaTransportKind \<Rightarrow> f64 \<Rightarrow> PlayerSeekableRange option \<Rightarrow> f64 option" where
  "freeze_target kind requested_target live_window =
     (if kind = MediaTransportKind.LiveSliding
      then do {
        clamped \<leftarrow> clamp_to_live_seekable_window requested_target live_window;
        Some (unwrap_or clamped requested_target)
      }
      else Some requested_target)"

definition begin_seek_preparation_if_needed ::
  "DesiredRoomPlayback \<Rightarrow> PlaybackCoordinator \<Rightarrow> PlaybackCoordinator option" where
  "begin_seek_preparation_if_needed desired self =
     (case pc_media self of
        None \<Rightarrow> Some self
      | Some media \<Rightarrow>
          if ms_kind media = MediaTransportKind.LocalFile then Some self
          else
            let requested_target = position_at desired (dp_anchor_observed_at_seconds desired);
                live_window = Option.bind (pc_observed self) os_known_live_seekable_window;
                availability = classify_seek_target (ms_kind media) (Option.bind (pc_observed self) os_seekable)
                  (pc_cached_seekable_ranges self) live_window requested_target
            in if availability = SeekTargetAvailability.Cached then Some self
               else do {
                 let self = self\<lparr>pc_next_seek_preparation_id :=
                   max (saturating_add (pc_next_seek_preparation_id self) 1) 1\<rparr>;
                 frozen_target \<leftarrow> freeze_target (ms_kind media) requested_target live_window;
                 nearest \<leftarrow> nearest_if_uncached (ms_kind media) availability requested_target self;
                 let self = self\<lparr>pc_seek_preparation :=
                   Some (new_preparation desired media requested_target frozen_target availability nearest self)\<rparr>;
                 let self = close_recovery_without_metrics self;
                 Some (if availability = SeekTargetAvailability.NonSeekable
                   then finish_seek_preparation
                     (SeekPreparationTerminalOutcome.Degraded SeekPreparationDegradedReason.NonSeekable) self
                   else if availability = SeekTargetAvailability.OutsideLiveWindow
                     \<and> pc_cached_seekable_ranges self = Some []
                   then finish_seek_preparation
                     (SeekPreparationTerminalOutcome.Degraded SeekPreparationDegradedReason.OutsideLiveWindow) self
                   else self)
               })"

definition mark_seek_preparation_primary_issued ::
  "CoordinatorCommandId option \<Rightarrow> PlaybackCoordinator \<Rightarrow> PlaybackCoordinator" where
  "mark_seek_preparation_primary_issued command_id self =
     invalidate_cache_metrics_for_seek
       (modify_seek_preparation (\<lambda>e. e\<lparr>sp_primary_seek_issued := True,
          sp_primary_seek_command_id := command_id,
          sp_primary_seek_observation_sequence := Some (pc_observation_sequence self),
          sp_cache_buffering_percent := None, sp_buffered_ahead_seconds := None,
          sp_input_rate_bytes_per_second := None, sp_refill_started_observation_sequence := None,
          sp_refill_released_after_seek := False, sp_stable_playable_since := None\<rparr>) self)"

section \<open>Evidence for a preparation\<close>

definition seek_preparation_accepts_target_cache_evidence ::
  "ObservedState \<Rightarrow> PlayerTransportObservation \<Rightarrow> bool \<Rightarrow> PlaybackCoordinator \<Rightarrow> bool" where
  "seek_preparation_accepts_target_cache_evidence observed observation evidence_is_fresh self =
     is_some_and (pc_seek_preparation self) (\<lambda>episode.
       let target = sp_frozen_target_seconds episode;
           source_position_is_target = is_some_and (tp_position_seconds observation) (\<lambda>position.
             f64_is_finite position \<and> near self position target);
           source_ranges_cover_target = is_some_and (tp_seekable_ranges observation) (\<lambda>ranges.
             list_ex (\<lambda>r. f64_is_finite (sr_start_seconds r) \<and> f64_is_finite (sr_end_seconds r)
               \<and> f64_le (sr_start_seconds r) target \<and> f64_le target (sr_end_seconds r)) ranges)
       in sp_primary_seek_issued episode
          \<and> is_some_and (sp_primary_seek_observation_sequence episode)
              (\<lambda>sequence. sequence < pc_observation_sequence self)
          \<and> evidence_is_fresh
          \<and> is_some_and (os_position_seconds observed) (\<lambda>position. near self position target)
          \<and> (source_position_is_target \<or> source_ranges_cover_target))"

definition record_target_evidence ::
  "PlayerTransportObservation \<Rightarrow> SeekPreparationEpisode \<Rightarrow> SeekPreparationEpisode option" where
  "record_target_evidence observation episode = do {
     episode \<leftarrow> (case opt_filter f64_is_finite (tp_cache_buffering_percent observation) of
         None \<Rightarrow> Some episode
       | Some percent \<Rightarrow> do {
           percent \<leftarrow> f64_clamp percent (Fin 0) (Fin 100);
           Some (episode\<lparr>sp_cache_buffering_percent := Some percent\<rparr>)
         });
     let episode = (case opt_filter (\<lambda>s. f64_is_finite s \<and> f64_le (Fin 0) s) (tp_buffered_ahead_seconds observation) of
         None \<Rightarrow> episode
       | Some seconds \<Rightarrow> episode\<lparr>sp_buffered_ahead_seconds := Some seconds\<rparr>);
     Some (case tp_input_rate_bytes_per_second observation of
         None \<Rightarrow> episode
       | Some bytes_per_second \<Rightarrow> episode\<lparr>sp_input_rate_bytes_per_second := Some bytes_per_second\<rparr>)
   }"

definition target_reached :: "ObservedState \<Rightarrow> SeekPreparationEpisode \<Rightarrow> PlaybackCoordinator \<Rightarrow> bool" where
  "target_reached observed episode self =
     is_some_and (os_position_seconds observed) (\<lambda>position. near self position (sp_frozen_target_seconds episode))"

text \<open>The readiness of the transport at the target and the two ways in which it is shown to be stable.\<close>

definition judge_readiness ::
  "ObservedState \<Rightarrow> PlayerTransportObservation \<Rightarrow> bool \<Rightarrow> PlaybackCoordinator \<Rightarrow> SeekPreparationEpisode
     \<Rightarrow> bool \<times> SeekPreparationEpisode" where
  "judge_readiness observed observation evidence_is_fresh self episode =
     (let config = pc_config self;
          at_target = target_reached observed episode self;
          post_seek_observation =
            (is_some_and (sp_primary_seek_observation_sequence episode)
               (\<lambda>sequence. sequence < pc_observation_sequence self) \<and> evidence_is_fresh);
          refill_started = (post_seek_observation
            \<and> (tp_paused_for_cache observation = Some True \<or> is_some_and (tp_phase observation) buffering_phase));
          episode = (if refill_started
            then episode\<lparr>sp_refill_started_observation_sequence := Some (pc_observation_sequence self),
              sp_refill_released_after_seek := False, sp_stable_playable_since := None\<rparr>
            else episode);
          transport_ready = (sp_primary_seek_issued episode \<and> post_seek_observation
            \<and> playable_phase (os_phase observed) \<and> \<not> os_seeking observed \<and> at_target
            \<and> \<not> os_paused_for_cache observed);
          fresh_playable_or_cache_release =
            (is_some_and (tp_phase observation) playable_phase \<or> tp_paused_for_cache observation = Some False);
          episode = (if transport_ready \<and> fresh_playable_or_cache_release
              \<and> is_some_and (sp_refill_started_observation_sequence episode)
                  (\<lambda>sequence. sequence < pc_observation_sequence self)
            then episode\<lparr>sp_refill_released_after_seek := True\<rparr> else episode);
          minimum_headroom_ready = is_some_and (sp_buffered_ahead_seconds episode)
            (\<lambda>seconds. f64_le (cf_seek_preparation_minimum_headroom_seconds config) seconds);
          refill_progress_ready = is_some_and (sp_cache_buffering_percent episode)
            (\<lambda>percent. f64_le (Fin 100) percent);
          quantitative_cache_telemetry_observed =
            (sp_buffered_ahead_seconds episode \<noteq> None \<or> sp_cache_buffering_percent episode \<noteq> None);
          fresh_aligned_playable_observation =
            (is_some_and (tp_phase observation) playable_phase
             \<or> is_some_and (tp_position_seconds observation)
                 (\<lambda>position. near self position (sp_frozen_target_seconds episode)));
          (telemetry_poor_stable, episode) =
            (if transport_ready \<and> \<not> quantitative_cache_telemetry_observed
                \<and> sp_refill_started_observation_sequence episode = None
                \<and> fresh_aligned_playable_observation
             then (case sp_stable_playable_since episode of
                 Some (sequence, since_seconds) \<Rightarrow>
                   (sequence < pc_observation_sequence self
                    \<and> f64_le (f64_min (cf_stability_interval_seconds config)
                                SEEK_PREPARATION_MAX_STABILIZATION_SECONDS)
                        (f64_sub (os_observed_at_seconds observed) since_seconds), episode)
               | None \<Rightarrow>
                   (False, episode\<lparr>sp_stable_playable_since :=
                      Some (pc_observation_sequence self, os_observed_at_seconds observed)\<rparr>))
             else (False, episode\<lparr>sp_stable_playable_since := None\<rparr>))
      in (transport_ready \<and> (minimum_headroom_ready \<or> refill_progress_ready
            \<or> sp_refill_released_after_seek episode \<or> telemetry_poor_stable), episode))"

definition preparation_phase ::
  "ObservedState \<Rightarrow> SeekTargetAvailability \<Rightarrow> bool \<Rightarrow> SeekPreparationEpisode \<Rightarrow> SeekPreparationPhase" where
  "preparation_phase observed availability at_target episode =
     (if os_seeking observed \<or> \<not> sp_primary_seek_issued episode then SeekPreparationPhase.Seeking
      else if os_paused_for_cache observed \<or> buffering_phase (os_phase observed)
      then if at_target then SeekPreparationPhase.Refilling else SeekPreparationPhase.Fetching
      else if availability \<in> {SeekTargetAvailability.FetchRequired, SeekTargetAvailability.Unknown}
        \<and> \<not> at_target
      then SeekPreparationPhase.Fetching
      else SeekPreparationPhase.Refilling)"

definition complete_seek_preparation :: "ObservedState \<Rightarrow> u64 \<Rightarrow> PlaybackCoordinator \<Rightarrow> PlaybackCoordinator" where
  "complete_seek_preparation observed revision self =
     (let paused_alignment_needed = is_some_and (pc_desired self) (\<lambda>desired.
            dp_paused desired
            \<and> is_none_or (os_position_seconds observed) (\<lambda>position.
                f64_lt (cf_position_tolerance_seconds (pc_config self))
                  (distance position (position_at desired (os_observed_at_seconds observed)))));
          self = (if os_logical_pause observed = Some True
            then self\<lparr>pc_completed_seek_restart_baseline := Some (os_playback_restart_sequence observed)\<rparr>
            else self);
          self = self\<lparr>pc_desired_seek_satisfied_revision :=
            (if paused_alignment_needed then None else Some revision)\<rparr>;
          self = finish_seek_preparation SeekPreparationTerminalOutcome.Ready self
      in if is_some_and (pc_desired self) (\<lambda>desired. \<not> dp_paused desired)
         then begin_recovery_handoff (os_observed_at_seconds observed) self else self)"

text \<open>The new availability, the nearest buffered position and, for a live window, the target clamped to it.\<close>

definition retarget_preparation ::
  "ObservedState \<Rightarrow> MediaTransportKind \<Rightarrow> SeekTargetAvailability \<Rightarrow> PlaybackCoordinator \<Rightarrow> SeekPreparationEpisode
     \<Rightarrow> SeekPreparationEpisode option" where
  "retarget_preparation observed kind availability self current = do {
     let requested_target = sp_requested_target_seconds current;
     let latest_room_position = sp_latest_room_position_seconds current;
     nearest \<leftarrow> nearest_if_uncached kind availability requested_target self;
     let nearest = opt_filter (\<lambda>candidate.
       f64_le candidate (f64_add latest_room_position (cf_position_tolerance_seconds (pc_config self)))
       \<and> f64_le (f64_sub latest_room_position candidate)
           (cf_nearest_buffered_target_limit_seconds (pc_config self))) nearest;
     let episode = current\<lparr>sp_availability := availability,
       sp_nearest_safe_buffered_position_seconds := nearest\<rparr>;
     if kind = MediaTransportKind.LiveSliding
       \<and> availability = SeekTargetAvailability.OutsideLiveWindow
       \<and> \<not> sp_primary_seek_issued episode
     then do {
       clamped \<leftarrow> clamp_to_live_seekable_window requested_target (os_known_live_seekable_window observed);
       Some (case clamped of None \<Rightarrow> episode
         | Some clamped \<Rightarrow> episode\<lparr>sp_frozen_target_seconds := clamped\<rparr>)
     }
     else Some episode
   }"

definition update_seek_preparation ::
  "ObservedState \<Rightarrow> PlayerTransportObservation \<Rightarrow> bool \<Rightarrow> bool \<Rightarrow> PlaybackCoordinator
     \<Rightarrow> PlaybackCoordinator option" where
  "update_seek_preparation observed observation evidence_is_fresh target_scoped_cache_evidence self =
     (case pc_media self of
        None \<Rightarrow> Some self
      | Some media \<Rightarrow>
        (case pc_seek_preparation self of
           None \<Rightarrow> Some self
         | Some current \<Rightarrow>
             if os_phase observed \<in> {PlayerTransportPhase.Ended, PlayerTransportPhase.Failed}
             then Some (push_action
               (PlaybackCoordinatorAction.Degraded (generation_or_default self) None
                  DegradedPlaybackReason.TransportFailed)
               (fail_seek_preparation SeekPreparationDegradedReason.TransportFailed self))
             else
               let availability = classify_seek_target (ms_kind media) (os_seekable observed)
                     (pc_cached_seekable_ranges self) (os_known_live_seekable_window observed)
                     (sp_requested_target_seconds current)
               in if availability = SeekTargetAvailability.NonSeekable
                  then Some (push_action
                    (PlaybackCoordinatorAction.Degraded (generation_or_default self) None
                       DegradedPlaybackReason.NonSeekableLag)
                    (fail_seek_preparation SeekPreparationDegradedReason.NonSeekable self))
                  else if availability = SeekTargetAvailability.OutsideLiveWindow
                    \<and> pc_cached_seekable_ranges self = Some []
                  then Some (fail_seek_preparation SeekPreparationDegradedReason.OutsideLiveWindow self)
                  else do {
                    episode \<leftarrow> retarget_preparation observed (ms_kind media) availability self current;
                    let at_target = target_reached observed episode self;
                    episode \<leftarrow> (if target_scoped_cache_evidence
                      then record_target_evidence observation episode else Some episode);
                    let (ready, episode) = judge_readiness observed observation evidence_is_fresh self episode;
                    let self = self\<lparr>pc_seek_preparation := Some episode\<rparr>;
                    Some (if ready
                      then complete_seek_preparation observed (sp_latest_room_revision episode) self
                      else self\<lparr>pc_seek_preparation := Some (episode\<lparr>sp_phase :=
                             preparation_phase observed availability at_target episode\<rparr>)\<rparr>)
                  }))"

section \<open>Commands completed by an observation\<close>

definition restart_satisfied :: "ObservedState \<Rightarrow> PlayerPlayIntent \<Rightarrow> bool" where
  "restart_satisfied observed intent =
     (case intent of
        PlayerPlayIntent.Resume \<Rightarrow> True
      | PlayerPlayIntent.StartAfterLoad baseline \<Rightarrow> baseline < os_playback_restart_sequence observed
      | PlayerPlayIntent.StartAfterSeek baseline \<Rightarrow> baseline < os_playback_restart_sequence observed)"

definition pending_completed ::
  "ObservedState \<Rightarrow> bool \<Rightarrow> f64 \<Rightarrow> PendingCommandKind \<Rightarrow> bool" where
  "pending_completed observed advancing tolerance kind =
     (case kind of
        PendingCommandKind.Pause \<Rightarrow> os_logical_pause observed = Some True
      | PendingCommandKind.Play baseline intent \<Rightarrow>
          let advanced_from_baseline = is_some_and baseline (\<lambda>baseline.
                is_some_and (os_position_seconds observed) (\<lambda>current.
                  f64_lt MIN_ADVANCEMENT_SECONDS (f64_sub current baseline)))
          in os_logical_pause observed = Some False \<and> \<not> os_paused_for_cache observed
             \<and> \<not> os_seeking observed \<and> restart_satisfied observed intent
             \<and> (advancing \<or> advanced_from_baseline)
      | PendingCommandKind.Seek target _ _ \<Rightarrow>
          \<not> os_seeking observed
          \<and> is_some_and (os_position_seconds observed) (\<lambda>position. f64_le (distance position target) tolerance)
      | PendingCommandKind.Rate rate \<Rightarrow>
          is_some_and (os_playback_rate observed) (\<lambda>r. \<not> f64_lt rate_tolerance (distance r rate)))"

text \<open>The assignments made for a completed seek while the commands are scanned.\<close>

definition note_completed_seek ::
  "ObservedState \<Rightarrow> PendingCommand \<Rightarrow> PlaybackCoordinator \<Rightarrow> PlaybackCoordinator" where
  "note_completed_seek observed command self =
     (let self = self\<lparr>pc_desired_seek_satisfied_revision := Some (cm_revision command)\<rparr>;
          self = (if pc_required_seek_dispatch_revision self = Some (cm_revision command)
            then self\<lparr>pc_required_seek_dispatch_revision := None\<rparr> else self)
      in if os_logical_pause observed = Some True
         then self\<lparr>pc_completed_seek_restart_baseline := Some (baseline_restart_sequence (cm_kind command))\<rparr>
         else self)"

definition complete_observed_commands :: "ObservedState \<Rightarrow> bool \<Rightarrow> PlaybackCoordinator \<Rightarrow> PlaybackCoordinator" where
  "complete_observed_commands observed advancing self =
     (let tolerance = cf_position_tolerance_seconds (pc_config self);
          completed = (\<lambda>c. pending_completed observed advancing tolerance (cm_kind c));
          completed_commands = filter completed (pc_pending_commands self);
          seeks = filter (\<lambda>c. is_seek (cm_kind c)) completed_commands;
          self = fold (note_completed_seek observed) seeks self;
          self = retain_commands (\<lambda>c. \<not> completed c) self;
          self = (if list_ex (\<lambda>c. is_play (cm_kind c)) completed_commands
            then self\<lparr>pc_completed_seek_restart_baseline := None\<rparr> else self)
      in if seeks \<noteq> []
         then modify_recovery (\<lambda>e. if re_seek_active e
                then e\<lparr>re_seek_active := False, re_decision_made := False, re_stable_since_seconds := None\<rparr>
                else e) self
         else self)"

section \<open>Reconciling the player with the room\<close>

definition record_start_latencies :: "DesiredRoomPlayback \<Rightarrow> ObservedState \<Rightarrow> PlaybackCoordinator \<Rightarrow> PlaybackCoordinator" where
  "record_start_latencies desired observed self =
     (let self = (case pc_media self of
            None \<Rightarrow> self
          | Some media \<Rightarrow>
              let latency = f64_sub (os_observed_at_seconds observed) (ms_prepared_at_seconds media)
              in if pm_first_frame_latency_seconds (pc_metrics self) = None \<and> f64_le (Fin 0) latency
                 then modify_metrics (\<lambda>m. m\<lparr>pm_first_frame_latency_seconds := Some latency\<rparr>) self
                 else self);
          start_latency = f64_sub (os_observed_at_seconds observed) (dp_anchor_observed_at_seconds desired)
      in if f64_le (Fin 0) start_latency
         then modify_metrics (\<lambda>m. m\<lparr>pm_started_ack_latency_seconds := Some start_latency\<rparr>) self
         else self)"

definition mark_revision_started ::
  "DesiredRoomPlayback \<Rightarrow> ObservedState \<Rightarrow> PlaybackCoordinator \<Rightarrow> PlaybackCoordinator" where
  "mark_revision_started desired observed self =
     (let revision = dp_state_revision desired;
          self = self\<lparr>pc_last_started_revision := Some revision\<rparr>;
          self = (if pc_authoritative_alignment_guard_revision self = Some revision
            then self\<lparr>pc_authoritative_alignment_guard_revision := None,
                   pc_required_seek_dispatch_revision := None\<rparr>
            else self);
          position = unwrap_or (os_position_seconds observed) (Fin 0);
          self = record_start_latencies desired observed self
      in push_action (PlaybackCoordinatorAction.Started (dp_media_generation desired) revision position) self)"

definition mark_revision_applied ::
  "DesiredRoomPlayback \<Rightarrow> ObservedState \<Rightarrow> bool \<Rightarrow> PlaybackCoordinator \<Rightarrow> PlaybackCoordinator" where
  "mark_revision_applied desired observed started self =
     (let revision = dp_state_revision desired;
          self = self\<lparr>pc_applied_observation_revision := Some (dp_media_generation desired, revision)\<rparr>;
          self = (if pc_last_applied_revision self \<noteq> Some revision
            then push_action (PlaybackCoordinatorAction.RevisionApplied (dp_media_generation desired) revision)
              (modify_metrics (\<lambda>m. m\<lparr>pm_applied_revision_count := saturating_add (pm_applied_revision_count m) 1\<rparr>)
                (self\<lparr>pc_last_applied_revision := Some revision\<rparr>))
            else self)
      in if started \<and> pc_last_started_revision self \<noteq> Some revision
         then mark_revision_started desired observed self else self)"

definition issue_seek_preparation_primary_seek ::
  "DesiredRoomPlayback \<Rightarrow> ObservedState \<Rightarrow> PlaybackCoordinator \<Rightarrow> bool \<times> PlaybackCoordinator" where
  "issue_seek_preparation_primary_seek desired observed self =
     (case pc_seek_preparation self of
        None \<Rightarrow> (False, self)
      | Some episode \<Rightarrow>
          if sp_primary_seek_issued episode \<or> transport_blocks_correction observed
             \<or> \<not> observed_seekable observed self
          then (False, self)
          else
            let target = sp_frozen_target_seconds episode;
                dispatch_required =
                  (pc_required_seek_dispatch_revision self = Some (dp_state_revision desired))
            in if \<not> dispatch_required
                  \<and> is_some_and (os_position_seconds observed) (\<lambda>position. near self position target)
               then (True, mark_seek_preparation_primary_issued None self)
               else if is_some_and (pc_media self) (\<lambda>media.
                   ms_kind media = MediaTransportKind.NetworkVod
                   \<and> os_timeline_kind observed = Some PlayerTimelineKind.Unknown
                   \<and> sp_availability episode \<noteq> SeekTargetAvailability.Cached)
               then (False, self)
               else if is_some_and (pc_media self) (\<lambda>media.
                   ms_kind media = MediaTransportKind.LiveSliding
                   \<and> sp_availability episode = SeekTargetAvailability.Unknown)
               then (False, self)
               else
                 let (command_id, self) = issue_seek (dp_state_revision desired)
                       (os_observed_at_seconds observed) target (os_playback_restart_sequence observed) False self
                 in (False, case command_id of
                       None \<Rightarrow> self
                     | Some command_id \<Rightarrow> mark_seek_preparation_primary_issued (Some command_id) self))"

definition unresolved_timeline :: "ObservedState \<Rightarrow> PlaybackCoordinator \<Rightarrow> bool" where
  "unresolved_timeline observed self =
     is_some_and (pc_media self) (\<lambda>media.
       case ms_kind media of
         MediaTransportKind.NetworkVod \<Rightarrow> os_timeline_kind observed = Some PlayerTimelineKind.Unknown
       | MediaTransportKind.LiveSliding \<Rightarrow> os_known_live_seekable_window observed = None
       | _ \<Rightarrow> False)"

definition issue_desired_seek_if_needed ::
  "DesiredRoomPlayback \<Rightarrow> ObservedState \<Rightarrow> PlaybackCoordinator \<Rightarrow> PlaybackCoordinator option" where
  "issue_desired_seek_if_needed desired observed self =
     (if desired_seek_is_satisfied desired self \<or> os_seeking observed then Some self
      else do {
        target \<leftarrow> clamp_seek_target (position_at desired (os_observed_at_seconds observed)) observed self;
        if pc_required_seek_dispatch_revision self \<noteq> Some (dp_state_revision desired)
          \<and> is_some_and (os_position_seconds observed) (\<lambda>position. near self position target)
        then Some (self\<lparr>pc_desired_seek_satisfied_revision := Some (dp_state_revision desired)\<rparr>)
        else if \<not> observed_seekable observed self
        then if is_some_and (pc_media self) (\<lambda>media. ms_kind media \<noteq> MediaTransportKind.LocalFile)
          then do {
            self \<leftarrow> begin_seek_preparation_if_needed desired self;
            let self = self\<lparr>pc_required_seek_dispatch_revision := None\<rparr>;
            let self = issue_pause desired observed self;
            Some (if last_seek_preparation_terminal_outcome self
                = Some (SeekPreparationTerminalOutcome.Degraded SeekPreparationDegradedReason.NonSeekable)
              then push_action (PlaybackCoordinatorAction.Degraded (dp_media_generation desired) None
                     DegradedPlaybackReason.NonSeekableLag) self
              else self)
          }
          else Some (self\<lparr>pc_desired_seek_satisfied_revision := Some (dp_state_revision desired),
            pc_required_seek_dispatch_revision := None\<rparr>)
        else if \<not> any_range_contains (pc_cached_seekable_ranges self) target \<and> unresolved_timeline observed self
        then do {
          self \<leftarrow> (if pc_seek_preparation self = None then begin_seek_preparation_if_needed desired self
            else Some self);
          Some (issue_pause desired observed self)
        }
        else Some (snd (issue_seek (dp_state_revision desired) (os_observed_at_seconds observed) target
          (os_playback_restart_sequence observed) False self))
      })"

definition play_intent_for :: "PlaybackCoordinator \<Rightarrow> PlayerPlayIntent" where
  "play_intent_for self =
     (case pc_completed_seek_restart_baseline self of
        Some baseline \<Rightarrow> PlayerPlayIntent.StartAfterSeek baseline
      | None \<Rightarrow>
          if pc_last_started_revision self = None
          then PlayerPlayIntent.StartAfterLoad (unwrap_or (map_option ms_load_restart_baseline (pc_media self)) 0)
          else PlayerPlayIntent.Resume)"

definition issue_play :: "DesiredRoomPlayback \<Rightarrow> ObservedState \<Rightarrow> PlaybackCoordinator \<Rightarrow> PlaybackCoordinator" where
  "issue_play desired observed self =
     (let intent = play_intent_for self in
      snd (issue_command (dp_state_revision desired) (os_observed_at_seconds observed)
        (PendingCommandKind.Play (os_position_seconds observed) intent)
        (CoordinatorPlayerCommand.Play intent) self))"

definition rearm_displaced_alignment ::
  "DesiredRoomPlayback \<Rightarrow> ObservedState \<Rightarrow> PlaybackCoordinator \<Rightarrow> PlaybackCoordinator option" where
  "rearm_displaced_alignment desired observed self =
     (let revision = dp_state_revision desired in
      if pc_authoritative_alignment_guard_revision self = Some revision
         \<and> pc_desired_seek_satisfied_revision self = Some revision
         \<and> pc_last_started_revision self \<noteq> Some revision \<and> \<not> os_seeking observed
      then do {
        target \<leftarrow> clamp_seek_target (position_at desired (os_observed_at_seconds observed)) observed self;
        Some (if is_none_or (os_position_seconds observed) (\<lambda>position.
              f64_lt (cf_position_tolerance_seconds (pc_config self)) (distance position target))
          then issue_pause desired observed
            (retain_commands (\<lambda>c. cm_revision c \<noteq> revision \<or> \<not> is_play (cm_kind c))
              (self\<lparr>pc_desired_seek_satisfied_revision := None,
                pc_required_seek_dispatch_revision := Some revision\<rparr>))
          else self)
      }
      else Some self)"

definition advance_active_preparation ::
  "DesiredRoomPlayback \<Rightarrow> ObservedState \<Rightarrow> PlayerTransportObservation \<Rightarrow> bool \<Rightarrow> PlaybackCoordinator
     \<Rightarrow> PlaybackCoordinator option" where
  "advance_active_preparation desired observed observation evidence_is_fresh self =
     (let self = issue_pause desired observed self;
          (target_was_already_satisfied, self) = issue_seek_preparation_primary_seek desired observed self
      in if target_was_already_satisfied
         then update_seek_preparation observed observation evidence_is_fresh
                (seek_preparation_accepts_target_cache_evidence observed observation evidence_is_fresh self) self
         else Some self)"

definition coordinate_paused_room ::
  "DesiredRoomPlayback \<Rightarrow> ObservedState \<Rightarrow> PlaybackCoordinator \<Rightarrow> PlaybackCoordinator option" where
  "coordinate_paused_room desired observed self =
     (let self = issue_pause desired observed self in
      if transport_blocks_correction observed then Some self
      else do {
        self \<leftarrow> issue_desired_seek_if_needed desired observed self;
        Some (if desired_seek_is_satisfied desired self \<and> os_logical_pause observed = Some True
          then mark_revision_applied desired observed False self else self)
      })"

definition coordinate_playing_room ::
  "DesiredRoomPlayback \<Rightarrow> ObservedState \<Rightarrow> bool \<Rightarrow> bool \<Rightarrow> PlaybackCoordinator \<Rightarrow> PlaybackCoordinator option" where
  "coordinate_playing_room desired observed evidence_is_fresh advancing self =
     (if transport_blocks_correction observed then Some self
      else do {
        self \<leftarrow> issue_desired_seek_if_needed desired observed self;
        if \<not> desired_seek_is_satisfied desired self then Some self
        else if os_logical_pause observed \<noteq> Some False then Some (issue_play desired observed self)
        else do {
          self \<leftarrow> coordinate_recovery desired observed evidence_is_fresh advancing self;
          let play_command_pending = list_ex (\<lambda>c. cm_revision c = dp_state_revision desired
                \<and> is_play (cm_kind c)) (pc_pending_commands self)
          in Some (if advancing \<and> \<not> os_paused_for_cache observed \<and> \<not> os_seeking observed
                \<and> \<not> play_command_pending
            then mark_revision_applied desired observed True self else self)
        }
      })"

definition coordinate_without_preparation ::
  "DesiredRoomPlayback \<Rightarrow> ObservedState \<Rightarrow> bool \<Rightarrow> bool \<Rightarrow> PlaybackCoordinator \<Rightarrow> PlaybackCoordinator option" where
  "coordinate_without_preparation desired observed evidence_is_fresh advancing self =
     (if terminal_seek_preparation_holds_current_revision self
      then Some (if dp_paused desired \<or> degraded_seek_preparation_holds_current_revision self
        then issue_pause desired observed self else self)
      else if dp_paused desired then coordinate_paused_room desired observed self
      else coordinate_playing_room desired observed evidence_is_fresh advancing self)"

definition coordinate_desired_state ::
  "ObservedState \<Rightarrow> PlayerTransportObservation \<Rightarrow> bool \<Rightarrow> bool \<Rightarrow> PlaybackCoordinator
     \<Rightarrow> PlaybackCoordinator option" where
  "coordinate_desired_state observed observation evidence_is_fresh advancing self =
     (case pc_desired self of
        None \<Rightarrow> Some self
      | Some desired \<Rightarrow>
          if dp_media_generation desired \<noteq> generation_or_default self then Some self
          else do {
            self \<leftarrow> rearm_displaced_alignment desired observed self;
            if pc_seek_preparation self \<noteq> None
            then do {
              self \<leftarrow> advance_active_preparation desired observed observation evidence_is_fresh self;
              if pc_seek_preparation self \<noteq> None then Some self
              else coordinate_without_preparation desired observed evidence_is_fresh advancing self
            }
            else coordinate_without_preparation desired observed evidence_is_fresh advancing self
          })"

end
