(* ===== verification/Playback_Operations.thy ===== *)
theory Playback_Operations
  imports Playback_Preparation
begin

text \<open>
  The public operations of the playback coordinator: loading and retiring media, adopting what the
  room asks for, consuming an observation of the player, the completion of commands, the periodic
  tick and the user's choices during a seek preparation. \<open>begin_call\<close> is the empty vector an
  operation starts its actions with.
\<close>

definition begin_call :: "PlaybackCoordinator \<Rightarrow> PlaybackCoordinator" where
  "begin_call self = self\<lparr>pc_actions := []\<rparr>"

section \<open>Configuration and adapter epochs\<close>

definition set_config :: "PlaybackCoordinatorConfig \<Rightarrow> PlaybackCoordinator \<Rightarrow> PlaybackCoordinator option" where
  "set_config config self = do {
     config \<leftarrow> normalized config;
     Some ((begin_call self)\<lparr>pc_config := config\<rparr>)
   }"

text \<open>A recovery episode whose transport evidence is void; its identity and seek budget stay.\<close>

definition rearm_recovery :: "RecoveryEpisode \<Rightarrow> RecoveryEpisode" where
  "rearm_recovery e =
     e\<lparr>re_post_cache_baseline_at_seconds := None, re_stable_since_seconds := None,
       re_catchup_deadline_seconds := None, re_decision_made := re_degraded e,
       re_catchup_active := False, re_seek_active := False\<rparr>"

definition reset_transport_adapter_epoch :: "f64 \<Rightarrow> PlaybackCoordinator \<Rightarrow> PlaybackCoordinator" where
  "reset_transport_adapter_epoch now_seconds self =
     (let self = (begin_call self)\<lparr>pc_observed := None, pc_cached_seekable_ranges := None\<rparr>;
          self = clear_participant_status_transport_metrics self;
          self = self\<lparr>pc_pending_commands := []\<rparr>;
          self = modify_recovery rearm_recovery self;
          self = request_rate_reset self;
          self = self\<lparr>pc_completed_seek_restart_baseline := None\<rparr>;
          self = modify_seek_preparation (\<lambda>e. e\<lparr>sp_primary_seek_command_id := None,
            sp_availability := SeekTargetAvailability.Unknown, sp_phase := SeekPreparationPhase.Seeking,
            sp_cache_buffering_percent := None, sp_buffered_ahead_seconds := None,
            sp_input_rate_bytes_per_second := None, sp_nearest_safe_buffered_position_seconds := None,
            sp_primary_seek_observation_sequence := Some (pc_observation_sequence self),
            sp_refill_started_observation_sequence := None, sp_refill_released_after_seek := False,
            sp_stable_playable_since := None\<rparr>) self;
          self = self\<lparr>pc_media := map_option (\<lambda>m. m\<lparr>ms_load_restart_baseline := 0\<rparr>) (pc_media self)\<rparr>;
          self = self\<lparr>pc_retry_not_before_seconds := Fin 0, pc_failed_command_attempts := 0,
            pc_command_budget_degraded := False, pc_pending_degraded_reason := None\<rparr>
      in case pc_media self of
           None \<Rightarrow> self\<lparr>pc_diagnostic := PlaybackDiagnostic.Empty\<rparr>
         | Some media \<Rightarrow>
             self\<lparr>pc_media := Some (if f64_is_finite now_seconds
                 then media\<lparr>ms_prepared_at_seconds := now_seconds\<rparr> else media),
               pc_diagnostic := PlaybackDiagnostic.Loading\<rparr>)"

section \<open>Loading media\<close>

definition same_logical_media :: "LogicalMediaId \<Rightarrow> PlaybackCoordinator \<Rightarrow> bool" where
  "same_logical_media logical_id self = is_some_and (pc_media self) (\<lambda>media. ms_logical_id media = logical_id)"

definition resolve_load_intent :: "bool \<Rightarrow> MediaLoadIntent \<Rightarrow> bool \<Rightarrow> MediaLoadIntent" where
  "resolve_load_intent same requested_intent preserve_changed_identity_transport_refresh =
     (if same
      then if requested_intent = MediaLoadIntent.TransportRefresh then MediaLoadIntent.TransportRefresh
        else MediaLoadIntent.Replay
      else if requested_intent = MediaLoadIntent.TransportRefresh \<and> preserve_changed_identity_transport_refresh
      then MediaLoadIntent.TransportRefresh
      else MediaLoadIntent.NewPlayback)"

text \<open>The episode of a finished preparation, started again for the refreshed transport.\<close>

definition rearmed_preparation ::
  "f64 \<Rightarrow> u64 \<Rightarrow> u64 \<Rightarrow> SeekPreparationSnapshot \<Rightarrow> PlaybackCoordinator \<Rightarrow> SeekPreparationEpisode" where
  "rearmed_preparation now_seconds media_generation load_attempt snapshot self =
     \<lparr>sp_id = ss_id snapshot, sp_media_generation = media_generation, sp_load_attempt = load_attempt,
      sp_room_revision = ss_room_revision snapshot,
      sp_latest_room_revision = unwrap_or (desired_revision self) (ss_latest_room_revision snapshot),
      sp_latest_room_paused = is_some_and (pc_desired self) dp_paused,
      sp_requested_target_seconds = ss_requested_target_seconds snapshot,
      sp_frozen_target_seconds = ss_frozen_target_seconds snapshot,
      sp_frozen_room_anchor_position_seconds = ss_frozen_room_anchor_position_seconds snapshot,
      sp_frozen_room_anchor_observed_at_seconds = ss_frozen_room_anchor_observed_at_seconds snapshot,
      sp_latest_room_position_seconds =
        (case pc_desired self of
           None \<Rightarrow> ss_latest_room_position_seconds snapshot
         | Some desired \<Rightarrow> position_at desired now_seconds),
      sp_availability = SeekTargetAvailability.Unknown, sp_phase = SeekPreparationPhase.Seeking,
      sp_cache_buffering_percent = None, sp_buffered_ahead_seconds = None,
      sp_input_rate_bytes_per_second = None, sp_nearest_safe_buffered_position_seconds = None,
      sp_started_at_seconds = ss_started_at_seconds snapshot,
      sp_deadline_seconds = f64_add now_seconds (cf_seek_preparation_timeout_seconds (pc_config self)),
      sp_primary_seek_command_id = None, sp_primary_seek_issued = False,
      sp_primary_seek_observation_sequence = None, sp_refill_started_observation_sequence = None,
      sp_refill_released_after_seek = False, sp_stable_playable_since = None\<rparr>"

definition clear_transport_evidence :: "PlaybackCoordinator \<Rightarrow> PlaybackCoordinator" where
  "clear_transport_evidence self =
     (clear_participant_status_transport_metrics
        (self\<lparr>pc_observed := None, pc_cached_seekable_ranges := None\<rparr>))\<lparr>pc_pending_commands := []\<rparr>"

definition refresh_preparation ::
  "f64 \<Rightarrow> u64 \<Rightarrow> u64 \<Rightarrow> SeekPreparationSnapshot option \<Rightarrow> PlaybackCoordinator \<Rightarrow> PlaybackCoordinator" where
  "refresh_preparation now_seconds media_generation load_attempt ready_handoff_to_rearm self =
     (if pc_seek_preparation self \<noteq> None
      then modify_seek_preparation (\<lambda>e. e\<lparr>sp_load_attempt := load_attempt,
        sp_primary_seek_command_id := None, sp_primary_seek_issued := False,
        sp_availability := SeekTargetAvailability.Unknown, sp_phase := SeekPreparationPhase.Seeking,
        sp_cache_buffering_percent := None, sp_buffered_ahead_seconds := None,
        sp_input_rate_bytes_per_second := None, sp_nearest_safe_buffered_position_seconds := None,
        sp_primary_seek_observation_sequence := None, sp_refill_started_observation_sequence := None,
        sp_refill_released_after_seek := False, sp_stable_playable_since := None,
        sp_deadline_seconds := f64_add now_seconds (cf_seek_preparation_timeout_seconds (pc_config self))\<rparr>) self
      else case ready_handoff_to_rearm of
          None \<Rightarrow> self
        | Some snapshot \<Rightarrow>
            self\<lparr>pc_seek_preparation :=
              Some (rearmed_preparation now_seconds media_generation load_attempt snapshot self)\<rparr>)"

definition refresh_transport ::
  "MediaTransportKind \<Rightarrow> f64 \<Rightarrow> u64 \<Rightarrow> PlaybackCoordinator \<Rightarrow> (MediaLoadPlan \<times> PlaybackCoordinator) option" where
  "refresh_transport kind now_seconds load_restart_baseline self =
     (let ready_handoff_to_rearm = opt_filter (\<lambda>snapshot.
            ss_terminal_outcome snapshot = Some SeekPreparationTerminalOutcome.Ready
            \<and> pc_recovery self \<noteq> None \<and> kind \<noteq> MediaTransportKind.LocalFile)
            (pc_last_seek_preparation_terminal self);
          self = (if is_some_and (pc_last_seek_preparation_terminal self) (\<lambda>snapshot.
                ss_terminal_outcome snapshot \<noteq> Some SeekPreparationTerminalOutcome.Cancelled)
            then self\<lparr>pc_last_seek_preparation_terminal := None\<rparr> else self);
          self = (if pc_recovery self \<noteq> None then request_rate_reset (modify_recovery rearm_recovery self)
            else close_recovery_without_metrics self)
      in case pc_media self of
           None \<Rightarrow> None
         | Some media \<Rightarrow>
             let media = media\<lparr>ms_load_attempt := saturating_add (ms_load_attempt media) 1, ms_kind := kind,
                   ms_prepared_at_seconds := now_seconds, ms_load_restart_baseline := load_restart_baseline\<rparr>;
                 self = clear_transport_evidence (self\<lparr>pc_media := Some media\<rparr>);
                 self = refresh_preparation now_seconds (ms_generation media) (ms_load_attempt media)
                   ready_handoff_to_rearm self;
                 self = self\<lparr>pc_desired_seek_satisfied_revision := None,
                   pc_completed_seek_restart_baseline := None, pc_last_applied_revision := None,
                   pc_last_started_revision := None, pc_retry_not_before_seconds := Fin 0,
                   pc_failed_command_attempts := 0, pc_command_budget_degraded := False,
                   pc_pending_degraded_reason := None,
                   pc_desired := map_option (\<lambda>d. d\<lparr>dp_force_seek := True\<rparr>) (pc_desired self),
                   pc_diagnostic := PlaybackDiagnostic.Loading\<rparr>
             in Some (\<lparr>lp_media_generation = ms_generation media, lp_load_attempt = ms_load_attempt media,
                   lp_logical_media_changed = False, lp_playback_episode_changed = False,
                   lp_load_intent = MediaLoadIntent.TransportRefresh\<rparr>, self))"

definition begin_media_generation ::
  "LogicalMediaId \<Rightarrow> MediaTransportKind \<Rightarrow> MediaLoadIntent \<Rightarrow> f64 \<Rightarrow> u64 \<Rightarrow> PlaybackCoordinator
     \<Rightarrow> MediaLoadPlan \<times> PlaybackCoordinator" where
  "begin_media_generation logical_id kind load_intent now_seconds load_restart_baseline self =
     (let logical_media_changed = (\<not> same_logical_media logical_id self);
          self = finish_seek_preparation SeekPreparationTerminalOutcome.Cancelled self;
          self = self\<lparr>pc_last_seek_preparation_terminal := None\<rparr>;
          self = close_recovery_without_metrics self;
          self = self\<lparr>pc_next_media_generation := max (saturating_add (pc_next_media_generation self) 1) 1\<rparr>;
          generation = pc_next_media_generation self;
          self = self\<lparr>pc_media := Some \<lparr>ms_logical_id = logical_id, ms_generation = generation,
              ms_load_attempt = 1, ms_kind = kind, ms_prepared_at_seconds = now_seconds,
              ms_load_restart_baseline = load_restart_baseline\<rparr>, pc_desired := None\<rparr>;
          self = clear_transport_evidence self;
          self = self\<lparr>pc_last_applied_revision := None, pc_last_started_revision := None,
            pc_desired_seek_satisfied_revision := None, pc_required_seek_dispatch_revision := None,
            pc_authoritative_alignment_guard_revision := None, pc_completed_seek_restart_baseline := None,
            pc_failed_command_attempts := 0, pc_command_budget_degraded := False,
            pc_pending_degraded_reason := None, pc_diagnostic := PlaybackDiagnostic.Loading\<rparr>
      in (\<lparr>lp_media_generation = generation, lp_load_attempt = 1,
           lp_logical_media_changed = logical_media_changed, lp_playback_episode_changed = True,
           lp_load_intent = load_intent\<rparr>, self))"

definition prepare_media_with_intent_internal ::
  "LogicalMediaId \<Rightarrow> MediaTransportKind \<Rightarrow> MediaLoadIntent \<Rightarrow> f64 \<Rightarrow> bool \<Rightarrow> PlaybackCoordinator
     \<Rightarrow> (MediaLoadPlan \<times> PlaybackCoordinator) option" where
  "prepare_media_with_intent_internal logical_id kind requested_intent now_seconds preserve self =
     (let self = begin_call self;
          load_restart_baseline = unwrap_or (map_option os_playback_restart_sequence (pc_observed self)) 0;
          same = same_logical_media logical_id self;
          load_intent = resolve_load_intent same requested_intent preserve
      in if same \<and> load_intent = MediaLoadIntent.TransportRefresh
         then refresh_transport kind now_seconds load_restart_baseline self
         else Some (begin_media_generation logical_id kind load_intent now_seconds load_restart_baseline self))"

definition prepare_media_with_intent ::
  "LogicalMediaId \<Rightarrow> MediaTransportKind \<Rightarrow> MediaLoadIntent \<Rightarrow> f64 \<Rightarrow> PlaybackCoordinator
     \<Rightarrow> (MediaLoadPlan \<times> PlaybackCoordinator) option" where
  "prepare_media_with_intent logical_id kind requested_intent now_seconds self =
     prepare_media_with_intent_internal logical_id kind requested_intent now_seconds False self"

definition prepare_media ::
  "LogicalMediaId \<Rightarrow> MediaTransportKind \<Rightarrow> f64 \<Rightarrow> PlaybackCoordinator \<Rightarrow> (MediaLoadPlan \<times> PlaybackCoordinator) option" where
  "prepare_media logical_id kind now_seconds self =
     prepare_media_with_intent logical_id kind
       (if same_logical_media logical_id self then MediaLoadIntent.TransportRefresh
        else MediaLoadIntent.NewPlayback) now_seconds self"

definition prepare_media_for_room_participation ::
  "LogicalMediaId \<Rightarrow> MediaTransportKind \<Rightarrow> f64 \<Rightarrow> PlaybackCoordinator \<Rightarrow> (MediaLoadPlan \<times> PlaybackCoordinator) option" where
  "prepare_media_for_room_participation logical_id kind now_seconds self =
     prepare_media_with_intent_internal logical_id kind MediaLoadIntent.TransportRefresh now_seconds True self"

section \<open>Interrupting and retiring\<close>

definition cancel_preparation_for_lifecycle :: "PlaybackCoordinator \<Rightarrow> bool \<times> PlaybackCoordinator" where
  "cancel_preparation_for_lifecycle self =
     (case pc_seek_preparation self of
        None \<Rightarrow> (False, self)
      | Some episode \<Rightarrow>
          (sp_primary_seek_issued episode,
           (finish_seek_preparation SeekPreparationTerminalOutcome.Cancelled self)
             \<lparr>pc_desired_seek_satisfied_revision := desired_revision self\<rparr>))"

definition cancel_seek_preparation_for_lifecycle :: "PlaybackCoordinator \<Rightarrow> bool \<times> PlaybackCoordinator" where
  "cancel_seek_preparation_for_lifecycle self = cancel_preparation_for_lifecycle (begin_call self)"

definition reconcile_retained_observation :: "PlaybackCoordinator \<Rightarrow> PlaybackCoordinator" where
  "reconcile_retained_observation self =
     (case pc_observed self of
        None \<Rightarrow> self
      | Some observed \<Rightarrow> reconcile_rate_override observed (os_observed_at_seconds observed) self)"

definition interrupt_recovery :: "PlaybackCoordinator \<Rightarrow> PlaybackCoordinator" where
  "interrupt_recovery self =
     (let self = snd (cancel_preparation_for_lifecycle (begin_call self));
          self = (if degraded_seek_preparation_holds_current_revision self
            then self\<lparr>pc_last_seek_preparation_terminal := None, pc_desired := None,
              pc_desired_seek_satisfied_revision := None, pc_required_seek_dispatch_revision := None\<rparr>
            else self)
      in reconcile_retained_observation (close_recovery_without_metrics self))"

definition retire_media :: "PlaybackCoordinator \<Rightarrow> PlaybackCoordinator" where
  "retire_media self =
     (let self = interrupt_recovery self;
          self = finish_seek_preparation SeekPreparationTerminalOutcome.Cancelled self;
          self = self\<lparr>pc_last_seek_preparation_terminal := None, pc_media := None, pc_desired := None,
            pc_observed := None, pc_cached_seekable_ranges := None, pc_pending_commands := [],
            pc_last_applied_revision := None, pc_last_started_revision := None,
            pc_desired_seek_satisfied_revision := None, pc_required_seek_dispatch_revision := None,
            pc_authoritative_alignment_guard_revision := None, pc_completed_seek_restart_baseline := None,
            pc_rate_override := None, pc_last_playback_rate_observation_sequence := None,
            pc_retry_not_before_seconds := Fin 0, pc_failed_command_attempts := 0,
            pc_command_budget_degraded := False, pc_pending_degraded_reason := None\<rparr>;
          self = clear_participant_status_transport_metrics self
      in self\<lparr>pc_diagnostic := PlaybackDiagnostic.Empty\<rparr>)"

section \<open>Adopting what the room asks for\<close>

definition explicit_seek_kind :: "DesiredRoomPlaybackUpdateKind \<Rightarrow> bool" where
  "explicit_seek_kind update_kind \<longleftrightarrow>
     update_kind \<in> {DesiredRoomPlaybackUpdateKind.ExplicitSeek,
                    DesiredRoomPlaybackUpdateKind.ExplicitSeekAlreadyDispatched}"

definition guard_superseded_dispatch ::
  "DesiredRoomPlayback \<Rightarrow> DesiredRoomPlaybackUpdateKind \<Rightarrow> bool \<Rightarrow> PlaybackCoordinator
     \<Rightarrow> DesiredRoomPlayback \<times> PlaybackCoordinator" where
  "guard_superseded_dispatch desired update_kind replacement_supersedes_dispatched_seek self =
     (let self = modify_metrics (\<lambda>m. m\<lparr>pm_steady_state_skew_seconds := None\<rparr>) self;
          guards_superseded_dispatch =
            (update_kind = DesiredRoomPlaybackUpdateKind.AuthoritativeSeekAfterSupersededDispatch
             \<or> replacement_supersedes_dispatched_seek);
          carries_supersession_guard =
            (\<not> guards_superseded_dispatch \<and> update_kind = DesiredRoomPlaybackUpdateKind.Ordinary
             \<and> pc_authoritative_alignment_guard_revision self \<noteq> None)
      in if guards_superseded_dispatch \<or> carries_supersession_guard
         then (desired\<lparr>dp_force_seek := True\<rparr>,
               self\<lparr>pc_required_seek_dispatch_revision := Some (dp_state_revision desired),
                 pc_authoritative_alignment_guard_revision := Some (dp_state_revision desired)\<rparr>)
         else (desired, self\<lparr>pc_required_seek_dispatch_revision := None,
                 pc_authoritative_alignment_guard_revision := None\<rparr>))"

definition update_preparation_for_desired ::
  "DesiredRoomPlayback \<Rightarrow> DesiredRoomPlaybackUpdateKind \<Rightarrow> bool \<Rightarrow> PlaybackCoordinator \<Rightarrow> PlaybackCoordinator option" where
  "update_preparation_for_desired desired update_kind explicit_seek self =
     (if explicit_seek
      then do {
        let self = (if pc_seek_preparation self = None
          then self\<lparr>pc_last_seek_preparation_terminal := None\<rparr> else self);
        let self = finish_seek_preparation SeekPreparationTerminalOutcome.Superseded self;
        self \<leftarrow> begin_seek_preparation_if_needed desired self;
        Some (if update_kind = DesiredRoomPlaybackUpdateKind.ExplicitSeekAlreadyDispatched
            \<and> pc_seek_preparation self \<noteq> None
          then mark_seek_preparation_primary_issued None self else self)
      }
      else Some (modify_seek_preparation (\<lambda>e. e\<lparr>sp_latest_room_revision := dp_state_revision desired,
        sp_latest_room_paused := dp_paused desired,
        sp_latest_room_position_seconds := position_at desired (dp_anchor_observed_at_seconds desired)\<rparr>) self))"

definition terminal_rebinds :: "DesiredRoomPlayback \<Rightarrow> SeekPreparationSnapshot \<Rightarrow> bool" where
  "terminal_rebinds desired snapshot \<longleftrightarrow>
     ss_media_generation snapshot = dp_media_generation desired
     \<and> is_some_and (ss_terminal_outcome snapshot) outcome_holds"

definition rebind_terminal ::
  "DesiredRoomPlayback \<Rightarrow> DesiredRoomPlaybackUpdateKind \<Rightarrow> bool \<Rightarrow> PlaybackCoordinator \<Rightarrow> PlaybackCoordinator" where
  "rebind_terminal desired update_kind revision_changed self =
     (let terminal_hold_rebound = (revision_changed \<and> update_kind = DesiredRoomPlaybackUpdateKind.Ordinary
            \<and> pc_seek_preparation self = None
            \<and> is_some_and (pc_last_seek_preparation_terminal self) (terminal_rebinds desired));
          self = (if terminal_hold_rebound
            then modify_terminal (\<lambda>snapshot. snapshot\<lparr>ss_latest_room_revision := dp_state_revision desired,
                   ss_latest_room_position_seconds :=
                     position_at desired (dp_anchor_observed_at_seconds desired)\<rparr>) self
            else self)
      in if revision_changed \<and> pc_seek_preparation self = None \<and> \<not> terminal_hold_rebound
            \<and> is_some_and (pc_last_seek_preparation_terminal self) (\<lambda>snapshot.
                ss_media_generation snapshot = dp_media_generation desired
                \<and> ss_latest_room_revision snapshot < dp_state_revision desired)
         then self\<lparr>pc_last_seek_preparation_terminal := None\<rparr> else self)"

definition adopt_revision :: "DesiredRoomPlayback \<Rightarrow> PlaybackCoordinator \<Rightarrow> PlaybackCoordinator" where
  "adopt_revision desired self =
     (let preparation_seek_command = Option.bind (pc_seek_preparation self) sp_primary_seek_command_id;
          self = retain_commands (\<lambda>c. dp_state_revision desired \<le> cm_revision c
            \<or> preparation_seek_command = Some (cm_id c)) self;
          terminal_seek_held = is_some_and (pc_last_seek_preparation_terminal self) (\<lambda>snapshot.
            terminal_rebinds desired snapshot
            \<and> ss_latest_room_revision snapshot = dp_state_revision desired);
          self = self\<lparr>pc_desired_seek_satisfied_revision :=
            (if pc_seek_preparation self \<noteq> None then None
             else if terminal_seek_held then Some (dp_state_revision desired)
             else if dp_force_seek desired then None else Some (dp_state_revision desired))\<rparr>;
          self = (if dp_force_seek desired
            then close_recovery_without_metrics (self\<lparr>pc_completed_seek_restart_baseline := None\<rparr>) else self)
      in self\<lparr>pc_retry_not_before_seconds := Fin 0, pc_failed_command_attempts := 0,
           pc_command_budget_degraded := False, pc_pending_degraded_reason := None\<rparr>)"

definition update_desired_room_state_with_kind ::
  "DesiredRoomPlayback \<Rightarrow> DesiredRoomPlaybackUpdateKind \<Rightarrow> PlaybackCoordinator \<Rightarrow> PlaybackCoordinator option" where
  "update_desired_room_state_with_kind desired update_kind self =
     (let self = begin_call self in
      if coordinator_media_generation self \<noteq> Some (dp_media_generation desired)
         \<or> \<not> f64_is_finite (dp_anchor_position_seconds desired)
         \<or> \<not> f64_is_finite (dp_anchor_observed_at_seconds desired)
      then Some self
      else if is_some_and (pc_desired self) (\<lambda>current. dp_state_revision desired < dp_state_revision current)
      then Some self
      else
        let revision_changed = is_none_or (pc_desired self) (\<lambda>current.
              dp_state_revision current \<noteq> dp_state_revision desired);
            explicit_seek = (revision_changed \<and> explicit_seek_kind update_kind);
            replacement_seek = (explicit_seek \<or> dp_force_seek desired);
            replacement_supersedes_dispatched_seek = (replacement_seek
              \<and> (is_some_and (pc_seek_preparation self) sp_primary_seek_issued
                 \<or> list_ex (\<lambda>c. cm_revision c < dp_state_revision desired \<and> is_seek (cm_kind c))
                     (pc_pending_commands self)));
            (desired, self) = (if revision_changed
              then guard_superseded_dispatch desired update_kind replacement_supersedes_dispatched_seek self
              else (desired, self))
        in do {
          self \<leftarrow> update_preparation_for_desired desired update_kind explicit_seek self;
          let self = rebind_terminal desired update_kind revision_changed self;
          let self = (if revision_changed then adopt_revision desired self else self);
          let self = (if dp_paused desired then close_recovery_without_metrics self else self);
          let self = self\<lparr>pc_desired := Some desired\<rparr>;
          Some (reconcile_retained_observation self)
        })"

definition update_desired_room_state :: "DesiredRoomPlayback \<Rightarrow> PlaybackCoordinator \<Rightarrow> PlaybackCoordinator option" where
  "update_desired_room_state desired self =
     update_desired_room_state_with_kind desired DesiredRoomPlaybackUpdateKind.Ordinary self"

section \<open>Observing the player\<close>

definition update_diagnostic_for_observation :: "ObservedState \<Rightarrow> PlaybackCoordinator \<Rightarrow> PlaybackCoordinator" where
  "update_diagnostic_for_observation observed self =
     self\<lparr>pc_diagnostic :=
       (if degraded_seek_preparation_holds_current_revision self then PlaybackDiagnostic.Degraded
        else case os_phase observed of
            PlayerTransportPhase.Empty \<Rightarrow> PlaybackDiagnostic.Empty
          | PlayerTransportPhase.Loading \<Rightarrow> PlaybackDiagnostic.Loading
          | PlayerTransportPhase.Prebuffering \<Rightarrow> PlaybackDiagnostic.Prebuffering
          | PlayerTransportPhase.ReadyPaused \<Rightarrow> PlaybackDiagnostic.ReadyWaitingForRoom
          | PlayerTransportPhase.Playing \<Rightarrow>
              if os_core_idle observed = Some True then PlaybackDiagnostic.Starting else PlaybackDiagnostic.Playing
          | PlayerTransportPhase.Rebuffering \<Rightarrow> PlaybackDiagnostic.Rebuffering
          | PlayerTransportPhase.Seeking \<Rightarrow> PlaybackDiagnostic.Starting
          | PlayerTransportPhase.Ended \<Rightarrow> PlaybackDiagnostic.Ended
          | PlayerTransportPhase.Failed \<Rightarrow> PlaybackDiagnostic.Failed)\<rparr>"

text \<open>The pending failure reason as the vector that \<open>take_pending_actions\<close> returns.\<close>

definition pending_actions :: "PlaybackCoordinator \<Rightarrow> PlaybackCoordinatorAction list" where
  "pending_actions self =
     (case pc_pending_degraded_reason self of
        None \<Rightarrow> []
      | Some reason \<Rightarrow> [PlaybackCoordinatorAction.Degraded (generation_or_default self) None reason])"

definition drain_pending_actions :: "PlaybackCoordinator \<Rightarrow> PlaybackCoordinator" where
  "drain_pending_actions self =
     self\<lparr>pc_actions := pc_actions self @ pending_actions self, pc_pending_degraded_reason := None\<rparr>"

definition take_pending_actions :: "PlaybackCoordinator \<Rightarrow> PlaybackCoordinator" where
  "take_pending_actions self = drain_pending_actions (begin_call self)"

definition empty_observed :: "f64 \<Rightarrow> ObservedState" where
  "empty_observed observed_at_seconds =
     \<lparr>os_observed_at_seconds = observed_at_seconds, os_phase = PlayerTransportPhase.Empty,
      os_position_seconds = None, os_position_sample = None, os_playback_rate = None,
      os_logical_pause = None, os_paused_for_cache = False, os_seeking = False, os_seekable = None,
      os_seekable_window = None, os_timeline_kind = None, os_known_live_seekable_window = None,
      os_core_idle = None, os_playback_restart_sequence = 0, os_cache_buffering_percent = None,
      os_buffered_ahead_seconds = None\<rparr>"

definition finite_nonnegative :: "f64 \<Rightarrow> bool" where
  "finite_nonnegative x \<longleftrightarrow> f64_is_finite x \<and> f64_le (Fin 0) x"

definition valid_live_window :: "PlayerSeekableRange \<Rightarrow> bool" where
  "valid_live_window window \<longleftrightarrow>
     f64_is_finite (sr_start_seconds window) \<and> f64_is_finite (sr_end_seconds window)
     \<and> f64_le (Fin 0) (sr_start_seconds window)
     \<and> f64_le (sr_start_seconds window) (sr_end_seconds window)"

text \<open>The new observed state: sparse fields of the observation over the previous state.\<close>

definition merge_observed ::
  "PlayerTransportObservation \<Rightarrow> bool \<Rightarrow> u64 \<Rightarrow> ObservedState \<Rightarrow> ObservedState option" where
  "merge_observed observation evidence_is_fresh sequence observed =
     (let position = opt_filter finite_nonnegative (tp_position_seconds observation);
          known_live_window = opt_filter valid_live_window (tp_known_live_seekable_window observation)
      in do {
        percent \<leftarrow> (case opt_filter f64_is_finite (tp_cache_buffering_percent observation) of
            None \<Rightarrow> Some (os_cache_buffering_percent observed)
          | Some value \<Rightarrow> map_option Some (f64_clamp value (Fin 0) (Fin 100)));
        Some (observed\<lparr>os_observed_at_seconds := tp_observed_at_seconds observation,
          os_phase := unwrap_or (tp_phase observation) (os_phase observed),
          os_position_seconds := opt_else position (os_position_seconds observed),
          os_position_sample :=
            (case position of
               Some value \<Rightarrow>
                 if evidence_is_fresh
                 then Some \<lparr>ps_observation_sequence = sequence,
                        ps_observed_at_seconds = tp_observed_at_seconds observation,
                        ps_position_seconds = value\<rparr>
                 else os_position_sample observed
             | None \<Rightarrow> os_position_sample observed),
          os_playback_rate :=
            opt_else (opt_filter (\<lambda>v. f64_is_finite v \<and> f64_lt (Fin 0) v) (tp_playback_rate observation))
              (os_playback_rate observed),
          os_logical_pause := opt_else (tp_logical_pause observation) (os_logical_pause observed),
          os_paused_for_cache := unwrap_or (tp_paused_for_cache observation) (os_paused_for_cache observed),
          os_seeking := unwrap_or (tp_seeking observation) (os_seeking observed),
          os_seekable := opt_else (tp_seekable observation) (os_seekable observed),
          os_timeline_kind := opt_else (tp_timeline_kind observation) (os_timeline_kind observed),
          os_seekable_window :=
            (case tp_seekable_ranges observation of
               None \<Rightarrow> os_seekable_window observed
             | Some ranges \<Rightarrow> latest_valid_seekable_window (normalize_seekable_ranges ranges)),
          os_known_live_seekable_window :=
            (if tp_timeline_kind observation = Some PlayerTimelineKind.SlidingLive
                \<and> tp_seekable_ranges observation \<noteq> None
             then known_live_window
             else opt_else known_live_window (os_known_live_seekable_window observed)),
          os_core_idle := opt_else (tp_core_idle observation) (os_core_idle observed),
          os_playback_restart_sequence :=
            unwrap_or (tp_playback_restart_sequence observation) (os_playback_restart_sequence observed),
          os_cache_buffering_percent := percent,
          os_buffered_ahead_seconds :=
            opt_else (opt_filter finite_nonnegative (tp_buffered_ahead_seconds observation))
              (os_buffered_ahead_seconds observed)\<rparr>)
      })"

definition stale_timestamp :: "PlayerTransportObservation \<Rightarrow> PlaybackCoordinator \<Rightarrow> bool" where
  "stale_timestamp observation self \<longleftrightarrow>
     \<not> f64_is_finite (tp_observed_at_seconds observation)
     \<or> is_some_and (pc_observed self) (\<lambda>observed.
          f64_lt (tp_observed_at_seconds observation) (os_observed_at_seconds observed))"

text \<open>Promotion of the media kind, the next sequence number and the state an observation replaces.\<close>

definition admit_observation ::
  "PlayerTransportObservation \<Rightarrow> bool \<Rightarrow> PlaybackCoordinator \<Rightarrow> PlaybackCoordinator" where
  "admit_observation observation replace_previous_state self =
     (let self = (if tp_timeline_kind observation = Some PlayerTimelineKind.SlidingLive
            then self\<lparr>pc_media := map_option (\<lambda>m.
                   if ms_kind m = MediaTransportKind.NetworkVod
                   then m\<lparr>ms_kind := MediaTransportKind.LiveSliding\<rparr> else m) (pc_media self)\<rparr>
            else self);
          self = self\<lparr>pc_observation_sequence := saturating_add (pc_observation_sequence self) 1\<rparr>
      in if replace_previous_state
         then modify_metrics (\<lambda>m. m\<lparr>pm_last_buffered_ahead_seconds := None,
                pm_last_input_rate_bytes_per_second := None\<rparr>)
           (self\<lparr>pc_cached_seekable_ranges := None, pc_last_playback_rate_observation_sequence := None\<rparr>)
         else self)"

definition adopt_observed :: "PlayerTransportObservation \<Rightarrow> ObservedState \<Rightarrow> PlaybackCoordinator \<Rightarrow> PlaybackCoordinator" where
  "adopt_observed observation observed self =
     (let self = (if opt_filter (\<lambda>v. f64_is_finite v \<and> f64_lt (Fin 0) v) (tp_playback_rate observation) \<noteq> None
            then self\<lparr>pc_last_playback_rate_observation_sequence := Some (pc_observation_sequence self)\<rparr>
            else self);
          self = (case tp_seekable_ranges observation of
              None \<Rightarrow> self
            | Some ranges \<Rightarrow> self\<lparr>pc_cached_seekable_ranges := Some (normalize_seekable_ranges ranges)\<rparr>)
      in self\<lparr>pc_observed := Some observed\<rparr>)"

definition record_cache_metrics ::
  "PlayerTransportObservation \<Rightarrow> bool \<Rightarrow> PlaybackCoordinator \<Rightarrow> PlaybackCoordinator" where
  "record_cache_metrics observation evidence_is_fresh self =
     (let recovery_cache_metrics_frozen = is_some_and (pc_recovery self) (\<lambda>episode.
            re_cache_metrics_frozen_until_decision episode \<and> \<not> re_decision_made episode)
      in if evidence_is_fresh \<and> \<not> recovery_cache_metrics_frozen
            \<and> is_none_or (pc_seek_preparation self) (\<lambda>episode. \<not> sp_primary_seek_issued episode)
         then modify_metrics (\<lambda>m. m\<lparr>
             pm_last_buffered_ahead_seconds :=
               opt_else (opt_filter finite_nonnegative (tp_buffered_ahead_seconds observation))
                 (pm_last_buffered_ahead_seconds m),
             pm_last_input_rate_bytes_per_second :=
               opt_else (tp_input_rate_bytes_per_second observation)
                 (pm_last_input_rate_bytes_per_second m)\<rparr>) self
         else self)"

definition is_advancing :: "ObservedState option \<Rightarrow> ObservedState \<Rightarrow> bool" where
  "is_advancing previous observed \<longleftrightarrow>
     is_some_and (Option.bind previous os_position_seconds) (\<lambda>earlier.
       is_some_and (os_position_seconds observed) (\<lambda>current.
         f64_lt MIN_ADVANCEMENT_SECONDS (f64_sub current earlier)))
     \<and> os_logical_pause observed = Some False \<and> \<not> os_paused_for_cache observed \<and> \<not> os_seeking observed"

definition observe_with_seek_preparation_evidence ::
  "PlayerTransportObservation \<Rightarrow> bool \<Rightarrow> bool \<Rightarrow> PlaybackCoordinator \<Rightarrow> PlaybackCoordinator option" where
  "observe_with_seek_preparation_evidence observation evidence_is_fresh replace_previous_state self =
     (let self = (begin_call self)\<lparr>pc_applied_observation_revision := None\<rparr> in
      case pc_media self of
        None \<Rightarrow> Some self
      | Some media \<Rightarrow>
          if tp_media_generation observation \<noteq> ms_generation media
          then Some (modify_metrics (\<lambda>m. m\<lparr>pm_stale_generation_observations :=
                 saturating_add (pm_stale_generation_observations m) 1\<rparr>) self)
          else if stale_timestamp observation self
          then Some (modify_metrics (\<lambda>m. m\<lparr>pm_stale_timestamp_observations :=
                 saturating_add (pm_stale_timestamp_observations m) 1\<rparr>) self)
          else
            let position_sampled = (evidence_is_fresh
                  \<and> is_some_and (tp_position_seconds observation) finite_nonnegative);
                previous = (if replace_previous_state then None else pc_observed self);
                self = admit_observation observation replace_previous_state self
            in do {
              observed \<leftarrow> merge_observed observation evidence_is_fresh (pc_observation_sequence self)
                (unwrap_or previous (empty_observed (tp_observed_at_seconds observation)));
              let self = adopt_observed observation observed self;
              let target_scoped_cache_evidence =
                seek_preparation_accepts_target_cache_evidence observed observation evidence_is_fresh self;
              let self = record_cache_metrics observation evidence_is_fresh self;
              let advancing = is_advancing previous observed;
              let self = update_diagnostic_for_observation observed self;
              let self = drain_pending_actions self;
              let self = complete_observed_commands observed advancing self;
              self \<leftarrow> update_seek_preparation observed observation evidence_is_fresh
                target_scoped_cache_evidence self;
              let self = (if pc_seek_preparation self = None
                then (case update_recovery_episode observed advancing position_sampled self of
                        (None, self) \<Rightarrow> self
                      | (Some reason, self) \<Rightarrow> enter_degraded_recovery reason self)
                else self);
              self \<leftarrow> coordinate_desired_state observed observation evidence_is_fresh advancing self;
              let self = reconcile_rate_override observed (os_observed_at_seconds observed) self;
              Some (if evidence_is_fresh then self else self\<lparr>pc_applied_observation_revision := None\<rparr>)
            })"

definition observe :: "PlayerTransportObservation \<Rightarrow> PlaybackCoordinator \<Rightarrow> PlaybackCoordinator option" where
  "observe observation self = observe_with_seek_preparation_evidence observation True False self"

definition rebase_observation :: "PlayerTransportObservation \<Rightarrow> PlaybackCoordinator \<Rightarrow> PlaybackCoordinator option" where
  "rebase_observation observation self = observe_with_seek_preparation_evidence observation True True self"

definition replay_observation :: "PlayerTransportObservation \<Rightarrow> PlaybackCoordinator \<Rightarrow> PlaybackCoordinator option" where
  "replay_observation observation self = observe_with_seek_preparation_evidence observation False False self"

definition take_applied_observation_revision ::
  "PlaybackCoordinator \<Rightarrow> (u64 \<times> u64) option \<times> PlaybackCoordinator" where
  "take_applied_observation_revision self =
     (pc_applied_observation_revision self, (begin_call self)\<lparr>pc_applied_observation_revision := None\<rparr>)"

section \<open>Completions reported by the player adapter\<close>

text \<open>An assignment to the first element that satisfies a predicate, as through \<open>iter_mut().find\<close>.\<close>

fun modify_first :: "('a \<Rightarrow> bool) \<Rightarrow> ('a \<Rightarrow> 'a) \<Rightarrow> 'a list \<Rightarrow> 'a list" where
  "modify_first P f [] = []"
| "modify_first P f (x # xs) = (if P x then f x # xs else x # modify_first P f xs)"

definition coordinator_command_accepted :: "CoordinatorCommandId \<Rightarrow> PlaybackCoordinator \<Rightarrow> bool \<times> PlaybackCoordinator" where
  "coordinator_command_accepted command_id self =
     (let self = begin_call self in
      if find_pending command_id self = None then (False, self)
      else (True, self\<lparr>pc_pending_commands := modify_first (\<lambda>c. cm_id c = command_id)
              (\<lambda>c. c\<lparr>cm_accepted := True\<rparr>) (pc_pending_commands self)\<rparr>))"

definition supersede_unaccepted_command ::
  "CoordinatorCommandId \<Rightarrow> PlaybackCoordinator \<Rightarrow> bool \<times> PlaybackCoordinator" where
  "supersede_unaccepted_command command_id self =
     (let self = begin_call self in
      case find_pending command_id self of
        None \<Rightarrow> (False, self)
      | Some command \<Rightarrow>
          if cm_accepted command then (False, self)
          else (True, retain_commands (\<lambda>c. cm_id c \<noteq> command_id) self))"

definition degrade_failed_buffered_alternative ::
  "CoordinatorCommandId \<Rightarrow> PlaybackCoordinator \<Rightarrow> PlaybackCoordinator" where
  "degrade_failed_buffered_alternative command_id self =
     (case find (\<lambda>c. cm_id c = command_id
              \<and> (case cm_kind c of PendingCommandKind.Seek _ _ alternative \<Rightarrow> alternative | _ \<Rightarrow> False))
            (pc_pending_commands self) of
        None \<Rightarrow> self
      | Some command \<Rightarrow>
          let self = modify_terminal (\<lambda>snapshot. snapshot\<lparr>ss_terminal_outcome :=
                Some (SeekPreparationTerminalOutcome.Degraded SeekPreparationDegradedReason.TransportFailed)\<rparr>) self;
              self = self\<lparr>pc_desired_seek_satisfied_revision := Some (cm_revision command),
                pc_required_seek_dispatch_revision := None\<rparr>;
              self = close_recovery_without_metrics self
          in self\<lparr>pc_diagnostic := PlaybackDiagnostic.Degraded,
               pc_pending_degraded_reason := Some DegradedPlaybackReason.TransportFailed\<rparr>)"

definition command_failed :: "CoordinatorCommandId \<Rightarrow> f64 \<Rightarrow> PlaybackCoordinator \<Rightarrow> bool \<times> PlaybackCoordinator" where
  "command_failed command_id now_seconds self =
     (let self = begin_call self in
      if find_pending command_id self = None then (False, self)
      else
        let self = degrade_failed_buffered_alternative command_id self;
            self = (if is_some_and (pc_seek_preparation self) (\<lambda>episode.
                sp_primary_seek_command_id episode = Some command_id)
              then (fail_seek_preparation SeekPreparationDegradedReason.TransportFailed self)
                     \<lparr>pc_diagnostic := PlaybackDiagnostic.Degraded,
                      pc_pending_degraded_reason := Some DegradedPlaybackReason.TransportFailed\<rparr>
              else retain_commands (\<lambda>c. cm_id c \<noteq> command_id) self)
        in (True, self\<lparr>pc_failed_command_attempts := saturating_add_u32 (pc_failed_command_attempts self) 1,
              pc_retry_not_before_seconds :=
                f64_add now_seconds (cf_command_retry_cooldown_seconds (pc_config self))\<rparr>))"

section \<open>The periodic tick\<close>

definition expire_seek_preparation :: "f64 \<Rightarrow> PlaybackCoordinator \<Rightarrow> PlaybackCoordinator" where
  "expire_seek_preparation now_seconds self =
     (if is_some_and (pc_seek_preparation self) (\<lambda>episode. f64_le (sp_deadline_seconds episode) now_seconds)
      then
        let timeline_window_unavailable = is_some_and (pc_seek_preparation self) (\<lambda>episode.
              \<not> sp_primary_seek_issued episode
              \<and> is_some_and (pc_observed self) (\<lambda>observed.
                  os_timeline_kind observed = Some PlayerTimelineKind.Unknown
                  \<or> (is_some_and (pc_media self) (\<lambda>media. ms_kind media = MediaTransportKind.LiveSliding)
                     \<and> os_known_live_seekable_window observed = None)));
            self = fail_seek_preparation
              (if timeline_window_unavailable then SeekPreparationDegradedReason.TimelineWindowUnavailable
               else SeekPreparationDegradedReason.TimedOut) self;
            self = self\<lparr>pc_diagnostic := PlaybackDiagnostic.Degraded\<rparr>
        in push_action (PlaybackCoordinatorAction.Degraded (generation_or_default self) None
             (if timeline_window_unavailable then DegradedPlaybackReason.TimelineWindowUnavailable
              else DegradedPlaybackReason.RecoveryCommandTimedOut)) self
      else self)"

definition hold_masked_pause :: "f64 \<Rightarrow> PlaybackCoordinator \<Rightarrow> PlaybackCoordinator" where
  "hold_masked_pause now_seconds self =
     (if is_some_and (pc_observed self) os_paused_for_cache
      then self\<lparr>pc_pending_commands := map (\<lambda>c.
             if cm_kind c = PendingCommandKind.Pause then c\<lparr>cm_issued_at_seconds := now_seconds\<rparr> else c)
             (pc_pending_commands self)\<rparr>
      else self)"

definition timed_out_commands :: "f64 \<Rightarrow> PlaybackCoordinator \<Rightarrow> CoordinatorCommandId list" where
  "timed_out_commands now_seconds self =
     (let preparation_seek_command_id = Option.bind (pc_seek_preparation self) sp_primary_seek_command_id
      in map cm_id (filter (\<lambda>c. Some (cm_id c) \<noteq> preparation_seek_command_id
           \<and> f64_le (cf_command_timeout_seconds (pc_config self)) (f64_sub now_seconds (cm_issued_at_seconds c)))
           (pc_pending_commands self)))"

definition expire_commands :: "f64 \<Rightarrow> PlaybackCoordinator \<Rightarrow> PlaybackCoordinator" where
  "expire_commands now_seconds self =
     (let timed_out = timed_out_commands now_seconds self;
          self = (if timed_out = [] then self
            else
              let self = fold degrade_failed_buffered_alternative timed_out self;
                  self = drain_pending_actions self;
                  self = retain_commands (\<lambda>c. cm_id c \<notin> set timed_out) self;
                  self = modify_metrics (\<lambda>m. m\<lparr>pm_command_timeouts :=
                    saturating_add (pm_command_timeouts m) (length timed_out)\<rparr>) self
              in self\<lparr>pc_failed_command_attempts :=
                   saturating_add_u32 (pc_failed_command_attempts self) (length timed_out mod (u32_max + 1)),
                 pc_retry_not_before_seconds :=
                   f64_add now_seconds (cf_command_retry_cooldown_seconds (pc_config self))\<rparr>)
      in self\<lparr>pc_actions := pc_actions self @ map PlaybackCoordinatorAction.CommandTimedOut timed_out\<rparr>)"

definition degrade_exhausted_budget :: "PlaybackCoordinator \<Rightarrow> PlaybackCoordinator" where
  "degrade_exhausted_budget self =
     (if cf_command_retry_budget (pc_config self) < pc_failed_command_attempts self
        \<and> \<not> pc_command_budget_degraded self
      then
        let self = modify_metrics (\<lambda>m. m\<lparr>pm_degraded_recovery_count :=
              saturating_add (pm_degraded_recovery_count m) 1\<rparr>) self;
            self = push_action (PlaybackCoordinatorAction.Degraded (generation_or_default self)
              (map_option re_id (pc_recovery self)) DegradedPlaybackReason.RecoveryCommandTimedOut) self;
            self = self\<lparr>pc_diagnostic := PlaybackDiagnostic.Degraded, pc_command_budget_degraded := True\<rparr>;
            self = modify_recovery (\<lambda>e. e\<lparr>re_degraded := True\<rparr>) self
        in request_rate_reset self
      else self)"

definition coordinator_tick :: "f64 \<Rightarrow> PlaybackCoordinator \<Rightarrow> PlaybackCoordinator" where
  "coordinator_tick now_seconds self =
     (let self = begin_call self in
      if \<not> f64_is_finite now_seconds then self
      else
        let self = drain_pending_actions self;
            self = expire_seek_preparation now_seconds self;
            self = hold_masked_pause now_seconds self;
            self = expire_commands now_seconds self;
            self = degrade_exhausted_budget self
        in case pc_observed self of
             None \<Rightarrow> self
           | Some observed \<Rightarrow> reconcile_rate_override observed now_seconds self)"

section \<open>Other operations\<close>

definition expire_transport_observation :: "PlaybackCoordinator \<Rightarrow> PlaybackCoordinator" where
  "expire_transport_observation self =
     clear_participant_status_transport_metrics
       ((begin_call self)\<lparr>pc_observed := None, pc_cached_seekable_ranges := None\<rparr>)"

definition shift_observed :: "f64 \<Rightarrow> ObservedState \<Rightarrow> ObservedState" where
  "shift_observed delta_seconds observed =
     observed\<lparr>os_position_seconds := map_option (\<lambda>p. f64_max (f64_add p delta_seconds) (Fin 0))
         (os_position_seconds observed),
       os_position_sample := map_option (\<lambda>sample. sample\<lparr>ps_position_seconds :=
         f64_max (f64_add (ps_position_seconds sample) delta_seconds) (Fin 0)\<rparr>) (os_position_sample observed),
       os_seekable_window := map_option (\<lambda>(start, end_seconds).
         (f64_add start delta_seconds, f64_add end_seconds delta_seconds)) (os_seekable_window observed),
       os_known_live_seekable_window := map_option (\<lambda>r. shifted r delta_seconds)
         (os_known_live_seekable_window observed)\<rparr>"

definition shift_local_player_timeline :: "f64 \<Rightarrow> PlaybackCoordinator \<Rightarrow> PlaybackCoordinator" where
  "shift_local_player_timeline delta_seconds self =
     (let self = (begin_call self)\<lparr>pc_observed := map_option (shift_observed delta_seconds) (pc_observed self),
            pc_cached_seekable_ranges :=
              map_option (map (\<lambda>r. shifted r delta_seconds)) (pc_cached_seekable_ranges self)\<rparr>;
          self = snd (cancel_preparation_for_lifecycle self)
      in clear_participant_status_transport_metrics self)"

definition keep_waiting_for_seek_preparation :: "f64 \<Rightarrow> PlaybackCoordinator \<Rightarrow> PlaybackCoordinator" where
  "keep_waiting_for_seek_preparation now_seconds self =
     (let self = begin_call self in
      if f64_is_finite now_seconds
      then modify_seek_preparation (\<lambda>e. e\<lparr>sp_deadline_seconds :=
             f64_add now_seconds (cf_seek_preparation_timeout_seconds (pc_config self))\<rparr>) self
      else self)"

definition cancel_seek_preparation :: "PlaybackCoordinator \<Rightarrow> PlaybackCoordinator" where
  "cancel_seek_preparation self =
     (let self = begin_call self in
      if is_some_and (pc_seek_preparation self) (\<lambda>episode. \<not> sp_primary_seek_issued episode)
      then (finish_seek_preparation SeekPreparationTerminalOutcome.Cancelled self)
             \<lparr>pc_desired_seek_satisfied_revision := desired_revision self\<rparr>
      else self)"

definition clear_seek_preparation_terminal :: "PlaybackCoordinator \<Rightarrow> PlaybackCoordinator" where
  "clear_seek_preparation_terminal self = (begin_call self)\<lparr>pc_last_seek_preparation_terminal := None\<rparr>"

definition aligned_sample ::
  "f64 \<Rightarrow> f64 \<Rightarrow> f64 \<Rightarrow> PlaybackCoordinator \<Rightarrow> ObservedPositionSample \<Rightarrow> bool" where
  "aligned_sample now_seconds confirmed_room_position_seconds maximum_position_age_seconds self sample =
     (let age = f64_sub now_seconds (ps_observed_at_seconds sample);
          post_preparation_sample =
            (case pc_seek_preparation self of
               Some episode \<Rightarrow>
                 sp_primary_seek_issued episode
                 \<and> is_some_and (sp_primary_seek_observation_sequence episode)
                     (\<lambda>sequence. sequence < ps_observation_sequence sample)
             | None \<Rightarrow>
                 is_some_and (pc_last_seek_preparation_terminal self) (\<lambda>snapshot.
                   f64_lt (ss_started_at_seconds snapshot) (ps_observed_at_seconds sample)))
      in post_preparation_sample \<and> f64_is_finite age
         \<and> f64_within (Fin 0) maximum_position_age_seconds age
         \<and> near self (ps_position_seconds sample)
             (f64_max (f64_sub confirmed_room_position_seconds age) (Fin 0)))"

definition confirm_aligned_local_play ::
  "f64 \<Rightarrow> f64 \<Rightarrow> f64 \<Rightarrow> PlaybackCoordinator \<Rightarrow> bool \<times> PlaybackCoordinator" where
  "confirm_aligned_local_play now_seconds confirmed_room_position_seconds maximum_position_age_seconds self =
     (let self = begin_call self in
      case pc_observed self of
        None \<Rightarrow> (False, self)
      | Some observed \<Rightarrow>
        (case pc_desired self of
           None \<Rightarrow> (False, self)
         | Some desired \<Rightarrow>
             let aligned_play = (local_play_handoff_pending self
                   \<and> finite_nonnegative confirmed_room_position_seconds
                   \<and> \<not> dp_paused desired \<and> os_phase observed = PlayerTransportPhase.Playing
                   \<and> os_logical_pause observed = Some False \<and> \<not> os_seeking observed
                   \<and> \<not> os_paused_for_cache observed \<and> os_core_idle observed \<noteq> Some True
                   \<and> pc_required_seek_dispatch_revision self = None
                   \<and> is_some_and (os_position_sample observed)
                       (aligned_sample now_seconds confirmed_room_position_seconds
                          maximum_position_age_seconds self))
             in if \<not> aligned_play then (False, self)
                else
                  let self = self\<lparr>pc_desired_seek_satisfied_revision := Some (dp_state_revision desired)\<rparr>
                  in (True, if pc_seek_preparation self \<noteq> None
                        then finish_seek_preparation SeekPreparationTerminalOutcome.Superseded self
                        else modify_terminal (\<lambda>snapshot. snapshot\<lparr>ss_terminal_outcome :=
                               Some SeekPreparationTerminalOutcome.Superseded\<rparr>) self)))"

definition buffered_alternative_target :: "PlaybackCoordinator \<Rightarrow> (f64 \<times> u64 \<times> u64) option" where
  "buffered_alternative_target self = do {
     episode \<leftarrow> pc_seek_preparation self;
     target \<leftarrow> (if sp_latest_room_paused episode then None
       else sp_nearest_safe_buffered_position_seconds episode);
     observed \<leftarrow> pc_observed self;
     Some (target, sp_latest_room_revision episode, os_playback_restart_sequence observed)
   }"

definition join_nearest_buffered_seek_preparation :: "f64 \<Rightarrow> PlaybackCoordinator \<Rightarrow> PlaybackCoordinator" where
  "join_nearest_buffered_seek_preparation now_seconds self =
     (let self = begin_call self in
      if \<not> f64_is_finite now_seconds \<or> is_none_or (pc_desired self) dp_paused
         \<or> authoritative_alignment_guards_active_preparation self
      then self
      else case buffered_alternative_target self of
          None \<Rightarrow> self
        | Some (target, revision, restart_sequence) \<Rightarrow>
            let self = finish_seek_preparation SeekPreparationTerminalOutcome.Superseded self;
                self = self\<lparr>pc_desired_seek_satisfied_revision := None\<rparr>;
                (command_id, self) = issue_seek revision now_seconds target restart_sequence True self
            in if command_id \<noteq> None
               then modify_recovery (\<lambda>e. e\<lparr>re_gentle_catchup_only := True\<rparr>)
                      (begin_recovery_handoff now_seconds self)
               else
                 let self = modify_terminal (\<lambda>snapshot. snapshot\<lparr>ss_terminal_outcome :=
                       Some (SeekPreparationTerminalOutcome.Degraded SeekPreparationDegradedReason.TransportFailed)\<rparr>)
                       self;
                     self = self\<lparr>pc_desired_seek_satisfied_revision := Some revision,
                       pc_diagnostic := PlaybackDiagnostic.Degraded\<rparr>
                 in push_action (PlaybackCoordinatorAction.Degraded (generation_or_default self) None
                      DegradedPlaybackReason.TransportFailed) self)"

end
