(* ===== verification/Playback_Steps.thy ===== *)
theory Playback_Steps
  imports Playback_Operations
begin

text \<open>
  The coordinator as a transition system of small guarded steps. \<open>pc_view\<close> is the part of the
  state the invariants speak of; a step that leaves it alone is a frame step, and every other step
  carries the guard under which the code takes it. Every operation of \<open>playback_coordinator.rs\<close> is
  shown to be a sequence of such steps, so that an invariant has to be checked only once per step.
\<close>

named_theorems micro_intros "steps of the coordinator, outermost update first"

section \<open>What the invariants speak of\<close>

definition live_window :: "PlaybackCoordinator \<Rightarrow> PlayerSeekableRange option" where
  "live_window s = Option.bind (pc_observed s) os_known_live_seekable_window"

definition recovery_view :: "PlaybackCoordinator \<Rightarrow> (u64 \<times> u32) option" where
  "recovery_view s = map_option (\<lambda>e. (re_id e, re_hard_seek_attempts e)) (pc_recovery s)"

definition rate_view :: "PlaybackCoordinator \<Rightarrow> (u64 \<times> bool) option" where
  "rate_view s = map_option (\<lambda>r. (ro_episode_id r, ro_reset_requested r)) (pc_rate_override s)"

definition pc_view where
  "pc_view s =
     ((pc_config s, coordinator_media_generation s, pc_desired s, live_window s, pc_cached_seekable_ranges s),
      (recovery_view s, pc_next_recovery_episode_id s, rate_view s),
      (pc_pending_commands s, pc_next_command_id s, pc_command_budget_degraded s, pc_actions s,
       pc_retry_not_before_seconds s),
      (pm_hard_seek_count (pc_metrics s), pc_failed_command_attempts s))"

lemmas pc_view_defs = pc_view_def live_window_def recovery_view_def rate_view_def coordinator_media_generation_def

section \<open>Guards\<close>

definition window_ok :: "PlayerSeekableRange option \<Rightarrow> bool" where
  "window_ok window = is_none_or window (\<lambda>w. sr_start_seconds w \<noteq> NaN)"

definition ranges_ok :: "PlayerSeekableRange list option \<Rightarrow> bool" where
  "ranges_ok ranges =
     is_none_or ranges (list_all (\<lambda>r. f64_le (sr_start_seconds r) (sr_end_seconds r)))"

definition playing_room :: "PlaybackCoordinator \<Rightarrow> bool" where
  "playing_room s =
     is_some_and (pc_desired s) (\<lambda>d.
       \<not> dp_paused d \<and> coordinator_media_generation s = Some (dp_media_generation d))"

definition catchup_owned :: "PlaybackCoordinator \<Rightarrow> bool" where
  "catchup_owned s =
     is_some_and (rate_view s) (\<lambda>(owner, reset). \<not> reset
       \<and> is_some_and (recovery_view s) (\<lambda>(episode, _). episode = owner))"

fun player_command_of :: "PendingCommandKind \<Rightarrow> CoordinatorPlayerCommand" where
  "player_command_of PendingCommandKind.Pause = CoordinatorPlayerCommand.SetPaused True"
| "player_command_of (PendingCommandKind.Play _ intent) = CoordinatorPlayerCommand.Play intent"
| "player_command_of (PendingCommandKind.Seek target _ _) = CoordinatorPlayerCommand.SetPosition target"
| "player_command_of (PendingCommandKind.Rate rate) = CoordinatorPlayerCommand.SetPlaybackRate rate"

definition rate_allowed :: "f64 \<Rightarrow> bool" where
  "rate_allowed rate = f64_within NORMAL_PLAYBACK_RATE (Fin (5 / 4)) rate"

definition issue_guard :: "bool \<Rightarrow> PendingCommandKind \<Rightarrow> PlaybackCoordinator \<Rightarrow> bool" where
  "issue_guard observing kind s \<longleftrightarrow>
     (is_play kind \<longrightarrow> observing \<and> playing_room s)
     \<and> (\<forall>rate. kind = PendingCommandKind.Rate rate \<longrightarrow> rate_allowed rate)
     \<and> (is_catchup_rate kind \<longrightarrow> catchup_owned s)"

fun is_execute :: "PlaybackCoordinatorAction \<Rightarrow> bool" where
  "is_execute (PlaybackCoordinatorAction.Execute _ _) = True"
| "is_execute _ = False"

definition command_key :: "PendingCommand \<Rightarrow> u64 \<times> PendingCommandKind" where
  "command_key c = (cm_id c, cm_kind c)"

section \<open>Steps\<close>

text \<open>
  \<open>observing\<close> marks the operations that consume an observation: only they may ask the player to
  play, and they leave the room's wish, the media generation and the command budget alone.
\<close>

inductive pc_micro :: "bool \<Rightarrow> PlaybackCoordinator \<Rightarrow> PlaybackCoordinator \<Rightarrow> bool"
  for observing where
  frame: "pc_view t = pc_view s \<Longrightarrow> pc_micro observing s t"
| retain: "pc_micro observing s (retain_commands P s)"
| touch: "map command_key cs = map command_key (pc_pending_commands s) \<Longrightarrow>
    pc_micro observing s (s\<lparr>pc_pending_commands := cs\<rparr>)"
| emit: "list_all (\<lambda>a. \<not> is_execute a) as \<Longrightarrow>
    pc_micro observing s (s\<lparr>pc_actions := pc_actions s @ as\<rparr>)"
| issue: "issue_guard observing kind s \<Longrightarrow>
    pc_micro observing s (snd (issue_command revision now kind (player_command_of kind) s))"
| reset_rate: "pc_micro observing s (request_rate_reset s)"
| own_rate: "\<not> ro_reset_requested r \<Longrightarrow> is_some_and (pc_recovery s) (\<lambda>e. re_id e = ro_episode_id r) \<Longrightarrow>
    pc_micro observing s (s\<lparr>pc_rate_override := Some r\<rparr>)"
| release_rate: "is_some_and (pc_rate_override s) ro_reset_requested \<or> pc_pending_commands s = [] \<Longrightarrow>
    pc_micro observing s (s\<lparr>pc_rate_override := None\<rparr>)"
| close: "is_none_or (pc_rate_override s) ro_reset_requested \<Longrightarrow>
    pc_micro observing s (s\<lparr>pc_recovery := None\<rparr>)"
| open_new: "pc_recovery s = None \<Longrightarrow>
    pc_micro observing s (open_recovery entered_at baseline frozen s)"
| attempt: "is_some_and (pc_recovery s) (\<lambda>e. re_hard_seek_attempts e < cf_maximum_hard_seeks_per_episode (pc_config s)) \<Longrightarrow>
    pc_micro observing s (modify_recovery (\<lambda>e. e\<lparr>re_hard_seek_attempts :=
      saturating_add_u32 (re_hard_seek_attempts e) 1\<rparr>)
      (modify_metrics (\<lambda>m. m\<lparr>pm_hard_seek_count := saturating_add (pm_hard_seek_count m) 1\<rparr>) s))"
| observed: "window_ok (Option.bind x os_known_live_seekable_window) \<Longrightarrow>
    pc_micro observing s (s\<lparr>pc_observed := x\<rparr>)"
| ranges: "ranges_ok x \<Longrightarrow> pc_micro observing s (s\<lparr>pc_cached_seekable_ranges := x\<rparr>)"
| degrade: "pc_micro observing s (s\<lparr>pc_command_budget_degraded := True\<rparr>)"
| restore: "\<not> observing \<Longrightarrow> pc_micro observing s (s\<lparr>pc_command_budget_degraded := False\<rparr>)"
| cooldown: "\<not> observing \<Longrightarrow> pc_micro observing s (s\<lparr>pc_retry_not_before_seconds := now\<rparr>)"
| recount: "\<not> observing \<Longrightarrow> pc_micro observing s (s\<lparr>pc_failed_command_attempts := n\<rparr>)"
| desire: "\<not> observing \<Longrightarrow> pc_micro observing s (s\<lparr>pc_desired := d\<rparr>)"
| media: "\<not> observing \<Longrightarrow> pc_micro observing s (s\<lparr>pc_media := m\<rparr>)"

definition micros :: "bool \<Rightarrow> PlaybackCoordinator \<Rightarrow> PlaybackCoordinator \<Rightarrow> bool" where
  "micros observing = (pc_micro observing)\<^sup>*\<^sup>*"

lemma micros_refl [simp, intro, micro_intros]: "micros b s s"
  by (simp add: micros_def)

lemma micros_trans: "micros b s t \<Longrightarrow> micros b t u \<Longrightarrow> micros b s u"
  unfolding micros_def by (rule rtranclp_trans)

lemma micros_step: "micros b s t \<Longrightarrow> pc_micro b t u \<Longrightarrow> micros b s u"
  unfolding micros_def by (rule rtranclp.rtrancl_into_rtrancl)

lemma micros_frame: "micros b s t \<Longrightarrow> pc_view u = pc_view t \<Longrightarrow> micros b s u"
  by (blast intro: micros_step pc_micro.frame)

lemma micros_induct [consumes 1, case_names refl step]:
  "micros b s t \<Longrightarrow> P s \<Longrightarrow> (\<And>t u. micros b s t \<Longrightarrow> pc_micro b t u \<Longrightarrow> P t \<Longrightarrow> P u) \<Longrightarrow> P t"
  unfolding micros_def by (induction rule: rtranclp_induct) auto

section \<open>Frame steps\<close>

lemma coordinator_view_updates [simp]:
  "pc_view (s\<lparr>pc_seek_preparation := x1\<rparr>) = pc_view s"
  "pc_view (s\<lparr>pc_last_seek_preparation_terminal := x2\<rparr>) = pc_view s"
  "pc_view (s\<lparr>pc_next_media_generation := x3\<rparr>) = pc_view s"
  "pc_view (s\<lparr>pc_next_seek_preparation_id := x4\<rparr>) = pc_view s"
  "pc_view (s\<lparr>pc_last_applied_revision := x5\<rparr>) = pc_view s"
  "pc_view (s\<lparr>pc_applied_observation_revision := x6\<rparr>) = pc_view s"
  "pc_view (s\<lparr>pc_last_started_revision := x7\<rparr>) = pc_view s"
  "pc_view (s\<lparr>pc_desired_seek_satisfied_revision := x8\<rparr>) = pc_view s"
  "pc_view (s\<lparr>pc_required_seek_dispatch_revision := x9\<rparr>) = pc_view s"
  "pc_view (s\<lparr>pc_authoritative_alignment_guard_revision := x10\<rparr>) = pc_view s"
  "pc_view (s\<lparr>pc_completed_seek_restart_baseline := x11\<rparr>) = pc_view s"
  "pc_view (s\<lparr>pc_observation_sequence := x12\<rparr>) = pc_view s"
  "pc_view (s\<lparr>pc_last_playback_rate_observation_sequence := x13\<rparr>) = pc_view s"
  "pc_view (s\<lparr>pc_pending_degraded_reason := x16\<rparr>) = pc_view s"
  "pc_view (s\<lparr>pc_diagnostic := x17\<rparr>) = pc_view s"
  by (simp_all add: pc_view_defs)

lemma coordinator_view_modify [simp]:
  "(\<And>m. pm_hard_seek_count (f m) = pm_hard_seek_count m) \<Longrightarrow> pc_view (modify_metrics f s) = pc_view s"
  "pc_view (modify_seek_preparation g s) = pc_view s"
  "pc_view (modify_terminal h s) = pc_view s"
  "pc_view (clear_participant_status_transport_metrics s) = pc_view s"
  by (simp_all add: modify_metrics_def modify_seek_preparation_def modify_terminal_def
      clear_participant_status_transport_metrics_def pc_view_defs)

lemma view_invalidate [simp]: "pc_view (invalidate_cache_metrics_for_seek s) = pc_view s"
  by (cases "pc_observed s") (auto simp: invalidate_cache_metrics_for_seek_def Let_def modify_metrics_def pc_view_defs)

lemma view_modify_recovery:
  "(\<And>e. re_id (f e) = re_id e \<and> re_hard_seek_attempts (f e) = re_hard_seek_attempts e) \<Longrightarrow>
   pc_view (modify_recovery f s) = pc_view s"
  by (cases "pc_recovery s") (auto simp: modify_recovery_def pc_view_defs)

lemma view_mark_issued [simp]: "pc_view (mark_seek_preparation_primary_issued x s) = pc_view s"
  by (simp add: mark_seek_preparation_primary_issued_def)

text \<open>A frame step goes both ways, so the simplifier removes it on either side.\<close>

lemma micros_target: "pc_view u = pc_view t \<Longrightarrow> micros b s u \<longleftrightarrow> micros b s t"
  using micros_frame by metis

lemma micros_source: "pc_view u = pc_view t \<Longrightarrow> micros b u s \<longleftrightarrow> micros b t s"
  by (metis micros_frame micros_refl micros_trans)

lemmas frame_views = coordinator_view_updates coordinator_view_modify view_invalidate view_mark_issued

lemmas micros_target_simps [simp] = frame_views [THEN micros_target]

section \<open>Small updates as steps\<close>

lemma micros_retain [micro_intros]: "micros b s t \<Longrightarrow> micros b s (retain_commands P t)"
  by (rule micros_step [OF _ pc_micro.retain])

lemma micros_push [micro_intros]: "micros b s t \<Longrightarrow> \<not> is_execute a \<Longrightarrow> micros b s (push_action a t)"
  unfolding push_action_def by (rule micros_step [OF _ pc_micro.emit]) auto

lemma micros_reset_rate [micro_intros]: "micros b s t \<Longrightarrow> micros b s (request_rate_reset t)"
  by (rule micros_step [OF _ pc_micro.reset_rate])

lemma micros_modify_recovery [micro_intros]:
  "micros b s t \<Longrightarrow> (\<And>e. re_id (f e) = re_id e \<and> re_hard_seek_attempts (f e) = re_hard_seek_attempts e) \<Longrightarrow>
   micros b s (modify_recovery f t)"
  by (rule micros_frame [OF _ view_modify_recovery])

lemma request_rate_reset_requested: "is_none_or (pc_rate_override (request_rate_reset s)) ro_reset_requested"
  by (auto simp: request_rate_reset_def is_none_or_def retain_commands_def split: option.splits)

lemma micros_close [micro_intros]: "micros b s t \<Longrightarrow> micros b s (close_recovery_without_metrics t)"
  unfolding close_recovery_without_metrics_def
  by (rule micros_step [OF micros_reset_rate pc_micro.close]) (simp_all add: request_rate_reset_requested)

lemma micros_close_with_metrics [micro_intros]:
  "micros b s t \<Longrightarrow> micros b s (close_recovery_with_metrics now t)"
  using micros_close [of b s t] micros_reset_rate [of b s t]
  by (auto simp: close_recovery_with_metrics_def Let_def close_recovery_without_metrics_def split: option.splits)

lemma micros_open [micro_intros]:
  "micros b s t \<Longrightarrow> pc_recovery t = None \<Longrightarrow> micros b s (open_recovery now baseline frozen t)"
  by (rule micros_step [OF _ pc_micro.open_new])

lemma micros_handoff [micro_intros]: "micros b s t \<Longrightarrow> micros b s (begin_recovery_handoff now t)"
  by (auto simp: begin_recovery_handoff_def intro: micros_open)

lemma micros_drop_all: "micros b s t \<Longrightarrow> micros b s (t\<lparr>pc_pending_commands := []\<rparr>)"
  using micros_retain [of b s t "\<lambda>_. False"] by (simp add: retain_commands_def)

lemma pc_actions_simps [simp]:
  "pc_actions (modify_metrics f s) = pc_actions s"
  by (simp add: modify_metrics_def)

section \<open>Well-formed evidence\<close>

definition pc_wf :: "PlaybackCoordinator \<Rightarrow> bool" where
  "pc_wf s \<longleftrightarrow> rate_allowed (cf_maximum_catchup_rate (pc_config s)) \<and> window_ok (live_window s)
     \<and> ranges_ok (pc_cached_seekable_ranges s)"

lemma pc_wf_view: "pc_view t = pc_view s \<Longrightarrow> pc_wf t \<longleftrightarrow> pc_wf s"
  by (simp add: pc_wf_def pc_view_def)

lemma modify_metrics_fields [simp]:
  "pc_config (modify_metrics f s) = pc_config s" "pc_desired (modify_metrics f s) = pc_desired s"
  "pc_media (modify_metrics f s) = pc_media s" "pc_observed (modify_metrics f s) = pc_observed s"
  "pc_recovery (modify_metrics f s) = pc_recovery s" "pc_rate_override (modify_metrics f s) = pc_rate_override s"
  "pc_cached_seekable_ranges (modify_metrics f s) = pc_cached_seekable_ranges s"
  "pc_pending_commands (modify_metrics f s) = pc_pending_commands s"
  "pc_next_command_id (modify_metrics f s) = pc_next_command_id s"
  "pc_next_recovery_episode_id (modify_metrics f s) = pc_next_recovery_episode_id s"
  "pc_command_budget_degraded (modify_metrics f s) = pc_command_budget_degraded s"
  "pc_retry_not_before_seconds (modify_metrics f s) = pc_retry_not_before_seconds s"
  "pc_failed_command_attempts (modify_metrics f s) = pc_failed_command_attempts s"
  "live_window (modify_metrics f s) = live_window s" "rate_view (modify_metrics f s) = rate_view s"
  "recovery_view (modify_metrics f s) = recovery_view s"
  by (simp_all add: modify_metrics_def live_window_def rate_view_def recovery_view_def)

lemma evidence_fields:
  "pc_config (retain_commands P s) = pc_config s" "live_window (retain_commands P s) = live_window s"
  "pc_cached_seekable_ranges (retain_commands P s) = pc_cached_seekable_ranges s"
  "pc_config (request_rate_reset s) = pc_config s" "live_window (request_rate_reset s) = live_window s"
  "pc_cached_seekable_ranges (request_rate_reset s) = pc_cached_seekable_ranges s"
  "pc_config (open_recovery x y z s) = pc_config s" "live_window (open_recovery x y z s) = live_window s"
  "pc_cached_seekable_ranges (open_recovery x y z s) = pc_cached_seekable_ranges s"
  "pc_config (modify_recovery f s) = pc_config s" "live_window (modify_recovery f s) = live_window s"
  "pc_cached_seekable_ranges (modify_recovery f s) = pc_cached_seekable_ranges s"
  by (auto simp: retain_commands_def request_rate_reset_def open_recovery_def modify_recovery_def
      live_window_def Let_def split: option.splits)

lemma live_window_invalidate: "live_window (invalidate_cache_metrics_for_seek s) = live_window s"
  by (cases "pc_observed s")
    (auto simp: live_window_def invalidate_cache_metrics_for_seek_def Let_def modify_metrics_def)

lemma issue_refused: "command_refused now kind s \<Longrightarrow> issue_command revision now kind command s = (None, s)"
  by (simp add: issue_command_def)

lemma next_command_id_invalidate [simp]:
  "pc_next_command_id (invalidate_cache_metrics_for_seek s) = pc_next_command_id s"
  "pc_pending_commands (invalidate_cache_metrics_for_seek s) = pc_pending_commands s"
  "pc_rate_override (invalidate_cache_metrics_for_seek s) = pc_rate_override s"
  "pc_actions (invalidate_cache_metrics_for_seek s) = pc_actions s"
  "pc_config (invalidate_cache_metrics_for_seek s) = pc_config s"
  "pc_recovery (invalidate_cache_metrics_for_seek s) = pc_recovery s"
  "pc_desired (invalidate_cache_metrics_for_seek s) = pc_desired s"
  "pc_media (invalidate_cache_metrics_for_seek s) = pc_media s"
  "pc_cached_seekable_ranges (invalidate_cache_metrics_for_seek s) = pc_cached_seekable_ranges s"
  "pc_next_recovery_episode_id (invalidate_cache_metrics_for_seek s) = pc_next_recovery_episode_id s"
  "pc_command_budget_degraded (invalidate_cache_metrics_for_seek s) = pc_command_budget_degraded s"
  "pc_retry_not_before_seconds (invalidate_cache_metrics_for_seek s) = pc_retry_not_before_seconds s"
  "pm_hard_seek_count (pc_metrics (invalidate_cache_metrics_for_seek s)) = pm_hard_seek_count (pc_metrics s)"
  "pc_failed_command_attempts (invalidate_cache_metrics_for_seek s) = pc_failed_command_attempts s"
  by (simp_all add: invalidate_cache_metrics_for_seek_def Let_def modify_metrics_def)

definition next_id :: "PlaybackCoordinator \<Rightarrow> u64" where
  "next_id s = max (saturating_add (pc_next_command_id s) 1) 1"

lemma issue_accepted:
  fixes revision :: u64 and command :: CoordinatorPlayerCommand
  assumes "\<not> command_refused now kind s"
  defines "t \<equiv> snd (issue_command revision now kind command s)"
  shows "fst (issue_command revision now kind command s) = Some (next_id s)"
    and "pc_view t =
      ((pc_config s, coordinator_media_generation s, pc_desired s, live_window s, pc_cached_seekable_ranges s),
       (recovery_view s, pc_next_recovery_episode_id s, rate_view s),
       (pc_pending_commands s @ [\<lparr>cm_id = next_id s, cm_revision = revision, cm_issued_at_seconds = now,
          cm_accepted = False, cm_kind = kind\<rparr>], next_id s, pc_command_budget_degraded s,
        pc_actions s @ [PlaybackCoordinatorAction.Execute (next_id s) command], pc_retry_not_before_seconds s),
       (pm_hard_seek_count (pc_metrics s), pc_failed_command_attempts s))"
proof -
  show "fst (issue_command revision now kind command s) = Some (next_id s)"
    using assms(1) by (simp add: issue_command_def Let_def next_id_def)
  have "live_window t = live_window s"
    using live_window_invalidate [of s] assms(1)
    by (auto simp: t_def issue_command_def Let_def push_action_def live_window_def)
  then show "pc_view t =
      ((pc_config s, coordinator_media_generation s, pc_desired s, live_window s, pc_cached_seekable_ranges s),
       (recovery_view s, pc_next_recovery_episode_id s, rate_view s),
       (pc_pending_commands s @ [\<lparr>cm_id = next_id s, cm_revision = revision, cm_issued_at_seconds = now,
          cm_accepted = False, cm_kind = kind\<rparr>], next_id s, pc_command_budget_degraded s,
        pc_actions s @ [PlaybackCoordinatorAction.Execute (next_id s) command], pc_retry_not_before_seconds s),
       (pm_hard_seek_count (pc_metrics s), pc_failed_command_attempts s))"
    unfolding pc_view_def using assms(1)
    by (auto simp: t_def issue_command_def Let_def push_action_def next_id_def recovery_view_def rate_view_def
        coordinator_media_generation_def option.map_comp comp_def)
qed

lemma issue_evidence:
  "pc_config (snd (issue_command r n k c s)) = pc_config s"
  "live_window (snd (issue_command r n k c s)) = live_window s"
  "pc_cached_seekable_ranges (snd (issue_command r n k c s)) = pc_cached_seekable_ranges s"
  "pc_desired (snd (issue_command r n k c s)) = pc_desired s"
  "coordinator_media_generation (snd (issue_command r n k c s)) = coordinator_media_generation s"
  "pc_retry_not_before_seconds (snd (issue_command r n k c s)) = pc_retry_not_before_seconds s"
  using issue_accepted(2) [of n k s r c] issue_refused [of n k s r c]
  by (cases "command_refused n k s"; simp add: pc_view_def)+

lemma pc_wf_step: "pc_micro b s t \<Longrightarrow> pc_wf s \<Longrightarrow> pc_wf t"
proof (induction rule: pc_micro.induct)
  case (frame t s)
  then show ?case using pc_wf_view by blast
qed (auto simp: pc_wf_def evidence_fields issue_evidence, auto simp: live_window_def)

lemma pc_wf_micros: "micros b s t \<Longrightarrow> pc_wf s \<Longrightarrow> pc_wf t"
  by (induction rule: micros_induct) (auto intro: pc_wf_step)

lemma observing_step:
  "pc_micro True s t \<Longrightarrow> pc_desired t = pc_desired s \<and> coordinator_media_generation t = coordinator_media_generation s
     \<and> pc_config t = pc_config s \<and> pc_retry_not_before_seconds t = pc_retry_not_before_seconds s"
proof (induction rule: pc_micro.induct)
  case (frame t s)
  then show ?case by (simp add: pc_view_def)
qed (auto simp: evidence_fields issue_evidence coordinator_media_generation_def retain_commands_def
    request_rate_reset_def open_recovery_def modify_recovery_def Let_def issue_evidence(5) [unfolded coordinator_media_generation_def]
    split: option.splits)

lemma observing_micros:
  "micros True s t \<Longrightarrow> pc_desired t = pc_desired s \<and> coordinator_media_generation t = coordinator_media_generation s
     \<and> pc_config t = pc_config s \<and> pc_retry_not_before_seconds t = pc_retry_not_before_seconds s"
  by (induction rule: micros_induct) (auto dest: observing_step)

end
