(* ===== verification/Playback_Traces.thy ===== *)
theory Playback_Traces
  imports Playback_Steps
begin

text \<open>
  Every operation of the coordinator is a sequence of guarded steps, and on well-formed evidence
  the operations that clamp a position return.
\<close>

section \<open>Commands\<close>

lemma micros_issue:
  "micros b s t \<Longrightarrow> issue_guard b kind t \<Longrightarrow> command = player_command_of kind \<Longrightarrow>
   micros b s (snd (issue_command revision now kind command t))"
  by (auto intro: micros_step [OF _ pc_micro.issue])

lemma issue_guard_plain: "\<not> is_play kind \<Longrightarrow> \<forall>rate. kind \<noteq> PendingCommandKind.Rate rate \<Longrightarrow> issue_guard b kind s"
  by (cases kind) (auto simp: issue_guard_def)

lemma rounded_tolerance: "f64_lt rate_tolerance (Fin 0) = False"
  using rounded_nonneg [of "1 / 1000"] by (auto simp: rate_tolerance_def round_f64_eq)

lemma normal_rate_not_catchup: "\<not> is_catchup_rate (PendingCommandKind.Rate NORMAL_PLAYBACK_RATE)"
  by (simp add: NORMAL_PLAYBACK_RATE_def distance_def f64_sub_def round_f64_def rounded_tolerance)

lemma issue_guard_normal_rate: "issue_guard b (PendingCommandKind.Rate NORMAL_PLAYBACK_RATE) s"
  using normal_rate_not_catchup
  by (auto simp: issue_guard_def rate_allowed_def f64_within_def NORMAL_PLAYBACK_RATE_def)

lemma micros_pause [micro_intros]: "micros b s t \<Longrightarrow> micros b s (issue_pause desired observed t)"
  by (auto simp: issue_pause_def intro!: micros_issue issue_guard_plain)

lemma micros_seek [micro_intros]: "micros b s t \<Longrightarrow> micros b s (snd (issue_seek revision now target restart alt t))"
  by (auto simp: issue_seek_def intro!: micros_issue issue_guard_plain)

lemma micros_release:
  "micros b s t \<Longrightarrow> is_some_and (pc_rate_override t) ro_reset_requested \<Longrightarrow> micros b s (t\<lparr>pc_rate_override := None\<rparr>)"
  by (auto intro: micros_step [OF _ pc_micro.release_rate])

lemma micros_reconcile [micro_intros]:
  assumes "micros b s t"
  shows "micros b s (reconcile_rate_override observed now t)"
proof (cases "pc_rate_override t")
  case None
  then show ?thesis using assms by (simp add: reconcile_rate_override_def)
next
  case (Some r)
  define u where "u = (if ro_reset_requested r then t else request_rate_reset t)"
  have u: "micros b s u" and requested: "is_some_and (pc_rate_override u) ro_reset_requested"
    using assms Some micros_reset_rate [OF assms]
    by (auto simp: u_def is_some_and_def request_rate_reset_def retain_commands_def)
  show ?thesis
    using assms u micros_release [OF u requested] micros_issue [OF u issue_guard_normal_rate]
    by (simp add: reconcile_rate_override_def Some Let_def flip: u_def)
qed

section \<open>Recovery\<close>

lemma micros_enter_degraded [micro_intros]:
  "micros b s t \<Longrightarrow> micros b s (enter_degraded_recovery reason t)"
  unfolding enter_degraded_recovery_def Let_def
  by (auto intro!: micro_intros)

lemma micros_recovery_frame:
  "micros b s t \<Longrightarrow> pc_recovery t = Some e \<Longrightarrow> re_id e' = re_id e \<Longrightarrow> re_hard_seek_attempts e' = re_hard_seek_attempts e \<Longrightarrow>
   micros b s (t\<lparr>pc_recovery := Some e'\<rparr>)"
  by (erule micros_frame) (simp add: pc_view_defs)

lemma micros_update_recovery [micro_intros]:
  "micros b s t \<Longrightarrow> micros b s (snd (update_recovery_episode observed advancing sampled t))"
  unfolding update_recovery_episode_def Let_def
  by (auto split: option.splits intro!: micro_intros micros_recovery_frame)

lemma round_f64_one: "round_f64 1 = Fin 1"
  by code_simp

lemma rate_allowed_catchup:
  "rate_allowed rate \<Longrightarrow> rate_allowed (f64_min rate CONSERVATIVE_CATCHUP_RATE_WITHOUT_HEADROOM)"
proof -
  have "f64_le (Fin 1) CONSERVATIVE_CATCHUP_RATE_WITHOUT_HEADROOM"
    using round_f64_mono [of 1 "103 / 100"]
    by (simp add: CONSERVATIVE_CATCHUP_RATE_WITHOUT_HEADROOM_def round_f64_one)
  moreover have "CONSERVATIVE_CATCHUP_RATE_WITHOUT_HEADROOM \<noteq> NaN"
    by (simp add: CONSERVATIVE_CATCHUP_RATE_WITHOUT_HEADROOM_def)
  moreover assume "rate_allowed rate"
  ultimately show ?thesis
    using f64_min_le(1) [of rate CONSERVATIVE_CATCHUP_RATE_WITHOUT_HEADROOM]
    by (cases "rate = NaN")
      (auto simp: rate_allowed_def f64_within_def NORMAL_PLAYBACK_RATE_def f64_min_def intro: f64_le_trans)
qed

lemma own_rate_micros:
  "micros b s t \<Longrightarrow> \<not> ro_reset_requested r \<Longrightarrow> is_some_and (pc_recovery t) (\<lambda>e. re_id e = ro_episode_id r) \<Longrightarrow>
   micros b s (t\<lparr>pc_rate_override := Some r\<rparr>)"
  by (auto intro: micros_step [OF _ pc_micro.own_rate])

lemma issue_guard_owned:
  "rate_allowed rate \<Longrightarrow> is_some_and (pc_recovery u) (\<lambda>e. re_id e = ro_episode_id r) \<Longrightarrow>
   \<not> ro_reset_requested r \<Longrightarrow> issue_guard b (PendingCommandKind.Rate rate) (u\<lparr>pc_rate_override := Some r\<rparr>)"
  by (auto simp: issue_guard_def catchup_owned_def rate_view_def recovery_view_def is_some_and_def split: option.splits)

lemma micros_begin_catchup:
  assumes "pc_wf s" "micros b s t" "is_some_and (pc_recovery t) (\<lambda>e. re_id e = re_id episode)"
  shows "micros b s (begin_catchup desired observed episode lag t)"
proof -
  have owner: "is_some_and (pc_recovery (modify_recovery f u)) (\<lambda>e. re_id e = re_id episode)"
    if "is_some_and (pc_recovery u) (\<lambda>e. re_id e = re_id episode)" "\<And>e. re_id (f e) = re_id e" for f u
    using that by (auto simp: modify_recovery_def is_some_and_def split: option.splits)
  have allowed: "rate_allowed (catchup_rate episode u)" if "micros b s u" for u
    using pc_wf_micros [OF that assms(1)] by (auto simp: pc_wf_def catchup_rate_def Let_def rate_allowed_catchup)
  define u where "u = modify_recovery (\<lambda>e. e\<lparr>re_catchup_active := True\<rparr>) (modify_metrics
    (\<lambda>m. m\<lparr>pm_gentle_catchup_count := saturating_add (pm_gentle_catchup_count m) 1\<rparr>) t)"
  define v where "v = modify_recovery (\<lambda>e. e\<lparr>re_catchup_deadline_seconds :=
      Some (f64_add (os_observed_at_seconds observed)
        (catchup_deadline_after (catchup_rate episode u) lag (pc_config u)))\<rparr>) u"
  have u: "micros b s u" "is_some_and (pc_recovery u) (\<lambda>e. re_id e = re_id episode)"
    unfolding u_def using assms(2,3) by (auto intro!: micro_intros owner)
  then have v: "micros b s v" "is_some_and (pc_recovery v) (\<lambda>e. re_id e = re_id episode)"
    unfolding v_def by (auto intro!: micro_intros owner)
  show ?thesis
    unfolding begin_catchup_def Let_def
    unfolding u_def [symmetric] v_def [symmetric]
    by (rule micros_issue [OF own_rate_micros issue_guard_owned]) (use v allowed [OF u(1)] in simp_all)
qed

section \<open>Operations that clamp a position\<close>

definition runs :: "bool \<Rightarrow> PlaybackCoordinator \<Rightarrow> PlaybackCoordinator option \<Rightarrow> bool" where
  "runs b s r \<longleftrightarrow> (\<exists>t. r = Some t \<and> micros b s t)"

lemma runs_Some [simp]: "runs b s (Some t) \<longleftrightarrow> micros b s t"
  by (simp add: runs_def)

lemma runs_bind: "runs b s r \<Longrightarrow> (\<And>t. micros b s t \<Longrightarrow> runs b s (k t)) \<Longrightarrow> runs b s (Option.bind r k)"
  by (auto simp: runs_def)

lemma runs_value: "r = Some x \<Longrightarrow> runs b s (k x) \<Longrightarrow> runs b s (Option.bind r k)"
  by simp

lemma live_safe_end_ge: "start \<noteq> NaN \<Longrightarrow> f64_le start (live_safe_end start finish)"
  by (auto simp: live_safe_end_def intro: f64_max_ge)

lemma f64_clamp_total: "f64_le lo hi \<Longrightarrow> \<exists>y. f64_clamp x lo hi = Some y"
  by (simp add: f64_clamp_def)

lemma clamp_seek_target_total:
  "window_ok (os_known_live_seekable_window observed) \<Longrightarrow> \<exists>y. clamp_seek_target target observed s = Some y"
  unfolding clamp_seek_target_def Let_def
  by (auto simp: window_ok_def is_none_or_def live_safe_end_ge f64_clamp_total split: option.splits)

lemma clamp_to_live_total: "window_ok window \<Longrightarrow> \<exists>y. clamp_to_live_seekable_window target window = Some y"
proof (cases window)
  case (Some w)
  assume "window_ok window"
  then have "f64_le (sr_start_seconds w) (live_safe_end (sr_start_seconds w) (sr_end_seconds w))"
    using Some by (intro live_safe_end_ge) (simp add: window_ok_def is_none_or_def)
  from f64_clamp_total [OF this, of target] show ?thesis
    using Some by (auto simp: clamp_to_live_seekable_window_def)
qed (simp add: clamp_to_live_seekable_window_def)

lemma those_total: "\<forall>x\<in>set xs. \<exists>y. f x = Some y \<Longrightarrow> \<exists>ys. those (map f xs) = Some ys"
  by (induction xs) auto

lemma f64_le_not_NaN: "f64_le x y \<Longrightarrow> x \<noteq> NaN \<and> y \<noteq> NaN"
  by (cases x; cases y) auto

lemma buffered_candidate_total:
  "f64_le (sr_start_seconds r) (sr_end_seconds r) \<Longrightarrow> \<exists>y. buffered_candidate kind target r = Some y"
  unfolding buffered_candidate_def
  by (rule f64_clamp_total) (auto dest: f64_le_not_NaN intro: live_safe_end_ge)

lemma nearest_total: "ranges_ok ranges \<Longrightarrow> \<exists>y. nearest_buffered_target kind target ranges limit = Some y"
proof (cases ranges)
  case (Some rs)
  assume "ranges_ok ranges"
  then have "\<exists>ys. those (map (buffered_candidate kind target) rs) = Some ys"
    using Some by (intro those_total) (auto simp: ranges_ok_def is_none_or_def list_all_iff intro: buffered_candidate_total)
  then show ?thesis using Some by (auto simp: nearest_buffered_target_def)
qed (simp add: nearest_buffered_target_def)

lemma nearest_if_uncached_total: "pc_wf s \<Longrightarrow> \<exists>y. nearest_if_uncached kind availability target s = Some y"
  by (auto simp: nearest_if_uncached_def pc_wf_def nearest_total)

section \<open>Recovery decisions\<close>

lemma runs_hard_seek:
  assumes "pc_wf s" "micros b s t" "window_ok (os_known_live_seekable_window observed)"
    and "is_some_and (pc_recovery t) (\<lambda>e. re_hard_seek_attempts e < cf_maximum_hard_seeks_per_episode (pc_config t))"
  shows "runs b s (begin_hard_seek desired observed room_position t)"
proof -
  obtain target where target: "clamp_seek_target room_position observed t = Some target"
    using clamp_seek_target_total [OF assms(3)] by blast
  let ?m = "modify_metrics (\<lambda>m. m\<lparr>pm_hard_seek_count := saturating_add (pm_hard_seek_count m) 1\<rparr>) t"
  let ?a = "modify_recovery (\<lambda>e. e\<lparr>re_hard_seek_attempts := saturating_add_u32 (re_hard_seek_attempts e) 1\<rparr>) ?m"
  let ?b = "modify_recovery (\<lambda>e. e\<lparr>re_seek_active := True, re_post_cache_baseline_at_seconds := None,
      re_stable_since_seconds := None\<rparr>) ?a"
  have "micros b s ?a" by (rule micros_step [OF assms(2) pc_micro.attempt]) (rule assms(4))
  then have "micros b s ?b" by (rule micros_modify_recovery) simp_all
  moreover have "?b = modify_recovery (\<lambda>e. e\<lparr>re_hard_seek_attempts := saturating_add_u32 (re_hard_seek_attempts e) 1,
      re_seek_active := True, re_post_cache_baseline_at_seconds := None, re_stable_since_seconds := None\<rparr>) ?m"
    by (simp add: modify_recovery_def option.map_comp comp_def)
  ultimately show ?thesis
    unfolding begin_hard_seek_def Let_def target Option.bind.bind_lunit
    by (auto intro: micros_seek)
qed

lemma runs_decide_recovery:
  assumes "pc_wf s" "micros b s t" "window_ok (os_known_live_seekable_window observed)"
    and "pc_recovery t = Some episode"
  shows "runs b s (decide_recovery desired observed episode room_position lag t)"
  unfolding decide_recovery_def Let_def
  using assms
  by (auto intro!: micro_intros micros_begin_catchup runs_hard_seek simp: is_some_and_def)

lemma micros_settle_recovery: "micros b s t \<Longrightarrow> micros b s (settle_recovery observed lag t)"
  unfolding settle_recovery_def Let_def
  by (auto intro!: micro_intros split: option.splits)

lemma runs_coordinate_recovery:
  assumes "pc_wf s" "micros b s t" "window_ok (os_known_live_seekable_window observed)"
  shows "runs b s (coordinate_recovery desired observed fresh advancing t)"
proof -
  have decide: "runs b s (decide_recovery desired observed episode x y u)"
    if "micros b s u" "pc_recovery u = Some episode" for u episode x y
    using runs_decide_recovery [OF assms(1) that(1) assms(3) that(2)] .
  show ?thesis
    unfolding coordinate_recovery_def Let_def
    using assms(2)
    by (auto split: option.splits intro!: runs_bind decide micros_settle_recovery micro_intros)
qed

section \<open>Seek preparation\<close>

lemma micros_finish [micro_intros]: "micros b s t \<Longrightarrow> micros b s (finish_seek_preparation outcome t)"
  unfolding finish_seek_preparation_def Let_def
  by (auto split: option.splits intro!: micro_intros)

lemma micros_fail [micro_intros]: "micros b s t \<Longrightarrow> micros b s (fail_seek_preparation reason t)"
  unfolding fail_seek_preparation_def by (auto intro!: micro_intros)

lemma live_window_of_observed: "pc_wf t \<Longrightarrow> window_ok (Option.bind (pc_observed t) os_known_live_seekable_window)"
  by (simp add: pc_wf_def live_window_def)

lemma freeze_target_total: "window_ok window \<Longrightarrow> \<exists>y. freeze_target kind target window = Some y"
  using clamp_to_live_total [of window target] by (auto simp: freeze_target_def)

lemma nearest_if_uncached_counter [simp]:
  "nearest_if_uncached k a x (t\<lparr>pc_next_seek_preparation_id := n\<rparr>) = nearest_if_uncached k a x t"
  by (simp add: nearest_if_uncached_def)

lemma runs_begin_preparation:
  assumes "pc_wf s" "micros b s t"
  shows "runs b s (begin_seek_preparation_if_needed desired t)"
proof (cases "pc_media t")
  case None
  then show ?thesis using assms(2) by (simp add: begin_seek_preparation_if_needed_def)
next
  case (Some media)
  have wf: "pc_wf t" using assms pc_wf_micros by blast
  define target where "target = position_at desired (dp_anchor_observed_at_seconds desired)"
  define window where "window = Option.bind (pc_observed t) os_known_live_seekable_window"
  define a where "a = classify_seek_target (ms_kind media) (Option.bind (pc_observed t) os_seekable)
    (pc_cached_seekable_ranges t) window target"
  obtain y where y: "freeze_target (ms_kind media) target window = Some y"
    using freeze_target_total [OF live_window_of_observed [OF wf]] unfolding window_def by blast
  obtain z where z: "nearest_if_uncached (ms_kind media) a target t = Some z"
    using nearest_if_uncached_total [OF wf] by blast
  show ?thesis
    unfolding begin_seek_preparation_if_needed_def Let_def Some option.case
    unfolding target_def [symmetric] window_def [symmetric]
    unfolding a_def [symmetric]
    using assms(2) by (simp add: y z micros_close micros_finish)
qed

lemma record_target_evidence_total: "\<exists>e. record_target_evidence observation episode = Some e"
  by (auto simp: record_target_evidence_def Let_def f64_clamp_def split: option.splits)

lemma retarget_preparation_total:
  assumes "pc_wf t" "window_ok (os_known_live_seekable_window observed)"
  shows "\<exists>e. retarget_preparation observed kind availability t current = Some e"
  using nearest_if_uncached_total [OF assms(1), of kind availability "sp_requested_target_seconds current"]
    clamp_to_live_total [OF assms(2), of "sp_requested_target_seconds current"]
  by (auto simp: retarget_preparation_def Let_def)

lemma micros_complete_preparation [micro_intros]:
  "micros b s t \<Longrightarrow> micros b s (complete_seek_preparation observed revision t)"
  unfolding complete_seek_preparation_def Let_def by (auto intro!: micro_intros)

lemma runs_update_preparation:
  assumes "pc_wf s" "micros b s t" "window_ok (os_known_live_seekable_window observed)"
  shows "runs b s (update_seek_preparation observed observation fresh scoped t)"
proof -
  have wf: "pc_wf t" using assms pc_wf_micros by blast
  show ?thesis
  proof (cases "pc_media t"; cases "pc_seek_preparation t")
    fix media current
    assume some: "pc_media t = Some media" "pc_seek_preparation t = Some current"
    define a where "a = classify_seek_target (ms_kind media) (os_seekable observed)
      (pc_cached_seekable_ranges t) (os_known_live_seekable_window observed) (sp_requested_target_seconds current)"
    obtain e where e: "retarget_preparation observed (ms_kind media) a t current = Some e"
      using retarget_preparation_total [OF wf assms(3)] by blast
    obtain e' where e': "(if scoped then record_target_evidence observation e else Some e) = Some e'"
      using record_target_evidence_total [of observation e] by (cases scoped) auto
    obtain ready e'' where j: "judge_readiness observed observation fresh t e' = (ready, e'')" by fastforce
    show ?thesis
      unfolding update_seek_preparation_def Let_def some option.case
      unfolding a_def [symmetric] e Option.bind.bind_lunit e' j
      using assms(2) by (simp add: micros_complete_preparation micros_fail micros_push)
  qed (use assms(2) in \<open>simp_all add: update_seek_preparation_def\<close>)
qed

section \<open>Reconciling the player with the room\<close>

lemma view_note_seek: "pc_view (note_completed_seek observed c s) = pc_view s"
  by (simp add: note_completed_seek_def Let_def)

lemma view_note_seeks: "pc_view (fold (note_completed_seek observed) cs s) = pc_view s"
  by (induction cs arbitrary: s) (simp_all add: view_note_seek)

lemma micros_complete_commands [micro_intros]:
  "micros b s t \<Longrightarrow> micros b s (complete_observed_commands observed advancing t)"
  unfolding complete_observed_commands_def Let_def
  by (auto intro!: micro_intros simp: micros_target [OF view_note_seeks])

lemma view_record_start_latencies [simp]: "pc_view (record_start_latencies desired observed t) = pc_view t"
  by (simp add: record_start_latencies_def Let_def split: option.split)

lemma micros_mark_started [micro_intros]:
  "micros b s t \<Longrightarrow> micros b s (mark_revision_started desired observed t)"
  by (simp add: mark_revision_started_def Let_def micros_push micros_target [OF view_record_start_latencies])

lemma micros_mark_applied [micro_intros]:
  "micros b s t \<Longrightarrow> micros b s (mark_revision_applied desired observed started t)"
  by (simp add: mark_revision_applied_def Let_def micros_mark_started micros_push)

lemma micros_primary_seek [micro_intros]:
  assumes "micros b s t"
  shows "micros b s (snd (issue_seek_preparation_primary_seek desired observed t))"
proof -
  have issued: "micros b s (snd (case issue_seek r n x y False t of (cid, u) \<Rightarrow>
      (False, case cid of None \<Rightarrow> u | Some command_id \<Rightarrow> mark_seek_preparation_primary_issued (Some command_id) u)))" for r n x y
    using micros_seek [OF assms] by (auto split: prod.split option.split) (metis snd_conv)+
  show ?thesis
    unfolding issue_seek_preparation_primary_seek_def Let_def
    using assms issued by (auto split: option.split)
qed

lemma runs_desired_seek:
  assumes "pc_wf s" "micros b s t" "window_ok (os_known_live_seekable_window observed)"
  shows "runs b s (issue_desired_seek_if_needed desired observed t)"
proof -
  obtain target where target: "clamp_seek_target (position_at desired (os_observed_at_seconds observed)) observed t = Some target"
    using clamp_seek_target_total [OF assms(3)] by blast
  show ?thesis
    unfolding issue_desired_seek_if_needed_def Let_def target Option.bind.bind_lunit
    using assms(2) runs_begin_preparation [OF assms(1,2), of desired]
    by (auto intro!: runs_bind micro_intros)
qed

lemma runs_rearm:
  assumes "micros b s t" "window_ok (os_known_live_seekable_window observed)"
  shows "runs b s (rearm_displaced_alignment desired observed t)"
proof -
  obtain target where target: "clamp_seek_target (position_at desired (os_observed_at_seconds observed)) observed t = Some target"
    using clamp_seek_target_total [OF assms(2)] by blast
  show ?thesis
    unfolding rearm_displaced_alignment_def Let_def target Option.bind.bind_lunit
    using assms(1) by (auto intro!: micro_intros)
qed

lemma runs_advance_preparation:
  assumes "pc_wf s" "micros b s t" "window_ok (os_known_live_seekable_window observed)"
  shows "runs b s (advance_active_preparation desired observed observation fresh t)"
proof -
  obtain satisfied u where u: "issue_seek_preparation_primary_seek desired observed (issue_pause desired observed t) = (satisfied, u)"
    by fastforce
  have "micros b s u"
    using micros_primary_seek [OF micros_pause [OF assms(2)], of desired observed desired observed] by (simp add: u)
  then show ?thesis
    unfolding advance_active_preparation_def Let_def u prod.case
    using runs_update_preparation [OF assms(1) _ assms(3)] by simp
qed

lemma runs_paused_room:
  assumes "pc_wf s" "micros b s t" "window_ok (os_known_live_seekable_window observed)"
  shows "runs b s (coordinate_paused_room desired observed t)"
  unfolding coordinate_paused_room_def Let_def
  using runs_desired_seek [OF assms(1) micros_pause [OF assms(2)] assms(3)] assms(2)
  by (auto intro!: runs_bind micro_intros)

lemma micros_play:
  assumes "micros True s t" "playing_room s"
  shows "micros True s (issue_play desired observed t)"
proof -
  have "playing_room t" using observing_micros [OF assms(1)] assms(2) by (simp add: playing_room_def)
  then show ?thesis
    unfolding issue_play_def Let_def by (intro micros_issue assms(1)) (auto simp: issue_guard_def)
qed

lemma runs_playing_room:
  assumes "pc_wf s" "micros True s t" "window_ok (os_known_live_seekable_window observed)" "playing_room s"
  shows "runs True s (coordinate_playing_room desired observed fresh advancing t)"
  unfolding coordinate_playing_room_def Let_def
  using runs_desired_seek [OF assms(1,2,3)] assms(2) micros_play [OF _ assms(4)]
    runs_coordinate_recovery [OF assms(1) _ assms(3)]
  by (auto intro!: runs_bind micro_intros)

lemma runs_without_preparation:
  assumes "pc_wf s" "micros True s t" "window_ok (os_known_live_seekable_window observed)"
    and "\<not> dp_paused desired \<Longrightarrow> playing_room s"
  shows "runs True s (coordinate_without_preparation desired observed fresh advancing t)"
  unfolding coordinate_without_preparation_def
  using runs_paused_room [OF assms(1,2,3)] runs_playing_room [OF assms(1,2,3)] assms(2,4)
  by (auto intro!: micro_intros)

lemma runs_coordinate:
  assumes "pc_wf s" "micros True s t" "window_ok (os_known_live_seekable_window observed)"
    and "coordinator_media_generation s \<noteq> None"
  shows "runs True s (coordinate_desired_state observed observation fresh advancing t)"
proof (cases "pc_desired t")
  case None
  then show ?thesis using assms(2) by (simp add: coordinate_desired_state_def)
next
  case (Some desired)
  have "pc_desired s = Some desired" using observing_micros [OF assms(2)] Some by simp
  then have room: "dp_media_generation desired = generation_or_default t \<Longrightarrow> \<not> dp_paused desired \<Longrightarrow> playing_room s"
    using observing_micros [OF assms(2)] assms(4)
    by (auto simp: playing_room_def generation_or_default_def unwrap_or_def is_some_and_def split: option.splits)
  show ?thesis
    unfolding coordinate_desired_state_def Some option.case
    using assms(2) room
    by (auto intro!: runs_bind runs_rearm [OF _ assms(3)] runs_advance_preparation [OF assms(1) _ assms(3)]
        runs_without_preparation [OF assms(1) _ assms(3)])
qed

end
