(* ===== verification/Playback_Calls.thy ===== *)
theory Playback_Calls
  imports Playback_Traces
begin

text \<open>
  The public operations as calls, each of them a sequence of guarded steps from a coordinator with
  an empty vector of actions.
\<close>

section \<open>Observations\<close>

lemma pc_wf_begin [simp]: "pc_wf (begin_call s) \<longleftrightarrow> pc_wf s"
  by (simp add: pc_wf_def begin_call_def live_window_def)

lemma merge_observed_total:
  assumes "window_ok (os_known_live_seekable_window before)"
  shows "\<exists>o'. merge_observed observation fresh sequence before = Some o'
    \<and> window_ok (os_known_live_seekable_window o')"
proof -
  obtain p where "(case opt_filter f64_is_finite (tp_cache_buffering_percent observation) of
        None \<Rightarrow> Some (os_cache_buffering_percent before)
      | Some value \<Rightarrow> map_option Some (f64_clamp value (Fin 0) (Fin 100))) = Some p"
    by (cases "opt_filter f64_is_finite (tp_cache_buffering_percent observation)") (auto simp: f64_clamp_def)
  moreover have "window_ok (opt_filter valid_live_window w)" for w
    by (auto simp: window_ok_def is_none_or_def opt_filter_def valid_live_window_def f64_is_finite_iff split: option.splits)
  moreover have "window_ok (opt_else x y)" if "window_ok x" "window_ok y" for x y
    using that by (cases x) (simp_all add: opt_else_def)
  ultimately show ?thesis
    using assms by (simp add: merge_observed_def Let_def)
qed

lemma ranges_ok_normalize: "ranges_ok (Some (normalize_seekable_ranges ranges))"
  using normalize_normal_form [of ranges]
  by (auto simp: ranges_ok_def is_none_or_def list_all_iff ordered_range_def)

lemma micros_admit [micro_intros]:
  assumes "micros b s t"
  shows "micros b s (admit_observation observation replace_previous t)"
proof -
  define m where "m = (if tp_timeline_kind observation = Some PlayerTimelineKind.SlidingLive
    then t\<lparr>pc_media := map_option (\<lambda>m. if ms_kind m = MediaTransportKind.NetworkVod
      then m\<lparr>ms_kind := MediaTransportKind.LiveSliding\<rparr> else m) (pc_media t)\<rparr> else t)"
  have "pc_view m = pc_view t"
    by (cases "pc_media t") (auto simp: m_def pc_view_defs)
  then have "micros b s m" using assms micros_frame by blast
  then have "micros b s (m\<lparr>pc_observation_sequence := n\<rparr>)" for n by simp
  then show ?thesis
    unfolding admit_observation_def Let_def m_def [symmetric]
    by (auto intro!: micros_step [OF _ pc_micro.ranges] simp: ranges_ok_def is_none_or_def)
qed

lemma micros_adopt [micro_intros]:
  assumes "micros b s t" "window_ok (os_known_live_seekable_window observed)"
  shows "micros b s (adopt_observed observation observed t)"
proof -
  define r where "r = (if opt_filter (\<lambda>v. f64_is_finite v \<and> f64_lt (Fin 0) v) (tp_playback_rate observation) \<noteq> None
    then t\<lparr>pc_last_playback_rate_observation_sequence := Some (pc_observation_sequence t)\<rparr> else t)"
  define c where "c = (case tp_seekable_ranges observation of None \<Rightarrow> r
    | Some ranges \<Rightarrow> r\<lparr>pc_cached_seekable_ranges := Some (normalize_seekable_ranges ranges)\<rparr>)"
  have "micros b s r" using assms(1) by (simp add: r_def)
  then have "micros b s c"
    by (auto simp: c_def intro: micros_step [OF _ pc_micro.ranges] ranges_ok_normalize split: option.split)
  then show ?thesis
    unfolding adopt_observed_def Let_def r_def [symmetric] c_def [symmetric]
    using assms(2) by (auto intro: micros_step [OF _ pc_micro.observed])
qed

lemma micros_emit: "micros b s t \<Longrightarrow> list_all (\<lambda>a. \<not> is_execute a) as \<Longrightarrow> micros b s (t\<lparr>pc_actions := pc_actions t @ as\<rparr>)"
  by (rule micros_step [OF _ pc_micro.emit])

lemma micros_drain [micro_intros]: "micros b s t \<Longrightarrow> micros b s (drain_pending_actions t)"
  unfolding drain_pending_actions_def
  using micros_emit [of b s t "pending_actions t"]
  by (auto simp: pending_actions_def split: option.splits)

lemma micros_diagnostic [micro_intros]: "micros b s t \<Longrightarrow> micros b s (update_diagnostic_for_observation observed t)"
  by (simp add: update_diagnostic_for_observation_def)

lemma micros_cache_metrics [micro_intros]: "micros b s t \<Longrightarrow> micros b s (record_cache_metrics observation fresh t)"
  by (simp add: record_cache_metrics_def Let_def)

lemma micros_recovery_phase:
  assumes "micros b s t"
  shows "micros b s (case update_recovery_episode observed advancing sampled t of
      (None, u) \<Rightarrow> u | (Some reason, u) \<Rightarrow> enter_degraded_recovery reason u)"
proof -
  obtain r u where u: "update_recovery_episode observed advancing sampled t = (r, u)" by fastforce
  have "micros b s u" using micros_update_recovery [OF assms, of observed advancing sampled] by (simp add: u)
  then show ?thesis by (auto simp: u intro: micro_intros split: option.split)
qed

lemma stale_timestamp_begin [simp]:
  "stale_timestamp observation ((begin_call s)\<lparr>pc_applied_observation_revision := x\<rparr>) = stale_timestamp observation s"
  by (simp add: stale_timestamp_def begin_call_def)

text \<open>An observation that is admitted is merged, and then the room's wish is coordinated and the rate reconciled.\<close>

lemma observe_stages:
  assumes wf: "pc_wf s" and media: "pc_media s = Some media"
    and current: "tp_media_generation observation = ms_generation media" "\<not> stale_timestamp observation s"
  obtains sequence observed advancing u v where
    "merge_observed observation fresh sequence
       (unwrap_or (if replace_previous then None else pc_observed s)
          (empty_observed (tp_observed_at_seconds observation))) = Some observed"
    "window_ok (os_known_live_seekable_window observed)" "micros True (begin_call s) u"
    "coordinate_desired_state observed observation fresh advancing u = Some v"
    "observe_with_seek_preparation_evidence observation fresh replace_previous s =
       Some (let w = reconcile_rate_override observed (os_observed_at_seconds observed) v
             in if fresh then w else w\<lparr>pc_applied_observation_revision := None\<rparr>)"
    "micros True (begin_call s) v"
proof -
  let ?s = "begin_call s"
  have wf': "pc_wf ?s" using wf by simp
  define s0 where "s0 = ?s\<lparr>pc_applied_observation_revision := None\<rparr>"
  have s0: "micros True ?s s0" by (simp add: s0_def)
  have gen: "coordinator_media_generation ?s \<noteq> None"
    using media by (simp add: coordinator_media_generation_def begin_call_def)
  define previous where "previous = (if replace_previous then None else pc_observed s)"
  define s1 where "s1 = admit_observation observation replace_previous s0"
  have s1: "micros True ?s s1" unfolding s1_def by (intro micro_intros s0)
  have "window_ok (os_known_live_seekable_window (unwrap_or previous (empty_observed (tp_observed_at_seconds observation))))"
    using wf by (cases "pc_observed s")
      (auto simp: previous_def unwrap_or_def empty_observed_def pc_wf_def live_window_def window_ok_def is_none_or_def)
  from merge_observed_total [OF this, of observation fresh "pc_observation_sequence s1"]
  obtain observed where merged: "merge_observed observation fresh (pc_observation_sequence s1)
        (unwrap_or previous (empty_observed (tp_observed_at_seconds observation))) = Some observed"
      and window: "window_ok (os_known_live_seekable_window observed)" by blast
  define advancing where "advancing = is_advancing previous observed"
  define sampled where "sampled = (fresh \<and> is_some_and (tp_position_seconds observation) finite_nonnegative)"
  define a where "a = adopt_observed observation observed s1"
  define scoped where "scoped = seek_preparation_accepts_target_cache_evidence observed observation fresh a"
  define c where "c = complete_observed_commands observed advancing (drain_pending_actions
    (update_diagnostic_for_observation observed (record_cache_metrics observation fresh a)))"
  have c: "micros True ?s c" unfolding c_def a_def by (intro micro_intros s1 window)
  obtain p where p: "update_seek_preparation observed observation fresh scoped c = Some p" "micros True ?s p"
    using runs_update_preparation [OF wf' c window, of observation fresh scoped] by (auto simp: runs_def)
  define u where "u = (if pc_seek_preparation p = None
    then (case update_recovery_episode observed advancing sampled p of
            (None, q) \<Rightarrow> q | (Some reason, q) \<Rightarrow> enter_degraded_recovery reason q)
    else p)"
  have u: "micros True ?s u" using p(2) by (simp add: u_def micros_recovery_phase)
  obtain v where v: "coordinate_desired_state observed observation fresh advancing u = Some v" "micros True ?s v"
    using runs_coordinate [OF wf' u window gen, of observation fresh advancing] by (auto simp: runs_def)
  have fields: "pc_media s0 = Some media" "pc_observed s0 = pc_observed s"
    using media by (simp_all add: s0_def begin_call_def)
  have "observe_with_seek_preparation_evidence observation fresh replace_previous s =
       Some (let w = reconcile_rate_override observed (os_observed_at_seconds observed) v
             in if fresh then w else w\<lparr>pc_applied_observation_revision := None\<rparr>)"
    unfolding observe_with_seek_preparation_evidence_def Let_def
    unfolding s0_def [symmetric] fields option.case
    unfolding previous_def [symmetric] s1_def [symmetric] merged Option.bind.bind_lunit
    unfolding advancing_def [symmetric] sampled_def [symmetric] a_def [symmetric]
    unfolding scoped_def [symmetric] c_def [symmetric] p(1) Option.bind.bind_lunit
    unfolding u_def [symmetric] v(1) Option.bind.bind_lunit
    using current by (simp add: s0_def)
  with that merged window u v show ?thesis unfolding previous_def by blast
qed

lemma runs_observe:
  assumes "pc_wf s"
  shows "runs True (begin_call s) (observe_with_seek_preparation_evidence observation fresh replace_previous s)"
proof (cases "\<exists>media. pc_media s = Some media \<and> tp_media_generation observation = ms_generation media
    \<and> \<not> stale_timestamp observation s")
  case True
  then obtain media where m: "pc_media s = Some media" "tp_media_generation observation = ms_generation media"
      "\<not> stale_timestamp observation s" by blast
  show ?thesis
    by (rule observe_stages [OF assms m, of fresh replace_previous])
      (simp add: Let_def micros_reconcile)
next
  case False
  then show ?thesis
    by (auto simp: observe_with_seek_preparation_evidence_def Let_def begin_call_def [of s] split: option.splits)
      (auto simp: begin_call_def stale_timestamp_def)
qed

section \<open>Configuration, media and lifecycle\<close>

lemma micros_desire: "micros False s t \<Longrightarrow> micros False s (t\<lparr>pc_desired := d\<rparr>)"
  by (rule micros_step [OF _ pc_micro.desire]) simp_all

lemma micros_media: "micros False s t \<Longrightarrow> micros False s (t\<lparr>pc_media := m\<rparr>)"
  by (rule micros_step [OF _ pc_micro.media]) simp_all

lemma micros_restore: "micros False s t \<Longrightarrow> micros False s (t\<lparr>pc_command_budget_degraded := False\<rparr>)"
  by (rule micros_step [OF _ pc_micro.restore]) simp_all

lemma micros_cooldown: "micros False s t \<Longrightarrow> micros False s (t\<lparr>pc_retry_not_before_seconds := now\<rparr>)"
  by (rule micros_step [OF _ pc_micro.cooldown]) simp_all

lemma micros_recount: "micros False s t \<Longrightarrow> micros False s (t\<lparr>pc_failed_command_attempts := n\<rparr>)"
  by (rule micros_step [OF _ pc_micro.recount]) simp_all

lemma micros_no_observation:
  "micros b s t \<Longrightarrow> micros b s (t\<lparr>pc_observed := None\<rparr>)"
  by (auto intro: micros_step [OF _ pc_micro.observed] simp: window_ok_def is_none_or_def)

lemma micros_no_ranges: "micros b s t \<Longrightarrow> micros b s (t\<lparr>pc_cached_seekable_ranges := None\<rparr>)"
  by (auto intro: micros_step [OF _ pc_micro.ranges] simp: ranges_ok_def is_none_or_def)

lemmas lifecycle_intros = micros_desire micros_media micros_restore micros_cooldown micros_recount micros_no_observation micros_no_ranges
  micros_drop_all

lemma micros_rearm_recovery: "micros b s t \<Longrightarrow> micros b s (modify_recovery rearm_recovery t)"
  by (rule micros_modify_recovery) (simp_all add: rearm_recovery_def)

lemma micros_reset_epoch: "micros False (begin_call s) (reset_transport_adapter_epoch now s)"
proof -
  define u where "u = modify_recovery rearm_recovery ((clear_participant_status_transport_metrics
    ((begin_call s)\<lparr>pc_observed := None, pc_cached_seekable_ranges := None\<rparr>))\<lparr>pc_pending_commands := []\<rparr>)"
  have "micros False (begin_call s) u"
    unfolding u_def by (intro micros_rearm_recovery lifecycle_intros) (simp add: lifecycle_intros)
  then have u: "micros False (begin_call s) (request_rate_reset u)" by (rule micros_reset_rate)
  show ?thesis
    unfolding reset_transport_adapter_epoch_def Let_def u_def [symmetric]
    using u by (auto split: option.split intro!: lifecycle_intros)
qed

lemma micros_clear_evidence: "micros b s t \<Longrightarrow> micros b s (clear_transport_evidence t)"
  unfolding clear_transport_evidence_def by (intro micros_drop_all) (simp add: lifecycle_intros)

lemma micros_refresh_preparation: "micros b s t \<Longrightarrow> micros b s (refresh_preparation now g a r t)"
  by (simp add: refresh_preparation_def split: option.split)

lemma refresh_transport_runs:
  assumes "micros False s t" "pc_media t \<noteq> None"
  shows "runs False s (map_option snd (refresh_transport kind now baseline t))"
proof -
  define u where "u = (if is_some_and (pc_last_seek_preparation_terminal t) (\<lambda>snapshot.
      ss_terminal_outcome snapshot \<noteq> Some SeekPreparationTerminalOutcome.Cancelled)
    then t\<lparr>pc_last_seek_preparation_terminal := None\<rparr> else t)"
  define v where "v = (if pc_recovery u \<noteq> None then request_rate_reset (modify_recovery rearm_recovery u)
    else close_recovery_without_metrics u)"
  have "micros False s u" using assms(1) by (simp add: u_def)
  then have v: "micros False s v"
    by (auto simp: v_def intro!: micros_reset_rate micros_rearm_recovery micros_close)
  have "pc_media v = pc_media t"
    by (auto simp: v_def u_def request_rate_reset_def modify_recovery_def close_recovery_without_metrics_def
        retain_commands_def split: option.split)
  then obtain media where media: "pc_media v = Some media" using assms(2) by auto
  show ?thesis
    unfolding refresh_transport_def Let_def
    unfolding u_def [symmetric] v_def [symmetric]
    unfolding media option.case
    using v by (simp add: lifecycle_intros micros_refresh_preparation micros_clear_evidence)
qed

lemma begin_media_generation_micros:
  assumes "micros False s t"
  shows "micros False s (snd (begin_media_generation logical_id kind intent now baseline t))"
proof -
  define u where "u = close_recovery_without_metrics
    ((finish_seek_preparation SeekPreparationTerminalOutcome.Cancelled t)\<lparr>pc_last_seek_preparation_terminal := None\<rparr>)"
  have "micros False s u" unfolding u_def by (intro micros_close) (simp add: micros_finish assms)
  then show ?thesis
    unfolding begin_media_generation_def Let_def u_def [symmetric]
    by (simp add: lifecycle_intros micros_clear_evidence)
qed

lemma runs_prepare:
  "runs False (begin_call s) (map_option snd (prepare_media_with_intent_internal logical_id kind intent now preserve s))"
  unfolding prepare_media_with_intent_internal_def Let_def
  by (auto intro!: refresh_transport_runs begin_media_generation_micros
      simp: same_logical_media_def is_some_and_def split: option.splits)

lemma micros_cancel_lifecycle: "micros b s t \<Longrightarrow> micros b s (snd (cancel_preparation_for_lifecycle t))"
  by (auto simp: cancel_preparation_for_lifecycle_def intro!: micro_intros split: option.split)

lemma micros_reconcile_retained: "micros b s t \<Longrightarrow> micros b s (reconcile_retained_observation t)"
  by (auto simp: reconcile_retained_observation_def intro!: micro_intros split: option.split)

lemma micros_interrupt: "micros False (begin_call s) (interrupt_recovery s)"
proof -
  define u where "u = snd (cancel_preparation_for_lifecycle (begin_call s))"
  have "micros False (begin_call s) u" unfolding u_def by (intro micros_cancel_lifecycle micros_refl)
  then show ?thesis
    unfolding interrupt_recovery_def Let_def u_def [symmetric]
    by (intro micros_reconcile_retained micros_close) (simp add: lifecycle_intros)
qed

lemma micros_retire: "micros False (begin_call s) (retire_media s)"
proof -
  define u where "u = finish_seek_preparation SeekPreparationTerminalOutcome.Cancelled (interrupt_recovery s)"
  have "micros False (begin_call s) u" unfolding u_def by (intro micros_finish micros_interrupt)
  then have "micros False (begin_call s) (u\<lparr>pc_media := None, pc_desired := None, pc_observed := None,
      pc_cached_seekable_ranges := None, pc_pending_commands := []\<rparr>)" (is "micros _ _ ?v")
    by (intro lifecycle_intros)
  then have "micros False (begin_call s) (?v\<lparr>pc_rate_override := None\<rparr>)"
    by (rule micros_step [OF _ pc_micro.release_rate]) simp
  then have "micros False (begin_call s) (?v\<lparr>pc_rate_override := None, pc_retry_not_before_seconds := Fin 0,
      pc_failed_command_attempts := 0, pc_command_budget_degraded := False\<rparr>)"
    by (intro micros_restore micros_recount micros_cooldown)
  then show ?thesis
    unfolding retire_media_def Let_def u_def [symmetric]
    by (rule micros_frame) (simp add: pc_view_defs clear_participant_status_transport_metrics_def modify_metrics_def)
qed

section \<open>Adopting what the room asks for\<close>

lemma micros_guard_superseded:
  "micros b s t \<Longrightarrow> micros b s (snd (guard_superseded_dispatch desired kind supersedes t))"
  by (simp add: guard_superseded_dispatch_def Let_def)

lemma runs_update_preparation_for_desired:
  assumes "pc_wf s" "micros b s t"
  shows "runs b s (update_preparation_for_desired desired kind explicit t)"
  unfolding update_preparation_for_desired_def Let_def
  using assms(2)
  by (auto intro!: runs_bind runs_begin_preparation [OF assms(1)] micro_intros)

lemma micros_rebind: "micros b s t \<Longrightarrow> micros b s (rebind_terminal desired kind changed t)"
  by (simp add: rebind_terminal_def Let_def)

lemma micros_adopt_revision: "micros False s t \<Longrightarrow> micros False s (adopt_revision desired t)"
  unfolding adopt_revision_def Let_def
  by (simp add: micros_restore micros_recount micros_cooldown micros_close micros_retain)

lemma runs_update_desired:
  assumes "pc_wf s"
  shows "runs False (begin_call s) (update_desired_room_state_with_kind desired kind s)"
proof -
  have wf: "pc_wf (begin_call s)" using assms by simp
  have guard: "micros False (begin_call s) (snd (if changed then guard_superseded_dispatch desired kind x (begin_call s)
      else (desired, begin_call s)))" for changed x
    by (simp add: micros_guard_superseded)
  show ?thesis
    unfolding update_desired_room_state_with_kind_def Let_def
    by (auto intro!: runs_bind runs_update_preparation_for_desired [OF wf] micros_reconcile_retained micros_desire
        micros_close micros_adopt_revision micros_rebind
        simp: split_beta micros_guard_superseded)
qed

section \<open>Completions and the tick\<close>

lemma map_modify_first: "(\<And>x. g (f x) = g x) \<Longrightarrow> map g (modify_first P f xs) = map g xs"
  by (induction xs) auto

lemma micros_accepted: "micros False (begin_call s) (snd (coordinator_command_accepted command_id s))"
  unfolding coordinator_command_accepted_def Let_def
  by (auto intro!: micros_step [OF _ pc_micro.touch] map_modify_first simp: command_key_def)

lemma micros_supersede: "micros False (begin_call s) (snd (supersede_unaccepted_command command_id s))"
  unfolding supersede_unaccepted_command_def Let_def
  by (auto intro!: micro_intros split: option.split)

lemma micros_degrade_alternative [micro_intros]:
  "micros b s t \<Longrightarrow> micros b s (degrade_failed_buffered_alternative command_id t)"
  unfolding degrade_failed_buffered_alternative_def Let_def
  by (auto intro!: micro_intros split: option.split)

lemma micros_failed: "micros False (begin_call s) (snd (command_failed command_id now s))"
  unfolding command_failed_def Let_def
  by (auto intro!: micro_intros micros_cooldown micros_recount)

lemma micros_expire_preparation [micro_intros]: "micros b s t \<Longrightarrow> micros b s (expire_seek_preparation now t)"
  unfolding expire_seek_preparation_def Let_def by (auto intro!: micro_intros)

lemma micros_hold_pause [micro_intros]: "micros b s t \<Longrightarrow> micros b s (hold_masked_pause now t)"
  unfolding hold_masked_pause_def
  by (auto intro!: micros_step [OF _ pc_micro.touch] simp: command_key_def)

lemma micros_degrade_alternatives [micro_intros]:
  "micros b s t \<Longrightarrow> micros b s (fold degrade_failed_buffered_alternative ids t)"
  by (induction ids arbitrary: t) (auto intro: micros_degrade_alternative)

lemma micros_expire_commands [micro_intros]:
  assumes "micros False s t"
  shows "micros False s (expire_commands now t)"
proof -
  define out where "out = timed_out_commands now t"
  define u where "u = modify_metrics (\<lambda>m. m\<lparr>pm_command_timeouts := saturating_add (pm_command_timeouts m) (length out)\<rparr>)
    (retain_commands (\<lambda>c. cm_id c \<notin> set out) (drain_pending_actions (fold degrade_failed_buffered_alternative out t)))"
  have u: "micros False s u" unfolding u_def using assms by (auto intro!: micro_intros)
  show ?thesis
    unfolding expire_commands_def Let_def out_def [symmetric]
    unfolding u_def [symmetric]
    by (rule micros_emit) (use u assms in \<open>auto simp: list_all_iff intro!: micros_cooldown micros_recount\<close>)
qed

lemma micros_exhausted [micro_intros]: "micros b s t \<Longrightarrow> micros b s (degrade_exhausted_budget t)"
  unfolding degrade_exhausted_budget_def Let_def
  by (auto intro!: micro_intros micros_step [OF _ pc_micro.degrade])

lemma micros_tick: "micros False (begin_call s) (coordinator_tick now s)"
  unfolding coordinator_tick_def Let_def
  by (auto intro!: micro_intros split: option.split)

section \<open>Other operations\<close>

lemma micros_expire_observation: "micros False (begin_call s) (expire_transport_observation s)"
  unfolding expire_transport_observation_def by (simp add: lifecycle_intros)

lemma shifted_ordered:
  "f64_is_finite d \<Longrightarrow> f64_le (sr_start_seconds r) (sr_end_seconds r) \<Longrightarrow>
   f64_le (sr_start_seconds (shifted r d)) (sr_end_seconds (shifted r d))"
  by (simp add: shifted_def f64_add_mono)

lemma shifted_not_NaN: "f64_is_finite d \<Longrightarrow> x \<noteq> NaN \<Longrightarrow> f64_add x d \<noteq> NaN"
  by (cases x; cases d) simp_all

lemma micros_shift:
  assumes "pc_wf s" "f64_is_finite d"
  shows "micros False (begin_call s) (shift_local_player_timeline d s)"
proof -
  have "window_ok (Option.bind (map_option (shift_observed d) (pc_observed s)) os_known_live_seekable_window)"
    using assms by (cases "pc_observed s"; auto simp: pc_wf_def live_window_def window_ok_def is_none_or_def
        shift_observed_def shifted_def shifted_not_NaN split: option.splits)
  moreover have "ranges_ok (map_option (map (\<lambda>r. shifted r d)) (pc_cached_seekable_ranges s))"
    using assms by (auto simp: pc_wf_def ranges_ok_def is_none_or_def list_all_iff shifted_ordered split: option.splits)
  ultimately have "micros False (begin_call s) ((begin_call s)\<lparr>pc_observed := map_option (shift_observed d) (pc_observed s),
      pc_cached_seekable_ranges := map_option (map (\<lambda>r. shifted r d)) (pc_cached_seekable_ranges s)\<rparr>)"
    by (auto intro!: micros_step [OF _ pc_micro.ranges] micros_step [OF _ pc_micro.observed])
  then show ?thesis
    unfolding shift_local_player_timeline_def Let_def by (simp add: micros_cancel_lifecycle)
qed

lemma micros_keep_waiting: "micros False (begin_call s) (keep_waiting_for_seek_preparation now s)"
  by (simp add: keep_waiting_for_seek_preparation_def Let_def)

lemma micros_cancel: "micros False (begin_call s) (cancel_seek_preparation s)"
  by (auto simp: cancel_seek_preparation_def Let_def intro!: micro_intros)

lemma micros_confirm: "micros False (begin_call s) (snd (confirm_aligned_local_play now position age s))"
  by (auto simp: confirm_aligned_local_play_def Let_def intro!: micro_intros split: option.split)

lemma micros_join: "micros False (begin_call s) (join_nearest_buffered_seek_preparation now s)"
proof -
  have issued: "micros False (begin_call s) u"
    if "issue_seek r now x y True ((finish_seek_preparation SeekPreparationTerminalOutcome.Superseded (begin_call s))
        \<lparr>pc_desired_seek_satisfied_revision := None\<rparr>) = (cid, u)" for r x y cid u
    using micros_seek [where t = "(finish_seek_preparation SeekPreparationTerminalOutcome.Superseded (begin_call s))
        \<lparr>pc_desired_seek_satisfied_revision := None\<rparr>", of False "begin_call s" r now x y True] that
    by (simp add: micros_finish)
  show ?thesis
    unfolding join_nearest_buffered_seek_preparation_def Let_def
    by (auto intro!: micro_intros intro: issued split: option.split prod.split)
qed

end
