(* ===== verification/Runs.thy ===== *)
theory Runs
  imports Prelude
begin

text \<open>
  Runs of a labelled transition function that logs what each step emits, and the two contracts
  the components use: an invariant of state and log kept by every step, and a first-in first-out outbox whose
  steps deliver exactly a prefix of what is pending.
\<close>

primrec run_steps :: "('l \<Rightarrow> 's \<Rightarrow> 's \<times> 'e list) \<Rightarrow> 'l list \<Rightarrow> 's \<Rightarrow> 's \<times> 'e list" where
  "run_steps step [] s = (s, [])"
| "run_steps step (l # ls) s =
     (let (s', tr) = step l s; (s'', tr') = run_steps step ls s' in (s'', tr @ tr'))"

lemma run_steps_Cons:
  "run_steps step (l # ls) s =
     (fst (run_steps step ls (fst (step l s))), snd (step l s) @ snd (run_steps step ls (fst (step l s))))"
  by (simp add: split_def Let_def)

declare run_steps.simps(2) [simp del]

lemma run_steps_append:
  "run_steps step (ls @ ms) s =
     (fst (run_steps step ms (fst (run_steps step ls s))),
      snd (run_steps step ls s) @ snd (run_steps step ms (fst (run_steps step ls s))))"
  by (induction ls arbitrary: s) (simp_all add: run_steps_Cons)

locale logged_invariant =
  fixes step :: "'l \<Rightarrow> 's \<Rightarrow> 's \<times> 'e list"
    and safe :: "'e list \<Rightarrow> bool"
    and holds :: "'e list \<Rightarrow> 's \<Rightarrow> bool"
  assumes safe_append: "safe (tr @ tr') \<longleftrightarrow> safe tr \<and> safe tr'"
    and holds_step: "holds tr s \<Longrightarrow> safe (snd (step l s)) \<Longrightarrow> holds (tr @ snd (step l s)) (fst (step l s))"
begin

lemma holds_run:
  "holds tr s \<Longrightarrow> safe (snd (run_steps step ls s)) \<Longrightarrow>
   holds (tr @ snd (run_steps step ls s)) (fst (run_steps step ls s))"
proof (induction ls arbitrary: tr s)
  case (Cons l ls)
  then have "holds (tr @ snd (step l s)) (fst (step l s))" "safe (snd (run_steps step ls (fst (step l s))))"
    by (simp_all add: run_steps_Cons safe_append holds_step)
  from Cons.IH [OF this] show ?case by (simp add: run_steps_Cons)
qed simp

end

locale step_invariant =
  fixes step :: "'l \<Rightarrow> 's \<Rightarrow> 's \<times> 'e list"
    and safe :: "'e list \<Rightarrow> bool"
    and holds :: "'s \<Rightarrow> bool"
  assumes safe_app: "safe (tr @ tr') \<longleftrightarrow> safe tr \<and> safe tr'"
    and holds_one: "holds s \<Longrightarrow> safe (snd (step l s)) \<Longrightarrow> holds (fst (step l s))"

sublocale step_invariant \<subseteq> log: logged_invariant step safe "\<lambda>_. holds"
  by unfold_locales (rule safe_app, rule holds_one)

text \<open>What has been delivered, followed by what is pending, is what was ever enqueued.\<close>

locale fifo_outbox = step_invariant step safe holds
  for step :: "'l \<Rightarrow> 's \<Rightarrow> 's \<times> 'e list" and safe :: "'e list \<Rightarrow> bool" and holds :: "'s \<Rightarrow> bool" +
  fixes pending :: "'s \<Rightarrow> 'o list"
    and enqueued :: "'e list \<Rightarrow> 'o list"
    and delivered :: "'e list \<Rightarrow> 'o list"
  assumes enqueued_append: "enqueued (tr @ tr') = enqueued tr @ enqueued tr'"
    and delivered_append: "delivered (tr @ tr') = delivered tr @ delivered tr'"
    and fifo_step: "holds s \<Longrightarrow> safe (snd (step l s)) \<Longrightarrow>
      delivered (snd (step l s)) @ pending (fst (step l s)) = pending s @ enqueued (snd (step l s))"
begin

lemma enqueued_delivered_Nil: "enqueued [] = [] \<and> delivered [] = []"
  using enqueued_append [of "[]" "[]"] delivered_append [of "[]" "[]"] by simp

theorem fifo_run:
  "holds s \<Longrightarrow> safe (snd (run_steps step ls s)) \<Longrightarrow>
   delivered (snd (run_steps step ls s)) @ pending (fst (run_steps step ls s))
     = pending s @ enqueued (snd (run_steps step ls s))"
proof (induction ls arbitrary: s)
  case Nil
  then show ?case by (simp add: enqueued_delivered_Nil)
next
  case (Cons l ls)
  let ?s = "fst (step l s)"
  from Cons.prems have safe: "safe (snd (step l s))" "safe (snd (run_steps step ls ?s))"
    by (simp_all add: run_steps_Cons safe_app)
  with Cons.IH [of ?s] Cons.prems(1) holds_one have
    "delivered (snd (run_steps step ls ?s)) @ pending (fst (run_steps step ls ?s))
       = pending ?s @ enqueued (snd (run_steps step ls ?s))"
    by blast
  moreover note fifo_step [OF Cons.prems(1) safe(1)]
  ultimately show ?case
    unfolding run_steps_Cons fst_conv snd_conv enqueued_append delivered_append
    by (metis append.assoc)
qed

end

end
