(* ===== verification/Playback_Runs.thy ===== *)
theory Playback_Runs
  imports Playback_Calls Runs
begin

text \<open>
  Invariants of the coordinator, checked once per guarded step and lifted to every sequence of
  calls: which commands are in flight, who owns a changed playback rate, how often a recovery
  episode may seek, and what the commands handed to the player may be.
\<close>

section \<open>Fields after a step\<close>

lemma view_fields:
  assumes "pc_view t = pc_view s"
  shows "pc_pending_commands t = pc_pending_commands s" "pc_next_command_id t = pc_next_command_id s"
    "recovery_view t = recovery_view s" "rate_view t = rate_view s" "pc_actions t = pc_actions s"
    "pc_config t = pc_config s" "pc_desired t = pc_desired s"
    "coordinator_media_generation t = coordinator_media_generation s"
    "pc_command_budget_degraded t = pc_command_budget_degraded s"
    "pc_next_recovery_episode_id t = pc_next_recovery_episode_id s"
    "pm_hard_seek_count (pc_metrics t) = pm_hard_seek_count (pc_metrics s)"
    "pc_failed_command_attempts t = pc_failed_command_attempts s"
  using assms by (simp_all add: pc_view_def)

lemma catchup_owned_cong: "rate_view t = rate_view s \<Longrightarrow> recovery_view t = recovery_view s \<Longrightarrow> catchup_owned t = catchup_owned s"
  by (simp add: catchup_owned_def)

lemma request_reset_fields:
  "pc_pending_commands (request_rate_reset s) =
     (if is_some_and (rate_view s) (\<lambda>(_, reset). \<not> reset)
      then filter (\<lambda>c. \<not> is_catchup_rate (cm_kind c)) (pc_pending_commands s) else pc_pending_commands s)"
  "rate_view (request_rate_reset s) = map_option (\<lambda>(owner, _). (owner, True)) (rate_view s)"
  "recovery_view (request_rate_reset s) = recovery_view s"
  "pc_next_command_id (request_rate_reset s) = pc_next_command_id s"
  "pc_actions (request_rate_reset s) = pc_actions s"
  "pc_command_budget_degraded (request_rate_reset s) = pc_command_budget_degraded s"
  "pc_failed_command_attempts (request_rate_reset s) = pc_failed_command_attempts s"
  "pc_metrics (request_rate_reset s) = pc_metrics s"
  "pc_next_recovery_episode_id (request_rate_reset s) = pc_next_recovery_episode_id s"
  by (auto simp: request_rate_reset_def rate_view_def recovery_view_def is_some_and_def retain_commands_def
      split: option.splits)

lemma retain_fields:
  "rate_view (retain_commands P s) = rate_view s" "recovery_view (retain_commands P s) = recovery_view s"
  "pc_next_command_id (retain_commands P s) = pc_next_command_id s"
  "pc_actions (retain_commands P s) = pc_actions s"
  "pc_command_budget_degraded (retain_commands P s) = pc_command_budget_degraded s"
  "pc_failed_command_attempts (retain_commands P s) = pc_failed_command_attempts s"
  "pc_metrics (retain_commands P s) = pc_metrics s"
  "pc_next_recovery_episode_id (retain_commands P s) = pc_next_recovery_episode_id s"
  "pc_pending_commands (retain_commands P s) = filter P (pc_pending_commands s)"
  by (simp_all add: retain_commands_def rate_view_def recovery_view_def)

lemma open_fields:
  "rate_view (open_recovery x y z s) = rate_view s"
  "pc_next_command_id (open_recovery x y z s) = pc_next_command_id s"
  "pc_pending_commands (open_recovery x y z s) = pc_pending_commands s"
  "pc_actions (open_recovery x y z s) = pc_actions s"
  "pc_command_budget_degraded (open_recovery x y z s) = pc_command_budget_degraded s"
  "pc_failed_command_attempts (open_recovery x y z s) = pc_failed_command_attempts s"
  "pc_metrics (open_recovery x y z s) = pc_metrics s"
  "pc_next_recovery_episode_id (open_recovery x y z s) = max (saturating_add (pc_next_recovery_episode_id s) 1) 1"
  "recovery_view (open_recovery x y z s) = Some (max (saturating_add (pc_next_recovery_episode_id s) 1) 1, 0)"
  by (simp_all add: open_recovery_def Let_def rate_view_def recovery_view_def)

lemma modify_recovery_fields:
  "rate_view (modify_recovery f s) = rate_view s"
  "pc_next_command_id (modify_recovery f s) = pc_next_command_id s"
  "pc_pending_commands (modify_recovery f s) = pc_pending_commands s"
  "pc_actions (modify_recovery f s) = pc_actions s"
  "pc_command_budget_degraded (modify_recovery f s) = pc_command_budget_degraded s"
  "pc_failed_command_attempts (modify_recovery f s) = pc_failed_command_attempts s"
  "pc_metrics (modify_recovery f s) = pc_metrics s"
  "pc_next_recovery_episode_id (modify_recovery f s) = pc_next_recovery_episode_id s"
  by (simp_all add: modify_recovery_def rate_view_def)

lemmas step_fields = request_reset_fields retain_fields open_fields(1-8) modify_recovery_fields

lemma issue_cases:
  obtains (refused) "snd (issue_command revision now kind command s) = s"
  | (accepted) "\<not> command_refused now kind s"
      "pc_view (snd (issue_command revision now kind command s)) =
        ((pc_config s, coordinator_media_generation s, pc_desired s, live_window s, pc_cached_seekable_ranges s),
         (recovery_view s, pc_next_recovery_episode_id s, rate_view s),
         (pc_pending_commands s @ [\<lparr>cm_id = next_id s, cm_revision = revision, cm_issued_at_seconds = now,
            cm_accepted = False, cm_kind = kind\<rparr>], next_id s, pc_command_budget_degraded s,
          pc_actions s @ [PlaybackCoordinatorAction.Execute (next_id s) command], pc_retry_not_before_seconds s),
         (pm_hard_seek_count (pc_metrics s), pc_failed_command_attempts s))"
  using issue_accepted(2) [of now kind s revision command] issue_refused [of now kind s revision command] by force

section \<open>Commands in flight\<close>

definition single_flight :: "PendingCommandKind list \<Rightarrow> bool" where
  "single_flight kinds = sorted_wrt (\<lambda>k l. \<not> same_kind k l) kinds"

definition in_flight_ok :: "u64 list \<Rightarrow> PendingCommandKind list \<Rightarrow> u64 \<Rightarrow> bool" where
  "in_flight_ok ids kinds next_command_id \<longleftrightarrow>
     next_command_id \<le> u64_max \<and> single_flight kinds \<and> (\<forall>i\<in>set ids. i \<le> next_command_id)
     \<and> (next_command_id < u64_max \<longrightarrow> sorted_wrt (<) ids)"

definition pending_ok :: "PlaybackCoordinator \<Rightarrow> bool" where
  "pending_ok s =
     in_flight_ok (map cm_id (pc_pending_commands s)) (map cm_kind (pc_pending_commands s)) (pc_next_command_id s)"

lemma next_id_bounds:
  "pc_next_command_id s \<le> u64_max \<Longrightarrow> pc_next_command_id s \<le> next_id s \<and> next_id s \<le> u64_max"
  "next_id s < u64_max \<Longrightarrow> pc_next_command_id s < next_id s"
  by (auto simp: next_id_def saturating_add_def u64_max_def)

lemma sorted_wrt_map_filter: "sorted_wrt R (map f xs) \<Longrightarrow> sorted_wrt R (map f (filter P xs))"
  by (induction xs) auto

lemma pending_ok_filter:
  assumes "pending_ok s" "pc_pending_commands t = filter P (pc_pending_commands s)"
    and "pc_next_command_id t = pc_next_command_id s"
  shows "pending_ok t"
  using assms by (auto simp: pending_ok_def in_flight_ok_def single_flight_def sorted_wrt_map_filter)

lemma pending_ok_same:
  "pending_ok s \<Longrightarrow> pc_pending_commands t = pc_pending_commands s \<Longrightarrow> pc_next_command_id t = pc_next_command_id s \<Longrightarrow> pending_ok t"
  by (simp add: pending_ok_def)

lemma pending_ok_keys:
  assumes "pending_ok s" "map command_key cs = map command_key (pc_pending_commands s)"
  shows "pending_ok (s\<lparr>pc_pending_commands := cs\<rparr>)"
proof -
  have "map cm_id cs = map cm_id (pc_pending_commands s)" "map cm_kind cs = map cm_kind (pc_pending_commands s)"
    using arg_cong [OF assms(2), of "map fst"] arg_cong [OF assms(2), of "map snd"]
    by (simp_all add: command_key_def comp_def)
  then show ?thesis using assms(1) by (simp add: pending_ok_def)
qed

lemma pending_ok_issue:
  assumes "pending_ok s"
  shows "pending_ok (snd (issue_command revision now kind command s))"
proof (cases rule: issue_cases [of revision now kind command s])
  case accepted
  then have "\<forall>c\<in>set (pc_pending_commands s). \<not> same_kind (cm_kind c) kind"
    by (auto simp: command_refused_def list_ex_iff)
  with accepted(2) assms next_id_bounds(1) [of s] next_id_bounds(2) [of s] show ?thesis
    by (fastforce simp: pending_ok_def in_flight_ok_def pc_view_def single_flight_def sorted_wrt_append)
qed (use assms in simp)

lemma pending_ok_step: "pc_micro b s t \<Longrightarrow> pending_ok s \<Longrightarrow> pending_ok t"
proof (induction rule: pc_micro.induct)
  case (frame t s)
  then show ?case using pending_ok_same view_fields by blast
next
  case (reset_rate s)
  then show ?case
    by (cases "is_some_and (rate_view s) (\<lambda>(_, reset). \<not> reset)")
      (auto intro: pending_ok_filter pending_ok_same simp: request_reset_fields)
next
  case (touch cs s)
  then show ?case by (simp add: pending_ok_keys)
next
  case (issue kind s revision now)
  then show ?case by (simp add: pending_ok_issue)
next
  case (retain s P)
  then show ?case by (rule pending_ok_filter) (simp_all add: retain_fields)
qed (simp_all add: pending_ok_def step_fields)

section \<open>Who owns a changed rate\<close>

definition rate_owned :: "PlaybackCoordinator \<Rightarrow> bool" where
  "rate_owned s \<longleftrightarrow>
     (\<forall>c\<in>set (pc_pending_commands s). is_catchup_rate (cm_kind c) \<longrightarrow> catchup_owned s)
     \<and> (\<forall>owner. rate_view s = Some (owner, False) \<longrightarrow> catchup_owned s)"

lemma rate_owned_cong:
  "rate_owned s \<Longrightarrow> rate_view t = rate_view s \<Longrightarrow> recovery_view t = recovery_view s \<Longrightarrow>
   (\<forall>c\<in>set (pc_pending_commands t). is_catchup_rate (cm_kind c) \<longrightarrow>
      (\<exists>d\<in>set (pc_pending_commands s). is_catchup_rate (cm_kind d))) \<Longrightarrow> rate_owned t"
  using catchup_owned_cong [of t s] by (auto simp: rate_owned_def)

lemma rate_owned_idle: "\<forall>c\<in>set (pc_pending_commands t). \<not> is_catchup_rate (cm_kind c) \<Longrightarrow>
    \<forall>owner. rate_view t \<noteq> Some (owner, False) \<Longrightarrow> rate_owned t"
  by (simp add: rate_owned_def)

lemma owned_requires:
  "catchup_owned s \<Longrightarrow> \<exists>owner n. rate_view s = Some (owner, False) \<and> recovery_view s = Some (owner, n)"
  by (auto simp: catchup_owned_def is_some_and_def split: option.splits)

lemma rate_owned_issue:
  assumes "rate_owned s" "is_catchup_rate kind \<Longrightarrow> catchup_owned s"
  shows "rate_owned (snd (issue_command revision now kind command s))"
proof (cases rule: issue_cases [of revision now kind command s])
  case accepted
  then have "catchup_owned (snd (issue_command revision now kind command s)) = catchup_owned s"
    by (intro catchup_owned_cong) (simp_all add: pc_view_def)
  with accepted(2) assms show ?thesis by (auto simp: rate_owned_def pc_view_def)
qed (use assms in simp)

lemma rate_owned_step: "pc_micro b s t \<Longrightarrow> rate_owned s \<Longrightarrow> rate_owned t"
proof (induction rule: pc_micro.induct)
  case (frame t s)
  show ?case by (rule rate_owned_cong [OF frame(2)]) (use view_fields [OF frame(1)] in auto)
next
  case (touch cs s)
  have "cm_kind ` set cs = cm_kind ` set (pc_pending_commands s)"
    using arg_cong [OF touch(1), of "\<lambda>xs. snd ` set xs"] by (simp add: command_key_def image_image)
  then have "\<exists>d\<in>set (pc_pending_commands s). is_catchup_rate (cm_kind d)"
    if "c \<in> set cs" "is_catchup_rate (cm_kind c)" for c
    using that by (metis image_iff)
  then show ?case
    by (intro rate_owned_cong [OF touch(2)]) (auto simp: rate_view_def recovery_view_def)
next
  case (issue kind s revision now)
  then show ?case by (intro rate_owned_issue) (auto simp: issue_guard_def)
next
  case (reset_rate s)
  then show ?case
    by (intro rate_owned_idle)
      (auto simp: request_reset_fields rate_owned_def is_some_and_def dest!: owned_requires split: option.splits)
next
  case (own_rate r s)
  then show ?case
    by (auto simp: rate_owned_def catchup_owned_def rate_view_def recovery_view_def is_some_and_def split: option.splits)
next
  case (release_rate s)
  then show ?case
    by (intro rate_owned_idle)
      (auto simp: rate_owned_def is_some_and_def rate_view_def dest!: owned_requires split: option.splits)
next
  case (close s)
  then show ?case
    by (intro rate_owned_idle)
      (auto simp: rate_owned_def is_none_or_def rate_view_def dest!: owned_requires split: option.splits)
next
  case (open_new s entered_at baseline frozen)
  then have "\<not> catchup_owned s" by (auto simp: recovery_view_def dest!: owned_requires)
  with open_new(2) show ?case
    by (intro rate_owned_idle) (auto simp: rate_owned_def open_fields)
next
  case (attempt s)
  then have "catchup_owned (modify_recovery (\<lambda>e. e\<lparr>re_hard_seek_attempts :=
      saturating_add_u32 (re_hard_seek_attempts e) 1\<rparr>) (modify_metrics f s)) = catchup_owned s" for f
    by (auto simp: catchup_owned_def rate_view_def recovery_view_def modify_recovery_def is_some_and_def split: option.splits)
  with attempt(2) show ?case by (simp add: rate_owned_def modify_recovery_fields)
next
  case (retain s P)
  then show ?case by (elim rate_owned_cong) (auto simp: retain_fields)
qed (erule rate_owned_cong; auto simp: rate_view_def recovery_view_def)+

section \<open>Hard seeks of an episode\<close>

text \<open>
  The metric counts every hard seek that is begun. With budgets of at most \<open>n\<close> it stays within \<open>n\<close> for
  every episode opened so far, less what the current one has left; and since the moment the current
  episode \<open>k\<close> had made \<open>a\<close> attempts and the metric was \<open>c\<close>, both have grown alike. Episode ids are
  fresh until their counter saturates.
\<close>

definition seek_bounds :: "u32 \<Rightarrow> u64 \<Rightarrow> u32 \<Rightarrow> u64 \<Rightarrow> PlaybackCoordinator \<Rightarrow> bool" where
  "seek_bounds n k a c s \<longleftrightarrow>
     cf_maximum_hard_seeks_per_episode (pc_config s) \<le> n \<and> k \<le> pc_next_recovery_episode_id s
     \<and> pc_next_recovery_episode_id s \<le> u64_max
     \<and> (case recovery_view s of
          None \<Rightarrow> pc_next_recovery_episode_id s < u64_max \<longrightarrow>
            pm_hard_seek_count (pc_metrics s) \<le> n * pc_next_recovery_episode_id s
        | Some (episode, attempts) \<Rightarrow>
            attempts \<le> n \<and> episode \<le> pc_next_recovery_episode_id s
            \<and> (pc_next_recovery_episode_id s < u64_max \<longrightarrow>
                pm_hard_seek_count (pc_metrics s) + n \<le> n * pc_next_recovery_episode_id s + attempts
                \<and> (episode = k \<longrightarrow> a \<le> attempts \<and> pm_hard_seek_count (pc_metrics s) + a \<le> c + attempts)))"

lemma seek_bounds_cong:
  assumes "seek_bounds n k a c s"
    and "pc_config t = pc_config s" "recovery_view t = recovery_view s"
      "pc_next_recovery_episode_id t = pc_next_recovery_episode_id s"
      "pm_hard_seek_count (pc_metrics t) = pm_hard_seek_count (pc_metrics s)"
  shows "seek_bounds n k a c t"
  using assms(1) unfolding seek_bounds_def assms(2-5) .

lemma seek_bounds_open:
  assumes "seek_bounds n k a c s" "recovery_view s = None"
  shows "seek_bounds n k a c (open_recovery x y z s)"
proof -
  have "max (saturating_add e 1) 1 < u64_max \<Longrightarrow> max (saturating_add e 1) 1 = Suc e"
    "e \<le> u64_max \<Longrightarrow> e \<le> max (saturating_add e 1) 1 \<and> max (saturating_add e 1) 1 \<le> u64_max" for e
    by (auto simp: saturating_add_def u64_max_def)
  note next_id = this [of "pc_next_recovery_episode_id s"]
  show ?thesis
    using assms next_id by (auto simp: seek_bounds_def open_fields evidence_fields)
qed

lemma seek_bounds_attempt:
  assumes "seek_bounds n k a c s" "n \<le> u32_max"
    and "is_some_and (pc_recovery s) (\<lambda>e. re_hard_seek_attempts e < cf_maximum_hard_seeks_per_episode (pc_config s))"
  shows "seek_bounds n k a c (modify_recovery (\<lambda>e. e\<lparr>re_hard_seek_attempts :=
      saturating_add_u32 (re_hard_seek_attempts e) 1\<rparr>)
      (modify_metrics (\<lambda>m. m\<lparr>pm_hard_seek_count := saturating_add (pm_hard_seek_count m) 1\<rparr>) s))" (is "seek_bounds _ _ _ _ ?t")
proof -
  obtain e where e: "pc_recovery s = Some e" "re_hard_seek_attempts e < n"
    using assms(1,3) by (auto simp: is_some_and_def seek_bounds_def split: option.splits)
  have "recovery_view s = Some (re_id e, re_hard_seek_attempts e)"
    "recovery_view ?t = Some (re_id e, Suc (re_hard_seek_attempts e))"
    using e assms(2) by (simp_all add: recovery_view_def modify_recovery_def saturating_add_u32_def)
  moreover have "pm_hard_seek_count (pc_metrics ?t) \<le> Suc (pm_hard_seek_count (pc_metrics s))"
    by (simp add: modify_recovery_fields modify_metrics_def saturating_add_def)
  ultimately show ?thesis
    using assms(1) e(2) by (auto simp: seek_bounds_def modify_recovery_fields evidence_fields)
qed

lemma seek_bounds_step: "pc_micro b s t \<Longrightarrow> n \<le> u32_max \<Longrightarrow> seek_bounds n k a c s \<Longrightarrow> seek_bounds n k a c t"
proof (induction rule: pc_micro.induct)
  case (frame t s)
  show ?case by (rule seek_bounds_cong [OF frame(3)]) (simp_all add: view_fields [OF frame(1)])
next
  case (issue kind s revision now)
  show ?case
    by (cases rule: issue_cases [of revision now kind "player_command_of kind" s])
      (use issue in \<open>auto simp: pc_view_def intro: seek_bounds_cong\<close>)
next
  case (open_new s entered_at baseline frozen)
  then show ?case by (intro seek_bounds_open) (simp_all add: recovery_view_def)
next
  case (attempt s)
  then show ?case by (intro seek_bounds_attempt)
next
  case (close s)
  then show ?case by (auto simp: seek_bounds_def recovery_view_def split: option.splits)
next
  case (retain s P)
  then show ?case by (elim seek_bounds_cong) (simp_all add: step_fields evidence_fields)
next
  case (reset_rate s)
  then show ?case by (elim seek_bounds_cong) (simp_all add: step_fields evidence_fields)
qed (erule seek_bounds_cong; simp add: recovery_view_def)+

section \<open>Commands handed to the player\<close>

fun executed :: "PlaybackCoordinatorAction list \<Rightarrow> (CoordinatorCommandId \<times> CoordinatorPlayerCommand) list" where
  "executed [] = []"
| "executed (PlaybackCoordinatorAction.Execute i c # as) = (i, c) # executed as"
| "executed (_ # as) = executed as"

lemma executed_append [simp]: "executed (as @ bs) = executed as @ executed bs"
  by (induction as rule: executed.induct) auto

lemma executed_none: "list_all (\<lambda>a. \<not> is_execute a) as \<Longrightarrow> executed as = []"
  by (induction as rule: executed.induct) auto

lemma executed_iff: "(i, c) \<in> set (executed as) \<longleftrightarrow> PlaybackCoordinatorAction.Execute i c \<in> set as"
  by (induction as rule: executed.induct) auto

definition safety_command :: "CoordinatorPlayerCommand \<Rightarrow> bool" where
  "safety_command c \<longleftrightarrow> c = CoordinatorPlayerCommand.SetPaused True
     \<or> (\<exists>rate. c = CoordinatorPlayerCommand.SetPlaybackRate rate
          \<and> f64_le (distance rate NORMAL_PLAYBACK_RATE) rate_tolerance)"

text \<open>The budget for retries is used up: \<open>issue_command\<close> asks for the flag or the count of failures.\<close>

definition exhausted :: "PlaybackCoordinator \<Rightarrow> bool" where
  "exhausted s \<longleftrightarrow>
     pc_command_budget_degraded s \<or> cf_command_retry_budget (pc_config s) < pc_failed_command_attempts s"

definition handed_ok :: "bool \<Rightarrow> PlaybackCoordinator \<Rightarrow> CoordinatorPlayerCommand \<Rightarrow> bool" where
  "handed_ok observing s c \<longleftrightarrow>
     (\<forall>intent. c = CoordinatorPlayerCommand.Play intent \<longrightarrow> observing \<and> playing_room s)
     \<and> (\<forall>rate. c = CoordinatorPlayerCommand.SetPlaybackRate rate \<longrightarrow> rate_allowed rate)
     \<and> (observing \<and> exhausted s \<longrightarrow> safety_command c)"

definition ids_between :: "u64 \<Rightarrow> u64 \<Rightarrow> u64 list \<Rightarrow> bool" where
  "ids_between first_id last_id ids \<longleftrightarrow>
     first_id \<le> last_id \<and> last_id \<le> u64_max
     \<and> (last_id < u64_max \<longrightarrow> sorted_wrt (<) ids \<and> (\<forall>i\<in>set ids. first_id < i \<and> i \<le> last_id))"

definition actions_ok :: "bool \<Rightarrow> PlaybackCoordinator \<Rightarrow> PlaybackCoordinator \<Rightarrow> bool" where
  "actions_ok observing s t \<longleftrightarrow>
     (\<forall>c\<in>snd ` set (executed (pc_actions t)). handed_ok observing s c)
     \<and> ids_between (pc_next_command_id s) (pc_next_command_id t) (map fst (executed (pc_actions t)))"

lemma ids_between_snoc:
  "ids_between a (pc_next_command_id s) ids \<Longrightarrow> ids_between a (next_id s) (ids @ [next_id s])"
  using next_id_bounds [of s] by (fastforce simp: ids_between_def sorted_wrt_append)

lemma issued_command_ok:
  assumes "issue_guard b kind t" "\<not> command_refused now kind t"
    and "b \<Longrightarrow> playing_room t = playing_room s"
    and "b \<Longrightarrow> exhausted s \<Longrightarrow> exhausted t"
  shows "handed_ok b s (player_command_of kind)"
proof (cases kind)
  case (Rate rate)
  with assms show ?thesis
    by (auto simp: handed_ok_def exhausted_def issue_guard_def command_refused_def baseline_rate_reset_def safety_command_def)
qed (use assms in \<open>auto simp: handed_ok_def exhausted_def issue_guard_def command_refused_def baseline_rate_reset_def safety_command_def\<close>)

lemma budget_step: "pc_micro True s t \<Longrightarrow> exhausted s \<Longrightarrow> exhausted t"
proof (induction rule: pc_micro.induct)
  case (frame t s)
  then show ?case by (simp add: exhausted_def view_fields [OF frame(1)])
next
  case (issue kind s revision now)
  show ?case
    by (cases rule: issue_cases [of revision now kind "player_command_of kind" s])
      (use issue in \<open>auto simp: pc_view_def exhausted_def\<close>)
qed (simp_all add: exhausted_def step_fields evidence_fields)

lemma budget_micros: "micros True s t \<Longrightarrow> exhausted s \<Longrightarrow> exhausted t"
  by (induction rule: micros_induct) (auto dest: budget_step)

lemma actions_ok_step:
  assumes "pc_micro b t u" "micros b s t" "actions_ok b s t"
  shows "actions_ok b s u"
  using assms
proof (induction rule: pc_micro.induct)
  case (frame u t)
  then show ?case by (simp add: actions_ok_def view_fields [OF frame(1)])
next
  case (issue kind t revision now)
  show ?case
  proof (cases rule: issue_cases [of revision now kind "player_command_of kind" t])
    case accepted
    have "handed_ok b s (player_command_of kind)"
      using issued_command_ok [OF issue(1) accepted(1)] observing_micros [of s t] budget_micros [of s t] issue(2)
      by (cases b) (auto simp: playing_room_def)
    with issue(3) accepted(2) show ?thesis
      by (auto simp: actions_ok_def pc_view_def intro: ids_between_snoc)
  qed (use issue in simp)
qed (simp_all add: actions_ok_def step_fields executed_none)

lemma actions_ok_micros:
  assumes "micros b s t" "pc_actions s = []" "pc_next_command_id s \<le> u64_max"
  shows "actions_ok b s t"
  using assms(1)
proof (induction rule: micros_induct)
  case refl
  then show ?case using assms by (simp add: actions_ok_def ids_between_def)
next
  case (step t u)
  then show ?case by (simp add: actions_ok_step)
qed

section \<open>Calls\<close>

datatype PlaybackCall =
  SetConfig PlaybackCoordinatorConfig
| ResetTransportAdapterEpoch f64
| PrepareMedia LogicalMediaId MediaTransportKind f64
| PrepareMediaWithIntent LogicalMediaId MediaTransportKind MediaLoadIntent f64
| PrepareMediaForRoomParticipation LogicalMediaId MediaTransportKind f64
| InterruptRecovery
| RetireMedia
| UpdateDesiredRoomState DesiredRoomPlayback DesiredRoomPlaybackUpdateKind
| Observe PlayerTransportObservation
| RebaseObservation PlayerTransportObservation
| ReplayObservation PlayerTransportObservation
| TakeAppliedObservationRevision
| CommandAccepted CoordinatorCommandId
| SupersedeUnacceptedCommand CoordinatorCommandId
| CommandFailed CoordinatorCommandId f64
| TakePendingActions
| Tick f64
| ClearParticipantStatusTransportMetrics
| ExpireTransportObservation
| ShiftLocalPlayerTimeline f64
| KeepWaitingForSeekPreparation f64
| CancelSeekPreparation
| CancelSeekPreparationForLifecycle
| ClearSeekPreparationTerminal
| ConfirmAlignedLocalPlay f64 f64 f64
| JoinNearestBufferedSeekPreparation f64

fun coordinator_do :: "PlaybackCall \<Rightarrow> PlaybackCoordinator \<Rightarrow> PlaybackCoordinator option" where
  "coordinator_do (SetConfig config) s = set_config config s"
| "coordinator_do (ResetTransportAdapterEpoch now) s = Some (reset_transport_adapter_epoch now s)"
| "coordinator_do (PrepareMedia logical_id kind now) s = map_option snd (prepare_media logical_id kind now s)"
| "coordinator_do (PrepareMediaWithIntent logical_id kind intent now) s =
     map_option snd (prepare_media_with_intent logical_id kind intent now s)"
| "coordinator_do (PrepareMediaForRoomParticipation logical_id kind now) s =
     map_option snd (prepare_media_for_room_participation logical_id kind now s)"
| "coordinator_do InterruptRecovery s = Some (interrupt_recovery s)"
| "coordinator_do RetireMedia s = Some (retire_media s)"
| "coordinator_do (UpdateDesiredRoomState desired kind) s = update_desired_room_state_with_kind desired kind s"
| "coordinator_do (Observe observation) s = observe observation s"
| "coordinator_do (RebaseObservation observation) s = rebase_observation observation s"
| "coordinator_do (ReplayObservation observation) s = replay_observation observation s"
| "coordinator_do TakeAppliedObservationRevision s = Some (snd (take_applied_observation_revision s))"
| "coordinator_do (CommandAccepted i) s = Some (snd (coordinator_command_accepted i s))"
| "coordinator_do (SupersedeUnacceptedCommand i) s = Some (snd (supersede_unaccepted_command i s))"
| "coordinator_do (CommandFailed i now) s = Some (snd (command_failed i now s))"
| "coordinator_do TakePendingActions s = Some (take_pending_actions s)"
| "coordinator_do (Tick now) s = Some (coordinator_tick now s)"
| "coordinator_do ClearParticipantStatusTransportMetrics s =
     Some (clear_participant_status_transport_metrics (begin_call s))"
| "coordinator_do ExpireTransportObservation s = Some (expire_transport_observation s)"
| "coordinator_do (ShiftLocalPlayerTimeline delta) s = Some (shift_local_player_timeline delta s)"
| "coordinator_do (KeepWaitingForSeekPreparation now) s = Some (keep_waiting_for_seek_preparation now s)"
| "coordinator_do CancelSeekPreparation s = Some (cancel_seek_preparation s)"
| "coordinator_do CancelSeekPreparationForLifecycle s = Some (snd (cancel_seek_preparation_for_lifecycle s))"
| "coordinator_do ClearSeekPreparationTerminal s = Some (clear_seek_preparation_terminal s)"
| "coordinator_do (ConfirmAlignedLocalPlay now position age) s =
     Some (snd (confirm_aligned_local_play now position age s))"
| "coordinator_do (JoinNearestBufferedSeekPreparation now) s = Some (join_nearest_buffered_seek_preparation now s)"

fun call_allowed :: "PlaybackCall \<Rightarrow> bool" where
  "call_allowed (ShiftLocalPlayerTimeline delta) = f64_is_finite delta"
| "call_allowed _ = True"

fun observing_call :: "PlaybackCall \<Rightarrow> bool" where
  "observing_call (Observe _) = True"
| "observing_call (RebaseObservation _) = True"
| "observing_call (ReplayObservation _) = True"
| "observing_call _ = False"

fun configures :: "PlaybackCall \<Rightarrow> bool" where
  "configures (SetConfig _) = True"
| "configures _ = False"

lemma call_runs:
  assumes "pc_wf s" "call_allowed call" "\<not> configures call"
  shows "runs (observing_call call) (begin_call s) (coordinator_do call s)"
  using assms
  by (cases call)
    (simp_all add: micros_reset_epoch prepare_media_def prepare_media_with_intent_def
      prepare_media_for_room_participation_def runs_prepare micros_interrupt micros_retire runs_update_desired
      observe_def rebase_observation_def replay_observation_def runs_observe take_applied_observation_revision_def
      micros_accepted micros_supersede micros_failed take_pending_actions_def micros_drain micros_tick
      micros_expire_observation micros_shift micros_keep_waiting micros_cancel
      cancel_seek_preparation_for_lifecycle_def micros_cancel_lifecycle clear_seek_preparation_terminal_def
      micros_confirm micros_join)

end
