(* ===== verification/Playback_Config.thy ===== *)
theory Playback_Config
  imports Playback_Runs
begin

text \<open>
  The normalized configuration: \<open>normalized\<close> always returns, its result is in range and it changes
  nothing that is in range already. The threshold for hard seeks is the exception: a rejected
  value is replaced by its default even when that default is rejected too.
\<close>

definition coordinator_config_ok :: "PlaybackCoordinatorConfig \<Rightarrow> bool" where
  "coordinator_config_ok c \<longleftrightarrow>
     (f64_is_finite (cf_negligible_lag_seconds c) \<and> \<not> negative (cf_negligible_lag_seconds c))
     \<and> (f64_is_finite (cf_hard_seek_threshold_seconds c)
        \<and> (f64_lt (cf_negligible_lag_seconds c) (cf_hard_seek_threshold_seconds c)
           \<or> cf_hard_seek_threshold_seconds c = Fin 8))
     \<and> rate_allowed (cf_maximum_catchup_rate c)
     \<and> (f64_is_finite (cf_stability_interval_seconds c) \<and> \<not> not_positive (cf_stability_interval_seconds c))
     \<and> (f64_is_finite (cf_position_tolerance_seconds c) \<and> \<not> negative (cf_position_tolerance_seconds c))
     \<and> (f64_is_finite (cf_command_timeout_seconds c) \<and> \<not> not_positive (cf_command_timeout_seconds c))
     \<and> (f64_is_finite (cf_command_retry_cooldown_seconds c) \<and> \<not> negative (cf_command_retry_cooldown_seconds c))
     \<and> f64_within (f64_min (cf_command_timeout_seconds c) (Fin 300)) (Fin 300) (cf_seek_preparation_timeout_seconds c)
     \<and> f64_within (Fin 0) (Fin 60) (cf_seek_preparation_minimum_headroom_seconds c)
     \<and> f64_within (Fin 1) (Fin 60) (cf_nearest_buffered_target_limit_seconds c)"

lemma within_finite: "f64_within (Fin a) (Fin b) x \<Longrightarrow> f64_is_finite x"
  by (cases x) (auto simp: f64_within_def)

lemma round_within: "a \<le> r \<Longrightarrow> r \<le> b \<Longrightarrow> f64_within (round_f64 a) (round_f64 b) (round_f64 r)"
  by (simp add: f64_within_def round_f64_mono)

lemma rounded_constants: "round_f64 (5 / 4) = Fin (5 / 4)" "round_f64 0 = Fin 0"
  by code_simp+

lemma default_rate_allowed: "rate_allowed (round_f64 (105 / 100))"
  using round_within [of 1 "105 / 100" "5 / 4"]
  by (simp add: rate_allowed_def NORMAL_PLAYBACK_RATE_def round_f64_one rounded_constants)

lemma default_tolerance: "f64_within (Fin 0) (Fin 1) (round_f64 (7 / 20))"
  using round_within [of 0 "7 / 20" 1] by (simp add: round_f64_one rounded_constants)

lemma finite_or_accepts: "f64_is_finite d \<Longrightarrow> \<not> rejected d \<Longrightarrow> f64_is_finite (finite_or rejected d x) \<and> \<not> rejected (finite_or rejected d x)"
  by (simp add: finite_or_def)

lemma finite_or_same: "f64_is_finite x \<Longrightarrow> \<not> rejected x \<Longrightarrow> finite_or rejected d x = x"
  by (simp add: finite_or_def)

lemma clamp_same: "f64_within lo hi x \<Longrightarrow> f64_clamp x lo hi = Some x"
  by (cases lo; cases hi; cases x) (auto simp: f64_within_def f64_clamp_def)

lemma clamp_finite:
  "f64_is_finite x \<Longrightarrow> f64_le lo hi \<Longrightarrow> \<exists>y. f64_clamp x lo hi = Some y \<and> f64_within lo hi y"
  using f64_clamp_within [of x lo hi] by (auto simp: f64_clamp_def f64_finite_not_NaN)

lemma minimum_timeout: "f64_le (f64_min x (Fin 300)) (Fin 300)"
  using f64_min_le(2) by simp

lemma default_tolerance_finite: "f64_is_finite (round_f64 (7 / 20))" "\<not> negative (round_f64 (7 / 20))"
  using default_tolerance within_finite [OF default_tolerance]
  by (cases "round_f64 (7 / 20)"; auto simp: f64_within_def negative_def)+

lemma replace_rejected_ok:
  fixes c :: PlaybackCoordinatorConfig
  defines "d \<equiv> replace_rejected c"
  shows "f64_is_finite (cf_negligible_lag_seconds d) \<and> \<not> negative (cf_negligible_lag_seconds d)"
    and "f64_is_finite (cf_hard_seek_threshold_seconds d)
        \<and> (f64_lt (cf_negligible_lag_seconds d) (cf_hard_seek_threshold_seconds d)
           \<or> cf_hard_seek_threshold_seconds d = Fin 8)"
    and "rate_allowed (cf_maximum_catchup_rate d)"
    and "f64_is_finite (cf_stability_interval_seconds d) \<and> \<not> not_positive (cf_stability_interval_seconds d)"
    and "f64_is_finite (cf_position_tolerance_seconds d) \<and> \<not> negative (cf_position_tolerance_seconds d)"
    and "f64_is_finite (cf_command_timeout_seconds d) \<and> \<not> not_positive (cf_command_timeout_seconds d)"
    and "f64_is_finite (cf_command_retry_cooldown_seconds d) \<and> \<not> negative (cf_command_retry_cooldown_seconds d)"
    and "f64_is_finite (cf_seek_preparation_timeout_seconds d)"
proof -
  show "f64_is_finite (cf_hard_seek_threshold_seconds d)
        \<and> (f64_lt (cf_negligible_lag_seconds d) (cf_hard_seek_threshold_seconds d)
           \<or> cf_hard_seek_threshold_seconds d = Fin 8)"
    by (auto simp: d_def replace_rejected_def Let_def default_playback_config_def finite_or_def f64_is_finite_iff
        negative_def not_le)
  show "rate_allowed (cf_maximum_catchup_rate d)"
    using default_rate_allowed
    by (auto simp: d_def replace_rejected_def Let_def default_playback_config_def finite_or_def rate_allowed_def)
qed (auto simp: d_def replace_rejected_def Let_def default_playback_config_def finite_or_def f64_is_finite_iff
      negative_def not_positive_def SEEK_PREPARATION_TIMEOUT_SECONDS_def
      default_tolerance_finite [unfolded negative_def f64_is_finite_iff])

lemma default_seek_values:
  "f64_is_finite (finite_or negative (cf_seek_preparation_minimum_headroom_seconds default_playback_config) x)"
  "f64_is_finite (finite_or not_positive (cf_nearest_buffered_target_limit_seconds default_playback_config) x)"
  by (simp_all add: finite_or_def default_playback_config_def HEALTHY_CATCHUP_BUFFER_SECONDS_def
      NEAREST_BUFFERED_TARGET_LIMIT_SECONDS_def)

lemma normalized_ok: "\<exists>d. normalized c = Some d \<and> coordinator_config_ok d"
proof -
  let ?d = "replace_rejected c"
  note ok = replace_rejected_ok [of c]
  obtain t where t: "f64_clamp (cf_seek_preparation_timeout_seconds ?d)
      (f64_min (cf_command_timeout_seconds ?d) (Fin 300)) (Fin 300) = Some t"
      "f64_within (f64_min (cf_command_timeout_seconds ?d) (Fin 300)) (Fin 300) t"
    using clamp_finite [OF ok(8) minimum_timeout] by blast
  obtain h where h: "f64_clamp (finite_or negative (cf_seek_preparation_minimum_headroom_seconds default_playback_config)
      (cf_seek_preparation_minimum_headroom_seconds ?d)) (Fin 0) (Fin 60) = Some h" "f64_within (Fin 0) (Fin 60) h"
    using clamp_finite [OF default_seek_values(1), of "Fin 0" "Fin 60"] by auto
  obtain l where l: "f64_clamp (finite_or not_positive (cf_nearest_buffered_target_limit_seconds default_playback_config)
      (cf_nearest_buffered_target_limit_seconds ?d)) (Fin 1) (Fin 60) = Some l" "f64_within (Fin 1) (Fin 60) l"
    using clamp_finite [OF default_seek_values(2), of "Fin 1" "Fin 60"] by auto
  show ?thesis
    using ok t h l by (simp add: normalized_def Let_def MAXIMUM_CATCHUP_EPISODE_SECONDS_def coordinator_config_ok_def)
qed

lemma min_positive: "f64_is_finite x \<Longrightarrow> \<not> not_positive x \<Longrightarrow> f64_within (f64_min x (Fin 300)) (Fin 300) y \<Longrightarrow>
   f64_is_finite y \<and> \<not> not_positive y"
  by (cases x; cases y) (auto simp: f64_within_def f64_min_def not_positive_def split: if_splits)

lemma within_range: "f64_within (Fin 0) (Fin 60) x \<Longrightarrow> \<not> negative x" "f64_within (Fin 1) (Fin 60) x \<Longrightarrow> \<not> not_positive x"
  by (cases x; auto simp: f64_within_def negative_def not_positive_def)+

lemma replace_rejected_same:
  assumes "coordinator_config_ok c"
  shows "replace_rejected c = c"
proof -
  have timeout: "f64_is_finite (cf_seek_preparation_timeout_seconds c) \<and> \<not> not_positive (cf_seek_preparation_timeout_seconds c)"
    using assms min_positive [of "cf_command_timeout_seconds c" "cf_seek_preparation_timeout_seconds c"]
    by (simp add: coordinator_config_ok_def)
  have hard: "finite_or (\<lambda>x. f64_le x (cf_negligible_lag_seconds c))
      (cf_hard_seek_threshold_seconds default_playback_config) (cf_hard_seek_threshold_seconds c)
      = cf_hard_seek_threshold_seconds c"
    using assms f64_less_imp_le by (auto simp: coordinator_config_ok_def finite_or_def default_playback_config_def)
  show ?thesis
    using assms timeout hard within_finite [of 1 "5 / 4" "cf_maximum_catchup_rate c"]
    by (simp add: replace_rejected_def Let_def coordinator_config_ok_def finite_or_same rate_allowed_def NORMAL_PLAYBACK_RATE_def)
qed

lemma normalized_same: "coordinator_config_ok c \<Longrightarrow> normalized c = Some c"
  using within_finite [of 0 60 "cf_seek_preparation_minimum_headroom_seconds c"]
    within_finite [of 1 60 "cf_nearest_buffered_target_limit_seconds c"]
  by (simp add: normalized_def Let_def replace_rejected_same MAXIMUM_CATCHUP_EPISODE_SECONDS_def)
    (simp add: coordinator_config_ok_def clamp_same finite_or_same within_range)

end
