(* ===== verification/Playback_Invariants.thy ===== *)
theory Playback_Invariants
  imports Playback_Config
begin

text \<open>
  Runs of calls that may panic, as a contract: a step that is allowed in a state satisfying the
  invariant returns, and the log of what was emitted stays good. The contract is met by the
  coordinator for its invariant with the commands in flight, and for the bound on hard seeks.
\<close>

section \<open>Runs that may panic\<close>

primrec try_run :: "('l \<Rightarrow> 's \<Rightarrow> 's option) \<Rightarrow> ('s \<Rightarrow> 'e list) \<Rightarrow> 'l list \<Rightarrow> 's \<Rightarrow> ('s \<times> 'e list) option" where
  "try_run step emitted [] s = Some (s, [])"
| "try_run step emitted (l # ls) s = do {
     t \<leftarrow> step l s;
     (u, tr) \<leftarrow> try_run step emitted ls t;
     Some (u, emitted t @ tr)
   }"

lemma try_run_append:
  "try_run step emitted xs s = Some (t, tr) \<Longrightarrow> try_run step emitted ys t = Some (u, tr') \<Longrightarrow>
   try_run step emitted (xs @ ys) s = Some (u, tr @ tr')"
proof (induction xs arbitrary: s tr)
  case (Cons x xs)
  then obtain v w where "step x s = Some v" "try_run step emitted xs v = Some (t, w)" "tr = emitted v @ w"
    by (auto simp: bind_eq_Some_conv)
  with Cons.IH [of v w] Cons.prems(2) show ?case by simp
qed simp

locale panic_free_steps =
  fixes step :: "'l \<Rightarrow> 's \<Rightarrow> 's option"
    and emitted :: "'s \<Rightarrow> 'e list"
    and allowed :: "'l \<Rightarrow> bool"
    and holds :: "'s \<Rightarrow> bool"
    and good :: "'e list \<Rightarrow> 's \<Rightarrow> bool"
  assumes returns: "holds s \<Longrightarrow> allowed l \<Longrightarrow> \<exists>t. step l s = Some t \<and> holds t"
    and logs: "holds s \<Longrightarrow> allowed l \<Longrightarrow> step l s = Some t \<Longrightarrow> good tr s \<Longrightarrow> good (tr @ emitted t) t"
begin

lemma run_returns:
  "holds s \<Longrightarrow> list_all allowed ls \<Longrightarrow> \<exists>t tr. try_run step emitted ls s = Some (t, tr) \<and> holds t"
proof (induction ls arbitrary: s)
  case (Cons l ls)
  then obtain t where "step l s = Some t" "holds t" using returns [of s l] by auto
  then show ?case using Cons.IH [of t] Cons.prems by auto
qed simp

lemma run_holds:
  "holds s \<Longrightarrow> list_all allowed ls \<Longrightarrow> try_run step emitted ls s = Some (t, tr) \<Longrightarrow> holds t"
  using run_returns [of s ls] by auto

lemma run_logs:
  "holds s \<Longrightarrow> list_all allowed ls \<Longrightarrow> good before s \<Longrightarrow> try_run step emitted ls s = Some (t, tr) \<Longrightarrow>
   good (before @ tr) t"
proof (induction ls arbitrary: s before tr)
  case (Cons l ls)
  then obtain u where u: "step l s = Some u" "holds u" using returns [of s l] by auto
  with Cons.prems obtain tr' where "try_run step emitted ls u = Some (t, tr')" "tr = emitted u @ tr'"
    by (auto split: bind_splits)
  moreover have "good (before @ emitted u) u" using logs Cons.prems u by auto
  ultimately show ?case using Cons.IH [of u "before @ emitted u" tr'] Cons.prems u by simp
qed simp

end

section \<open>The invariant\<close>

definition pc_inv :: "PlaybackCoordinator \<Rightarrow> bool" where
  "pc_inv s \<longleftrightarrow> coordinator_config_ok (pc_config s) \<and> pc_wf s \<and> pending_ok s \<and> rate_owned s"

lemma begin_call_fields [simp]:
  "pc_config (begin_call s) = pc_config s" "pc_pending_commands (begin_call s) = pc_pending_commands s"
  "pc_next_command_id (begin_call s) = pc_next_command_id s" "pc_actions (begin_call s) = []"
  "rate_view (begin_call s) = rate_view s" "recovery_view (begin_call s) = recovery_view s"
  "pc_desired (begin_call s) = pc_desired s" "pc_command_budget_degraded (begin_call s) = pc_command_budget_degraded s"
  "pc_failed_command_attempts (begin_call s) = pc_failed_command_attempts s" "pc_metrics (begin_call s) = pc_metrics s"
  "pc_next_recovery_episode_id (begin_call s) = pc_next_recovery_episode_id s"
  "coordinator_media_generation (begin_call s) = coordinator_media_generation s"
  by (simp_all add: begin_call_def rate_view_def recovery_view_def coordinator_media_generation_def)

lemma pc_inv_begin: "pc_inv s \<Longrightarrow> pc_inv (begin_call s)"
  using catchup_owned_cong [of "begin_call s" s] by (simp add: pc_inv_def pending_ok_def rate_owned_def)

lemma config_step: "pc_micro b s t \<Longrightarrow> pc_config t = pc_config s"
proof (induction rule: pc_micro.induct)
  case (frame t s)
  then show ?case by (simp add: pc_view_def)
qed (simp_all add: evidence_fields issue_evidence)

lemma pc_inv_micros: "micros b s t \<Longrightarrow> pc_inv s \<Longrightarrow> pc_inv t"
  by (induction rule: micros_induct)
    (auto simp: pc_inv_def config_step dest: pc_wf_step pending_ok_step rate_owned_step)

lemma seek_bounds_micros: "micros b s t \<Longrightarrow> n \<le> u32_max \<Longrightarrow> seek_bounds n k a c s \<Longrightarrow> seek_bounds n k a c t"
  by (induction rule: micros_induct) (auto dest: seek_bounds_step)

lemma call_micros:
  assumes "pc_inv s" "call_allowed call" "\<not> configures call"
  obtains t where "coordinator_do call s = Some t" "micros (observing_call call) (begin_call s) t"
  using call_runs [of s call] assms by (auto simp: pc_inv_def runs_def)

lemma coordinator_config_ok_rate: "coordinator_config_ok d \<Longrightarrow> rate_allowed (cf_maximum_catchup_rate d)"
  by (simp add: coordinator_config_ok_def)

lemma config_update:
  "live_window (s\<lparr>pc_config := d\<rparr>) = live_window s" "rate_owned (s\<lparr>pc_config := d\<rparr>) = rate_owned s"
  by (simp_all add: rate_owned_def catchup_owned_def live_window_def rate_view_def recovery_view_def)

lemma pc_inv_set_config: "pc_inv s \<Longrightarrow> \<exists>t. set_config config s = Some t \<and> pc_inv t"
proof -
  assume inv: "pc_inv s"
  obtain d where d: "normalized config = Some d" "coordinator_config_ok d" using normalized_ok by blast
  have "pc_inv ((begin_call s)\<lparr>pc_config := d\<rparr>)"
    using pc_inv_begin [OF inv] d(2) config_update
    by (simp add: pc_inv_def pc_wf_def pending_ok_def coordinator_config_ok_rate)
  with d show ?thesis by (simp add: set_config_def)
qed

lemma pc_inv_do: "pc_inv s \<Longrightarrow> call_allowed call \<Longrightarrow> \<exists>t. coordinator_do call s = Some t \<and> pc_inv t"
proof (cases "configures call")
  case True
  then obtain config where "call = SetConfig config" by (cases call) auto
  moreover assume "pc_inv s"
  ultimately show ?thesis by (simp add: pc_inv_set_config)
next
  case False
  assume "pc_inv s" "call_allowed call"
  with False call_micros obtain t where "coordinator_do call s = Some t" "micros (observing_call call) (begin_call s) t"
    by blast
  with pc_inv_micros pc_inv_begin \<open>pc_inv s\<close> show ?thesis by blast
qed

lemma pc_inv_new: "\<exists>s. new_coordinator config = Some s \<and> pc_inv s"
proof -
  obtain d where "normalized config = Some d" "coordinator_config_ok d" using normalized_ok by blast
  then show ?thesis
    by (simp add: new_coordinator_def pc_inv_def pc_wf_def coordinator_config_ok_def pending_ok_def in_flight_ok_def
        single_flight_def rate_owned_def window_ok_def ranges_ok_def is_none_or_def live_window_def rate_view_def)
qed

section \<open>The log of commands\<close>

definition log_ok :: "PlaybackCoordinatorAction list \<Rightarrow> PlaybackCoordinator \<Rightarrow> bool" where
  "log_ok tr s \<longleftrightarrow>
     ids_between 0 (pc_next_command_id s) (map fst (executed tr))
     \<and> (\<forall>(i, c)\<in>set (executed tr). \<forall>rate. c = CoordinatorPlayerCommand.SetPlaybackRate rate \<longrightarrow> rate_allowed rate)
     \<and> (\<forall>c\<in>set (pc_pending_commands s). (cm_id c, player_command_of (cm_kind c)) \<in> set (executed tr))"

lemma ids_between_append:
  assumes "ids_between a b is" "ids_between b c js"
  shows "ids_between a c (is @ js)"
proof (cases "c < u64_max")
  case True
  with assms show ?thesis
    by (fastforce simp: ids_between_def sorted_wrt_append intro: order.trans le_less_trans)
qed (use assms in \<open>simp add: ids_between_def\<close>)

text \<open>A command in flight was in flight before the call or was handed out by it.\<close>

definition pending_known :: "PlaybackCoordinator \<Rightarrow> PlaybackCoordinator \<Rightarrow> bool" where
  "pending_known s t \<longleftrightarrow>
     (\<forall>k\<in>command_key ` set (pc_pending_commands t).
        k \<in> command_key ` set (pc_pending_commands s)
        \<or> (fst k, player_command_of (snd k)) \<in> set (executed (pc_actions t)))"

lemma pending_known_step:
  assumes "pc_micro b t u" "pending_known s t"
  shows "pending_known s u"
  using assms
proof (induction rule: pc_micro.induct)
  case (frame u t)
  then show ?case by (simp add: pending_known_def view_fields [OF frame(1)])
next
  case (touch cs t)
  have "command_key ` set cs = command_key ` set (pc_pending_commands t)"
    using arg_cong [OF touch(1), of set] by simp
  with touch(2) show ?case by (simp add: pending_known_def)
next
  case (issue kind t revision now)
  show ?case
    by (cases rule: issue_cases [of revision now kind "player_command_of kind" t])
      (use issue in \<open>auto simp: pending_known_def pc_view_def command_key_def\<close>)
qed (auto simp: pending_known_def step_fields)

lemma pending_known_micros: "micros b s t \<Longrightarrow> pending_known s t"
  by (induction rule: micros_induct) (auto simp: pending_known_def [of s s] dest: pending_known_step)

lemma log_ok_do:
  assumes "pc_inv s" "call_allowed call" "coordinator_do call s = Some t" "log_ok tr s"
  shows "log_ok (tr @ pc_actions t) t"
proof (cases "configures call")
  case True
  then obtain config where "call = SetConfig config" by (cases call) auto
  with assms show ?thesis by (auto simp: set_config_def log_ok_def split: bind_splits)
next
  case False
  with assms call_micros have m: "micros (observing_call call) (begin_call s) t" by (metis option.inject)
  have "actions_ok (observing_call call) (begin_call s) t"
    using assms(1) by (intro actions_ok_micros [OF m]) (simp_all add: pc_inv_def pending_ok_def in_flight_ok_def)
  then have acts: "ids_between (pc_next_command_id s) (pc_next_command_id t) (map fst (executed (pc_actions t)))"
      "\<forall>c\<in>snd ` set (executed (pc_actions t)). handed_ok (observing_call call) (begin_call s) c"
    by (simp_all add: actions_ok_def)
  have "(cm_id c, player_command_of (cm_kind c)) \<in> set (executed (tr @ pc_actions t))"
    if "c \<in> set (pc_pending_commands t)" for c
    using pending_known_micros [OF m] that assms(4)
    by (fastforce simp: pending_known_def log_ok_def command_key_def)
  with acts assms(4) show ?thesis
    by (auto simp: log_ok_def handed_ok_def intro: ids_between_append)
qed

interpretation coordinator: panic_free_steps coordinator_do pc_actions call_allowed pc_inv log_ok
  by unfold_locales (auto intro: pc_inv_do log_ok_do)

section \<open>The bound on hard seeks\<close>

fun budget_allowed :: "u32 \<Rightarrow> PlaybackCall \<Rightarrow> bool" where
  "budget_allowed n (SetConfig config) \<longleftrightarrow> cf_maximum_hard_seeks_per_episode config \<le> n"
| "budget_allowed n call = call_allowed call"

lemma normalized_budget:
  "normalized config = Some d \<Longrightarrow> cf_maximum_hard_seeks_per_episode d = cf_maximum_hard_seeks_per_episode config"
  by (auto simp: normalized_def replace_rejected_def Let_def split: bind_splits)

lemma budget_allowed_call: "budget_allowed n call \<Longrightarrow> call_allowed call"
  by (cases call) auto

lemma seek_bounds_do:
  assumes "pc_inv s \<and> n \<le> u32_max \<and> seek_bounds n k a c s" "budget_allowed n call"
  shows "\<exists>t. coordinator_do call s = Some t \<and> pc_inv t \<and> n \<le> u32_max \<and> seek_bounds n k a c t"
proof (cases "configures call")
  case True
  then obtain config where call: "call = SetConfig config" by (cases call) auto
  obtain t where t: "set_config config s = Some t" "pc_inv t" using pc_inv_set_config assms(1) by blast
  then obtain d where d: "normalized config = Some d" "t = (begin_call s)\<lparr>pc_config := d\<rparr>"
    by (auto simp: set_config_def split: bind_splits)
  have "recovery_view t = recovery_view s" "pc_next_recovery_episode_id t = pc_next_recovery_episode_id s"
    "pc_metrics t = pc_metrics s" "cf_maximum_hard_seeks_per_episode (pc_config t) \<le> n"
    using d normalized_budget [OF d(1)] assms(2) call by (simp_all add: recovery_view_def begin_call_def)
  then have "seek_bounds n k a c t" using assms(1) by (simp only: seek_bounds_def simp_thms)
  with t call assms(1) show ?thesis by simp
next
  case False
  with assms budget_allowed_call obtain t
    where "coordinator_do call s = Some t" and m: "micros (observing_call call) (begin_call s) t"
    by (metis call_micros)
  moreover have "seek_bounds n k a c (begin_call s)"
    using assms(1) by (auto intro: seek_bounds_cong)
  ultimately show ?thesis using assms(1) pc_inv_micros [OF m] pc_inv_begin seek_bounds_micros [OF m] by blast
qed

interpretation hard_seeks: panic_free_steps coordinator_do pc_actions "budget_allowed n"
  "\<lambda>s. pc_inv s \<and> n \<le> u32_max \<and> seek_bounds n k a c s" "\<lambda>_ _. True" for n k a c
  by unfold_locales (fact seek_bounds_do, rule TrueI)

section \<open>Runs of the coordinator\<close>

definition playback_run ::
  "PlaybackCoordinatorConfig \<Rightarrow> PlaybackCall list \<Rightarrow> (PlaybackCoordinator \<times> PlaybackCoordinatorAction list) option" where
  "playback_run config calls = do {
     s \<leftarrow> new_coordinator config;
     try_run coordinator_do pc_actions calls s
   }"

lemma playback_run_append:
  "playback_run config xs = Some (s, tr) \<Longrightarrow> try_run coordinator_do pc_actions ys s = Some (t, tr') \<Longrightarrow>
   playback_run config (xs @ ys) = Some (t, tr @ tr')"
  unfolding playback_run_def by (cases "new_coordinator config") (auto intro: try_run_append)

end
