(* ===== verification/Playback_Pause.thy ===== *)
theory Playback_Pause
  imports Playback_Invariants
begin

text \<open>
  The pause a paused room is owed: an observation that does not show the player paused leaves a
  pause command in flight, whatever seek preparation, recovery or alignment is going on, unless
  commands are cooling down after a failure.
\<close>

definition pause_pending :: "PlaybackCoordinator \<Rightarrow> bool" where
  "pause_pending s = list_ex (\<lambda>c. cm_kind c = PendingCommandKind.Pause) (pc_pending_commands s)"

lemma same_kind_Pause: "same_kind k PendingCommandKind.Pause \<longleftrightarrow> k = PendingCommandKind.Pause"
  by (cases k) auto

lemma pause_pending_cong: "pc_pending_commands t = pc_pending_commands s \<Longrightarrow> pause_pending t = pause_pending s"
  by (simp add: pause_pending_def)

lemma pause_pending_view: "pc_view t = pc_view s \<Longrightarrow> pause_pending t = pause_pending s"
  by (simp add: pause_pending_def pc_view_def)

lemma pause_pending_issue: "pause_pending s \<Longrightarrow> pause_pending (snd (issue_command revision now kind command s))"
  by (cases rule: issue_cases [of revision now kind command s]) (auto simp: pause_pending_def pc_view_def)

lemma pause_pending_issue_pause: "pause_pending s \<Longrightarrow> pause_pending (issue_pause desired observed s)"
  by (simp add: issue_pause_def pause_pending_issue)

lemma pause_pending_issued:
  assumes "os_logical_pause observed \<noteq> Some True" "\<not> f64_lt (os_observed_at_seconds observed) (pc_retry_not_before_seconds s)"
  shows "pause_pending (issue_pause desired observed s)"
proof (cases rule: issue_cases [of "dp_state_revision desired" "os_observed_at_seconds observed"
      PendingCommandKind.Pause "CoordinatorPlayerCommand.SetPaused True" s])
  case accepted
  with assms(1) show ?thesis by (simp add: issue_pause_def pause_pending_def pc_view_def)
next
  case refused
  then have "command_refused (os_observed_at_seconds observed) PendingCommandKind.Pause s"
    using issue_accepted(2) [of "os_observed_at_seconds observed" PendingCommandKind.Pause s "dp_state_revision desired"
        "CoordinatorPlayerCommand.SetPaused True"]
    by (auto simp: pc_view_def)
  then have "pause_pending s" using assms(2) by (simp add: command_refused_def pause_pending_def same_kind_Pause)
  with refused assms(1) show ?thesis by (simp add: issue_pause_def)
qed

lemma pause_pending_reset: "pause_pending s \<Longrightarrow> pause_pending (request_rate_reset s)"
  by (auto simp: pause_pending_def request_reset_fields list_ex_iff)

lemma pause_pending_close: "pause_pending s \<Longrightarrow> pause_pending (close_recovery_without_metrics s)"
  using pause_pending_reset [of s] by (simp add: close_recovery_without_metrics_def pause_pending_def)

lemma pause_pending_reconcile:
  assumes "pause_pending s"
  shows "pause_pending (reconcile_rate_override observed now s)"
proof (cases "pc_rate_override s")
  case (Some r)
  define u where "u = (if ro_reset_requested r then s else request_rate_reset s)"
  have u: "pause_pending u" using assms by (simp add: u_def pause_pending_reset)
  then have "pause_pending (u\<lparr>pc_rate_override := None\<rparr>)" by (simp add: pause_pending_def)
  with u assms show ?thesis
    by (simp add: reconcile_rate_override_def Some Let_def pause_pending_issue flip: u_def)
qed (use assms in \<open>simp add: reconcile_rate_override_def\<close>)

lemma pause_pending_finish:
  "pause_pending s \<Longrightarrow> is_none_or (pc_seek_preparation s) (\<lambda>e. sp_primary_seek_command_id e = None) \<Longrightarrow>
   pause_pending (finish_seek_preparation outcome s)"
  by (auto simp: finish_seek_preparation_def Let_def is_none_or_def pause_pending_def modify_metrics_def split: option.splits)

lemma pause_pending_begin:
  assumes "begin_seek_preparation_if_needed desired s = Some t" "pause_pending s"
  shows "pause_pending t"
proof (cases "pc_media s")
  case None
  with assms show ?thesis by (simp add: begin_seek_preparation_if_needed_def)
next
  case (Some media)
  have closed: "pause_pending (close_recovery_without_metrics (s\<lparr>pc_next_seek_preparation_id := n, pc_seek_preparation := x\<rparr>))"
    for n x
    using assms(2) by (intro pause_pending_close) (simp add: pause_pending_def)
  have prep: "pc_seek_preparation (close_recovery_without_metrics u) = pc_seek_preparation u" for u
    by (simp add: close_recovery_without_metrics_def request_rate_reset_def retain_commands_def split: option.split)
  show ?thesis
    using assms unfolding begin_seek_preparation_if_needed_def Let_def Some option.case
    by (auto split: if_splits bind_splits intro!: closed pause_pending_finish
        simp: prep is_none_or_def new_preparation_def)
qed

lemma pause_pending_updates [simp]:
  "pause_pending (s\<lparr>pc_required_seek_dispatch_revision := x\<rparr>) = pause_pending s"
  "pause_pending (s\<lparr>pc_desired_seek_satisfied_revision := y\<rparr>) = pause_pending s"
  "pause_pending (s\<lparr>pc_seek_preparation := z\<rparr>) = pause_pending s"
  "pause_pending (s\<lparr>pc_applied_observation_revision := w\<rparr>) = pause_pending s"
  "pause_pending (push_action a s) = pause_pending s"
  by (simp_all add: pause_pending_def push_action_def)

lemma pause_pending_desired_seek:
  assumes "issue_desired_seek_if_needed desired observed s = Some t" "pause_pending s"
  shows "pause_pending t"
  using assms unfolding issue_desired_seek_if_needed_def Let_def
  by (auto split: if_splits bind_splits simp: issue_seek_def
      dest!: pause_pending_begin intro!: pause_pending_issue_pause pause_pending_issue)

lemma pause_pending_applied:
  "pause_pending (mark_revision_applied desired observed False s) = pause_pending s"
  by (simp add: mark_revision_applied_def Let_def modify_metrics_def pause_pending_def push_action_def)

lemma paused_room_pauses:
  assumes "coordinate_paused_room desired observed s = Some t" "os_logical_pause observed \<noteq> Some True"
    and "\<not> f64_lt (os_observed_at_seconds observed) (pc_retry_not_before_seconds s)"
  shows "pause_pending t"
proof -
  have "pause_pending (issue_pause desired observed s)" using assms(2,3) by (rule pause_pending_issued)
  with assms(1) show ?thesis
    unfolding coordinate_paused_room_def Let_def
    by (auto split: if_splits bind_splits simp: pause_pending_applied dest: pause_pending_desired_seek)
qed

lemma without_preparation_pauses:
  assumes "coordinate_without_preparation desired observed fresh advancing s = Some t" "dp_paused desired"
    and "os_logical_pause observed \<noteq> Some True"
    and "\<not> f64_lt (os_observed_at_seconds observed) (pc_retry_not_before_seconds s)"
  shows "pause_pending t"
  using assms paused_room_pauses [OF _ assms(3,4), of desired t] pause_pending_issued [OF assms(3,4), of desired]
  by (auto simp: coordinate_without_preparation_def split: if_splits)

lemma pause_pending_primary_seek:
  assumes "pause_pending s"
  shows "pause_pending (snd (issue_seek_preparation_primary_seek desired observed s))"
proof -
  have marked: "pause_pending (mark_seek_preparation_primary_issued x u) = pause_pending u" for x u
    by (rule pause_pending_view) simp
  have "pause_pending (snd (case issue_seek r n x y False s of (cid, u) \<Rightarrow>
      (False, case cid of None \<Rightarrow> u | Some command_id \<Rightarrow> mark_seek_preparation_primary_issued (Some command_id) u)))" for r n x y
    using pause_pending_issue [OF assms] by (auto simp: issue_seek_def marked split: prod.split option.split) (metis snd_conv)+
  then show ?thesis
    unfolding issue_seek_preparation_primary_seek_def Let_def
    using assms by (auto simp: marked split: option.split)
qed

text \<open>An update that leaves a preparation active only changes that preparation.\<close>

lemma update_preparation_active:
  assumes "update_seek_preparation observed observation fresh scoped s = Some t" "pc_seek_preparation t \<noteq> None"
  shows "pc_pending_commands t = pc_pending_commands s"
proof -
  have finished: "pc_seek_preparation (finish_seek_preparation outcome u) = None" for outcome u
    by (auto simp: finish_seek_preparation_def Let_def modify_metrics_def retain_commands_def split: option.split)
  have failed: "pc_seek_preparation (fail_seek_preparation reason u) = None" for reason u
    by (simp add: fail_seek_preparation_def finished)
  have completed: "pc_seek_preparation (complete_seek_preparation observed r u) = None" for r u
    by (simp add: complete_seek_preparation_def Let_def begin_recovery_handoff_def open_recovery_def finished)
  show ?thesis
    using assms unfolding update_seek_preparation_def Let_def
    by (auto simp: failed completed push_action_def split: option.splits if_splits bind_splits prod.splits)
qed

lemma active_preparation_pauses:
  assumes "advance_active_preparation desired observed observation fresh s = Some t" "pc_seek_preparation t \<noteq> None"
    and "os_logical_pause observed \<noteq> Some True"
    and "\<not> f64_lt (os_observed_at_seconds observed) (pc_retry_not_before_seconds s)"
  shows "pause_pending t"
proof -
  obtain satisfied u where u: "issue_seek_preparation_primary_seek desired observed (issue_pause desired observed s) = (satisfied, u)"
    by fastforce
  have pending: "pause_pending u"
    using pause_pending_primary_seek [OF pause_pending_issued [OF assms(3,4)], of desired observed desired] by (simp add: u)
  show ?thesis
  proof (cases satisfied)
    case True
    with assms(1) have "update_seek_preparation observed observation fresh
        (seek_preparation_accepts_target_cache_evidence observed observation fresh u) u = Some t"
      by (simp add: advance_active_preparation_def Let_def u)
    from pause_pending_cong [OF update_preparation_active [OF this assms(2)]] pending show ?thesis by simp
  next
    case False
    with assms(1) pending show ?thesis by (simp add: advance_active_preparation_def Let_def u)
  qed
qed

lemma coordination_pauses:
  assumes "pc_wf r" "micros True r s" "window_ok (os_known_live_seekable_window observed)"
    and "coordinate_desired_state observed observation fresh advancing s = Some t"
    and "pc_desired r = Some desired" "dp_paused desired" "coordinator_media_generation r = Some (dp_media_generation desired)"
    and "os_logical_pause observed \<noteq> Some True"
    and "\<not> f64_lt (os_observed_at_seconds observed) (pc_retry_not_before_seconds r)"
  shows "pause_pending t"
proof -
  have cool: "\<not> f64_lt (os_observed_at_seconds observed) (pc_retry_not_before_seconds u)" if "micros True r u" for u
    using observing_micros [OF that] assms(9) by simp
  have same: "pc_desired s = Some desired" "dp_media_generation desired = generation_or_default s"
    using observing_micros [OF assms(2)] assms(5,7) by (simp_all add: generation_or_default_def unwrap_or_def)
  obtain a where a: "rearm_displaced_alignment desired observed s = Some a" "micros True r a"
    using runs_rearm [OF assms(2,3)] by (auto simp: runs_def)
  obtain p where p: "advance_active_preparation desired observed observation fresh a = Some p" "micros True r p"
    using runs_advance_preparation [OF assms(1) a(2) assms(3), of desired observation fresh] by (auto simp: runs_def)
  show ?thesis
    using assms(4) without_preparation_pauses [OF _ assms(6,8)] cool [OF a(2)] cool [OF p(2)]
      active_preparation_pauses [OF p(1) _ assms(8)]
    unfolding coordinate_desired_state_def same(1) option.case a(1) Option.bind.bind_lunit p(1)
    by (auto simp: same(2) split: if_splits)
qed

end
