(* ===== verification/Playback_Examples.thy ===== *)
theory Playback_Examples
  imports Playback_Pause
begin

text \<open>
  Concrete runs of the coordinator, evaluated by rewriting: a film that stalls and is caught up by
  a faster rate or a hard seek, a film in a paused room whose pause fails, and a film with a seek
  into a part that is not buffered.
\<close>

section \<open>Loading a film\<close>

definition film_config :: PlaybackCoordinatorConfig where
  "film_config = default_playback_config\<lparr>cf_maximum_catchup_rate := Fin (17 / 16),
     cf_position_tolerance_seconds := Fin (1 / 4), cf_command_retry_budget := 0\<rparr>"

lemmas film_config_fields = film_config_def default_playback_config_def SEEK_PREPARATION_TIMEOUT_SECONDS_def
  HEALTHY_CATCHUP_BUFFER_SECONDS_def NORMAL_PLAYBACK_RATE_def MAXIMUM_CATCHUP_EPISODE_SECONDS_def
  NEAREST_BUFFERED_TARGET_LIMIT_SECONDS_def

lemma film_config_ok: "coordinator_config_ok film_config"
  by (simp add: coordinator_config_ok_def film_config_fields rate_allowed_def f64_within_def negative_def not_positive_def
      f64_min_def)

definition room_wish :: "u64 \<Rightarrow> bool \<Rightarrow> f64 \<Rightarrow> DesiredRoomPlayback" where
  "room_wish revision paused position =
     \<lparr>dp_media_generation = 1, dp_state_revision = revision, dp_paused = paused,
      dp_anchor_position_seconds = position, dp_anchor_observed_at_seconds = Fin 0, dp_force_seek = False\<rparr>"

definition film_calls :: "bool \<Rightarrow> PlaybackCall list" where
  "film_calls paused =
     [PrepareMedia ''film'' MediaTransportKind.LocalFile (Fin 0),
      UpdateDesiredRoomState (room_wish 1 paused (Fin 0)) DesiredRoomPlaybackUpdateKind.Ordinary]"

definition film_state :: "bool \<Rightarrow> PlaybackCoordinator" where
  "film_state paused = \<lparr>pc_config = film_config,
       pc_media = Some \<lparr>ms_logical_id = ''film'', ms_generation = 1, ms_load_attempt = 1,
         ms_kind = MediaTransportKind.LocalFile, ms_prepared_at_seconds = Fin 0, ms_load_restart_baseline = 0\<rparr>,
       pc_desired = Some (room_wish 1 paused (Fin 0)), pc_observed = None,
       pc_recovery = None, pc_seek_preparation = None, pc_last_seek_preparation_terminal = None,
       pc_cached_seekable_ranges = None, pc_pending_commands = [], pc_next_media_generation = 1,
       pc_next_recovery_episode_id = 0, pc_next_seek_preparation_id = 0, pc_next_command_id = 0,
       pc_last_applied_revision = None, pc_applied_observation_revision = None,
       pc_last_started_revision = None, pc_desired_seek_satisfied_revision = Some 1,
       pc_required_seek_dispatch_revision = None, pc_authoritative_alignment_guard_revision = None,
       pc_completed_seek_restart_baseline = None, pc_rate_override = None,
       pc_observation_sequence = 0, pc_last_playback_rate_observation_sequence = None,
       pc_retry_not_before_seconds = Fin 0, pc_failed_command_attempts = 0,
       pc_command_budget_degraded = False, pc_pending_degraded_reason = None,
       pc_diagnostic = PlaybackDiagnostic.Loading, pc_metrics = default_playback_metrics,
       pc_actions = []\<rparr>"

lemmas load_eval = new_coordinator_def normalized_same [OF film_config_ok]
  prepare_media_def prepare_media_with_intent_def prepare_media_with_intent_internal_def same_logical_media_def
  is_some_and_def is_none_or_def resolve_load_intent_def begin_media_generation_def
  finish_seek_preparation_def close_recovery_without_metrics_def request_rate_reset_def
  clear_transport_evidence_def clear_participant_status_transport_metrics_def modify_metrics_def modify_terminal_def
  modify_seek_preparation_def begin_call_def saturating_add_def u64_max_def unwrap_or_def
  update_desired_room_state_with_kind_def coordinator_media_generation_def explicit_seek_kind_def
  guard_superseded_dispatch_def update_preparation_for_desired_def rebind_terminal_def adopt_revision_def
  retain_commands_def reconcile_retained_observation_def room_wish_def default_playback_metrics_def Let_def

lemma film_loaded: "playback_run film_config (film_calls paused) = Some (film_state paused, [])"
  unfolding film_calls_def playback_run_def
  by (cases paused) (simp_all add: load_eval film_state_def)

section \<open>Observing a film\<close>

definition film_seen :: "f64 \<Rightarrow> f64 \<Rightarrow> PlayerTransportPhase \<Rightarrow> PlayerTransportObservation" where
  "film_seen now position phase = (new_transport_observation 1 now)
     \<lparr>tp_phase := Some phase, tp_position_seconds := Some position,
      tp_logical_pause := Some (phase = PlayerTransportPhase.ReadyPaused),
      tp_seekable := Some True, tp_buffered_ahead_seconds := Some (Fin 4)\<rparr>"

lemma advancement_bounds: "f64_le (Fin 0) MIN_ADVANCEMENT_SECONDS" "f64_le MIN_ADVANCEMENT_SECONDS (Fin (1 / 16))"
  using round_f64_mono [of 0 "1 / 100"] round_f64_mono [of "1 / 100" "1 / 16"]
  by (simp_all only: MIN_ADVANCEMENT_SECONDS_def round_f64_small)

lemma advancement: "f64_lt MIN_ADVANCEMENT_SECONDS (Fin 1)" "\<not> f64_lt MIN_ADVANCEMENT_SECONDS (Fin 0)"
  using f64_le_less_trans [OF advancement_bounds(2), of "Fin 1"] advancement_bounds(1)
    f64_less_imp_le [of MIN_ADVANCEMENT_SECONDS "Fin 0"] by auto

lemma epsilon_small: "f64_lt f64_epsilon (Fin (1 / 16))"
  using pow2_less_iff [of "- 52" "- 4"] by (simp add: f64_epsilon_def pow2_def [of "- 4"])

lemmas observe_eval = is_some_and_def is_none_or_def opt_filter_def opt_else_def unwrap_or_def
  observe_def observe_with_seek_preparation_evidence_def begin_call_def stale_timestamp_def admit_observation_def
  merge_observed_def adopt_observed_def record_cache_metrics_def update_diagnostic_for_observation_def
  drain_pending_actions_def pending_actions_def complete_observed_commands_def pending_completed_def
  restart_satisfied_def note_completed_seek_def update_seek_preparation_def
  seek_preparation_accepts_target_cache_evidence_def is_advancing_def update_recovery_episode_def
  open_recovery_def modify_metrics_def modify_recovery_def saturating_add_def u64_max_def retain_commands_def
  push_action_def coordinate_desired_state_def rearm_displaced_alignment_def coordinate_without_preparation_def
  coordinate_paused_room_def coordinate_playing_room_def transport_blocks_correction_def playable_phase_def
  issue_pause_def issue_play_def play_intent_for_def issue_command_def command_refused_def baseline_rate_reset_def
  issue_desired_seek_if_needed_def desired_seek_is_satisfied_def terminal_seek_preparation_holds_current_revision_def
  degraded_seek_preparation_holds_current_revision_def terminal_holds_def generation_or_default_def
  coordinator_media_generation_def mark_revision_applied_def mark_revision_started_def record_start_latencies_def
  coordinate_recovery_def decide_recovery_def begin_catchup_def catchup_rate_def catchup_deadline_after_def
  observation_has_catchup_headroom_def settle_recovery_def allows_rate_correction_def reconcile_rate_override_def
  finite_nonnegative_def empty_observed_def f64_sub_def f64_max_def f64_min_def position_at_def
  new_transport_observation_def new_command_id_def invalidate_cache_metrics_for_seek_def distance_def
  default_playback_metrics_def room_wish_def film_seen_def film_state_def Let_def

lemmas number_eval = round_f64_small advancement epsilon_small film_config_fields

definition seen_state :: "f64 \<Rightarrow> f64 \<Rightarrow> PlayerTransportPhase \<Rightarrow> u64 \<Rightarrow> ObservedState" where
  "seen_state now position phase sequence = (empty_observed now)
     \<lparr>os_phase := phase, os_position_seconds := Some position,
      os_position_sample := Some \<lparr>ps_observation_sequence = sequence, ps_observed_at_seconds = now,
        ps_position_seconds = position\<rparr>,
      os_logical_pause := Some (phase = PlayerTransportPhase.ReadyPaused), os_seekable := Some True,
      os_buffered_ahead_seconds := Some (Fin 4)\<rparr>"

subsection \<open>A room that plays\<close>

lemma film_starts:
  "map_option pc_actions (observe (film_seen (Fin 0) (Fin 0) PlayerTransportPhase.ReadyPaused) (film_state False)) =
     Some [PlaybackCoordinatorAction.Execute 1 (CoordinatorPlayerCommand.Play (PlayerPlayIntent.StartAfterLoad 0))]"
  by (simp add: observe_eval)

definition stalled_episode :: RecoveryEpisode where
  "stalled_episode =
     \<lparr>re_id = 1, re_media_generation = 1, re_entered_at_seconds = Fin 8, re_hard_seek_attempts = 0,
      re_post_cache_baseline_at_seconds = None, re_stable_since_seconds = None,
      re_catchup_deadline_seconds = None, re_decision_made = False,
      re_cache_metrics_frozen_until_decision = False, re_catchup_active = False,
      re_seek_active = False, re_gentle_catchup_only = False, re_degraded = False\<rparr>"

definition film_stalled :: PlaybackCoordinator where
  "film_stalled = (film_state False)
     \<lparr>pc_observed := Some (seen_state (Fin 8) (Fin 4) PlayerTransportPhase.Rebuffering 1),
      pc_recovery := Some stalled_episode, pc_next_recovery_episode_id := 1, pc_observation_sequence := 1,
      pc_diagnostic := PlaybackDiagnostic.Rebuffering,
      pc_metrics := default_playback_metrics
        \<lparr>pm_buffer_episode_count := 1, pm_last_buffered_ahead_seconds := Some (Fin 4)\<rparr>\<rparr>"

definition film_resumed :: PlaybackCoordinator where
  "film_resumed = film_stalled
     \<lparr>pc_observed := Some (seen_state (Fin 9) (Fin 4) PlayerTransportPhase.Playing 2),
      pc_recovery := Some (stalled_episode\<lparr>re_post_cache_baseline_at_seconds := Some (Fin 9)\<rparr>),
      pc_observation_sequence := 2, pc_diagnostic := PlaybackDiagnostic.Starting\<rparr>"

definition film_catching_up :: PlaybackCoordinator where
  "film_catching_up = film_resumed
     \<lparr>pc_observed := Some (seen_state (Fin 10) (Fin 5) PlayerTransportPhase.Playing 3),
      pc_recovery := Some (stalled_episode\<lparr>re_post_cache_baseline_at_seconds := Some (Fin 9),
        re_stable_since_seconds := Some (Fin 10), re_catchup_deadline_seconds := Some (Fin 134),
        re_decision_made := True, re_catchup_active := True\<rparr>),
      pc_pending_commands := [\<lparr>cm_id = 1, cm_revision = 1, cm_issued_at_seconds = Fin 10, cm_accepted = False,
        cm_kind = PendingCommandKind.Rate (Fin (17 / 16))\<rparr>],
      pc_next_command_id := 1, pc_last_applied_revision := Some 1, pc_applied_observation_revision := Some (1, 1),
      pc_last_started_revision := Some 1,
      pc_rate_override := Some \<lparr>ro_episode_id = 1, ro_reset_requested = False,
        ro_reset_command_observation_sequence = None\<rparr>,
      pc_observation_sequence := 3,
      pc_metrics := (pc_metrics film_resumed)\<lparr>pm_first_frame_latency_seconds := Some (Fin 10),
        pm_started_ack_latency_seconds := Some (Fin 10), pm_gentle_catchup_count := 1,
        pm_applied_revision_count := 1, pm_steady_state_skew_seconds := Some (Fin (- 5))\<rparr>,
      pc_actions := [PlaybackCoordinatorAction.Execute 1 (CoordinatorPlayerCommand.SetPlaybackRate (Fin (17 / 16))),
        PlaybackCoordinatorAction.RevisionApplied 1 1, PlaybackCoordinatorAction.Started 1 1 (Fin 5)]\<rparr>"

lemmas film_states = film_stalled_def film_resumed_def film_catching_up_def seen_state_def stalled_episode_def

lemma film_stalls:
  "observe (film_seen (Fin 8) (Fin 4) PlayerTransportPhase.Rebuffering) (film_state False) = Some film_stalled"
  by (simp add: observe_eval film_states)

lemma film_resumes:
  "observe (film_seen (Fin 9) (Fin 4) PlayerTransportPhase.Playing) film_stalled = Some film_resumed"
  by (simp add: observe_eval number_eval film_states)

lemma film_catches_up:
  "observe (film_seen (Fin 10) (Fin 5) PlayerTransportPhase.Playing) film_resumed = Some film_catching_up"
  by (simp add: observe_eval number_eval film_states)

definition catchup_calls :: "PlaybackCall list" where
  "catchup_calls = film_calls False @
     [Observe (film_seen (Fin 8) (Fin 4) PlayerTransportPhase.Rebuffering),
      Observe (film_seen (Fin 9) (Fin 4) PlayerTransportPhase.Playing),
      Observe (film_seen (Fin 10) (Fin 5) PlayerTransportPhase.Playing)]"

lemma catchup_run: "playback_run film_config catchup_calls = Some (film_catching_up, pc_actions film_catching_up)"
proof -
  have none: "pc_actions film_stalled = []" "pc_actions film_resumed = []"
    by (simp_all add: film_stalled_def film_resumed_def film_state_def)
  show ?thesis
    unfolding catchup_calls_def using playback_run_append [OF film_loaded [of False]]
    by (simp add: film_stalls film_resumes film_catches_up none)
qed

lemma catchup_allowed: "list_all call_allowed catchup_calls" "list_all (budget_allowed 1) catchup_calls"
  by (simp_all add: catchup_calls_def film_calls_def)

text \<open>If the film falls far enough behind, the same episode begins a hard seek.\<close>

definition behind_calls :: "PlaybackCall list" where
  "behind_calls = film_calls False @
     [Observe (film_seen (Fin 8) (Fin 4) PlayerTransportPhase.Rebuffering),
      Observe (film_seen (Fin 9) (Fin 4) PlayerTransportPhase.Playing)]"

lemma behind_run: "playback_run film_config behind_calls = Some (film_resumed, [])"
proof -
  have none: "pc_actions film_stalled = []" "pc_actions film_resumed = []"
    by (simp_all add: film_stalled_def film_resumed_def film_state_def)
  show ?thesis
    unfolding behind_calls_def using playback_run_append [OF film_loaded [of False]]
    by (simp add: film_stalls film_resumes none)
qed

lemma behind_allowed: "list_all (budget_allowed 1) behind_calls"
  by (simp add: behind_calls_def film_calls_def)

lemma film_seeks_hard:
  "\<exists>t. observe (film_seen (Fin 20) (Fin 5) PlayerTransportPhase.Playing) film_resumed = Some t
     \<and> map_option re_id (pc_recovery t) = Some 1 \<and> pm_hard_seek_count (pc_metrics t) = 1
     \<and> pc_next_recovery_episode_id t = 1
     \<and> PlaybackCoordinatorAction.Execute 1 (CoordinatorPlayerCommand.SetPosition (Fin 20)) \<in> set (pc_actions t)"
  by (simp add: observe_eval number_eval film_states begin_hard_seek_def observed_seekable_def issue_seek_def
      clamp_seek_target_def)

subsection \<open>A room that is paused\<close>

definition film_pausing :: PlaybackCoordinator where
  "film_pausing = (film_state True)
     \<lparr>pc_observed := Some (seen_state (Fin 8) (Fin 4) PlayerTransportPhase.Playing 1),
      pc_pending_commands := [\<lparr>cm_id = 1, cm_revision = 1, cm_issued_at_seconds = Fin 8, cm_accepted = False,
        cm_kind = PendingCommandKind.Pause\<rparr>],
      pc_next_command_id := 1, pc_observation_sequence := 1, pc_diagnostic := PlaybackDiagnostic.Playing,
      pc_metrics := default_playback_metrics\<lparr>pm_last_buffered_ahead_seconds := Some (Fin 4)\<rparr>,
      pc_actions := [PlaybackCoordinatorAction.Execute 1 (CoordinatorPlayerCommand.SetPaused True)]\<rparr>"

definition film_exhausted :: PlaybackCoordinator where
  "film_exhausted = film_pausing
     \<lparr>pc_pending_commands := [], pc_retry_not_before_seconds := Fin 22, pc_failed_command_attempts := 1,
      pc_actions := []\<rparr>"

lemma film_is_paused:
  "observe (film_seen (Fin 8) (Fin 4) PlayerTransportPhase.Playing) (film_state True) = Some film_pausing"
  by (simp add: observe_eval film_pausing_def seen_state_def)

lemmas failed_eval = command_failed_def begin_call_def find_pending_def degrade_failed_buffered_alternative_def
  retain_commands_def is_some_and_def saturating_add_u32_def u32_max_def film_state_def Let_def

lemma film_pause_fails: "snd (command_failed 1 (Fin 20) film_pausing) = film_exhausted"
  by (simp add: failed_eval number_eval film_exhausted_def film_pausing_def)

lemma film_pauses_again:
  "map_option pc_actions (observe (film_seen (Fin 30) (Fin 20) PlayerTransportPhase.Playing) film_exhausted) =
     Some [PlaybackCoordinatorAction.Execute 2 (CoordinatorPlayerCommand.SetPaused True)]"
  by (simp add: observe_eval number_eval film_exhausted_def film_pausing_def seen_state_def)

definition exhausted_calls :: "PlaybackCall list" where
  "exhausted_calls = film_calls True @
     [Observe (film_seen (Fin 8) (Fin 4) PlayerTransportPhase.Playing), CommandFailed 1 (Fin 20)]"

lemma exhausted_run:
  "playback_run film_config exhausted_calls = Some (film_exhausted, pc_actions film_pausing)"
  unfolding exhausted_calls_def using playback_run_append [OF film_loaded [of True]]
  by (simp add: film_is_paused film_pause_fails [unfolded One_nat_def]) (simp add: film_exhausted_def)

lemma exhausted_allowed: "list_all call_allowed exhausted_calls"
  by (simp add: exhausted_calls_def film_calls_def)

section \<open>A seek that is being prepared\<close>

definition preparing_episode :: SeekPreparationEpisode where
  "preparing_episode =
     \<lparr>sp_id = 1, sp_media_generation = 1, sp_load_attempt = 1, sp_room_revision = 1, sp_latest_room_revision = 1,
      sp_latest_room_paused = False, sp_requested_target_seconds = Fin 30, sp_frozen_target_seconds = Fin 30,
      sp_frozen_room_anchor_position_seconds = Fin 30, sp_frozen_room_anchor_observed_at_seconds = Fin 0,
      sp_latest_room_position_seconds = Fin 30, sp_availability = SeekTargetAvailability.Unknown,
      sp_phase = SeekPreparationPhase.Seeking, sp_cache_buffering_percent = None, sp_buffered_ahead_seconds = None,
      sp_input_rate_bytes_per_second = None, sp_nearest_safe_buffered_position_seconds = None,
      sp_started_at_seconds = Fin 0, sp_deadline_seconds = Fin 60, sp_primary_seek_command_id = Some 1,
      sp_primary_seek_issued = True, sp_primary_seek_observation_sequence = Some 1,
      sp_refill_started_observation_sequence = None, sp_refill_released_after_seek = False,
      sp_stable_playable_since = None\<rparr>"

definition preparing_seek :: PendingCommand where
  "preparing_seek = \<lparr>cm_id = 1, cm_revision = 1, cm_issued_at_seconds = Fin 1, cm_accepted = False,
     cm_kind = PendingCommandKind.Seek (Fin 30) 0 False\<rparr>"

definition film_preparing :: PlaybackCoordinator where
  "film_preparing = (film_state False)\<lparr>pc_seek_preparation := Some preparing_episode,
     pc_pending_commands := [preparing_seek], pc_next_command_id := 1\<rparr>"

lemma film_keeps_preparing:
  "update_desired_room_state_with_kind (room_wish 2 True (Fin 40)) DesiredRoomPlaybackUpdateKind.Ordinary film_preparing \<noteq> None"
  by (simp add: load_eval film_preparing_def film_state_def)

end
