(* ===== verification/Playback_Properties.thy ===== *)
theory Playback_Properties
  imports Playback_Examples
begin

text \<open>
  What the playback coordinator promises its client: no sequence of calls panics, commands are
  fresh and at most one of a kind is in flight, a room that is not playing never starts the
  player, rates and hard seeks stay within their bounds, and a paused room keeps a pause in flight.
\<close>

section \<open>Runs from a new coordinator\<close>

lemma new_coordinator_start:
  obtains s where "new_coordinator config = Some s" "pc_inv s" "log_ok [] s"
    "pc_recovery s = None" "normalized config = Some (pc_config s)" "pc_next_recovery_episode_id s = 0"
    "pm_hard_seek_count (pc_metrics s) = 0"
proof -
  obtain s where s: "new_coordinator config = Some s" "pc_inv s" using pc_inv_new by blast
  then have "log_ok [] s" "pc_recovery s = None" "normalized config = Some (pc_config s)" "pc_next_recovery_episode_id s = 0"
      "pm_hard_seek_count (pc_metrics s) = 0"
    by (auto simp: new_coordinator_def default_playback_metrics_def log_ok_def ids_between_def split: bind_splits)
  with s that show ?thesis by blast
qed

lemma playback_run_returns: "list_all call_allowed calls \<Longrightarrow> \<exists>s tr. playback_run config calls = Some (s, tr) \<and> pc_inv s"
  using coordinator.run_returns by (metis bind.bind_lunit new_coordinator_start playback_run_def)

lemma playback_run_inv:
  assumes "list_all call_allowed calls" "playback_run config calls = Some (s, tr)"
  shows "pc_inv s" "log_ok tr s"
proof -
  obtain s0 where s0: "new_coordinator config = Some s0" "pc_inv s0" "log_ok [] s0" using new_coordinator_start by blast
  then have run: "try_run coordinator_do pc_actions calls s0 = Some (s, tr)" using assms(2) by (simp add: playback_run_def)
  show "pc_inv s" by (rule coordinator.run_holds [OF s0(2) assms(1) run])
  show "log_ok tr s" using coordinator.run_logs [OF s0(2) assms(1) s0(3) run] by simp
qed

lemma playback_run_seeks:
  assumes "n \<le> u32_max" "list_all (budget_allowed n) calls" "cf_maximum_hard_seeks_per_episode config \<le> n"
    and "playback_run config calls = Some (s, tr)"
  shows "pc_inv s" "seek_bounds n 0 0 0 s"
proof -
  obtain s0 where s0: "new_coordinator config = Some s0" "pc_inv s0" "pc_recovery s0 = None"
      "normalized config = Some (pc_config s0)" "pc_next_recovery_episode_id s0 = 0" "pm_hard_seek_count (pc_metrics s0) = 0"
    using new_coordinator_start by blast
  then have "seek_bounds n 0 0 0 s0"
    using assms(3) normalized_budget [OF s0(4)] by (simp add: seek_bounds_def recovery_view_def u64_max_def)
  moreover have "try_run coordinator_do pc_actions calls s0 = Some (s, tr)"
    using assms(4) s0(1) by (simp add: playback_run_def)
  ultimately show "pc_inv s" "seek_bounds n 0 0 0 s" using hard_seeks.run_holds s0(2) assms(1,2) by blast+
qed

lemma observing_actions:
  assumes "list_all call_allowed calls" "playback_run config calls = Some (s, tr)"
    and "call_allowed call" "coordinator_do call s = Some t"
    and "PlaybackCoordinatorAction.Execute i c \<in> set (pc_actions t)"
  shows "handed_ok (observing_call call) s c"
proof (cases "configures call")
  case True
  then obtain d where "call = SetConfig d" by (cases call) auto
  with assms(4,5) show ?thesis by (auto simp: set_config_def split: bind_splits)
next
  case False
  note inv = playback_run_inv(1) [OF assms(1,2)]
  from False inv assms(3,4) have "micros (observing_call call) (begin_call s) t"
    by (metis call_micros option.inject)
  then have "actions_ok (observing_call call) (begin_call s) t"
    using inv by (intro actions_ok_micros) (simp_all add: pc_inv_def pending_ok_def in_flight_ok_def)
  with assms(5) have "handed_ok (observing_call call) (begin_call s) c"
    by (force simp: actions_ok_def executed_iff [symmetric])
  then show ?thesis by (simp add: handed_ok_def playing_room_def exhausted_def)
qed

lemma merge_observed_fields:
  assumes "merge_observed observation fresh sequence before = Some observed"
  shows "os_logical_pause observed = opt_else (tp_logical_pause observation) (os_logical_pause before)"
    and "os_observed_at_seconds observed = tp_observed_at_seconds observation"
  using assms unfolding merge_observed_def Let_def by (auto simp: bind_eq_Some_conv)

lemma pause_before:
  "os_logical_pause (unwrap_or observed (empty_observed now)) = Option.bind observed os_logical_pause"
  by (cases observed) (simp_all add: unwrap_or_def empty_observed_def)

section \<open>What an update of the room keeps of a preparation\<close>

definition keeps_preparation :: "(PendingCommand \<Rightarrow> bool) \<Rightarrow> PlaybackCoordinator \<Rightarrow> PlaybackCoordinator \<Rightarrow> bool" where
  "keeps_preparation P s t \<longleftrightarrow> pc_seek_preparation t = pc_seek_preparation s
     \<and> (\<forall>c\<in>set (pc_pending_commands s). is_seek (cm_kind c) \<and> P c \<longrightarrow> c \<in> set (pc_pending_commands t))"

lemma keeps_preparation_trans: "keeps_preparation P s t \<Longrightarrow> keeps_preparation P t u \<Longrightarrow> keeps_preparation P s u"
  by (auto simp: keeps_preparation_def)

lemma keeps_preparation_reset: "keeps_preparation P s (request_rate_reset s)"
proof -
  have "is_seek k \<Longrightarrow> \<not> is_catchup_rate k" for k by (cases k) auto
  then show ?thesis
    by (auto simp: keeps_preparation_def request_rate_reset_def retain_commands_def split: option.split)
qed

lemma keeps_preparation_close: "keeps_preparation P s (close_recovery_without_metrics s)"
  using keeps_preparation_reset [of P s] by (simp add: close_recovery_without_metrics_def keeps_preparation_def)

lemma keeps_preparation_issue: "keeps_preparation P s (snd (issue_command revision now kind command s))"
  by (auto simp: keeps_preparation_def issue_command_def Let_def push_action_def invalidate_cache_metrics_for_seek_def
      modify_metrics_def)

lemma keeps_preparation_reconcile: "keeps_preparation P s (reconcile_retained_observation s)"
proof -
  have "keeps_preparation P s (reconcile_rate_override observed now s)" for observed now
  proof (cases "pc_rate_override s")
    case (Some r)
    define u where "u = (if ro_reset_requested r then s else request_rate_reset s)"
    have u: "keeps_preparation P s u" using keeps_preparation_reset [of P s] by (simp add: u_def keeps_preparation_def)
    then have "keeps_preparation P s (u\<lparr>pc_rate_override := None\<rparr>)" by (simp add: keeps_preparation_def)
    with u keeps_preparation_trans [OF u keeps_preparation_issue] keeps_preparation_def [of P s s] show ?thesis
      by (simp add: reconcile_rate_override_def Some Let_def flip: u_def)
  qed (simp add: reconcile_rate_override_def keeps_preparation_def)
  then show ?thesis
    by (auto simp: reconcile_retained_observation_def keeps_preparation_def [of P s s] split: option.split)
qed

lemma keeps_preparation_adopt:
  assumes "\<And>c. P c \<Longrightarrow> Option.bind (pc_seek_preparation s) sp_primary_seek_command_id = Some (cm_id c)"
  shows "keeps_preparation P s (adopt_revision desired s)"
proof -
  define u where "u = retain_commands (\<lambda>c. dp_state_revision desired \<le> cm_revision c
    \<or> Option.bind (pc_seek_preparation s) sp_primary_seek_command_id = Some (cm_id c)) s"
  have u: "keeps_preparation P s u" using assms by (auto simp: u_def keeps_preparation_def retain_commands_def)
  have "keeps_preparation P s (close_recovery_without_metrics
      (u\<lparr>pc_desired_seek_satisfied_revision := x, pc_completed_seek_restart_baseline := None\<rparr>))" for x
    by (rule keeps_preparation_trans [OF _ keeps_preparation_close]) (use u in \<open>simp add: keeps_preparation_def\<close>)
  with u show ?thesis
    unfolding adopt_revision_def Let_def u_def [symmetric] by (simp add: keeps_preparation_def)
qed

lemma keeps_preparation_rebind: "keeps_preparation P s (rebind_terminal desired kind changed s)"
  by (simp add: rebind_terminal_def Let_def keeps_preparation_def modify_terminal_def)

text \<open>The steps of an update after the preparation has been told of it.\<close>

lemma keeps_preparation_adopted:
  assumes "\<And>c. P c \<Longrightarrow> Option.bind (pc_seek_preparation s) sp_primary_seek_command_id = Some (cm_id c)"
  shows "keeps_preparation P s (reconcile_retained_observation
    (let u = rebind_terminal desired kind changed s;
         u = (if changed then adopt_revision desired u else u);
         u = (if dp_paused desired then close_recovery_without_metrics u else u)
     in u\<lparr>pc_desired := Some desired\<rparr>))"
proof -
  define u where "u = rebind_terminal desired kind changed s"
  have u: "keeps_preparation P s u" unfolding u_def by (rule keeps_preparation_rebind)
  then have "pc_seek_preparation u = pc_seek_preparation s" by (simp add: keeps_preparation_def)
  with assms have "keeps_preparation P u (adopt_revision desired u)" by (intro keeps_preparation_adopt) simp
  define v where "v = (if changed then adopt_revision desired u else u)"
  have v: "keeps_preparation P s v"
    using u keeps_preparation_trans [OF u \<open>keeps_preparation P u (adopt_revision desired u)\<close>] by (simp add: v_def)
  have "keeps_preparation P s (if dp_paused desired then close_recovery_without_metrics v else v)"
    using v keeps_preparation_trans [OF v keeps_preparation_close] by simp
  then have "keeps_preparation P s ((if dp_paused desired then close_recovery_without_metrics v else v)\<lparr>pc_desired := Some desired\<rparr>)"
    by (simp add: keeps_preparation_def)
  from keeps_preparation_trans [OF this keeps_preparation_reconcile] show ?thesis
    unfolding Let_def u_def [symmetric] v_def [symmetric] .
qed

lemma guard_keeps_preparation:
  "pc_seek_preparation (snd (guard_superseded_dispatch desired kind x s)) = pc_seek_preparation s"
  "pc_pending_commands (snd (guard_superseded_dispatch desired kind x s)) = pc_pending_commands s"
  by (simp_all add: guard_superseded_dispatch_def Let_def modify_metrics_def)

lemma update_not_explicit:
  assumes "\<not> explicit_seek_kind kind" "update_desired_room_state_with_kind desired kind s = Some t"
  obtains "t = begin_call s"
  | d v changed where "pc_seek_preparation v = pc_seek_preparation s" "pc_pending_commands v = pc_pending_commands s"
      "t = reconcile_retained_observation
        (let u = rebind_terminal d kind changed (modify_seek_preparation (\<lambda>e. e\<lparr>sp_latest_room_revision := dp_state_revision d,
             sp_latest_room_paused := dp_paused d,
             sp_latest_room_position_seconds := position_at d (dp_anchor_observed_at_seconds d)\<rparr>) v);
             u = (if changed then adopt_revision d u else u);
             u = (if dp_paused d then close_recovery_without_metrics u else u)
         in u\<lparr>pc_desired := Some d\<rparr>)"
proof -
  let ?s = "begin_call s"
  define changed where "changed = is_none_or (pc_desired ?s) (\<lambda>current.
    dp_state_revision current \<noteq> dp_state_revision desired)"
  define supersedes where "supersedes = ((False \<or> dp_force_seek desired)
    \<and> (is_some_and (pc_seek_preparation ?s) sp_primary_seek_issued
       \<or> list_ex (\<lambda>c. cm_revision c < dp_state_revision desired \<and> is_seek (cm_kind c)) (pc_pending_commands ?s)))"
  obtain d v where dv: "(if changed then guard_superseded_dispatch desired kind supersedes ?s else (desired, ?s)) = (d, v)"
    by fastforce
  then have v: "pc_seek_preparation v = pc_seek_preparation s" "pc_pending_commands v = pc_pending_commands s"
    using guard_keeps_preparation [of desired kind supersedes ?s] by (auto simp: begin_call_def split: if_splits)
  have explicit: "(changed \<and> explicit_seek_kind kind) = False" using assms(1) by simp
  show ?thesis
  proof (cases "t = ?s")
    case False
    with assms(2) have "t = reconcile_retained_observation
        (let u = rebind_terminal d kind changed (modify_seek_preparation (\<lambda>e. e\<lparr>sp_latest_room_revision := dp_state_revision d,
             sp_latest_room_paused := dp_paused d,
             sp_latest_room_position_seconds := position_at d (dp_anchor_observed_at_seconds d)\<rparr>) v);
             u = (if changed then adopt_revision d u else u);
             u = (if dp_paused d then close_recovery_without_metrics u else u)
         in u\<lparr>pc_desired := Some d\<rparr>)"
      unfolding update_desired_room_state_with_kind_def Let_def changed_def [symmetric] explicit
        supersedes_def [symmetric] dv prod.case update_preparation_for_desired_def if_False Option.bind.bind_lunit
      by (simp split: if_splits)
    with v that(2) show ?thesis by blast
  qed (rule that(1))
qed

section \<open>Every sequence of calls\<close>

text \<open>
  C7. Whatever sequence of calls a client makes, the coordinator never panics (none of the bounds of a
  \<open>clamp\<close> is crossed or a NaN, no \<open>expect\<close> fails) and its configuration stays valid. The only demand
  is that the timeline is shifted by a finite amount.
\<close>

theorem coordinator_never_panics:
  assumes "list_all call_allowed calls"
  shows "\<exists>s tr. playback_run config calls = Some (s, tr) \<and> coordinator_config_ok (pc_config s)"
  using playback_run_returns [OF assms, of config] by (auto simp: pc_inv_def)

theorem coordinator_never_panics_witness:
  "playback_run film_config catchup_calls = Some (film_catching_up, pc_actions film_catching_up)
   \<and> coordinator_config_ok (pc_config film_catching_up)"
  using coordinator_never_panics [OF catchup_allowed(1), of film_config] catchup_run by auto

text \<open>
  C9. While the counter of command ids has not reached its maximum, the commands handed to the player
  over a whole run carry strictly increasing ids and rates between 1 and 1.25, every command in
  flight was handed out with its id, and no two commands in flight are of the same kind.
\<close>

theorem commands_fresh_and_single_flight:
  assumes "list_all call_allowed calls" "playback_run config calls = Some (s, tr)"
    and "pc_next_command_id s < u64_max"
  shows "sorted_wrt (<) (map fst (executed tr))
    \<and> (\<forall>(i, c)\<in>set (executed tr). \<forall>rate. c = CoordinatorPlayerCommand.SetPlaybackRate rate \<longrightarrow>
         f64_within (Fin 1) (Fin (5 / 4)) rate)
    \<and> (\<forall>c\<in>set (pc_pending_commands s). (cm_id c, player_command_of (cm_kind c)) \<in> set (executed tr))
    \<and> sorted_wrt (\<lambda>c d. \<not> same_kind (cm_kind c) (cm_kind d)) (pc_pending_commands s)"
  using playback_run_inv [OF assms(1,2)] assms(3)
  by (simp add: pc_inv_def log_ok_def ids_between_def pending_ok_def in_flight_ok_def single_flight_def sorted_wrt_map
      rate_allowed_def NORMAL_PLAYBACK_RATE_def)

theorem commands_fresh_and_single_flight_witness:
  "sorted_wrt (<) (map fst (executed (pc_actions film_catching_up)))
   \<and> (1, CoordinatorPlayerCommand.SetPlaybackRate (Fin (17 / 16))) \<in> set (executed (pc_actions film_catching_up))
   \<and> f64_within (Fin 1) (Fin (5 / 4)) (Fin (17 / 16))
   \<and> sorted_wrt (\<lambda>c d. \<not> same_kind (cm_kind c) (cm_kind d)) (pc_pending_commands film_catching_up)"
proof -
  have "pc_next_command_id film_catching_up < u64_max" by (simp add: film_catching_up_def u64_max_def)
  moreover have issued: "(1, CoordinatorPlayerCommand.SetPlaybackRate (Fin (17 / 16))) \<in> set (executed (pc_actions film_catching_up))"
    by (simp add: film_catching_up_def)
  ultimately show ?thesis
    using commands_fresh_and_single_flight [OF catchup_allowed(1) catchup_run] by fastforce
qed

section \<open>Commands and the room\<close>

text \<open>
  C12. The player is asked to play only by a call that consumes an observation, and only while the room
  wants the media that is loaded to play.
\<close>

theorem play_only_in_playing_room:
  assumes "list_all call_allowed calls" "playback_run config calls = Some (s, tr)"
    and "call_allowed call" "coordinator_do call s = Some t"
    and "PlaybackCoordinatorAction.Execute i (CoordinatorPlayerCommand.Play intent) \<in> set (pc_actions t)"
  shows "observing_call call \<and> (\<exists>desired media. pc_desired s = Some desired \<and> \<not> dp_paused desired
    \<and> pc_media s = Some media \<and> ms_generation media = dp_media_generation desired)"
  using observing_actions [OF assms]
  by (auto simp: handed_ok_def playing_room_def coordinator_media_generation_def is_some_and_def split: option.splits)

theorem play_only_in_playing_room_witness:
  "\<exists>t desired media.
     coordinator_do (Observe (film_seen (Fin 0) (Fin 0) PlayerTransportPhase.ReadyPaused)) (film_state False) = Some t
     \<and> PlaybackCoordinatorAction.Execute 1 (CoordinatorPlayerCommand.Play (PlayerPlayIntent.StartAfterLoad 0)) \<in> set (pc_actions t)
     \<and> pc_desired (film_state False) = Some desired \<and> \<not> dp_paused desired
     \<and> pc_media (film_state False) = Some media \<and> ms_generation media = dp_media_generation desired"
proof -
  let ?call = "Observe (film_seen (Fin 0) (Fin 0) PlayerTransportPhase.ReadyPaused)"
  obtain t where t: "coordinator_do ?call (film_state False) = Some t"
      "PlaybackCoordinatorAction.Execute 1 (CoordinatorPlayerCommand.Play (PlayerPlayIntent.StartAfterLoad 0)) \<in> set (pc_actions t)"
    using film_starts by auto
  have "list_all call_allowed (film_calls False)" "call_allowed ?call" by (simp_all add: film_calls_def)
  with t play_only_in_playing_room [OF _ film_loaded _ t] show ?thesis by blast
qed

text \<open>
  C14. In a paused room an admitted observation that leaves the player not known to be paused leaves a
  pause command in flight, whatever seek preparation or recovery is going on, unless commands are
  cooling down after a failure.
\<close>

theorem paused_room_keeps_pause_in_flight:
  assumes "list_all call_allowed calls" "playback_run config calls = Some (s, tr)"
    and "pc_media s = Some media" "tp_media_generation observation = ms_generation media"
    and "\<not> stale_timestamp observation s"
    and "pc_desired s = Some desired" "dp_paused desired" "dp_media_generation desired = ms_generation media"
    and "opt_else (tp_logical_pause observation) (Option.bind (pc_observed s) os_logical_pause) \<noteq> Some True"
    and "\<not> f64_lt (tp_observed_at_seconds observation) (pc_retry_not_before_seconds s)"
    and "observe observation s = Some t"
  shows "list_ex (\<lambda>command. cm_kind command = PendingCommandKind.Pause) (pc_pending_commands t)"
proof -
  have wf: "pc_wf s" using playback_run_inv(1) [OF assms(1,2)] by (simp add: pc_inv_def)
  show ?thesis
  proof (rule observe_stages [OF wf assms(3-5), of True False])
    fix sequence observed advancing u v
    assume merged: "merge_observed observation True sequence
        (unwrap_or (if False then None else pc_observed s) (empty_observed (tp_observed_at_seconds observation))) = Some observed"
      and window: "window_ok (os_known_live_seekable_window observed)"
      and u: "micros True (begin_call s) u"
      and v: "coordinate_desired_state observed observation True advancing u = Some v"
      and t: "observe_with_seek_preparation_evidence observation True False s =
        Some (let w = reconcile_rate_override observed (os_observed_at_seconds observed) v
              in if True then w else w\<lparr>pc_applied_observation_revision := None\<rparr>)"
    have observed: "os_logical_pause observed \<noteq> Some True"
        "os_observed_at_seconds observed = tp_observed_at_seconds observation"
      using merge_observed_fields [OF merged] assms(9) by (simp_all add: pause_before)
    have cool: "pc_retry_not_before_seconds (begin_call s) = pc_retry_not_before_seconds s" by (simp add: begin_call_def)
    have generation: "coordinator_media_generation (begin_call s) = Some (dp_media_generation desired)"
      using assms(3,8) by (simp add: coordinator_media_generation_def begin_call_def)
    have "pause_pending v"
      by (rule coordination_pauses [OF _ u window v _ assms(7) generation observed(1)])
        (use wf assms(6,10) observed(2) cool in simp_all)
    then have "pause_pending (reconcile_rate_override observed (os_observed_at_seconds observed) v)"
      by (rule pause_pending_reconcile)
    with t assms(11) show ?thesis by (simp add: observe_def pause_pending_def)
  qed
qed

theorem paused_room_keeps_pause_in_flight_witness:
  "observe (film_seen (Fin 8) (Fin 4) PlayerTransportPhase.Playing) (film_state True) = Some film_pausing
   \<and> list_ex (\<lambda>command. cm_kind command = PendingCommandKind.Pause) (pc_pending_commands film_pausing)"
proof -
  have "list_all call_allowed (film_calls True)" by (simp add: film_calls_def)
  then have "list_ex (\<lambda>command. cm_kind command = PendingCommandKind.Pause) (pc_pending_commands film_pausing)"
    by (rule paused_room_keeps_pause_in_flight [where desired = "room_wish 1 True (Fin 0)"
          and media = "the (pc_media (film_state True))", OF _ film_loaded _ _ _ _ _ _ _ _ film_is_paused])
      (simp_all add: film_state_def room_wish_def film_seen_def new_transport_observation_def
        stale_timestamp_def is_some_and_def opt_else_def)
  then show ?thesis using film_is_paused by simp
qed

section \<open>Recovery\<close>

text \<open>
  C19. A catch-up rate is owned: while a command for a rate other than the normal one is in flight, or
  the rate is changed and no reset has been asked for, the recovery episode that asked for it is
  still going on. So no changed rate outlives its episode without a reset.
\<close>

theorem catchup_rate_owned:
  assumes "list_all call_allowed calls" "playback_run config calls = Some (s, tr)"
    and "(\<exists>command\<in>set (pc_pending_commands s). is_catchup_rate (cm_kind command))
      \<or> (\<exists>rate_override. pc_rate_override s = Some rate_override \<and> \<not> ro_reset_requested rate_override)"
  shows "\<exists>rate_override episode. pc_rate_override s = Some rate_override \<and> \<not> ro_reset_requested rate_override
    \<and> pc_recovery s = Some episode \<and> ro_episode_id rate_override = re_id episode"
proof -
  have "rate_owned s" using playback_run_inv(1) [OF assms(1,2)] by (simp add: pc_inv_def)
  with assms(3) have "catchup_owned s" by (auto simp: rate_owned_def rate_view_def)
  then show ?thesis by (auto simp: rate_view_def recovery_view_def dest!: owned_requires)
qed

theorem catchup_rate_owned_witness:
  "\<exists>rate_override episode. pc_rate_override film_catching_up = Some rate_override \<and> \<not> ro_reset_requested rate_override
    \<and> pc_recovery film_catching_up = Some episode \<and> ro_episode_id rate_override = re_id episode"
  by (rule catchup_rate_owned [OF catchup_allowed(1) catchup_run]) (simp add: film_catching_up_def)

text \<open>
  C27. With every configured budget at most \<open>n\<close>, no recovery episode makes more than \<open>n\<close> hard seeks:
  from any moment of an episode to any later one, the metric of hard seeks grows by no more than
  the attempts the episode has recorded in between, and these only grow and never exceed \<open>n\<close>. The
  counter of episode ids must not have reached the end of \<open>u64\<close>.
\<close>

theorem hard_seeks_bounded:
  assumes "n \<le> u32_max" "list_all (budget_allowed n) (calls @ later)" "cf_maximum_hard_seeks_per_episode config \<le> n"
    and "playback_run config calls = Some (s, tr)" "try_run coordinator_do pc_actions later s = Some (t, tr')"
    and "pc_recovery s = Some before" "pc_recovery t = Some episode" "re_id before = re_id episode"
    and "pc_next_recovery_episode_id t < u64_max"
  shows "pm_hard_seek_count (pc_metrics t)
      \<le> pm_hard_seek_count (pc_metrics s) + (re_hard_seek_attempts episode - re_hard_seek_attempts before)
    \<and> re_hard_seek_attempts before \<le> re_hard_seek_attempts episode \<and> re_hard_seek_attempts episode \<le> n"
proof -
  have "pc_inv s" "seek_bounds n 0 0 0 s" using playback_run_seeks [OF assms(1) _ assms(3,4)] assms(2) by simp_all
  moreover from this(2) have "seek_bounds n (re_id before) (re_hard_seek_attempts before) (pm_hard_seek_count (pc_metrics s)) s"
    using assms(6) by (simp add: seek_bounds_def recovery_view_def)
  ultimately have "seek_bounds n (re_id before) (re_hard_seek_attempts before) (pm_hard_seek_count (pc_metrics s)) t"
    using hard_seeks.run_holds [OF _ _ assms(5)] assms(1,2) by simp
  with assms(7-9) show ?thesis by (auto simp: seek_bounds_def recovery_view_def)
qed

theorem hard_seeks_bounded_witness:
  "\<exists>t episode.
     observe (film_seen (Fin 20) (Fin 5) PlayerTransportPhase.Playing) film_resumed = Some t
     \<and> pc_recovery t = Some episode \<and> pm_hard_seek_count (pc_metrics t) = 1
     \<and> 1 \<le> re_hard_seek_attempts episode \<and> re_hard_seek_attempts episode \<le> 1"
proof -
  let ?call = "Observe (film_seen (Fin 20) (Fin 5) PlayerTransportPhase.Playing)"
  obtain t episode where t: "coordinator_do ?call film_resumed = Some t" "pc_recovery t = Some episode"
      "re_id episode = 1" "pm_hard_seek_count (pc_metrics t) = 1" "pc_next_recovery_episode_id t = 1"
    using film_seeks_hard by auto
  obtain earlier where "pc_recovery film_resumed = Some earlier" "re_id earlier = 1" "re_hard_seek_attempts earlier = 0"
      "pm_hard_seek_count (pc_metrics film_resumed) = 0"
    by (simp add: film_resumed_def film_stalled_def stalled_episode_def default_playback_metrics_def)
  moreover have "1 \<le> u32_max" "list_all (budget_allowed 1) (behind_calls @ [?call])"
      "cf_maximum_hard_seeks_per_episode film_config \<le> 1"
      "try_run coordinator_do pc_actions [?call] film_resumed = Some (t, pc_actions t)"
    using behind_allowed t(1) by (simp_all add: film_config_fields u32_max_def)
  moreover have "pc_next_recovery_episode_id t < u64_max" using t(5) by (simp add: u64_max_def)
  ultimately show ?thesis
    using hard_seeks_bounded [where s = film_resumed, OF _ _ _ behind_run] t by fastforce
qed

text \<open>
  C24. Over a whole run with every configured budget at most \<open>n\<close>, all hard seeks together are at most
  \<open>n\<close> for each recovery episode that was opened, as long as the counter of episode ids has not
  reached the end of \<open>u64\<close>.
\<close>

theorem total_hard_seeks_bounded:
  assumes "n \<le> u32_max" "list_all (budget_allowed n) calls" "cf_maximum_hard_seeks_per_episode config \<le> n"
    and "playback_run config calls = Some (s, tr)" "pc_next_recovery_episode_id s < u64_max"
  shows "pm_hard_seek_count (pc_metrics s) \<le> n * pc_next_recovery_episode_id s"
  using playback_run_seeks(2) [OF assms(1-4)] assms(5)
  by (auto simp: seek_bounds_def split: option.splits)

theorem total_hard_seeks_bounded_witness:
  "\<exists>t. coordinator_do (Observe (film_seen (Fin 20) (Fin 5) PlayerTransportPhase.Playing)) film_resumed = Some t
     \<and> pm_hard_seek_count (pc_metrics t) = 1 \<and> pm_hard_seek_count (pc_metrics t) \<le> 1 * pc_next_recovery_episode_id t"
proof -
  let ?call = "Observe (film_seen (Fin 20) (Fin 5) PlayerTransportPhase.Playing)"
  obtain t where t: "coordinator_do ?call film_resumed = Some t" "pm_hard_seek_count (pc_metrics t) = 1"
      "pc_next_recovery_episode_id t = 1"
    using film_seeks_hard by auto
  have "playback_run film_config (behind_calls @ [?call]) = Some (t, [] @ pc_actions t)"
    by (rule playback_run_append [OF behind_run]) (use t(1) in simp)
  moreover have "1 \<le> u32_max" "list_all (budget_allowed 1) (behind_calls @ [?call])"
      "cf_maximum_hard_seeks_per_episode film_config \<le> 1" "pc_next_recovery_episode_id t < u64_max"
    using behind_allowed t(3) by (simp_all add: film_config_fields u32_max_def u64_max_def)
  ultimately have "pm_hard_seek_count (pc_metrics t) \<le> 1 * pc_next_recovery_episode_id t"
    using total_hard_seeks_bounded by blast
  with t show ?thesis by blast
qed

text \<open>
  C29. Once the retry budget is exhausted, be it flagged by the tick or more commands have failed than
  it allows, an observation makes the coordinator hand out nothing but a pause and a return to the
  normal rate.
\<close>

theorem exhausted_budget_only_safety_commands:
  assumes "list_all call_allowed calls" "playback_run config calls = Some (s, tr)"
    and "call_allowed call" "coordinator_do call s = Some t"
    and "PlaybackCoordinatorAction.Execute i command \<in> set (pc_actions t)"
    and "observing_call call"
    and "pc_command_budget_degraded s \<or> cf_command_retry_budget (pc_config s) < pc_failed_command_attempts s"
  shows "command = CoordinatorPlayerCommand.SetPaused True
     \<or> (\<exists>rate. command = CoordinatorPlayerCommand.SetPlaybackRate rate
          \<and> f64_le (distance rate NORMAL_PLAYBACK_RATE) rate_tolerance)"
  using observing_actions [OF assms(1-5)] assms(6,7)
  by (simp add: handed_ok_def exhausted_def safety_command_def begin_call_fields)

theorem exhausted_budget_only_safety_commands_witness:
  "\<not> pc_command_budget_degraded film_exhausted
   \<and> (\<exists>t command.
     coordinator_do (Observe (film_seen (Fin 30) (Fin 20) PlayerTransportPhase.Playing)) film_exhausted = Some t
     \<and> PlaybackCoordinatorAction.Execute 2 command \<in> set (pc_actions t)
     \<and> (command = CoordinatorPlayerCommand.SetPaused True
        \<or> (\<exists>rate. command = CoordinatorPlayerCommand.SetPlaybackRate rate
             \<and> f64_le (distance rate NORMAL_PLAYBACK_RATE) rate_tolerance)))"
proof -
  let ?call = "Observe (film_seen (Fin 30) (Fin 20) PlayerTransportPhase.Playing)"
  obtain t where t: "coordinator_do ?call film_exhausted = Some t"
      "PlaybackCoordinatorAction.Execute 2 (CoordinatorPlayerCommand.SetPaused True) \<in> set (pc_actions t)"
    using film_pauses_again by auto
  have flag: "\<not> pc_command_budget_degraded film_exhausted"
    by (simp add: film_exhausted_def film_pausing_def film_state_def)
  have "call_allowed ?call" "observing_call ?call"
      "pc_command_budget_degraded film_exhausted
        \<or> cf_command_retry_budget (pc_config film_exhausted) < pc_failed_command_attempts film_exhausted"
    by (simp_all add: film_exhausted_def film_pausing_def film_state_def film_config_fields)
  from exhausted_budget_only_safety_commands [OF exhausted_allowed exhausted_run this(1) t this(2,3)] t flag show ?thesis
    by blast
qed

section \<open>Seeks\<close>

text \<open>
  C32. An update of the room that is not an explicit seek never changes what an active seek preparation
  aims at: only the latest revision, pause and position of the room are taken over, and the
  preparation's seek stays in flight even if it belongs to an older revision.
\<close>

theorem ordinary_update_keeps_frozen_target:
  assumes "pc_seek_preparation s = Some episode" "\<not> explicit_seek_kind kind"
    and "update_desired_room_state_with_kind desired kind s = Some t"
  shows "(\<exists>revision paused position. pc_seek_preparation t = Some (episode\<lparr>sp_latest_room_revision := revision,
      sp_latest_room_paused := paused, sp_latest_room_position_seconds := position\<rparr>))
    \<and> (\<forall>command\<in>set (pc_pending_commands s). is_seek (cm_kind command)
        \<and> sp_primary_seek_command_id episode = Some (cm_id command) \<longrightarrow> command \<in> set (pc_pending_commands t))"
  using assms(2,3)
proof (cases rule: update_not_explicit)
  case 1
  then show ?thesis
    using assms(1) by (auto simp: begin_call_def intro!: exI [of _ "sp_latest_room_revision episode"]
        exI [of _ "sp_latest_room_paused episode"] exI [of _ "sp_latest_room_position_seconds episode"])
next
  case (2 d v changed)
  define u where "u = modify_seek_preparation (\<lambda>e. e\<lparr>sp_latest_room_revision := dp_state_revision d,
    sp_latest_room_paused := dp_paused d,
    sp_latest_room_position_seconds := position_at d (dp_anchor_observed_at_seconds d)\<rparr>) v"
  have u: "pc_seek_preparation u = Some (episode\<lparr>sp_latest_room_revision := dp_state_revision d,
      sp_latest_room_paused := dp_paused d,
      sp_latest_room_position_seconds := position_at d (dp_anchor_observed_at_seconds d)\<rparr>)"
      "pc_pending_commands u = pc_pending_commands s"
    using 2(1,2) assms(1) by (simp_all add: u_def modify_seek_preparation_def)
  have "keeps_preparation (\<lambda>c. sp_primary_seek_command_id episode = Some (cm_id c)) u t"
    unfolding 2(3) u_def [symmetric] by (rule keeps_preparation_adopted) (simp add: u)
  with u show ?thesis by (auto simp: keeps_preparation_def)
qed

theorem ordinary_update_keeps_frozen_target_witness:
  "\<exists>t revision paused position.
     update_desired_room_state_with_kind (room_wish 2 True (Fin 40)) DesiredRoomPlaybackUpdateKind.Ordinary film_preparing = Some t
     \<and> pc_seek_preparation t = Some (preparing_episode\<lparr>sp_latest_room_revision := revision,
          sp_latest_room_paused := paused, sp_latest_room_position_seconds := position\<rparr>)
     \<and> preparing_seek \<in> set (pc_pending_commands t)"
proof -
  have state: "pc_seek_preparation film_preparing = Some preparing_episode" "pc_pending_commands film_preparing = [preparing_seek]"
    by (simp_all add: film_preparing_def)
  obtain t where t: "update_desired_room_state_with_kind (room_wish 2 True (Fin 40))
      DesiredRoomPlaybackUpdateKind.Ordinary film_preparing = Some t"
    using film_keeps_preparing by blast
  have "\<not> explicit_seek_kind DesiredRoomPlaybackUpdateKind.Ordinary" by (simp add: explicit_seek_kind_def)
  from ordinary_update_keeps_frozen_target [OF state(1) this t] t show ?thesis
    by (auto simp: state(2) preparing_seek_def preparing_episode_def)
qed

text \<open>
  C33. The buffered ranges the coordinator keeps are in normal form: each ends before the next one
  starts, none is empty, and they cover exactly the positions that the valid ranges reported by the
  player cover, from zero on.
\<close>

theorem seekable_ranges_normalized:
  "separate (normalize_seekable_ranges ranges)
   \<and> list_all ordered_range (normalize_seekable_ranges ranges)
   \<and> (\<forall>x. covers (normalize_seekable_ranges ranges) x
        \<longleftrightarrow> f64_le (Fin 0) x \<and> covers (filter valid_range ranges) x)"
  by (rule normalize_normal_form)

section \<open>Configuration\<close>

text \<open>
  C39. Every configuration is normalized to a valid one, and normalizing it again changes nothing.
\<close>

theorem normalized_config_valid_and_idempotent:
  "\<exists>d. normalized config = Some d \<and> coordinator_config_ok d \<and> normalized d = Some d"
  using normalized_ok [of config] normalized_same by blast

text \<open>
  A valid configuration may still have a threshold for hard seeks that is not above the negligible
  lag: a rejected threshold is replaced by its default, which is rejected by the same check.
\<close>

lemma rejected_threshold_below_negligible_lag:
  "\<exists>d. normalized (film_config\<lparr>cf_negligible_lag_seconds := Fin 10, cf_hard_seek_threshold_seconds := Fin 9\<rparr>) = Some d
     \<and> cf_negligible_lag_seconds d = Fin 10 \<and> cf_hard_seek_threshold_seconds d = Fin 8"
  by (simp add: normalized_def replace_rejected_def finite_or_def negative_def not_positive_def film_config_fields
      f64_within_def f64_min_def f64_clamp_def Let_def)

end
