(* ===== verification/Lifecycle_Types.thy ===== *)
theory Lifecycle_Types
  imports Player_Api
begin

text \<open>
  The state of the player lifecycle reducer (\<open>sorotte-player-mpv/src/lifecycle.rs\<close>): load
  attempts, tracked commands, seek ownership, the delivery queues with their tombstones, and the
  queries the adapter asks of it. The reducer's effect vector is a record extension of the
  state, so that an operation taking \<open>&mut self\<close> works on both.
\<close>

section \<open>Constants\<close>

definition MAX_PENDING_TELEMETRY_EVENTS :: nat where "MAX_PENDING_TELEMETRY_EVENTS = 64"
definition INITIAL_RECONCILIATION_BACKOFF_TICKS :: u64 where "INITIAL_RECONCILIATION_BACKOFF_TICKS = 100"
definition MAX_RECONCILIATION_BACKOFF_TICKS :: u64 where "MAX_RECONCILIATION_BACKOFF_TICKS = 2000"
definition ACCEPTED_LOAD_COMPLETION_TICKS :: u64 where "ACCEPTED_LOAD_COMPLETION_TICKS = 60 * 1000"
definition QUIESCENT_LOAD_ATTEMPT_RETENTION_TICKS :: u64 where
  "QUIESCENT_LOAD_ATTEMPT_RETENTION_TICKS = 10 * 60 * 1000"
definition SEEK_TOMBSTONE_RETENTION_TICKS :: u64 where "SEEK_TOMBSTONE_RETENTION_TICKS = 60000"
definition MAX_TERMINAL_ATTEMPT_TOMBSTONES :: nat where "MAX_TERMINAL_ATTEMPT_TOMBSTONES = 256"
definition MAX_RETIRED_COMMAND_TOMBSTONES :: nat where "MAX_RETIRED_COMMAND_TOMBSTONES = 512"
definition MAX_RETIRED_SEEK_TOMBSTONES :: nat where "MAX_RETIRED_SEEK_TOMBSTONES = 256"
definition TERMINAL_TOMBSTONE_SEQUENCE_WINDOW :: u64 where "TERMINAL_TOMBSTONE_SEQUENCE_WINDOW = 4096"
definition SEEK_MATCH_TOLERANCE_SECONDS :: f64 where "SEEK_MATCH_TOLERANCE_SECONDS = Fin (1 / 2)"

section \<open>Commands\<close>

datatype CommandSemanticState =
  Submitted | Accepted | Completed | Superseded | Failed PlayerCommandFailureKind
  | CompletionNotObserved | TransportDisconnected

fun command_is_terminal :: "CommandSemanticState \<Rightarrow> bool" where
  "command_is_terminal CommandSemanticState.Submitted = False"
| "command_is_terminal CommandSemanticState.Accepted = False"
| "command_is_terminal _ = True"

fun public_result :: "CommandSemanticState \<Rightarrow> PlayerCommandSemanticResult option" where
  "public_result CommandSemanticState.Submitted = None"
| "public_result CommandSemanticState.Accepted = None"
| "public_result CommandSemanticState.Completed = Some PlayerCommandSemanticResult.Completed"
| "public_result CommandSemanticState.Superseded = Some PlayerCommandSemanticResult.Superseded"
| "public_result (CommandSemanticState.Failed kind) = Some (PlayerCommandSemanticResult.Failed kind)"
| "public_result CommandSemanticState.CompletionNotObserved =
     Some PlayerCommandSemanticResult.CompletionNotObserved"
| "public_result CommandSemanticState.TransportDisconnected =
     Some PlayerCommandSemanticResult.TransportDisconnected"

datatype LifecycleCommandKind = Load LoadAttemptId | Seek | Pause | Play

record LifecycleCommand =
  lc_id :: PlayerCommandId
  lc_epoch :: PlayerAttachmentEpoch
  lc_media_generation :: "PlayerMediaGeneration option"
  lc_kind :: LifecycleCommandKind
  lc_state :: CommandSemanticState
  lc_outcome_emitted :: bool
  lc_terminal_sequence :: "u64 option"

section \<open>Load attempts\<close>

datatype LoadAttemptState =
  Submitting | AcceptedUnbound | Bound | Starting | Active
  | SupersededMayStillEmit LoadAttemptId
  | MayStillEmit
  | MayStillEmitQuiescent u64
  | Terminal PlayerPhysicalLoadOutcome

fun attempt_is_terminal :: "LoadAttemptState \<Rightarrow> bool" where
  "attempt_is_terminal (Terminal _) = True"
| "attempt_is_terminal _ = False"

definition may_receive_lifecycle :: "LoadAttemptState \<Rightarrow> bool" where
  "may_receive_lifecycle s \<longleftrightarrow> \<not> attempt_is_terminal s"

fun is_quiescent :: "LoadAttemptState \<Rightarrow> bool" where
  "is_quiescent (MayStillEmitQuiescent _) = True"
| "is_quiescent _ = False"

fun is_superseded_state :: "LoadAttemptState \<Rightarrow> bool" where
  "is_superseded_state (SupersededMayStillEmit _) = True"
| "is_superseded_state _ = False"

record LoadAttempt =
  la_id :: LoadAttemptId
  la_epoch :: PlayerAttachmentEpoch
  la_media_generation :: PlayerMediaGeneration
  la_command_id :: "PlayerCommandId option"
  la_requested_target :: string
  la_playlist_entry_id :: "i64 option"
  la_baseline_playlist_entry_ids :: "i64 set"
  la_replaced_attempt :: "LoadAttemptId option"
  la_superseded_by :: "LoadAttemptId option"
  la_logical_ownership_revoked :: bool
  la_state :: LoadAttemptState
  la_semantic_load_result :: "PlayerLoadAttemptResult option"
  la_start_file_observed :: bool
  la_file_loaded_observed :: bool
  la_reconcile_until_tick :: "u64 option"
  la_file_loaded_deadline_tick :: "u64 option"
  la_semantic_outcome_sequence :: "u64 option"
  la_physical_terminal_sequence :: "u64 option"

record AuthoritativePlaylistEntry =
  pe_id :: i64
  pe_original_filename :: "string option"
  pe_current :: bool

datatype LoadLifecycleReconciliation =
  Resolved | AuthoritativeIdle | AwaitingAcceptedAttempt | IncompleteSnapshot | TransportFailure

section \<open>Seek ownership\<close>

datatype SystemSeekOwnershipState = Submitted | Accepted | MayStillArrive | Observed | Invalidated

record SystemSeekOwnership =
  sk_epoch :: PlayerAttachmentEpoch
  sk_media_generation :: PlayerMediaGeneration
  sk_raw_player_target_seconds :: f64
  sk_effective_room_target_seconds :: f64
  sk_command_id :: PlayerCommandId
  sk_dispatch_sequence_boundary :: u64
  sk_state :: SystemSeekOwnershipState

record ProvisionalEofCandidate =
  pc_attempt_id :: LoadAttemptId
  pc_last_position_seconds :: "f64 option"

record DeferredStartFile =
  ds_epoch :: PlayerAttachmentEpoch
  ds_playlist_entry_id :: i64

section \<open>Tombstones and retired deliveries\<close>

record TerminalAttemptTombstone =
  tt_epoch :: PlayerAttachmentEpoch
  tt_attempt_id :: LoadAttemptId
  tt_media_generation :: PlayerMediaGeneration
  tt_command_id :: "PlayerCommandId option"
  tt_playlist_entry_id :: "i64 option"
  tt_terminal_sequence :: u64

record RetiredCommandTombstone =
  ct_epoch :: PlayerAttachmentEpoch
  ct_command_id :: PlayerCommandId
  ct_terminal_sequence :: u64

record RetiredSeekTombstone =
  rs_ownership :: SystemSeekOwnership
  rs_retire_after_tick :: u64

record EpochDeliveryBuffer =
  db_epoch :: PlayerAttachmentEpoch
  db_pending_events :: "SequencedPlayerEvent list"
  db_retained_semantic_outcomes :: "SequencedPlayerSemanticOutcome list"
  db_recovery_snapshot :: "PlayerAuthoritativeSnapshot option"
  db_gap_detected :: bool

section \<open>The reducer state\<close>

record PlayerLifecycleState =
  attachment_epoch :: PlayerAttachmentEpoch
  load_attempts :: "(LoadAttemptId, LoadAttempt) btree_map"
  playlist_entry_attempts :: "(i64, LoadAttemptId) btree_map"
  active_load_attempt :: "LoadAttemptId option"
  commands :: "(PlayerCommandId, LifecycleCommand) btree_map"
  seek_ownership :: "(PlayerCommandId, SystemSeekOwnership) btree_map"
  reconciliation_required :: bool
  last_reconciliation :: "LoadLifecycleReconciliation option"
  next_reconciliation_tick :: "u64 option"
  reconciliation_backoff_ticks :: u64
  now_tick :: u64
  logical_terminal :: "(PlayerMediaGeneration \<times> PlayerPhysicalLoadOutcome) option"
  next_load_attempt_id :: u64
  next_event_sequence :: u64
  next_acknowledgement_token :: u64
  deferred_start_files :: "DeferredStartFile list"
  provisional_eof :: "ProvisionalEofCandidate option"
  retained_completion_attempt :: "LoadAttemptId option"
  pending_events :: "SequencedPlayerEvent list"
  retained_semantic_outcomes :: "SequencedPlayerSemanticOutcome list"
  recovery_snapshot :: "PlayerAuthoritativeSnapshot option"
  gap_detected :: bool
  pending_native_seek_generation :: "PlayerMediaGeneration option"
  retired_epoch_deliveries :: "EpochDeliveryBuffer list"
  terminal_attempt_tombstones :: "TerminalAttemptTombstone list"
  retired_command_tombstones :: "RetiredCommandTombstone list"
  retired_seek_tombstones :: "RetiredSeekTombstone list"
  uncertain_seek_generations :: "(PlayerMediaGeneration, u64) btree_map"
  cached_batch :: "PlayerEventBatch option"

definition new_state :: "PlayerAttachmentEpoch \<Rightarrow> PlayerLifecycleState" where
  "new_state epoch =
     \<lparr>attachment_epoch = epoch, load_attempts = [], playlist_entry_attempts = [],
      active_load_attempt = None, commands = [], seek_ownership = [],
      reconciliation_required = False, last_reconciliation = None,
      next_reconciliation_tick = None,
      reconciliation_backoff_ticks = INITIAL_RECONCILIATION_BACKOFF_TICKS, now_tick = 0,
      logical_terminal = None, next_load_attempt_id = 1, next_event_sequence = 1,
      next_acknowledgement_token = 1, deferred_start_files = [], provisional_eof = None,
      retained_completion_attempt = None, pending_events = [], retained_semantic_outcomes = [],
      recovery_snapshot = None, gap_detected = False, pending_native_seek_generation = None,
      retired_epoch_deliveries = [], terminal_attempt_tombstones = [],
      retired_command_tombstones = [], retired_seek_tombstones = [],
      uncertain_seek_generations = [], cached_batch = None\<rparr>"

definition default_state :: PlayerLifecycleState where
  "default_state = new_state 1"

section \<open>Effects\<close>

datatype PlayerLifecycleEffect =
    LoadAttemptAllocated LoadAttemptId "PlayerCommandId option"
  | RequestLifecycleReconciliation
  | RequestAuthoritativeSnapshot
  | EmitOrderedEvent SequencedPlayerEvent
  | EmitSemanticOutcome SequencedPlayerSemanticOutcome
  | PhysicalFileLoaded LoadAttemptId bool
  | LogicalPlaybackTerminal PlayerMediaGeneration LoadAttemptId PlayerPhysicalLoadOutcome
  | ConsumeSystemSeek PlayerCommandId f64
  | NativeSeekCandidate PlayerMediaGeneration f64

text \<open>The reducer context: the state together with the effects pushed so far.\<close>

record reducer_context = PlayerLifecycleState +
  effects :: "PlayerLifecycleEffect list"

definition push_effect :: "PlayerLifecycleEffect \<Rightarrow> reducer_context \<Rightarrow> reducer_context" where
  "push_effect e c = c\<lparr>effects := effects c @ [e]\<rparr>"

type_synonym 'a lifecycle = "'a PlayerLifecycleState_scheme"

section \<open>Queries\<close>

definition attempt_of :: "'a lifecycle \<Rightarrow> LoadAttemptId \<Rightarrow> LoadAttempt option" where
  "attempt_of s a = bt_get (load_attempts s) a"

definition command_of :: "'a lifecycle \<Rightarrow> PlayerCommandId \<Rightarrow> LifecycleCommand option" where
  "command_of s k = bt_get (commands s) k"

definition attempt_for_command :: "'a lifecycle \<Rightarrow> PlayerCommandId \<Rightarrow> LoadAttemptId option" where
  "attempt_for_command s command_id =
     (case command_of s command_id of
        Some command \<Rightarrow> (case lc_kind command of Load attempt_id \<Rightarrow> Some attempt_id | _ \<Rightarrow> None)
      | None \<Rightarrow> None)"

definition active_attempt :: "'a lifecycle \<Rightarrow> LoadAttempt option" where
  "active_attempt s = Option.bind (active_load_attempt s) (attempt_of s)"

definition active_media_generation :: "'a lifecycle \<Rightarrow> PlayerMediaGeneration option" where
  "active_media_generation s = map_option la_media_generation (active_attempt s)"

definition attempt_for_playlist_entry :: "'a lifecycle \<Rightarrow> i64 \<Rightarrow> LoadAttemptId option" where
  "attempt_for_playlist_entry s entry_id = bt_get (playlist_entry_attempts s) entry_id"

definition strict_start_owner :: "'a lifecycle \<Rightarrow> i64 \<Rightarrow> LoadAttemptId option" where
  "strict_start_owner s entry_id = bt_get (playlist_entry_attempts s) entry_id"

definition is_known_terminal_playlist_entry :: "'a lifecycle \<Rightarrow> i64 \<Rightarrow> bool" where
  "is_known_terminal_playlist_entry s entry_id =
     list_ex (\<lambda>t. tt_playlist_entry_id t = Some entry_id) (terminal_attempt_tombstones s)"

definition is_retired_command :: "'a lifecycle \<Rightarrow> PlayerCommandId \<Rightarrow> bool" where
  "is_retired_command s command_id =
     list_ex (\<lambda>t. ct_command_id t = command_id) (retired_command_tombstones s)"

definition pending_semantic_outcome_count :: "'a lifecycle \<Rightarrow> nat" where
  "pending_semantic_outcome_count s =
     length (retained_semantic_outcomes s)
     + sum_list (map (\<lambda>d. length (db_retained_semantic_outcomes d)) (retired_epoch_deliveries s))"

definition pending_event_count :: "'a lifecycle \<Rightarrow> nat" where
  "pending_event_count s =
     length (pending_events s)
     + sum_list (map (\<lambda>d. length (db_pending_events d)) (retired_epoch_deliveries s))"

definition last_event_sequence :: "'a lifecycle \<Rightarrow> u64" where
  "last_event_sequence s = next_event_sequence s - 1"

definition provisional_eof_attempt :: "'a lifecycle \<Rightarrow> LoadAttemptId option" where
  "provisional_eof_attempt s = map_option pc_attempt_id (provisional_eof s)"

definition requires_authoritative_snapshot :: "'a lifecycle \<Rightarrow> bool" where
  "requires_authoritative_snapshot s \<longleftrightarrow> gap_detected s \<and> recovery_snapshot s = None"

lemma command_is_terminal_iff_public_result:
  "command_is_terminal c \<longleftrightarrow> public_result c \<noteq> None"
  by (cases c) auto

end
