(* ===== verification/Lifecycle_Checks.thy ===== *)
theory Lifecycle_Checks
  imports Lifecycle_Types
begin

text \<open>
  The reducer's own invariant check, \<open>assert_invariants\<close> (\<open>lifecycle.rs\<close>), which debug builds run
  after every input. A check is a condition that must not hold, with the message it returns; the
  result is the first violated check in program order.
\<close>

type_synonym check = "bool \<times> string"

fun first_violation :: "check list \<Rightarrow> string + unit" where
  "first_violation [] = Inr ()"
| "first_violation ((violated, message) # checks) =
     (if violated then Inl message else first_violation checks)"

fun decimal_nat :: "nat \<Rightarrow> string" where
  "decimal_nat n =
     (if n < 10 then [char_of (48 + n)] else decimal_nat (n div 10) @ [char_of (48 + n mod 10)])"

declare decimal_nat.simps [simp del]

definition decimal :: "i64 \<Rightarrow> string" where
  "decimal i = (if i < 0 then ''-'' @ decimal_nat (nat (- i)) else decimal_nat (nat i))"

section \<open>The active attempt\<close>

definition active_checks :: "'a lifecycle \<Rightarrow> check list" where
  "active_checks s =
     (case active_load_attempt s of
        None \<Rightarrow> []
      | Some active_id \<Rightarrow>
          (case attempt_of s active_id of
             None \<Rightarrow> [(True, ''active_load_attempt is missing'')]
           | Some active \<Rightarrow>
               [(attempt_is_terminal (la_state active), ''active_load_attempt is terminal''),
                (la_epoch active \<noteq> attachment_epoch s,
                 ''active_load_attempt belongs to another attachment''),
                (is_quiescent (la_state active),
                 ''quiescent load attempt is still projected as active'')]))"

definition active_state_checks :: "'a lifecycle \<Rightarrow> check list" where
  "active_state_checks s =
     (let active_attempts = map la_id (filter (\<lambda>attempt. la_state attempt = Active) (bt_values (load_attempts s)))
      in [(1 < length active_attempts, ''more than one physical attempt is active''),
          ((case active_attempts of [active_id] \<Rightarrow> active_load_attempt s \<noteq> Some active_id | _ \<Rightarrow> False),
           ''active physical state disagrees with active_load_attempt''),
          (logical_terminal s \<noteq> None \<and> active_load_attempt s \<noteq> None,
           ''logical terminal playback still has an active physical attempt'')])"

section \<open>Playlist entries and attempts\<close>

fun mapping_checks :: "LoadAttemptId list \<Rightarrow> 'a lifecycle \<Rightarrow> (i64 \<times> LoadAttemptId) list \<Rightarrow> check list" where
  "mapping_checks mapped_attempts s [] = []"
| "mapping_checks mapped_attempts s ((entry_id, attempt_id) # entries) =
     (case attempt_of s attempt_id of
        None \<Rightarrow> [(True, ''playlist entry '' @ decimal entry_id @ '' maps to a missing attempt'')]
      | Some attempt \<Rightarrow>
          [(la_epoch attempt \<noteq> attachment_epoch s, ''playlist mapping crosses attachment epoch''),
           (la_playlist_entry_id attempt \<noteq> Some entry_id, ''playlist mapping and attempt disagree''),
           (attempt_is_terminal (la_state attempt), ''playlist entry maps to a terminal attempt''),
           (attempt_id \<in> set mapped_attempts, ''one attempt is bound to multiple playlist entries'')])
     @ mapping_checks (attempt_id # mapped_attempts) s entries"

definition attempt_record_checks :: "'a lifecycle \<Rightarrow> LoadAttempt \<Rightarrow> check list" where
  "attempt_record_checks s attempt =
     [(la_epoch attempt \<noteq> attachment_epoch s, ''attempt crosses attachment epoch''),
      (\<not> attempt_is_terminal (la_state attempt)
       \<and> (case la_playlist_entry_id attempt of
            Some entry_id \<Rightarrow> bt_get (playlist_entry_attempts s) entry_id \<noteq> Some (la_id attempt)
          | None \<Rightarrow> False),
       ''live attempt playlist ID is not reverse-mapped''),
      ((la_semantic_load_result attempt \<noteq> None) \<noteq> (la_semantic_outcome_sequence attempt \<noteq> None),
       ''load outcome sequence invariant is violated''),
      (attempt_is_terminal (la_state attempt) \<noteq> (la_physical_terminal_sequence attempt \<noteq> None),
       ''physical terminal sequence invariant is violated''),
      (la_state attempt = AcceptedUnbound
       \<and> (la_playlist_entry_id attempt \<noteq> None \<or> la_reconcile_until_tick attempt = None
          \<or> la_file_loaded_deadline_tick attempt = None),
       ''accepted unbound attempt has no load deadline''),
      (la_reconcile_until_tick attempt \<noteq> None
       \<and> (la_playlist_entry_id attempt \<noteq> None
          \<or> \<not> (la_state attempt \<in> {AcceptedUnbound, MayStillEmit} \<or> is_superseded_state (la_state attempt))),
       ''load attempt reconciliation deadline is inconsistent''),
      (la_file_loaded_deadline_tick attempt \<noteq> None
       \<and> (la_semantic_load_result attempt \<noteq> None \<or> la_logical_ownership_revoked attempt
          \<or> la_file_loaded_observed attempt \<or> attempt_is_terminal (la_state attempt)
          \<or> is_quiescent (la_state attempt)),
       ''load attempt completion deadline is inconsistent''),
      (la_state attempt = Active \<and> \<not> la_file_loaded_observed attempt,
       ''active load attempt has no file-loaded evidence'')]"

definition successor_checks :: "'a lifecycle \<Rightarrow> LoadAttempt \<Rightarrow> check list" where
  "successor_checks s attempt =
     (case la_superseded_by attempt of
        None \<Rightarrow> []
      | Some successor_id \<Rightarrow>
          (case attempt_of s successor_id of
             None \<Rightarrow> [(True, ''attempt successor is missing'')]
           | Some successor \<Rightarrow>
               [(la_id successor = la_id attempt, ''attempt supersedes itself''),
                (la_replaced_attempt successor \<noteq> Some (la_id attempt),
                 ''attempt successor does not point back to predecessor''),
                (\<not> la_logical_ownership_revoked attempt,
                 ''attempt successor did not revoke logical ownership'')]))
     @ (case la_state attempt of
          SupersededMayStillEmit successor \<Rightarrow>
            [(la_superseded_by attempt \<noteq> Some successor,
              ''superseded attempt state and successor link disagree''),
             (\<not> la_logical_ownership_revoked attempt, ''superseded attempt retained logical ownership'')]
        | _ \<Rightarrow> [])"

definition predecessor_checks :: "'a lifecycle \<Rightarrow> LoadAttempt \<Rightarrow> check list" where
  "predecessor_checks s attempt =
     (case la_replaced_attempt attempt of
        None \<Rightarrow> []
      | Some predecessor_id \<Rightarrow>
          (case attempt_of s predecessor_id of
             None \<Rightarrow> [(True, ''attempt predecessor is missing'')]
           | Some predecessor \<Rightarrow>
               [(la_id predecessor = la_id attempt, ''attempt replaces itself''),
                (la_superseded_by predecessor \<noteq> None
                 \<and> la_superseded_by predecessor \<noteq> Some (la_id attempt),
                 ''attempt predecessor points to another successor'')]))"

definition attempt_command_checks :: "'a lifecycle \<Rightarrow> LoadAttempt \<Rightarrow> check list" where
  "attempt_command_checks s attempt =
     (case la_command_id attempt of
        None \<Rightarrow> []
      | Some command_id \<Rightarrow>
          (case command_of s command_id of
             None \<Rightarrow> [(True, ''load attempt command is missing'')]
           | Some command \<Rightarrow>
               [(lc_kind command \<noteq> Load (la_id attempt), ''load attempt command points to another effect''),
                (lc_media_generation command \<noteq> Some (la_media_generation attempt),
                 ''load attempt command has another media generation'')]))"

definition attempt_checks :: "'a lifecycle \<Rightarrow> LoadAttempt \<Rightarrow> check list" where
  "attempt_checks s attempt =
     attempt_record_checks s attempt @ successor_checks s attempt @ predecessor_checks s attempt
     @ attempt_command_checks s attempt"

section \<open>Commands and seeks\<close>

definition command_record_checks :: "'a lifecycle \<Rightarrow> PlayerCommandId \<Rightarrow> LifecycleCommand \<Rightarrow> check list" where
  "command_record_checks s command_id command =
     [(command_id \<noteq> lc_id command, ''command map key disagrees with command identity''),
      (lc_epoch command \<noteq> attachment_epoch s, ''command crosses attachment epoch''),
      (lc_outcome_emitted command \<noteq> command_is_terminal (lc_state command),
       ''command terminal/outcome invariant is violated''),
      (lc_outcome_emitted command \<noteq> (lc_terminal_sequence command \<noteq> None),
       ''command outcome sequence invariant is violated'')]"

definition load_command_checks :: "'a lifecycle \<Rightarrow> LifecycleCommand \<Rightarrow> check list" where
  "load_command_checks s command =
     (case lc_kind command of
        Load attempt_id \<Rightarrow>
          (case attempt_of s attempt_id of
             None \<Rightarrow> [(True, ''load command attempt is missing'')]
           | Some attempt \<Rightarrow>
               [(la_command_id attempt \<noteq> Some (lc_id command),
                 ''load command attempt does not point back to command''),
                (lc_media_generation command \<noteq> Some (la_media_generation attempt),
                 ''load command and attempt generations disagree'')])
      | _ \<Rightarrow> [])"

fun compatible_seek :: "SystemSeekOwnershipState \<Rightarrow> CommandSemanticState \<Rightarrow> bool" where
  "compatible_seek Submitted state \<longleftrightarrow> state = CommandSemanticState.Submitted"
| "compatible_seek Accepted state \<longleftrightarrow> state = CommandSemanticState.Accepted"
| "compatible_seek MayStillArrive state \<longleftrightarrow>
     state \<in> {CommandSemanticState.Superseded, CommandSemanticState.CompletionNotObserved}"
| "compatible_seek Observed state \<longleftrightarrow>
     state \<in> {CommandSemanticState.Completed, CommandSemanticState.Superseded,
       CommandSemanticState.CompletionNotObserved}"
| "compatible_seek Invalidated state \<longleftrightarrow>
     (case state of
        CommandSemanticState.Failed _ \<Rightarrow> True
      | _ \<Rightarrow> state \<in> {CommandSemanticState.Superseded, CommandSemanticState.CompletionNotObserved,
          CommandSemanticState.TransportDisconnected})"

definition seek_checks :: "'a lifecycle \<Rightarrow> PlayerCommandId \<Rightarrow> SystemSeekOwnership \<Rightarrow> check list" where
  "seek_checks s command_id owner =
     [(command_id \<noteq> sk_command_id owner, ''seek ownership key disagrees with command identity''),
      (sk_epoch owner \<noteq> attachment_epoch s, ''seek ownership crosses attachment epoch''),
      (\<not> f64_is_finite (sk_raw_player_target_seconds owner)
       \<or> \<not> f64_is_finite (sk_effective_room_target_seconds owner),
       ''seek ownership contains a non-finite target'')]
     @ (case command_of s command_id of
          None \<Rightarrow> [(True, ''seek ownership command is missing'')]
        | Some command \<Rightarrow>
            [(lc_kind command \<noteq> Seek, ''seek ownership belongs to a non-seek command''),
             (lc_media_generation command \<noteq> Some (sk_media_generation owner),
              ''seek ownership generation disagrees with command''),
             (\<not> compatible_seek (sk_state owner) (lc_state command),
              ''seek ownership state disagrees with command state'')])"

section \<open>Tombstones\<close>

definition tombstone_checks :: "'a lifecycle \<Rightarrow> check list" where
  "tombstone_checks s =
     [(MAX_TERMINAL_ATTEMPT_TOMBSTONES < length (terminal_attempt_tombstones s)
       \<or> MAX_RETIRED_COMMAND_TOMBSTONES < length (retired_command_tombstones s)
       \<or> MAX_RETIRED_SEEK_TOMBSTONES < length (retired_seek_tombstones s),
       ''lifecycle tombstone bound is violated''),
      (list_ex (\<lambda>t. tt_epoch t \<noteq> attachment_epoch s \<or> tt_attempt_id t = 0 \<or> tt_media_generation t = 0
                 \<or> tt_command_id t = Some 0 \<or> tt_terminal_sequence t = 0) (terminal_attempt_tombstones s)
       \<or> list_ex (\<lambda>t. ct_epoch t \<noteq> attachment_epoch s \<or> ct_terminal_sequence t = 0)
           (retired_command_tombstones s)
       \<or> list_ex (\<lambda>t. sk_epoch (rs_ownership t) \<noteq> attachment_epoch s \<or> rs_retire_after_tick t \<le> now_tick s)
           (retired_seek_tombstones s),
       ''lifecycle tombstone identity is invalid'')]"

section \<open>Delivery order\<close>

text \<open>\<open>ordered_items\<close> is the list of orders seen so far, \<open>previous\<close> the sequence just before.\<close>

definition not_after :: "u64 option \<Rightarrow> u64 \<Rightarrow> bool" where
  "not_after previous sequence = (case previous of Some p \<Rightarrow> sequence \<le> p | None \<Rightarrow> False)"

fun payload_epoch :: "PlayerSemanticOutcome \<Rightarrow> PlayerAttachmentEpoch" where
  "payload_epoch (Command command) = co_epoch command"
| "payload_epoch (LoadAttempt attempt) = lo_epoch attempt"

fun retired_event_checks ::
  "PlayerAttachmentEpoch \<Rightarrow> u64 option \<Rightarrow> PlayerEventOrder list \<Rightarrow> SequencedPlayerEvent list \<Rightarrow> check list" where
  "retired_event_checks epoch previous ordered_items [] = []"
| "retired_event_checks epoch previous ordered_items (event # events) =
     (eo_epoch (se_order event) \<noteq> epoch \<or> eo_sequence (se_order event) = 0
      \<or> not_after previous (eo_sequence (se_order event)) \<or> se_order event \<in> set ordered_items,
      ''retired event order is invalid'')
     # retired_event_checks epoch (Some (eo_sequence (se_order event))) (se_order event # ordered_items) events"

fun retired_outcome_checks ::
  "PlayerAttachmentEpoch \<Rightarrow> u64 option \<Rightarrow> PlayerEventOrder list \<Rightarrow> SequencedPlayerSemanticOutcome list
   \<Rightarrow> check list" where
  "retired_outcome_checks epoch previous ordered_items [] = []"
| "retired_outcome_checks epoch previous ordered_items (outcome # outcomes) =
     (eo_epoch (so_order outcome) \<noteq> epoch \<or> eo_sequence (so_order outcome) = 0
      \<or> not_after previous (eo_sequence (so_order outcome)) \<or> so_order outcome \<in> set ordered_items,
      ''retired semantic outcome order is invalid'')
     # (payload_epoch (so_outcome outcome) \<noteq> epoch, ''retired semantic payload crosses attachment epoch'')
     # retired_outcome_checks epoch (Some (eo_sequence (so_order outcome))) (so_order outcome # ordered_items)
         outcomes"

definition delivery_items :: "EpochDeliveryBuffer \<Rightarrow> PlayerEventOrder list" where
  "delivery_items d =
     rev (map so_order (db_retained_semantic_outcomes d)) @ rev (map se_order (db_pending_events d))"

definition snapshot_crosses :: "PlayerAttachmentEpoch \<Rightarrow> PlayerAuthoritativeSnapshot option \<Rightarrow> bool" where
  "snapshot_crosses epoch snapshot =
     (case snapshot of
        Some snap \<Rightarrow> as_epoch snap \<noteq> epoch \<or> sb_epoch (as_boundary snap) \<noteq> epoch
      | None \<Rightarrow> False)"

fun retired_delivery_checks ::
  "'a lifecycle \<Rightarrow> PlayerAttachmentEpoch option \<Rightarrow> PlayerEventOrder list \<Rightarrow> EpochDeliveryBuffer list
   \<Rightarrow> check list" where
  "retired_delivery_checks s previous ordered_items [] = []"
| "retired_delivery_checks s previous ordered_items (delivery # deliveries) =
     [(db_epoch delivery = attachment_epoch s \<or> not_after previous (db_epoch delivery),
       ''retired epoch delivery order is invalid''),
      (snapshot_crosses (db_epoch delivery) (db_recovery_snapshot delivery),
       ''retired recovery snapshot crosses attachment epoch'')]
     @ retired_event_checks (db_epoch delivery) None ordered_items (db_pending_events delivery)
     @ retired_outcome_checks (db_epoch delivery) None
         (rev (map se_order (db_pending_events delivery)) @ ordered_items)
         (db_retained_semantic_outcomes delivery)
     @ retired_delivery_checks s (Some (db_epoch delivery)) (delivery_items delivery @ ordered_items) deliveries"

definition not_after_in_epoch :: "PlayerEventOrder option \<Rightarrow> PlayerEventOrder \<Rightarrow> bool" where
  "not_after_in_epoch previous order =
     (case previous of
        Some p \<Rightarrow> eo_epoch p = eo_epoch order \<and> eo_sequence order \<le> eo_sequence p
      | None \<Rightarrow> False)"

fun pending_event_checks ::
  "PlayerAttachmentEpoch \<Rightarrow> PlayerEventOrder option \<Rightarrow> PlayerEventOrder list \<Rightarrow> SequencedPlayerEvent list
   \<Rightarrow> check list" where
  "pending_event_checks epoch previous ordered_items [] = []"
| "pending_event_checks epoch previous ordered_items (event # events) =
     (eo_epoch (se_order event) \<noteq> epoch, ''pending event crosses attachment epoch'')
     # (not_after_in_epoch previous (se_order event), ''event order is not strictly monotonic'')
     # (eo_sequence (se_order event) = 0 \<or> se_order event \<in> set ordered_items,
        ''event order is zero or duplicated'')
     # pending_event_checks epoch (Some (se_order event)) (se_order event # ordered_items) events"

definition settlement_checks ::
  "PlayerCommandId list \<Rightarrow> LoadAttemptId list \<Rightarrow> PlayerAttachmentEpoch \<Rightarrow> PlayerSemanticOutcome \<Rightarrow> check list" where
  "settlement_checks command_outcomes load_outcomes epoch outcome =
     (case outcome of
        Command command \<Rightarrow>
          [(co_epoch command \<noteq> epoch, ''command outcome order crosses attachment epoch''),
           (co_command_id command \<in> set command_outcomes,
            ''command has more than one retained terminal outcome'')]
      | LoadAttempt attempt \<Rightarrow>
          [(lo_epoch attempt \<noteq> epoch, ''load outcome order crosses attachment epoch''),
           (lo_attempt_id attempt \<in> set load_outcomes,
            ''load attempt has more than one retained semantic outcome'')])"

fun pending_outcome_checks ::
  "PlayerAttachmentEpoch \<Rightarrow> PlayerEventOrder option \<Rightarrow> PlayerCommandId list \<Rightarrow> LoadAttemptId list
   \<Rightarrow> PlayerEventOrder list \<Rightarrow> SequencedPlayerSemanticOutcome list \<Rightarrow> check list" where
  "pending_outcome_checks epoch previous command_outcomes load_outcomes ordered_items [] = []"
| "pending_outcome_checks epoch previous command_outcomes load_outcomes ordered_items (outcome # outcomes) =
     [(eo_epoch (so_order outcome) \<noteq> epoch, ''semantic outcome crosses attachment epoch''),
      (eo_sequence (so_order outcome) = 0 \<or> so_order outcome \<in> set ordered_items,
       ''semantic outcome order is zero or duplicated''),
      (not_after_in_epoch previous (so_order outcome),
       ''semantic outcome order is not strictly monotonic'')]
     @ settlement_checks command_outcomes load_outcomes (eo_epoch (so_order outcome)) (so_outcome outcome)
     @ pending_outcome_checks epoch (Some (so_order outcome))
         (case so_outcome outcome of Command command \<Rightarrow> co_command_id command # command_outcomes
          | LoadAttempt _ \<Rightarrow> command_outcomes)
         (case so_outcome outcome of LoadAttempt attempt \<Rightarrow> lo_attempt_id attempt # load_outcomes
          | Command _ \<Rightarrow> load_outcomes)
         (so_order outcome # ordered_items) outcomes"

definition delivery_checks :: "'a lifecycle \<Rightarrow> check list" where
  "delivery_checks s =
     (let retired_items = concat (map delivery_items (rev (retired_epoch_deliveries s)))
      in retired_delivery_checks s None [] (retired_epoch_deliveries s)
         @ pending_event_checks (attachment_epoch s) None retired_items (pending_events s)
         @ pending_outcome_checks (attachment_epoch s) None [] []
             (rev (map se_order (pending_events s)) @ retired_items) (retained_semantic_outcomes s))"

definition batch_checks :: "'a lifecycle \<Rightarrow> check list" where
  "batch_checks s =
     (snapshot_crosses (attachment_epoch s) (recovery_snapshot s),
      ''recovery snapshot crosses attachment epoch'')
     # (case cached_batch s of
          None \<Rightarrow> []
        | Some batch \<Rightarrow>
            [(sb_epoch (eb_boundary batch) \<noteq> eb_epoch batch \<or> at_epoch (eb_token batch) \<noteq> eb_epoch batch
              \<or> snapshot_crosses (eb_epoch batch) (eb_snapshot batch)
              \<or> list_ex (\<lambda>event. eo_epoch (se_order event) \<noteq> eb_epoch batch) (eb_events batch)
              \<or> list_ex (\<lambda>outcome. eo_epoch (so_order outcome) \<noteq> eb_epoch batch
                           \<or> payload_epoch (so_outcome outcome) \<noteq> eb_epoch batch) (eb_semantic_outcomes batch),
              ''cached batch is not single-epoch'')])"

section \<open>The whole check\<close>

definition invariant_checks :: "'a lifecycle \<Rightarrow> check list" where
  "invariant_checks s =
     active_checks s @ active_state_checks s @ mapping_checks [] s (playlist_entry_attempts s)
     @ concat (map (attempt_checks s) (bt_values (load_attempts s)))
     @ concat (map (\<lambda>(command_id, command). command_record_checks s command_id command
                      @ load_command_checks s command) (commands s))
     @ concat (map (\<lambda>(command_id, owner). seek_checks s command_id owner) (seek_ownership s))
     @ tombstone_checks s @ delivery_checks s @ batch_checks s"

definition assert_invariants :: "'a lifecycle \<Rightarrow> string + unit" where
  "assert_invariants s = first_violation (invariant_checks s)"

end
