(* ===== verification/Lifecycle_Compaction.thy ===== *)
theory Lifecycle_Compaction
  imports Lifecycle_Types
begin

text \<open>
  Compaction of acknowledged lifecycle history (\<open>lifecycle.rs\<close>): terminal attempts, commands and
  seek ownerships whose last sequence has been acknowledged leave the live maps and become
  bounded tombstones. The three loops over collected identities are folds over the collected
  list; the two eviction loops are \<open>evict_front\<close>.
\<close>

section \<open>Retiring one record\<close>

definition retire_command_record :: "PlayerCommandId \<Rightarrow> 'a lifecycle \<Rightarrow> 'a lifecycle" where
  "retire_command_record command_id s =
     (case command_of s command_id of
        None \<Rightarrow> s
      | Some command \<Rightarrow>
          (case lc_terminal_sequence command of
             None \<Rightarrow> s
           | Some terminal_sequence \<Rightarrow>
               s\<lparr>commands := bt_remove command_id (commands s),
                 retired_command_tombstones := retired_command_tombstones s @
                   [\<lparr>ct_epoch = lc_epoch command, ct_command_id = command_id,
                     ct_terminal_sequence = terminal_sequence\<rparr>]\<rparr>))"

definition push_retired_seek_tombstone :: "SystemSeekOwnership \<Rightarrow> 'a lifecycle \<Rightarrow> 'a lifecycle" where
  "push_retired_seek_tombstone ownership s =
     (let retire_after_tick = saturating_add (now_tick s) SEEK_TOMBSTONE_RETENTION_TICKS;
          s = (case retired_seek_tombstones s of
                 evicted # rest \<Rightarrow>
                   if MAX_RETIRED_SEEK_TOMBSTONES \<le> length (retired_seek_tombstones s)
                   then let g = sk_media_generation (rs_ownership evicted);
                            d = (case bt_get (uncertain_seek_generations s) g of
                                   Some deadline \<Rightarrow> max deadline (rs_retire_after_tick evicted)
                                 | None \<Rightarrow> rs_retire_after_tick evicted)
                        in s\<lparr>retired_seek_tombstones := rest,
                             uncertain_seek_generations :=
                               bt_insert g d (uncertain_seek_generations s)\<rparr>
                   else s
               | [] \<Rightarrow> s)
      in s\<lparr>retired_seek_tombstones := retired_seek_tombstones s @
             [\<lparr>rs_ownership = ownership, rs_retire_after_tick = retire_after_tick\<rparr>]\<rparr>)"

section \<open>Compaction\<close>

definition acknowledged_by :: "u64 \<Rightarrow> u64 option \<Rightarrow> bool" where
  "acknowledged_by through_sequence seq =
     (case seq of Some sequence \<Rightarrow> sequence \<le> through_sequence | None \<Rightarrow> False)"

definition acknowledged_terminal_command :: "u64 \<Rightarrow> LifecycleCommand \<Rightarrow> bool" where
  "acknowledged_terminal_command through_sequence command \<longleftrightarrow>
     command_is_terminal (lc_state command)
     \<and> acknowledged_by through_sequence (lc_terminal_sequence command)"

definition acknowledged_terminal_attempt :: "u64 \<Rightarrow> LoadAttempt \<Rightarrow> bool" where
  "acknowledged_terminal_attempt through_sequence attempt \<longleftrightarrow>
     attempt_is_terminal (la_state attempt)
     \<and> acknowledged_by through_sequence (la_semantic_outcome_sequence attempt)
     \<and> acknowledged_by through_sequence (la_physical_terminal_sequence attempt)"

text \<open>The links of the removed attempt's neighbours.\<close>

definition unlink_successor :: "LoadAttemptId \<Rightarrow> LoadAttempt \<Rightarrow> 'a lifecycle \<Rightarrow> 'a lifecycle" where
  "unlink_successor attempt_id attempt s =
     (case la_superseded_by attempt of
        Some successor_id \<Rightarrow>
          s\<lparr>load_attempts := bt_modify successor_id
              (\<lambda>successor. if la_replaced_attempt successor = Some attempt_id
                           then successor\<lparr>la_replaced_attempt := None\<rparr> else successor)
              (load_attempts s)\<rparr>
      | None \<Rightarrow> s)"

definition unlink_predecessor :: "LoadAttemptId \<Rightarrow> LoadAttempt \<Rightarrow> 'a lifecycle \<Rightarrow> 'a lifecycle" where
  "unlink_predecessor attempt_id attempt s =
     (case la_replaced_attempt attempt of
        Some predecessor_id \<Rightarrow>
          s\<lparr>load_attempts := bt_modify predecessor_id
              (\<lambda>predecessor. if la_superseded_by predecessor = Some attempt_id
                 then predecessor\<lparr>la_superseded_by := None,
                        la_state := (if la_state predecessor = SupersededMayStillEmit attempt_id
                                     then MayStillEmit else la_state predecessor)\<rparr>
                 else predecessor)
              (load_attempts s)\<rparr>
      | None \<Rightarrow> s)"

definition compact_attempt :: "u64 \<Rightarrow> LoadAttemptId \<Rightarrow> 'a lifecycle \<Rightarrow> 'a lifecycle" where
  "compact_attempt through_sequence attempt_id s =
     (case attempt_of s attempt_id of
        None \<Rightarrow> s
      | Some attempt \<Rightarrow>
          (let s = s\<lparr>load_attempts := bt_remove attempt_id (load_attempts s)\<rparr>;
               s = unlink_successor attempt_id attempt s;
               s = unlink_predecessor attempt_id attempt s;
               terminal_sequence =
                 max (case la_physical_terminal_sequence attempt of Some q \<Rightarrow> q | None \<Rightarrow> through_sequence)
                     (case la_semantic_outcome_sequence attempt of Some q \<Rightarrow> q | None \<Rightarrow> through_sequence);
               s = s\<lparr>terminal_attempt_tombstones := terminal_attempt_tombstones s @
                       [\<lparr>tt_epoch = la_epoch attempt, tt_attempt_id = attempt_id,
                         tt_media_generation = la_media_generation attempt,
                         tt_command_id = la_command_id attempt,
                         tt_playlist_entry_id = la_playlist_entry_id attempt,
                         tt_terminal_sequence = terminal_sequence\<rparr>]\<rparr>
           in case la_command_id attempt of
                Some command_id \<Rightarrow>
                  (case command_of s command_id of
                     Some command \<Rightarrow>
                       if acknowledged_terminal_command through_sequence command
                       then retire_command_record command_id s else s
                   | None \<Rightarrow> s)
              | None \<Rightarrow> s))"

definition compact_seek :: "PlayerCommandId \<times> SystemSeekOwnership \<Rightarrow> 'a lifecycle \<Rightarrow> 'a lifecycle" where
  "compact_seek entry s =
     (let (command_id, ownership) = entry;
          s = s\<lparr>seek_ownership := bt_remove command_id (seek_ownership s)\<rparr>;
          s = (if sk_state ownership = MayStillArrive
               then push_retired_seek_tombstone ownership s else s)
      in retire_command_record command_id s)"

fun evict_front :: "nat \<Rightarrow> ('t \<Rightarrow> u64) \<Rightarrow> u64 \<Rightarrow> 't list \<Rightarrow> 't list" where
  "evict_front bound key through_sequence [] = []"
| "evict_front bound key through_sequence (t # ts) =
     (if bound < length (t # ts)
         \<or> saturating_add (key t) TERMINAL_TOMBSTONE_SEQUENCE_WINDOW < through_sequence
      then evict_front bound key through_sequence ts
      else t # ts)"

definition retired_seek_ids :: "u64 \<Rightarrow> 'a lifecycle \<Rightarrow> (PlayerCommandId \<times> SystemSeekOwnership) list" where
  "retired_seek_ids through_sequence s =
     filter (\<lambda>(command_id, ownership).
         sk_state ownership \<in> {Observed, Invalidated, MayStillArrive}
         \<and> (case command_of s command_id of
              Some command \<Rightarrow> acknowledged_terminal_command through_sequence command
            | None \<Rightarrow> False))
       (seek_ownership s)"

definition referenced_commands :: "'a lifecycle \<Rightarrow> PlayerCommandId list" where
  "referenced_commands s =
     List.map_filter la_command_id (bt_values (load_attempts s)) @ map fst (seek_ownership s)"

definition compact_acknowledged_lifecycle :: "u64 \<Rightarrow> 'a lifecycle \<Rightarrow> 'a lifecycle" where
  "compact_acknowledged_lifecycle through_sequence s =
     (let terminal_attempt_ids =
            map la_id (filter (acknowledged_terminal_attempt through_sequence)
                         (bt_values (load_attempts s)));
          s = fold (compact_attempt through_sequence) terminal_attempt_ids s;
          s = fold compact_seek (retired_seek_ids through_sequence s) s;
          referenced = referenced_commands s;
          retired_command_ids =
            map lc_id (filter (\<lambda>command. acknowledged_terminal_command through_sequence command
                                 \<and> lc_id command \<notin> set referenced)
                         (bt_values (commands s)));
          s = fold retire_command_record retired_command_ids s
      in s\<lparr>terminal_attempt_tombstones :=
             evict_front MAX_TERMINAL_ATTEMPT_TOMBSTONES tt_terminal_sequence through_sequence
               (sort_key tt_terminal_sequence
                  (sort_key tt_attempt_id (terminal_attempt_tombstones s))),
           retired_command_tombstones :=
             evict_front MAX_RETIRED_COMMAND_TOMBSTONES ct_terminal_sequence through_sequence
               (sort_key ct_terminal_sequence
                  (sort_key ct_command_id (retired_command_tombstones s)))\<rparr>)"

definition prune_expired_seek_tombstones :: "'a lifecycle \<Rightarrow> 'a lifecycle" where
  "prune_expired_seek_tombstones s =
     s\<lparr>retired_seek_tombstones :=
         filter (\<lambda>t. now_tick s < rs_retire_after_tick t) (retired_seek_tombstones s),
       uncertain_seek_generations :=
         filter (\<lambda>(_, deadline). now_tick s < deadline) (uncertain_seek_generations s)\<rparr>"

section \<open>Frame and bounds\<close>

named_theorems compaction_frame "fields that compaction leaves alone"

lemma evict_front_bound: "length (evict_front bound key q ts) \<le> bound"
  by (induction ts) auto

lemma evict_front_suffix: "\<exists>ps. ts = ps @ evict_front bound key q ts"
proof (induction ts)
  case (Cons t ts)
  then obtain ps where "ts = ps @ evict_front bound key q ts" by blast
  then show ?case by (cases "evict_front bound key q (t # ts) = t # ts") (auto intro: exI [of _ "t # ps"])
qed simp

lemma set_evict_front: "set (evict_front bound key q ts) \<subseteq> set ts"
  using evict_front_suffix [of ts bound key q] by (metis le_supE set_append subset_refl)

end
