(* ===== verification/Lifecycle_Delivery.thy ===== *)
theory Lifecycle_Delivery
  imports Lifecycle_Compaction
begin

text \<open>
  Ordered delivery of the lifecycle reducer (\<open>lifecycle.rs\<close>): allocation of causal sequence
  numbers, the bounded telemetry queue with its gap marker, the retained semantic outcomes, and
  the batches a consumer peeks at and acknowledges. A peeked batch is frozen in
  \<open>cached_batch\<close> until its exact token comes back.
\<close>

section \<open>Sequencing and queues\<close>

definition next_order :: "'a lifecycle \<Rightarrow> PlayerEventOrder \<times> 'a lifecycle" where
  "next_order s =
     (let sequence = max (next_event_sequence s) 1
      in (\<lparr>eo_epoch = attachment_epoch s, eo_sequence = sequence\<rparr>,
          s\<lparr>next_event_sequence := max (saturating_add sequence 1) 1\<rparr>))"

fun is_transport_delta :: "PlayerEvent \<Rightarrow> bool" where
  "is_transport_delta (TransportDelta _) = True"
| "is_transport_delta _ = False"

fun remove_first :: "('e \<Rightarrow> bool) \<Rightarrow> 'e list \<Rightarrow> 'e list" where
  "remove_first p [] = []"
| "remove_first p (x # xs) = (if p x then xs else x # remove_first p xs)"

definition schedule_reconciliation :: "'a lifecycle \<Rightarrow> 'a lifecycle" where
  "schedule_reconciliation s =
     s\<lparr>reconciliation_required := True,
       next_reconciliation_tick := Some (saturating_add (now_tick s) (reconciliation_backoff_ticks s)),
       reconciliation_backoff_ticks :=
         (if reconciliation_backoff_ticks s \<le> 100 then 250
          else if reconciliation_backoff_ticks s \<le> 250 then 500
          else if reconciliation_backoff_ticks s \<le> 500 then 1000
          else MAX_RECONCILIATION_BACKOFF_TICKS)\<rparr>"

definition mark_gap :: "reducer_context \<Rightarrow> reducer_context" where
  "mark_gap c =
     (let invalidates_recovery_snapshot = recovery_snapshot c \<noteq> None;
          c = (if \<not> gap_detected c \<or> invalidates_recovery_snapshot
               then let c = c\<lparr>gap_detected := True\<rparr>;
                        (order, c) = next_order c;
                        event = \<lparr>se_order = order, se_event = EventGapDetected\<rparr>;
                        c = c\<lparr>pending_events := pending_events c @ [event]\<rparr>
                    in push_effect (EmitOrderedEvent event) c
               else c);
          c = c\<lparr>reconciliation_required := True, recovery_snapshot := None\<rparr>
      in push_effect RequestAuthoritativeSnapshot (schedule_reconciliation c))"

definition telemetry_count :: "SequencedPlayerEvent list \<Rightarrow> nat" where
  "telemetry_count events = length (filter (\<lambda>queued. is_transport_delta (se_event queued)) events)"

definition queue_event :: "PlayerEvent \<Rightarrow> reducer_context \<Rightarrow> PlayerEventOrder \<times> reducer_context" where
  "queue_event event c =
     (let c = (if is_transport_delta event
                  \<and> MAX_PENDING_TELEMETRY_EVENTS \<le> telemetry_count (pending_events c)
               then mark_gap (c\<lparr>pending_events :=
                      remove_first (\<lambda>queued. is_transport_delta (se_event queued)) (pending_events c)\<rparr>)
               else c);
          (order, c) = next_order c;
          sequenced = \<lparr>se_order = order, se_event = event\<rparr>;
          c = push_effect (EmitOrderedEvent sequenced) c
      in (order, c\<lparr>pending_events := pending_events c @ [sequenced]\<rparr>))"

definition retain_outcome :: "PlayerSemanticOutcome \<Rightarrow> reducer_context \<Rightarrow> PlayerEventOrder \<times> reducer_context" where
  "retain_outcome outcome c =
     (let (order, c) = next_order c;
          sequenced = \<lparr>so_order = order, so_outcome = outcome\<rparr>;
          c = push_effect (EmitSemanticOutcome sequenced) c
      in (order, c\<lparr>retained_semantic_outcomes := retained_semantic_outcomes c @ [sequenced]\<rparr>))"

section \<open>Retired epochs\<close>

definition delivery_is_empty :: "EpochDeliveryBuffer \<Rightarrow> bool" where
  "delivery_is_empty d \<longleftrightarrow>
     db_pending_events d = [] \<and> db_retained_semantic_outcomes d = []
     \<and> db_recovery_snapshot d = None \<and> \<not> db_gap_detected d"

definition has_deliverable_content :: "EpochDeliveryBuffer \<Rightarrow> bool" where
  "has_deliverable_content d \<longleftrightarrow>
     (\<not> db_gap_detected d \<or> db_recovery_snapshot d \<noteq> None)
     \<and> (db_pending_events d \<noteq> [] \<or> db_retained_semantic_outcomes d \<noteq> []
        \<or> db_recovery_snapshot d \<noteq> None)"

text \<open>An entry survives an acknowledgement or a snapshot unless its epoch and sequence are covered.\<close>

definition uncovered :: "PlayerAttachmentEpoch \<Rightarrow> u64 \<Rightarrow> PlayerEventOrder \<Rightarrow> bool" where
  "uncovered epoch boundary order \<longleftrightarrow> eo_epoch order \<noteq> epoch \<or> boundary < eo_sequence order"

definition covered_by_snapshot ::
  "PlayerAuthoritativeSnapshot option \<Rightarrow> SequencedPlayerEvent list \<Rightarrow> SequencedPlayerEvent list" where
  "covered_by_snapshot snapshot events =
     (case snapshot of
        None \<Rightarrow> events
      | Some snap \<Rightarrow>
          filter (\<lambda>event. uncovered (as_epoch snap) (sb_through (as_boundary snap)) (se_order event)) events)"

definition delivery_prune_snapshot_covered_events :: "EpochDeliveryBuffer \<Rightarrow> EpochDeliveryBuffer" where
  "delivery_prune_snapshot_covered_events d =
     d\<lparr>db_pending_events := covered_by_snapshot (db_recovery_snapshot d) (db_pending_events d)\<rparr>"

definition acknowledge_delivery_through ::
  "PlayerSequenceBoundary \<Rightarrow> bool \<Rightarrow> EpochDeliveryBuffer \<Rightarrow> EpochDeliveryBuffer" where
  "acknowledge_delivery_through boundary acknowledges_snapshot d =
     (let d = d\<lparr>db_pending_events :=
                  filter (\<lambda>event. uncovered (sb_epoch boundary) (sb_through boundary) (se_order event))
                    (db_pending_events d),
                db_retained_semantic_outcomes :=
                  filter (\<lambda>outcome. uncovered (sb_epoch boundary) (sb_through boundary) (so_order outcome))
                    (db_retained_semantic_outcomes d)\<rparr>
      in if acknowledges_snapshot
            \<and> (case db_recovery_snapshot d of
                 Some snapshot \<Rightarrow>
                   as_epoch snapshot = sb_epoch boundary
                   \<and> sb_epoch (as_boundary snapshot) = sb_epoch boundary
                   \<and> sb_through (as_boundary snapshot) \<le> sb_through boundary
               | None \<Rightarrow> False)
         then d\<lparr>db_recovery_snapshot := None, db_gap_detected := False\<rparr>
         else d)"

definition delivery_acknowledge_through ::
  "PlayerSequenceBoundary \<Rightarrow> bool \<Rightarrow> EpochDeliveryBuffer \<Rightarrow> EpochDeliveryBuffer" where
  "delivery_acknowledge_through boundary acknowledges_snapshot d =
     delivery_prune_snapshot_covered_events (acknowledge_delivery_through boundary acknowledges_snapshot d)"

section \<open>The current epoch as a delivery buffer\<close>

text \<open>
  \<open>acknowledge_delivery_through\<close> takes the four delivery fields by reference; the live fields of
  the state are read into a buffer and written back.
\<close>

definition current_delivery :: "'a lifecycle \<Rightarrow> EpochDeliveryBuffer" where
  "current_delivery s =
     \<lparr>db_epoch = attachment_epoch s, db_pending_events = pending_events s,
      db_retained_semantic_outcomes = retained_semantic_outcomes s,
      db_recovery_snapshot = recovery_snapshot s, db_gap_detected = gap_detected s\<rparr>"

definition store_delivery :: "EpochDeliveryBuffer \<Rightarrow> 'a lifecycle \<Rightarrow> 'a lifecycle" where
  "store_delivery d s =
     s\<lparr>pending_events := db_pending_events d,
       retained_semantic_outcomes := db_retained_semantic_outcomes d,
       recovery_snapshot := db_recovery_snapshot d, gap_detected := db_gap_detected d\<rparr>"

definition prune_snapshot_covered_events :: "'a lifecycle \<Rightarrow> 'a lifecycle" where
  "prune_snapshot_covered_events s =
     s\<lparr>retired_epoch_deliveries :=
         map delivery_prune_snapshot_covered_events (retired_epoch_deliveries s),
       pending_events := covered_by_snapshot (recovery_snapshot s) (pending_events s)\<rparr>"

definition retire_current_epoch_delivery :: "'a lifecycle \<Rightarrow> 'a lifecycle" where
  "retire_current_epoch_delivery s =
     (let delivery = current_delivery s;
          s = s\<lparr>pending_events := [], retained_semantic_outcomes := [],
                recovery_snapshot := None, gap_detected := False\<rparr>
      in if delivery_is_empty delivery then s
         else s\<lparr>retired_epoch_deliveries := retired_epoch_deliveries s @ [delivery]\<rparr>)"

definition snapshot_field_of :: "'x option \<Rightarrow> 'x SnapshotField" where
  "snapshot_field_of v = (case v of Some x \<Rightarrow> Known x | None \<Rightarrow> KnownAbsent)"

definition closing_snapshot_for_current_epoch :: "'a lifecycle \<Rightarrow> PlayerAuthoritativeSnapshot" where
  "closing_snapshot_for_current_epoch s =
     (let active = active_attempt s;
          active_load = map_option (\<lambda>attempt.
            \<lparr>al_attempt_id = la_id attempt, al_media_generation = la_media_generation attempt,
             al_command_id = la_command_id attempt,
             al_playlist_entry_id = la_playlist_entry_id attempt,
             al_physical_file_loaded = la_file_loaded_observed attempt,
             al_semantic_load_result = la_semantic_load_result attempt,
             al_logical_ownership_revoked = la_logical_ownership_revoked attempt\<rparr>) active
      in \<lparr>as_epoch = attachment_epoch s,
          as_boundary = \<lparr>sb_epoch = attachment_epoch s, sb_through = last_event_sequence s\<rparr>,
          as_transport = default_transport_snapshot
            \<lparr>ts_load_attempt_id := snapshot_field_of (map_option la_id active),
             ts_media_generation := snapshot_field_of (map_option la_media_generation active)\<rparr>,
          as_active_load = snapshot_field_of active_load,
          as_current_playlist_entry_id = snapshot_field_of (Option.bind active la_playlist_entry_id),
          as_current_path = Unavailable\<rparr>)"

section \<open>Batches\<close>

definition delivery_sequences :: "EpochDeliveryBuffer \<Rightarrow> u64 list" where
  "delivery_sequences d =
     map (\<lambda>event. eo_sequence (se_order event)) (db_pending_events d)
     @ map (\<lambda>outcome. eo_sequence (so_order outcome)) (db_retained_semantic_outcomes d)
     @ (case db_recovery_snapshot d of Some snapshot \<Rightarrow> [sb_through (as_boundary snapshot)] | None \<Rightarrow> [])"

definition batch_of_delivery :: "EpochDeliveryBuffer \<Rightarrow> u64 \<Rightarrow> PlayerEventBatch" where
  "batch_of_delivery d token_value =
     \<lparr>eb_epoch = db_epoch d,
      eb_boundary = \<lparr>sb_epoch = db_epoch d, sb_through = foldr max (delivery_sequences d) 0\<rparr>,
      eb_snapshot = db_recovery_snapshot d,
      eb_events = db_pending_events d,
      eb_semantic_outcomes = db_retained_semantic_outcomes d,
      eb_token = \<lparr>at_epoch = db_epoch d, at_value = token_value\<rparr>\<rparr>"

definition peek_event_batch :: "'a lifecycle \<Rightarrow> PlayerEventBatch option \<times> 'a lifecycle" where
  "peek_event_batch s =
     (case cached_batch s of
        Some batch \<Rightarrow> (Some batch, s)
      | None \<Rightarrow>
          (let s = prune_snapshot_covered_events s;
               s = s\<lparr>retired_epoch_deliveries :=
                       dropWhile delivery_is_empty (retired_epoch_deliveries s)\<rparr>;
               delivery = (case retired_epoch_deliveries s of
                             d # _ \<Rightarrow> d
                           | [] \<Rightarrow> current_delivery s)
           in if \<not> has_deliverable_content delivery then (None, s)
              else let token_value = max (next_acknowledgement_token s) 1;
                       s = s\<lparr>next_acknowledgement_token := max (saturating_add token_value 1) 1\<rparr>;
                       batch = batch_of_delivery delivery token_value
                   in (Some batch, s\<lparr>cached_batch := Some batch\<rparr>)))"

definition acknowledge_event_batch ::
  "PlayerEventAcknowledgementToken \<Rightarrow> 'a lifecycle \<Rightarrow> bool \<times> 'a lifecycle" where
  "acknowledge_event_batch token s =
     (case cached_batch s of
        None \<Rightarrow> (False, s)
      | Some batch \<Rightarrow>
          if eb_token batch \<noteq> token then (False, s)
          else
            (let boundary = eb_boundary batch;
                 acknowledged_current_epoch = (sb_epoch boundary = attachment_epoch s);
                 acknowledges_snapshot = (eb_snapshot batch \<noteq> None);
                 finish = (\<lambda>s. let s = prune_snapshot_covered_events s
                               in (True, if acknowledged_current_epoch
                                         then compact_acknowledged_lifecycle (sb_through boundary) s
                                         else s))
             in case retired_epoch_deliveries s of
                  delivery # rest \<Rightarrow>
                    if db_epoch delivery = eb_epoch batch
                    then let delivery = delivery_acknowledge_through boundary acknowledges_snapshot delivery
                         in finish (s\<lparr>cached_batch := None,
                                      retired_epoch_deliveries :=
                                        (if delivery_is_empty delivery then rest else delivery # rest)\<rparr>)
                    else if eb_epoch batch = attachment_epoch s
                    then finish (store_delivery
                           (acknowledge_delivery_through boundary acknowledges_snapshot (current_delivery s))
                           (s\<lparr>cached_batch := None\<rparr>))
                    else (False, s)
                | [] \<Rightarrow>
                    if eb_epoch batch = attachment_epoch s
                    then finish (store_delivery
                           (acknowledge_delivery_through boundary acknowledges_snapshot (current_delivery s))
                           (s\<lparr>cached_batch := None\<rparr>))
                    else (False, s)))"

end
