(* ===== verification/Lifecycle_Ops.thy ===== *)
theory Lifecycle_Ops
  imports Lifecycle_Delivery
begin

text \<open>
  The mutating operations shared by the reducer's inputs (\<open>lifecycle.rs\<close>): settling a command,
  publishing the one semantic result of a load attempt, binding and starting an attempt,
  committing a physical end, and reconciling against an authoritative playlist.
\<close>

section \<open>Allocation and successor claims\<close>

definition allocate_load_attempt_id :: "'a lifecycle \<Rightarrow> LoadAttemptId \<times> 'a lifecycle" where
  "allocate_load_attempt_id s =
     (let value = max (next_load_attempt_id s) 1
      in (value, s\<lparr>next_load_attempt_id := max (saturating_add value 1) 1\<rparr>))"

definition retain_only_selected_successor_claim ::
  "LoadAttemptId \<Rightarrow> LoadAttemptId \<Rightarrow> 'a lifecycle \<Rightarrow> 'a lifecycle" where
  "retain_only_selected_successor_claim predecessor_id selected_successor_id s =
     s\<lparr>load_attempts := bt_map_values
         (\<lambda>attempt. if la_id attempt \<noteq> selected_successor_id
                       \<and> la_replaced_attempt attempt = Some predecessor_id
                    then attempt\<lparr>la_replaced_attempt := None\<rparr> else attempt)
         (load_attempts s)\<rparr>"

definition modify_attempt :: "LoadAttemptId \<Rightarrow> (LoadAttempt \<Rightarrow> LoadAttempt) \<Rightarrow> 'a lifecycle \<Rightarrow> 'a lifecycle" where
  "modify_attempt attempt_id f s = s\<lparr>load_attempts := bt_modify attempt_id f (load_attempts s)\<rparr>"

definition modify_command ::
  "PlayerCommandId \<Rightarrow> (LifecycleCommand \<Rightarrow> LifecycleCommand) \<Rightarrow> 'a lifecycle \<Rightarrow> 'a lifecycle" where
  "modify_command command_id f s = s\<lparr>commands := bt_modify command_id f (commands s)\<rparr>"

definition modify_seek ::
  "PlayerCommandId \<Rightarrow> (SystemSeekOwnership \<Rightarrow> SystemSeekOwnership) \<Rightarrow> 'a lifecycle \<Rightarrow> 'a lifecycle" where
  "modify_seek command_id f s = s\<lparr>seek_ownership := bt_modify command_id f (seek_ownership s)\<rparr>"

section \<open>Exactly-once outcomes\<close>

definition command_terminal ::
  "PlayerCommandId \<Rightarrow> CommandSemanticState \<Rightarrow> reducer_context \<Rightarrow> reducer_context" where
  "command_terminal command_id terminal c =
     (case command_of c command_id of
        None \<Rightarrow> c
      | Some command \<Rightarrow>
          if command_is_terminal (lc_state command) then c
          else
            (case public_result terminal of
               None \<Rightarrow> c
             | Some result \<Rightarrow>
                 (let c = modify_command command_id
                            (\<lambda>command. command\<lparr>lc_state := terminal, lc_outcome_emitted := True\<rparr>) c;
                      outcome = \<lparr>co_epoch = lc_epoch command, co_command_id = command_id,
                                 co_media_generation = lc_media_generation command,
                                 co_result = result\<rparr>;
                      (order, c) = retain_outcome (Command outcome) c
                  in modify_command command_id
                       (\<lambda>command. command\<lparr>lc_terminal_sequence := Some (eo_sequence order)\<rparr>) c)))"

definition emit_load_outcome ::
  "LoadAttemptId \<Rightarrow> PlayerLoadAttemptResult \<Rightarrow> string option \<Rightarrow> reducer_context \<Rightarrow> reducer_context" where
  "emit_load_outcome attempt_id result loaded_target c =
     (case attempt_of c attempt_id of
        None \<Rightarrow> c
      | Some attempt \<Rightarrow>
          if la_semantic_load_result attempt \<noteq> None then c
          else
            (let c = modify_attempt attempt_id
                       (\<lambda>attempt. attempt\<lparr>la_semantic_load_result := Some result\<rparr>) c;
                 outcome = \<lparr>lo_epoch = la_epoch attempt, lo_attempt_id = attempt_id,
                            lo_media_generation = la_media_generation attempt,
                            lo_command_id = la_command_id attempt,
                            lo_requested_target = la_requested_target attempt,
                            lo_loaded_target = loaded_target, lo_result = result\<rparr>;
                 (order, c) = retain_outcome (LoadAttempt outcome) c
             in modify_attempt attempt_id
                  (\<lambda>attempt. attempt\<lparr>la_semantic_outcome_sequence := Some (eo_sequence order)\<rparr>) c))"

section \<open>Binding and starting\<close>

definition bind_attempt ::
  "LoadAttemptId \<Rightarrow> i64 \<Rightarrow> reducer_context \<Rightarrow> bool \<times> reducer_context" where
  "bind_attempt attempt_id playlist_entry_id c =
     (if (case bt_get (playlist_entry_attempts c) playlist_entry_id of
            Some existing \<Rightarrow> existing \<noteq> attempt_id
          | None \<Rightarrow> False)
      then (False, push_effect RequestLifecycleReconciliation (schedule_reconciliation c))
      else
        (case attempt_of c attempt_id of
           None \<Rightarrow> (False, c)
         | Some attempt \<Rightarrow>
             if la_epoch attempt \<noteq> attachment_epoch c
                \<or> attempt_is_terminal (la_state attempt)
                \<or> (case la_playlist_entry_id attempt of
                     Some existing \<Rightarrow> existing \<noteq> playlist_entry_id
                   | None \<Rightarrow> False)
             then (False, c)
             else
               (let was_unbound = (la_playlist_entry_id attempt = None);
                    c = modify_attempt attempt_id
                          (\<lambda>attempt. attempt\<lparr>la_playlist_entry_id := Some playlist_entry_id,
                             la_reconcile_until_tick := None,
                             la_state := (if la_state attempt \<in> {AcceptedUnbound, MayStillEmit}
                                          then Bound else la_state attempt)\<rparr>) c;
                    c = c\<lparr>playlist_entry_attempts :=
                            bt_insert playlist_entry_id attempt_id (playlist_entry_attempts c)\<rparr>
                in (True,
                    if was_unbound
                    then snd (queue_event (LoadAttemptBound attempt_id (la_media_generation attempt)
                           (la_command_id attempt) playlist_entry_id) c)
                    else c))))"

text \<open>The state a starting or active attempt falls back to when another attempt takes the transport.\<close>

definition demoted_state :: "LoadAttempt \<Rightarrow> LoadAttemptState" where
  "demoted_state previous =
     (case la_superseded_by previous of
        None \<Rightarrow> MayStillEmit
      | Some successor \<Rightarrow> SupersededMayStillEmit successor)"

definition start_attempt ::
  "LoadAttemptId \<Rightarrow> i64 \<Rightarrow> bool \<Rightarrow> reducer_context \<Rightarrow> reducer_context" where
  "start_attempt attempt_id playlist_entry_id start_file_observed c =
     (let (bound, c) = bind_attempt attempt_id playlist_entry_id c
      in if \<not> bound then c
         else
           (case attempt_of c attempt_id of
              None \<Rightarrow> c
            | Some attempt \<Rightarrow>
                if attempt_is_terminal (la_state attempt) then c
                else
                  (let quiescent = is_quiescent (la_state attempt);
                       first_start_observation =
                         (\<not> la_start_file_observed attempt \<and> (start_file_observed \<or> \<not> quiescent));
                       c = (if start_file_observed
                            then modify_attempt attempt_id
                                   (\<lambda>attempt. attempt\<lparr>la_start_file_observed := True\<rparr>) c
                            else c)
                   in if la_logical_ownership_revoked attempt then c
                      else if la_state attempt \<in> {Starting, Active}
                      then c\<lparr>active_load_attempt := Some attempt_id, logical_terminal := None,
                             provisional_eof := None\<rparr>
                      else
                        (let c = (case active_load_attempt c of
                                    Some previous_id \<Rightarrow>
                                      if previous_id \<noteq> attempt_id
                                      then modify_attempt previous_id
                                             (\<lambda>previous. if la_state previous \<in> {Starting, Active}
                                                then previous\<lparr>la_state := demoted_state previous\<rparr>
                                                else previous) c
                                      else c
                                  | None \<Rightarrow> c);
                             c = (if quiescent then c
                                  else (modify_attempt attempt_id
                                          (\<lambda>attempt. attempt\<lparr>la_state := Starting\<rparr>) c)
                                       \<lparr>active_load_attempt := Some attempt_id,
                                        logical_terminal := None, provisional_eof := None\<rparr>)
                         in if first_start_observation
                            then snd (queue_event (LoadAttemptStarting attempt_id
                                   (la_media_generation attempt) (la_command_id attempt)
                                   playlist_entry_id (\<not> quiescent)) c)
                            else c))))"

definition has_proactive_unbound_load_attempt :: "'a lifecycle \<Rightarrow> bool" where
  "has_proactive_unbound_load_attempt s =
     list_ex (\<lambda>attempt. la_epoch attempt = attachment_epoch s
                \<and> la_playlist_entry_id attempt = None
                \<and> la_state attempt \<in> {Submitting, AcceptedUnbound, MayStillEmit})
       (bt_values (load_attempts s))"

text \<open>The loop over the deferred \<open>start-file\<close> events, with the retained ones accumulated.\<close>

fun replay_deferred_starts ::
  "DeferredStartFile list \<Rightarrow> DeferredStartFile list \<Rightarrow> reducer_context
   \<Rightarrow> DeferredStartFile list \<times> reducer_context" where
  "replay_deferred_starts [] retained c = (retained, c)"
| "replay_deferred_starts (deferred # rest) retained c =
     (if ds_epoch deferred \<noteq> attachment_epoch c then replay_deferred_starts rest retained c
      else case strict_start_owner c (ds_playlist_entry_id deferred) of
             Some attempt_id \<Rightarrow>
               replay_deferred_starts rest retained
                 (start_attempt attempt_id (ds_playlist_entry_id deferred) True c)
           | None \<Rightarrow> replay_deferred_starts rest (retained @ [deferred]) c)"

definition try_deferred_starts :: "reducer_context \<Rightarrow> reducer_context" where
  "try_deferred_starts c =
     (let (retained, c) = replay_deferred_starts (deferred_start_files c) []
                            (c\<lparr>deferred_start_files := []\<rparr>);
          c = c\<lparr>deferred_start_files := retained\<rparr>
      in if retained \<noteq> [] \<and> has_proactive_unbound_load_attempt c
         then push_effect RequestLifecycleReconciliation (schedule_reconciliation c)
         else c)"

definition stop_reconciliation_without_proactive_work :: "'a lifecycle \<Rightarrow> 'a lifecycle" where
  "stop_reconciliation_without_proactive_work s =
     (if has_proactive_unbound_load_attempt s
         \<or> deferred_start_files s \<noteq> []
         \<or> last_reconciliation s \<in> {Some IncompleteSnapshot, Some TransportFailure}
      then s
      else s\<lparr>reconciliation_required := False, next_reconciliation_tick := None,
             reconciliation_backoff_ticks := INITIAL_RECONCILIATION_BACKOFF_TICKS\<rparr>)"

section \<open>Successor chains\<close>

text \<open>
  Two loops follow \<open>superseded_by\<close> links. They are functions on a fuel that is one more than the
  number of attempts; \<open>None\<close> is a walk that has not ended within it.
\<close>

fun successor_walk :: "nat \<Rightarrow> 'a lifecycle \<Rightarrow> PlayerMediaGeneration \<Rightarrow> LoadAttemptId option \<Rightarrow> bool option" where
  "successor_walk fuel s generation None = Some False"
| "successor_walk 0 s generation (Some successor_id) = None"
| "successor_walk (Suc fuel) s generation (Some successor_id) =
     (case attempt_of s successor_id of
        None \<Rightarrow> Some False
      | Some candidate \<Rightarrow>
          if la_media_generation candidate = generation
             \<and> \<not> attempt_is_terminal (la_state candidate)
             \<and> la_state candidate \<noteq> Submitting
          then Some True
          else successor_walk fuel s generation (la_superseded_by candidate))"

definition chain_fuel :: "'a lifecycle \<Rightarrow> nat" where
  "chain_fuel s = Suc (length (load_attempts s))"

definition accepted_successor_exists :: "'a lifecycle \<Rightarrow> LoadAttemptId \<Rightarrow> bool" where
  "accepted_successor_exists s attempt_id =
     (case attempt_of s attempt_id of
        None \<Rightarrow> False
      | Some attempt \<Rightarrow>
          successor_walk (chain_fuel s) s (la_media_generation attempt) (la_superseded_by attempt)
            = Some True)"

fun generation_walk :: "nat \<Rightarrow> 'a lifecycle \<Rightarrow> LoadAttemptId \<Rightarrow> PlayerMediaGeneration option option" where
  "generation_walk 0 s current_id = None"
| "generation_walk (Suc fuel) s current_id =
     (case attempt_of s current_id of
        None \<Rightarrow> Some None
      | Some attempt \<Rightarrow>
          (case la_superseded_by attempt of
             None \<Rightarrow> Some (if \<not> attempt_is_terminal (la_state attempt)
                              \<and> \<not> la_logical_ownership_revoked attempt
                           then Some (la_media_generation attempt) else None)
           | Some successor_id \<Rightarrow> generation_walk fuel s successor_id))"

definition current_media_generation :: "'a lifecycle \<Rightarrow> PlayerMediaGeneration option" where
  "current_media_generation s =
     (case active_load_attempt s of
        Some attempt_id \<Rightarrow>
          (case generation_walk (chain_fuel s) s attempt_id of Some g \<Rightarrow> g | None \<Rightarrow> None)
      | None \<Rightarrow>
          map_option la_media_generation
            (List.find (\<lambda>attempt. \<not> attempt_is_terminal (la_state attempt)
                          \<and> la_superseded_by attempt = None
                          \<and> \<not> la_logical_ownership_revoked attempt
                          \<and> la_state attempt \<in> {Submitting, AcceptedUnbound})
               (rev (bt_values (load_attempts s)))))"

section \<open>Physical end of an attempt\<close>

fun load_result_of_physical :: "PlayerPhysicalLoadOutcome \<Rightarrow> PlayerLoadAttemptResult" where
  "load_result_of_physical PlayerPhysicalLoadOutcome.Ended = Indeterminate"
| "load_result_of_physical Stopped = Indeterminate"
| "load_result_of_physical (PlayerPhysicalLoadOutcome.Failed kind) = PlayerLoadAttemptResult.Failed kind"
| "load_result_of_physical PlayerPhysicalLoadOutcome.NeverStarted = PlayerLoadAttemptResult.NeverStarted"
| "load_result_of_physical PlayerPhysicalLoadOutcome.TransportDisconnected =
     PlayerLoadAttemptResult.TransportDisconnected"

fun command_state_of_physical :: "PlayerPhysicalLoadOutcome \<Rightarrow> CommandSemanticState" where
  "command_state_of_physical PlayerPhysicalLoadOutcome.TransportDisconnected =
     CommandSemanticState.TransportDisconnected"
| "command_state_of_physical PlayerPhysicalLoadOutcome.NeverStarted =
     CommandSemanticState.Failed PlayerCommandFailureKind.Unknown"
| "command_state_of_physical _ = CommandSemanticState.Failed MediaEnded"

text \<open>The steps of \<open>commit_physical_attempt_terminal\<close>, in its order.\<close>

definition detach_terminal_attempt ::
  "LoadAttemptId \<Rightarrow> PlayerPhysicalLoadOutcome \<Rightarrow> LoadAttempt \<Rightarrow> 'a lifecycle \<Rightarrow> 'a lifecycle" where
  "detach_terminal_attempt attempt_id outcome prior s =
     (let s = (case la_playlist_entry_id prior of
                 Some entry_id \<Rightarrow> s\<lparr>playlist_entry_attempts :=
                     bt_remove entry_id (playlist_entry_attempts s)\<rparr>
               | None \<Rightarrow> s);
          s = (if provisional_eof_attempt s = Some attempt_id
               then s\<lparr>provisional_eof := None\<rparr> else s);
          s = modify_attempt attempt_id
                (\<lambda>attempt. attempt\<lparr>la_state := Terminal outcome,
                   la_reconcile_until_tick := None, la_file_loaded_deadline_tick := None\<rparr>) s
      in if active_load_attempt s = Some attempt_id
         then s\<lparr>active_load_attempt := None\<rparr> else s)"

definition settle_terminal_attempt ::
  "LoadAttemptId \<Rightarrow> PlayerPhysicalLoadOutcome \<Rightarrow> LoadAttempt \<Rightarrow> reducer_context \<Rightarrow> reducer_context" where
  "settle_terminal_attempt attempt_id outcome prior c =
     (let c = (if la_semantic_load_result prior = None
               then emit_load_outcome attempt_id (load_result_of_physical outcome) None c
               else c)
      in case la_command_id prior of
           Some command_id \<Rightarrow>
             if (case command_of c command_id of
                   Some command \<Rightarrow> \<not> command_is_terminal (lc_state command)
                 | None \<Rightarrow> False)
             then command_terminal command_id (command_state_of_physical outcome) c
             else c
         | None \<Rightarrow> c)"

definition announce_logical_terminal ::
  "LoadAttemptId \<Rightarrow> PlayerPhysicalLoadOutcome \<Rightarrow> LoadAttempt \<Rightarrow> reducer_context \<Rightarrow> reducer_context" where
  "announce_logical_terminal attempt_id outcome prior c =
     (let c = c\<lparr>logical_terminal := Some (la_media_generation prior, outcome)\<rparr>
      in if retained_completion_attempt c \<noteq> Some attempt_id
            \<or> outcome \<noteq> PlayerPhysicalLoadOutcome.Ended
         then push_effect
                (PlayerLifecycleEffect.LogicalPlaybackTerminal
                   (la_media_generation prior) attempt_id outcome)
                (snd (queue_event (PlayerEvent.LogicalPlaybackTerminal
                        (la_media_generation prior) attempt_id outcome) c))
         else c)"

definition commit_physical_attempt_terminal ::
  "LoadAttemptId \<Rightarrow> PlayerPhysicalLoadOutcome \<Rightarrow> reducer_context \<Rightarrow> reducer_context" where
  "commit_physical_attempt_terminal attempt_id outcome c =
     (case attempt_of c attempt_id of
        None \<Rightarrow> c
      | Some prior \<Rightarrow>
          if la_epoch prior \<noteq> attachment_epoch c \<or> attempt_is_terminal (la_state prior) then c
          else
            (let logical_terminal_allowed =
                   (active_load_attempt c = Some attempt_id
                    \<and> \<not> accepted_successor_exists c attempt_id
                    \<and> la_superseded_by prior = None
                    \<and> \<not> la_logical_ownership_revoked prior);
                 c = detach_terminal_attempt attempt_id outcome prior c;
                 (terminal_order, c) = queue_event
                       (LoadAttemptTerminal attempt_id (la_media_generation prior) outcome) c;
                 c = modify_attempt attempt_id
                       (\<lambda>attempt. attempt\<lparr>la_physical_terminal_sequence :=
                          Some (eo_sequence terminal_order)\<rparr>) c;
                 c = settle_terminal_attempt attempt_id outcome prior c
             in if logical_terminal_allowed
                then announce_logical_terminal attempt_id outcome prior c
                else c))"

section \<open>Playlist reconciliation\<close>

definition awaiting_accepted_attempt :: "'a lifecycle \<Rightarrow> bool" where
  "awaiting_accepted_attempt s =
     list_ex (\<lambda>attempt. la_epoch attempt = attachment_epoch s
                \<and> \<not> attempt_is_terminal (la_state attempt)
                \<and> la_playlist_entry_id attempt = None
                \<and> (la_state attempt = Submitting
                   \<or> (la_state attempt \<in> {AcceptedUnbound, MayStillEmit}
                      \<and> (case la_reconcile_until_tick attempt of
                           Some deadline \<Rightarrow> now_tick s < deadline
                         | None \<Rightarrow> False))))
       (bt_values (load_attempts s))"

definition unresolved_attempt :: "'a lifecycle \<Rightarrow> bool" where
  "unresolved_attempt s =
     list_ex (\<lambda>attempt. la_epoch attempt = attachment_epoch s
                \<and> la_playlist_entry_id attempt = None
                \<and> la_state attempt \<in> {AcceptedUnbound, MayStillEmit}
                \<and> (case la_reconcile_until_tick attempt of
                     Some deadline \<Rightarrow> now_tick s < deadline
                   | None \<Rightarrow> False))
       (bt_values (load_attempts s))"

definition stoppable_state :: "LoadAttemptState \<Rightarrow> bool" where
  "stoppable_state st \<longleftrightarrow>
     st \<in> {Bound, Starting, Active, MayStillEmit} \<or> is_quiescent st \<or> is_superseded_state st"

definition finish_reconciliation :: "LoadLifecycleReconciliation \<Rightarrow> 'a lifecycle \<Rightarrow> 'a lifecycle" where
  "finish_reconciliation verdict s =
     s\<lparr>deferred_start_files := [], last_reconciliation := Some verdict,
       reconciliation_required := False, next_reconciliation_tick := None,
       reconciliation_backoff_ticks := INITIAL_RECONCILIATION_BACKOFF_TICKS\<rparr>"

definition retry_reconciliation :: "LoadLifecycleReconciliation \<Rightarrow> reducer_context \<Rightarrow> reducer_context" where
  "retry_reconciliation verdict c =
     push_effect RequestLifecycleReconciliation
       (schedule_reconciliation (c\<lparr>last_reconciliation := Some verdict\<rparr>))"

definition commit_all ::
  "PlayerPhysicalLoadOutcome \<Rightarrow> LoadAttemptId list \<Rightarrow> reducer_context \<Rightarrow> reducer_context" where
  "commit_all outcome ids c =
     fold (\<lambda>attempt_id. commit_physical_attempt_terminal attempt_id outcome) ids c"

definition reconcile_empty_playlist :: "string option \<Rightarrow> reducer_context \<Rightarrow> reducer_context" where
  "reconcile_empty_playlist current_path c =
     (if current_path \<noteq> None then retry_reconciliation IncompleteSnapshot c
      else if awaiting_accepted_attempt c then retry_reconciliation AwaitingAcceptedAttempt c
      else
        (let terminal_attempts =
               map la_id (filter (\<lambda>attempt. stoppable_state (la_state attempt))
                            (bt_values (load_attempts c)))
         in finish_reconciliation AuthoritativeIdle (commit_all Stopped terminal_attempts c)))"

definition contradicted_attempts ::
  "AuthoritativePlaylistEntry list \<Rightarrow> 'a lifecycle \<Rightarrow> LoadAttemptId list" where
  "contradicted_attempts entries s =
     (if \<not> list_ex pe_current entries then []
      else case active_load_attempt s of
             None \<Rightarrow> []
           | Some attempt_id \<Rightarrow>
               (case attempt_of s attempt_id of
                  None \<Rightarrow> []
                | Some attempt \<Rightarrow>
                    if la_epoch attempt = attachment_epoch s
                       \<and> \<not> attempt_is_terminal (la_state attempt)
                       \<and> (case la_playlist_entry_id attempt of
                            Some entry_id \<Rightarrow> entry_id \<notin> set (map pe_id entries)
                          | None \<Rightarrow> False)
                    then [attempt_id] else []))"

text \<open>
  For every unbound attempt that may still emit, the new entries whose original filename is its
  requested target.
\<close>

definition candidate_edges ::
  "AuthoritativePlaylistEntry list \<Rightarrow> 'a lifecycle \<Rightarrow> (LoadAttemptId \<times> i64 list) list" where
  "candidate_edges entries s =
     List.map_filter (\<lambda>attempt_id.
         map_option (\<lambda>attempt. (attempt_id,
             map pe_id (filter (\<lambda>entry. \<not> bt_contains (playlist_entry_attempts s) (pe_id entry)
                                  \<and> pe_id entry \<notin> la_baseline_playlist_entry_ids attempt
                                  \<and> pe_original_filename entry = Some (la_requested_target attempt))
                          entries)))
           (attempt_of s attempt_id))
       (map la_id (filter (\<lambda>attempt. la_epoch attempt = attachment_epoch s
                      \<and> may_receive_lifecycle (la_state attempt)
                      \<and> la_state attempt \<noteq> Submitting
                      \<and> la_playlist_entry_id attempt = None)
          (bt_values (load_attempts s))))"

definition bind_unique_candidate ::
  "(LoadAttemptId \<times> i64 list) list \<Rightarrow> LoadAttemptId \<times> i64 list \<Rightarrow> reducer_context \<Rightarrow> reducer_context" where
  "bind_unique_candidate edges edge c =
     (case snd edge of
        [entry_id] \<Rightarrow>
          if length (filter (\<lambda>(_, other_candidates). entry_id \<in> set other_candidates) edges) = 1
          then snd (bind_attempt (fst edge) entry_id c) else c
      | _ \<Rightarrow> c)"

definition start_current_entry ::
  "AuthoritativePlaylistEntry list \<Rightarrow> reducer_context \<Rightarrow> reducer_context" where
  "start_current_entry entries c =
     (case List.find pe_current entries of
        Some current \<Rightarrow>
          (case bt_get (playlist_entry_attempts c) (pe_id current) of
             Some attempt_id \<Rightarrow> start_attempt attempt_id (pe_id current) False c
           | None \<Rightarrow> c)
      | None \<Rightarrow> c)"

definition reconcile_playlist ::
  "AuthoritativePlaylistEntry list \<Rightarrow> string option \<Rightarrow> reducer_context \<Rightarrow> reducer_context" where
  "reconcile_playlist entries current_path c =
     (if entries = [] then reconcile_empty_playlist current_path c
      else
        (let c = commit_all Stopped (contradicted_attempts entries c) c;
             edges = candidate_edges entries c;
             c = fold (bind_unique_candidate edges) edges c;
             c = start_current_entry entries c;
             c = try_deferred_starts c
         in if unresolved_attempt c then retry_reconciliation AwaitingAcceptedAttempt c
            else finish_reconciliation Resolved c))"

end
