(* ===== verification/Lifecycle_Reducer.thy ===== *)
theory Lifecycle_Reducer
  imports Lifecycle_Ops
begin

text \<open>
  The inputs of the player lifecycle and \<open>reduce_player_lifecycle\<close> (\<open>lifecycle.rs\<close>): one
  definition per arm of the reducer's \<open>match\<close>, on the context of state and effects.
\<close>

section \<open>Inputs\<close>

datatype PlayerLifecycleInput =
    LoadAttemptSubmitted "PlayerCommandId option" PlayerMediaGeneration string "i64 set"
  | ExternalLoadObserved PlayerAttachmentEpoch PlayerMediaGeneration i64 string bool
  | LoadAttemptAccepted PlayerAttachmentEpoch LoadAttemptId
  | LoadAttemptRejected PlayerAttachmentEpoch LoadAttemptId PlayerCommandFailureKind
  | CommandSubmitted PlayerCommandId "PlayerMediaGeneration option" LifecycleCommandKind
  | CommandAccepted PlayerAttachmentEpoch PlayerCommandId
  | CommandRejected PlayerAttachmentEpoch PlayerCommandId PlayerCommandFailureKind
  | CommandSuperseded PlayerAttachmentEpoch PlayerCommandId
  | CommandTransportDisconnected PlayerAttachmentEpoch PlayerCommandId
  | CommandCompleted PlayerAttachmentEpoch PlayerCommandId
  | CommandCompletionNotObserved PlayerAttachmentEpoch PlayerCommandId
  | StartFile PlayerAttachmentEpoch i64
  | FileLoaded PlayerAttachmentEpoch "i64 option" "string option"
  | EndFile PlayerAttachmentEpoch i64 PlayerPhysicalLoadOutcome
  | RetainedEndOfFile PlayerAttachmentEpoch i64
  | PlaylistSnapshot PlayerAttachmentEpoch "AuthoritativePlaylistEntry list" "string option"
  | LifecycleReconciliationFailed PlayerAttachmentEpoch
  | EofObserved PlayerAttachmentEpoch "i64 option" bool "f64 option"
  | PlaybackRestart PlayerAttachmentEpoch "i64 option"
  | PositionObserved PlayerAttachmentEpoch PlayerMediaGeneration u64 f64
  | SeekingObserved PlayerAttachmentEpoch PlayerMediaGeneration u64 bool
  | PhaseObserved PlayerAttachmentEpoch PlayerTransportPhase
  | TransportDelta PlayerAttachmentEpoch PlayerTransportDelta
  | LocalFileChanged PlayerAttachmentEpoch LoadAttemptId PlayerMediaGeneration LocalFileUpdate
  | SeekCommandSubmitted PlayerCommandId PlayerMediaGeneration f64 f64 u64
  | SeekCommandAccepted PlayerAttachmentEpoch PlayerCommandId
  | SeekCommandRejected PlayerAttachmentEpoch PlayerCommandId PlayerCommandFailureKind
  | SeekCommandCompletionNotObserved PlayerAttachmentEpoch PlayerCommandId
  | EventGapDetected PlayerAttachmentEpoch
  | AuthoritativeSnapshotApplied PlayerAuthoritativeSnapshot
  | TimerAdvanced u64
  | TransportDisconnected PlayerAttachmentEpoch
  | AttachmentReplaced

section \<open>Loads\<close>

definition new_command ::
  "PlayerAttachmentEpoch \<Rightarrow> PlayerCommandId \<Rightarrow> PlayerMediaGeneration option \<Rightarrow> LifecycleCommandKind
   \<Rightarrow> LifecycleCommand" where
  "new_command epoch command_id media_generation kind =
     \<lparr>lc_id = command_id, lc_epoch = epoch, lc_media_generation = media_generation,
      lc_kind = kind, lc_state = CommandSemanticState.Submitted, lc_outcome_emitted = False,
      lc_terminal_sequence = None\<rparr>"

definition latest_open_attempt :: "'a lifecycle \<Rightarrow> LoadAttemptId option" where
  "latest_open_attempt s =
     map_option la_id
       (List.find (\<lambda>attempt. la_epoch attempt = attachment_epoch s
                     \<and> \<not> attempt_is_terminal (la_state attempt)
                     \<and> la_superseded_by attempt = None)
          (rev (bt_values (load_attempts s))))"

definition load_attempt_submitted ::
  "PlayerCommandId option \<Rightarrow> PlayerMediaGeneration \<Rightarrow> string \<Rightarrow> i64 set \<Rightarrow> reducer_context \<Rightarrow> reducer_context" where
  "load_attempt_submitted command_id media_generation requested_target baseline c =
     (if (case command_id of
            None \<Rightarrow> True
          | Some k \<Rightarrow> \<not> bt_contains (commands c) k \<and> \<not> is_retired_command c k)
      then
        (let (attempt_id, c) = allocate_load_attempt_id c;
             replaced_attempt = latest_open_attempt c;
             c = c\<lparr>load_attempts := bt_insert attempt_id
                     \<lparr>la_id = attempt_id, la_epoch = attachment_epoch c,
                      la_media_generation = media_generation, la_command_id = command_id,
                      la_requested_target = requested_target, la_playlist_entry_id = None,
                      la_baseline_playlist_entry_ids = baseline,
                      la_replaced_attempt = replaced_attempt, la_superseded_by = None,
                      la_logical_ownership_revoked = False, la_state = Submitting,
                      la_semantic_load_result = None, la_start_file_observed = False,
                      la_file_loaded_observed = False, la_reconcile_until_tick = None,
                      la_file_loaded_deadline_tick = None, la_semantic_outcome_sequence = None,
                      la_physical_terminal_sequence = None\<rparr> (load_attempts c)\<rparr>;
             c = (case command_id of
                    Some k \<Rightarrow> c\<lparr>commands := bt_insert k
                        (new_command (attachment_epoch c) k (Some media_generation) (Load attempt_id))
                        (commands c)\<rparr>
                  | None \<Rightarrow> c)
         in push_effect (LoadAttemptAllocated attempt_id command_id) c)
      else c)"

text \<open>
  What the accepted or externally observed successor does to the attempt it replaces: it becomes
  the only claimant, and the predecessor loses its logical ownership and its deadlines.
\<close>

definition supersede_predecessor :: "LoadAttemptId \<Rightarrow> LoadAttemptId \<Rightarrow> 'a lifecycle \<Rightarrow> 'a lifecycle" where
  "supersede_predecessor predecessor_id attempt_id s =
     modify_attempt predecessor_id
       (\<lambda>predecessor. predecessor\<lparr>la_superseded_by := Some attempt_id,
          la_logical_ownership_revoked := True,
          la_state := SupersededMayStillEmit attempt_id,
          la_reconcile_until_tick := None, la_file_loaded_deadline_tick := None\<rparr>)
       (retain_only_selected_successor_claim predecessor_id attempt_id s)"

definition external_attempt ::
  "PlayerMediaGeneration \<Rightarrow> i64 \<Rightarrow> string \<Rightarrow> bool \<Rightarrow> LoadAttemptId option \<Rightarrow> LoadAttemptId
   \<Rightarrow> 'a lifecycle \<Rightarrow> LoadAttempt" where
  "external_attempt media_generation playlist_entry_id observed_target file_loaded predecessor_id
       attempt_id s =
     \<lparr>la_id = attempt_id, la_epoch = attachment_epoch s,
      la_media_generation = media_generation, la_command_id = None,
      la_requested_target = observed_target,
      la_playlist_entry_id = Some playlist_entry_id,
      la_baseline_playlist_entry_ids = set (map fst (playlist_entry_attempts s)),
      la_replaced_attempt = predecessor_id, la_superseded_by = None,
      la_logical_ownership_revoked = False,
      la_state = (if file_loaded then Active else Starting),
      la_semantic_load_result = None, la_start_file_observed = True,
      la_file_loaded_observed = file_loaded, la_reconcile_until_tick = None,
      la_file_loaded_deadline_tick =
        (if file_loaded then None
         else Some (saturating_add (now_tick s) ACCEPTED_LOAD_COMPLETION_TICKS)),
      la_semantic_outcome_sequence = None, la_physical_terminal_sequence = None\<rparr>"

text \<open>The predecessor's revocation event, its command's outcome and its own outcome.\<close>

definition revoke_external_predecessor ::
  "LoadAttemptId \<Rightarrow> LoadAttemptId \<Rightarrow> reducer_context \<Rightarrow> reducer_context" where
  "revoke_external_predecessor predecessor_id attempt_id c =
     (case attempt_of c predecessor_id of
        None \<Rightarrow> c
      | Some predecessor \<Rightarrow>
          if attempt_is_terminal (la_state predecessor) then c
          else
            (let c = supersede_predecessor predecessor_id attempt_id c;
                 c = snd (queue_event (LoadAttemptLogicalOwnershipRevoked predecessor_id
                            (la_media_generation predecessor) attempt_id) c);
                 c = (case la_command_id predecessor of
                        Some command_id \<Rightarrow> command_terminal command_id CommandSemanticState.Superseded c
                      | None \<Rightarrow> c)
             in emit_load_outcome predecessor_id PlayerLoadAttemptResult.Superseded None c))"

definition external_load_observed ::
  "PlayerAttachmentEpoch \<Rightarrow> PlayerMediaGeneration \<Rightarrow> i64 \<Rightarrow> string \<Rightarrow> bool \<Rightarrow> reducer_context \<Rightarrow> reducer_context" where
  "external_load_observed epoch media_generation playlist_entry_id observed_target file_loaded c =
     (if epoch \<noteq> attachment_epoch c
         \<or> bt_contains (playlist_entry_attempts c) playlist_entry_id
         \<or> is_known_terminal_playlist_entry c playlist_entry_id
      then c
      else
        (let predecessor_id = active_load_attempt c;
             (attempt_id, c) = allocate_load_attempt_id c;
             c = c\<lparr>load_attempts := bt_insert attempt_id
                     (external_attempt media_generation playlist_entry_id observed_target file_loaded
                        predecessor_id attempt_id c) (load_attempts c)\<rparr>;
             c = (case predecessor_id of
                    Some p \<Rightarrow> revoke_external_predecessor p attempt_id c
                  | None \<Rightarrow> c);
             c = c\<lparr>playlist_entry_attempts :=
                     bt_insert playlist_entry_id attempt_id (playlist_entry_attempts c),
                   active_load_attempt := Some attempt_id, provisional_eof := None,
                   logical_terminal := None\<rparr>;
             c = snd (queue_event (LoadAttemptBound attempt_id media_generation None playlist_entry_id) c);
             c = snd (queue_event (LoadAttemptStarting attempt_id media_generation None
                        playlist_entry_id True) c)
         in if file_loaded
            then emit_load_outcome attempt_id Loaded (Some observed_target)
                   (snd (queue_event (LoadAttemptActive attempt_id media_generation None
                           playlist_entry_id) c))
            else c))"

definition supersede_accepted_predecessor ::
  "LoadAttemptId \<Rightarrow> LoadAttemptId \<Rightarrow> reducer_context \<Rightarrow> reducer_context" where
  "supersede_accepted_predecessor predecessor_id attempt_id c =
     (let predecessor_command = Option.bind (attempt_of c predecessor_id) la_command_id;
          c = (case attempt_of c predecessor_id of
                 Some predecessor \<Rightarrow>
                   if attempt_is_terminal (la_state predecessor) then c
                   else snd (queue_event (LoadAttemptLogicalOwnershipRevoked predecessor_id
                               (la_media_generation predecessor) attempt_id)
                               (supersede_predecessor predecessor_id attempt_id c))
               | None \<Rightarrow> c);
          c = (case predecessor_command of
                 Some command_id \<Rightarrow> command_terminal command_id CommandSemanticState.Superseded c
               | None \<Rightarrow> c)
      in emit_load_outcome predecessor_id PlayerLoadAttemptResult.Superseded None c)"

text \<open>The accepted attempt's own transition, with its command and its two deadlines.\<close>

definition accept_submitting_attempt ::
  "PlayerAttachmentEpoch \<Rightarrow> LoadAttemptId \<Rightarrow> PlayerCommandId option \<Rightarrow> 'a lifecycle \<Rightarrow> 'a lifecycle" where
  "accept_submitting_attempt epoch attempt_id command_id s =
     (let s = (case command_id of
                 Some k \<Rightarrow> modify_command k
                   (\<lambda>command. if lc_epoch command = epoch
                                 \<and> lc_state command = CommandSemanticState.Submitted
                              then command\<lparr>lc_state := CommandSemanticState.Accepted\<rparr>
                              else command) s
               | None \<Rightarrow> s);
          deadline = saturating_add (now_tick s) ACCEPTED_LOAD_COMPLETION_TICKS
      in modify_attempt attempt_id
           (\<lambda>attempt. attempt\<lparr>la_state := AcceptedUnbound,
              la_reconcile_until_tick := Some deadline,
              la_file_loaded_deadline_tick := Some deadline\<rparr>) s)"

definition load_attempt_accepted :: "PlayerAttachmentEpoch \<Rightarrow> LoadAttemptId \<Rightarrow> reducer_context \<Rightarrow> reducer_context" where
  "load_attempt_accepted epoch attempt_id c =
     (if epoch \<noteq> attachment_epoch c then c
      else case attempt_of c attempt_id of
             None \<Rightarrow> c
           | Some attempt \<Rightarrow>
               if \<not> (la_epoch attempt = epoch \<and> la_state attempt = Submitting) then c
               else
                 (let c = accept_submitting_attempt epoch attempt_id (la_command_id attempt) c;
                      c = (case la_replaced_attempt attempt of
                             Some predecessor_id \<Rightarrow>
                               supersede_accepted_predecessor predecessor_id attempt_id c
                           | None \<Rightarrow> c);
                      c = c\<lparr>logical_terminal := None, provisional_eof := None\<rparr>;
                      c = try_deferred_starts c
                  in push_effect RequestLifecycleReconciliation (schedule_reconciliation c)))"

definition load_attempt_rejected ::
  "PlayerAttachmentEpoch \<Rightarrow> LoadAttemptId \<Rightarrow> PlayerCommandFailureKind \<Rightarrow> reducer_context \<Rightarrow> reducer_context" where
  "load_attempt_rejected epoch attempt_id failure c =
     (case attempt_of c attempt_id of
        None \<Rightarrow> c
      | Some attempt \<Rightarrow>
          if epoch \<noteq> attachment_epoch c
             \<or> \<not> (la_epoch attempt = epoch \<and> la_state attempt = Submitting)
          then c
          else
            (let c = (case la_command_id attempt of
                        Some command_id \<Rightarrow>
                          command_terminal command_id (CommandSemanticState.Failed failure) c
                      | None \<Rightarrow> c);
                 c = emit_load_outcome attempt_id PlayerLoadAttemptResult.NeverStarted None c
             in commit_physical_attempt_terminal attempt_id PlayerPhysicalLoadOutcome.NeverStarted c))"

section \<open>Commands\<close>

definition command_submitted ::
  "PlayerCommandId \<Rightarrow> PlayerMediaGeneration option \<Rightarrow> LifecycleCommandKind \<Rightarrow> reducer_context \<Rightarrow> reducer_context" where
  "command_submitted command_id media_generation kind c =
     (if is_retired_command c command_id \<or> bt_contains (commands c) command_id then c
      else c\<lparr>commands := bt_insert command_id
               (new_command (attachment_epoch c) command_id media_generation kind) (commands c)\<rparr>)"

definition is_pause_or_play :: "LifecycleCommandKind \<Rightarrow> bool" where
  "is_pause_or_play kind \<longleftrightarrow> kind = Pause \<or> kind = Play"

definition command_accepted :: "PlayerAttachmentEpoch \<Rightarrow> PlayerCommandId \<Rightarrow> reducer_context \<Rightarrow> reducer_context" where
  "command_accepted epoch command_id c =
     (if epoch \<noteq> attachment_epoch c then c
      else case command_of c command_id of
             None \<Rightarrow> c
           | Some accepted \<Rightarrow>
               if \<not> (lc_epoch accepted = epoch \<and> lc_state accepted = CommandSemanticState.Submitted)
               then c
               else
                 (let superseded = map lc_id (filter (\<lambda>command. lc_id command \<noteq> command_id
                                      \<and> lc_epoch command = epoch
                                      \<and> \<not> command_is_terminal (lc_state command)
                                      \<and> is_pause_or_play (lc_kind accepted)
                                      \<and> is_pause_or_play (lc_kind command))
                                    (bt_values (commands c)));
                      c = fold (\<lambda>superseded_id.
                             command_terminal superseded_id CommandSemanticState.Superseded) superseded c
                  in modify_command command_id
                       (\<lambda>command. command\<lparr>lc_state := CommandSemanticState.Accepted\<rparr>) c))"

definition set_seek_state :: "SystemSeekOwnershipState set \<Rightarrow> SystemSeekOwnershipState
    \<Rightarrow> PlayerCommandId \<Rightarrow> 'a lifecycle \<Rightarrow> 'a lifecycle" where
  "set_seek_state from_states to_state command_id s =
     modify_seek command_id
       (\<lambda>owner. if sk_state owner \<in> from_states then owner\<lparr>sk_state := to_state\<rparr> else owner) s"

text \<open>\<open>CommandRejected\<close> and \<open>SeekCommandRejected\<close> have the same arm.\<close>

definition command_rejected ::
  "PlayerAttachmentEpoch \<Rightarrow> PlayerCommandId \<Rightarrow> PlayerCommandFailureKind \<Rightarrow> reducer_context \<Rightarrow> reducer_context" where
  "command_rejected epoch command_id failure c =
     (if epoch = attachment_epoch c
      then set_seek_state UNIV Invalidated command_id
             (command_terminal command_id (CommandSemanticState.Failed failure) c)
      else c)"

definition command_superseded :: "PlayerAttachmentEpoch \<Rightarrow> PlayerCommandId \<Rightarrow> reducer_context \<Rightarrow> reducer_context" where
  "command_superseded epoch command_id c =
     (if epoch = attachment_epoch c
      then set_seek_state {SystemSeekOwnershipState.Submitted, SystemSeekOwnershipState.Accepted}
             MayStillArrive command_id
             (command_terminal command_id CommandSemanticState.Superseded c)
      else c)"

definition command_transport_disconnected ::
  "PlayerAttachmentEpoch \<Rightarrow> PlayerCommandId \<Rightarrow> reducer_context \<Rightarrow> reducer_context" where
  "command_transport_disconnected epoch command_id c =
     (if epoch = attachment_epoch c
      then set_seek_state UNIV Invalidated command_id
             (command_terminal command_id CommandSemanticState.TransportDisconnected c)
      else c)"

definition command_completed :: "PlayerAttachmentEpoch \<Rightarrow> PlayerCommandId \<Rightarrow> reducer_context \<Rightarrow> reducer_context" where
  "command_completed epoch command_id c =
     (if epoch = attachment_epoch c
      then command_terminal command_id CommandSemanticState.Completed
             (set_seek_state {SystemSeekOwnershipState.Submitted, SystemSeekOwnershipState.Accepted,
                MayStillArrive} Observed command_id c)
      else c)"

text \<open>A load whose command expired: an attempt that never started becomes quiescent.\<close>

definition expire_attempt ::
  "LoadAttemptId \<Rightarrow> bool \<Rightarrow> u64 \<Rightarrow> 'a lifecycle \<Rightarrow> 'a lifecycle" where
  "expire_attempt attempt_id owns_transport retire_after_tick s =
     modify_attempt attempt_id
       (\<lambda>attempt. if owns_transport then attempt\<lparr>la_file_loaded_deadline_tick := None\<rparr>
                  else attempt\<lparr>la_file_loaded_deadline_tick := None,
                         la_state := MayStillEmitQuiescent retire_after_tick,
                         la_reconcile_until_tick := None\<rparr>) s"

definition owns_transport_after_start :: "'a lifecycle \<Rightarrow> LoadAttemptId \<Rightarrow> bool" where
  "owns_transport_after_start s attempt_id \<longleftrightarrow>
     active_load_attempt s = Some attempt_id
     \<and> (case attempt_of s attempt_id of Some attempt \<Rightarrow> la_start_file_observed attempt | None \<Rightarrow> False)"

definition release_transport :: "LoadAttemptId \<Rightarrow> bool \<Rightarrow> 'a lifecycle \<Rightarrow> 'a lifecycle" where
  "release_transport attempt_id owns_transport s =
     (if \<not> owns_transport \<and> active_load_attempt s = Some attempt_id
      then s\<lparr>active_load_attempt := None, provisional_eof := None\<rparr> else s)"

definition command_completion_not_observed ::
  "PlayerAttachmentEpoch \<Rightarrow> PlayerCommandId \<Rightarrow> reducer_context \<Rightarrow> reducer_context" where
  "command_completion_not_observed epoch command_id c =
     (if epoch \<noteq> attachment_epoch c then c
      else
        (let c = command_terminal command_id CommandSemanticState.CompletionNotObserved c;
             c = set_seek_state {SystemSeekOwnershipState.Submitted, SystemSeekOwnershipState.Accepted}
                   MayStillArrive command_id c
         in case attempt_for_command c command_id of
              None \<Rightarrow> c
            | Some attempt_id \<Rightarrow>
                (case attempt_of c attempt_id of
                   None \<Rightarrow> c
                 | Some attempt \<Rightarrow>
                     if attempt_is_terminal (la_state attempt)
                        \<or> is_superseded_state (la_state attempt) \<or> is_quiescent (la_state attempt)
                     then c
                     else
                       (let owns_transport = owns_transport_after_start c attempt_id;
                            c = expire_attempt attempt_id owns_transport
                                  (saturating_add (now_tick c) QUIESCENT_LOAD_ATTEMPT_RETENTION_TICKS) c;
                            c = release_transport attempt_id owns_transport c;
                            c = emit_load_outcome attempt_id Indeterminate None c
                        in if owns_transport then c
                           else stop_reconciliation_without_proactive_work c))))"

section \<open>Player lifecycle events\<close>

definition start_file :: "PlayerAttachmentEpoch \<Rightarrow> i64 \<Rightarrow> reducer_context \<Rightarrow> reducer_context" where
  "start_file epoch playlist_entry_id c =
     (if epoch \<noteq> attachment_epoch c \<or> is_known_terminal_playlist_entry c playlist_entry_id then c
      else case strict_start_owner c playlist_entry_id of
             Some attempt_id \<Rightarrow> start_attempt attempt_id playlist_entry_id True c
           | None \<Rightarrow>
               (let c = (if list_ex (\<lambda>event. ds_epoch event = epoch
                                       \<and> ds_playlist_entry_id event = playlist_entry_id)
                               (deferred_start_files c)
                         then c
                         else c\<lparr>deferred_start_files := deferred_start_files c @
                                  [\<lparr>ds_epoch = epoch, ds_playlist_entry_id = playlist_entry_id\<rparr>]\<rparr>)
                in push_effect RequestLifecycleReconciliation (schedule_reconciliation c)))"

text \<open>The attempt takes the transport; an attempt that was active falls back.\<close>

definition take_transport :: "LoadAttemptId \<Rightarrow> 'a lifecycle \<Rightarrow> 'a lifecycle" where
  "take_transport attempt_id s =
     (let s = (case active_load_attempt s of
                 Some previous_id \<Rightarrow>
                   if previous_id \<noteq> attempt_id
                   then modify_attempt previous_id
                          (\<lambda>previous. if la_state previous = Active
                             then previous\<lparr>la_state := demoted_state previous\<rparr> else previous) s
                   else s
               | None \<Rightarrow> s)
      in s\<lparr>active_load_attempt := Some attempt_id\<rparr>)"

definition file_loaded ::
  "PlayerAttachmentEpoch \<Rightarrow> i64 option \<Rightarrow> string option \<Rightarrow> reducer_context \<Rightarrow> reducer_context" where
  "file_loaded epoch playlist_entry_id loaded_target c =
     (if epoch \<noteq> attachment_epoch c then c
      else case Option.bind playlist_entry_id (bt_get (playlist_entry_attempts c)) of
             None \<Rightarrow> push_effect RequestLifecycleReconciliation (schedule_reconciliation c)
           | Some attempt_id \<Rightarrow>
               (case attempt_of c attempt_id of
                  None \<Rightarrow> c
                | Some prior \<Rightarrow>
                    (let first_observation =
                           (\<not> attempt_is_terminal (la_state prior) \<and> \<not> la_file_loaded_observed prior);
                         owns_logical_playback =
                           (first_observation \<and> \<not> la_logical_ownership_revoked prior);
                         c = (if first_observation
                              then modify_attempt attempt_id
                                     (\<lambda>attempt. attempt\<lparr>la_file_loaded_observed := True,
                                        la_file_loaded_deadline_tick := None,
                                        la_state := (if owns_logical_playback then Active
                                                     else la_state attempt)\<rparr>) c
                              else c);
                         c = (if owns_logical_playback then take_transport attempt_id c else c);
                         c = (case la_playlist_entry_id prior of
                                Some entry_id \<Rightarrow>
                                  if owns_logical_playback
                                  then snd (queue_event (LoadAttemptActive attempt_id
                                         (la_media_generation prior) (la_command_id prior) entry_id) c)
                                  else c
                              | None \<Rightarrow> c);
                         c = (if first_observation
                              then push_effect (PhysicalFileLoaded attempt_id owns_logical_playback) c
                              else c)
                     in if owns_logical_playback
                        then let c = emit_load_outcome attempt_id Loaded loaded_target c
                             in case la_command_id prior of
                                  Some command_id \<Rightarrow>
                                    command_terminal command_id CommandSemanticState.Completed c
                                | None \<Rightarrow> c
                        else c)))"

definition end_file ::
  "PlayerAttachmentEpoch \<Rightarrow> i64 \<Rightarrow> PlayerPhysicalLoadOutcome \<Rightarrow> reducer_context \<Rightarrow> reducer_context" where
  "end_file epoch playlist_entry_id outcome c =
     (if epoch \<noteq> attachment_epoch c then c
      else case bt_get (playlist_entry_attempts c) playlist_entry_id of
             Some attempt_id \<Rightarrow> commit_physical_attempt_terminal attempt_id outcome c
           | None \<Rightarrow>
               if list_ex (\<lambda>attempt. la_epoch attempt = epoch
                             \<and> la_playlist_entry_id attempt = Some playlist_entry_id
                             \<and> attempt_is_terminal (la_state attempt))
                    (bt_values (load_attempts c))
               then c
               else push_effect RequestLifecycleReconciliation (schedule_reconciliation c))"

definition retained_end_of_file :: "PlayerAttachmentEpoch \<Rightarrow> i64 \<Rightarrow> reducer_context \<Rightarrow> reducer_context" where
  "retained_end_of_file epoch playlist_entry_id c =
     (case active_attempt c of
        None \<Rightarrow> c
      | Some attempt \<Rightarrow>
          if epoch = attachment_epoch c
             \<and> la_playlist_entry_id attempt = Some playlist_entry_id
             \<and> la_file_loaded_observed attempt
             \<and> \<not> la_logical_ownership_revoked attempt
             \<and> la_superseded_by attempt = None
             \<and> \<not> accepted_successor_exists c (la_id attempt)
             \<and> retained_completion_attempt c \<noteq> Some (la_id attempt)
          then
            (let c = c\<lparr>retained_completion_attempt := Some (la_id attempt)\<rparr>;
                 c = snd (queue_event (PlayerEvent.LogicalPlaybackTerminal
                            (la_media_generation attempt) (la_id attempt)
                            PlayerPhysicalLoadOutcome.Ended) c)
             in push_effect (PlayerLifecycleEffect.LogicalPlaybackTerminal
                  (la_media_generation attempt) (la_id attempt) PlayerPhysicalLoadOutcome.Ended) c)
          else c)"

definition playlist_snapshot ::
  "PlayerAttachmentEpoch \<Rightarrow> AuthoritativePlaylistEntry list \<Rightarrow> string option
   \<Rightarrow> reducer_context \<Rightarrow> reducer_context" where
  "playlist_snapshot epoch entries current_path c =
     (if epoch = attachment_epoch c then reconcile_playlist entries current_path c else c)"

definition lifecycle_reconciliation_failed ::
  "PlayerAttachmentEpoch \<Rightarrow> reducer_context \<Rightarrow> reducer_context" where
  "lifecycle_reconciliation_failed epoch c =
     (if epoch = attachment_epoch c
      then schedule_reconciliation (c\<lparr>last_reconciliation := Some TransportFailure\<rparr>) else c)"

section \<open>Observations\<close>

definition entry_attempt :: "'a lifecycle \<Rightarrow> i64 option \<Rightarrow> LoadAttemptId option" where
  "entry_attempt s playlist_entry_id =
     Option.bind playlist_entry_id (bt_get (playlist_entry_attempts s))"

definition eof_observed ::
  "PlayerAttachmentEpoch \<Rightarrow> i64 option \<Rightarrow> bool \<Rightarrow> f64 option \<Rightarrow> reducer_context \<Rightarrow> reducer_context" where
  "eof_observed epoch playlist_entry_id reached position_seconds c =
     (if epoch \<noteq> attachment_epoch c then c
      else
        (let attempt_id = entry_attempt c playlist_entry_id;
             c = (if reached
                  then (case attempt_id of
                          Some a \<Rightarrow> c\<lparr>provisional_eof := Some \<lparr>pc_attempt_id = a,
                              pc_last_position_seconds = position_seconds\<rparr>\<rparr>
                        | None \<Rightarrow> c)
                  else if (case provisional_eof c of
                             Some candidate \<Rightarrow> Some (pc_attempt_id candidate) = attempt_id
                           | None \<Rightarrow> False)
                  then c\<lparr>provisional_eof := None\<rparr> else c)
         in if reached then c else c\<lparr>retained_completion_attempt := None\<rparr>))"

definition playback_restart :: "PlayerAttachmentEpoch \<Rightarrow> i64 option \<Rightarrow> reducer_context \<Rightarrow> reducer_context" where
  "playback_restart epoch playlist_entry_id c =
     (if epoch \<noteq> attachment_epoch c then c
      else
        (let c = c\<lparr>retained_completion_attempt := None\<rparr>
         in if (case provisional_eof c of
                  Some candidate \<Rightarrow> Some (pc_attempt_id candidate) = entry_attempt c playlist_entry_id
                | None \<Rightarrow> False)
            then c\<lparr>provisional_eof := None\<rparr> else c))"

definition within_seek_tolerance :: "SystemSeekOwnership \<Rightarrow> f64 \<Rightarrow> bool" where
  "within_seek_tolerance owner position_seconds =
     f64_le (f64_abs (f64_sub (sk_raw_player_target_seconds owner) position_seconds))
       SEEK_MATCH_TOLERANCE_SECONDS"

definition seek_in_scope :: "PlayerAttachmentEpoch \<Rightarrow> PlayerMediaGeneration \<Rightarrow> u64 \<Rightarrow> SystemSeekOwnership \<Rightarrow> bool" where
  "seek_in_scope epoch media_generation observed_sequence owner \<longleftrightarrow>
     sk_epoch owner = epoch \<and> sk_media_generation owner = media_generation
     \<and> sk_dispatch_sequence_boundary owner < observed_sequence"

definition eof_contradicted_by_position :: "PlayerMediaGeneration \<Rightarrow> f64 \<Rightarrow> 'a lifecycle \<Rightarrow> bool" where
  "eof_contradicted_by_position media_generation position_seconds s =
     (case provisional_eof s of
        None \<Rightarrow> False
      | Some candidate \<Rightarrow>
          (case attempt_of s (pc_attempt_id candidate) of
             Some attempt \<Rightarrow> la_media_generation attempt = media_generation
           | None \<Rightarrow> False)
          \<and> (case pc_last_position_seconds candidate of
               Some previous \<Rightarrow> f64_lt (f64_add previous f64_epsilon) position_seconds
             | None \<Rightarrow> False))"

definition position_observed ::
  "PlayerAttachmentEpoch \<Rightarrow> PlayerMediaGeneration \<Rightarrow> u64 \<Rightarrow> f64 \<Rightarrow> reducer_context \<Rightarrow> reducer_context" where
  "position_observed epoch media_generation observed_sequence position_seconds c =
     (if epoch \<noteq> attachment_epoch c then c
      else
        (let c = (if eof_contradicted_by_position media_generation position_seconds c
                  then c\<lparr>provisional_eof := None\<rparr> else c)
         in case List.find (\<lambda>(command_id, owner).
                     seek_in_scope epoch media_generation observed_sequence owner
                     \<and> sk_state owner \<in> {SystemSeekOwnershipState.Accepted, MayStillArrive}
                     \<and> within_seek_tolerance owner position_seconds) (seek_ownership c) of
              Some (command_id, _) \<Rightarrow>
                (let c = modify_seek command_id (\<lambda>owner. owner\<lparr>sk_state := Observed\<rparr>) c;
                     c = command_terminal command_id CommandSemanticState.Completed c;
                     c = push_effect (ConsumeSystemSeek command_id position_seconds) c
                 in c\<lparr>pending_native_seek_generation := None\<rparr>)
            | None \<Rightarrow>
                (let matched = (\<lambda>tombstone.
                       seek_in_scope epoch media_generation observed_sequence (rs_ownership tombstone)
                       \<and> within_seek_tolerance (rs_ownership tombstone) position_seconds)
                 in case List.find matched (retired_seek_tombstones c) of
                      Some tombstone \<Rightarrow>
                        (let c = c\<lparr>retired_seek_tombstones :=
                                     remove_first matched (retired_seek_tombstones c)\<rparr>;
                             c = push_effect (ConsumeSystemSeek
                                   (sk_command_id (rs_ownership tombstone)) position_seconds) c
                         in c\<lparr>pending_native_seek_generation := None\<rparr>)
                    | None \<Rightarrow>
                        if pending_native_seek_generation c = Some media_generation
                        then let c = c\<lparr>pending_native_seek_generation := None\<rparr>
                             in if bt_contains (uncertain_seek_generations c) media_generation then c
                                else push_effect
                                       (NativeSeekCandidate media_generation position_seconds) c
                        else c)))"

definition seeking_observed ::
  "PlayerAttachmentEpoch \<Rightarrow> PlayerMediaGeneration \<Rightarrow> u64 \<Rightarrow> bool \<Rightarrow> reducer_context \<Rightarrow> reducer_context" where
  "seeking_observed epoch media_generation observed_sequence seeking c =
     (if \<not> (epoch = attachment_epoch c \<and> seeking) then c
      else
        (let c = c\<lparr>provisional_eof := None, retained_completion_attempt := None\<rparr>;
             may_be_system_seek =
               (list_ex (\<lambda>owner. seek_in_scope epoch media_generation observed_sequence owner
                           \<and> sk_state owner \<in> {SystemSeekOwnershipState.Accepted, MayStillArrive})
                  (bt_values (seek_ownership c))
                \<or> list_ex (\<lambda>tombstone.
                      seek_in_scope epoch media_generation observed_sequence (rs_ownership tombstone))
                    (retired_seek_tombstones c)
                \<or> bt_contains (uncertain_seek_generations c) media_generation)
         in c\<lparr>pending_native_seek_generation :=
                (if may_be_system_seek then None else Some media_generation)\<rparr>))"

definition phase_observed :: "PlayerAttachmentEpoch \<Rightarrow> PlayerTransportPhase \<Rightarrow> reducer_context \<Rightarrow> reducer_context" where
  "phase_observed epoch phase c =
     (if epoch = attachment_epoch c \<and> phase \<in> {Playing, Prebuffering, Rebuffering, Seeking}
      then c\<lparr>provisional_eof := None\<rparr> else c)"

definition transport_delta :: "PlayerAttachmentEpoch \<Rightarrow> PlayerTransportDelta \<Rightarrow> reducer_context \<Rightarrow> reducer_context" where
  "transport_delta epoch delta c =
     (if epoch = attachment_epoch c
      then snd (queue_event (PlayerEvent.TransportDelta delta) c) else c)"

definition local_file_changed ::
  "PlayerAttachmentEpoch \<Rightarrow> LoadAttemptId \<Rightarrow> PlayerMediaGeneration \<Rightarrow> LocalFileUpdate
   \<Rightarrow> reducer_context \<Rightarrow> reducer_context" where
  "local_file_changed epoch attempt_id media_generation update c =
     (case attempt_of c attempt_id of
        Some attempt \<Rightarrow>
          if epoch = attachment_epoch c
             \<and> la_epoch attempt = epoch
             \<and> la_media_generation attempt = media_generation
             \<and> \<not> attempt_is_terminal (la_state attempt)
          then snd (queue_event (PlayerEvent.LocalFileChanged attempt_id media_generation update) c)
          else c
      | None \<Rightarrow> c)"

section \<open>Seek commands\<close>

definition seek_command_submitted ::
  "PlayerCommandId \<Rightarrow> PlayerMediaGeneration \<Rightarrow> f64 \<Rightarrow> f64 \<Rightarrow> u64 \<Rightarrow> reducer_context \<Rightarrow> reducer_context" where
  "seek_command_submitted command_id media_generation raw_target room_target dispatch_boundary c =
     (if is_retired_command c command_id then c
      else
        (let superseded = map lc_id (filter (\<lambda>command. lc_epoch command = attachment_epoch c
                             \<and> lc_id command \<noteq> command_id
                             \<and> lc_kind command = Seek
                             \<and> \<not> command_is_terminal (lc_state command))
                           (bt_values (commands c)));
             c = fold (\<lambda>superseded_id c.
                   set_seek_state {SystemSeekOwnershipState.Submitted, SystemSeekOwnershipState.Accepted}
                     MayStillArrive superseded_id
                     (command_terminal superseded_id CommandSemanticState.Superseded c)) superseded c;
             c = (if bt_contains (commands c) command_id then c
                  else c\<lparr>commands := bt_insert command_id
                           (new_command (attachment_epoch c) command_id (Some media_generation) Seek)
                           (commands c)\<rparr>)
         in c\<lparr>seek_ownership := bt_insert command_id
                \<lparr>sk_epoch = attachment_epoch c, sk_media_generation = media_generation,
                 sk_raw_player_target_seconds = raw_target,
                 sk_effective_room_target_seconds = room_target, sk_command_id = command_id,
                 sk_dispatch_sequence_boundary = dispatch_boundary,
                 sk_state = SystemSeekOwnershipState.Submitted\<rparr> (seek_ownership c)\<rparr>))"

definition seek_command_accepted :: "PlayerAttachmentEpoch \<Rightarrow> PlayerCommandId \<Rightarrow> reducer_context \<Rightarrow> reducer_context" where
  "seek_command_accepted epoch command_id c =
     (if epoch \<noteq> attachment_epoch c then c
      else set_seek_state {SystemSeekOwnershipState.Submitted} SystemSeekOwnershipState.Accepted command_id
             (modify_command command_id
                (\<lambda>command. if lc_epoch command = epoch
                              \<and> lc_state command = CommandSemanticState.Submitted
                           then command\<lparr>lc_state := CommandSemanticState.Accepted\<rparr> else command) c))"

definition seek_command_completion_not_observed ::
  "PlayerAttachmentEpoch \<Rightarrow> PlayerCommandId \<Rightarrow> reducer_context \<Rightarrow> reducer_context" where
  "seek_command_completion_not_observed epoch command_id c =
     (if epoch \<noteq> attachment_epoch c then c
      else set_seek_state {SystemSeekOwnershipState.Submitted, SystemSeekOwnershipState.Accepted}
             MayStillArrive command_id
             (command_terminal command_id CommandSemanticState.CompletionNotObserved c))"

section \<open>Gaps, snapshots and time\<close>

definition event_gap_detected :: "PlayerAttachmentEpoch \<Rightarrow> reducer_context \<Rightarrow> reducer_context" where
  "event_gap_detected epoch c =
     (if epoch = attachment_epoch c
      then (mark_gap c)\<lparr>pending_native_seek_generation := None\<rparr> else c)"

definition authoritative_snapshot_applied ::
  "PlayerAuthoritativeSnapshot \<Rightarrow> reducer_context \<Rightarrow> reducer_context" where
  "authoritative_snapshot_applied snapshot c =
     (if as_epoch snapshot = attachment_epoch c
         \<and> sb_epoch (as_boundary snapshot) = attachment_epoch c
         \<and> sb_through (as_boundary snapshot) \<le> last_event_sequence c
      then
        (let c = c\<lparr>recovery_snapshot := Some snapshot, gap_detected := True\<rparr>
         in if cached_batch c = None
            then c\<lparr>pending_events := filter (\<lambda>event.
                     uncovered (attachment_epoch c) (sb_through (as_boundary snapshot)) (se_order event))
                   (pending_events c)\<rparr>
            else c)
      else c)"

definition expired_load_attempts :: "'a lifecycle \<Rightarrow> LoadAttemptId list" where
  "expired_load_attempts s =
     map la_id (filter (\<lambda>attempt. \<not> attempt_is_terminal (la_state attempt)
                   \<and> \<not> la_logical_ownership_revoked attempt
                   \<and> la_semantic_load_result attempt = None
                   \<and> (case la_file_loaded_deadline_tick attempt of
                        Some deadline \<Rightarrow> deadline \<le> now_tick s
                      | None \<Rightarrow> False))
       (bt_values (load_attempts s)))"

definition expire_load_attempt :: "u64 \<Rightarrow> LoadAttemptId \<Rightarrow> reducer_context \<Rightarrow> reducer_context" where
  "expire_load_attempt retire_after_tick attempt_id c =
     (let command_id = Option.bind (attempt_of c attempt_id) la_command_id;
          owns_transport = owns_transport_after_start c attempt_id;
          c = expire_attempt attempt_id owns_transport retire_after_tick c;
          c = release_transport attempt_id owns_transport c;
          c = emit_load_outcome attempt_id Indeterminate None c
      in case command_id of
           Some k \<Rightarrow> command_terminal k CommandSemanticState.CompletionNotObserved c
         | None \<Rightarrow> c)"

definition expired_quiescent_attempts :: "'a lifecycle \<Rightarrow> LoadAttemptId list" where
  "expired_quiescent_attempts s =
     map la_id (filter (\<lambda>attempt. case la_state attempt of
                     MayStillEmitQuiescent retire_after_tick \<Rightarrow> retire_after_tick \<le> now_tick s
                   | _ \<Rightarrow> False) (bt_values (load_attempts s)))"

definition timer_advanced :: "u64 \<Rightarrow> reducer_context \<Rightarrow> reducer_context" where
  "timer_advanced tick c =
     (let c = c\<lparr>now_tick := max (now_tick c) tick\<rparr>;
          c = prune_expired_seek_tombstones c;
          expired = expired_load_attempts c;
          quiescent_retire_after_tick =
            saturating_add (now_tick c) QUIESCENT_LOAD_ATTEMPT_RETENTION_TICKS;
          c = fold (expire_load_attempt quiescent_retire_after_tick) expired c;
          c = commit_all PlayerPhysicalLoadOutcome.NeverStarted (expired_quiescent_attempts c) c;
          c = stop_reconciliation_without_proactive_work c
      in if reconciliation_required c
            \<and> (case next_reconciliation_tick c of
                 None \<Rightarrow> True
               | Some deadline \<Rightarrow> deadline \<le> now_tick c)
         then schedule_reconciliation (push_effect RequestLifecycleReconciliation c)
         else c)"

section \<open>Disconnect and replacement of the attachment\<close>

definition open_command_ids :: "'a lifecycle \<Rightarrow> PlayerCommandId list" where
  "open_command_ids s =
     map lc_id (filter (\<lambda>command. \<not> command_is_terminal (lc_state command)) (bt_values (commands s)))"

definition open_attempt_ids :: "'a lifecycle \<Rightarrow> LoadAttemptId list" where
  "open_attempt_ids s =
     map la_id (filter (\<lambda>attempt. \<not> attempt_is_terminal (la_state attempt))
       (bt_values (load_attempts s)))"

definition transport_disconnected :: "PlayerAttachmentEpoch \<Rightarrow> reducer_context \<Rightarrow> reducer_context" where
  "transport_disconnected epoch c =
     (if epoch \<noteq> attachment_epoch c then c
      else
        (let c = fold (\<lambda>command_id c. set_seek_state UNIV Invalidated command_id
                   (command_terminal command_id CommandSemanticState.TransportDisconnected c))
                   (open_command_ids c) c
         in commit_all PlayerPhysicalLoadOutcome.TransportDisconnected (open_attempt_ids c) c))"

definition close_epoch :: "reducer_context \<Rightarrow> reducer_context" where
  "close_epoch c =
     (let c = (if gap_detected c \<and> recovery_snapshot c = None
               then c\<lparr>recovery_snapshot := Some (closing_snapshot_for_current_epoch c)\<rparr> else c);
          c = fold (\<lambda>command_id.
                command_terminal command_id CommandSemanticState.TransportDisconnected)
                (open_command_ids c) c;
          c = commit_all PlayerPhysicalLoadOutcome.TransportDisconnected (open_attempt_ids c) c
      in retire_current_epoch_delivery c)"

definition open_next_epoch :: "'a lifecycle \<Rightarrow> 'a lifecycle" where
  "open_next_epoch s =
     s\<lparr>attachment_epoch := epoch_next (attachment_epoch s), load_attempts := [],
       playlist_entry_attempts := [], active_load_attempt := None, commands := [],
       seek_ownership := [], terminal_attempt_tombstones := [], retired_command_tombstones := [],
       retired_seek_tombstones := [], uncertain_seek_generations := [],
       deferred_start_files := [], provisional_eof := None, retained_completion_attempt := None,
       logical_terminal := None, next_event_sequence := 1, reconciliation_required := True,
       next_reconciliation_tick := None,
       reconciliation_backoff_ticks := INITIAL_RECONCILIATION_BACKOFF_TICKS,
       gap_detected := True, recovery_snapshot := None, pending_native_seek_generation := None\<rparr>"

definition attachment_replaced :: "reducer_context \<Rightarrow> reducer_context" where
  "attachment_replaced c =
     (let previous_epoch = attachment_epoch c;
          c = open_next_epoch (close_epoch c);
          c = snd (queue_event (PlayerEvent.AttachmentReplaced previous_epoch) c)
      in push_effect RequestLifecycleReconciliation (push_effect RequestAuthoritativeSnapshot c))"

section \<open>The reducer\<close>

fun handle_input :: "PlayerLifecycleInput \<Rightarrow> reducer_context \<Rightarrow> reducer_context" where
  "handle_input (LoadAttemptSubmitted k g t b) c = load_attempt_submitted k g t b c"
| "handle_input (ExternalLoadObserved e g p t l) c = external_load_observed e g p t l c"
| "handle_input (LoadAttemptAccepted e a) c = load_attempt_accepted e a c"
| "handle_input (LoadAttemptRejected e a f) c = load_attempt_rejected e a f c"
| "handle_input (CommandSubmitted k g kind) c = command_submitted k g kind c"
| "handle_input (CommandAccepted e k) c = command_accepted e k c"
| "handle_input (CommandRejected e k f) c = command_rejected e k f c"
| "handle_input (CommandSuperseded e k) c = command_superseded e k c"
| "handle_input (CommandTransportDisconnected e k) c = command_transport_disconnected e k c"
| "handle_input (CommandCompleted e k) c = command_completed e k c"
| "handle_input (CommandCompletionNotObserved e k) c = command_completion_not_observed e k c"
| "handle_input (StartFile e p) c = start_file e p c"
| "handle_input (FileLoaded e p t) c = file_loaded e p t c"
| "handle_input (EndFile e p out) c = end_file e p out c"
| "handle_input (RetainedEndOfFile e p) c = retained_end_of_file e p c"
| "handle_input (PlaylistSnapshot e es path) c = playlist_snapshot e es path c"
| "handle_input (LifecycleReconciliationFailed e) c = lifecycle_reconciliation_failed e c"
| "handle_input (EofObserved e p r pos) c = eof_observed e p r pos c"
| "handle_input (PlaybackRestart e p) c = playback_restart e p c"
| "handle_input (PositionObserved e g q pos) c = position_observed e g q pos c"
| "handle_input (SeekingObserved e g q b) c = seeking_observed e g q b c"
| "handle_input (PhaseObserved e ph) c = phase_observed e ph c"
| "handle_input (TransportDelta e d) c = transport_delta e d c"
| "handle_input (LocalFileChanged e a g u) c = local_file_changed e a g u c"
| "handle_input (SeekCommandSubmitted k g r t q) c = seek_command_submitted k g r t q c"
| "handle_input (SeekCommandAccepted e k) c = seek_command_accepted e k c"
| "handle_input (SeekCommandRejected e k f) c = command_rejected e k f c"
| "handle_input (SeekCommandCompletionNotObserved e k) c = seek_command_completion_not_observed e k c"
| "handle_input (EventGapDetected e) c = event_gap_detected e c"
| "handle_input (AuthoritativeSnapshotApplied snap) c = authoritative_snapshot_applied snap c"
| "handle_input (TimerAdvanced t) c = timer_advanced t c"
| "handle_input (TransportDisconnected e) c = transport_disconnected e c"
| "handle_input AttachmentReplaced c = attachment_replaced c"

definition reduce_player_lifecycle ::
  "PlayerLifecycleState \<Rightarrow> PlayerLifecycleInput \<Rightarrow> PlayerLifecycleState \<times> PlayerLifecycleEffect list" where
  "reduce_player_lifecycle s input =
     (let c = handle_input input (PlayerLifecycleState.extend s (reducer_context.fields []))
      in (PlayerLifecycleState.truncate c, effects c))"

end
