(* ===== verification/Lifecycle_Frame.thy ===== *)
theory Lifecycle_Frame
  imports Lifecycle_Reducer
begin

text \<open>
  The interface between ordered delivery and the rest of the reducer. Every input reaches the
  delivery fields of the state only through sequencing an event, retaining an outcome, marking a
  gap, applying a snapshot or replacing the attachment. The locale states what a property of the
  delivery fields must promise for these few operations; the client lemma, proved once inside
  it, is that every input of the reducer then keeps the property.
\<close>

section \<open>What delivery sees\<close>

fun effect_order :: "PlayerLifecycleEffect \<Rightarrow> PlayerEventOrder option" where
  "effect_order (EmitOrderedEvent event) = Some (se_order event)"
| "effect_order (EmitSemanticOutcome outcome) = Some (so_order outcome)"
| "effect_order _ = None"

definition ordered_effects :: "PlayerLifecycleEffect list \<Rightarrow> PlayerLifecycleEffect list" where
  "ordered_effects fx = filter (\<lambda>e. effect_order e \<noteq> None) fx"

definition delivery_view ::
  "reducer_context \<Rightarrow> EpochDeliveryBuffer \<times> u64 \<times> EpochDeliveryBuffer list
     \<times> PlayerEventBatch option \<times> PlayerLifecycleEffect list" where
  "delivery_view c =
     (current_delivery c, next_event_sequence c, retired_epoch_deliveries c, cached_batch c,
      ordered_effects (effects c))"

named_theorems view_simps "operations that leave the delivery view alone"

lemma ordered_effects_append [simp]:
  "ordered_effects (fx @ gx) = ordered_effects fx @ ordered_effects gx"
  by (simp add: ordered_effects_def)

lemma view_push_effect [view_simps]:
  "effect_order e = None \<Longrightarrow> delivery_view (push_effect e c) = delivery_view c"
  by (simp add: delivery_view_def push_effect_def current_delivery_def ordered_effects_def)

lemma view_updates [view_simps]:
  "delivery_view (c\<lparr>load_attempts := x1\<rparr>) = delivery_view c"
  "delivery_view (c\<lparr>playlist_entry_attempts := x2\<rparr>) = delivery_view c"
  "delivery_view (c\<lparr>active_load_attempt := x3\<rparr>) = delivery_view c"
  "delivery_view (c\<lparr>commands := x4\<rparr>) = delivery_view c"
  "delivery_view (c\<lparr>seek_ownership := x5\<rparr>) = delivery_view c"
  "delivery_view (c\<lparr>reconciliation_required := x6\<rparr>) = delivery_view c"
  "delivery_view (c\<lparr>last_reconciliation := x7\<rparr>) = delivery_view c"
  "delivery_view (c\<lparr>next_reconciliation_tick := x8\<rparr>) = delivery_view c"
  "delivery_view (c\<lparr>reconciliation_backoff_ticks := x9\<rparr>) = delivery_view c"
  "delivery_view (c\<lparr>now_tick := x10\<rparr>) = delivery_view c"
  "delivery_view (c\<lparr>logical_terminal := x11\<rparr>) = delivery_view c"
  "delivery_view (c\<lparr>next_load_attempt_id := x12\<rparr>) = delivery_view c"
  "delivery_view (c\<lparr>deferred_start_files := x13\<rparr>) = delivery_view c"
  "delivery_view (c\<lparr>provisional_eof := x14\<rparr>) = delivery_view c"
  "delivery_view (c\<lparr>retained_completion_attempt := x15\<rparr>) = delivery_view c"
  "delivery_view (c\<lparr>pending_native_seek_generation := x16\<rparr>) = delivery_view c"
  "delivery_view (c\<lparr>terminal_attempt_tombstones := x17\<rparr>) = delivery_view c"
  "delivery_view (c\<lparr>retired_command_tombstones := x18\<rparr>) = delivery_view c"
  "delivery_view (c\<lparr>retired_seek_tombstones := x19\<rparr>) = delivery_view c"
  "delivery_view (c\<lparr>uncertain_seek_generations := x20\<rparr>) = delivery_view c"
  "delivery_view (c\<lparr>next_acknowledgement_token := x21\<rparr>) = delivery_view c"
  by (simp_all add: delivery_view_def current_delivery_def)

lemma view_modify [view_simps]:
  "delivery_view (modify_attempt a f c) = delivery_view c"
  "delivery_view (modify_command k g c) = delivery_view c"
  "delivery_view (modify_seek k h c) = delivery_view c"
  "delivery_view (set_seek_state S t k c) = delivery_view c"
  by (simp_all add: modify_attempt_def modify_command_def modify_seek_def set_seek_state_def view_simps)

lemma view_small_steps [view_simps]:
  "delivery_view (schedule_reconciliation c) = delivery_view c"
  "delivery_view (stop_reconciliation_without_proactive_work c) = delivery_view c"
  "delivery_view (finish_reconciliation v c) = delivery_view c"
  "delivery_view (retry_reconciliation v c) = delivery_view c"
  "delivery_view (retain_only_selected_successor_claim p a c) = delivery_view c"
  "delivery_view (supersede_predecessor p a c) = delivery_view c"
  "delivery_view (expire_attempt a b t c) = delivery_view c"
  "delivery_view (release_transport a b c) = delivery_view c"
  "delivery_view (take_transport a c) = delivery_view c"
  "delivery_view (prune_expired_seek_tombstones c) = delivery_view c"
  "delivery_view (accept_submitting_attempt e a k c) = delivery_view c"
  "delivery_view (detach_terminal_attempt a out prior c) = delivery_view c"
  by (simp_all add: detach_terminal_attempt_def schedule_reconciliation_def stop_reconciliation_without_proactive_work_def
      finish_reconciliation_def retry_reconciliation_def retain_only_selected_successor_claim_def
      supersede_predecessor_def expire_attempt_def release_transport_def take_transport_def
      prune_expired_seek_tombstones_def accept_submitting_attempt_def view_simps Let_def
      split: option.split)

lemma view_allocate [view_simps]:
  "delivery_view (snd (allocate_load_attempt_id c)) = delivery_view c"
  by (simp add: allocate_load_attempt_id_def view_simps Let_def)

section \<open>The delivery interface\<close>

text \<open>A snapshot that belongs to the current epoch and does not run ahead of its sequence.\<close>

definition snapshot_in_bounds :: "'a lifecycle \<Rightarrow> PlayerAuthoritativeSnapshot \<Rightarrow> bool" where
  "snapshot_in_bounds s snapshot \<longleftrightarrow>
     as_epoch snapshot = attachment_epoch s \<and> sb_epoch (as_boundary snapshot) = attachment_epoch s
     \<and> sb_through (as_boundary snapshot) \<le> last_event_sequence s"

locale delivery_invariant =
  fixes I :: "reducer_context \<Rightarrow> bool"
  assumes view: "delivery_view c = delivery_view c' \<Longrightarrow> I c = I c'"
    and queue_event: "I c \<Longrightarrow> I (snd (queue_event event c))"
    and retain_outcome: "I c \<Longrightarrow> I (snd (retain_outcome outcome c))"
    and mark_gap: "I c \<Longrightarrow> I (mark_gap c)"
    and close_snapshot: "I c \<Longrightarrow> snapshot_in_bounds c snapshot \<Longrightarrow> gap_detected c
      \<Longrightarrow> I (c\<lparr>recovery_snapshot := Some snapshot\<rparr>)"
    and apply_snapshot: "I c \<Longrightarrow> snapshot_in_bounds c snapshot
      \<Longrightarrow> I (authoritative_snapshot_applied snapshot c)"
    and next_epoch: "I c \<Longrightarrow> I (snd (queue_event (PlayerEvent.AttachmentReplaced previous_epoch)
      (open_next_epoch (retire_current_epoch_delivery c))))"
begin

lemma I_view: "delivery_view c' = delivery_view c \<Longrightarrow> I c \<Longrightarrow> I c'"
  using view by blast

lemma I_iff [simp]:
  "effect_order e = None \<Longrightarrow> I (push_effect e c) = I c"
  "I (c\<lparr>load_attempts := x1\<rparr>) = I c"
  "I (c\<lparr>playlist_entry_attempts := x2\<rparr>) = I c"
  "I (c\<lparr>active_load_attempt := x3\<rparr>) = I c"
  "I (c\<lparr>commands := x4\<rparr>) = I c"
  "I (c\<lparr>seek_ownership := x5\<rparr>) = I c"
  "I (c\<lparr>last_reconciliation := x7\<rparr>) = I c"
  "I (c\<lparr>now_tick := x10\<rparr>) = I c"
  "I (c\<lparr>logical_terminal := x11\<rparr>) = I c"
  "I (c\<lparr>deferred_start_files := x13\<rparr>) = I c"
  "I (c\<lparr>provisional_eof := x14\<rparr>) = I c"
  "I (c\<lparr>retained_completion_attempt := x15\<rparr>) = I c"
  "I (c\<lparr>pending_native_seek_generation := x16\<rparr>) = I c"
  "I (c\<lparr>retired_seek_tombstones := x19\<rparr>) = I c"
  "I (modify_attempt a f c) = I c"
  "I (modify_command k g c) = I c"
  "I (modify_seek k h c) = I c"
  "I (set_seek_state S st k c) = I c"
  "I (schedule_reconciliation c) = I c"
  "I (stop_reconciliation_without_proactive_work c) = I c"
  "I (finish_reconciliation v c) = I c"
  "I (retry_reconciliation v c) = I c"
  "I (supersede_predecessor p a c) = I c"
  "I (expire_attempt a b t c) = I c"
  "I (release_transport a b c) = I c"
  "I (take_transport a c) = I c"
  "I (prune_expired_seek_tombstones c) = I c"
  "I (accept_submitting_attempt epoch a ko c) = I c"
  "I (detach_terminal_attempt a out prior c) = I c"
  "I (snd (allocate_load_attempt_id c)) = I c"
  by (rule view; simp add: view_simps)+

lemmas I_intros = queue_event retain_outcome mark_gap

lemma command_terminal: "I c \<Longrightarrow> I (command_terminal k t c)"
  by (auto simp: command_terminal_def Let_def split_def I_intros split: option.split)

lemma emit_load_outcome: "I c \<Longrightarrow> I (emit_load_outcome a r t c)"
  by (auto simp: emit_load_outcome_def Let_def split_def I_intros split: option.split)

lemma bind_attempt: "I c \<Longrightarrow> I (snd (bind_attempt a p c))"
  by (auto simp: bind_attempt_def Let_def split_def I_intros split: option.split)

lemma start_attempt: "I c \<Longrightarrow> I (start_attempt a p b c)"
  using bind_attempt [of c a p]
  by (auto simp: start_attempt_def Let_def split_def I_intros split: option.split)

lemma replay_deferred_starts: "I c \<Longrightarrow> I (snd (replay_deferred_starts ds kept c))"
  by (induction ds kept c rule: replay_deferred_starts.induct)
    (auto simp: start_attempt split: option.split)

lemma try_deferred_starts: "I c \<Longrightarrow> I (try_deferred_starts c)"
  using replay_deferred_starts [of "c\<lparr>deferred_start_files := []\<rparr>" "deferred_start_files c" "[]"]
  by (auto simp: try_deferred_starts_def Let_def split_def)

lemma commit_physical: "I c \<Longrightarrow> I (commit_physical_attempt_terminal a out c)"
  by (auto simp: commit_physical_attempt_terminal_def settle_terminal_attempt_def
      announce_logical_terminal_def Let_def split_def I_intros
      command_terminal emit_load_outcome split: option.split)

lemma fold_preserves: "(\<And>x c. I c \<Longrightarrow> I (f x c)) \<Longrightarrow> I c \<Longrightarrow> I (fold f xs c)"
  by (induction xs arbitrary: c) auto

lemma commit_all: "I c \<Longrightarrow> I (commit_all out ids c)"
  unfolding commit_all_def by (rule fold_preserves) (rule commit_physical)

lemma reconcile_playlist: "I c \<Longrightarrow> I (reconcile_playlist es path c)"
proof -
  assume c: "I c"
  have bind: "I c' \<Longrightarrow> I (fold (bind_unique_candidate edges) es' c')" for edges es' c'
    by (rule fold_preserves)
      (auto simp: bind_unique_candidate_def bind_attempt split: list.split)
  have start: "I c' \<Longrightarrow> I (start_current_entry es c')" for c'
    by (auto simp: start_current_entry_def start_attempt split: option.split)
  show ?thesis
    using c by (simp add: reconcile_playlist_def reconcile_empty_playlist_def Let_def commit_all
        bind start try_deferred_starts)
qed

lemmas op_intros =
  queue_event retain_outcome mark_gap command_terminal emit_load_outcome start_attempt
  try_deferred_starts commit_physical commit_all reconcile_playlist

lemma loads:
  "I c \<Longrightarrow> I (load_attempt_submitted k g tgt b c)"
  "I c \<Longrightarrow> I (external_load_observed e g p tgt l c)"
  "I c \<Longrightarrow> I (load_attempt_accepted e a c)"
  "I c \<Longrightarrow> I (load_attempt_rejected e a f c)"
proof -
  assume c: "I c"
  have alloc: "I (snd (allocate_load_attempt_id c))"
    using c by simp
  show "I (load_attempt_submitted k g tgt b c)"
    using c alloc by (auto simp: load_attempt_submitted_def Let_def split_def split: option.split)
  have revoke: "I c' \<Longrightarrow> I (revoke_external_predecessor q a' c')" for q a' c'
    by (auto simp: revoke_external_predecessor_def Let_def op_intros split: option.split)
  show "I (external_load_observed e g p tgt l c)"
    using c alloc
    by (auto simp: external_load_observed_def Let_def split_def op_intros revoke split: option.split)
  have supersede: "I c' \<Longrightarrow> I (supersede_accepted_predecessor q a' c')" for q a' c'
    by (auto simp: supersede_accepted_predecessor_def Let_def op_intros split: option.split)
  show "I (load_attempt_accepted e a c)"
    using c by (auto simp: load_attempt_accepted_def Let_def op_intros supersede split: option.split)
  show "I (load_attempt_rejected e a f c)"
    using c by (auto simp: load_attempt_rejected_def Let_def op_intros split: option.split)
qed

lemma command_inputs:
  "I c \<Longrightarrow> I (command_submitted k g kind c)"
  "I c \<Longrightarrow> I (command_accepted e k c)"
  "I c \<Longrightarrow> I (command_rejected e k f c)"
  "I c \<Longrightarrow> I (command_superseded e k c)"
  "I c \<Longrightarrow> I (command_transport_disconnected e k c)"
  "I c \<Longrightarrow> I (command_completed e k c)"
  "I c \<Longrightarrow> I (command_completion_not_observed e k c)"
  "I c \<Longrightarrow> I (seek_command_submitted k gen raw room q c)"
  "I c \<Longrightarrow> I (seek_command_accepted e k c)"
  "I c \<Longrightarrow> I (seek_command_completion_not_observed e k c)"
  by (auto simp: command_submitted_def command_accepted_def command_rejected_def
      command_superseded_def command_transport_disconnected_def command_completed_def
      command_completion_not_observed_def seek_command_submitted_def seek_command_accepted_def
      seek_command_completion_not_observed_def Let_def op_intros
      intro!: fold_preserves split: option.split)

lemma event_inputs:
  "I c \<Longrightarrow> I (start_file e p c)"
  "I c \<Longrightarrow> I (file_loaded e po tgt c)"
  "I c \<Longrightarrow> I (end_file e p out c)"
  "I c \<Longrightarrow> I (retained_end_of_file e p c)"
  "I c \<Longrightarrow> I (playlist_snapshot e es path c)"
  "I c \<Longrightarrow> I (lifecycle_reconciliation_failed e c)"
  by (auto simp: start_file_def file_loaded_def end_file_def retained_end_of_file_def
      playlist_snapshot_def lifecycle_reconciliation_failed_def Let_def op_intros
      split: option.split)

lemma observation_inputs:
  "I c \<Longrightarrow> I (eof_observed e po r pos c)"
  "I c \<Longrightarrow> I (playback_restart e po c)"
  "I c \<Longrightarrow> I (position_observed e g q pt c)"
  "I c \<Longrightarrow> I (seeking_observed e g q sk c)"
  "I c \<Longrightarrow> I (phase_observed e ph c)"
  "I c \<Longrightarrow> I (transport_delta e d c)"
  "I c \<Longrightarrow> I (local_file_changed e a g u c)"
  "I c \<Longrightarrow> I (event_gap_detected e c)"
  by (auto simp: eof_observed_def playback_restart_def position_observed_def seeking_observed_def
      phase_observed_def transport_delta_def local_file_changed_def event_gap_detected_def
      Let_def op_intros split: option.split)

lemma snapshot_input: "I c \<Longrightarrow> I (authoritative_snapshot_applied snapshot c)"
proof (cases "snapshot_in_bounds c snapshot")
  case False
  then have "authoritative_snapshot_applied snapshot c = c"
    by (auto simp: authoritative_snapshot_applied_def snapshot_in_bounds_def)
  then show "I c \<Longrightarrow> I (authoritative_snapshot_applied snapshot c)" by simp
qed (rule apply_snapshot)

lemma timer_input: "I c \<Longrightarrow> I (timer_advanced tick c)"
proof -
  assume "I c"
  have expire: "I c' \<Longrightarrow> I (expire_load_attempt r a c')" for r a c'
    by (auto simp: expire_load_attempt_def Let_def op_intros split: option.split)
  have "I c' \<Longrightarrow> I (fold (expire_load_attempt r) ids c')" for r ids c'
    by (rule fold_preserves) (rule expire)
  with \<open>I c\<close> show ?thesis
    by (auto simp: timer_advanced_def Let_def op_intros split: option.split)
qed

lemma attachment_inputs:
  "I c \<Longrightarrow> I (transport_disconnected e c)"
  "I c \<Longrightarrow> I (attachment_replaced c)"
proof -
  assume c: "I c"
  show "I (transport_disconnected e c)"
    using c by (auto simp: transport_disconnected_def Let_def op_intros intro!: fold_preserves commit_all)
  have "snapshot_in_bounds c (closing_snapshot_for_current_epoch c)"
    by (simp add: snapshot_in_bounds_def closing_snapshot_for_current_epoch_def Let_def)
  with c show "I (attachment_replaced c)"
    by (simp add: attachment_replaced_def close_epoch_def Let_def)
      (intro conjI impI next_epoch commit_all fold_preserves command_terminal; simp add: close_snapshot)
qed

theorem handle_input: "I c \<Longrightarrow> I (handle_input input c)"
  by (cases input) (simp_all add: loads command_inputs event_inputs observation_inputs
      snapshot_input timer_input attachment_inputs)

end

end
