(* ===== verification/Lifecycle_Order.thy ===== *)
theory Lifecycle_Order
  imports Lifecycle_Frame
begin

text \<open>
  Causal order of delivery. Across every input, peek and acknowledgement, the queues of the
  current and of all retired epochs carry strictly increasing, pairwise different sequence
  numbers of their own epoch, retired epochs come in attachment order, and a frozen batch covers
  exactly the part of its epoch's queues that its acknowledgement will remove. The only
  assumption is that neither the sequence nor the epoch counter has reached the end of \<open>u64\<close>.
\<close>

section \<open>Ordered buffers\<close>

definition ordered_stream :: "PlayerAttachmentEpoch \<Rightarrow> PlayerEventOrder list \<Rightarrow> bool" where
  "ordered_stream epoch orders \<longleftrightarrow>
     list_all (\<lambda>order. eo_epoch order = epoch \<and> eo_sequence order \<noteq> 0) orders
     \<and> sorted_wrt (<) (map eo_sequence orders)"

definition event_orders :: "EpochDeliveryBuffer \<Rightarrow> PlayerEventOrder list" where
  "event_orders d = map se_order (db_pending_events d)"

definition outcome_orders :: "EpochDeliveryBuffer \<Rightarrow> PlayerEventOrder list" where
  "outcome_orders d = map so_order (db_retained_semantic_outcomes d)"

definition snapshot_of_epoch :: "PlayerAttachmentEpoch \<Rightarrow> PlayerAuthoritativeSnapshot option \<Rightarrow> bool" where
  "snapshot_of_epoch epoch snapshot =
     (case snapshot of
        None \<Rightarrow> True
      | Some snap \<Rightarrow> as_epoch snap = epoch \<and> sb_epoch (as_boundary snap) = epoch)"

definition delivery_ordered :: "EpochDeliveryBuffer \<Rightarrow> bool" where
  "delivery_ordered d \<longleftrightarrow>
     snapshot_of_epoch (db_epoch d) (db_recovery_snapshot d)
     \<and> ordered_stream (db_epoch d) (event_orders d)
     \<and> ordered_stream (db_epoch d) (outcome_orders d)
     \<and> set (map eo_sequence (event_orders d)) \<inter> set (map eo_sequence (outcome_orders d)) = {}"

text \<open>All delivery buffers, oldest epoch first.\<close>

definition buffers :: "'a lifecycle \<Rightarrow> EpochDeliveryBuffer list" where
  "buffers s = retired_epoch_deliveries s @ [current_delivery s]"

definition batch_single_epoch :: "PlayerEventBatch \<Rightarrow> bool" where
  "batch_single_epoch b \<longleftrightarrow>
     sb_epoch (eb_boundary b) = eb_epoch b
     \<and> at_epoch (eb_token b) = eb_epoch b
     \<and> snapshot_of_epoch (eb_epoch b) (eb_snapshot b)
     \<and> list_all (\<lambda>event. eo_epoch (se_order event) = eb_epoch b) (eb_events b)
     \<and> list_all (\<lambda>outcome. eo_epoch (so_order outcome) = eb_epoch b) (eb_semantic_outcomes b)"

text \<open>
  The frozen batch against the buffer it was taken from: acknowledging it removes exactly its
  outcomes, and no event that is not in it.
\<close>

definition batch_covers :: "PlayerEventBatch \<Rightarrow> EpochDeliveryBuffer \<Rightarrow> bool" where
  "batch_covers b d \<longleftrightarrow>
     list_all (\<lambda>event. eo_sequence (se_order event) \<le> sb_through (eb_boundary b)
                 \<longrightarrow> event \<in> set (eb_events b)) (db_pending_events d)
     \<and> filter (\<lambda>outcome. eo_sequence (so_order outcome) \<le> sb_through (eb_boundary b))
         (db_retained_semantic_outcomes d) = eb_semantic_outcomes b"

definition batch_ok :: "'a lifecycle \<Rightarrow> PlayerEventBatch \<Rightarrow> bool" where
  "batch_ok s b \<longleftrightarrow>
     batch_single_epoch b \<and> db_epoch (hd (buffers s)) = eb_epoch b
     \<and> \<not> delivery_is_empty (hd (buffers s)) \<and> batch_covers b (hd (buffers s))
     \<and> (eb_epoch b = attachment_epoch s \<longrightarrow> sb_through (eb_boundary b) < next_event_sequence s)"

definition delivery_bounded :: "u64 \<Rightarrow> EpochDeliveryBuffer \<Rightarrow> bool" where
  "delivery_bounded n d \<longleftrightarrow> 1 \<le> n \<and> (\<forall>q \<in> set (delivery_sequences d). q < n)"

definition delivery_inv :: "'a lifecycle \<Rightarrow> bool" where
  "delivery_inv s \<longleftrightarrow>
     sorted_wrt (<) (map db_epoch (buffers s))
     \<and> (\<forall>d \<in> set (buffers s). delivery_ordered d)
     \<and> delivery_bounded (next_event_sequence s) (current_delivery s)
     \<and> (\<forall>b. cached_batch s = Some b \<longrightarrow> batch_ok s b)"

definition order_below_max :: "PlayerEventOrder \<Rightarrow> bool" where
  "order_below_max order \<longleftrightarrow> eo_epoch order < u64_max \<and> eo_sequence order < u64_max"

definition unsaturated :: "PlayerLifecycleEffect list \<Rightarrow> bool" where
  "unsaturated fx \<longleftrightarrow>
     (\<forall>e \<in> set fx. \<forall>order. effect_order e = Some order \<longrightarrow> order_below_max order)"

text \<open>The property that every input keeps, from any context to the next.\<close>

definition delivery_good :: "reducer_context \<Rightarrow> bool" where
  "delivery_good c \<longleftrightarrow> (unsaturated (effects c) \<longrightarrow> delivery_inv c)"

section \<open>Elementary buffer steps\<close>

lemma unsaturated_append [simp]: "unsaturated (fx @ gx) \<longleftrightarrow> unsaturated fx \<and> unsaturated gx"
  by (auto simp: unsaturated_def)

lemma unsaturated_ordered: "unsaturated fx = unsaturated (ordered_effects fx)"
  by (auto simp: unsaturated_def ordered_effects_def)

lemma ordered_stream_append_one:
  "ordered_stream e os \<Longrightarrow> eo_epoch x = e \<Longrightarrow> \<forall>o' \<in> set os. eo_sequence o' < eo_sequence x
   \<Longrightarrow> 0 < eo_sequence x \<Longrightarrow> ordered_stream e (os @ [x])"
  by (auto simp: ordered_stream_def sorted_wrt_append)

lemma ordered_stream_filter:
  "ordered_stream e (map f xs) \<Longrightarrow> ordered_stream e (map f (filter p xs))"
  by (induction xs) (auto simp: ordered_stream_def)

lemma ordered_stream_remove_first:
  "ordered_stream e (map f xs) \<Longrightarrow> ordered_stream e (map f (remove_first p xs))"
proof (induction xs)
  case (Cons x xs)
  have "set (remove_first p xs) \<subseteq> set xs"
    by (induction xs) auto
  with Cons show ?case by (auto simp: ordered_stream_def)
qed simp

lemma set_remove_first: "set (remove_first p xs) \<subseteq> set xs"
  by (induction xs) auto

lemma delivery_bounded_simp:
  "delivery_bounded n d \<longleftrightarrow> 1 \<le> n
     \<and> (\<forall>event \<in> set (db_pending_events d). eo_sequence (se_order event) < n)
     \<and> (\<forall>outcome \<in> set (db_retained_semantic_outcomes d). eo_sequence (so_order outcome) < n)
     \<and> (case db_recovery_snapshot d of
          None \<Rightarrow> True | Some snapshot \<Rightarrow> sb_through (as_boundary snapshot) < n)"
  by (auto simp: delivery_bounded_def delivery_sequences_def split: option.splits)

text \<open>The invariant reads only the delivery fields, whatever the state is extended with.\<close>

definition delivery_fields ::
  "'a lifecycle \<Rightarrow> EpochDeliveryBuffer \<times> u64 \<times> EpochDeliveryBuffer list \<times> PlayerEventBatch option" where
  "delivery_fields s =
     (current_delivery s, next_event_sequence s, retired_epoch_deliveries s, cached_batch s)"

lemma delivery_fields_epoch: "delivery_fields s = delivery_fields s' \<Longrightarrow> attachment_epoch s = attachment_epoch s'"
  by (simp add: delivery_fields_def current_delivery_def)

lemma delivery_inv_cong:
  "delivery_fields s = delivery_fields s' \<Longrightarrow> delivery_inv s \<longleftrightarrow> delivery_inv s'"
  using delivery_fields_epoch [of s s']
  by (simp add: delivery_fields_def delivery_inv_def buffers_def batch_ok_def)

lemma delivery_fields_push_effect [simp]: "delivery_fields (push_effect e c) = delivery_fields c"
  by (simp add: delivery_fields_def push_effect_def current_delivery_def)

lemma delivery_inv_push_effect [simp]: "delivery_inv (push_effect e c) \<longleftrightarrow> delivery_inv c"
  by (rule delivery_inv_cong) simp

lemma delivery_good_view: "delivery_view c = delivery_view c' \<Longrightarrow> delivery_good c = delivery_good c'"
  using delivery_inv_cong [of c c']
  by (simp add: delivery_good_def delivery_view_def delivery_fields_def
      unsaturated_ordered [of "effects c"] unsaturated_ordered [of "effects c'"])

text \<open>
  The one step all queue operations share: the current buffer is replaced by one of the same
  epoch that is ordered and bounded by the next sequence, what it gains lies at or beyond the
  old next sequence, and it does not become empty.
\<close>

lemma hd_buffers:
  "hd (buffers s) = (case retired_epoch_deliveries s of [] \<Rightarrow> current_delivery s | d # _ \<Rightarrow> d)"
  by (simp add: buffers_def split: list.split)

lemma delivery_inv_replace_current:
  assumes inv: "delivery_inv s"
    and same: "retired_epoch_deliveries s' = retired_epoch_deliveries s"
      "cached_batch s' = cached_batch s" "attachment_epoch s' = attachment_epoch s"
    and grow: "next_event_sequence s \<le> next_event_sequence s'"
    and ordered: "delivery_ordered (current_delivery s')"
    and bounded: "delivery_bounded (next_event_sequence s') (current_delivery s')"
    and events: "\<And>event. event \<in> set (pending_events s') \<Longrightarrow>
      event \<in> set (pending_events s) \<or> next_event_sequence s \<le> eo_sequence (se_order event)"
    and outcomes: "retained_semantic_outcomes s' = retained_semantic_outcomes s @ gained"
      "\<And>outcome. outcome \<in> set gained \<Longrightarrow> next_event_sequence s \<le> eo_sequence (so_order outcome)"
    and nonempty: "delivery_is_empty (current_delivery s') \<Longrightarrow> delivery_is_empty (current_delivery s)"
  shows "delivery_inv s'"
proof -
  have epochs: "map db_epoch (buffers s') = map db_epoch (buffers s)"
    by (simp add: buffers_def same current_delivery_def)
  have "batch_ok s' b" if "cached_batch s' = Some b" for b
  proof -
    have ok: "batch_ok s b"
      using inv that same by (auto simp: delivery_inv_def)
    show ?thesis
    proof (cases "retired_epoch_deliveries s")
      case (Cons d ds)
      with ok show ?thesis
        using grow same by (auto simp: batch_ok_def hd_buffers)
    next
      case Nil
      with ok have old: "batch_covers b (current_delivery s)" "attachment_epoch s = eb_epoch b"
          "\<not> delivery_is_empty (current_delivery s)" "sb_through (eb_boundary b) < next_event_sequence s"
        by (auto simp: batch_ok_def hd_buffers current_delivery_def)
      have "batch_covers b (current_delivery s')"
        using old(1,4) events outcomes
        by (fastforce simp: batch_covers_def current_delivery_def list_all_iff filter_empty_conv)
      with ok old nonempty Nil grow same show ?thesis
        by (auto simp: batch_ok_def hd_buffers current_delivery_def)
    qed
  qed
  with inv ordered bounded epochs show ?thesis
    by (auto simp: delivery_inv_def) (auto simp: buffers_def same)
qed

lemma delivery_inv_current:
  "delivery_inv s \<Longrightarrow> delivery_ordered (current_delivery s)"
  "delivery_inv s \<Longrightarrow> delivery_bounded (next_event_sequence s) (current_delivery s)"
  by (auto simp: delivery_inv_def buffers_def)

lemmas buffer_simps =
  delivery_ordered_def delivery_bounded_simp current_delivery_def event_orders_def outcome_orders_def

section \<open>Queue operations\<close>

lemma next_order_exact:
  assumes "delivery_inv s" and "next_event_sequence s < u64_max"
  shows "eo_sequence (fst (next_order s)) = next_event_sequence s"
    and "eo_epoch (fst (next_order s)) = attachment_epoch s"
    and "snd (next_order s) = s\<lparr>next_event_sequence := Suc (next_event_sequence s)\<rparr>"
    and "0 < next_event_sequence s"
  using delivery_inv_current(2) [OF assms(1)] assms(2)
  by (auto simp: next_order_def delivery_bounded_def Let_def sat_simps)

lemma delivery_inv_push_event:
  assumes inv: "delivery_inv s" and n: "next_event_sequence s < u64_max"
    and event: "se_order event = fst (next_order s)"
  shows "delivery_inv ((snd (next_order s))\<lparr>pending_events := pending_events s @ [event]\<rparr>)"
    (is "delivery_inv ?s")
proof (rule delivery_inv_replace_current [OF inv])
  note ord = next_order_exact [OF inv n, folded event]
  show "delivery_ordered (current_delivery ?s)"
    using delivery_inv_current [OF inv] ord
    by (fastforce simp: buffer_simps intro!: ordered_stream_append_one)
  show "delivery_bounded (next_event_sequence ?s) (current_delivery ?s)"
    using delivery_inv_current(2) [OF inv] ord by (fastforce simp: buffer_simps split: option.splits)
qed (use next_order_exact [OF inv n] event in \<open>auto simp: delivery_is_empty_def current_delivery_def\<close>)

lemma delivery_inv_push_outcome:
  assumes inv: "delivery_inv s" and n: "next_event_sequence s < u64_max"
    and outcome: "so_order outcome = fst (next_order s)"
  shows "delivery_inv ((snd (next_order s))
           \<lparr>retained_semantic_outcomes := retained_semantic_outcomes s @ [outcome]\<rparr>)"
    (is "delivery_inv ?s")
proof (rule delivery_inv_replace_current [OF inv, where gained = "[outcome]"])
  note ord = next_order_exact [OF inv n, folded outcome]
  show "delivery_ordered (current_delivery ?s)"
    using delivery_inv_current [OF inv] ord
    by (fastforce simp: buffer_simps intro!: ordered_stream_append_one)
  show "delivery_bounded (next_event_sequence ?s) (current_delivery ?s)"
    using delivery_inv_current(2) [OF inv] ord by (fastforce simp: buffer_simps split: option.splits)
qed (use next_order_exact [OF inv n] outcome in \<open>auto simp: delivery_is_empty_def current_delivery_def\<close>)

lemma delivery_inv_set_gap:
  assumes "delivery_inv s" shows "delivery_inv (s\<lparr>gap_detected := True\<rparr>)"
  using delivery_inv_current [OF assms]
  by (intro delivery_inv_replace_current [OF assms])
    (auto simp: buffer_simps delivery_is_empty_def)

lemma delivery_inv_drop_snapshot:
  assumes "delivery_inv s" and "gap_detected s"
  shows "delivery_inv (s\<lparr>recovery_snapshot := None\<rparr>)"
  using delivery_inv_current [OF assms(1)] assms(2)
  by (intro delivery_inv_replace_current [OF assms(1)])
    (auto simp: buffer_simps snapshot_of_epoch_def delivery_is_empty_def)

lemma delivery_inv_set_snapshot:
  assumes "delivery_inv s" and "gap_detected s" and "snapshot_in_bounds s snapshot"
  shows "delivery_inv (s\<lparr>recovery_snapshot := Some snapshot\<rparr>)"
  using delivery_inv_current [OF assms(1)] assms(2,3)
  by (intro delivery_inv_replace_current [OF assms(1)])
    (auto simp: buffer_simps snapshot_of_epoch_def delivery_is_empty_def snapshot_in_bounds_def
      last_event_sequence_def)

lemma delivery_inv_drop_telemetry:
  assumes "delivery_inv s" and "2 \<le> length (pending_events s)"
  shows "delivery_inv (s\<lparr>pending_events := remove_first p (pending_events s)\<rparr>)"
proof -
  have "remove_first p es \<noteq> []" if "2 \<le> length es" for es :: "SequencedPlayerEvent list"
    using that by (cases es; cases "tl es") auto
  with assms(2) show ?thesis
    using delivery_inv_current [OF assms(1)] set_remove_first [of p "pending_events s"]
    by (intro delivery_inv_replace_current [OF assms(1)])
      (auto simp: buffer_simps delivery_is_empty_def intro: ordered_stream_remove_first, blast)
qed

lemma delivery_inv_filter_events:
  assumes "delivery_inv s" and "gap_detected s"
  shows "delivery_inv (s\<lparr>pending_events := filter p (pending_events s)\<rparr>)"
  using delivery_inv_current [OF assms(1)] assms(2)
  by (intro delivery_inv_replace_current [OF assms(1)])
    (auto simp: buffer_simps delivery_is_empty_def intro: ordered_stream_filter)

text \<open>
  An order that reaches the effects without being saturated was allocated from unsaturated
  counters.
\<close>

lemma unsaturated_next_order:
  "order_below_max (fst (next_order s)) \<Longrightarrow> next_event_sequence s < u64_max"
  by (auto simp: order_below_max_def next_order_def Let_def max_def split: if_splits)

lemma next_order_frame [simp]:
  "pending_events (snd (next_order s)) = pending_events s"
  "retained_semantic_outcomes (snd (next_order s)) = retained_semantic_outcomes s"
  by (simp_all add: next_order_def Let_def)

lemma next_order_effects [simp]: "effects (snd (next_order c)) = effects c"
  by (simp add: next_order_def Let_def)

text \<open>What \<open>queue_event\<close> and \<open>mark_gap\<close> share: one event sequenced, emitted and queued.\<close>

definition append_event :: "PlayerEvent \<Rightarrow> reducer_context \<Rightarrow> reducer_context" where
  "append_event event c =
     (let sequenced = \<lparr>se_order = fst (next_order c), se_event = event\<rparr>
      in push_effect (EmitOrderedEvent sequenced)
           ((snd (next_order c))\<lparr>pending_events := pending_events c @ [sequenced]\<rparr>))"

lemma push_effect_pending [simp]:
  "(push_effect e c)\<lparr>pending_events := es\<rparr> = push_effect e (c\<lparr>pending_events := es\<rparr>)"
  "(push_effect e c)\<lparr>retained_semantic_outcomes := os\<rparr>
     = push_effect e (c\<lparr>retained_semantic_outcomes := os\<rparr>)"
  by (cases c, simp add: push_effect_def)+

lemma push_effect_fields [simp]:
  "pending_events (push_effect e c) = pending_events c"
  "retained_semantic_outcomes (push_effect e c) = retained_semantic_outcomes c"
  "gap_detected (push_effect e c) = gap_detected c"
  "recovery_snapshot (push_effect e c) = recovery_snapshot c"
  "effects (push_effect e c) = effects c @ [e]"
  by (simp_all add: push_effect_def)

lemma snd_queue_event:
  "snd (queue_event event c) = append_event event
     (if is_transport_delta event \<and> MAX_PENDING_TELEMETRY_EVENTS \<le> telemetry_count (pending_events c)
      then mark_gap (c\<lparr>pending_events :=
             remove_first (\<lambda>queued. is_transport_delta (se_event queued)) (pending_events c)\<rparr>)
      else c)"
  unfolding queue_event_def append_event_def Let_def split_def by simp

lemma snd_retain_outcome:
  "snd (retain_outcome outcome c) =
     push_effect (EmitSemanticOutcome \<lparr>so_order = fst (next_order c), so_outcome = outcome\<rparr>)
       ((snd (next_order c))\<lparr>retained_semantic_outcomes := retained_semantic_outcomes c @
          [\<lparr>so_order = fst (next_order c), so_outcome = outcome\<rparr>]\<rparr>)"
  unfolding retain_outcome_def Let_def split_def by simp

text \<open>The delivery fields after a gap: a gap event if one is due, and no recovery snapshot.\<close>

definition gap_marked :: "reducer_context \<Rightarrow> reducer_context" where
  "gap_marked c =
     (if \<not> gap_detected c \<or> recovery_snapshot c \<noteq> None
      then append_event PlayerEvent.EventGapDetected (c\<lparr>gap_detected := True\<rparr>) else c)"

lemma mark_gap_gap_marked:
  "mark_gap c = push_effect RequestAuthoritativeSnapshot (schedule_reconciliation
     ((gap_marked c)\<lparr>reconciliation_required := True, recovery_snapshot := None\<rparr>))"
  unfolding mark_gap_def gap_marked_def append_event_def Let_def split_def by simp

lemma gap_marked_detected: "gap_detected (gap_marked c)"
  by (simp add: gap_marked_def append_event_def Let_def next_order_def)

lemma view_mark_gap:
  "delivery_view (mark_gap c) = delivery_view ((gap_marked c)\<lparr>recovery_snapshot := None\<rparr>)"
  unfolding mark_gap_gap_marked
  by (simp only: view_simps effect_order.simps) (simp add: delivery_view_def current_delivery_def)

lemma delivery_good_append_event:
  assumes good: "delivery_good c" shows "delivery_good (append_event event c)"
proof -
  have "delivery_inv (append_event event c)" if "unsaturated (effects (append_event event c))"
  proof -
    from that have "unsaturated (effects c)" "order_below_max (fst (next_order c))"
      by (auto simp: append_event_def Let_def unsaturated_def)
    with good have inv: "delivery_inv c" and n: "next_event_sequence c < u64_max"
      by (auto simp: delivery_good_def dest: unsaturated_next_order)
    from delivery_inv_push_event [OF this, where event = "\<lparr>se_order = fst (next_order c), se_event = event\<rparr>"]
    show ?thesis by (simp add: append_event_def Let_def)
  qed
  then show ?thesis by (simp add: delivery_good_def)
qed

lemma delivery_good_retain_outcome:
  assumes good: "delivery_good c" shows "delivery_good (snd (retain_outcome outcome c))"
proof -
  let ?c = "snd (retain_outcome outcome c)"
  have "delivery_inv ?c" if "unsaturated (effects ?c)"
  proof -
    from that have "unsaturated (effects c)" "order_below_max (fst (next_order c))"
      by (auto simp: snd_retain_outcome unsaturated_def)
    with good have "delivery_inv c" "next_event_sequence c < u64_max"
      by (auto simp: delivery_good_def dest: unsaturated_next_order)
    from delivery_inv_push_outcome [OF this, where outcome = "\<lparr>so_order = fst (next_order c), so_outcome = outcome\<rparr>"]
    show ?thesis by (simp add: snd_retain_outcome)
  qed
  then show ?thesis by (simp add: delivery_good_def)
qed

lemma delivery_good_step:
  assumes "delivery_good c" and "effects c' = effects c @ fx"
    and "delivery_inv c \<Longrightarrow> delivery_inv c'"
  shows "delivery_good c'"
  using assms by (auto simp: delivery_good_def)

lemma delivery_good_mark_gap:
  assumes good: "delivery_good c" shows "delivery_good (mark_gap c)"
proof -
  have "delivery_good (c\<lparr>gap_detected := True\<rparr>)"
    by (rule delivery_good_step [OF good, where fx = "[]"]) (simp_all add: delivery_inv_set_gap)
  with good have m: "delivery_good (gap_marked c)"
    by (simp add: gap_marked_def delivery_good_append_event)
  have "delivery_good ((gap_marked c)\<lparr>recovery_snapshot := None\<rparr>)"
    by (rule delivery_good_step [OF m, where fx = "[]"])
      (simp_all add: delivery_inv_drop_snapshot gap_marked_detected)
  then show ?thesis
    by (simp only: delivery_good_view [OF view_mark_gap])
qed

lemma delivery_good_queue_event:
  assumes good: "delivery_good c" shows "delivery_good (snd (queue_event event c))"
proof -
  let ?p = "\<lambda>queued. is_transport_delta (se_event queued)"
  have "delivery_good (c\<lparr>pending_events := remove_first ?p (pending_events c)\<rparr>)"
    if "MAX_PENDING_TELEMETRY_EVENTS \<le> telemetry_count (pending_events c)"
  proof -
    have "2 \<le> length (pending_events c)"
      using that length_filter_le [of ?p "pending_events c"]
      unfolding telemetry_count_def MAX_PENDING_TELEMETRY_EVENTS_def by linarith
    then show ?thesis
      by (intro delivery_good_step [OF good, where fx = "[]"]) (simp_all add: delivery_inv_drop_telemetry)
  qed
  with good show ?thesis
    by (simp add: snd_queue_event delivery_good_append_event delivery_good_mark_gap)
qed

section \<open>Snapshots and epochs\<close>

lemma delivery_good_close_snapshot:
  assumes "delivery_good c" and "snapshot_in_bounds c snapshot" and "gap_detected c"
  shows "delivery_good (c\<lparr>recovery_snapshot := Some snapshot\<rparr>)"
  using assms(2,3) by (intro delivery_good_step [OF assms(1), where fx = "[]"])
    (simp_all add: delivery_inv_set_snapshot)

lemma delivery_good_apply_snapshot:
  assumes "delivery_good c" and "snapshot_in_bounds c snapshot"
  shows "delivery_good (authoritative_snapshot_applied snapshot c)"
proof -
  let ?s = "c\<lparr>gap_detected := True, recovery_snapshot := Some snapshot\<rparr>"
  let ?p = "\<lambda>event. uncovered (attachment_epoch c) (sb_through (as_boundary snapshot)) (se_order event)"
  have applied: "authoritative_snapshot_applied snapshot c =
      (if cached_batch c = None then ?s\<lparr>pending_events := filter ?p (pending_events c)\<rparr> else ?s)"
    using assms(2) by (simp add: authoritative_snapshot_applied_def snapshot_in_bounds_def Let_def)
  have set: "delivery_inv ?s" if "delivery_inv c"
    using delivery_inv_set_snapshot [OF delivery_inv_set_gap [OF that], of snapshot] assms(2)
    by (simp add: snapshot_in_bounds_def last_event_sequence_def)
  have "delivery_inv (authoritative_snapshot_applied snapshot c)" if "delivery_inv c"
    using set [OF that] delivery_inv_filter_events [OF set [OF that], of ?p]
    by (simp add: applied)
  then show ?thesis
    by (intro delivery_good_step [OF assms(1), where fx = "[]"]) (simp_all add: applied)
qed

lemma open_retired_fields:
  "delivery_fields (open_next_epoch (retire_current_epoch_delivery s)) =
     (\<lparr>db_epoch = epoch_next (attachment_epoch s), db_pending_events = [],
       db_retained_semantic_outcomes = [], db_recovery_snapshot = None, db_gap_detected = True\<rparr>,
      1,
      retired_epoch_deliveries s
        @ (if delivery_is_empty (current_delivery s) then [] else [current_delivery s]),
      cached_batch s)"
  by (simp add: delivery_fields_def open_next_epoch_def retire_current_epoch_delivery_def
      current_delivery_def Let_def)

lemma delivery_inv_next_epoch:
  assumes inv: "delivery_inv s" and fresh: "attachment_epoch s < epoch_next (attachment_epoch s)"
  shows "delivery_inv (open_next_epoch (retire_current_epoch_delivery s))" (is "delivery_inv ?s")
proof -
  have fields: "retired_epoch_deliveries ?s = retired_epoch_deliveries s
        @ (if delivery_is_empty (current_delivery s) then [] else [current_delivery s])"
      "cached_batch ?s = cached_batch s" "next_event_sequence ?s = 1"
      "current_delivery ?s = \<lparr>db_epoch = epoch_next (attachment_epoch s), db_pending_events = [],
         db_retained_semantic_outcomes = [], db_recovery_snapshot = None, db_gap_detected = True\<rparr>"
    using open_retired_fields [of s] by (simp_all add: delivery_fields_def)
  then have epoch: "attachment_epoch ?s = epoch_next (attachment_epoch s)"
    by (simp add: open_next_epoch_def retire_current_epoch_delivery_def Let_def)
  have below: "\<forall>d \<in> set (retired_epoch_deliveries s). db_epoch d < attachment_epoch s"
    and sorted: "sorted_wrt (<) (map db_epoch (retired_epoch_deliveries s))"
    using inv by (auto simp: delivery_inv_def buffers_def sorted_wrt_append current_delivery_def)
  have "batch_ok ?s b" if "cached_batch s = Some b" for b
  proof -
    from inv that have ok: "batch_ok s b" by (auto simp: delivery_inv_def)
    then have hd: "hd (buffers ?s) = hd (buffers s)"
      by (auto simp: batch_ok_def hd_buffers fields split: list.splits)
    moreover from ok have "eb_epoch b \<le> attachment_epoch s"
      using below by (auto simp: batch_ok_def hd_buffers current_delivery_def split: list.splits)
    ultimately show ?thesis
      using ok fresh by (simp add: batch_ok_def epoch)
  qed
  moreover have "sorted_wrt (<) (map db_epoch (buffers ?s))"
    using sorted below fresh less_trans [OF _ fresh]
    by (auto simp: buffers_def fields(1,4) sorted_wrt_append)
      (auto simp: current_delivery_def)
  moreover have "\<forall>d \<in> set (buffers ?s). delivery_ordered d"
    using inv by (auto simp: delivery_inv_def buffers_def fields)
      (simp_all add: buffer_simps snapshot_of_epoch_def ordered_stream_def)
  ultimately show ?thesis
    by (auto simp: delivery_inv_def fields delivery_bounded_simp)
qed

lemma delivery_good_next_epoch:
  assumes good: "delivery_good c"
  shows "delivery_good (snd (queue_event (PlayerEvent.AttachmentReplaced e)
           (open_next_epoch (retire_current_epoch_delivery c))))"
proof -
  let ?o = "open_next_epoch (retire_current_epoch_delivery c)"
  have o: "effects ?o = effects c" "attachment_epoch ?o = epoch_next (attachment_epoch c)"
    by (simp_all add: open_next_epoch_def retire_current_epoch_delivery_def Let_def)
  have eq: "snd (queue_event (PlayerEvent.AttachmentReplaced e) ?o)
      = append_event (PlayerEvent.AttachmentReplaced e) ?o"
    by (simp add: snd_queue_event)
  show ?thesis
  proof (cases "epoch_next (attachment_epoch c) < u64_max")
    case True
    then have "attachment_epoch c < epoch_next (attachment_epoch c)"
      by (auto simp: epoch_next_def dest: saturating_add_below)
    then have "delivery_good ?o"
      by (intro delivery_good_step [OF good, where fx = "[]"]) (simp_all add: o delivery_inv_next_epoch)
    then show ?thesis by (simp add: eq delivery_good_append_event)
  next
    case False
    then have "\<not> order_below_max (fst (next_order ?o))"
      using o by (simp add: order_below_max_def next_order_def Let_def)
    then show ?thesis
      by (simp add: eq append_event_def Let_def delivery_good_def unsaturated_def)
  qed
qed

section \<open>Every input keeps delivery ordered\<close>

interpretation ordr: delivery_invariant delivery_good
  by (unfold_locales; (rule delivery_good_view delivery_good_queue_event delivery_good_retain_outcome
        delivery_good_mark_gap delivery_good_close_snapshot delivery_good_apply_snapshot
        delivery_good_next_epoch; assumption))

lemma delivery_fields_extend [simp]:
  "delivery_fields (PlayerLifecycleState.extend s x) = delivery_fields s"
  "delivery_fields (PlayerLifecycleState.truncate c) = delivery_fields c"
  by (simp_all add: delivery_fields_def current_delivery_def PlayerLifecycleState.defs)

lemma delivery_inv_reduce:
  assumes "delivery_inv s" and "unsaturated (snd (reduce_player_lifecycle s input))"
  shows "delivery_inv (fst (reduce_player_lifecycle s input))"
proof -
  let ?c = "PlayerLifecycleState.extend s (reducer_context.fields [])"
  have "delivery_inv ?c"
    by (rule iffD2 [OF delivery_inv_cong [OF delivery_fields_extend(1)] assms(1)])
  then have "delivery_good ?c"
    by (simp add: delivery_good_def)
  then have "delivery_good (handle_input input ?c)"
    by (rule ordr.handle_input)
  with assms(2) have "delivery_inv (handle_input input ?c)"
    by (simp add: reduce_player_lifecycle_def delivery_good_def Let_def)
  then show ?thesis
    by (simp add: reduce_player_lifecycle_def Let_def delivery_inv_cong [OF delivery_fields_extend(2)])
qed

end
