(* ===== verification/Lifecycle_Batches.thy ===== *)
theory Lifecycle_Batches
  imports Lifecycle_Order Runs
begin

text \<open>
  Peeking at and acknowledging event batches. A peeked batch stays the same until its own token
  comes back, the acknowledgement of a peeked batch always succeeds, and over whole runs of
  inputs, peeks and acknowledgements the semantic outcomes reach the consumer first-in
  first-out, each exactly once.
\<close>

section \<open>The outcome queue\<close>

definition pending_outcomes :: "'a lifecycle \<Rightarrow> SequencedPlayerSemanticOutcome list" where
  "pending_outcomes s = concat (map db_retained_semantic_outcomes (buffers s))"

fun effect_outcome :: "PlayerLifecycleEffect \<Rightarrow> SequencedPlayerSemanticOutcome option" where
  "effect_outcome (EmitSemanticOutcome outcome) = Some outcome"
| "effect_outcome _ = None"

definition emitted_outcomes :: "PlayerLifecycleEffect list \<Rightarrow> SequencedPlayerSemanticOutcome list" where
  "emitted_outcomes fx = List.map_filter effect_outcome fx"

text \<open>Relative to a fixed earlier queue, the queue has grown by the emitted outcomes.\<close>

definition outcome_fifo :: "SequencedPlayerSemanticOutcome list \<Rightarrow> reducer_context \<Rightarrow> bool" where
  "outcome_fifo earlier c \<longleftrightarrow> pending_outcomes c = earlier @ emitted_outcomes (effects c)"

lemma emitted_outcomes_append [simp]:
  "emitted_outcomes (fx @ gx) = emitted_outcomes fx @ emitted_outcomes gx"
  by (simp add: emitted_outcomes_def List.map_filter_def)

lemma emitted_outcomes_simps [simp]:
  "emitted_outcomes [] = []"
  "emitted_outcomes (e # fx) = (case effect_outcome e of None \<Rightarrow> [] | Some x \<Rightarrow> [x]) @ emitted_outcomes fx"
  by (simp_all add: emitted_outcomes_def List.map_filter_def split: option.split)

lemma emitted_outcomes_ordered: "emitted_outcomes (ordered_effects fx) = emitted_outcomes fx"
proof (induction fx)
  case (Cons e fx)
  then show ?case
    by (cases e) (simp_all add: ordered_effects_def)
qed (simp add: ordered_effects_def)

lemma pending_outcomes_eq:
  "pending_outcomes s =
     concat (map db_retained_semantic_outcomes (retired_epoch_deliveries s)) @ retained_semantic_outcomes s"
  by (simp add: pending_outcomes_def buffers_def current_delivery_def)

lemma outcome_fifo_view: "delivery_view c = delivery_view c' \<Longrightarrow> outcome_fifo P c = outcome_fifo P c'"
  by (simp add: outcome_fifo_def pending_outcomes_def buffers_def delivery_view_def)
    (metis emitted_outcomes_ordered)

lemma outcome_fifo_append_event: "outcome_fifo P c \<Longrightarrow> outcome_fifo P (append_event event c)"
  by (simp add: outcome_fifo_def append_event_def Let_def pending_outcomes_eq next_order_def
      push_effect_def)

lemma outcome_fifo_mark_gap: "outcome_fifo P c \<Longrightarrow> outcome_fifo P (mark_gap c)"
proof -
  assume "outcome_fifo P c"
  then have "outcome_fifo P (c\<lparr>gap_detected := True\<rparr>)"
    by (simp add: outcome_fifo_def pending_outcomes_eq)
  with \<open>outcome_fifo P c\<close> have "outcome_fifo P (gap_marked c)"
    by (simp add: gap_marked_def outcome_fifo_append_event)
  then have "outcome_fifo P ((gap_marked c)\<lparr>recovery_snapshot := None\<rparr>)"
    by (simp add: outcome_fifo_def pending_outcomes_eq)
  then show ?thesis
    by (simp only: outcome_fifo_view [OF view_mark_gap])
qed

lemma outcome_fifo_queue_event: "outcome_fifo P c \<Longrightarrow> outcome_fifo P (snd (queue_event event c))"
proof -
  assume c: "outcome_fifo P c"
  then have "outcome_fifo P (c\<lparr>pending_events := es\<rparr>)" for es
    by (simp add: outcome_fifo_def pending_outcomes_eq)
  with c show ?thesis
    by (simp add: snd_queue_event outcome_fifo_append_event outcome_fifo_mark_gap)
qed

lemma outcome_fifo_retain_outcome: "outcome_fifo P c \<Longrightarrow> outcome_fifo P (snd (retain_outcome outcome c))"
  by (simp add: outcome_fifo_def snd_retain_outcome pending_outcomes_eq next_order_def Let_def
      push_effect_def)

lemma outcome_fifo_snapshots:
  "outcome_fifo P c \<Longrightarrow> outcome_fifo P (c\<lparr>recovery_snapshot := r\<rparr>)"
  "outcome_fifo P c \<Longrightarrow> outcome_fifo P (authoritative_snapshot_applied snapshot c)"
  by (simp_all add: outcome_fifo_def pending_outcomes_eq authoritative_snapshot_applied_def Let_def)

lemma outcome_fifo_next_epoch:
  assumes "outcome_fifo P c"
  shows "outcome_fifo P (snd (queue_event (PlayerEvent.AttachmentReplaced e)
           (open_next_epoch (retire_current_epoch_delivery c))))"
  by (rule outcome_fifo_queue_event)
    (use assms in \<open>auto simp: outcome_fifo_def pending_outcomes_eq open_next_epoch_def
      retire_current_epoch_delivery_def current_delivery_def delivery_is_empty_def Let_def\<close>)

interpretation fifo: delivery_invariant "outcome_fifo P" for P
  by (unfold_locales; (rule outcome_fifo_view outcome_fifo_queue_event outcome_fifo_retain_outcome
        outcome_fifo_mark_gap outcome_fifo_snapshots outcome_fifo_next_epoch; assumption))

lemma pending_outcomes_cong:
  "delivery_fields s = delivery_fields s' \<Longrightarrow> pending_outcomes s = pending_outcomes s'"
  by (simp add: delivery_fields_def pending_outcomes_def buffers_def)

lemma pending_outcomes_reduce:
  "pending_outcomes (fst (reduce_player_lifecycle s input)) =
     pending_outcomes s @ emitted_outcomes (snd (reduce_player_lifecycle s input))"
proof -
  let ?c = "PlayerLifecycleState.extend s (reducer_context.fields [])"
  have fields: "pending_outcomes ?c = pending_outcomes s" "effects ?c = []"
    by (rule pending_outcomes_cong, rule delivery_fields_extend)
      (simp add: reducer_context.defs PlayerLifecycleState.defs)
  then have "outcome_fifo (pending_outcomes s) ?c"
    unfolding outcome_fifo_def by simp
  from fifo.handle_input [OF this, of input] show ?thesis
    by (simp add: reduce_player_lifecycle_def Let_def outcome_fifo_def
        pending_outcomes_cong [OF delivery_fields_extend(2)])
qed

section \<open>Compaction does not touch delivery\<close>

lemma delivery_fields_updates [simp]:
  "delivery_fields (s\<lparr>load_attempts := x1\<rparr>) = delivery_fields s"
  "delivery_fields (s\<lparr>commands := x2\<rparr>) = delivery_fields s"
  "delivery_fields (s\<lparr>seek_ownership := x3\<rparr>) = delivery_fields s"
  "delivery_fields (s\<lparr>terminal_attempt_tombstones := x4\<rparr>) = delivery_fields s"
  "delivery_fields (s\<lparr>retired_command_tombstones := x5\<rparr>) = delivery_fields s"
  "delivery_fields (s\<lparr>retired_seek_tombstones := x6\<rparr>) = delivery_fields s"
  "delivery_fields (s\<lparr>uncertain_seek_generations := x7\<rparr>) = delivery_fields s"
  "delivery_fields (s\<lparr>next_acknowledgement_token := x8\<rparr>) = delivery_fields s"
  by (simp_all add: delivery_fields_def current_delivery_def)

lemma delivery_fields_retire_command [simp]:
  "delivery_fields (retire_command_record k s) = delivery_fields s"
  by (simp add: retire_command_record_def split: option.split)

lemma delivery_fields_compact_seek [simp]: "delivery_fields (compact_seek entry s) = delivery_fields s"
  by (simp add: compact_seek_def push_retired_seek_tombstone_def Let_def split_def split: list.split)

lemma delivery_fields_compact_attempt [simp]:
  "delivery_fields (compact_attempt q a s) = delivery_fields s"
  by (simp add: compact_attempt_def unlink_successor_def unlink_predecessor_def Let_def split: option.split)

lemma fold_keeps: "(\<And>x s. f (g x s) = f s) \<Longrightarrow> f (fold g xs s) = f s"
  by (induction xs arbitrary: s) simp_all

lemma delivery_fields_compact [simp]:
  "delivery_fields (compact_acknowledged_lifecycle q s) = delivery_fields s"
  by (simp add: compact_acknowledged_lifecycle_def Let_def fold_keeps [where f = delivery_fields])

section \<open>Pruning and acknowledging one buffer\<close>

lemma delivery_inv_uncached:
  "cached_batch s = None \<Longrightarrow> delivery_inv s \<longleftrightarrow>
     sorted_wrt (<) (map db_epoch (buffers s)) \<and> (\<forall>d \<in> set (buffers s). delivery_ordered d)
     \<and> delivery_bounded (next_event_sequence s) (current_delivery s)"
  by (simp add: delivery_inv_def)

lemma set_covered_by_snapshot: "set (covered_by_snapshot snap es) \<subseteq> set es"
  by (auto simp: covered_by_snapshot_def split: option.splits)

lemma prune_buffer [simp]:
  "db_epoch (delivery_prune_snapshot_covered_events d) = db_epoch d"
  "db_retained_semantic_outcomes (delivery_prune_snapshot_covered_events d) = db_retained_semantic_outcomes d"
  by (simp_all add: delivery_prune_snapshot_covered_events_def)

lemma prune_buffer_ordered:
  "delivery_ordered d \<Longrightarrow> delivery_ordered (delivery_prune_snapshot_covered_events d)"
  using set_covered_by_snapshot [of "db_recovery_snapshot d" "db_pending_events d"]
  by (auto simp: delivery_ordered_def delivery_prune_snapshot_covered_events_def event_orders_def
      outcome_orders_def covered_by_snapshot_def ordered_stream_filter split: option.splits)

lemma prune_buffer_bounded:
  "delivery_bounded n d \<Longrightarrow> delivery_bounded n (delivery_prune_snapshot_covered_events d)"
  using set_covered_by_snapshot [of "db_recovery_snapshot d" "db_pending_events d"]
  by (auto simp: delivery_bounded_simp delivery_prune_snapshot_covered_events_def)

lemma ack_buffer [simp]: "db_epoch (acknowledge_delivery_through b k d) = db_epoch d"
  by (simp add: acknowledge_delivery_through_def Let_def)

lemma ack_buffer_outcomes:
  "db_retained_semantic_outcomes (acknowledge_delivery_through b k d) =
     filter (\<lambda>outcome. uncovered (sb_epoch b) (sb_through b) (so_order outcome))
       (db_retained_semantic_outcomes d)"
  by (simp add: acknowledge_delivery_through_def Let_def)

lemma ack_buffer_ordered: "delivery_ordered d \<Longrightarrow> delivery_ordered (acknowledge_delivery_through b k d)"
  by (auto simp: delivery_ordered_def acknowledge_delivery_through_def Let_def event_orders_def
      outcome_orders_def snapshot_of_epoch_def ordered_stream_filter split: option.splits)

lemma ack_buffer_bounded: "delivery_bounded n d \<Longrightarrow> delivery_bounded n (acknowledge_delivery_through b k d)"
  by (auto simp: delivery_bounded_simp acknowledge_delivery_through_def Let_def)

lemma buffers_prune:
  "buffers (prune_snapshot_covered_events s) = map delivery_prune_snapshot_covered_events (buffers s)"
  by (simp add: buffers_def prune_snapshot_covered_events_def current_delivery_def
      delivery_prune_snapshot_covered_events_def)

lemma prune_state [simp]:
  "cached_batch (prune_snapshot_covered_events s) = cached_batch s"
  "next_event_sequence (prune_snapshot_covered_events s) = next_event_sequence s"
  "attachment_epoch (prune_snapshot_covered_events s) = attachment_epoch s"
  "current_delivery (prune_snapshot_covered_events s)
     = delivery_prune_snapshot_covered_events (current_delivery s)"
  by (simp_all add: prune_snapshot_covered_events_def current_delivery_def
      delivery_prune_snapshot_covered_events_def)

lemma pending_outcomes_prune [simp]:
  "pending_outcomes (prune_snapshot_covered_events s) = pending_outcomes s"
  by (simp add: pending_outcomes_def buffers_prune comp_def)

lemma delivery_inv_prune:
  "cached_batch s = None \<Longrightarrow> delivery_inv s \<Longrightarrow> delivery_inv (prune_snapshot_covered_events s)"
  by (auto simp: delivery_inv_uncached buffers_prune comp_def prune_buffer_ordered prune_buffer_bounded)

text \<open>In an ordered buffer, what an acknowledgement of its own epoch keeps and removes.\<close>

lemma sorted_split:
  "sorted_wrt (<) (map f xs) \<Longrightarrow> filter (\<lambda>x. f x \<le> t) xs @ filter (\<lambda>x. (t::nat) < f x) xs = xs"
proof (induction xs)
  case (Cons x xs)
  have "filter (\<lambda>x. f x \<le> t) xs = []" if "t < f x"
    using Cons.prems that by (auto simp: filter_empty_conv not_le dest: less_trans)
  with Cons show ?case
    by (cases "f x \<le> t") (simp_all add: not_le)
qed simp

lemma ack_outcomes_split:
  assumes "delivery_ordered d" and "batch_covers b d"
    and "sb_epoch (eb_boundary b) = db_epoch d"
  shows "db_retained_semantic_outcomes d = eb_semantic_outcomes b
           @ db_retained_semantic_outcomes (acknowledge_delivery_through (eb_boundary b) k d)"
proof -
  let ?t = "sb_through (eb_boundary b)" and ?os = "db_retained_semantic_outcomes d"
  have "filter (\<lambda>outcome. uncovered (db_epoch d) ?t (so_order outcome)) ?os
      = filter (\<lambda>outcome. ?t < eo_sequence (so_order outcome)) ?os"
    using assms(1)
    by (intro filter_cong) (auto simp: delivery_ordered_def ordered_stream_def outcome_orders_def
        uncovered_def list_all_iff)
  moreover have "filter (\<lambda>outcome. eo_sequence (so_order outcome) \<le> ?t) ?os
      @ filter (\<lambda>outcome. ?t < eo_sequence (so_order outcome)) ?os = ?os"
    by (rule sorted_split)
      (use assms(1) in \<open>simp add: delivery_ordered_def ordered_stream_def outcome_orders_def comp_def\<close>)
  ultimately show ?thesis
    using assms(2,3) by (simp add: ack_buffer_outcomes batch_covers_def)
qed

section \<open>Peeking\<close>

definition pruned_for_peek :: "'a lifecycle \<Rightarrow> 'a lifecycle" where
  "pruned_for_peek s =
     (let s = prune_snapshot_covered_events s
      in s\<lparr>retired_epoch_deliveries := dropWhile delivery_is_empty (retired_epoch_deliveries s)\<rparr>)"

lemma peek_uncached:
  "cached_batch s = None \<Longrightarrow> peek_event_batch s =
     (let s = pruned_for_peek s; d = hd (buffers s)
      in if has_deliverable_content d
         then let token = max (next_acknowledgement_token s) 1; b = batch_of_delivery d token
              in (Some b, s\<lparr>next_acknowledgement_token := max (saturating_add token 1) 1,
                            cached_batch := Some b\<rparr>)
         else (None, s))"
  by (simp add: peek_event_batch_def pruned_for_peek_def hd_buffers Let_def split: list.split)

lemma peek_cached: "cached_batch s = Some b \<Longrightarrow> peek_event_batch s = (Some b, s)"
  by (simp add: peek_event_batch_def)

lemma peek_caches: "cached_batch (snd (peek_event_batch s)) = fst (peek_event_batch s)"
proof (cases "cached_batch s")
  case None
  then show ?thesis by (simp add: peek_uncached Let_def) (simp add: pruned_for_peek_def Let_def)
qed (simp add: peek_cached)

lemma pending_outcomes_dropped:
  "concat (map db_retained_semantic_outcomes (dropWhile delivery_is_empty ds))
     = concat (map db_retained_semantic_outcomes ds)"
  by (induction ds) (auto simp: delivery_is_empty_def)

lemma pending_outcomes_pruned: "pending_outcomes (pruned_for_peek s) = pending_outcomes s"
  using pending_outcomes_prune [of s]
  by (simp add: pruned_for_peek_def pending_outcomes_eq Let_def pending_outcomes_dropped)

lemma delivery_inv_pruned:
  assumes "cached_batch s = None" and "delivery_inv s" shows "delivery_inv (pruned_for_peek s)"
proof -
  let ?s = "prune_snapshot_covered_events s"
  have "delivery_inv ?s" using assms by (rule delivery_inv_prune)
  moreover have "sorted_wrt (<) (map db_epoch (dropWhile p ds) @ [e])"
    if "sorted_wrt (<) (map db_epoch ds @ [e])" for p ds e
    using that by (induction ds) auto
  ultimately show ?thesis
    using assms(1) set_dropWhileD [of _ delivery_is_empty "retired_epoch_deliveries ?s"]
    by (auto simp: delivery_inv_def pruned_for_peek_def Let_def buffers_def current_delivery_def)
qed

lemma foldr_max_ge: "x \<in> set xs \<Longrightarrow> (x::nat) \<le> foldr max xs 0"
  by (induction xs) auto

lemma foldr_max_less: "\<forall>x \<in> set xs. x < n \<Longrightarrow> 0 < n \<Longrightarrow> foldr max xs 0 < (n::nat)"
  by (induction xs) auto

lemma batch_of_delivery_ok:
  assumes inv: "delivery_inv s" and content: "has_deliverable_content (hd (buffers s))"
  shows "batch_ok s (batch_of_delivery (hd (buffers s)) token)"
proof -
  let ?d = "hd (buffers s)" and ?b = "batch_of_delivery (hd (buffers s)) token"
  have "?d \<in> set (buffers s)"
    by (rule hd_in_set) (simp add: buffers_def)
  with inv have ordered: "delivery_ordered ?d"
    by (simp add: delivery_inv_def)
  then have single: "batch_single_epoch ?b"
    by (auto simp: batch_single_epoch_def batch_of_delivery_def delivery_ordered_def
        ordered_stream_def event_orders_def outcome_orders_def list_all_iff)
  have "event \<in> set (db_pending_events ?d)
      \<Longrightarrow> eo_sequence (se_order event) \<le> foldr max (delivery_sequences ?d) 0"
    "outcome \<in> set (db_retained_semantic_outcomes ?d)
      \<Longrightarrow> eo_sequence (so_order outcome) \<le> foldr max (delivery_sequences ?d) 0" for event outcome
    by (rule foldr_max_ge, simp add: delivery_sequences_def)+
  then have covers: "batch_covers ?b ?d"
    by (simp add: batch_covers_def batch_of_delivery_def list_all_iff)
  have "?d = current_delivery s" if "db_epoch ?d = attachment_epoch s"
    using inv that
    by (auto simp: delivery_inv_def buffers_def current_delivery_def sorted_wrt_append hd_append
        split: if_splits list.splits) (metis hd_in_set less_irrefl)
  then have "foldr max (delivery_sequences ?d) 0 < next_event_sequence s"
    if "db_epoch ?d = attachment_epoch s"
    using that delivery_inv_current(2) [OF inv]
    by (auto simp: delivery_bounded_def intro: foldr_max_less)
  with single covers content show ?thesis
    by (auto simp: batch_ok_def batch_of_delivery_def has_deliverable_content_def delivery_is_empty_def)
qed

lemma delivery_inv_peek: "delivery_inv s \<Longrightarrow> delivery_inv (snd (peek_event_batch s))"
proof (cases "cached_batch s")
  case None
  assume "delivery_inv s"
  with None have inv: "delivery_inv (pruned_for_peek s)" by (simp add: delivery_inv_pruned)
  have "delivery_inv (s'\<lparr>next_acknowledgement_token := n, cached_batch := Some b\<rparr>)"
    if "delivery_inv s'" "batch_ok s' b" for s' :: "'a lifecycle" and n b
    using that by (simp add: delivery_inv_def batch_ok_def buffers_def current_delivery_def)
  with inv batch_of_delivery_ok [OF inv] None show ?thesis
    by (simp add: peek_uncached Let_def)
qed (simp add: peek_cached)

lemma pending_outcomes_peek: "pending_outcomes (snd (peek_event_batch s)) = pending_outcomes s"
proof (cases "cached_batch s")
  case None
  have "pending_outcomes (s'\<lparr>next_acknowledgement_token := n, cached_batch := b\<rparr>) = pending_outcomes s'"
    for s' :: "'a lifecycle" and n b
    by (simp add: pending_outcomes_eq)
  with None show ?thesis
    by (simp add: peek_uncached Let_def pending_outcomes_pruned)
qed (simp add: peek_cached)

section \<open>Acknowledging\<close>

lemma acknowledge_other_token:
  "(\<And>b. cached_batch s = Some b \<Longrightarrow> eb_token b \<noteq> token) \<Longrightarrow>
   acknowledge_event_batch token s = (False, s)"
  by (cases "cached_batch s") (simp_all add: acknowledge_event_batch_def)

text \<open>The state right after the buffer has been acknowledged, before pruning and compaction.\<close>

definition acknowledged_buffers :: "PlayerEventBatch \<Rightarrow> 'a lifecycle \<Rightarrow> 'a lifecycle" where
  "acknowledged_buffers b s =
     (case retired_epoch_deliveries s of
        d # rest \<Rightarrow>
          (let d' = delivery_acknowledge_through (eb_boundary b) (eb_snapshot b \<noteq> None) d
           in s\<lparr>cached_batch := None,
                retired_epoch_deliveries := (if delivery_is_empty d' then rest else d' # rest)\<rparr>)
      | [] \<Rightarrow>
          store_delivery
            (acknowledge_delivery_through (eb_boundary b) (eb_snapshot b \<noteq> None) (current_delivery s))
            (s\<lparr>cached_batch := None\<rparr>))"

lemma acknowledge_cached:
  assumes "cached_batch s = Some b" and "batch_ok s b"
  shows "acknowledge_event_batch (eb_token b) s =
    (True, let s' = prune_snapshot_covered_events (acknowledged_buffers b s)
           in if sb_epoch (eb_boundary b) = attachment_epoch s
              then compact_acknowledged_lifecycle (sb_through (eb_boundary b)) s' else s')"
  using assms
  by (auto simp: acknowledge_event_batch_def acknowledged_buffers_def batch_ok_def hd_buffers Let_def
      current_delivery_def split: list.split)

lemma acknowledged_buffers_state [simp]:
  "cached_batch (acknowledged_buffers b s) = None"
  "next_event_sequence (acknowledged_buffers b s) = next_event_sequence s"
  "attachment_epoch (acknowledged_buffers b s) = attachment_epoch s"
  by (simp_all add: acknowledged_buffers_def store_delivery_def Let_def split: list.split)

lemma current_delivery_store:
  "current_delivery (store_delivery d s) = d\<lparr>db_epoch := attachment_epoch s\<rparr>"
  "current_delivery (s\<lparr>cached_batch := x\<rparr>) = current_delivery s"
  "current_delivery (s\<lparr>cached_batch := x, retired_epoch_deliveries := ds\<rparr>) = current_delivery s"
  by (simp_all add: current_delivery_def store_delivery_def)

lemma store_delivery_same:
  "db_epoch d = attachment_epoch s \<Longrightarrow> current_delivery (store_delivery d s) = d"
  by (cases d) (simp add: current_delivery_store)

lemma acknowledged_buffers_inv:
  assumes inv: "delivery_inv s" and ok: "batch_ok s b"
  shows "delivery_inv (acknowledged_buffers b s)"
proof (cases "retired_epoch_deliveries s")
  case Nil
  then have "retired_epoch_deliveries (acknowledged_buffers b s) = []"
    and "current_delivery (acknowledged_buffers b s) =
      acknowledge_delivery_through (eb_boundary b) (eb_snapshot b \<noteq> None) (current_delivery s)"
    by (simp add: acknowledged_buffers_def store_delivery_def)
      (simp add: acknowledged_buffers_def Nil store_delivery_same current_delivery_def [of s])
  then show ?thesis
    by (simp add: delivery_inv_uncached buffers_def ack_buffer_ordered ack_buffer_bounded
        delivery_inv_current [OF inv])
next
  case (Cons d rest)
  with inv show ?thesis
    by (auto simp: delivery_inv_def buffers_def acknowledged_buffers_def Let_def current_delivery_store
        delivery_acknowledge_through_def ack_buffer_ordered prune_buffer_ordered)
qed

lemma acknowledged_buffers_outcomes:
  assumes inv: "delivery_inv s" and ok: "batch_ok s b"
  shows "pending_outcomes s = eb_semantic_outcomes b @ pending_outcomes (acknowledged_buffers b s)"
proof -
  have d: "hd (buffers s) \<in> set (buffers s)"
    by (rule hd_in_set) (simp add: buffers_def)
  have "sb_epoch (eb_boundary b) = db_epoch (hd (buffers s))"
    using ok by (simp add: batch_ok_def batch_single_epoch_def)
  then have split: "db_retained_semantic_outcomes (hd (buffers s)) = eb_semantic_outcomes b
      @ db_retained_semantic_outcomes
          (acknowledge_delivery_through (eb_boundary b) k (hd (buffers s)))" for k
    using inv ok d by (intro ack_outcomes_split) (auto simp: delivery_inv_def batch_ok_def)
  show ?thesis
  proof (cases "retired_epoch_deliveries s")
    case Nil
    with split show ?thesis
      by (simp add: pending_outcomes_eq acknowledged_buffers_def hd_buffers store_delivery_def)
        (simp add: current_delivery_def)
  next
    case (Cons d rest)
    with split [of "eb_snapshot b \<noteq> None"] show ?thesis
      by (auto simp: pending_outcomes_eq acknowledged_buffers_def hd_buffers Let_def
          delivery_acknowledge_through_def delivery_is_empty_def)
  qed
qed

lemma acknowledge_result:
  assumes inv: "delivery_inv s" and cached: "cached_batch s = Some b"
  shows "fst (acknowledge_event_batch (eb_token b) s)"
    and "delivery_inv (snd (acknowledge_event_batch (eb_token b) s))"
    and "cached_batch (snd (acknowledge_event_batch (eb_token b) s)) = None"
    and "pending_outcomes s =
           eb_semantic_outcomes b @ pending_outcomes (snd (acknowledge_event_batch (eb_token b) s))"
proof -
  let ?s = "prune_snapshot_covered_events (acknowledged_buffers b s)"
    and ?t = "snd (acknowledge_event_batch (eb_token b) s)"
  have ok: "batch_ok s b" using inv cached by (simp add: delivery_inv_def)
  have fields: "delivery_fields ?t = delivery_fields ?s"
    by (simp add: acknowledge_cached [OF cached ok] Let_def)
  show "fst (acknowledge_event_batch (eb_token b) s)"
    by (simp add: acknowledge_cached [OF cached ok])
  show "delivery_inv ?t"
    unfolding delivery_inv_cong [OF fields]
    by (rule delivery_inv_prune) (simp_all add: acknowledged_buffers_inv [OF inv ok])
  show "cached_batch ?t = None"
    using fields by (simp add: delivery_fields_def)
  show "pending_outcomes s = eb_semantic_outcomes b @ pending_outcomes ?t"
    using acknowledged_buffers_outcomes [OF inv ok]
    by (simp add: pending_outcomes_cong [OF fields])
qed

section \<open>Runs\<close>

text \<open>
  What a consumer and the adapter do to the lifecycle: feed an input, peek at a batch,
  acknowledge a token. The log of a step holds the effects of an input, and the outcomes that an
  accepted acknowledgement has delivered.
\<close>

datatype LifecycleStep =
  Reduce PlayerLifecycleInput | Peek | Acknowledge PlayerEventAcknowledgementToken

datatype LifecycleLogEntry =
  Emitted PlayerLifecycleEffect | Delivered SequencedPlayerSemanticOutcome

definition acknowledged_outcomes ::
  "PlayerEventAcknowledgementToken \<Rightarrow> PlayerLifecycleState \<Rightarrow> SequencedPlayerSemanticOutcome list" where
  "acknowledged_outcomes token s =
     (if fst (acknowledge_event_batch token s)
      then (case cached_batch s of Some b \<Rightarrow> eb_semantic_outcomes b | None \<Rightarrow> []) else [])"

fun lifecycle_step :: "LifecycleStep \<Rightarrow> PlayerLifecycleState \<Rightarrow> PlayerLifecycleState \<times> LifecycleLogEntry list" where
  "lifecycle_step (Reduce input) s =
     (let (s', fx) = reduce_player_lifecycle s input in (s', map Emitted fx))"
| "lifecycle_step Peek s = (snd (peek_event_batch s), [])"
| "lifecycle_step (Acknowledge token) s =
     (snd (acknowledge_event_batch token s), map Delivered (acknowledged_outcomes token s))"

definition logged_effects :: "LifecycleLogEntry list \<Rightarrow> PlayerLifecycleEffect list" where
  "logged_effects tr = List.map_filter (\<lambda>x. case x of Emitted e \<Rightarrow> Some e | Delivered _ \<Rightarrow> None) tr"

definition logged_deliveries :: "LifecycleLogEntry list \<Rightarrow> SequencedPlayerSemanticOutcome list" where
  "logged_deliveries tr =
     List.map_filter (\<lambda>x. case x of Emitted _ \<Rightarrow> None | Delivered outcome \<Rightarrow> Some outcome) tr"

definition below_saturation :: "LifecycleLogEntry list \<Rightarrow> bool" where
  "below_saturation tr = unsaturated (logged_effects tr)"

lemma logged_append [simp]:
  "logged_effects (tr @ tr') = logged_effects tr @ logged_effects tr'"
  "logged_deliveries (tr @ tr') = logged_deliveries tr @ logged_deliveries tr'"
  by (simp_all add: logged_effects_def logged_deliveries_def List.map_filter_def)

lemma logged_map [simp]:
  "logged_effects (map Emitted fx) = fx" "logged_effects (map Delivered os) = []"
  "logged_deliveries (map Emitted fx) = []" "logged_deliveries (map Delivered os) = os"
  "logged_effects [] = []" "logged_deliveries [] = []"
  by (induction fx) (simp_all add: logged_effects_def logged_deliveries_def List.map_filter_def comp_def)

lemma acknowledge_cases:
  obtains (refused) "acknowledge_event_batch token s = (False, s)"
  | (accepted) b where "cached_batch s = Some b" "token = eb_token b"
  using acknowledge_other_token [of s token] by blast

lemma delivery_inv_step:
  assumes inv: "delivery_inv s" and safe: "below_saturation (snd (lifecycle_step l s))"
  shows "delivery_inv (fst (lifecycle_step l s))"
proof (cases l)
  case (Reduce input)
  with safe show ?thesis
    using delivery_inv_reduce [OF inv, of input] by (simp add: below_saturation_def split_def Let_def)
next
  case Peek
  with inv show ?thesis by (simp add: delivery_inv_peek)
next
  case (Acknowledge token)
  with inv show ?thesis
    by (cases rule: acknowledge_cases [of token s]) (auto intro: acknowledge_result)
qed

lemma fifo_lifecycle_step:
  assumes inv: "delivery_inv s"
  shows "logged_deliveries (snd (lifecycle_step l s)) @ pending_outcomes (fst (lifecycle_step l s))
    = pending_outcomes s @ emitted_outcomes (logged_effects (snd (lifecycle_step l s)))"
proof (cases l)
  case (Reduce input)
  then show ?thesis by (simp add: split_def Let_def pending_outcomes_reduce)
next
  case Peek
  then show ?thesis by (simp add: pending_outcomes_peek)
next
  case (Acknowledge token)
  then show ?thesis
  proof (cases rule: acknowledge_cases [of token s])
    case (accepted b)
    with Acknowledge acknowledge_result [OF inv accepted(1)] show ?thesis
      by (simp add: acknowledged_outcomes_def)
  qed (simp add: acknowledged_outcomes_def)
qed

interpretation consumer: fifo_outbox lifecycle_step below_saturation delivery_inv pending_outcomes
    "\<lambda>tr. emitted_outcomes (logged_effects tr)" logged_deliveries
  by unfold_locales
    (simp_all add: below_saturation_def delivery_inv_step [unfolded below_saturation_def]
      fifo_lifecycle_step)

lemma delivery_inv_new_state: "delivery_inv (new_state epoch)"
  by (simp add: delivery_inv_def buffers_def new_state_def current_delivery_def delivery_ordered_def
      event_orders_def outcome_orders_def ordered_stream_def snapshot_of_epoch_def
      delivery_bounded_simp)

lemma pending_outcomes_new_state: "pending_outcomes (new_state epoch) = []"
  by (simp add: pending_outcomes_eq new_state_def)

end
