(* ===== verification/Lifecycle_Emission.thy ===== *)
theory Lifecycle_Emission
  imports Lifecycle_Batches
begin

text \<open>
  Further promises of ordered delivery, each an instance of the delivery interface: every
  ordered effect of a run is later than all before it, a frozen batch is untouched by inputs,
  and no buffer ever holds more telemetry than its bound.
\<close>

section \<open>Emission order\<close>

definition order_less :: "PlayerEventOrder \<Rightarrow> PlayerEventOrder \<Rightarrow> bool" where
  "order_less x y \<longleftrightarrow>
     eo_epoch x < eo_epoch y \<or> eo_epoch x = eo_epoch y \<and> eo_sequence x < eo_sequence y"

definition emitted_orders :: "PlayerLifecycleEffect list \<Rightarrow> PlayerEventOrder list" where
  "emitted_orders fx = List.map_filter effect_order fx"

definition next_unused_order :: "'a lifecycle \<Rightarrow> PlayerEventOrder" where
  "next_unused_order s = \<lparr>eo_epoch = attachment_epoch s, eo_sequence = next_event_sequence s\<rparr>"

definition orders_before :: "PlayerEventOrder list \<Rightarrow> 'a lifecycle \<Rightarrow> bool" where
  "orders_before orders s \<longleftrightarrow>
     sorted_wrt order_less orders \<and> list_all (\<lambda>x. order_less x (next_unused_order s)) orders
     \<and> 1 \<le> next_event_sequence s"

definition emission_good :: "PlayerEventOrder list \<Rightarrow> reducer_context \<Rightarrow> bool" where
  "emission_good earlier c \<longleftrightarrow>
     (unsaturated (effects c) \<longrightarrow> orders_before (earlier @ emitted_orders (effects c)) c)"

lemma emitted_orders_append [simp]: "emitted_orders (fx @ gx) = emitted_orders fx @ emitted_orders gx"
  by (simp add: emitted_orders_def List.map_filter_def)

lemma emitted_orders_simps [simp]:
  "emitted_orders [] = []"
  "emitted_orders (e # fx) = (case effect_order e of None \<Rightarrow> [] | Some x \<Rightarrow> [x]) @ emitted_orders fx"
  by (simp_all add: emitted_orders_def List.map_filter_def split: option.split)

lemma emitted_orders_ordered: "emitted_orders (ordered_effects fx) = emitted_orders fx"
  by (simp add: emitted_orders_def ordered_effects_def List.map_filter_def)

lemma order_less_trans: "order_less x y \<Longrightarrow> order_less y z \<Longrightarrow> order_less x z"
  by (auto simp: order_less_def)

lemma emission_good_view: "delivery_view c = delivery_view c' \<Longrightarrow> emission_good P c = emission_good P c'"
  by (simp add: emission_good_def orders_before_def next_unused_order_def delivery_view_def
      current_delivery_def unsaturated_ordered [of "effects c"] unsaturated_ordered [of "effects c'"])
    (metis emitted_orders_ordered)

lemma orders_before_allocate:
  assumes "orders_before P s" and "order_below_max (fst (next_order s))"
  shows "orders_before (P @ [fst (next_order s)]) (snd (next_order s))"
proof -
  have n: "next_event_sequence s < u64_max" "1 \<le> next_event_sequence s"
    using assms by (auto simp: orders_before_def dest: unsaturated_next_order)
  then have "fst (next_order s) = next_unused_order s"
      "next_unused_order (snd (next_order s)) =
         \<lparr>eo_epoch = attachment_epoch s, eo_sequence = Suc (next_event_sequence s)\<rparr>"
      "next_event_sequence (snd (next_order s)) = Suc (next_event_sequence s)"
    by (simp_all add: next_order_def next_unused_order_def Let_def sat_simps)
  moreover have "order_less (next_unused_order s)
      \<lparr>eo_epoch = attachment_epoch s, eo_sequence = Suc (next_event_sequence s)\<rparr>"
    by (simp add: order_less_def next_unused_order_def)
  ultimately show ?thesis
    using assms(1) by (auto simp: orders_before_def sorted_wrt_append list_all_iff intro: order_less_trans)
qed

text \<open>A step that allocates one order and emits it.\<close>

lemma emission_good_allocate:
  assumes good: "emission_good P c" and fx: "effects c' = effects c @ [e]"
    and order: "effect_order e = Some (fst (next_order c))"
    and same: "attachment_epoch c' = attachment_epoch (snd (next_order c))"
      "next_event_sequence c' = next_event_sequence (snd (next_order c))"
  shows "emission_good P c'"
proof -
  have "orders_before ((P @ emitted_orders (effects c)) @ [fst (next_order c)]) c'"
    if "unsaturated (effects c')"
  proof -
    have "unsaturated (effects c)" "order_below_max (fst (next_order c))"
      using that fx order by (auto simp: unsaturated_def)
    with good have "orders_before ((P @ emitted_orders (effects c)) @ [fst (next_order c)]) (snd (next_order c))"
      by (intro orders_before_allocate) (simp_all add: emission_good_def)
    then show ?thesis by (simp add: orders_before_def next_unused_order_def same)
  qed
  then show ?thesis by (simp add: emission_good_def fx order)
qed

lemma emission_good_same:
  "emission_good P c \<Longrightarrow> effects c' = effects c \<Longrightarrow> attachment_epoch c' = attachment_epoch c
   \<Longrightarrow> next_event_sequence c' = next_event_sequence c \<Longrightarrow> emission_good P c'"
  by (simp add: emission_good_def orders_before_def next_unused_order_def)

lemma emission_good_append_event: "emission_good P c \<Longrightarrow> emission_good P (append_event event c)"
  by (rule emission_good_allocate
        [where e = "EmitOrderedEvent \<lparr>se_order = fst (next_order c), se_event = event\<rparr>"])
    (simp_all add: append_event_def Let_def push_effect_def)

lemma emission_good_retain_outcome: "emission_good P c \<Longrightarrow> emission_good P (snd (retain_outcome outcome c))"
  by (rule emission_good_allocate
        [where e = "EmitSemanticOutcome \<lparr>so_order = fst (next_order c), so_outcome = outcome\<rparr>"])
    (simp_all add: snd_retain_outcome Let_def push_effect_def)

lemma emission_good_mark_gap: "emission_good P c \<Longrightarrow> emission_good P (mark_gap c)"
proof -
  assume c: "emission_good P c"
  then have "emission_good P (c\<lparr>gap_detected := True\<rparr>)"
    by (rule emission_good_same) simp_all
  with c have "emission_good P (gap_marked c)"
    by (simp add: gap_marked_def emission_good_append_event)
  then have "emission_good P ((gap_marked c)\<lparr>recovery_snapshot := None\<rparr>)"
    by (rule emission_good_same) simp_all
  then show ?thesis by (simp only: emission_good_view [OF view_mark_gap])
qed

lemma emission_good_queue_event: "emission_good P c \<Longrightarrow> emission_good P (snd (queue_event event c))"
proof -
  assume c: "emission_good P c"
  then have "emission_good P (c\<lparr>pending_events := es\<rparr>)" for es
    by (rule emission_good_same) simp_all
  with c show ?thesis
    by (simp add: snd_queue_event emission_good_append_event emission_good_mark_gap)
qed

lemma emission_good_snapshots:
  "emission_good P c \<Longrightarrow> emission_good P (c\<lparr>recovery_snapshot := r\<rparr>)"
  "emission_good P c \<Longrightarrow> emission_good P (authoritative_snapshot_applied snapshot c)"
  by (erule emission_good_same; simp add: authoritative_snapshot_applied_def Let_def)+

lemma emission_good_next_epoch:
  assumes good: "emission_good P c"
  shows "emission_good P (snd (queue_event (PlayerEvent.AttachmentReplaced e)
           (open_next_epoch (retire_current_epoch_delivery c))))"
proof -
  let ?o = "open_next_epoch (retire_current_epoch_delivery c)"
  have o: "effects ?o = effects c" "attachment_epoch ?o = epoch_next (attachment_epoch c)"
      "next_event_sequence ?o = 1"
    by (simp_all add: open_next_epoch_def retire_current_epoch_delivery_def Let_def)
  show ?thesis
  proof (cases "epoch_next (attachment_epoch c) < u64_max")
    case True
    then have "attachment_epoch c < epoch_next (attachment_epoch c)"
      by (auto simp: epoch_next_def dest: saturating_add_below)
    then have "order_less (next_unused_order c) (next_unused_order ?o)"
      by (simp add: order_less_def next_unused_order_def o)
    then have "emission_good P ?o"
      using good o by (auto simp: emission_good_def orders_before_def list_all_iff intro: order_less_trans)
    then show ?thesis by (rule emission_good_queue_event)
  next
    case False
    then have "\<not> order_below_max (fst (next_order ?o))"
      using o by (simp add: order_below_max_def next_order_def Let_def)
    then show ?thesis
      by (simp add: snd_queue_event append_event_def Let_def emission_good_def unsaturated_def)
  qed
qed

interpretation emission: delivery_invariant "emission_good P" for P
  by (unfold_locales; (rule emission_good_view emission_good_queue_event emission_good_retain_outcome
        emission_good_mark_gap emission_good_snapshots emission_good_next_epoch; assumption))

definition run_orders :: "LifecycleLogEntry list \<Rightarrow> PlayerLifecycleState \<Rightarrow> bool" where
  "run_orders tr s = orders_before (emitted_orders (logged_effects tr)) s"

lemma orders_before_cong:
  "delivery_fields s = delivery_fields s' \<Longrightarrow> orders_before P s = orders_before P s'"
  using delivery_fields_epoch [of s s']
  by (simp add: orders_before_def next_unused_order_def delivery_fields_def)

lemma orders_before_reduce:
  assumes "orders_before P s" and "unsaturated (snd (reduce_player_lifecycle s input))"
  shows "orders_before (P @ emitted_orders (snd (reduce_player_lifecycle s input)))
           (fst (reduce_player_lifecycle s input))"
proof -
  let ?c = "PlayerLifecycleState.extend s (reducer_context.fields [])"
  have fx: "effects ?c = []"
    by (simp add: reducer_context.defs PlayerLifecycleState.defs)
  have "orders_before P ?c"
    by (rule iffD2 [OF orders_before_cong [OF delivery_fields_extend(1)] assms(1)])
  then have "emission_good P ?c"
    unfolding emission_good_def fx by simp
  from emission.handle_input [OF this, of input] assms(2) show ?thesis
    by (simp add: reduce_player_lifecycle_def Let_def emission_good_def
        orders_before_cong [OF delivery_fields_extend(2)])
qed

lemma peek_counters [simp]:
  "attachment_epoch (snd (peek_event_batch s)) = attachment_epoch s"
  "next_event_sequence (snd (peek_event_batch s)) = next_event_sequence s"
  by (cases "cached_batch s"; simp add: peek_cached peek_uncached pruned_for_peek_def Let_def)+

lemma store_counters [simp]:
  "attachment_epoch (store_delivery d s) = attachment_epoch s"
  "next_event_sequence (store_delivery d s) = next_event_sequence s"
  by (simp_all add: store_delivery_def)

lemma compact_counters [simp]:
  "attachment_epoch (compact_acknowledged_lifecycle q s) = attachment_epoch s"
  "next_event_sequence (compact_acknowledged_lifecycle q s) = next_event_sequence s"
  using delivery_fields_compact [of q s] delivery_fields_epoch [OF delivery_fields_compact [of q s]]
  by (simp_all add: delivery_fields_def)

lemma acknowledge_counters [simp]:
  "attachment_epoch (snd (acknowledge_event_batch token s)) = attachment_epoch s"
  "next_event_sequence (snd (acknowledge_event_batch token s)) = next_event_sequence s"
  by (simp_all add: acknowledge_event_batch_def Let_def split: option.split list.split)

lemma run_orders_step:
  assumes "run_orders tr s" and "below_saturation (snd (lifecycle_step l s))"
  shows "run_orders (tr @ snd (lifecycle_step l s)) (fst (lifecycle_step l s))"
proof (cases l)
  case (Reduce input)
  with assms show ?thesis
    by (simp add: run_orders_def below_saturation_def split_def Let_def orders_before_reduce)
qed (use assms in \<open>simp_all add: run_orders_def orders_before_def next_unused_order_def\<close>)

interpretation emission_run: logged_invariant lifecycle_step below_saturation run_orders
  by unfold_locales (simp_all add: below_saturation_def run_orders_step [unfolded below_saturation_def])

section \<open>Inputs leave a frozen batch alone\<close>

lemma cached_batch_append_event [simp]: "cached_batch (append_event e c) = cached_batch c"
  by (simp add: append_event_def next_order_def push_effect_def Let_def)

lemma cached_batch_mark_gap [simp]: "cached_batch (mark_gap c) = cached_batch c"
  by (simp add: mark_gap_gap_marked gap_marked_def schedule_reconciliation_def push_effect_def)

interpretation frozen: delivery_invariant "\<lambda>c. cached_batch c = B" for B
  by unfold_locales
    (simp_all add: delivery_view_def snd_queue_event snd_retain_outcome next_order_def push_effect_def
      authoritative_snapshot_applied_def open_next_epoch_def retire_current_epoch_delivery_def Let_def)

lemma cached_batch_reduce: "cached_batch (fst (reduce_player_lifecycle s input)) = cached_batch s"
proof -
  let ?c = "PlayerLifecycleState.extend s (reducer_context.fields [])"
  have "cached_batch ?c = cached_batch s"
    by (simp add: PlayerLifecycleState.defs)
  from frozen.handle_input [OF this, of input] show ?thesis
    by (simp add: reduce_player_lifecycle_def Let_def PlayerLifecycleState.defs)
qed

section \<open>Bounded telemetry\<close>

definition telemetry_bounded :: "'a lifecycle \<Rightarrow> bool" where
  "telemetry_bounded s =
     list_all (\<lambda>d. telemetry_count (db_pending_events d) \<le> MAX_PENDING_TELEMETRY_EVENTS) (buffers s)"

lemma telemetry_count_append [simp]:
  "telemetry_count (es @ [e]) = telemetry_count es + (if is_transport_delta (se_event e) then 1 else 0)"
  by (simp add: telemetry_count_def)

lemma telemetry_count_filter: "telemetry_count (filter p es) \<le> telemetry_count es"
  by (induction es) (auto simp: telemetry_count_def)

lemma telemetry_count_remove:
  "0 < telemetry_count es \<Longrightarrow>
   Suc (telemetry_count (remove_first (\<lambda>queued. is_transport_delta (se_event queued)) es)) = telemetry_count es"
  by (induction es) (auto simp: telemetry_count_def)

lemma telemetry_bounded_eq:
  "telemetry_bounded s \<longleftrightarrow>
     list_all (\<lambda>d. telemetry_count (db_pending_events d) \<le> MAX_PENDING_TELEMETRY_EVENTS)
       (retired_epoch_deliveries s)
     \<and> telemetry_count (pending_events s) \<le> MAX_PENDING_TELEMETRY_EVENTS"
  by (simp add: telemetry_bounded_def buffers_def current_delivery_def)

lemma append_event_queues [simp]:
  "retired_epoch_deliveries (append_event e c) = retired_epoch_deliveries c"
  "telemetry_count (pending_events (append_event e c)) =
     telemetry_count (pending_events c) + (if is_transport_delta e then 1 else 0)"
  by (simp_all add: append_event_def next_order_def push_effect_def Let_def)

lemma mark_gap_queues [simp]:
  "retired_epoch_deliveries (mark_gap c) = retired_epoch_deliveries c"
  "telemetry_count (pending_events (mark_gap c)) = telemetry_count (pending_events c)"
  by (simp_all add: mark_gap_gap_marked gap_marked_def schedule_reconciliation_def)
    (simp_all add: push_effect_def)

lemma telemetry_bounded_queue_event:
  "telemetry_bounded c \<Longrightarrow> telemetry_bounded (snd (queue_event event c))"
  using telemetry_count_remove [of "pending_events c"]
  by (auto simp: telemetry_bounded_eq snd_queue_event MAX_PENDING_TELEMETRY_EVENTS_def)

lemma telemetry_bounded_apply_snapshot:
  "telemetry_bounded c \<Longrightarrow> telemetry_bounded (authoritative_snapshot_applied snapshot c)"
  by (auto simp: telemetry_bounded_eq authoritative_snapshot_applied_def Let_def
      intro: order_trans [OF telemetry_count_filter])

lemma telemetry_bounded_next_epoch:
  "telemetry_bounded c \<Longrightarrow> telemetry_bounded (open_next_epoch (retire_current_epoch_delivery c))"
  by (simp add: telemetry_bounded_eq open_next_epoch_def retire_current_epoch_delivery_def
      current_delivery_def Let_def telemetry_count_def)

interpretation telemetry: delivery_invariant telemetry_bounded
  by (unfold_locales; (intro telemetry_bounded_queue_event telemetry_bounded_apply_snapshot
        telemetry_bounded_next_epoch; assumption)?)
    (simp_all add: telemetry_bounded_eq delivery_view_def current_delivery_def snd_retain_outcome
      next_order_def push_effect_def Let_def)

lemma telemetry_count_covered: "telemetry_count (covered_by_snapshot snap es) \<le> telemetry_count es"
  by (simp add: covered_by_snapshot_def telemetry_count_filter split: option.split)

lemma telemetry_count_buffers:
  "telemetry_count (db_pending_events (delivery_prune_snapshot_covered_events d))
     \<le> telemetry_count (db_pending_events d)"
  "telemetry_count (db_pending_events (acknowledge_delivery_through b k d))
     \<le> telemetry_count (db_pending_events d)"
  by (simp_all add: delivery_prune_snapshot_covered_events_def telemetry_count_covered
      acknowledge_delivery_through_def telemetry_count_filter Let_def)

lemma telemetry_bounded_prune:
  "telemetry_bounded s \<Longrightarrow> telemetry_bounded (prune_snapshot_covered_events s)"
  by (auto simp: telemetry_bounded_def buffers_prune list_all_iff
      intro: order_trans [OF telemetry_count_buffers(1)])

lemma telemetry_bounded_cong:
  "delivery_fields s = delivery_fields s' \<Longrightarrow> telemetry_bounded s = telemetry_bounded s'"
  by (simp add: telemetry_bounded_def buffers_def delivery_fields_def)

lemma telemetry_bounded_reduce:
  "telemetry_bounded s \<Longrightarrow> telemetry_bounded (fst (reduce_player_lifecycle s input))"
proof -
  let ?c = "PlayerLifecycleState.extend s (reducer_context.fields [])"
  assume "telemetry_bounded s"
  then have "telemetry_bounded ?c"
    by (rule iffD2 [OF telemetry_bounded_cong [OF delivery_fields_extend(1)]])
  from telemetry.handle_input [OF this, of input] show ?thesis
    by (simp add: reduce_player_lifecycle_def Let_def telemetry_bounded_cong [OF delivery_fields_extend(2)])
qed

lemma telemetry_bounded_peek: "telemetry_bounded s \<Longrightarrow> telemetry_bounded (snd (peek_event_batch s))"
proof (cases "cached_batch s")
  case None
  assume "telemetry_bounded s"
  then have "telemetry_bounded (pruned_for_peek s)"
    using telemetry_bounded_prune [of s]
    by (auto simp: pruned_for_peek_def telemetry_bounded_eq Let_def list_all_iff dest: set_dropWhileD)
  with None show ?thesis
    by (simp add: peek_uncached telemetry_bounded_eq Let_def)
qed (simp add: peek_cached)

lemma telemetry_bounded_acknowledge:
  assumes "telemetry_bounded s" shows "telemetry_bounded (snd (acknowledge_event_batch token s))"
proof -
  have compact: "telemetry_bounded (compact_acknowledged_lifecycle q s') = telemetry_bounded s'"
    for q and s' :: "'a lifecycle"
    by (rule telemetry_bounded_cong) simp
  have current: "telemetry_bounded (store_delivery (acknowledge_delivery_through b k (current_delivery s))
      (s\<lparr>cached_batch := None\<rparr>))" for b k
    using assms telemetry_count_buffers(2) [of b k "current_delivery s"]
    by (simp add: telemetry_bounded_eq store_delivery_def) (simp add: current_delivery_def)
  have head: "telemetry_bounded (s\<lparr>cached_batch := None, retired_epoch_deliveries := rest\<rparr>)"
      "telemetry_bounded (s\<lparr>cached_batch := None,
         retired_epoch_deliveries := delivery_acknowledge_through b k d # rest\<rparr>)"
    if "retired_epoch_deliveries s = d # rest" for b k d rest
    using assms that telemetry_count_buffers(1) [of "acknowledge_delivery_through b k d"]
      telemetry_count_buffers(2) [of b k d]
    by (auto simp: telemetry_bounded_eq delivery_acknowledge_through_def)
  show ?thesis
    using assms
    by (auto simp: acknowledge_event_batch_def Let_def compact
        intro!: telemetry_bounded_prune current head split: option.split list.split)
qed

interpretation telemetry_run: step_invariant lifecycle_step "\<lambda>_. True" telemetry_bounded
proof (unfold_locales, simp)
  fix s :: PlayerLifecycleState and l
  assume "telemetry_bounded s"
  then show "telemetry_bounded (fst (lifecycle_step l s))"
    by (cases l) (simp_all add: split_def Let_def telemetry_bounded_reduce telemetry_bounded_peek
        telemetry_bounded_acknowledge)
qed

end
