(* ===== verification/Lifecycle_Commands.thy ===== *)
theory Lifecycle_Commands
  imports Lifecycle_Emission
begin

text \<open>
  Tracked commands. The locale collects what the reducer may do to a command record: settle it,
  accept it while it is submitted, or insert a fresh one; its client lemma is that every input
  other than a replaced attachment does nothing else. Instances: command records are well formed,
  and every command publishes its one outcome exactly when it becomes terminal.
\<close>

section \<open>What the commands see\<close>

fun is_command_effect :: "PlayerLifecycleEffect \<Rightarrow> bool" where
  "is_command_effect (EmitSemanticOutcome outcome) =
     (case so_outcome outcome of Command _ \<Rightarrow> True | LoadAttempt _ \<Rightarrow> False)"
| "is_command_effect _ = False"

definition command_effects :: "PlayerLifecycleEffect list \<Rightarrow> PlayerLifecycleEffect list" where
  "command_effects fx = filter is_command_effect fx"

definition command_view ::
  "reducer_context \<Rightarrow> PlayerAttachmentEpoch \<times> (PlayerCommandId, LifecycleCommand) btree_map
     \<times> PlayerLifecycleEffect list" where
  "command_view c = (attachment_epoch c, commands c, command_effects (effects c))"

named_theorems command_frame "operations that leave the commands alone"

lemma command_effects_append [simp]: "command_effects (fx @ gx) = command_effects fx @ command_effects gx"
  by (simp add: command_effects_def)

lemma command_view_push_effect [command_frame]:
  "\<not> is_command_effect e \<Longrightarrow> command_view (push_effect e c) = command_view c"
  by (simp add: command_view_def push_effect_def command_effects_def)

lemma command_view_updates [command_frame]:
  "command_view (c\<lparr>load_attempts := x1\<rparr>) = command_view c"
  "command_view (c\<lparr>playlist_entry_attempts := x2\<rparr>) = command_view c"
  "command_view (c\<lparr>active_load_attempt := x3\<rparr>) = command_view c"
  "command_view (c\<lparr>seek_ownership := x4\<rparr>) = command_view c"
  "command_view (c\<lparr>reconciliation_required := x5\<rparr>) = command_view c"
  "command_view (c\<lparr>last_reconciliation := x6\<rparr>) = command_view c"
  "command_view (c\<lparr>next_reconciliation_tick := x7\<rparr>) = command_view c"
  "command_view (c\<lparr>reconciliation_backoff_ticks := x8\<rparr>) = command_view c"
  "command_view (c\<lparr>now_tick := x9\<rparr>) = command_view c"
  "command_view (c\<lparr>logical_terminal := x10\<rparr>) = command_view c"
  "command_view (c\<lparr>next_load_attempt_id := x11\<rparr>) = command_view c"
  "command_view (c\<lparr>next_event_sequence := x12\<rparr>) = command_view c"
  "command_view (c\<lparr>deferred_start_files := x13\<rparr>) = command_view c"
  "command_view (c\<lparr>provisional_eof := x14\<rparr>) = command_view c"
  "command_view (c\<lparr>retained_completion_attempt := x15\<rparr>) = command_view c"
  "command_view (c\<lparr>pending_events := x16\<rparr>) = command_view c"
  "command_view (c\<lparr>retained_semantic_outcomes := x17\<rparr>) = command_view c"
  "command_view (c\<lparr>recovery_snapshot := x18\<rparr>) = command_view c"
  "command_view (c\<lparr>gap_detected := x19\<rparr>) = command_view c"
  "command_view (c\<lparr>pending_native_seek_generation := x20\<rparr>) = command_view c"
  "command_view (c\<lparr>retired_epoch_deliveries := x21\<rparr>) = command_view c"
  "command_view (c\<lparr>retired_seek_tombstones := x22\<rparr>) = command_view c"
  "command_view (c\<lparr>uncertain_seek_generations := x23\<rparr>) = command_view c"
  by (simp_all add: command_view_def)

lemma command_view_small [command_frame]:
  "command_view (snd (next_order c)) = command_view c"
  "command_view (modify_attempt a f c) = command_view c"
  "command_view (modify_seek k h c) = command_view c"
  "command_view (set_seek_state S t k c) = command_view c"
  "command_view (schedule_reconciliation c) = command_view c"
  "command_view (snd (allocate_load_attempt_id c)) = command_view c"
  by (simp_all add: next_order_def modify_attempt_def modify_seek_def set_seek_state_def
      schedule_reconciliation_def allocate_load_attempt_id_def command_frame Let_def)

lemma command_view_steps [command_frame]:
  "command_view (stop_reconciliation_without_proactive_work c) = command_view c"
  "command_view (finish_reconciliation v c) = command_view c"
  "command_view (retry_reconciliation v c) = command_view c"
  "command_view (retain_only_selected_successor_claim p a c) = command_view c"
  "command_view (supersede_predecessor p a c) = command_view c"
  "command_view (expire_attempt a b t c) = command_view c"
  "command_view (release_transport a b c) = command_view c"
  "command_view (take_transport a c) = command_view c"
  "command_view (prune_expired_seek_tombstones c) = command_view c"
  "command_view (detach_terminal_attempt a out prior c) = command_view c"
  by (simp_all add: detach_terminal_attempt_def stop_reconciliation_without_proactive_work_def
      finish_reconciliation_def retry_reconciliation_def retain_only_selected_successor_claim_def
      supersede_predecessor_def expire_attempt_def release_transport_def take_transport_def
      prune_expired_seek_tombstones_def command_frame Let_def split: option.split)

lemma command_view_mark_gap [command_frame]: "command_view (mark_gap c) = command_view c"
  by (simp add: mark_gap_gap_marked gap_marked_def append_event_def Let_def command_frame)

lemma command_view_queue_event [command_frame]: "command_view (snd (queue_event event c)) = command_view c"
  by (simp add: snd_queue_event append_event_def Let_def command_frame)

lemma command_view_emit_load_outcome [command_frame]:
  "command_view (emit_load_outcome a r t c) = command_view c"
  by (simp add: emit_load_outcome_def retain_outcome_def Let_def split_def command_frame split: option.split)

lemma command_view_bind_attempt [command_frame]: "command_view (snd (bind_attempt a p c)) = command_view c"
  by (simp add: bind_attempt_def Let_def split_def command_frame split: option.split)

lemma command_view_start_attempt [command_frame]: "command_view (start_attempt a p b c) = command_view c"
  using command_view_bind_attempt [of a p c]
  by (simp add: start_attempt_def Let_def split_def command_frame split: option.split)

lemma command_view_replay [command_frame]:
  "command_view (snd (replay_deferred_starts ds kept c)) = command_view c"
  by (induction ds kept c rule: replay_deferred_starts.induct)
    (simp_all add: command_frame split: option.split)

lemma command_view_try_deferred_starts [command_frame]: "command_view (try_deferred_starts c) = command_view c"
  by (simp add: try_deferred_starts_def Let_def split_def command_frame)

section \<open>The command interface\<close>

definition accepts :: "(LifecycleCommand \<Rightarrow> LifecycleCommand) \<Rightarrow> LifecycleCommand \<Rightarrow> bool" where
  "accepts f command \<longleftrightarrow>
     f command = command
     \<or> lc_state command = CommandSemanticState.Submitted
        \<and> f command = command\<lparr>lc_state := CommandSemanticState.Accepted\<rparr>"

lemma command_terminal_other:
  "k \<noteq> k' \<Longrightarrow> command_of (command_terminal k' t c) k = command_of c k"
  by (simp add: command_terminal_def retain_outcome_def next_order_def modify_command_def command_of_def
      push_effect_def Let_def split_def split: option.split)

lemma command_terminal_fold_other:
  "k \<notin> set ks \<Longrightarrow> command_of (fold (\<lambda>k'. command_terminal k' t) ks c) k = command_of c k"
  by (induction ks arbitrary: c) (auto simp: command_terminal_other)

locale command_settling =
  fixes I :: "reducer_context \<Rightarrow> bool"
  assumes view: "command_view c = command_view c' \<Longrightarrow> I c = I c'"
    and command_terminal: "I c \<Longrightarrow> I (command_terminal k t c)"
begin

lemma I_view: "command_view c' = command_view c \<Longrightarrow> I c \<Longrightarrow> I c'"
  using view by blast

lemma I_iff [simp]:
  "\<not> is_command_effect e \<Longrightarrow> I (push_effect e c) = I c"
  "I (c\<lparr>load_attempts := x1\<rparr>) = I c"
  "I (c\<lparr>playlist_entry_attempts := x2\<rparr>) = I c"
  "I (c\<lparr>active_load_attempt := x3\<rparr>) = I c"
  "I (c\<lparr>seek_ownership := x4\<rparr>) = I c"
  "I (c\<lparr>last_reconciliation := x6\<rparr>) = I c"
  "I (c\<lparr>now_tick := x9\<rparr>) = I c"
  "I (c\<lparr>logical_terminal := x10\<rparr>) = I c"
  "I (c\<lparr>deferred_start_files := x13\<rparr>) = I c"
  "I (c\<lparr>provisional_eof := x14\<rparr>) = I c"
  "I (c\<lparr>retained_completion_attempt := x15\<rparr>) = I c"
  "I (c\<lparr>recovery_snapshot := x18\<rparr>) = I c"
  "I (c\<lparr>pending_events := x16\<rparr>) = I c"
  "I (c\<lparr>gap_detected := x19\<rparr>) = I c"
  "I (c\<lparr>pending_native_seek_generation := x20\<rparr>) = I c"
  "I (c\<lparr>retired_seek_tombstones := x22\<rparr>) = I c"
  "I (modify_attempt a f c) = I c"
  "I (modify_seek k h c) = I c"
  "I (set_seek_state S st k c) = I c"
  "I (snd (allocate_load_attempt_id c)) = I c"
  "I (schedule_reconciliation c) = I c"
  "I (stop_reconciliation_without_proactive_work c) = I c"
  "I (finish_reconciliation v c) = I c"
  "I (retry_reconciliation v c) = I c"
  "I (supersede_predecessor p a c) = I c"
  "I (expire_attempt a b tick c) = I c"
  "I (release_transport a b c) = I c"
  "I (take_transport a c) = I c"
  "I (prune_expired_seek_tombstones c) = I c"
  "I (detach_terminal_attempt a out prior c) = I c"
  "I (mark_gap c) = I c"
  "I (snd (queue_event event c)) = I c"
  "I (emit_load_outcome a r target c) = I c"
  "I (snd (bind_attempt a pe c)) = I c"
  "I (start_attempt a pe b c) = I c"
  "I (try_deferred_starts c) = I c"
  by (rule view; simp add: command_frame)+

lemma fold_preserves: "(\<And>x c. I c \<Longrightarrow> I (f x c)) \<Longrightarrow> I c \<Longrightarrow> I (fold f xs c)"
  by (induction xs arbitrary: c) auto

lemma commit_physical: "I c \<Longrightarrow> I (commit_physical_attempt_terminal a out c)"
  by (auto simp: commit_physical_attempt_terminal_def settle_terminal_attempt_def
      announce_logical_terminal_def Let_def split_def command_terminal split: option.split)

lemma commit_all: "I c \<Longrightarrow> I (commit_all out ids c)"
  unfolding commit_all_def by (rule fold_preserves) (rule commit_physical)

end

locale command_invariant = command_settling +
  assumes accept: "I c \<Longrightarrow> (\<And>command. command_of c k = Some command \<Longrightarrow> accepts f command)
      \<Longrightarrow> I (modify_command k f c)"
    and insert: "I c \<Longrightarrow> command_of c k = None \<Longrightarrow>
      I (c\<lparr>commands := bt_insert k (new_command (attachment_epoch c) k g kind) (commands c)\<rparr>)"
begin

lemma reconcile_playlist: "I c \<Longrightarrow> I (reconcile_playlist es path c)"
proof -
  assume c: "I c"
  have bind: "I c' \<Longrightarrow> I (fold (bind_unique_candidate edges) es' c')" for edges es' c'
    by (rule fold_preserves) (auto simp: bind_unique_candidate_def split: list.split)
  have start: "I c' \<Longrightarrow> I (start_current_entry es c')" for c'
    by (auto simp: start_current_entry_def split: option.split)
  show ?thesis
    using c by (simp add: reconcile_playlist_def reconcile_empty_playlist_def Let_def commit_all bind start)
qed

lemma accept_submitting: "I c \<Longrightarrow> I (accept_submitting_attempt e a ko c)"
  by (auto simp: accept_submitting_attempt_def Let_def accepts_def intro!: accept split: option.split)

lemmas op_intros = command_terminal commit_physical commit_all reconcile_playlist accept_submitting

lemma command_of_insert:
  "command_of c k = None \<Longrightarrow> \<not> bt_contains (commands c) k"
  "\<not> bt_contains (commands c) k \<Longrightarrow> command_of c k = None"
  by (simp_all add: command_of_def bt_contains_def)

lemma loads:
  "I c \<Longrightarrow> I (load_attempt_submitted ko g tgt b c)"
  "I c \<Longrightarrow> I (external_load_observed e g p tgt l c)"
  "I c \<Longrightarrow> I (load_attempt_accepted e a c)"
  "I c \<Longrightarrow> I (load_attempt_rejected e a f c)"
proof -
  assume c: "I c"
  have alloc: "commands (snd (allocate_load_attempt_id c)) = commands c"
      "attachment_epoch (snd (allocate_load_attempt_id c)) = attachment_epoch c"
    by (simp_all add: allocate_load_attempt_id_def Let_def)
  have fresh: "I (snd (allocate_load_attempt_id c)\<lparr>load_attempts := m,
      commands := bt_insert k (new_command (attachment_epoch c) k g' kind) (commands c)\<rparr>)"
    if "\<not> bt_contains (commands c) k" for m k g' kind
    using insert [of "snd (allocate_load_attempt_id c)\<lparr>load_attempts := m\<rparr>" k g' kind] c that
    by (simp add: alloc command_of_def bt_contains_def)
  show "I (load_attempt_submitted ko g tgt b c)"
    using c by (auto simp: load_attempt_submitted_def Let_def split_def alloc fresh split: option.split)
  have revoke: "I c' \<Longrightarrow> I (revoke_external_predecessor q a' c')" for q a' c'
    by (auto simp: revoke_external_predecessor_def Let_def op_intros split: option.split)
  show "I (external_load_observed e g p tgt l c)"
    using c by (auto simp: external_load_observed_def Let_def split_def revoke split: option.split)
  have supersede: "I c' \<Longrightarrow> I (supersede_accepted_predecessor q a' c')" for q a' c'
    by (auto simp: supersede_accepted_predecessor_def Let_def op_intros split: option.split)
  show "I (load_attempt_accepted e a c)"
    using c by (auto simp: load_attempt_accepted_def Let_def op_intros supersede split: option.split)
  show "I (load_attempt_rejected e a f c)"
    using c by (auto simp: load_attempt_rejected_def Let_def op_intros split: option.split)
qed

lemma command_accepted: "I c \<Longrightarrow> I (command_accepted e k c)"
proof -
  assume c: "I c"
  have settled: "I (modify_command k (\<lambda>command. command\<lparr>lc_state := CommandSemanticState.Accepted\<rparr>)
          (fold (\<lambda>k'. command_terminal k' CommandSemanticState.Superseded) ks c))"
    if "command_of c k = Some accepted" "lc_state accepted = CommandSemanticState.Submitted" "k \<notin> set ks"
    for ks accepted
    using that c
    by (intro accept fold_preserves command_terminal)
      (auto simp: command_terminal_fold_other accepts_def)
  with c show ?thesis
    by (auto simp: command_accepted_def Let_def intro!: settled split: option.split)
qed

lemma command_inputs:
  "I c \<Longrightarrow> I (command_submitted k go kind c)"
  "I c \<Longrightarrow> I (command_rejected e k f c)"
  "I c \<Longrightarrow> I (command_superseded e k c)"
  "I c \<Longrightarrow> I (command_transport_disconnected e k c)"
  "I c \<Longrightarrow> I (command_completed e k c)"
  "I c \<Longrightarrow> I (command_completion_not_observed e k c)"
  "I c \<Longrightarrow> I (seek_command_accepted e k c)"
  "I c \<Longrightarrow> I (seek_command_completion_not_observed e k c)"
  by (auto simp: command_submitted_def command_rejected_def
      command_superseded_def command_transport_disconnected_def command_completed_def
      command_completion_not_observed_def seek_command_accepted_def
      seek_command_completion_not_observed_def Let_def op_intros command_of_insert accepts_def
      intro!: insert accept split: option.split)

lemma seek_command_submitted: "I c \<Longrightarrow> I (seek_command_submitted k gen raw room q c)"
  by (auto simp: seek_command_submitted_def Let_def command_of_insert
      intro!: insert fold_preserves command_terminal)

lemma event_inputs:
  "I c \<Longrightarrow> I (start_file e p c)"
  "I c \<Longrightarrow> I (file_loaded e po tgto c)"
  "I c \<Longrightarrow> I (end_file e p out c)"
  "I c \<Longrightarrow> I (retained_end_of_file e p c)"
  "I c \<Longrightarrow> I (playlist_snapshot e es path c)"
  "I c \<Longrightarrow> I (lifecycle_reconciliation_failed e c)"
  by (auto simp: start_file_def file_loaded_def end_file_def retained_end_of_file_def
      playlist_snapshot_def lifecycle_reconciliation_failed_def Let_def op_intros
      split: option.split)

lemma observation_inputs:
  "I c \<Longrightarrow> I (eof_observed e po r pos c)"
  "I c \<Longrightarrow> I (playback_restart e po c)"
  "I c \<Longrightarrow> I (position_observed e g q pt c)"
  "I c \<Longrightarrow> I (seeking_observed e g q sk c)"
  "I c \<Longrightarrow> I (phase_observed e ph c)"
  "I c \<Longrightarrow> I (transport_delta e d c)"
  "I c \<Longrightarrow> I (local_file_changed e a g u c)"
  "I c \<Longrightarrow> I (event_gap_detected e c)"
  "I c \<Longrightarrow> I (authoritative_snapshot_applied snap c)"
  by (auto simp: eof_observed_def playback_restart_def position_observed_def seeking_observed_def
      phase_observed_def transport_delta_def local_file_changed_def event_gap_detected_def
      authoritative_snapshot_applied_def Let_def op_intros split: option.split prod.split)

lemma timer_input: "I c \<Longrightarrow> I (timer_advanced tick c)"
proof -
  assume "I c"
  have "I c' \<Longrightarrow> I (expire_load_attempt r a c')" for r a c'
    by (auto simp: expire_load_attempt_def Let_def op_intros split: option.split)
  then have "I c' \<Longrightarrow> I (fold (expire_load_attempt r) ids c')" for r ids c'
    by (rule fold_preserves)
  with \<open>I c\<close> show ?thesis
    by (auto simp: timer_advanced_def Let_def op_intros split: option.split)
qed

lemma transport_disconnected: "I c \<Longrightarrow> I (transport_disconnected e c)"
  by (auto simp: transport_disconnected_def Let_def intro!: fold_preserves commit_all command_terminal)

theorem handle_input: "input \<noteq> AttachmentReplaced \<Longrightarrow> I c \<Longrightarrow> I (handle_input input c)"
  by (cases input) (simp_all add: loads command_accepted command_inputs seek_command_submitted
      event_inputs observation_inputs timer_input transport_disconnected)

end

section \<open>Well-formed command records\<close>

definition command_record_ok :: "PlayerAttachmentEpoch \<Rightarrow> PlayerCommandId \<Rightarrow> LifecycleCommand \<Rightarrow> bool" where
  "command_record_ok epoch k command \<longleftrightarrow>
     lc_id command = k \<and> lc_epoch command = epoch
     \<and> (lc_outcome_emitted command \<longleftrightarrow> command_is_terminal (lc_state command))
     \<and> (lc_terminal_sequence command \<noteq> None \<longleftrightarrow> command_is_terminal (lc_state command))"

definition commands_ok :: "'a lifecycle \<Rightarrow> bool" where
  "commands_ok s \<longleftrightarrow>
     bt_wf (commands s)
     \<and> list_all (\<lambda>(k, command). command_record_ok (attachment_epoch s) k command) (commands s)"

lemma commands_ok_iff:
  "commands_ok s \<longleftrightarrow> bt_wf (commands s)
     \<and> (\<forall>k command. command_of s k = Some command \<longrightarrow> command_record_ok (attachment_epoch s) k command)"
  by (auto simp: commands_ok_def list_all_iff command_of_def bt_entries_iff)

lemma commands_okD:
  "commands_ok s \<Longrightarrow> command_of s k = Some command \<Longrightarrow> command_record_ok (attachment_epoch s) k command"
  by (simp add: commands_ok_iff)

text \<open>What settling does to the record, with the sequence its outcome was given.\<close>

definition settle_record :: "CommandSemanticState \<Rightarrow> u64 \<Rightarrow> LifecycleCommand \<Rightarrow> LifecycleCommand" where
  "settle_record t q command =
     (if command_is_terminal (lc_state command) \<or> public_result t = None then command
      else command\<lparr>lc_state := t, lc_outcome_emitted := True, lc_terminal_sequence := Some q\<rparr>)"

lemma command_of_terminal:
  "command_of (command_terminal k t c) k' =
     (if k' = k then map_option (settle_record t (eo_sequence (fst (next_order c)))) (command_of c k)
      else command_of c k')"
  by (simp add: command_terminal_def retain_outcome_def next_order_def modify_command_def command_of_def
      push_effect_def Let_def split_def settle_record_def split: option.split)

lemma bt_wf_terminal [simp]: "bt_wf (commands (command_terminal k t c)) = bt_wf (commands c)"
  by (simp add: command_terminal_def retain_outcome_def next_order_def modify_command_def
      push_effect_def Let_def split_def split: option.split)

lemma epoch_terminal [simp]: "attachment_epoch (command_terminal k t c) = attachment_epoch c"
  by (simp add: command_terminal_def retain_outcome_def next_order_def modify_command_def
      push_effect_def Let_def split_def split: option.split)

lemma settle_record_ok: "command_record_ok e k command \<Longrightarrow> command_record_ok e k (settle_record t q command)"
  by (auto simp: command_record_ok_def settle_record_def command_is_terminal_iff_public_result)

lemma commands_ok_terminal: "commands_ok c \<Longrightarrow> commands_ok (command_terminal k t c)"
  by (auto simp: commands_ok_iff command_of_terminal settle_record_ok split: if_splits)

lemma command_of_modify:
  "command_of (modify_command k f c) k' = (if k' = k then map_option f (command_of c k) else command_of c k')"
  by (simp add: command_of_def modify_command_def)

lemma accepts_record_ok: "accepts f command \<Longrightarrow> command_record_ok e k command \<Longrightarrow> command_record_ok e k (f command)"
  by (auto simp: accepts_def command_record_ok_def)

lemma commands_ok_accept:
  assumes ok: "commands_ok c" and acc: "\<And>command. command_of c k = Some command \<Longrightarrow> accepts f command"
  shows "commands_ok (modify_command k f c)"
proof -
  have "command_record_ok (attachment_epoch c) k (f command)" if "command_of c k = Some command" for command
    by (rule accepts_record_ok [OF acc [OF that] commands_okD [OF ok that]])
  moreover have "attachment_epoch (modify_command k f c) = attachment_epoch c"
    "bt_wf (commands (modify_command k f c)) = bt_wf (commands c)"
    by (simp_all add: modify_command_def)
  ultimately show ?thesis
    using ok by (auto simp: commands_ok_iff command_of_modify)
qed

lemma commands_ok_insert:
  "commands_ok c \<Longrightarrow>
   commands_ok (c\<lparr>commands := bt_insert k (new_command (attachment_epoch c) k g kind) (commands c)\<rparr>)"
  by (auto simp: commands_ok_iff command_of_def command_record_ok_def new_command_def split: if_splits)

lemma commands_ok_view: "command_view c = command_view c' \<Longrightarrow> commands_ok c = commands_ok c'"
  by (simp add: commands_ok_def command_view_def)

interpretation records: command_invariant commands_ok
  by unfold_locales
    (rule commands_ok_view commands_ok_terminal commands_ok_accept commands_ok_insert; assumption)+

section \<open>Exactly one outcome per command\<close>

definition command_outcomes :: "PlayerCommandId \<Rightarrow> PlayerLifecycleEffect list \<Rightarrow> SequencedPlayerSemanticOutcome list" where
  "command_outcomes k fx =
     filter (\<lambda>outcome. case so_outcome outcome of
               Command published \<Rightarrow> co_command_id published = k
             | LoadAttempt _ \<Rightarrow> False) (emitted_outcomes fx)"

text \<open>The outcome a record has published, if it has one.\<close>

definition settled_outcome :: "PlayerAttachmentEpoch \<Rightarrow> LifecycleCommand \<Rightarrow> SequencedPlayerSemanticOutcome list" where
  "settled_outcome epoch command =
     (case (lc_terminal_sequence command, public_result (lc_state command)) of
        (Some sequence, Some result) \<Rightarrow>
          [\<lparr>so_order = \<lparr>eo_epoch = epoch, eo_sequence = sequence\<rparr>,
            so_outcome = Command \<lparr>co_epoch = lc_epoch command, co_command_id = lc_id command,
              co_media_generation = lc_media_generation command, co_result = result\<rparr>\<rparr>]
      | _ \<Rightarrow> [])"

definition same_command :: "LifecycleCommand \<Rightarrow> LifecycleCommand \<Rightarrow> bool" where
  "same_command x y \<longleftrightarrow>
     lc_id x = lc_id y \<and> lc_epoch x = lc_epoch y \<and> lc_media_generation x = lc_media_generation y
     \<and> lc_kind x = lc_kind y"

text \<open>
  Since a context with no effects in which the command had the given record: a record that was
  terminal is untouched and publishes nothing; otherwise what has been published is what the
  record says now.
\<close>

definition was_settled :: "LifecycleCommand option \<Rightarrow> bool" where
  "was_settled prior =
     (case prior of Some command \<Rightarrow> command_is_terminal (lc_state command) | None \<Rightarrow> False)"

definition identity_kept :: "LifecycleCommand option \<Rightarrow> LifecycleCommand option \<Rightarrow> bool" where
  "identity_kept prior now =
     (case prior of
        None \<Rightarrow> True
      | Some x \<Rightarrow> (case now of Some y \<Rightarrow> same_command x y | None \<Rightarrow> False))"

definition outcome_of_record :: "PlayerAttachmentEpoch \<Rightarrow> LifecycleCommand option \<Rightarrow> SequencedPlayerSemanticOutcome list" where
  "outcome_of_record epoch now =
     (case now of Some command \<Rightarrow> settled_outcome epoch command | None \<Rightarrow> [])"

definition published_once ::
  "PlayerCommandId \<Rightarrow> LifecycleCommand option \<Rightarrow> PlayerAttachmentEpoch \<Rightarrow> reducer_context \<Rightarrow> bool" where
  "published_once k prior epoch c \<longleftrightarrow>
     commands_ok c \<and> attachment_epoch c = epoch \<and>
     (if was_settled prior
      then command_of c k = prior \<and> command_outcomes k (effects c) = []
      else identity_kept prior (command_of c k)
        \<and> command_outcomes k (effects c) = outcome_of_record epoch (command_of c k))"

lemma command_outcomes_append [simp]:
  "command_outcomes k (fx @ gx) = command_outcomes k fx @ command_outcomes k gx"
  by (simp add: command_outcomes_def)

lemma command_outcomes_command_effects: "command_outcomes k fx = command_outcomes k (command_effects fx)"
proof (induction fx)
  case (Cons e fx)
  then show ?case
    by (cases e) (auto simp: command_effects_def command_outcomes_def
        split: PlayerSemanticOutcome.split PlayerSemanticOutcome.split_asm)
qed (simp add: command_effects_def)

lemma published_once_view: "command_view c = command_view c' \<Longrightarrow> published_once k p e c = published_once k p e c'"
  using commands_ok_view [of c c'] command_outcomes_command_effects [of k "effects c"]
    command_outcomes_command_effects [of k "effects c'"]
  by (simp add: published_once_def command_view_def command_of_def)

lemma effects_terminal:
  "commands_ok c \<Longrightarrow>
   command_outcomes k' (effects (command_terminal k t c)) = command_outcomes k' (effects c) @
     (case command_of c k of
        Some command \<Rightarrow>
          if k' = k \<and> \<not> command_is_terminal (lc_state command)
          then settled_outcome (attachment_epoch c) (settle_record t (eo_sequence (fst (next_order c))) command)
          else []
      | None \<Rightarrow> [])"
  by (auto simp: command_terminal_def retain_outcome_def next_order_def modify_command_def
      push_effect_def Let_def split_def settle_record_def settled_outcome_def command_outcomes_def
      commands_ok_iff command_record_ok_def command_of_def split: option.split)

lemma settled_outcome_open:
  "command_record_ok e k command \<Longrightarrow> \<not> command_is_terminal (lc_state command) \<Longrightarrow> settled_outcome e' command = []"
  by (auto simp: settled_outcome_def command_is_terminal_iff_public_result split: option.split)

lemma settle_record_terminal [simp]:
  "command_is_terminal (lc_state command) \<Longrightarrow> settle_record t q command = command"
  by (simp add: settle_record_def)

lemma same_command_settle [simp]: "same_command x (settle_record t q y) = same_command x y"
  by (simp add: same_command_def settle_record_def)

lemma published_once_terminal: "published_once k p e c \<Longrightarrow> published_once k p e (command_terminal k' t c)"
proof -
  assume once: "published_once k p e c"
  then have ok: "commands_ok c" "attachment_epoch c = e"
    by (simp_all add: published_once_def)
  have open_empty: "settled_outcome e command = []"
    if "command_of c k = Some command" "\<not> command_is_terminal (lc_state command)" for command
    using settled_outcome_open [OF commands_okD [OF ok(1) that(1)] that(2)] .
  show ?thesis
    using once commands_ok_terminal [OF ok(1)]
    by (cases "command_of c k")
      (auto simp: published_once_def command_of_terminal effects_terminal [OF ok(1)] ok(2) open_empty
        was_settled_def identity_kept_def outcome_of_record_def split: option.splits if_splits)
qed

lemma accepts_settled_outcome:
  "accepts f command \<Longrightarrow> command_record_ok e k command \<Longrightarrow> settled_outcome e' (f command) = settled_outcome e' command"
  by (auto simp: accepts_def settled_outcome_def command_record_ok_def split: option.split)

lemma published_once_accept:
  assumes once: "published_once k p e c"
    and acc: "\<And>command. command_of c k' = Some command \<Longrightarrow> accepts f command"
  shows "published_once k p e (modify_command k' f c)"
proof -
  from once have ok: "commands_ok c" by (simp add: published_once_def)
  have keeps: "settled_outcome e (f command) = settled_outcome e command"
      "same_command x (f command) = same_command x command"
      "command_is_terminal (lc_state command) \<Longrightarrow> f command = command"
    if "command_of c k' = Some command" for command x
    using accepts_settled_outcome [OF acc [OF that] commands_okD [OF ok that]] acc [OF that]
    by (auto simp: accepts_def same_command_def)
  have state: "attachment_epoch (modify_command k' f c) = attachment_epoch c"
      "effects (modify_command k' f c) = effects c"
    by (simp_all add: modify_command_def)
  show ?thesis
    using once commands_ok_accept [OF ok acc]
    by (cases "command_of c k")
      (auto simp: published_once_def command_of_modify state keeps
        was_settled_def identity_kept_def outcome_of_record_def split: option.splits if_splits)
qed

lemma published_once_insert:
  assumes once: "published_once k p e c" and none: "command_of c k' = None"
  shows "published_once k p e
     (c\<lparr>commands := bt_insert k' (new_command (attachment_epoch c) k' g kind) (commands c)\<rparr>)"
    (is "published_once k p e ?c")
proof -
  have "command_of ?c k = (if k = k' then Some (new_command (attachment_epoch c) k' g kind) else command_of c k)"
    by (simp add: command_of_def)
  moreover have "settled_outcome e (new_command e' k' g kind) = []" for e'
    by (simp add: settled_outcome_def new_command_def)
  ultimately show ?thesis
    using once none commands_ok_insert [of c k' g kind]
    by (auto simp: published_once_def was_settled_def identity_kept_def outcome_of_record_def
        split: option.splits if_splits)
qed

interpretation once: command_invariant "published_once k prior epoch" for k prior epoch
  by unfold_locales
    (rule published_once_view published_once_terminal published_once_accept published_once_insert;
      assumption)+

text \<open>A settled record stays as it is.\<close>

definition stays_settled :: "PlayerCommandId \<Rightarrow> LifecycleCommand \<Rightarrow> reducer_context \<Rightarrow> bool" where
  "stays_settled k command c \<longleftrightarrow>
     command_is_terminal (lc_state command) \<and> command_of c k = Some command"

lemma stays_settled_accept:
  assumes "stays_settled k command c" and acc: "\<And>x. command_of c k' = Some x \<Longrightarrow> accepts f x"
  shows "stays_settled k command (modify_command k' f c)"
  using assms(1) acc [of command]
  by (auto simp: stays_settled_def command_of_modify accepts_def)

lemma stays_settled_other:
  "command_view c = command_view c' \<Longrightarrow> stays_settled k command c = stays_settled k command c'"
  "stays_settled k command c \<Longrightarrow> stays_settled k command (command_terminal k' t c)"
  "stays_settled k command c \<Longrightarrow> command_of c k' = None \<Longrightarrow>
   stays_settled k command
     (c\<lparr>commands := bt_insert k' (new_command (attachment_epoch c) k' g kind) (commands c)\<rparr>)"
  by (simp add: stays_settled_def command_view_def command_of_def)
    (auto simp: stays_settled_def command_of_terminal, auto simp: command_of_def)

interpretation settled: command_invariant "stays_settled k command" for k command
  by unfold_locales (rule stays_settled_other stays_settled_accept; assumption)+

section \<open>Inputs and runs\<close>

lemma extended_context:
  "commands (PlayerLifecycleState.extend s x) = commands s"
  "attachment_epoch (PlayerLifecycleState.extend s x) = attachment_epoch s"
  "effects (PlayerLifecycleState.extend s (reducer_context.fields fx)) = fx"
  "commands (PlayerLifecycleState.truncate c) = commands c"
  "attachment_epoch (PlayerLifecycleState.truncate c) = attachment_epoch c"
  by (simp_all add: PlayerLifecycleState.defs reducer_context.defs)

lemma commands_ok_cong:
  "commands s = commands s' \<Longrightarrow> attachment_epoch s = attachment_epoch s' \<Longrightarrow> commands_ok s = commands_ok s'"
  by (simp add: commands_ok_def)

lemma published_once_start:
  assumes "commands_ok s"
  shows "published_once k (command_of s k) (attachment_epoch s)
           (PlayerLifecycleState.extend s (reducer_context.fields []))" (is "published_once _ _ _ ?c")
proof -
  have ok: "commands_ok ?c"
    by (rule iffD2 [OF commands_ok_cong assms]) (rule extended_context)+
  have same: "command_of ?c k = command_of s k"
    by (simp only: command_of_def extended_context)
  have none: "command_outcomes k [] = []"
    by (simp add: command_outcomes_def)
  have "outcome_of_record (attachment_epoch s) (command_of s k) = []" if "\<not> was_settled (command_of s k)"
    using that settled_outcome_open [OF commands_okD [OF assms]]
    by (auto simp: was_settled_def outcome_of_record_def split: option.splits)
  moreover have "identity_kept x x" for x
    by (simp add: identity_kept_def same_command_def split: option.split)
  ultimately show ?thesis
    unfolding published_once_def same extended_context none using ok by auto
qed

lemma reduce_published_once:
  assumes "commands_ok s" and "input \<noteq> AttachmentReplaced"
  defines "s' \<equiv> fst (reduce_player_lifecycle s input)" and "fx \<equiv> snd (reduce_player_lifecycle s input)"
  shows "commands_ok s'"
    and "was_settled (command_of s k) \<Longrightarrow> command_of s' k = command_of s k \<and> command_outcomes k fx = []"
    and "\<not> was_settled (command_of s k) \<Longrightarrow> identity_kept (command_of s k) (command_of s' k)
      \<and> command_outcomes k fx = outcome_of_record (attachment_epoch s) (command_of s' k)"
proof -
  let ?c = "handle_input input (PlayerLifecycleState.extend s (reducer_context.fields []))"
  have once: "published_once k (command_of s k) (attachment_epoch s) ?c"
    by (rule once.handle_input [OF assms(2) published_once_start [OF assms(1)]])
  have s': "s' = PlayerLifecycleState.truncate ?c" "fx = effects ?c"
    by (simp_all add: s'_def fx_def reduce_player_lifecycle_def Let_def)
  have of: "command_of s' k = command_of ?c k"
    by (simp only: s' command_of_def extended_context)
  show "commands_ok s'"
    using once iffD2 [OF commands_ok_cong, of s' ?c] extended_context(4,5) [of ?c]
    by (simp add: s' published_once_def)
  show "was_settled (command_of s k) \<Longrightarrow> command_of s' k = command_of s k \<and> command_outcomes k fx = []"
    and "\<not> was_settled (command_of s k) \<Longrightarrow> identity_kept (command_of s k) (command_of s' k)
      \<and> command_outcomes k fx = outcome_of_record (attachment_epoch s) (command_of s' k)"
    using once by (simp_all add: of s'(2) published_once_def)
qed

text \<open>Replacing the attachment settles every open command as disconnected.\<close>

definition closing_context :: "reducer_context \<Rightarrow> reducer_context" where
  "closing_context c =
     (let c = (if gap_detected c \<and> recovery_snapshot c = None
               then c\<lparr>recovery_snapshot := Some (closing_snapshot_for_current_epoch c)\<rparr> else c);
          c = fold (\<lambda>command_id.
                command_terminal command_id CommandSemanticState.TransportDisconnected)
                (open_command_ids c) c
      in commit_all PlayerPhysicalLoadOutcome.TransportDisconnected (open_attempt_ids c) c)"

lemma close_epoch_closing: "close_epoch c = retire_current_epoch_delivery (closing_context c)"
  by (simp add: close_epoch_def closing_context_def Let_def)

lemma attachment_replaced_effects:
  "command_outcomes k (effects (attachment_replaced c)) = command_outcomes k (effects (closing_context c))"
  "commands (attachment_replaced c) = []"
proof -
  let ?o = "open_next_epoch (retire_current_epoch_delivery (closing_context c))"
  have o: "effects ?o = effects (closing_context c)" "commands ?o = []"
    by (simp_all add: open_next_epoch_def retire_current_epoch_delivery_def Let_def)
  have "command_view (attachment_replaced c) = command_view ?o"
    by (simp add: attachment_replaced_def close_epoch_closing Let_def command_frame)
  then show "command_outcomes k (effects (attachment_replaced c)) = command_outcomes k (effects (closing_context c))"
    "commands (attachment_replaced c) = []"
    using command_outcomes_command_effects [of k "effects (attachment_replaced c)"]
      command_outcomes_command_effects [of k "effects ?o"]
    by (simp_all add: command_view_def o)
qed

lemma fold_settles:
  assumes "k \<in> set ks" and "command_of c k = Some command" and "public_result t \<noteq> None"
  shows "\<exists>q. command_of (fold (\<lambda>k'. command_terminal k' t) ks c) k = Some (settle_record t q command)"
  using assms(1,2)
proof (induction ks arbitrary: c command)
  case (Cons k' ks)
  let ?c = "command_terminal k' t c"
  show ?case
  proof (cases "k' = k")
    case True
    let ?r = "settle_record t (eo_sequence (fst (next_order c))) command"
    have r: "command_of ?c k = Some ?r" "command_is_terminal (lc_state ?r)"
      using Cons.prems(2) True assms(3)
      by (auto simp: command_of_terminal settle_record_def command_is_terminal_iff_public_result)
    then have "command_of (fold (\<lambda>k'. command_terminal k' t) ks ?c) k = Some ?r"
      using settled.fold_preserves [of k ?r "\<lambda>k'. command_terminal k' t" ?c ks] settled.command_terminal
      by (auto simp: stays_settled_def)
    then show ?thesis by auto
  next
    case False
    with Cons.prems have "k \<in> set ks" "command_of ?c k = Some command"
      by (simp_all add: command_of_terminal)
    from Cons.IH [OF this] show ?thesis by simp
  qed
qed simp

lemma open_command_ids_iff:
  assumes "commands_ok s"
  shows "k \<in> set (open_command_ids s) \<longleftrightarrow>
    (\<exists>command. command_of s k = Some command \<and> \<not> command_is_terminal (lc_state command))"
proof -
  have "bt_wf (commands s)" using assms by (simp add: commands_ok_def)
  moreover have "lc_id command = k" if "command_of s k = Some command" for k command
    using commands_okD [OF assms that] by (simp add: command_record_ok_def)
  ultimately show ?thesis
    by (auto simp: open_command_ids_def bt_values_iff command_of_def)
qed

lemma closing_context_record:
  assumes ok: "commands_ok c" and cmd: "command_of c k = Some command"
  shows "\<exists>q. command_of (closing_context c) k = Some (settle_record CommandSemanticState.TransportDisconnected q command)"
proof -
  let ?t = CommandSemanticState.TransportDisconnected
  define d where "d = (if gap_detected c \<and> recovery_snapshot c = None
      then c\<lparr>recovery_snapshot := Some (closing_snapshot_for_current_epoch c)\<rparr> else c)"
  have d: "command_of d k = Some command" "open_command_ids d = open_command_ids c"
    using cmd by (simp_all add: d_def command_of_def open_command_ids_def)
  let ?f = "fold (\<lambda>k'. command_terminal k' ?t) (open_command_ids d) d"
  have "\<exists>q. command_of ?f k = Some (settle_record ?t q command)"
  proof (cases "command_is_terminal (lc_state command)")
    case True
    then have "k \<notin> set (open_command_ids d)"
      using open_command_ids_iff [OF ok, of k] cmd d(2) by simp
    then show ?thesis
      using d(1) True by (simp add: command_terminal_fold_other)
  next
    case False
    then have "k \<in> set (open_command_ids d)"
      using open_command_ids_iff [OF ok, of k] cmd d(2) by simp
    then show ?thesis by (rule fold_settles) (simp_all add: d)
  qed
  then obtain q where q: "command_of ?f k = Some (settle_record ?t q command)" by blast
  then have "stays_settled k (settle_record ?t q command) ?f"
    by (auto simp: stays_settled_def settle_record_def)
  then have "stays_settled k (settle_record ?t q command) (closing_context c)"
    by (simp add: closing_context_def d_def [symmetric] Let_def settled.commit_all)
  then show ?thesis by (auto simp: stays_settled_def)
qed

lemma published_once_closing: "published_once k p e c \<Longrightarrow> published_once k p e (closing_context c)"
  by (auto simp: closing_context_def Let_def
      intro!: once.commit_all once.fold_preserves once.command_terminal)

interpretation absent: command_settling "\<lambda>c. command_of c k = None" for k
  by (unfold_locales, simp add: command_view_def command_of_def) (auto simp: command_of_terminal)

lemma closing_context_absent: "command_of c k = None \<Longrightarrow> command_of (closing_context c) k = None"
  unfolding closing_context_def Let_def
  by (intro absent.commit_all absent.fold_preserves absent.command_terminal) (simp_all add: command_of_def)

lemma reduce_replaced_commands:
  assumes ok: "commands_ok s"
  defines "s' \<equiv> fst (reduce_player_lifecycle s AttachmentReplaced)"
    and "fx \<equiv> snd (reduce_player_lifecycle s AttachmentReplaced)"
  shows "commands s' = []"
    and "command_of s k = None \<or> was_settled (command_of s k) \<Longrightarrow> command_outcomes k fx = []"
    and "command_of s k = Some command \<Longrightarrow> \<not> command_is_terminal (lc_state command) \<Longrightarrow>
      \<exists>q. command_outcomes k fx = settled_outcome (attachment_epoch s)
            (settle_record CommandSemanticState.TransportDisconnected q command)"
proof -
  let ?c = "PlayerLifecycleState.extend s (reducer_context.fields [])"
  let ?d = "closing_context ?c"
  have c: "commands_ok ?c" "\<And>k. command_of ?c k = command_of s k"
    by (rule iffD2 [OF commands_ok_cong ok], (rule extended_context)+)
      (simp only: command_of_def extended_context)
  have fx: "command_outcomes k fx = command_outcomes k (effects ?d)" and s': "commands s' = []"
    by (simp_all add: fx_def s'_def reduce_player_lifecycle_def Let_def attachment_replaced_effects
        extended_context)
  have once: "published_once k (command_of s k) (attachment_epoch s) ?d"
    by (rule published_once_closing [OF published_once_start [OF ok]])
  show "commands s' = []" by (rule s')
  show "command_of s k = None \<or> was_settled (command_of s k) \<Longrightarrow> command_outcomes k fx = []"
    using once closing_context_absent [of ?c k]
    by (auto simp: fx c published_once_def was_settled_def outcome_of_record_def)
  assume cmd: "command_of s k = Some command" and "\<not> command_is_terminal (lc_state command)"
  then have "command_outcomes k (effects ?d) = outcome_of_record (attachment_epoch s) (command_of ?d k)"
    using once by (simp add: published_once_def was_settled_def)
  then show "\<exists>q. command_outcomes k fx = settled_outcome (attachment_epoch s)
      (settle_record CommandSemanticState.TransportDisconnected q command)"
    using closing_context_record [OF c(1), of k command] cmd
    by (auto simp: fx c outcome_of_record_def)
qed

lemma replaced_settles_open_command:
  assumes "commands_ok s" "\<not> was_settled (command_of s k)"
  shows "commands (fst (reduce_player_lifecycle s AttachmentReplaced)) = []
    \<and> (\<exists>q. command_outcomes k (snd (reduce_player_lifecycle s AttachmentReplaced))
        = outcome_of_record (attachment_epoch s)
            (map_option (settle_record CommandSemanticState.TransportDisconnected q) (command_of s k)))"
  using reduce_replaced_commands(1) [OF assms(1)] reduce_replaced_commands(2,3) [OF assms(1), where k = k] assms(2)
  by (cases "command_of s k") (simp_all add: was_settled_def outcome_of_record_def)

lemma commands_ok_reduce: "commands_ok s \<Longrightarrow> commands_ok (fst (reduce_player_lifecycle s input))"
  using reduce_published_once(1) [of s input] reduce_replaced_commands(1) [of s]
  by (cases "input = AttachmentReplaced") (simp_all add: commands_ok_def)

section \<open>Compaction keeps the records\<close>

lemma commands_ok_retire: "commands_ok s \<Longrightarrow> commands_ok (retire_command_record k s)"
  by (auto simp: commands_ok_iff retire_command_record_def command_of_def split: option.split if_splits)

lemma commands_ok_compact_attempt: "commands_ok s \<Longrightarrow> commands_ok (compact_attempt q a s)"
proof -
  assume ok: "commands_ok s"
  have same: "commands_ok (s'\<lparr>load_attempts := x\<rparr>) = commands_ok s'"
    "commands_ok (s'\<lparr>terminal_attempt_tombstones := y\<rparr>) = commands_ok s'"
    for s' :: "'a lifecycle" and x y
    by (simp_all add: commands_ok_def)
  show ?thesis
    using ok
    by (auto simp: compact_attempt_def unlink_successor_def unlink_predecessor_def Let_def same
        intro!: commands_ok_retire split: option.split)
qed

lemma commands_ok_compact_seek: "commands_ok s \<Longrightarrow> commands_ok (compact_seek entry s)"
proof -
  assume ok: "commands_ok s"
  have same: "commands_ok (s'\<lparr>seek_ownership := x\<rparr>) = commands_ok s'"
    "commands_ok (s'\<lparr>retired_seek_tombstones := y\<rparr>) = commands_ok s'"
    "commands_ok (s'\<lparr>uncertain_seek_generations := z\<rparr>) = commands_ok s'"
    for s' :: "'a lifecycle" and x y z
    by (simp_all add: commands_ok_def)
  show ?thesis
    using ok
    by (auto simp: compact_seek_def push_retired_seek_tombstone_def Let_def split_def same
        intro!: commands_ok_retire split: list.split)
qed

lemma fold_keeps_inv: "(\<And>x s. P s \<Longrightarrow> P (f x s)) \<Longrightarrow> P s \<Longrightarrow> P (fold f xs s)"
  by (induction xs arbitrary: s) auto

lemmas fold_commands_ok = fold_keeps_inv [where P = commands_ok]

lemma commands_ok_folds:
  "commands_ok s \<Longrightarrow> commands_ok (fold retire_command_record ks s)"
  "commands_ok s \<Longrightarrow> commands_ok (fold compact_seek es s)"
  "commands_ok s \<Longrightarrow> commands_ok (fold (compact_attempt q) ids s)"
  by (rule fold_commands_ok, erule commands_ok_retire, assumption)
    (rule fold_commands_ok, erule commands_ok_compact_seek, assumption,
     rule fold_commands_ok, erule commands_ok_compact_attempt, assumption)

lemma commands_ok_compact:
  assumes "commands_ok s" shows "commands_ok (compact_acknowledged_lifecycle q s)"
proof -
  have tombstones: "commands_ok (s'\<lparr>terminal_attempt_tombstones := x, retired_command_tombstones := y\<rparr>)
      = commands_ok s'" for s' :: "'a lifecycle" and x y
    by (simp add: commands_ok_def)
  show ?thesis
    using assms by (simp add: compact_acknowledged_lifecycle_def Let_def tombstones commands_ok_folds)
qed

lemma pruned_commands [simp]:
  "commands (prune_snapshot_covered_events s) = commands s"
  "commands (pruned_for_peek s) = commands s"
  by (simp_all add: prune_snapshot_covered_events_def pruned_for_peek_def Let_def)

lemma commands_ok_step: "commands_ok s \<Longrightarrow> commands_ok (fst (lifecycle_step l s))"
proof (cases l)
  case Peek
  assume "commands_ok s"
  moreover have "commands (snd (peek_event_batch s)) = commands s"
    by (cases "cached_batch s")
      (simp_all add: peek_cached peek_uncached Let_def)
  ultimately show ?thesis
    using Peek by (simp add: commands_ok_def)
next
  case (Acknowledge token)
  assume ok: "commands_ok s"
  have same: "commands_ok (prune_snapshot_covered_events s') = commands_ok s'"
    "commands_ok (store_delivery d s') = commands_ok s'"
    "commands_ok (s'\<lparr>cached_batch := b, retired_epoch_deliveries := ds\<rparr>) = commands_ok s'"
    "commands_ok (s'\<lparr>cached_batch := b\<rparr>) = commands_ok s'"
    for s' :: PlayerLifecycleState and d b ds
    by (simp_all add: commands_ok_def store_delivery_def)
  from ok Acknowledge show ?thesis
    by (auto simp: acknowledge_event_batch_def Let_def same intro!: commands_ok_compact
        split: option.split list.split)
qed (simp add: split_def Let_def commands_ok_reduce)

interpretation commands_run: step_invariant lifecycle_step "\<lambda>_. True" commands_ok
  by unfold_locales (simp_all add: commands_ok_step)

end
