(* ===== verification/Lifecycle_Attempts.thy ===== *)
theory Lifecycle_Attempts
  imports Lifecycle_Commands
begin

text \<open>
  Load attempts. The invariant covers the records themselves, the mutual mapping between live
  attempts and playlist entries, the successor links and the attempt that owns the transport;
  it is the part of the reducer's own invariant check that speaks about attempts. It needs only
  that the attempt counter has not reached the end of \<open>u64\<close>. The locale collects what the
  reducer does to attempts, and its client lemma is that inputs do nothing else.
\<close>

section \<open>The attempt invariant\<close>

definition attempt_results_ok :: "LoadAttempt \<Rightarrow> bool" where
  "attempt_results_ok x \<longleftrightarrow>
     (la_semantic_load_result x \<noteq> None \<longleftrightarrow> la_semantic_outcome_sequence x \<noteq> None)
     \<and> (attempt_is_terminal (la_state x) \<longleftrightarrow> la_physical_terminal_sequence x \<noteq> None)
     \<and> (attempt_is_terminal (la_state x) \<longrightarrow> la_semantic_load_result x \<noteq> None)"

definition attempt_deadlines_ok :: "LoadAttempt \<Rightarrow> bool" where
  "attempt_deadlines_ok x \<longleftrightarrow>
     (la_state x \<in> {Submitting, AcceptedUnbound} \<longrightarrow> la_playlist_entry_id x = None)
     \<and> (la_state x = Submitting \<longrightarrow> la_file_loaded_deadline_tick x = None)
     \<and> (la_state x = AcceptedUnbound \<longrightarrow>
          la_reconcile_until_tick x \<noteq> None \<and> la_file_loaded_deadline_tick x \<noteq> None)
     \<and> (la_reconcile_until_tick x \<noteq> None \<longrightarrow>
          la_playlist_entry_id x = None
          \<and> (la_state x \<in> {AcceptedUnbound, MayStillEmit} \<or> is_superseded_state (la_state x)))
     \<and> (la_file_loaded_deadline_tick x \<noteq> None \<longrightarrow>
          la_semantic_load_result x = None \<and> \<not> la_logical_ownership_revoked x
          \<and> \<not> la_file_loaded_observed x \<and> \<not> attempt_is_terminal (la_state x)
          \<and> \<not> is_quiescent (la_state x))"

definition attempt_local_ok :: "LoadAttempt \<Rightarrow> bool" where
  "attempt_local_ok x \<longleftrightarrow>
     attempt_results_ok x \<and> attempt_deadlines_ok x
     \<and> (la_state x = Active \<longrightarrow> la_file_loaded_observed x)
     \<and> (\<forall>y. la_state x = SupersededMayStillEmit y \<longrightarrow>
          la_superseded_by x = Some y \<and> la_logical_ownership_revoked x)"

definition links_ok :: "'a lifecycle \<Rightarrow> LoadAttempt \<Rightarrow> bool" where
  "links_ok s x \<longleftrightarrow>
     (\<forall>y. la_superseded_by x = Some y \<longrightarrow>
        la_id x < y \<and> la_logical_ownership_revoked x
        \<and> (\<exists>z. attempt_of s y = Some z \<and> la_replaced_attempt z = Some (la_id x)))
     \<and> (\<forall>p. la_replaced_attempt x = Some p \<longrightarrow> p < la_id x)"

definition untouched :: "LoadAttempt \<Rightarrow> bool" where
  "untouched x \<longleftrightarrow>
     la_semantic_load_result x = None \<and> \<not> la_logical_ownership_revoked x \<and> \<not> la_file_loaded_observed x"

definition record_ok :: "LoadAttemptId set \<Rightarrow> 'a lifecycle \<Rightarrow> LoadAttemptId \<Rightarrow> LoadAttempt \<Rightarrow> bool" where
  "record_ok X s a x \<longleftrightarrow>
     la_id x = a \<and> 0 < a \<and> a < next_load_attempt_id s \<and> la_epoch x = attachment_epoch s
     \<and> attempt_local_ok x \<and> links_ok s x
     \<and> (a \<notin> X \<and> la_state x = Submitting \<longrightarrow> untouched x)
     \<and> (\<forall>p. \<not> attempt_is_terminal (la_state x) \<and> a \<notin> X \<and> la_playlist_entry_id x = Some p \<longrightarrow>
          bt_get (playlist_entry_attempts s) p = Some a)"

definition mapping_ok :: "'a lifecycle \<Rightarrow> bool" where
  "mapping_ok s \<longleftrightarrow>
     (\<forall>p a. bt_get (playlist_entry_attempts s) p = Some a \<longrightarrow>
        (\<exists>x. attempt_of s a = Some x \<and> \<not> attempt_is_terminal (la_state x)
           \<and> la_playlist_entry_id x = Some p))"

text \<open>An attempt that may own the transport.\<close>

definition transport_owner :: "LoadAttempt \<Rightarrow> bool" where
  "transport_owner x \<longleftrightarrow>
     \<not> attempt_is_terminal (la_state x) \<and> \<not> is_quiescent (la_state x) \<and> la_playlist_entry_id x \<noteq> None"

definition active_ok :: "'a lifecycle \<Rightarrow> bool" where
  "active_ok s \<longleftrightarrow>
     (\<forall>a. active_load_attempt s = Some a \<longrightarrow> (\<exists>x. attempt_of s a = Some x \<and> transport_owner x))"

text \<open>
  The set names attempts in the middle of an operation: an external load whose playlist mapping
  is about to be entered, or a rejected attempt about to be terminated.
\<close>

definition attempts_ok :: "LoadAttemptId set \<Rightarrow> 'a lifecycle \<Rightarrow> bool" where
  "attempts_ok X s \<longleftrightarrow>
     bt_wf (load_attempts s) \<and> bt_wf (playlist_entry_attempts s)
     \<and> (\<forall>a x. attempt_of s a = Some x \<longrightarrow> record_ok X s a x) \<and> mapping_ok s \<and> active_ok s"

lemma attempts_okD:
  "attempts_ok X s \<Longrightarrow> attempt_of s a = Some x \<Longrightarrow> record_ok X s a x"
  by (simp add: attempts_ok_def)

definition attempts_keyed :: "'a lifecycle \<Rightarrow> bool" where
  "attempts_keyed s \<longleftrightarrow> bt_wf (load_attempts s) \<and> list_all (\<lambda>(a, x). la_id x = a) (load_attempts s)"

lemma attempts_keyed_iff:
  "attempts_keyed s \<longleftrightarrow> bt_wf (load_attempts s) \<and> (\<forall>a x. attempt_of s a = Some x \<longrightarrow> la_id x = a)"
  using bt_entries_iff [of "load_attempts s"]
  by (auto simp: attempts_keyed_def list_all_iff attempt_of_def Ball_def split_paired_All)

lemma keyed_values:
  "attempts_keyed s \<Longrightarrow> x \<in> set (bt_values (load_attempts s)) \<longleftrightarrow> attempt_of s (la_id x) = Some x"
  by (auto simp: attempts_keyed_iff bt_values_iff attempt_of_def)

section \<open>What the attempts see\<close>

fun is_load_effect :: "PlayerLifecycleEffect \<Rightarrow> bool" where
  "is_load_effect (EmitSemanticOutcome outcome) =
     (case so_outcome outcome of Command _ \<Rightarrow> False | LoadAttempt _ \<Rightarrow> True)"
| "is_load_effect _ = False"

definition load_effects :: "PlayerLifecycleEffect list \<Rightarrow> PlayerLifecycleEffect list" where
  "load_effects fx = filter is_load_effect fx"

record attempt_view_data =
  av_epoch :: PlayerAttachmentEpoch
  av_attempts :: "(LoadAttemptId, LoadAttempt) btree_map"
  av_playlist :: "(i64, LoadAttemptId) btree_map"
  av_active :: "LoadAttemptId option"
  av_next :: u64
  av_effects :: "PlayerLifecycleEffect list"

definition attempt_view :: "reducer_context \<Rightarrow> attempt_view_data" where
  "attempt_view c =
     \<lparr>av_epoch = attachment_epoch c, av_attempts = load_attempts c,
      av_playlist = playlist_entry_attempts c, av_active = active_load_attempt c,
      av_next = next_load_attempt_id c, av_effects = load_effects (effects c)\<rparr>"

named_theorems attempt_frame "operations that leave the attempts alone"

lemma load_effects_append [simp]: "load_effects (fx @ gx) = load_effects fx @ load_effects gx"
  by (simp add: load_effects_def)

lemma attempt_view_push_effect [attempt_frame]:
  "\<not> is_load_effect e \<Longrightarrow> attempt_view (push_effect e c) = attempt_view c"
  by (simp add: attempt_view_def push_effect_def load_effects_def)

lemma attempt_view_updates [attempt_frame]:
  "attempt_view (c\<lparr>commands := x1\<rparr>) = attempt_view c"
  "attempt_view (c\<lparr>seek_ownership := x4\<rparr>) = attempt_view c"
  "attempt_view (c\<lparr>reconciliation_required := x5\<rparr>) = attempt_view c"
  "attempt_view (c\<lparr>last_reconciliation := x6\<rparr>) = attempt_view c"
  "attempt_view (c\<lparr>next_reconciliation_tick := x7\<rparr>) = attempt_view c"
  "attempt_view (c\<lparr>reconciliation_backoff_ticks := x8\<rparr>) = attempt_view c"
  "attempt_view (c\<lparr>now_tick := x9\<rparr>) = attempt_view c"
  "attempt_view (c\<lparr>logical_terminal := x10\<rparr>) = attempt_view c"
  "attempt_view (c\<lparr>next_event_sequence := x12\<rparr>) = attempt_view c"
  "attempt_view (c\<lparr>deferred_start_files := x13\<rparr>) = attempt_view c"
  "attempt_view (c\<lparr>provisional_eof := x14\<rparr>) = attempt_view c"
  "attempt_view (c\<lparr>retained_completion_attempt := x15\<rparr>) = attempt_view c"
  "attempt_view (c\<lparr>pending_events := x16\<rparr>) = attempt_view c"
  "attempt_view (c\<lparr>retained_semantic_outcomes := x17\<rparr>) = attempt_view c"
  "attempt_view (c\<lparr>recovery_snapshot := x18\<rparr>) = attempt_view c"
  "attempt_view (c\<lparr>gap_detected := x19\<rparr>) = attempt_view c"
  "attempt_view (c\<lparr>pending_native_seek_generation := x20\<rparr>) = attempt_view c"
  "attempt_view (c\<lparr>retired_epoch_deliveries := x21\<rparr>) = attempt_view c"
  "attempt_view (c\<lparr>retired_seek_tombstones := x22\<rparr>) = attempt_view c"
  "attempt_view (c\<lparr>uncertain_seek_generations := x23\<rparr>) = attempt_view c"
  by (simp_all add: attempt_view_def)

lemma attempt_view_small [attempt_frame]:
  "attempt_view (snd (next_order c)) = attempt_view c"
  "attempt_view (modify_command k g c) = attempt_view c"
  "attempt_view (modify_seek k h c) = attempt_view c"
  "attempt_view (set_seek_state S t k c) = attempt_view c"
  "attempt_view (schedule_reconciliation c) = attempt_view c"
  by (simp_all add: next_order_def modify_command_def modify_seek_def set_seek_state_def
      schedule_reconciliation_def attempt_frame Let_def)

lemma attempt_view_steps [attempt_frame]:
  "attempt_view (stop_reconciliation_without_proactive_work c) = attempt_view c"
  "attempt_view (finish_reconciliation v c) = attempt_view c"
  "attempt_view (retry_reconciliation v c) = attempt_view c"
  "attempt_view (prune_expired_seek_tombstones c) = attempt_view c"
  by (simp_all add: stop_reconciliation_without_proactive_work_def
      finish_reconciliation_def retry_reconciliation_def prune_expired_seek_tombstones_def
      attempt_frame Let_def)

lemma attempt_view_mark_gap [attempt_frame]: "attempt_view (mark_gap c) = attempt_view c"
  by (simp add: mark_gap_gap_marked gap_marked_def append_event_def Let_def attempt_frame)

lemma attempt_view_queue_event [attempt_frame]: "attempt_view (snd (queue_event event c)) = attempt_view c"
  by (simp add: snd_queue_event append_event_def Let_def attempt_frame)

lemma attempt_view_command_terminal [attempt_frame]:
  "attempt_view (command_terminal k t c) = attempt_view c"
  by (simp add: command_terminal_def retain_outcome_def Let_def split_def attempt_frame split: option.split)

lemma attempt_of_view: "attempt_view c = attempt_view c' \<Longrightarrow> attempt_of c = attempt_of c'"
  by (rule ext) (simp add: attempt_view_def attempt_of_def)

lemma attempts_ok_view: "attempt_view c = attempt_view c' \<Longrightarrow> attempts_ok X c = attempts_ok X c'"
  using attempt_of_view [of c c']
  by (simp add: attempt_view_def attempts_ok_def record_ok_def [abs_def] links_ok_def mapping_ok_def active_ok_def)

lemma attempts_keyed_view: "attempt_view c = attempt_view c' \<Longrightarrow> attempts_keyed c = attempts_keyed c'"
  by (simp add: attempt_view_def attempts_keyed_def)

lemma attempt_view_fields:
  assumes "attempt_view c = attempt_view c'"
  shows "attempt_of c = attempt_of c'" "playlist_entry_attempts c = playlist_entry_attempts c'"
    "active_load_attempt c = active_load_attempt c'" "attachment_epoch c = attachment_epoch c'"
    "next_load_attempt_id c = next_load_attempt_id c'" "load_attempts c = load_attempts c'"
  using assms attempt_of_view [OF assms] by (simp_all add: attempt_view_def)

lemmas attempt_of_frame [simp] =
  attempt_view_fields(1) [OF attempt_view_queue_event]
  attempt_view_fields(1) [OF attempt_view_command_terminal]
  attempt_view_fields(1) [OF attempt_view_mark_gap]
  attempt_view_fields(1) [OF attempt_view_push_effect]
  attempt_view_fields(1) [OF attempt_view_small(4)]
  attempt_view_fields(1) [OF attempt_view_small(5)]

lemmas playlist_frame [simp] =
  attempt_view_fields(2) [OF attempt_view_queue_event]
  attempt_view_fields(2) [OF attempt_view_command_terminal]
  attempt_view_fields(2) [OF attempt_view_push_effect]
  attempt_view_fields(2) [OF attempt_view_small(5)]

lemmas active_frame [simp] =
  attempt_view_fields(3) [OF attempt_view_queue_event]
  attempt_view_fields(3) [OF attempt_view_command_terminal]
  attempt_view_fields(3) [OF attempt_view_push_effect]
  attempt_view_fields(3) [OF attempt_view_small(5)]
  attempt_view_fields(3) [OF attempt_view_small(4)]

lemma attempt_of_updates [simp]:
  "attempt_of (s\<lparr>playlist_entry_attempts := x1\<rparr>) = attempt_of s"
  "attempt_of (s\<lparr>active_load_attempt := x2\<rparr>) = attempt_of s"
  "attempt_of (s\<lparr>logical_terminal := x3\<rparr>) = attempt_of s"
  "attempt_of (s\<lparr>provisional_eof := x4\<rparr>) = attempt_of s"
  "attempt_of (s\<lparr>deferred_start_files := x5\<rparr>) = attempt_of s"
  "attempt_of (s\<lparr>commands := x6\<rparr>) = attempt_of s"
  "attempt_of (s\<lparr>now_tick := x7\<rparr>) = attempt_of s"
  by (rule ext, simp add: attempt_of_def)+

lemma attempt_of_modify [simp]:
  "attempt_of (modify_attempt a f s) b = (if b = a then map_option f (attempt_of s a) else attempt_of s b)"
  by (simp add: attempt_of_def modify_attempt_def)

lemma modify_attempt_fields [simp]:
  "playlist_entry_attempts (modify_attempt a f s) = playlist_entry_attempts s"
  "active_load_attempt (modify_attempt a f s) = active_load_attempt s"
  "attachment_epoch (modify_attempt a f s) = attachment_epoch s"
  "next_load_attempt_id (modify_attempt a f s) = next_load_attempt_id s"
  "bt_wf (load_attempts (modify_attempt a f s)) = bt_wf (load_attempts s)"
  by (simp_all add: modify_attempt_def)

definition emitted_record :: "PlayerLoadAttemptResult \<Rightarrow> u64 \<Rightarrow> LoadAttempt \<Rightarrow> LoadAttempt" where
  "emitted_record r q x =
     (if la_semantic_load_result x \<noteq> None then x
      else x\<lparr>la_semantic_load_result := Some r, la_semantic_outcome_sequence := Some q\<rparr>)"

lemma retain_outcome_fields:
  "attempt_of (snd (retain_outcome o' c)) = attempt_of c"
  "fst (retain_outcome o' c) = fst (next_order c)"
  by (simp_all add: retain_outcome_def next_order_def push_effect_def attempt_of_def [abs_def] Let_def split_def)

lemma attempt_of_emit:
  "attempt_of (emit_load_outcome a r t c) b =
     (if b = a then map_option (emitted_record r (eo_sequence (fst (next_order c)))) (attempt_of c a)
      else attempt_of c b)"
proof -
  have "eo_sequence (fst (next_order (modify_attempt a f c))) = eo_sequence (fst (next_order c))" for f
    by (simp add: next_order_def modify_attempt_def Let_def)
  then show ?thesis
    by (simp add: emit_load_outcome_def Let_def split_def retain_outcome_fields emitted_record_def
        split: option.split)
qed

lemma emit_load_outcome_fields [simp]:
  "playlist_entry_attempts (emit_load_outcome a r t c) = playlist_entry_attempts c"
  "active_load_attempt (emit_load_outcome a r t c) = active_load_attempt c"
  "attachment_epoch (emit_load_outcome a r t c) = attachment_epoch c"
  "next_load_attempt_id (emit_load_outcome a r t c) = next_load_attempt_id c"
  "bt_wf (load_attempts (emit_load_outcome a r t c)) = bt_wf (load_attempts c)"
  by (simp_all add: emit_load_outcome_def retain_outcome_def next_order_def push_effect_def
      modify_attempt_def Let_def split_def split: option.split)

definition superseded_record :: "LoadAttemptId \<Rightarrow> LoadAttemptId \<Rightarrow> LoadAttempt \<Rightarrow> LoadAttempt" where
  "superseded_record p a x =
     (let x = (if la_id x \<noteq> a \<and> la_replaced_attempt x = Some p then x\<lparr>la_replaced_attempt := None\<rparr> else x)
      in x\<lparr>la_superseded_by := Some a, la_logical_ownership_revoked := True,
           la_state := SupersededMayStillEmit a, la_reconcile_until_tick := None,
           la_file_loaded_deadline_tick := None\<rparr>)"

lemma superseded_record_simps [simp]:
  "la_file_loaded_deadline_tick (superseded_record p a x) = None"
  "la_state (superseded_record p a x) = SupersededMayStillEmit a"
  by (simp_all add: superseded_record_def Let_def)

lemma attempt_of_supersede:
  "attempt_of (supersede_predecessor p a s) b =
     (if b = p then map_option (superseded_record p a) (attempt_of s p)
      else map_option (\<lambda>x. if la_id x \<noteq> a \<and> la_replaced_attempt x = Some p
                            then x\<lparr>la_replaced_attempt := None\<rparr> else x) (attempt_of s b))"
  by (simp add: supersede_predecessor_def retain_only_selected_successor_claim_def attempt_of_def
      modify_attempt_def superseded_record_def [abs_def] Let_def option.map_comp comp_def)

lemma supersede_fields [simp]:
  "playlist_entry_attempts (supersede_predecessor p a s) = playlist_entry_attempts s"
  "active_load_attempt (supersede_predecessor p a s) = active_load_attempt s"
  "attachment_epoch (supersede_predecessor p a s) = attachment_epoch s"
  "next_load_attempt_id (supersede_predecessor p a s) = next_load_attempt_id s"
  "bt_wf (load_attempts (supersede_predecessor p a s)) = bt_wf (load_attempts s)"
  by (simp_all add: supersede_predecessor_def retain_only_selected_successor_claim_def modify_attempt_def)

section \<open>The attempt interface\<close>

definition same_attempt :: "LoadAttempt \<Rightarrow> LoadAttempt \<Rightarrow> bool" where
  "same_attempt x y \<longleftrightarrow>
     la_id y = la_id x \<and> la_epoch y = la_epoch x \<and> la_media_generation y = la_media_generation x
     \<and> la_command_id y = la_command_id x \<and> la_requested_target y = la_requested_target x
     \<and> la_semantic_load_result y = la_semantic_load_result x
     \<and> la_semantic_outcome_sequence y = la_semantic_outcome_sequence x
     \<and> la_physical_terminal_sequence y = la_physical_terminal_sequence x"

definition same_links :: "LoadAttempt \<Rightarrow> LoadAttempt \<Rightarrow> bool" where
  "same_links x y \<longleftrightarrow>
     la_playlist_entry_id y = la_playlist_entry_id x \<and> la_replaced_attempt y = la_replaced_attempt x
     \<and> la_superseded_by y = la_superseded_by x
     \<and> la_logical_ownership_revoked y = la_logical_ownership_revoked x"

text \<open>A change of a live attempt's state, observations or deadlines.\<close>

definition attempt_edit :: "LoadAttempt \<Rightarrow> LoadAttempt \<Rightarrow> bool" where
  "attempt_edit x y \<longleftrightarrow>
     y = x
     \<or> \<not> attempt_is_terminal (la_state x) \<and> \<not> attempt_is_terminal (la_state y)
        \<and> same_attempt x y \<and> same_links x y \<and> attempt_local_ok y \<and> la_state y \<noteq> Submitting"

definition bound_record :: "i64 \<Rightarrow> LoadAttempt \<Rightarrow> LoadAttempt" where
  "bound_record p x =
     x\<lparr>la_playlist_entry_id := Some p, la_reconcile_until_tick := None,
       la_state := (if la_state x \<in> {AcceptedUnbound, MayStillEmit} then Bound else la_state x)\<rparr>"

definition bindable :: "i64 \<Rightarrow> reducer_context \<Rightarrow> LoadAttemptId \<Rightarrow> LoadAttempt \<Rightarrow> bool" where
  "bindable p c a x \<longleftrightarrow>
     \<not> attempt_is_terminal (la_state x)
     \<and> (la_playlist_entry_id x = None \<and> la_state x \<noteq> Submitting \<or> la_playlist_entry_id x = Some p)
     \<and> bt_get (playlist_entry_attempts c) p \<in> {None, Some a}"

definition fresh_attempt :: "reducer_context \<Rightarrow> LoadAttempt \<Rightarrow> bool" where
  "fresh_attempt c x \<longleftrightarrow>
     la_epoch x = attachment_epoch c \<and> attempt_local_ok x
     \<and> \<not> attempt_is_terminal (la_state x) \<and> la_superseded_by x = None
     \<and> (\<forall>p. la_replaced_attempt x = Some p \<longrightarrow> p < la_id x) \<and> la_semantic_load_result x = None
     \<and> (la_state x = Submitting \<longrightarrow> untouched x)"

definition insert_attempt :: "LoadAttempt \<Rightarrow> reducer_context \<Rightarrow> reducer_context" where
  "insert_attempt x c =
     (snd (allocate_load_attempt_id c))\<lparr>load_attempts := bt_insert (la_id x) x (load_attempts c)\<rparr>"

text \<open>The part of \<open>commit_physical_attempt_terminal\<close> that concerns the attempt.\<close>

definition terminate_attempt ::
  "LoadAttemptId \<Rightarrow> PlayerPhysicalLoadOutcome \<Rightarrow> LoadAttempt \<Rightarrow> reducer_context \<Rightarrow> reducer_context" where
  "terminate_attempt a out prior c =
     (let c = detach_terminal_attempt a out prior c;
          (order, c) = queue_event (LoadAttemptTerminal a (la_media_generation prior) out) c;
          c = modify_attempt a
                (\<lambda>x. x\<lparr>la_physical_terminal_sequence := Some (eo_sequence order)\<rparr>) c
      in if la_semantic_load_result prior = None
         then emit_load_outcome a (load_result_of_physical out) None c else c)"

lemma attempt_view_announce [attempt_frame]:
  "attempt_view (announce_logical_terminal a out prior c) = attempt_view c"
  by (simp add: announce_logical_terminal_def attempt_frame Let_def)

lemma attempt_view_settle:
  "attempt_view (settle_terminal_attempt a out prior c) =
     attempt_view (if la_semantic_load_result prior = None
       then emit_load_outcome a (load_result_of_physical out) None c else c)"
  by (simp add: settle_terminal_attempt_def attempt_frame Let_def split: option.split)

lemma attempt_view_commit:
  assumes "attempt_of c a = Some prior" "\<not> attempt_is_terminal (la_state prior)"
    "la_epoch prior = attachment_epoch c"
  shows "attempt_view (commit_physical_attempt_terminal a out c) = attempt_view (terminate_attempt a out prior c)"
  using assms
  by (simp add: commit_physical_attempt_terminal_def terminate_attempt_def attempt_view_settle
      attempt_frame Let_def split_def del: if_split)

text \<open>When an attempt is bound it carries the entry, and binding never unsubmits.\<close>

lemma bind_attempt_success:
  assumes "fst (bind_attempt a p c)"
  shows "\<exists>x. attempt_of (snd (bind_attempt a p c)) a = Some (bound_record p x)
           \<and> attempt_of c a = Some x \<and> \<not> attempt_is_terminal (la_state x)
           \<and> la_playlist_entry_id x \<in> {None, Some p}
           \<and> bt_get (playlist_entry_attempts c) p \<in> {None, Some a}"
proof -
  from assms have free: "\<not> (case bt_get (playlist_entry_attempts c) p of Some e \<Rightarrow> e \<noteq> a | None \<Rightarrow> False)"
    by (rule contrapos_pn) (simp add: bind_attempt_def)
  with assms obtain x where x: "attempt_of c a = Some x"
    by (cases "attempt_of c a") (simp_all add: bind_attempt_def)
  have ok: "\<not> (la_epoch x \<noteq> attachment_epoch c \<or> attempt_is_terminal (la_state x)
      \<or> (case la_playlist_entry_id x of Some e \<Rightarrow> e \<noteq> p | None \<Rightarrow> False))"
    using assms by (rule contrapos_pn) (simp add: bind_attempt_def free x)
  then have "attempt_of (snd (bind_attempt a p c)) a = Some (bound_record p x)"
    by (simp add: bind_attempt_def free x Let_def bound_record_def)
  with x free ok show ?thesis
    by (auto split: option.splits)
qed

lemma bind_attempt_view:
  "attempt_view (snd (bind_attempt a p c)) =
     (if fst (bind_attempt a p c)
      then attempt_view ((modify_attempt a (bound_record p) c)
             \<lparr>playlist_entry_attempts := bt_insert p a (playlist_entry_attempts c)\<rparr>)
      else attempt_view c)"
  by (simp add: bind_attempt_def bound_record_def [abs_def] attempt_frame Let_def split: option.split)

lemma attempt_of_bind:
  "attempt_of (snd (bind_attempt a p c)) b =
     (if fst (bind_attempt a p c) \<and> b = a then map_option (bound_record p) (attempt_of c a)
      else attempt_of c b)"
proof (cases "fst (bind_attempt a p c)")
  case True
  then have "attempt_view (snd (bind_attempt a p c)) =
      attempt_view ((modify_attempt a (bound_record p) c)
        \<lparr>playlist_entry_attempts := bt_insert p a (playlist_entry_attempts c)\<rparr>)"
    using bind_attempt_view [of a p c] by (simp only: if_True)
  from attempt_view_fields(1) [OF this] True show ?thesis by simp
next
  case False
  then have "attempt_view (snd (bind_attempt a p c)) = attempt_view c"
    using bind_attempt_view [of a p c] by (simp only: if_False)
  from attempt_view_fields(1) [OF this] False show ?thesis by simp
qed

lemma bind_keeps_submitting:
  "attempt_of (snd (bind_attempt a p c)) b = Some y \<Longrightarrow>
   \<exists>x. attempt_of c b = Some x \<and> (la_state y = Submitting \<longleftrightarrow> la_state x = Submitting)"
  unfolding attempt_of_bind by (auto simp: bound_record_def split: if_splits)

lemma attempt_editI:
  "\<not> attempt_is_terminal (la_state x) \<Longrightarrow> \<not> attempt_is_terminal (la_state y) \<Longrightarrow> same_attempt x y
   \<Longrightarrow> same_links x y \<Longrightarrow> attempt_local_ok y \<Longrightarrow> la_state y \<noteq> Submitting \<Longrightarrow> attempt_edit x y"
  by (simp add: attempt_edit_def)

lemmas local_defs = attempt_local_ok_def attempt_results_ok_def attempt_deadlines_ok_def
lemmas same_defs = same_attempt_def same_links_def

lemma attempts_ok_local:
  "attempts_ok X s \<Longrightarrow> attempt_of s a = Some x \<Longrightarrow> attempt_local_ok x"
  by (simp add: attempts_ok_def record_ok_def)

lemma bound_not_submitting:
  "attempt_local_ok x \<Longrightarrow> la_playlist_entry_id x \<noteq> None \<Longrightarrow>
   la_state x \<noteq> Submitting \<and> la_state x \<noteq> AcceptedUnbound \<and> la_reconcile_until_tick x = None"
  by (auto simp: local_defs)

lemma demoted_edit:
  assumes rec: "record_ok X s a x" and st: "la_state x = Starting \<or> la_state x = Active"
  shows "attempt_edit x (x\<lparr>la_state := demoted_state x\<rparr>)"
proof (rule attempt_editI)
  have "attempt_local_ok x" and rev: "la_superseded_by x \<noteq> None \<Longrightarrow> la_logical_ownership_revoked x"
    using rec by (auto simp: record_ok_def links_ok_def)
  then show "attempt_local_ok (x\<lparr>la_state := demoted_state x\<rparr>)"
    using st by (cases "la_superseded_by x"; elim disjE; simp add: demoted_state_def local_defs)
qed (use st in \<open>auto simp: same_defs demoted_state_def split: option.split\<close>)

lemma started_edit:
  assumes "attempt_local_ok x" "la_playlist_entry_id x \<noteq> None" "\<not> attempt_is_terminal (la_state x)"
  shows "attempt_edit x (x\<lparr>la_start_file_observed := True\<rparr>)"
  using assms bound_not_submitting [OF assms(1,2)]
  by (intro attempt_editI) (simp_all add: same_defs local_defs)

lemma starting_edit:
  assumes "attempt_local_ok x" "la_playlist_entry_id x \<noteq> None" "\<not> attempt_is_terminal (la_state x)"
  shows "attempt_edit x (x\<lparr>la_state := Starting\<rparr>)"
  using assms bound_not_submitting [OF assms(1,2)]
  by (intro attempt_editI) (simp_all add: same_defs local_defs)

lemma mapped_record:
  assumes "attempts_ok X s" "bt_get (playlist_entry_attempts s) p = Some a" "attempt_of s a = Some x"
  shows "la_playlist_entry_id x = Some p" "\<not> attempt_is_terminal (la_state x)"
proof -
  from assms(1,2) obtain y where "attempt_of s a = Some y" "\<not> attempt_is_terminal (la_state y)"
      "la_playlist_entry_id y = Some p"
    unfolding attempts_ok_def mapping_ok_def by blast
  with assms(3) show "la_playlist_entry_id x = Some p" "\<not> attempt_is_terminal (la_state x)"
    by simp_all
qed

lemma active_record:
  assumes "attempts_ok X s" "active_load_attempt s = Some a" "attempt_of s a = Some x"
  shows "transport_owner x"
  using assms by (auto simp: attempts_ok_def active_ok_def)

lemma allocate_fields [simp]:
  "load_attempts (snd (allocate_load_attempt_id s)) = load_attempts s"
  "playlist_entry_attempts (snd (allocate_load_attempt_id s)) = playlist_entry_attempts s"
  "active_load_attempt (snd (allocate_load_attempt_id s)) = active_load_attempt s"
  "attachment_epoch (snd (allocate_load_attempt_id s)) = attachment_epoch s"
  "now_tick (snd (allocate_load_attempt_id s)) = now_tick s"
  "attempt_of (snd (allocate_load_attempt_id s)) = attempt_of s"
  "latest_open_attempt (snd (allocate_load_attempt_id s)) = latest_open_attempt s"
  by (simp_all add: allocate_load_attempt_id_def Let_def attempt_of_def [abs_def] latest_open_attempt_def)

lemma attempts_ok_keyed: "attempts_ok X s \<Longrightarrow> attempts_keyed s"
  by (auto simp: attempts_ok_def attempts_keyed_iff record_ok_def)

lemma known_below_fresh:
  "attempts_ok X s \<Longrightarrow> attempt_of s p = Some x \<Longrightarrow> p < fst (allocate_load_attempt_id s)"
  using attempts_okD [of X s p x]
  by (simp add: record_ok_def allocate_load_attempt_id_def Let_def less_max_iff_disj)

lemma find_in_set: "List.find P xs = Some x \<Longrightarrow> x \<in> set xs"
  by (induction xs) (auto split: if_splits)

lemma latest_open_below_fresh:
  assumes "attempts_ok X s" "latest_open_attempt s = Some p"
  shows "p < fst (allocate_load_attempt_id s)"
proof -
  from assms(2) obtain x where "x \<in> set (bt_values (load_attempts s))" "p = la_id x"
    by (auto simp: latest_open_attempt_def dest: find_in_set)
  then show ?thesis
    using keyed_values [OF attempts_ok_keyed [OF assms(1)]] known_below_fresh [OF assms(1)] by auto
qed

text \<open>What the revocation of a predecessor leaves of the attempt that replaces it.\<close>

definition loading_record :: "i64 \<Rightarrow> bool \<Rightarrow> LoadAttempt \<Rightarrow> bool" where
  "loading_record pe loaded x \<longleftrightarrow>
     transport_owner x \<and> la_playlist_entry_id x = Some pe \<and> la_file_loaded_observed x = loaded
     \<and> la_state x \<noteq> Submitting"

lemma emitted_record_keeps [simp]:
  "loading_record pe loaded (emitted_record r q x) = loading_record pe loaded x"
  by (simp add: loading_record_def transport_owner_def emitted_record_def)

lemma revoke_keeps_loading:
  assumes "attempt_of c b = Some x" "loading_record pe loaded x"
  shows "\<exists>y. attempt_of (revoke_external_predecessor p a c) b = Some y \<and> loading_record pe loaded y"
proof -
  have "loading_record pe loaded (superseded_record p a x)"
      "loading_record pe loaded (x\<lparr>la_replaced_attempt := r\<rparr>)" for r
    using assms(2) by (simp_all add: loading_record_def transport_owner_def superseded_record_def)
  then have "\<exists>y. attempt_of (supersede_predecessor p a c) b = Some y \<and> loading_record pe loaded y"
    using assms by (cases "b = p") (auto simp: attempt_of_supersede)
  with assms show ?thesis
    by (auto simp: revoke_external_predecessor_def Let_def attempt_of_emit split: option.split)
qed

lemma revoke_fields [simp]:
  "playlist_entry_attempts (revoke_external_predecessor p a c) = playlist_entry_attempts c"
  by (auto simp: revoke_external_predecessor_def Let_def split: option.split)

lemma accepted_edit:
  assumes "record_ok X s a x" "a \<notin> X" "la_state x = Submitting"
  shows "attempt_edit x (x\<lparr>la_state := AcceptedUnbound, la_reconcile_until_tick := Some q,
           la_file_loaded_deadline_tick := Some q\<rparr>)"
  using assms by (intro attempt_editI) (auto simp: same_defs local_defs record_ok_def untouched_def)

definition expired_record :: "bool \<Rightarrow> u64 \<Rightarrow> LoadAttempt \<Rightarrow> LoadAttempt" where
  "expired_record owns q x =
     (if owns then x\<lparr>la_file_loaded_deadline_tick := None\<rparr>
      else x\<lparr>la_file_loaded_deadline_tick := None, la_state := MayStillEmitQuiescent q,
             la_reconcile_until_tick := None\<rparr>)"

lemma expire_attempt_record: "expire_attempt a owns q s = modify_attempt a (expired_record owns q) s"
  by (simp add: expire_attempt_def expired_record_def [abs_def] if_distrib cong: if_cong)

lemma expired_edit:
  assumes "attempt_local_ok x" "\<not> attempt_is_terminal (la_state x)"
    "owns \<Longrightarrow> la_playlist_entry_id x \<noteq> None"
  shows "attempt_edit x (expired_record owns q x)"
proof (cases owns)
  case True
  with assms bound_not_submitting [OF assms(1)] show ?thesis
    by (intro attempt_editI) (auto simp: same_defs local_defs expired_record_def)
next
  case False
  with assms show ?thesis
    by (intro attempt_editI) (auto simp: same_defs local_defs expired_record_def)
qed

lemma release_expire:
  "release_transport a owns (expire_attempt a owns q s) = expire_attempt a owns q (release_transport a owns s)"
  by (simp add: release_transport_def expire_attempt_def modify_attempt_def)

lemma release_fields [simp]:
  "attempt_of (release_transport a owns s) = attempt_of s"
  "\<not> owns \<Longrightarrow> active_load_attempt (release_transport a owns s) \<noteq> Some a"
  by (simp_all add: release_transport_def)

definition loaded_record :: "bool \<Rightarrow> LoadAttempt \<Rightarrow> LoadAttempt" where
  "loaded_record owns x =
     x\<lparr>la_file_loaded_observed := True, la_file_loaded_deadline_tick := None,
       la_state := (if owns then Active else la_state x)\<rparr>"

lemma loaded_edit:
  assumes "attempt_local_ok x" "\<not> attempt_is_terminal (la_state x)" "la_playlist_entry_id x \<noteq> None"
  shows "attempt_edit x (loaded_record owns x)"
  using assms bound_not_submitting [OF assms(1,3)]
  by (intro attempt_editI) (auto simp: same_defs local_defs loaded_record_def)

lemma emitted_state [simp]: "la_state (emitted_record r n x) = la_state x"
  by (simp add: emitted_record_def)

lemma expired_terminal [simp]:
  "attempt_is_terminal (la_state (expired_record owns q x)) \<longleftrightarrow> owns \<and> attempt_is_terminal (la_state x)"
  by (simp add: expired_record_def)

lemma loaded_id [simp]: "la_id (loaded_record owns x) = la_id x"
  by (simp add: loaded_record_def)

lemma loaded_quiescent [simp]:
  "is_quiescent (la_state (loaded_record owns x)) \<longleftrightarrow> \<not> owns \<and> is_quiescent (la_state x)"
  by (simp add: loaded_record_def)

lemma attempt_of_expire:
  "\<exists>owns n. attempt_of (expire_load_attempt q a c) b =
     (if b = a then map_option (\<lambda>x. emitted_record Indeterminate n (expired_record owns q x)) (attempt_of c a)
      else attempt_of c b)"
proof -
  let ?owns = "owns_transport_after_start c a"
  have "attempt_of (expire_load_attempt q a c) =
      attempt_of (emit_load_outcome a Indeterminate None (release_transport a ?owns (expire_attempt a ?owns q c)))"
    by (simp add: expire_load_attempt_def Let_def split: option.split)
  then show ?thesis
    by (simp only: attempt_of_emit release_fields expire_attempt_record attempt_of_modify)
      (auto simp: option.map_comp comp_def)
qed

lemma modify_absent:
  assumes "attempt_of s a = None" shows "modify_attempt a f s = s"
proof -
  have "bt_modify a f m = m" if "bt_get m a = None" for m :: "(LoadAttemptId, LoadAttempt) btree_map"
    using that by (induction m) (auto simp: bt_modify_def bt_get_def split: if_splits)
  with assms show ?thesis by (simp add: modify_attempt_def attempt_of_def)
qed

locale attempt_invariant =
  fixes I :: "LoadAttemptId set \<Rightarrow> reducer_context \<Rightarrow> bool"
  assumes view: "attempt_view c = attempt_view c' \<Longrightarrow> I X c = I X c'"
    and keyed: "I X c \<Longrightarrow> attempts_keyed c"
    and weaken: "I {} c \<Longrightarrow> I X c"
    and emit: "I X c \<Longrightarrow>
      (\<And>x. attempts_ok X c \<Longrightarrow> attempt_of c a = Some x \<Longrightarrow>
        la_file_loaded_deadline_tick x = None \<and> (a \<in> X \<or> la_state x \<noteq> Submitting))
      \<Longrightarrow> I X (emit_load_outcome a r t c)"
    and edit: "I X c \<Longrightarrow>
      (\<And>x. attempts_ok X c \<Longrightarrow> attempt_of c a = Some x \<Longrightarrow>
        attempt_edit x (f x) \<and> (active_load_attempt c = Some a \<longrightarrow> \<not> is_quiescent (la_state (f x))))
      \<Longrightarrow> (\<And>x. la_id (f x) = la_id x) \<Longrightarrow> I X (modify_attempt a f c)"
    and supersede: "I X c \<Longrightarrow> attempt_of c p = Some x \<Longrightarrow> \<not> attempt_is_terminal (la_state x) \<Longrightarrow>
      attempt_of c a = Some z \<Longrightarrow> la_replaced_attempt z = Some p \<Longrightarrow> I X (supersede_predecessor p a c)"
    and bind: "I {} c \<Longrightarrow> (attempts_ok {} c \<Longrightarrow> attempt_of c a = Some x \<and> bindable pe c a x) \<Longrightarrow>
      I {} ((modify_attempt a (bound_record pe) c)
        \<lparr>playlist_entry_attempts := bt_insert pe a (playlist_entry_attempts c)\<rparr>)"
    and activate: "I {} c \<Longrightarrow> (attempts_ok {} c \<Longrightarrow> \<exists>x. attempt_of c a = Some x \<and> transport_owner x) \<Longrightarrow>
      I {} (c\<lparr>active_load_attempt := Some a\<rparr>)"
    and deactivate: "I X c \<Longrightarrow> I X (c\<lparr>active_load_attempt := None\<rparr>)"
    and terminate: "I X c \<Longrightarrow> attempt_of c a = Some prior \<Longrightarrow> \<not> attempt_is_terminal (la_state prior) \<Longrightarrow>
      X \<subseteq> {a} \<Longrightarrow> a \<notin> X \<or> la_playlist_entry_id prior = None \<Longrightarrow> I {} (terminate_attempt a out prior c)"
    and insert_unbound: "I {} c \<Longrightarrow> la_id x = fst (allocate_load_attempt_id c) \<Longrightarrow>
      (attempts_ok {} c \<Longrightarrow> fresh_attempt c x) \<Longrightarrow> la_playlist_entry_id x = None \<Longrightarrow> I {} (insert_attempt x c)"
    and insert_external: "I {} c \<Longrightarrow> la_id x = fst (allocate_load_attempt_id c) \<Longrightarrow>
      (attempts_ok {} c \<Longrightarrow> fresh_attempt c x) \<Longrightarrow> I {la_id x} (insert_attempt x c)"
    and publish: "I {a} c \<Longrightarrow>
      (attempts_ok {a} c \<Longrightarrow> \<exists>x. attempt_of c a = Some x \<and> transport_owner x
         \<and> la_playlist_entry_id x = Some pe \<and> la_state x \<noteq> Submitting
         \<and> bt_get (playlist_entry_attempts c) pe = None) \<Longrightarrow>
      I {} (c\<lparr>playlist_entry_attempts := bt_insert pe a (playlist_entry_attempts c)\<rparr>)"
begin

lemma I_iff [simp]:
  "\<not> is_load_effect e \<Longrightarrow> I X (push_effect e c) = I X c"
  "I X (c\<lparr>commands := x1\<rparr>) = I X c"
  "I X (c\<lparr>seek_ownership := x4\<rparr>) = I X c"
  "I X (c\<lparr>last_reconciliation := x6\<rparr>) = I X c"
  "I X (c\<lparr>now_tick := x9\<rparr>) = I X c"
  "I X (c\<lparr>logical_terminal := x10\<rparr>) = I X c"
  "I X (c\<lparr>deferred_start_files := x13\<rparr>) = I X c"
  "I X (c\<lparr>provisional_eof := x14\<rparr>) = I X c"
  "I X (c\<lparr>retained_completion_attempt := x15\<rparr>) = I X c"
  "I X (c\<lparr>pending_events := x16\<rparr>) = I X c"
  "I X (c\<lparr>recovery_snapshot := x18\<rparr>) = I X c"
  "I X (c\<lparr>gap_detected := x19\<rparr>) = I X c"
  "I X (c\<lparr>pending_native_seek_generation := x20\<rparr>) = I X c"
  "I X (c\<lparr>retired_seek_tombstones := x22\<rparr>) = I X c"
  "I X (modify_command k g c) = I X c"
  "I X (modify_seek k h c) = I X c"
  "I X (set_seek_state S st k c) = I X c"
  "I X (schedule_reconciliation c) = I X c"
  "I X (stop_reconciliation_without_proactive_work c) = I X c"
  "I X (finish_reconciliation v c) = I X c"
  "I X (retry_reconciliation v c) = I X c"
  "I X (prune_expired_seek_tombstones c) = I X c"
  "I X (mark_gap c) = I X c"
  "I X (snd (queue_event event c)) = I X c"
  "I X (command_terminal k t c) = I X c"
  by (rule view; simp add: attempt_frame)+

lemma fold_preserves: "(\<And>x c. I X c \<Longrightarrow> I X (f x c)) \<Longrightarrow> I X c \<Longrightarrow> I X (fold f xs c)"
  by (induction xs arbitrary: c) auto

lemma commit_exempt:
  assumes c: "I X c" and X: "X \<subseteq> {a}"
    and prior: "attempt_of c a = Some prior" "\<not> attempt_is_terminal (la_state prior)"
      "la_epoch prior = attachment_epoch c" "a \<notin> X \<or> la_playlist_entry_id prior = None"
  shows "I {} (commit_physical_attempt_terminal a out c)"
proof -
  have "I {} (terminate_attempt a out prior c)"
    by (rule terminate) (use assms in auto)
  then show ?thesis
    by (simp only: view [OF attempt_view_commit [OF prior(1-3)]])
qed

lemma commit_physical: "I {} c \<Longrightarrow> I {} (commit_physical_attempt_terminal a out c)"
  using commit_exempt [of "{}" c a]
  by (cases "attempt_of c a"; cases "attempt_of c a = None \<or> la_epoch (the (attempt_of c a)) \<noteq> attachment_epoch c
        \<or> attempt_is_terminal (la_state (the (attempt_of c a)))")
    (auto simp: commit_physical_attempt_terminal_def)

lemma commit_all: "I {} c \<Longrightarrow> I {} (commit_all out ids c)"
  unfolding commit_all_def by (rule fold_preserves) (rule commit_physical)

lemma bind_attempt:
  assumes c: "I {} c"
    and unsubmitted: "\<And>x. attempts_ok {} c \<Longrightarrow> attempt_of c a = Some x \<Longrightarrow>
      la_playlist_entry_id x = None \<Longrightarrow> la_state x \<noteq> Submitting"
  shows "I {} (snd (bind_attempt a p c))"
proof (cases "fst (bind_attempt a p c)")
  case True
  from bind_attempt_success [OF this] obtain x where x: "attempt_of c a = Some x"
      "\<not> attempt_is_terminal (la_state x)" "la_playlist_entry_id x \<in> {None, Some p}"
      "bt_get (playlist_entry_attempts c) p \<in> {None, Some a}"
    by blast
  have "I {} ((modify_attempt a (bound_record p) c)
      \<lparr>playlist_entry_attempts := bt_insert p a (playlist_entry_attempts c)\<rparr>)"
    by (rule bind [OF c, of _ x]) (use x unsubmitted in \<open>auto simp: bindable_def\<close>)
  with True show ?thesis
    using view [OF bind_attempt_view [of a p c, THEN trans, OF if_P]] by blast
next
  case False
  then show ?thesis
    using c view [OF bind_attempt_view [of a p c, THEN trans, OF if_not_P]] by blast
qed

text \<open>Demoting the previous owner of the transport.\<close>

lemma demote:
  assumes "I X c" and "\<And>x. f x = x \<or> la_state x \<in> {Starting, Active} \<and> f x = x\<lparr>la_state := demoted_state x\<rparr>"
  shows "I X (modify_attempt a f c)"
proof (rule edit [OF assms(1)])
  show "la_id (f x) = la_id x" for x using assms(2) [of x] by auto
  fix x
  assume ok: "attempts_ok X c" "attempt_of c a = Some x"
  then have rec: "record_ok X c a x" by (rule attempts_okD)
  then have "attempt_edit x (f x)"
    using assms(2) [of x] demoted_edit [OF rec] by (auto simp: attempt_edit_def)
  moreover have "\<not> is_quiescent (la_state (f x))" if "active_load_attempt c = Some a"
    using active_record [OF ok(1) that ok(2)] assms(2) [of x]
    by (auto simp: transport_owner_def demoted_state_def split: option.splits)
  ultimately show "attempt_edit x (f x)
      \<and> (active_load_attempt c = Some a \<longrightarrow> \<not> is_quiescent (la_state (f x)))"
    by blast
qed

lemma start_attempt:
  assumes c: "I {} c" and owner: "attempts_ok {} c \<Longrightarrow> bt_get (playlist_entry_attempts c) p = Some a"
  shows "I {} (start_attempt a p observed c)"
proof -
  define d where "d = snd (bind_attempt a p c)"
  have "la_playlist_entry_id x = Some p" if "attempts_ok {} c" "attempt_of c a = Some x" for x
    using mapped_record [OF that(1) owner that(2)] that(1) by simp
  then have d: "I {} d"
    unfolding d_def by (intro bind_attempt c) auto
  show ?thesis
  proof (cases "fst (bind_attempt a p c)")
    case False
    with d show ?thesis by (simp add: start_attempt_def split_def d_def)
  next
    case True
    from bind_attempt_success [OF this] obtain x0 where "attempt_of d a = Some (bound_record p x0)"
        "\<not> attempt_is_terminal (la_state x0)"
      by (auto simp: d_def)
    then obtain x where x: "attempt_of d a = Some x" "\<not> attempt_is_terminal (la_state x)"
        "la_playlist_entry_id x = Some p"
      by (auto simp: bound_record_def)
    define e where "e = (if observed then modify_attempt a (\<lambda>x. x\<lparr>la_start_file_observed := True\<rparr>) d else d)"
    obtain y where y: "attempt_of e a = Some y" "la_state y = la_state x" "la_playlist_entry_id y = Some p"
        "la_logical_ownership_revoked y = la_logical_ownership_revoked x"
      using x by (cases observed) (auto simp: e_def)
    have e: "I {} e"
      unfolding e_def using d x attempts_ok_local [of "{}" d a] active_record [of "{}" d a]
      by (auto intro!: edit started_edit simp: transport_owner_def)
    have started: "I {} (e'\<lparr>active_load_attempt := Some a, logical_terminal := None, provisional_eof := None\<rparr>)"
      if "I {} e'" "attempt_of e' a = Some y'" "transport_owner y'" for e' y'
      using activate [of e' a] that by simp
    define g where "g = (case active_load_attempt e of
        Some q \<Rightarrow> if q \<noteq> a then modify_attempt q (\<lambda>x. if la_state x \<in> {Starting, Active}
                   then x\<lparr>la_state := demoted_state x\<rparr> else x) e else e
      | None \<Rightarrow> e)"
    have "I {} (modify_attempt q (\<lambda>x. if la_state x \<in> {Starting, Active}
        then x\<lparr>la_state := demoted_state x\<rparr> else x) e)" for q
      by (rule demote [OF e]) auto
    with e y have g: "I {} g" "attempt_of g a = Some y"
      by (auto simp: g_def split: option.split)
    have starting: "I {} ((modify_attempt a (\<lambda>x. x\<lparr>la_state := Starting\<rparr>) g)
        \<lparr>active_load_attempt := Some a, logical_terminal := None, provisional_eof := None\<rparr>)"
      by (rule started [where y' = "y\<lparr>la_state := Starting\<rparr>"])
        (use g y x attempts_ok_local [of "{}" g a] in
          \<open>auto intro!: edit starting_edit simp: transport_owner_def\<close>)
    have eq: "start_attempt a p observed c =
        (if la_logical_ownership_revoked x then e
         else if la_state x \<in> {Starting, Active}
         then e\<lparr>active_load_attempt := Some a, logical_terminal := None, provisional_eof := None\<rparr>
         else let h = (if is_quiescent (la_state x) then g
                       else (modify_attempt a (\<lambda>x. x\<lparr>la_state := Starting\<rparr>) g)
                         \<lparr>active_load_attempt := Some a, logical_terminal := None, provisional_eof := None\<rparr>)
              in if \<not> la_start_file_observed x \<and> (observed \<or> \<not> is_quiescent (la_state x))
                 then snd (queue_event (LoadAttemptStarting a (la_media_generation x) (la_command_id x)
                        p (\<not> is_quiescent (la_state x))) h)
                 else h)"
      using x True
      by (simp only: start_attempt_def Let_def split_def d_def [symmetric] e_def [symmetric]
          g_def [symmetric] if_False if_True not_True_eq_False not_False_eq_True option.case)
    have "I {} (e\<lparr>active_load_attempt := Some a, logical_terminal := None, provisional_eof := None\<rparr>)"
      if "la_state x \<in> {Starting, Active}"
      by (rule started [OF e y(1)]) (use that y in \<open>auto simp: transport_owner_def\<close>)
    with e g(1) starting show ?thesis
      unfolding eq Let_def by simp
  qed
qed

lemma replay_deferred_starts: "I {} c \<Longrightarrow> I {} (snd (replay_deferred_starts ds kept c))"
  by (induction ds kept c rule: replay_deferred_starts.induct)
    (auto simp: strict_start_owner_def intro: start_attempt split: option.split)

lemma try_deferred_starts: "I {} c \<Longrightarrow> I {} (try_deferred_starts c)"
  using replay_deferred_starts [of "c\<lparr>deferred_start_files := []\<rparr>" "deferred_start_files c" "[]"]
  by (auto simp: try_deferred_starts_def Let_def split_def)

lemma bind_candidates:
  "I {} c \<Longrightarrow> (\<And>a ps x. (a, ps) \<in> set es \<Longrightarrow> attempt_of c a = Some x \<Longrightarrow> la_state x \<noteq> Submitting)
   \<Longrightarrow> I {} (fold (bind_unique_candidate edges) es c)"
proof (induction es arbitrary: c)
  case (Cons e es)
  let ?c = "bind_unique_candidate edges e c"
  have bound: "I {} (snd (bind_attempt (fst e) p c))" for p
    using Cons.prems by (intro bind_attempt) (auto, (metis prod.collapse)+)
  then have "I {} ?c"
    using Cons.prems(1) by (auto simp: bind_unique_candidate_def split: list.split)
  moreover have "\<exists>x. attempt_of c a = Some x \<and> (la_state y = Submitting \<longleftrightarrow> la_state x = Submitting)"
    if "attempt_of ?c a = Some y" for a y
    using that bind_keeps_submitting [of "fst e" _ c a y]
    by (auto simp: bind_unique_candidate_def split: list.splits if_splits)
  ultimately show ?case
    using Cons.prems(2) by (auto intro!: Cons.IH) (metis list.set_intros(2))
qed simp

lemma candidate_edges_bindable:
  assumes "I {} c" "(a, ps) \<in> set (candidate_edges es c)" "attempt_of c a = Some x"
  shows "la_state x \<noteq> Submitting"
  using assms keyed_values [OF keyed [OF assms(1)]]
  by (auto simp: candidate_edges_def List.map_filter_def)

lemma reconcile_playlist: "I {} c \<Longrightarrow> I {} (reconcile_playlist es path c)"
proof -
  assume c: "I {} c"
  have bind: "I {} c' \<Longrightarrow> I {} (fold (bind_unique_candidate edges) (candidate_edges es c') c')" for edges c'
    by (rule bind_candidates) (simp_all add: candidate_edges_bindable)
  have start: "I {} c' \<Longrightarrow> I {} (start_current_entry es c')" for c'
    by (auto simp: start_current_entry_def intro: start_attempt split: option.split)
  show ?thesis
    using c by (simp add: reconcile_playlist_def reconcile_empty_playlist_def Let_def commit_all
        bind start try_deferred_starts)
qed

lemma load_attempt_submitted: "I {} c \<Longrightarrow> I {} (load_attempt_submitted ko g tgt b c)"
proof -
  assume c: "I {} c"
  let ?x = "\<lparr>la_id = fst (allocate_load_attempt_id c), la_epoch = attachment_epoch c,
    la_media_generation = g, la_command_id = ko, la_requested_target = tgt,
    la_playlist_entry_id = None, la_baseline_playlist_entry_ids = b,
    la_replaced_attempt = latest_open_attempt c, la_superseded_by = None,
    la_logical_ownership_revoked = False, la_state = Submitting, la_semantic_load_result = None,
    la_start_file_observed = False, la_file_loaded_observed = False, la_reconcile_until_tick = None,
    la_file_loaded_deadline_tick = None, la_semantic_outcome_sequence = None,
    la_physical_terminal_sequence = None\<rparr>"
  have "I {} (insert_attempt ?x c)"
    by (rule insert_unbound [OF c])
      (simp_all add: fresh_attempt_def local_defs untouched_def latest_open_below_fresh)
  then show ?thesis
    using c by (cases ko) (simp_all add: load_attempt_submitted_def insert_attempt_def Let_def split_def)
qed

lemma revoke_predecessor:
  assumes c: "I X c" and a: "attempt_of c a = Some z" "la_replaced_attempt z = Some p"
  shows "I X (revoke_external_predecessor p a c)"
proof (cases "attempt_of c p")
  case (Some x)
  show ?thesis
  proof (cases "attempt_is_terminal (la_state x)")
    case False
    have "I X (supersede_predecessor p a c)"
      by (rule supersede [OF c Some False a])
    with Some False show ?thesis
      by (auto simp: revoke_external_predecessor_def Let_def attempt_of_supersede superseded_record_def
          intro!: emit split: option.split)
  qed (use Some c in \<open>simp add: revoke_external_predecessor_def\<close>)
qed (use c in \<open>simp add: revoke_external_predecessor_def\<close>)

lemma external_load_observed: "I {} c \<Longrightarrow> I {} (external_load_observed e g pe tgt loaded c)"
proof -
  assume c: "I {} c"
  show ?thesis
  proof (cases "e \<noteq> attachment_epoch c \<or> bt_contains (playlist_entry_attempts c) pe
      \<or> is_known_terminal_playlist_entry c pe")
    case False
    let ?a = "fst (allocate_load_attempt_id c)"
    define x where "x = external_attempt g pe tgt loaded (active_load_attempt c) ?a (snd (allocate_load_attempt_id c))"
    have x: "la_id x = ?a" "loading_record pe loaded x" "la_replaced_attempt x = active_load_attempt c"
      by (simp_all add: x_def external_attempt_def loading_record_def transport_owner_def)
    have "p < ?a" if "attempts_ok {} c" "active_load_attempt c = Some p" for p
      using that known_below_fresh [OF that(1)] by (auto simp: attempts_ok_def active_ok_def)
    then have "I {?a} (insert_attempt x c)"
      using insert_external [OF c x(1)] unfolding x(1)
      by (auto simp: x_def external_attempt_def fresh_attempt_def local_defs untouched_def)
    moreover have ins: "attempt_of (insert_attempt x c) ?a = Some x"
      by (simp add: insert_attempt_def attempt_of_def x)
    moreover define d where "d = (case active_load_attempt c of
        Some p \<Rightarrow> revoke_external_predecessor p ?a (insert_attempt x c) | None \<Rightarrow> insert_attempt x c)"
    ultimately have d: "I {?a} d"
      using x(3) by (auto simp: d_def intro!: revoke_predecessor split: option.split)
    from ins x(2) obtain y where y: "attempt_of d ?a = Some y" "loading_record pe loaded y"
      using revoke_keeps_loading [OF ins x(2)] by (cases "active_load_attempt c") (auto simp: d_def)
    have "playlist_entry_attempts d = playlist_entry_attempts c"
      by (simp add: d_def insert_attempt_def split: option.split)
    with False y have "I {} (d\<lparr>playlist_entry_attempts := bt_insert pe ?a (playlist_entry_attempts d)\<rparr>)"
      by (intro publish [OF d]) (auto simp: loading_record_def bt_contains_def)
    then have "I {} (d\<lparr>playlist_entry_attempts := bt_insert pe ?a (playlist_entry_attempts d),
        active_load_attempt := Some ?a, provisional_eof := None, logical_terminal := None\<rparr>)"
      using activate [of "d\<lparr>playlist_entry_attempts := bt_insert pe ?a (playlist_entry_attempts d)\<rparr>" ?a] y
      by (auto simp: loading_record_def)
    moreover define f where "f = d\<lparr>playlist_entry_attempts := bt_insert pe ?a (playlist_entry_attempts d),
        active_load_attempt := Some ?a, provisional_eof := None, logical_terminal := None\<rparr>"
    ultimately have f: "I {} f" "attempt_of f ?a = Some y"
      using y(1) by (simp_all add: f_def attempt_of_def)
    have eq: "external_load_observed e g pe tgt loaded c =
        (let h = snd (queue_event (LoadAttemptStarting ?a g None pe True)
                   (snd (queue_event (LoadAttemptBound ?a g None pe) f)))
         in if loaded
            then emit_load_outcome ?a Loaded (Some tgt) (snd (queue_event (LoadAttemptActive ?a g None pe) h))
            else h)"
      using False
      by (simp only: external_load_observed_def f_def d_def x_def insert_attempt_def Let_def split_def
          if_False allocate_fields external_attempt_def LoadAttempt.select_convs)
    have "la_file_loaded_deadline_tick z = None \<and> la_state z \<noteq> Submitting"
      if "attempts_ok {} c'" "attempt_of c' ?a = Some z" "attempt_of c' = attempt_of f" loaded for c' :: reducer_context and z
      using attempts_ok_local [OF that(1,2)] that f(2) y(2) by (auto simp: loading_record_def local_defs)
    with f show ?thesis
      unfolding eq Let_def by (auto intro!: emit)
  qed (use c in \<open>auto simp: external_load_observed_def\<close>)
qed

lemma accept_submitting:
  assumes c: "I {} c" and x: "attempt_of c a = Some x" "la_state x = Submitting"
  shows "I {} (accept_submitting_attempt e a ko c)"
proof -
  have "I {} (modify_attempt a (\<lambda>x. x\<lparr>la_state := AcceptedUnbound, la_reconcile_until_tick := Some q,
      la_file_loaded_deadline_tick := Some q\<rparr>) c')" if "I {} c'" "attempt_of c' = attempt_of c" for q c'
    using x that by (intro edit) (auto intro!: accepted_edit [OF attempts_okD])
  moreover have "attempt_of (modify_command k g c) = attempt_of c" for k g
    by (rule attempt_view_fields) (simp add: attempt_frame)
  ultimately show ?thesis
    using c by (auto simp: accept_submitting_attempt_def Let_def split: option.split)
qed

lemma supersede_accepted:
  assumes c: "I {} c" and a: "attempt_of c a = Some z" "la_replaced_attempt z = Some p"
  shows "I {} (supersede_accepted_predecessor p a c)"
proof -
  define d where "d = (case attempt_of c p of
      Some x \<Rightarrow> if attempt_is_terminal (la_state x) then c
        else snd (queue_event (LoadAttemptLogicalOwnershipRevoked p (la_media_generation x) a)
               (supersede_predecessor p a c))
    | None \<Rightarrow> c)"
  have d: "I {} d"
    using c a by (auto simp: d_def intro!: supersede split: option.split)
  have settled: "la_file_loaded_deadline_tick y = None \<and> la_state y \<noteq> Submitting"
    if "attempts_ok {} d" "attempt_of d p = Some y" for y
  proof (cases "attempt_of c p")
    case None
    with that show ?thesis by (simp add: d_def)
  next
    case (Some x)
    show ?thesis
    proof (cases "attempt_is_terminal (la_state x)")
      case True
      with Some that have "y = x" "attempt_local_ok x"
        using attempts_ok_local [OF that] by (simp_all add: d_def)
      with True show ?thesis by (auto simp: local_defs)
    next
      case False
      with Some that(2) show ?thesis by (auto simp: d_def attempt_of_supersede)
    qed
  qed
  have "I {} (emit_load_outcome p r t d')" if "attempt_view d' = attempt_view d" for r t d'
    using settled d view [OF that] attempts_ok_view [OF that] attempt_of_view [OF that]
    by (intro emit) auto
  then show ?thesis
    unfolding supersede_accepted_predecessor_def Let_def d_def [symmetric]
    by (auto simp: attempt_frame split: option.split)
qed

lemma load_attempt_accepted: "I {} c \<Longrightarrow> I {} (load_attempt_accepted e a c)"
proof -
  assume c: "I {} c"
  have sup: "I {} (supersede_accepted_predecessor p a (accept_submitting_attempt e a ko c))"
    if "attempt_of c a = Some x" "la_state x = Submitting" "la_replaced_attempt x = Some p" for x p ko e
  proof -
    have "attempt_of (modify_command k g c) = attempt_of c" for k g
      by (rule attempt_view_fields) (simp add: attempt_frame)
    then have "\<exists>z. attempt_of (accept_submitting_attempt e a ko c) a = Some z \<and> la_replaced_attempt z = Some p"
      using that by (auto simp: accept_submitting_attempt_def Let_def split: option.split)
    then show ?thesis
      using accept_submitting [OF c that(1,2)] supersede_accepted by blast
  qed
  have deferred: "I {} c' \<Longrightarrow> I {} (try_deferred_starts (c'\<lparr>logical_terminal := None, provisional_eof := None\<rparr>))" for c'
    by (rule try_deferred_starts) simp
  show ?thesis
    using c accept_submitting [OF c, of a]
    by (auto simp: load_attempt_accepted_def Let_def intro!: deferred sup split: option.split)
qed

lemma load_attempt_rejected: "I {} c \<Longrightarrow> I {} (load_attempt_rejected e a f c)"
proof -
  assume c: "I {} c"
  have "I {} (commit_physical_attempt_terminal a out (emit_load_outcome a r t c'))"
    if x: "attempt_of c a = Some x" "la_state x = Submitting" "la_epoch x = attachment_epoch c"
      and c': "attempt_view c' = attempt_view c" for x out r t c'
  proof (cases "la_playlist_entry_id x = None")
    case True
    have fields: "attempt_of c' = attempt_of c" "attachment_epoch c' = attachment_epoch c"
      using attempt_view_fields [OF c'] by simp_all
    have "la_file_loaded_deadline_tick y = None" if "attempts_ok {a} c'" "attempt_of c' a = Some y" for y
      using attempts_ok_local [OF that] that x by (auto simp: local_defs fields)
    then have "I {a} (emit_load_outcome a r t c')"
      using weaken [OF c, of "{a}"] view [OF c'] by (intro emit) auto
    then show ?thesis
      using x True
      by (intro commit_exempt [where X = "{a}" and prior = "emitted_record r (eo_sequence (fst (next_order c'))) x"])
        (auto simp: attempt_of_emit fields emitted_record_def)
  next
    case False
    have "I {} (emit_load_outcome a r t c')"
      using False x attempts_ok_local [of "{}" c' a x] attempt_view_fields(1) [OF c'] c view [OF c']
      by (intro emit) (auto simp: local_defs)
    then show ?thesis by (rule commit_physical)
  qed
  with c show ?thesis
    by (auto simp: load_attempt_rejected_def Let_def attempt_frame split: option.split)
qed

lemma expire_release_emit:
  assumes c: "I {} c" and x: "attempt_of c a = Some x" "\<not> attempt_is_terminal (la_state x)"
    and owns: "owns \<Longrightarrow> active_load_attempt c = Some a"
  shows "I {} (emit_load_outcome a r t (release_transport a owns (expire_attempt a owns q c)))"
proof -
  let ?d = "release_transport a owns c"
  have d: "I {} ?d"
    using c deactivate [OF c] by (simp add: release_transport_def)
  have owner: "la_playlist_entry_id x \<noteq> None \<and> \<not> is_quiescent (la_state x)"
    if "attempts_ok {} ?d" owns
    using active_record [OF that(1), of a x] x owns that(2)
    by (simp add: transport_owner_def release_transport_def)
  have e: "I {} (modify_attempt a (expired_record owns q) ?d)"
  proof (rule edit [OF d])
    show "la_id (expired_record owns q y) = la_id y" for y by (simp add: expired_record_def)
    fix y assume ok: "attempts_ok {} ?d" and "attempt_of ?d a = Some y"
    then have y: "y = x" "attempt_local_ok x"
      using x attempts_ok_local [OF ok, of a] by auto
    show "attempt_edit y (expired_record owns q y)
        \<and> (active_load_attempt ?d = Some a \<longrightarrow> \<not> is_quiescent (la_state (expired_record owns q y)))"
      using owner [OF ok] x y expired_edit [OF y(2) x(2), of owns q]
      by (cases owns) (auto simp: expired_record_def)
  qed
  have "la_file_loaded_deadline_tick y = None \<and> la_state y \<noteq> Submitting"
    if "attempts_ok {} (modify_attempt a (expired_record owns q) ?d)"
      "attempt_of (modify_attempt a (expired_record owns q) ?d) a = Some y" for y
  proof -
    have "y = expired_record owns q x"
      using that(2) x by simp
    moreover have "la_state x \<noteq> Submitting" if owns
    proof -
      have "active_load_attempt (modify_attempt a (expired_record owns q) ?d) = Some a"
        using owns that by (simp add: release_transport_def)
      from active_record [OF \<open>attempts_ok {} (modify_attempt a (expired_record owns q) ?d)\<close> this, of y]
        attempts_ok_local [OF \<open>attempts_ok {} (modify_attempt a (expired_record owns q) ?d)\<close>, of a y]
        \<open>attempt_of (modify_attempt a (expired_record owns q) ?d) a = Some y\<close>
        \<open>y = expired_record owns q x\<close>
      show ?thesis
        using bound_not_submitting [of y] that by (simp add: transport_owner_def expired_record_def)
    qed
    ultimately show ?thesis by (cases owns) (simp_all add: expired_record_def)
  qed
  with e show ?thesis
    unfolding release_expire unfolding expire_attempt_record by (intro emit) auto
qed

lemma command_completion_not_observed: "I {} c \<Longrightarrow> I {} (command_completion_not_observed e k c)"
proof -
  assume c: "I {} c"
  define d where "d = set_seek_state {SystemSeekOwnershipState.Submitted, SystemSeekOwnershipState.Accepted}
      MayStillArrive k (command_terminal k CommandSemanticState.CompletionNotObserved c)"
  have d: "I {} d" using c by (simp add: d_def)
  have expired: "I {} (emit_load_outcome a r t (release_transport a owns (expire_attempt a owns q d)))"
    if "attempt_of d a = Some x" "\<not> attempt_is_terminal (la_state x)" "owns = owns_transport_after_start d a"
    for a x r t q owns
    by (rule expire_release_emit [OF d that(1,2)]) (simp add: that(3) owns_transport_after_start_def)
  show ?thesis
    using c d unfolding command_completion_not_observed_def Let_def d_def [symmetric]
    by (auto intro!: expired split: option.split)
qed

lemma file_loaded: "I {} c \<Longrightarrow> I {} (file_loaded e po tgt c)"
proof -
  assume c: "I {} c"
  show ?thesis
  proof (cases "e = attachment_epoch c \<and> (\<exists>pe a x. po = Some pe \<and> bt_get (playlist_entry_attempts c) pe = Some a
      \<and> attempt_of c a = Some x)")
    case False
    with c show ?thesis
      by (auto simp: file_loaded_def split: option.split bind_splits)
  next
    case True
    then obtain pe a x where x: "e = attachment_epoch c" "po = Some pe"
        "bt_get (playlist_entry_attempts c) pe = Some a" "attempt_of c a = Some x"
      by blast
    define first where "first = (\<not> attempt_is_terminal (la_state x) \<and> \<not> la_file_loaded_observed x)"
    define owns where "owns = (first \<and> \<not> la_logical_ownership_revoked x)"
    define d where "d = (if first then modify_attempt a (loaded_record owns) c else c)"
    have d: "I {} d"
      using c x first_def mapped_record [of "{}" c pe a x] attempts_ok_local [of "{}" c a x]
        active_record [of "{}" c a x]
      by (auto simp: d_def transport_owner_def intro!: edit loaded_edit)
    have demoted: "I {} (modify_attempt q (\<lambda>x. if la_state x = Active
        then x\<lparr>la_state := demoted_state x\<rparr> else x) d)" for q
      by (rule demote [OF d]) auto
    define g where "g = (case active_load_attempt d of
        Some q \<Rightarrow> if q \<noteq> a then modify_attempt q (\<lambda>x. if la_state x = Active
                   then x\<lparr>la_state := demoted_state x\<rparr> else x) d else d
      | None \<Rightarrow> d)"
    have g: "I {} g" "attempt_of g a = attempt_of d a" "playlist_entry_attempts g = playlist_entry_attempts c"
      using d demoted by (auto simp: g_def d_def split: option.split)
    have owned: "attempt_of g a = Some (loaded_record True x)" if owns
      using that x by (simp add: g d_def owns_def)
    have taken: "I {} (take_transport a d)" if owns
    proof -
      have "I {} (g\<lparr>active_load_attempt := Some a\<rparr>)"
      proof (rule activate [OF g(1)])
        assume "attempts_ok {} g"
        with owned [OF that] x g(3) have "la_playlist_entry_id (loaded_record True x) = Some pe"
          by (intro mapped_record) auto
        with owned [OF that] show "\<exists>y. attempt_of g a = Some y \<and> transport_owner y"
          by (auto simp: transport_owner_def loaded_record_def)
      qed
      then show ?thesis by (simp add: take_transport_def g_def Let_def)
    qed
    have "attempt_of (take_transport a d) a = Some (loaded_record True x)" if owns
      using owned [OF that] by (simp add: take_transport_def g_def Let_def)
    then have emitted: "I {} (emit_load_outcome a r t c')"
      if owns "attempt_view c' = attempt_view (take_transport a d)" for c' r t
      using that taken attempt_of_view [OF that(2)] view [OF that(2)]
      by (intro emit) (auto simp: loaded_record_def)
    have eq: "file_loaded e po tgt c =
        (let c = (if owns then take_transport a d else d);
             c = (case la_playlist_entry_id x of
                    Some entry_id \<Rightarrow> if owns then snd (queue_event (LoadAttemptActive a
                        (la_media_generation x) (la_command_id x) entry_id) c) else c
                  | None \<Rightarrow> c);
             c = (if first then push_effect (PhysicalFileLoaded a owns) c else c)
         in if owns
            then let c = emit_load_outcome a Loaded tgt c
                 in case la_command_id x of
                      Some k \<Rightarrow> command_terminal k CommandSemanticState.Completed c | None \<Rightarrow> c
            else c)"
      using x
      by (simp only: file_loaded_def Let_def first_def [symmetric] owns_def [symmetric] bind.simps
          option.case d_def loaded_record_def [abs_def] simp_thms if_False)
    show ?thesis
      using d emitted by (cases owns) (auto simp: eq Let_def attempt_frame split: option.split)
  qed
qed

lemma timer_input: "I {} c \<Longrightarrow> I {} (timer_advanced tick c)"
proof -
  assume c: "I {} c"
  have expire: "I {} (fold (expire_load_attempt q) ids d)"
    if "I {} d" "\<And>a x. a \<in> set ids \<Longrightarrow> attempt_of d a = Some x \<Longrightarrow> \<not> attempt_is_terminal (la_state x)" for q ids d
    using that
  proof (induction ids arbitrary: d)
    case (Cons a ids)
    have one: "I {} (expire_load_attempt q a d)"
    proof (cases "attempt_of d a")
      case None
      then have none: "expire_attempt a owns q d = d" "emit_load_outcome a r t d' = d'"
        if "attempt_of d' a = None" for owns r t d'
        using that modify_absent by (auto simp: expire_attempt_record emit_load_outcome_def)
      with None Cons.prems(1) deactivate [OF Cons.prems(1)] show ?thesis
        by (auto simp: expire_load_attempt_def Let_def release_transport_def owns_transport_after_start_def
            split: option.split)
    next
      case (Some x)
      with Cons.prems(2) [of a x] have "I {} (emit_load_outcome a Indeterminate None
          (release_transport a owns (expire_attempt a owns q d)))"
        if "owns = owns_transport_after_start d a" for owns
        by (intro expire_release_emit [OF Cons.prems(1) Some])
          (simp_all add: that owns_transport_after_start_def)
      then show ?thesis
        by (auto simp: expire_load_attempt_def Let_def split: option.split)
    qed
    have "\<not> attempt_is_terminal (la_state y)"
      if "b \<in> set ids" "attempt_of (expire_load_attempt q a d) b = Some y" for b y
      using that Cons.prems(2) [of b] attempt_of_expire [of q a d b]
      by (cases "attempt_of d b") (auto split: if_splits)
    with one Cons.IH [OF one] show ?case by simp
  qed simp
  let ?d = "prune_expired_seek_tombstones (c\<lparr>now_tick := max (now_tick c) tick\<rparr>)"
  have d: "I {} ?d" using c by simp
  have "\<not> attempt_is_terminal (la_state x)"
    if "a \<in> set (expired_load_attempts ?d)" "attempt_of ?d a = Some x" for a x
    using that keyed_values [OF keyed [OF d]] by (auto simp: expired_load_attempts_def)
  from expire [OF d this] show ?thesis
    by (auto simp: timer_advanced_def Let_def intro!: commit_all split: option.split)
qed

lemma other_inputs:
  "I {} c \<Longrightarrow> I {} (command_submitted k go kind c)"
  "I {} c \<Longrightarrow> I {} (command_rejected e k fk c)"
  "I {} c \<Longrightarrow> I {} (command_superseded e k c)"
  "I {} c \<Longrightarrow> I {} (command_transport_disconnected e k c)"
  "I {} c \<Longrightarrow> I {} (command_completed e k c)"
  "I {} c \<Longrightarrow> I {} (seek_command_accepted e k c)"
  "I {} c \<Longrightarrow> I {} (seek_command_completion_not_observed e k c)"
  "I {} c \<Longrightarrow> I {} (start_file e pe c)"
  "I {} c \<Longrightarrow> I {} (end_file e pe out c)"
  "I {} c \<Longrightarrow> I {} (retained_end_of_file e pe c)"
  "I {} c \<Longrightarrow> I {} (playlist_snapshot e es path c)"
  "I {} c \<Longrightarrow> I {} (lifecycle_reconciliation_failed e c)"
  by (auto simp: command_submitted_def command_rejected_def command_superseded_def
      command_transport_disconnected_def command_completed_def seek_command_accepted_def
      seek_command_completion_not_observed_def start_file_def strict_start_owner_def end_file_def
      retained_end_of_file_def playlist_snapshot_def lifecycle_reconciliation_failed_def Let_def
      intro: start_attempt commit_physical reconcile_playlist split: option.split)

lemma folding_inputs:
  "I {} c \<Longrightarrow> I {} (command_accepted e k c)"
  "I {} c \<Longrightarrow> I {} (seek_command_submitted k gen raw room q c)"
  "I {} c \<Longrightarrow> I {} (transport_disconnected e c)"
  "I {} c \<Longrightarrow> I {} (closing_context c)"
  by (auto simp: command_accepted_def seek_command_submitted_def transport_disconnected_def
      closing_context_def Let_def intro!: fold_preserves commit_all split: option.split)

lemma observation_inputs:
  "I {} c \<Longrightarrow> I {} (eof_observed e po reached pos c)"
  "I {} c \<Longrightarrow> I {} (playback_restart e po c)"
  "I {} c \<Longrightarrow> I {} (position_observed e g q pt c)"
  "I {} c \<Longrightarrow> I {} (seeking_observed e g q sk c)"
  "I {} c \<Longrightarrow> I {} (phase_observed e ph c)"
  "I {} c \<Longrightarrow> I {} (transport_delta e delta c)"
  "I {} c \<Longrightarrow> I {} (local_file_changed e a g u c)"
  "I {} c \<Longrightarrow> I {} (event_gap_detected e c)"
  "I {} c \<Longrightarrow> I {} (authoritative_snapshot_applied snap c)"
  by (auto simp: eof_observed_def playback_restart_def position_observed_def seeking_observed_def
      phase_observed_def transport_delta_def local_file_changed_def event_gap_detected_def
      authoritative_snapshot_applied_def Let_def split: option.split prod.split)

theorem handle_input: "input \<noteq> AttachmentReplaced \<Longrightarrow> I {} c \<Longrightarrow> I {} (handle_input input c)"
  by (cases input) (simp_all add: load_attempt_submitted external_load_observed load_attempt_accepted
      load_attempt_rejected command_completion_not_observed file_loaded timer_input other_inputs
      folding_inputs observation_inputs)

end

end
