(* ===== verification/Lifecycle_Attempt_Inv.thy ===== *)
theory Lifecycle_Attempt_Inv
  imports Lifecycle_Attempts
begin

text \<open>
  The attempt invariant holds in every state: it is an instance of the attempt interface, and
  compaction after an acknowledgement keeps it. The loops that follow successor links therefore
  end, since the links only lead to later attempts.
\<close>

section \<open>One record changes\<close>

lemma attempts_ok_replace:
  assumes ok: "attempts_ok X s" and x: "attempt_of s a = Some x"
    and s': "\<And>b. attempt_of s' b = (if b = a then Some y else attempt_of s b)"
    and same: "bt_wf (load_attempts s')" "playlist_entry_attempts s' = playlist_entry_attempts s"
      "active_load_attempt s' = active_load_attempt s" "attachment_epoch s' = attachment_epoch s"
      "next_load_attempt_id s' = next_load_attempt_id s"
    and y: "la_id y = la_id x" "la_epoch y = la_epoch x" "same_links x y" "attempt_local_ok y"
      "attempt_is_terminal (la_state y) = attempt_is_terminal (la_state x)"
      "a \<notin> X \<Longrightarrow> la_state y = Submitting \<Longrightarrow> untouched y"
      "active_load_attempt s = Some a \<Longrightarrow> transport_owner y"
  shows "attempts_ok X s'"
proof -
  have links: "links_ok s' z" if "links_ok s z" for z
    using that x y(1,3) by (force simp: links_ok_def s' same_links_def)
  have "record_ok X s' b z" if "attempt_of s' b = Some z" for b z
  proof (cases "b = a")
    case True
    with that have z: "z = y" by (simp add: s')
    have "links_ok s' y"
      using links [of x] attempts_okD [OF ok x] y(1,3)
      by (simp add: record_ok_def) (simp add: links_ok_def same_links_def)
    with attempts_okD [OF ok x] True z y show ?thesis
      by (simp add: record_ok_def same same_links_def)
  next
    case False
    with that have "attempt_of s b = Some z" by (simp add: s')
    from attempts_okD [OF ok this] show ?thesis
      by (simp add: record_ok_def same links)
  qed
  moreover have "mapping_ok s'"
    unfolding mapping_ok_def
  proof (intro allI impI)
    fix p b assume "bt_get (playlist_entry_attempts s') p = Some b"
    then have "bt_get (playlist_entry_attempts s) p = Some b" by (simp add: same)
    with ok obtain z where z: "attempt_of s b = Some z" "\<not> attempt_is_terminal (la_state z)"
        "la_playlist_entry_id z = Some p"
      unfolding attempts_ok_def mapping_ok_def by blast
    then show "\<exists>z. attempt_of s' b = Some z \<and> \<not> attempt_is_terminal (la_state z) \<and> la_playlist_entry_id z = Some p"
      using x y(3,5) by (cases "b = a") (auto simp: s' same_links_def)
  qed
  moreover have "active_ok s'"
    using ok y(7) by (auto simp: attempts_ok_def active_ok_def s' same)
  ultimately show ?thesis
    using ok same by (simp add: attempts_ok_def)
qed

lemma attempts_ok_edit:
  assumes ok: "attempts_ok X c"
    and pre: "\<And>x. attempt_of c a = Some x \<Longrightarrow>
      attempt_edit x (f x) \<and> (active_load_attempt c = Some a \<longrightarrow> \<not> is_quiescent (la_state (f x)))"
  shows "attempts_ok X (modify_attempt a f c)"
proof (cases "attempt_of c a")
  case None
  with ok show ?thesis by (simp add: modify_absent)
next
  case (Some x)
  have rec: "record_ok X c a x" by (rule attempts_okD [OF ok Some])
  have wf: "bt_wf (load_attempts c)" using ok by (simp add: attempts_ok_def)
  from pre [OF Some] have edit: "attempt_edit x (f x)"
    and quiet: "active_load_attempt c = Some a \<Longrightarrow> \<not> is_quiescent (la_state (f x))" by simp_all
  show ?thesis
  proof (rule attempts_ok_replace [OF ok Some, where y = "f x"])
    show "attempt_of (modify_attempt a f c) b = (if b = a then Some (f x) else attempt_of c b)" for b
      using Some by simp
    show "same_links x (f x)" "la_id (f x) = la_id x" "la_epoch (f x) = la_epoch x"
      using edit by (auto simp: attempt_edit_def same_defs)
    show "attempt_local_ok (f x)"
      using edit rec by (auto simp: attempt_edit_def record_ok_def)
    show "attempt_is_terminal (la_state (f x)) = attempt_is_terminal (la_state x)"
      using edit by (auto simp: attempt_edit_def)
    show "untouched (f x)" if "a \<notin> X" "la_state (f x) = Submitting"
      using edit rec that by (auto simp: attempt_edit_def record_ok_def)
    show "transport_owner (f x)" if "active_load_attempt c = Some a"
      using active_record [OF ok that Some] edit quiet [OF that]
      by (auto simp: attempt_edit_def transport_owner_def same_links_def)
  qed (simp_all add: wf)
qed

lemma attempts_ok_emit:
  assumes ok: "attempts_ok X c"
    and pre: "\<And>x. attempt_of c a = Some x \<Longrightarrow>
      la_file_loaded_deadline_tick x = None \<and> (a \<in> X \<or> la_state x \<noteq> Submitting)"
  shows "attempts_ok X (emit_load_outcome a r t c)"
proof (cases "attempt_of c a")
  case None
  with ok show ?thesis by (simp add: emit_load_outcome_def)
next
  case (Some x)
  have rec: "record_ok X c a x" by (rule attempts_okD [OF ok Some])
  have wf: "bt_wf (load_attempts c)" using ok by (simp add: attempts_ok_def)
  let ?y = "emitted_record r (eo_sequence (fst (next_order c))) x"
  show ?thesis
  proof (rule attempts_ok_replace [OF ok Some, where y = ?y])
    show "attempt_of (emit_load_outcome a r t c) b = (if b = a then Some ?y else attempt_of c b)" for b
      using Some by (simp add: attempt_of_emit)
    show "same_links x ?y" "la_id ?y = la_id x" "la_epoch ?y = la_epoch x"
      by (simp_all add: emitted_record_def same_links_def)
    show "attempt_local_ok ?y"
      using rec pre [OF Some] by (auto simp: record_ok_def local_defs emitted_record_def)
    show "untouched ?y" if "a \<notin> X" "la_state ?y = Submitting"
      using pre [OF Some] that by simp
    show "transport_owner ?y" if "active_load_attempt c = Some a"
      using active_record [OF ok that Some] by (simp add: transport_owner_def emitted_record_def)
  qed (simp_all add: wf)
qed

section \<open>Successors\<close>

lemma unclaimed_record_simps [simp]:
  "la_id (superseded_record p a x) = la_id x"
  "la_epoch (superseded_record p a x) = la_epoch x"
  "la_playlist_entry_id (superseded_record p a x) = la_playlist_entry_id x"
  "la_superseded_by (superseded_record p a x) = Some a"
  "la_logical_ownership_revoked (superseded_record p a x)"
  "la_replaced_attempt (superseded_record p a x) =
     (if la_id x \<noteq> a \<and> la_replaced_attempt x = Some p then None else la_replaced_attempt x)"
  by (simp_all add: superseded_record_def Let_def)

lemma replaced_update_simps [simp]:
  "attempt_local_ok (x\<lparr>la_replaced_attempt := r\<rparr>) = attempt_local_ok x"
  "untouched (x\<lparr>la_replaced_attempt := r\<rparr>) = untouched x"
  by (simp_all add: local_defs untouched_def)

lemma superseded_local:
  "attempt_local_ok x \<Longrightarrow> \<not> attempt_is_terminal (la_state x) \<Longrightarrow> attempt_local_ok (superseded_record p a x)"
  by (auto simp: local_defs superseded_record_def Let_def)

lemma attempts_ok_supersede:
  assumes ok: "attempts_ok X c" and p: "attempt_of c p = Some x" "\<not> attempt_is_terminal (la_state x)"
    and a: "attempt_of c a = Some z" "la_replaced_attempt z = Some p"
  shows "attempts_ok X (supersede_predecessor p a c)" (is "attempts_ok X ?s")
proof -
  have pa: "p < a" "la_id z = a"
    using attempts_okD [OF ok a(1)] a(2) by (auto simp: record_ok_def links_ok_def)
  define g where "g b y = (if b = p then superseded_record p a y
      else if la_id y \<noteq> a \<and> la_replaced_attempt y = Some p then y\<lparr>la_replaced_attempt := None\<rparr> else y)"
    for b y
  have of: "attempt_of ?s b = map_option (g b) (attempt_of c b)" for b
    by (cases "b = p") (simp_all add: attempt_of_supersede g_def [abs_def])
  have g: "la_replaced_attempt y = Some r \<Longrightarrow> r \<noteq> p \<or> la_id y = a \<Longrightarrow> la_replaced_attempt (g b y) = Some r"
    "la_playlist_entry_id (g b y) = la_playlist_entry_id y"
    "\<not> attempt_is_terminal (la_state y) \<Longrightarrow> \<not> attempt_is_terminal (la_state (g b y))"
    "\<not> is_quiescent (la_state y) \<Longrightarrow> \<not> is_quiescent (la_state (g b y))" for b y r
    by (auto simp: g_def)
  have backlink: "\<exists>w. attempt_of ?s y = Some w \<and> la_replaced_attempt w = Some b"
    if "b \<noteq> p" "\<exists>w. attempt_of c y = Some w \<and> la_replaced_attempt w = Some b" for b y
    using that g(1) by (auto simp: of)
  have mine: "\<exists>w. attempt_of ?s a = Some w \<and> la_replaced_attempt w = Some p"
    using a pa g(1) by (auto simp: of)
  have rec: "record_ok X ?s b w" if "attempt_of ?s b = Some w" for b w
  proof -
    from that obtain y where y: "attempt_of c b = Some y"
      and w: "w = (if b = p then superseded_record p a y
        else if la_id y \<noteq> a \<and> la_replaced_attempt y = Some p then y\<lparr>la_replaced_attempt := None\<rparr> else y)"
      by (auto simp: of g_def)
    have r: "record_ok X c b y" by (rule attempts_okD [OF ok y])
    show ?thesis
    proof (cases "b = p")
      case True
      with y p have "y = x" by simp
      have ids: "la_id y = p" "\<And>q. la_replaced_attempt y = Some q \<Longrightarrow> q < p"
        using r True by (simp_all add: record_ok_def links_ok_def)
      have "links_ok ?s (superseded_record p a y)"
        using ids pa(1) mine by (simp add: links_ok_def)
      moreover have "attempt_local_ok (superseded_record p a y)"
        by (rule superseded_local) (use r p \<open>y = x\<close> in \<open>simp_all add: record_ok_def\<close>)
      ultimately show ?thesis
        using r True p \<open>y = x\<close> by (simp add: record_ok_def w)
    next
      case False
      have "links_ok c y" "la_id y = b"
        using r by (simp_all add: record_ok_def)
      then have "links_ok ?s w"
        using backlink [OF False] False by (simp add: links_ok_def w)
      moreover have "attempt_local_ok w" "untouched w = untouched y"
        using r False by (simp_all add: w record_ok_def)
      ultimately show ?thesis
        using r False by (cases "la_id y \<noteq> a \<and> la_replaced_attempt y = Some p") (auto simp: record_ok_def w)
    qed
  qed
  have keep: "\<exists>w. attempt_of ?s b = Some w \<and> la_playlist_entry_id w = la_playlist_entry_id y
      \<and> \<not> attempt_is_terminal (la_state w) \<and> (transport_owner y \<longrightarrow> transport_owner w)"
    if "attempt_of c b = Some y" "\<not> attempt_is_terminal (la_state y)" for b y
    using that g(2-4) by (auto simp: of transport_owner_def)
  have "mapping_ok ?s"
    using ok keep by (fastforce simp: attempts_ok_def mapping_ok_def)
  moreover have "active_ok ?s"
    using ok keep by (fastforce simp: attempts_ok_def active_ok_def transport_owner_def)
  ultimately show ?thesis
    using ok rec by (simp add: attempts_ok_def)
qed

section \<open>Binding and ownership\<close>

lemma bound_record_simps [simp]:
  "la_id (bound_record p x) = la_id x" "la_epoch (bound_record p x) = la_epoch x"
  "la_playlist_entry_id (bound_record p x) = Some p"
  "la_replaced_attempt (bound_record p x) = la_replaced_attempt x"
  "la_superseded_by (bound_record p x) = la_superseded_by x"
  "la_logical_ownership_revoked (bound_record p x) = la_logical_ownership_revoked x"
  "attempt_is_terminal (la_state (bound_record p x)) = attempt_is_terminal (la_state x)"
  "is_quiescent (la_state (bound_record p x)) = is_quiescent (la_state x)"
  "la_state (bound_record p x) = Submitting \<longleftrightarrow> la_state x = Submitting"
  by (auto simp: bound_record_def)

lemma bound_local:
  assumes "attempt_local_ok x" "\<not> attempt_is_terminal (la_state x)" "la_state x \<noteq> Submitting"
  shows "attempt_local_ok (bound_record p x)"
proof (cases "la_state x \<in> {AcceptedUnbound, MayStillEmit}")
  case True
  then show ?thesis
    using assms(1) by (elim insertE) (auto simp: local_defs bound_record_def)
next
  case False
  with assms show ?thesis by (simp add: local_defs bound_record_def)
qed

lemma attempts_ok_bind:
  assumes ok: "attempts_ok {} c" and x: "attempt_of c a = Some x" and bindable: "bindable p c a x"
  shows "attempts_ok {} ((modify_attempt a (bound_record p) c)
           \<lparr>playlist_entry_attempts := bt_insert p a (playlist_entry_attempts c)\<rparr>)" (is "attempts_ok {} ?s")
proof -
  have r: "record_ok {} c a x" by (rule attempts_okD [OF ok x])
  have live: "\<not> attempt_is_terminal (la_state x)" "la_state x \<noteq> Submitting"
      "bt_get (playlist_entry_attempts c) p \<in> {None, Some a}"
      "\<And>q. la_playlist_entry_id x = Some q \<Longrightarrow> q = p"
    using bindable r bound_not_submitting [of x] by (auto simp: bindable_def record_ok_def)
  have links: "links_ok ?s y = links_ok c y" for y
    using x by (auto simp: links_ok_def)
  have rec: "record_ok {} ?s b y" if "attempt_of ?s b = Some y" for b y
  proof (cases "b = a")
    case True
    with that x have y: "y = bound_record p x" by simp
    have "links_ok c x" using r by (simp add: record_ok_def)
    then have "links_ok c (bound_record p x)" by (simp add: links_ok_def)
    with r live True show ?thesis
      by (simp add: y record_ok_def links bound_local)
  next
    case False
    with that have yb: "attempt_of c b = Some y" by simp
    from attempts_okD [OF ok yb] False live(3) show ?thesis
      by (auto simp: record_ok_def links)
  qed
  have "mapping_ok ?s"
    unfolding mapping_ok_def
  proof (intro allI impI)
    fix q b assume qb: "bt_get (playlist_entry_attempts ?s) q = Some b"
    show "\<exists>y. attempt_of ?s b = Some y \<and> \<not> attempt_is_terminal (la_state y) \<and> la_playlist_entry_id y = Some q"
    proof (cases "q = p")
      case True
      with qb x live show ?thesis by simp
    next
      case False
      with qb have "bt_get (playlist_entry_attempts c) q = Some b" by simp
      with ok obtain y where "attempt_of c b = Some y" "\<not> attempt_is_terminal (la_state y)" "la_playlist_entry_id y = Some q"
        unfolding attempts_ok_def mapping_ok_def by blast
      with False x live(4) show ?thesis by (cases "b = a") auto
    qed
  qed
  moreover have "active_ok ?s"
    using ok x by (auto simp: attempts_ok_def active_ok_def transport_owner_def)
  ultimately show ?thesis
    using ok rec by (auto simp: attempts_ok_def)
qed

lemma record_ok_cong:
  "attempt_of s = attempt_of s' \<Longrightarrow> next_load_attempt_id s = next_load_attempt_id s' \<Longrightarrow>
   attachment_epoch s = attachment_epoch s' \<Longrightarrow> playlist_entry_attempts s = playlist_entry_attempts s' \<Longrightarrow>
   record_ok X s = record_ok X s'"
  by (intro ext) (simp add: record_ok_def links_ok_def)

lemma attempts_ok_set_active:
  assumes "attempts_ok X c" and "\<And>a. v = Some a \<Longrightarrow> \<exists>x. attempt_of c a = Some x \<and> transport_owner x"
  shows "attempts_ok X (c\<lparr>active_load_attempt := v\<rparr>)"
  using assms record_ok_cong [of "c\<lparr>active_load_attempt := v\<rparr>" c X]
  by (auto simp: attempts_ok_def mapping_ok_def active_ok_def)

section \<open>New attempts\<close>

lemma attempts_ok_insert:
  assumes ok: "attempts_ok {} c" and id: "la_id x = fst (allocate_load_attempt_id c)"
    and fresh: "fresh_attempt c x"
    and room: "next_load_attempt_id (insert_attempt x c) < u64_max"
    and X: "la_playlist_entry_id x = None \<or> la_id x \<in> X"
  shows "attempts_ok X (insert_attempt x c)" (is "attempts_ok X ?s")
proof -
  have nxt: "next_load_attempt_id ?s = Suc (la_id x)" "0 < la_id x" "next_load_attempt_id c \<le> la_id x"
    using room by (auto simp: insert_attempt_def id allocate_load_attempt_id_def Let_def
        saturating_add_def min_def split: if_splits)
  have of: "attempt_of ?s b = (if b = la_id x then Some x else attempt_of c b)" for b
    by (simp add: insert_attempt_def attempt_of_def)
  have old: "b < la_id x" if "attempt_of c b = Some y" for b y
    using attempts_okD [OF ok that] nxt(3) by (simp add: record_ok_def)
  have same: "playlist_entry_attempts ?s = playlist_entry_attempts c"
      "active_load_attempt ?s = active_load_attempt c" "attachment_epoch ?s = attachment_epoch c"
    by (simp_all add: insert_attempt_def)
  have links: "links_ok ?s y" if "links_ok c y" for y
    using that old by (fastforce simp: links_ok_def of)
  have rec: "record_ok X ?s b y" if "attempt_of ?s b = Some y" for b y
  proof (cases "b = la_id x")
    case True
    with that have "y = x" by (simp add: of)
    with fresh True nxt X show ?thesis
      by (auto simp: record_ok_def fresh_attempt_def links_ok_def same)
  next
    case False
    with that have "attempt_of c b = Some y" by (simp add: of)
    from attempts_okD [OF ok this] links nxt show ?thesis
      by (auto simp: record_ok_def same)
  qed
  have "mapping_ok ?s" "active_ok ?s"
    using ok old by (fastforce simp: attempts_ok_def mapping_ok_def active_ok_def of same)+
  moreover have "bt_wf (load_attempts ?s)"
    using ok by (auto simp: attempts_ok_def insert_attempt_def)
  ultimately show ?thesis
    using ok rec by (simp add: attempts_ok_def same)
qed

lemma attempts_ok_publish:
  assumes ok: "attempts_ok {a} c" and x: "attempt_of c a = Some x" "transport_owner x"
      "la_playlist_entry_id x = Some p" "la_state x \<noteq> Submitting" "bt_get (playlist_entry_attempts c) p = None"
  shows "attempts_ok {} (c\<lparr>playlist_entry_attempts := bt_insert p a (playlist_entry_attempts c)\<rparr>)"
    (is "attempts_ok {} ?s")
proof -
  have links: "links_ok ?s y = links_ok c y" for y
    by (simp add: links_ok_def)
  have rec: "record_ok {} ?s b y" if "attempt_of ?s b = Some y" for b y
  proof -
    from that have yb: "attempt_of c b = Some y" by simp
    from attempts_okD [OF ok yb] show ?thesis
      using x yb by (cases "b = a") (auto simp: record_ok_def links)
  qed
  have "mapping_ok ?s" "active_ok ?s"
    using ok x by (auto simp: attempts_ok_def mapping_ok_def active_ok_def transport_owner_def)
  then show ?thesis
    using ok rec by (auto simp: attempts_ok_def)
qed

section \<open>Terminal attempts\<close>

definition terminal_record ::
  "PlayerPhysicalLoadOutcome \<Rightarrow> u64 \<Rightarrow> u64 \<Rightarrow> LoadAttempt \<Rightarrow> LoadAttempt" where
  "terminal_record out q n x =
     emitted_record (load_result_of_physical out) n
       (x\<lparr>la_state := Terminal out, la_reconcile_until_tick := None, la_file_loaded_deadline_tick := None,
          la_physical_terminal_sequence := Some q\<rparr>)"

lemma detach_fields:
  "attempt_of (detach_terminal_attempt a out prior s) b =
     (if b = a then map_option (\<lambda>x. x\<lparr>la_state := Terminal out, la_reconcile_until_tick := None,
        la_file_loaded_deadline_tick := None\<rparr>) (attempt_of s a) else attempt_of s b)"
  "playlist_entry_attempts (detach_terminal_attempt a out prior s) =
     (case la_playlist_entry_id prior of
        Some p \<Rightarrow> bt_remove p (playlist_entry_attempts s) | None \<Rightarrow> playlist_entry_attempts s)"
  "active_load_attempt (detach_terminal_attempt a out prior s) =
     (if active_load_attempt s = Some a then None else active_load_attempt s)"
  "attachment_epoch (detach_terminal_attempt a out prior s) = attachment_epoch s"
  "next_load_attempt_id (detach_terminal_attempt a out prior s) = next_load_attempt_id s"
  "bt_wf (load_attempts (detach_terminal_attempt a out prior s)) = bt_wf (load_attempts s)"
  by (simp_all add: detach_terminal_attempt_def Let_def split: option.split)

lemma queue_event_fields [simp]:
  "attachment_epoch (snd (queue_event e c)) = attachment_epoch c"
  "next_load_attempt_id (snd (queue_event e c)) = next_load_attempt_id c"
  "load_attempts (snd (queue_event e c)) = load_attempts c"
  using attempt_view_fields [OF attempt_view_queue_event [of e c]] by simp_all

lemma terminate_fields:
  "playlist_entry_attempts (terminate_attempt a out prior c) =
     (case la_playlist_entry_id prior of
        Some p \<Rightarrow> bt_remove p (playlist_entry_attempts c) | None \<Rightarrow> playlist_entry_attempts c)"
  "active_load_attempt (terminate_attempt a out prior c) =
     (if active_load_attempt c = Some a then None else active_load_attempt c)"
  "attachment_epoch (terminate_attempt a out prior c) = attachment_epoch c"
  "next_load_attempt_id (terminate_attempt a out prior c) = next_load_attempt_id c"
  "bt_wf (load_attempts (terminate_attempt a out prior c)) = bt_wf (load_attempts c)"
  by (simp_all add: terminate_attempt_def Let_def split_def detach_fields)

lemma terminate_record:
  assumes "attempt_of c a = Some prior"
  shows "\<exists>q n. \<forall>b. attempt_of (terminate_attempt a out prior c) b =
    (if b = a then Some (terminal_record out q n prior) else attempt_of c b)"
proof -
  let ?t = "queue_event (LoadAttemptTerminal a (la_media_generation prior) out)
      (detach_terminal_attempt a out prior c)"
  let ?e = "modify_attempt a (\<lambda>x. x\<lparr>la_physical_terminal_sequence := Some (eo_sequence (fst ?t))\<rparr>) (snd ?t)"
  have "attempt_of (terminate_attempt a out prior c) b =
      (if b = a then Some (terminal_record out (eo_sequence (fst ?t)) (eo_sequence (fst (next_order ?e))) prior)
       else attempt_of c b)" for b
    using assms
    by (cases "la_semantic_load_result prior")
      (simp_all add: terminate_attempt_def Let_def split_def detach_fields attempt_of_emit
        terminal_record_def emitted_record_def)
  then show ?thesis by blast
qed

lemma terminal_record_simps [simp]:
  "la_id (terminal_record out q n x) = la_id x" "la_epoch (terminal_record out q n x) = la_epoch x"
  "la_replaced_attempt (terminal_record out q n x) = la_replaced_attempt x"
  "la_superseded_by (terminal_record out q n x) = la_superseded_by x"
  "la_logical_ownership_revoked (terminal_record out q n x) = la_logical_ownership_revoked x"
  "la_state (terminal_record out q n x) = Terminal out"
  by (simp_all add: terminal_record_def emitted_record_def)

lemma terminal_local:
  "attempt_local_ok x \<Longrightarrow> \<not> attempt_is_terminal (la_state x) \<Longrightarrow> attempt_local_ok (terminal_record out q n x)"
  by (auto simp: local_defs terminal_record_def emitted_record_def)

lemma attempts_ok_terminate:
  assumes ok: "attempts_ok X c" and prior: "attempt_of c a = Some prior" "\<not> attempt_is_terminal (la_state prior)"
    and X: "X \<subseteq> {a}" "a \<notin> X \<or> la_playlist_entry_id prior = None"
  shows "attempts_ok {} (terminate_attempt a out prior c)" (is "attempts_ok {} ?s")
proof -
  obtain q n where of: "\<And>b. attempt_of ?s b =
      (if b = a then Some (terminal_record out q n prior) else attempt_of c b)"
    using terminate_record [OF prior(1), of out] by blast
  have r: "record_ok X c a prior" by (rule attempts_okD [OF ok prior(1)])
  have mapped: "bt_get (playlist_entry_attempts ?s) p = Some b \<longleftrightarrow>
      bt_get (playlist_entry_attempts c) p = Some b \<and> la_playlist_entry_id prior \<noteq> Some p" for p b
    by (auto simp: terminate_fields split: option.split)
  have other: "b \<noteq> a \<and> la_playlist_entry_id prior \<noteq> Some p \<longleftrightarrow> b \<noteq> a"
    if "bt_get (playlist_entry_attempts c) p = Some b" for p b
    using that r prior(2) X by (auto simp: record_ok_def)
  have links: "links_ok ?s y" if "links_ok c y" for y
    using that prior by (force simp: links_ok_def of)
  have rec: "record_ok {} ?s b y" if "attempt_of ?s b = Some y" for b y
  proof (cases "b = a")
    case True
    with that have y: "y = terminal_record out q n prior" by (simp add: of)
    have "links_ok ?s prior" using links [of prior] r by (simp add: record_ok_def)
    then have "links_ok ?s y" by (simp add: y links_ok_def)
    with r True prior show ?thesis
      by (simp add: record_ok_def y terminate_fields terminal_local)
  next
    case False
    with that have yb: "attempt_of c b = Some y" by (simp add: of)
    from attempts_okD [OF ok yb] False X show ?thesis
      using other by (auto simp: record_ok_def links terminate_fields(3,4) mapped)
  qed
  have "mapping_ok ?s"
    unfolding mapping_ok_def
  proof (intro allI impI)
    fix p b assume "bt_get (playlist_entry_attempts ?s) p = Some b"
    then have pb: "bt_get (playlist_entry_attempts c) p = Some b" "la_playlist_entry_id prior \<noteq> Some p"
      by (simp_all add: mapped)
    with ok obtain y where y: "attempt_of c b = Some y" "\<not> attempt_is_terminal (la_state y)" "la_playlist_entry_id y = Some p"
      unfolding attempts_ok_def mapping_ok_def by blast
    with pb prior have "b \<noteq> a" by auto
    with y show "\<exists>y. attempt_of ?s b = Some y \<and> \<not> attempt_is_terminal (la_state y) \<and> la_playlist_entry_id y = Some p"
      by (simp add: of)
  qed
  moreover have "active_ok ?s"
    using ok by (auto simp: attempts_ok_def active_ok_def of terminate_fields)
  moreover have "bt_wf (playlist_entry_attempts ?s)"
    using ok by (auto simp: attempts_ok_def terminate_fields split: option.split)
  ultimately show ?thesis
    using ok rec by (simp add: attempts_ok_def terminate_fields)
qed

section \<open>Every input keeps the attempts in order\<close>

definition attempts_good :: "LoadAttemptId set \<Rightarrow> 'a lifecycle \<Rightarrow> bool" where
  "attempts_good X c \<longleftrightarrow> attempts_keyed c \<and> (next_load_attempt_id c < u64_max \<longrightarrow> attempts_ok X c)"

lemma attempts_ok_weaken: "attempts_ok {} s \<Longrightarrow> attempts_ok X s"
  by (auto simp: attempts_ok_def record_ok_def)

lemma attempts_good_step:
  assumes "attempts_good X c" and "next_load_attempt_id c' = next_load_attempt_id c"
    and "attempts_keyed c'" and "attempts_ok X c \<Longrightarrow> attempts_ok Y c'"
  shows "attempts_good Y c'"
  using assms by (simp add: attempts_good_def)

lemma keyed_modify:
  "attempts_keyed s \<Longrightarrow> (\<And>x. attempt_of s a = Some x \<Longrightarrow> la_id (f x) = la_id x) \<Longrightarrow> attempts_keyed (modify_attempt a f s)"
  by (auto simp: attempts_keyed_iff split: if_splits)

lemma keyed_fields:
  "attempts_keyed (s\<lparr>active_load_attempt := v\<rparr>) = attempts_keyed s"
  "attempts_keyed (s\<lparr>playlist_entry_attempts := m\<rparr>) = attempts_keyed s"
  by (simp_all add: attempts_keyed_def)

lemma keyed_emit: "attempts_keyed c \<Longrightarrow> attempts_keyed (emit_load_outcome a r t c)"
  by (auto simp: attempts_keyed_iff attempt_of_emit emitted_record_def split: if_splits)

lemma keyed_supersede: "attempts_keyed c \<Longrightarrow> attempts_keyed (supersede_predecessor p a c)"
  by (auto simp: attempts_keyed_iff attempt_of_supersede split: if_splits)

lemma keyed_terminate:
  assumes "attempts_keyed c" "attempt_of c a = Some prior"
  shows "attempts_keyed (terminate_attempt a out prior c)"
proof -
  obtain q n where "\<And>b. attempt_of (terminate_attempt a out prior c) b =
      (if b = a then Some (terminal_record out q n prior) else attempt_of c b)"
    using terminate_record [OF assms(2), of out] by blast
  with assms show ?thesis by (auto simp: attempts_keyed_iff terminate_fields split: if_splits)
qed

lemma keyed_insert: "attempts_keyed c \<Longrightarrow> attempts_keyed (insert_attempt x c)"
  by (auto simp: attempts_keyed_iff insert_attempt_def attempt_of_def split: if_splits)

lemma attempts_good_edit:
  assumes good: "attempts_good X c"
    and pre: "\<And>x. attempts_ok X c \<Longrightarrow> attempt_of c a = Some x \<Longrightarrow>
      attempt_edit x (f x) \<and> (active_load_attempt c = Some a \<longrightarrow> \<not> is_quiescent (la_state (f x)))"
    and ids: "\<And>x. la_id (f x) = la_id x"
  shows "attempts_good X (modify_attempt a f c)"
  using good pre
  by (intro attempts_good_step [OF good])
    (auto intro!: keyed_modify attempts_ok_edit simp: ids attempts_good_def)

lemma attempts_good_view: "attempt_view c = attempt_view c' \<Longrightarrow> attempts_good X c = attempts_good X c'"
  using attempt_view_fields [of c c'] attempts_ok_view [of c c' X]
  by (simp add: attempts_good_def attempts_keyed_def)

lemma attempts_good_emit:
  assumes good: "attempts_good X c"
    and pre: "\<And>x. attempts_ok X c \<Longrightarrow> attempt_of c a = Some x \<Longrightarrow>
      la_file_loaded_deadline_tick x = None \<and> (a \<in> X \<or> la_state x \<noteq> Submitting)"
  shows "attempts_good X (emit_load_outcome a r t c)"
  using good pre
  by (intro attempts_good_step [OF good])
    (auto intro!: keyed_emit attempts_ok_emit simp: attempts_good_def)

lemma attempts_good_supersede:
  assumes good: "attempts_good X c" and "attempt_of c p = Some x" "\<not> attempt_is_terminal (la_state x)"
    "attempt_of c a = Some z" "la_replaced_attempt z = Some p"
  shows "attempts_good X (supersede_predecessor p a c)"
  using assms
  by (intro attempts_good_step [OF good])
    (auto intro!: keyed_supersede attempts_ok_supersede simp: attempts_good_def)

lemma attempts_good_bind:
  assumes good: "attempts_good {} c"
    and pre: "attempts_ok {} c \<Longrightarrow> attempt_of c a = Some x \<and> bindable pe c a x"
  shows "attempts_good {} ((modify_attempt a (bound_record pe) c)
    \<lparr>playlist_entry_attempts := bt_insert pe a (playlist_entry_attempts c)\<rparr>)"
  using good pre
  by (intro attempts_good_step [OF good])
    (auto intro!: keyed_modify attempts_ok_bind simp: keyed_fields attempts_good_def)

lemma attempts_good_activate:
  assumes good: "attempts_good {} c"
    and pre: "attempts_ok {} c \<Longrightarrow> \<exists>x. attempt_of c a = Some x \<and> transport_owner x"
  shows "attempts_good {} (c\<lparr>active_load_attempt := Some a\<rparr>)"
  using good pre
  by (intro attempts_good_step [OF good])
    (auto intro!: attempts_ok_set_active simp: keyed_fields attempts_good_def)

lemma attempts_good_deactivate:
  assumes good: "attempts_good X c"
  shows "attempts_good X (c\<lparr>active_load_attempt := None\<rparr>)"
  using good
  by (intro attempts_good_step [OF good])
    (auto intro!: attempts_ok_set_active simp: keyed_fields attempts_good_def)

lemma attempts_good_terminate:
  assumes good: "attempts_good X c" and prior: "attempt_of c a = Some prior"
      "\<not> attempt_is_terminal (la_state prior)"
    and X: "X \<subseteq> {a}" "a \<notin> X \<or> la_playlist_entry_id prior = None"
  shows "attempts_good {} (terminate_attempt a out prior c)"
  using good prior X
  by (intro attempts_good_step [OF good])
    (auto intro!: keyed_terminate attempts_ok_terminate simp: attempts_good_def terminate_fields)

lemma insert_attempt_next:
  "next_load_attempt_id (insert_attempt x c) < u64_max \<Longrightarrow> next_load_attempt_id c < u64_max"
  by (auto simp: insert_attempt_def allocate_load_attempt_id_def saturating_add_def Let_def min_def
      split: if_splits)

lemma attempts_good_insert:
  assumes good: "attempts_good {} c" and id: "la_id x = fst (allocate_load_attempt_id c)"
    and fresh: "attempts_ok {} c \<Longrightarrow> fresh_attempt c x"
    and X: "la_playlist_entry_id x = None \<or> la_id x \<in> X"
  shows "attempts_good X (insert_attempt x c)"
  using good fresh
  by (auto simp: attempts_good_def keyed_insert
      intro!: attempts_ok_insert [OF _ id _ _ X] dest: insert_attempt_next)

lemma attempts_good_publish:
  assumes good: "attempts_good {a} c"
    and pre: "attempts_ok {a} c \<Longrightarrow> \<exists>x. attempt_of c a = Some x \<and> transport_owner x
         \<and> la_playlist_entry_id x = Some pe \<and> la_state x \<noteq> Submitting
         \<and> bt_get (playlist_entry_attempts c) pe = None"
  shows "attempts_good {} (c\<lparr>playlist_entry_attempts := bt_insert pe a (playlist_entry_attempts c)\<rparr>)"
  using good pre
  by (intro attempts_good_step [OF good])
    (auto intro!: attempts_ok_publish simp: keyed_fields attempts_good_def)

interpretation attempts: attempt_invariant attempts_good
proof (unfold_locales, goal_cases)
  case (1 c c' X)
  then show ?case by (rule attempts_good_view)
next
  case (2 X c)
  then show ?case by (simp add: attempts_good_def)
next
  case (3 c X)
  then show ?case by (auto simp: attempts_good_def attempts_ok_weaken)
next
  case (4 X c a r t)
  then show ?case by (rule attempts_good_emit) auto
next
  case (5 X c a f)
  then show ?case by (rule attempts_good_edit) auto
next
  case (6 X c p x a z)
  then show ?case by (rule attempts_good_supersede)
next
  case (7 c a x pe)
  then show ?case by (rule attempts_good_bind) auto
next
  case (8 c a)
  then show ?case by (rule attempts_good_activate) auto
next
  case (9 X c)
  then show ?case by (rule attempts_good_deactivate)
next
  case (10 X c a prior out)
  then show ?case by (rule attempts_good_terminate)
next
  case (11 c x)
  then show ?case by (intro attempts_good_insert) auto
next
  case (12 c x)
  then show ?case by (intro attempts_good_insert) auto
next
  case (13 a c pe)
  then show ?case by (rule attempts_good_publish) auto
qed

end
