(* ===== verification/Lifecycle_Attempt_Runs.thy ===== *)
theory Lifecycle_Attempt_Runs
  imports Lifecycle_Attempt_Inv
begin

text \<open>
  The attempt invariant over whole runs: compaction after an acknowledgement removes settled
  attempts and repairs the links of their neighbours, and a replaced attachment starts with none.
\<close>

section \<open>Compaction\<close>

definition unlinked_record :: "LoadAttemptId \<Rightarrow> LoadAttempt \<Rightarrow> LoadAttempt \<Rightarrow> LoadAttempt" where
  "unlinked_record a x y =
     (let y = (if la_superseded_by x = Some (la_id y) \<and> la_replaced_attempt y = Some a
               then y\<lparr>la_replaced_attempt := None\<rparr> else y)
      in if la_replaced_attempt x = Some (la_id y) \<and> la_superseded_by y = Some a
         then y\<lparr>la_superseded_by := None,
                la_state := (if la_state y = SupersededMayStillEmit a then MayStillEmit else la_state y)\<rparr>
         else y)"

lemma retire_command_attempts [simp]:
  "load_attempts (retire_command_record k s) = load_attempts s"
  "playlist_entry_attempts (retire_command_record k s) = playlist_entry_attempts s"
  "active_load_attempt (retire_command_record k s) = active_load_attempt s"
  "attachment_epoch (retire_command_record k s) = attachment_epoch s"
  "next_load_attempt_id (retire_command_record k s) = next_load_attempt_id s"
  by (simp_all add: retire_command_record_def split: option.split)

lemma compact_attempt_fields [simp]:
  "playlist_entry_attempts (compact_attempt q a s) = playlist_entry_attempts s"
  "active_load_attempt (compact_attempt q a s) = active_load_attempt s"
  "attachment_epoch (compact_attempt q a s) = attachment_epoch s"
  "next_load_attempt_id (compact_attempt q a s) = next_load_attempt_id s"
  "bt_wf (load_attempts s) \<Longrightarrow> bt_wf (load_attempts (compact_attempt q a s))"
  by (auto simp: compact_attempt_def unlink_successor_def unlink_predecessor_def Let_def
      split: option.split)

lemma attempt_of_unlink:
  "attempt_of (unlink_successor a x s) b =
     (if la_superseded_by x = Some b
      then map_option (\<lambda>y. if la_replaced_attempt y = Some a then y\<lparr>la_replaced_attempt := None\<rparr> else y)
        (attempt_of s b)
      else attempt_of s b)"
  "attempt_of (unlink_predecessor a x s) b =
     (if la_replaced_attempt x = Some b
      then map_option (\<lambda>y. if la_superseded_by y = Some a
          then y\<lparr>la_superseded_by := None,
                 la_state := (if la_state y = SupersededMayStillEmit a then MayStillEmit else la_state y)\<rparr>
          else y) (attempt_of s b)
      else attempt_of s b)"
  by (auto simp: unlink_successor_def unlink_predecessor_def attempt_of_def split: option.split)

lemma attempt_of_compact:
  assumes "attempts_keyed s" and x: "attempt_of s a = Some x"
  shows "attempt_of (compact_attempt q a s) b =
    (if b = a then None else map_option (unlinked_record a x) (attempt_of s b))"
proof -
  let ?r = "s\<lparr>load_attempts := bt_remove a (load_attempts s)\<rparr>"
  have "attempt_of (compact_attempt q a s) b = attempt_of (unlink_predecessor a x (unlink_successor a x ?r)) b"
    using x by (simp add: compact_attempt_def attempt_of_def Let_def split: option.split)
  moreover have "attempt_of ?r b = (if b = a then None else attempt_of s b)"
    by (simp add: attempt_of_def)
  moreover have "la_id y = b" if "attempt_of s b = Some y" for y
    using that assms(1) by (simp add: attempts_keyed_iff)
  ultimately show ?thesis
    unfolding attempt_of_unlink
    by (cases "attempt_of s b"; cases "la_superseded_by x = Some b"; cases "la_replaced_attempt x = Some b")
      (simp_all add: unlinked_record_def Let_def)
qed

lemma unlinked_record_simps [simp]:
  "la_id (unlinked_record a x y) = la_id y" "la_epoch (unlinked_record a x y) = la_epoch y"
  "la_playlist_entry_id (unlinked_record a x y) = la_playlist_entry_id y"
  "la_logical_ownership_revoked (unlinked_record a x y) = la_logical_ownership_revoked y"
  "attempt_is_terminal (la_state (unlinked_record a x y)) = attempt_is_terminal (la_state y)"
  "is_quiescent (la_state (unlinked_record a x y)) = is_quiescent (la_state y)"
  "la_state (unlinked_record a x y) = Submitting \<longleftrightarrow> la_state y = Submitting"
  "untouched (unlinked_record a x y) = untouched y"
  by (simp_all add: unlinked_record_def untouched_def Let_def)

lemma unlinked_record_links:
  "la_replaced_attempt (unlinked_record a x y) =
     (if la_superseded_by x = Some (la_id y) \<and> la_replaced_attempt y = Some a then None
      else la_replaced_attempt y)"
  "la_superseded_by (unlinked_record a x y) =
     (if la_replaced_attempt x = Some (la_id y) \<and> la_superseded_by y = Some a then None
      else la_superseded_by y)"
  by (simp_all add: unlinked_record_def Let_def)

lemma unlinked_local: "attempt_local_ok y \<Longrightarrow> attempt_local_ok (unlinked_record a x y)"
proof -
  have "attempt_local_ok (y\<lparr>la_superseded_by := None,
      la_state := (if la_state y = SupersededMayStillEmit a then MayStillEmit else la_state y)\<rparr>)"
    if "attempt_local_ok y" "la_superseded_by y = Some a" for y
    using that by (cases "la_state y") (auto simp: local_defs)
  then show "attempt_local_ok y \<Longrightarrow> attempt_local_ok (unlinked_record a x y)"
    by (simp add: unlinked_record_def Let_def)
qed

lemma attempts_ok_compact:
  assumes ok: "attempts_ok {} s" and dead: "\<And>x. attempt_of s a = Some x \<Longrightarrow> attempt_is_terminal (la_state x)"
  shows "attempts_ok {} (compact_attempt q a s)" (is "attempts_ok {} ?s")
proof (cases "attempt_of s a")
  case None
  with ok show ?thesis by (simp add: compact_attempt_def)
next
  case (Some x)
  have keyed: "attempts_keyed s"
    using ok by (auto simp: attempts_keyed_iff attempts_ok_def record_ok_def)
  note of = attempt_of_compact [OF keyed Some, of q]
  note rec = attempts_okD [OF ok]
  have "record_ok {} ?s b (unlinked_record a x y)" if b: "attempt_of s b = Some y" "b \<noteq> a" for b y
  proof -
    note r = rec [OF b(1), unfolded record_ok_def links_ok_def]
    have "\<exists>z. attempt_of ?s c = Some z \<and> la_replaced_attempt z = Some (la_id y)"
      if c: "la_superseded_by (unlinked_record a x y) = Some c" for c
    proof -
      from c have c': "la_superseded_by y = Some c"
        by (simp add: unlinked_record_links split: if_splits)
      then obtain z where z: "attempt_of s c = Some z" "la_replaced_attempt z = Some (la_id y)"
        using r by blast
      have "c \<noteq> a" using c c' z Some by (auto simp: unlinked_record_links)
      moreover have "la_id y \<noteq> a" using r b(2) by simp
      ultimately show ?thesis
        using z by (simp add: of unlinked_record_links)
    qed
    then have "links_ok ?s (unlinked_record a x y)"
      using r by (auto simp: links_ok_def unlinked_record_links split: if_splits)
    with r show ?thesis
      by (simp add: record_ok_def unlinked_local)
  qed
  moreover have "mapping_ok ?s"
    using ok dead [OF Some] Some
    by (fastforce simp: attempts_ok_def mapping_ok_def of)
  moreover have "active_ok ?s"
    using ok dead [OF Some] Some
    by (fastforce simp: attempts_ok_def active_ok_def of transport_owner_def)
  ultimately show ?thesis
    using ok by (auto simp: attempts_ok_def of split: if_splits)
qed

lemma keyed_compact:
  assumes "attempts_keyed s" shows "attempts_keyed (compact_attempt q a s)"
proof (cases "attempt_of s a")
  case None
  with assms show ?thesis by (simp add: compact_attempt_def)
next
  case (Some x)
  from assms show ?thesis
    by (auto simp: attempts_keyed_iff attempt_of_compact [OF assms Some] split: if_splits)
qed

end
