(* ===== verification/Lifecycle_Load_Outcomes.thy ===== *)
theory Lifecycle_Load_Outcomes
  imports Lifecycle_Attempt_Runs
begin

text \<open>
  The attempt invariant along whole runs of inputs, peeks and acknowledgements, and exactly one
  published outcome per load attempt.
\<close>

section \<open>Runs keep the attempts in order\<close>

definition attempt_fields ::
  "'a lifecycle \<Rightarrow> PlayerAttachmentEpoch \<times> (LoadAttemptId, LoadAttempt) btree_map
     \<times> (i64, LoadAttemptId) btree_map \<times> LoadAttemptId option \<times> u64" where
  "attempt_fields s =
     (attachment_epoch s, load_attempts s, playlist_entry_attempts s, active_load_attempt s,
      next_load_attempt_id s)"

lemma attempts_good_cong:
  "attempt_fields s = attempt_fields s' \<Longrightarrow> attempts_good X s = attempts_good X s'"
  by (simp add: attempts_good_def attempts_ok_def record_ok_def links_ok_def mapping_ok_def active_ok_def
      attempts_keyed_def attempt_of_def attempt_fields_def)

lemma attempt_fields_extend:
  "attempt_fields (PlayerLifecycleState.extend s x) = attempt_fields s"
  "attempt_fields (PlayerLifecycleState.truncate c) = attempt_fields c"
  by (simp_all add: attempt_fields_def PlayerLifecycleState.defs)

lemma attempt_fields_updates [simp]:
  "attempt_fields (s\<lparr>seek_ownership := x1\<rparr>) = attempt_fields s"
  "attempt_fields (s\<lparr>retired_seek_tombstones := x2\<rparr>) = attempt_fields s"
  "attempt_fields (s\<lparr>uncertain_seek_generations := x3\<rparr>) = attempt_fields s"
  "attempt_fields (s\<lparr>terminal_attempt_tombstones := x4, retired_command_tombstones := x5\<rparr>) = attempt_fields s"
  "attempt_fields (s\<lparr>cached_batch := x6\<rparr>) = attempt_fields s"
  "attempt_fields (s\<lparr>cached_batch := x6, retired_epoch_deliveries := x7\<rparr>) = attempt_fields s"
  "attempt_fields (s\<lparr>next_acknowledgement_token := x8\<rparr>) = attempt_fields s"
  by (simp_all add: attempt_fields_def)

lemma attempt_fields_delivery [simp]:
  "attempt_fields (retire_command_record k s) = attempt_fields s"
  "attempt_fields (store_delivery d s) = attempt_fields s"
  "attempt_fields (prune_snapshot_covered_events s) = attempt_fields s"
  "attempt_fields (pruned_for_peek s) = attempt_fields s"
  by (simp_all add: attempt_fields_def store_delivery_def prune_snapshot_covered_events_def
      pruned_for_peek_def Let_def)

lemma attempt_fields_compact_seek [simp]: "attempt_fields (compact_seek entry s) = attempt_fields s"
  by (simp add: compact_seek_def push_retired_seek_tombstone_def Let_def split_def split: list.split)

lemma attempts_good_compact_attempt:
  assumes "attempts_good {} s" and "\<And>x. attempt_of s a = Some x \<Longrightarrow> attempt_is_terminal (la_state x)"
  shows "attempts_good {} (compact_attempt q a s)"
  using assms by (simp add: attempts_good_def keyed_compact attempts_ok_compact)

lemma terminal_compact:
  assumes "attempts_keyed s" and "\<And>x. attempt_of s b = Some x \<Longrightarrow> attempt_is_terminal (la_state x)"
    and "attempt_of (compact_attempt q a s) b = Some y"
  shows "attempt_is_terminal (la_state y)"
proof (cases "attempt_of s a")
  case None
  with assms show ?thesis by (simp add: compact_attempt_def)
next
  case (Some x)
  with assms show ?thesis
    by (auto simp: attempt_of_compact [OF assms(1) Some] split: if_splits)
qed

lemma attempts_good_compact_attempts:
  assumes "attempts_good {} s"
    and "\<And>a x. a \<in> set ids \<Longrightarrow> attempt_of s a = Some x \<Longrightarrow> attempt_is_terminal (la_state x)"
  shows "attempts_good {} (fold (compact_attempt q) ids s)"
  using assms
proof (induction ids arbitrary: s)
  case (Cons a ids)
  have keyed: "attempts_keyed s" using Cons.prems(1) by (simp add: attempts_good_def)
  have "attempts_good {} (compact_attempt q a s)"
    by (rule attempts_good_compact_attempt) (use Cons.prems in auto)
  moreover have "attempt_is_terminal (la_state x)"
    if "b \<in> set ids" "attempt_of (compact_attempt q a s) b = Some x" for b x
    using terminal_compact [OF keyed _ that(2)] Cons.prems(2) [of b] that(1) by auto
  ultimately show ?case using Cons.IH by simp
qed simp

lemma attempts_good_compact:
  assumes good: "attempts_good {} s"
  shows "attempts_good {} (compact_acknowledged_lifecycle q s)"
proof -
  let ?ids = "map la_id (filter (acknowledged_terminal_attempt q) (bt_values (load_attempts s)))"
  have keyed: "attempts_keyed s" using good by (simp add: attempts_good_def)
  have dead: "attempt_is_terminal (la_state x)" if "a \<in> set ?ids" "attempt_of s a = Some x" for a x
    using that keyed_values [OF keyed] by (auto simp: acknowledged_terminal_attempt_def)
  have "attempt_fields (compact_acknowledged_lifecycle q s) = attempt_fields (fold (compact_attempt q) ?ids s)"
    by (simp add: compact_acknowledged_lifecycle_def Let_def fold_keeps [of attempt_fields])
  then show ?thesis
    by (rule iffD2 [OF attempts_good_cong]) (rule attempts_good_compact_attempts [OF good]; erule (1) dead)
qed

lemma attempts_good_empty:
  "load_attempts s = [] \<Longrightarrow> playlist_entry_attempts s = [] \<Longrightarrow> active_load_attempt s = None \<Longrightarrow>
   attempts_good X s"
  by (simp add: attempts_good_def attempts_ok_def attempts_keyed_def attempt_of_def mapping_ok_def
      active_ok_def)

lemma attachment_replaced_attempts:
  "load_attempts (attachment_replaced c) = []" "playlist_entry_attempts (attachment_replaced c) = []"
  "active_load_attempt (attachment_replaced c) = None"
  by (simp_all add: attachment_replaced_def open_next_epoch_def push_effect_def Let_def)

lemma attempts_good_reduce:
  assumes "attempts_good {} s"
  shows "attempts_good {} (fst (reduce_player_lifecycle s input))"
proof -
  let ?c = "PlayerLifecycleState.extend s (reducer_context.fields [])"
  have start: "attempts_good {} ?c"
    by (rule iffD2 [OF attempts_good_cong [OF attempt_fields_extend(1)] assms])
  have "attempts_good {} (handle_input input ?c)"
  proof (cases "input = AttachmentReplaced")
    case True
    then show ?thesis by (simp add: attempts_good_empty attachment_replaced_attempts)
  next
    case False
    then show ?thesis by (rule attempts.handle_input [OF _ start])
  qed
  then show ?thesis
    by (simp add: reduce_player_lifecycle_def Let_def attempts_good_cong [OF attempt_fields_extend(2)])
qed

lemma attempts_good_lifecycle_step:
  assumes good: "attempts_good {} s"
  shows "attempts_good {} (fst (lifecycle_step l s))"
proof (cases l)
  case Peek
  have "attempt_fields (snd (peek_event_batch s)) = attempt_fields s"
    by (cases "cached_batch s") (simp_all add: peek_cached peek_uncached Let_def)
  from iffD2 [OF attempts_good_cong [OF this] good] Peek show ?thesis by simp
next
  case (Acknowledge token)
  have same: "attempts_good X (prune_snapshot_covered_events s') = attempts_good X s'"
    "attempts_good X (store_delivery d s') = attempts_good X s'"
    "attempts_good X (s'\<lparr>cached_batch := b, retired_epoch_deliveries := ds\<rparr>) = attempts_good X s'"
    "attempts_good X (s'\<lparr>cached_batch := b\<rparr>) = attempts_good X s'"
    for X and s' :: PlayerLifecycleState and d b ds
    by (rule attempts_good_cong; simp)+
  from good Acknowledge show ?thesis
    by (auto simp: acknowledge_event_batch_def Let_def same intro!: attempts_good_compact
        split: option.split list.split)
qed (simp add: split_def Let_def attempts_good_reduce good)

interpretation attempts_run: step_invariant lifecycle_step "\<lambda>_. True" "attempts_good {}"
  by unfold_locales (simp_all add: attempts_good_lifecycle_step)

lemma attempts_good_new_state: "attempts_good X (new_state epoch)"
  by (rule attempts_good_empty) (simp_all add: new_state_def)

section \<open>Exactly one outcome per attempt\<close>

definition load_outcomes :: "LoadAttemptId \<Rightarrow> PlayerLifecycleEffect list \<Rightarrow> SequencedPlayerSemanticOutcome list" where
  "load_outcomes a fx =
     filter (\<lambda>outcome. case so_outcome outcome of
               Command _ \<Rightarrow> False
             | LoadAttempt published \<Rightarrow> lo_attempt_id published = a) (emitted_outcomes fx)"

definition same_load :: "LoadAttempt \<Rightarrow> LoadAttempt \<Rightarrow> bool" where
  "same_load x y \<longleftrightarrow>
     la_id y = la_id x \<and> la_epoch y = la_epoch x \<and> la_media_generation y = la_media_generation x
     \<and> la_command_id y = la_command_id x \<and> la_requested_target y = la_requested_target x"

definition same_settlement :: "LoadAttempt \<Rightarrow> LoadAttempt \<Rightarrow> bool" where
  "same_settlement x y \<longleftrightarrow>
     same_load x y \<and> la_semantic_load_result y = la_semantic_load_result x
     \<and> la_semantic_outcome_sequence y = la_semantic_outcome_sequence x"

text \<open>What has been published for an attempt is what its record says; only the loaded target is not kept.\<close>

definition published_load ::
  "PlayerAttachmentEpoch \<Rightarrow> LoadAttempt \<Rightarrow> SequencedPlayerSemanticOutcome list \<Rightarrow> bool" where
  "published_load epoch x outcomes =
     (case (la_semantic_outcome_sequence x, la_semantic_load_result x) of
        (Some sequence, Some result) \<Rightarrow>
          (\<exists>loaded_target. outcomes =
             [\<lparr>so_order = \<lparr>eo_epoch = epoch, eo_sequence = sequence\<rparr>,
               so_outcome = LoadAttempt \<lparr>lo_epoch = la_epoch x, lo_attempt_id = la_id x,
                 lo_media_generation = la_media_generation x, lo_command_id = la_command_id x,
                 lo_requested_target = la_requested_target x, lo_loaded_target = loaded_target,
                 lo_result = result\<rparr>\<rparr>])
      | _ \<Rightarrow> outcomes = [])"

definition load_once ::
  "LoadAttemptId \<Rightarrow> LoadAttempt option \<Rightarrow> PlayerAttachmentEpoch \<Rightarrow> reducer_context \<Rightarrow> bool" where
  "load_once a prior epoch c \<longleftrightarrow>
     attachment_epoch c = epoch \<and>
     (case prior of
        None \<Rightarrow>
          (case attempt_of c a of
             None \<Rightarrow> load_outcomes a (effects c) = []
           | Some y \<Rightarrow> published_load epoch y (load_outcomes a (effects c)))
      | Some x \<Rightarrow>
          (\<exists>y. attempt_of c a = Some y \<and> same_load x y \<and>
             (if la_semantic_load_result x = None
              then published_load epoch y (load_outcomes a (effects c))
              else same_settlement x y \<and> load_outcomes a (effects c) = [])))"

definition settles_once ::
  "LoadAttemptId \<Rightarrow> LoadAttempt option \<Rightarrow> PlayerAttachmentEpoch \<Rightarrow> LoadAttemptId set \<Rightarrow> reducer_context \<Rightarrow> bool" where
  "settles_once a prior epoch X c \<longleftrightarrow>
     attempts_good X c \<and> (next_load_attempt_id c < u64_max \<longrightarrow> load_once a prior epoch c)"

lemma load_outcomes_append [simp]: "load_outcomes a (fx @ gx) = load_outcomes a fx @ load_outcomes a gx"
  by (simp add: load_outcomes_def)

lemma load_outcomes_load_effects: "load_outcomes a fx = load_outcomes a (load_effects fx)"
proof (induction fx)
  case (Cons e fx)
  then show ?case
    by (cases e) (auto simp: load_effects_def load_outcomes_def
        split: PlayerSemanticOutcome.split PlayerSemanticOutcome.split_asm)
qed (simp add: load_effects_def)

lemma load_outcomes_view:
  "attempt_view c = attempt_view c' \<Longrightarrow> load_outcomes a (effects c) = load_outcomes a (effects c')"
  using load_outcomes_load_effects [of a "effects c"] load_outcomes_load_effects [of a "effects c'"]
  by (simp add: attempt_view_def)

lemma load_once_same:
  assumes "load_once a prior epoch c"
    and "attachment_epoch c' = attachment_epoch c" "load_outcomes a (effects c') = load_outcomes a (effects c)"
    and rel: "rel_option same_settlement (attempt_of c a) (attempt_of c' a)"
  shows "load_once a prior epoch c'"
proof -
  have pub: "published_load e y' os" if "same_settlement y y'" "published_load e y os" for e y y' os
    using that
    by (auto simp: same_settlement_def same_load_def published_load_def split: option.split option.split_asm)
  have trans: "same_load x y'" "same_settlement x y \<Longrightarrow> same_settlement x y'"
    if "same_load x y" "same_settlement y y'" for x y y'
    using that by (auto simp: same_settlement_def same_load_def)
  show ?thesis
    using assms(1-3) rel
    by (cases "attempt_of c a"; cases "attempt_of c' a")
      (auto simp: load_once_def intro: pub trans split: option.splits if_splits)
qed

lemma same_settlement_refl [simp]: "same_settlement x x"
  by (simp add: same_settlement_def same_load_def)

lemma rel_same [simp]: "rel_option same_settlement v v"
  by (cases v) simp_all

lemma load_outcomes_emit:
  "load_outcomes b (effects (emit_load_outcome a r t c)) = load_outcomes b (effects c) @
     (case attempt_of c a of
        None \<Rightarrow> []
      | Some x \<Rightarrow>
          if b = a \<and> la_semantic_load_result x = None
          then [\<lparr>so_order = fst (next_order c),
                 so_outcome = LoadAttempt \<lparr>lo_epoch = la_epoch x, lo_attempt_id = a,
                   lo_media_generation = la_media_generation x, lo_command_id = la_command_id x,
                   lo_requested_target = la_requested_target x, lo_loaded_target = t, lo_result = r\<rparr>\<rparr>]
          else [])"
  by (auto simp: emit_load_outcome_def retain_outcome_def next_order_def push_effect_def modify_attempt_def
      load_outcomes_def Let_def split: option.split)

lemma load_once_emit_at:
  assumes once: "load_once b prior epoch c"
    and ok: "\<And>x. attempt_of c a = Some x \<Longrightarrow> la_semantic_load_result x = None \<Longrightarrow>
      la_id x = a \<and> la_semantic_outcome_sequence x = None"
  shows "load_once b prior epoch (emit_load_outcome a r t c)"
proof (cases "attempt_of c a")
  case None
  with once show ?thesis by (simp add: emit_load_outcome_def)
next
  case (Some x)
  show ?thesis
  proof (cases "b = a \<and> la_semantic_load_result x = None")
    case False
    with Some show ?thesis
      by (intro load_once_same [OF once]) (auto simp: load_outcomes_emit attempt_of_emit emitted_record_def)
  next
    case True
    have x: "la_id x = a" "la_semantic_outcome_sequence x = None"
      using ok [OF Some] True by auto
    from True once Some x have "load_outcomes a (effects c) = []"
      by (auto simp: load_once_def published_load_def same_settlement_def split: option.splits if_splits)
    with True once Some x show ?thesis
      by (auto simp: load_once_def load_outcomes_emit attempt_of_emit emitted_record_def published_load_def
          same_settlement_def same_load_def next_order_def Let_def split: option.splits if_splits)
  qed
qed

lemma unsettled_record:
  "attempts_ok X c \<Longrightarrow> attempt_of c a = Some x \<Longrightarrow> la_semantic_load_result x = None \<Longrightarrow>
   la_id x = a \<and> la_semantic_outcome_sequence x = None"
  by (drule (1) attempts_okD) (auto simp: record_ok_def attempt_local_ok_def attempt_results_ok_def)

lemma load_once_emit:
  "load_once b prior epoch c \<Longrightarrow> attempts_ok X c \<Longrightarrow> load_once b prior epoch (emit_load_outcome a r t c)"
  by (erule load_once_emit_at) (rule unsettled_record)

lemma settles_once_weaker:
  assumes "settles_once b prior epoch X c" and "attempts_good Y c'"
    and "next_load_attempt_id c' = next_load_attempt_id c"
    and "attempts_ok X c \<Longrightarrow> load_once b prior epoch c \<Longrightarrow> load_once b prior epoch c'"
  shows "settles_once b prior epoch Y c'"
  using assms by (simp add: settles_once_def attempts_good_def)

lemma settles_once_keeps:
  assumes "settles_once b prior epoch X c" and "attempts_good Y c'"
    and "next_load_attempt_id c' = next_load_attempt_id c"
    and "attachment_epoch c' = attachment_epoch c" "effects c' = effects c"
    and "attempts_ok X c \<Longrightarrow> rel_option same_settlement (attempt_of c b) (attempt_of c' b)"
  shows "settles_once b prior epoch Y c'"
  by (rule settles_once_weaker [OF assms(1-3)]) (rule load_once_same, use assms in auto)

lemma settles_once_view:
  "attempt_view c = attempt_view c' \<Longrightarrow> settles_once b prior epoch X c = settles_once b prior epoch X c'"
  using attempts_good_view [of c c' X] attempt_view_fields [of c c'] load_outcomes_view [of c c' b]
  by (simp add: settles_once_def load_once_def split: option.split)

lemma effects_modify [simp]:
  "effects (modify_attempt a f c) = effects c" "effects (insert_attempt x c) = effects c"
  "effects (supersede_predecessor p a c) = effects c"
  by (simp_all add: modify_attempt_def insert_attempt_def supersede_predecessor_def
      allocate_load_attempt_id_def retain_only_selected_successor_claim_def Let_def)

lemma edit_settlement: "attempt_edit x y \<Longrightarrow> same_settlement x y"
  by (auto simp: attempt_edit_def same_attempt_def same_settlement_def same_load_def)

lemma record_settlement [simp]:
  "same_settlement x (bound_record pe x)" "same_settlement x (superseded_record p a x)"
  "same_settlement x (x\<lparr>la_replaced_attempt := v\<rparr>)"
  by (simp_all add: same_settlement_def same_load_def bound_record_def superseded_record_def Let_def)

lemma settles_once_edit:
  assumes once: "settles_once b prior epoch X c"
    and pre: "\<And>x. attempts_ok X c \<Longrightarrow> attempt_of c a = Some x \<Longrightarrow>
      attempt_edit x (f x) \<and> (active_load_attempt c = Some a \<longrightarrow> \<not> is_quiescent (la_state (f x)))"
    and ids: "\<And>x. la_id (f x) = la_id x"
  shows "settles_once b prior epoch X (modify_attempt a f c)"
proof (rule settles_once_keeps [OF once])
  show "attempts_good X (modify_attempt a f c)"
    by (rule attempts_good_edit) (use assms in \<open>auto simp: settles_once_def\<close>)
  show "rel_option same_settlement (attempt_of c b) (attempt_of (modify_attempt a f c) b)" if "attempts_ok X c"
    using pre [OF that] by (cases "attempt_of c b") (auto dest: edit_settlement)
qed simp_all

lemma settles_once_supersede:
  assumes "settles_once b prior epoch X c" "attempt_of c p = Some x" "\<not> attempt_is_terminal (la_state x)"
    "attempt_of c a = Some z" "la_replaced_attempt z = Some p"
  shows "settles_once b prior epoch X (supersede_predecessor p a c)"
proof (rule settles_once_keeps [OF assms(1)])
  show "attempts_good X (supersede_predecessor p a c)"
    using assms by (intro attempts_good_supersede) (auto simp: settles_once_def)
  show "rel_option same_settlement (attempt_of c b) (attempt_of (supersede_predecessor p a c) b)"
    by (cases "attempt_of c b") (auto simp: attempt_of_supersede)
qed simp_all

lemma settles_once_bind:
  assumes once: "settles_once b prior epoch {} c"
    and pre: "attempts_ok {} c \<Longrightarrow> attempt_of c a = Some x \<and> bindable pe c a x"
  shows "settles_once b prior epoch {} ((modify_attempt a (bound_record pe) c)
    \<lparr>playlist_entry_attempts := bt_insert pe a (playlist_entry_attempts c)\<rparr>)" (is "settles_once b prior epoch {} ?c")
proof (rule settles_once_keeps [OF once])
  show "attempts_good {} ?c"
    using once pre by (intro attempts_good_bind) (auto simp: settles_once_def)
  show "rel_option same_settlement (attempt_of c b) (attempt_of ?c b)"
    by (cases "attempt_of c b") auto
qed simp_all

lemma settles_once_emit:
  assumes once: "settles_once b prior epoch X c"
    and pre: "\<And>x. attempts_ok X c \<Longrightarrow> attempt_of c a = Some x \<Longrightarrow>
      la_file_loaded_deadline_tick x = None \<and> (a \<in> X \<or> la_state x \<noteq> Submitting)"
  shows "settles_once b prior epoch X (emit_load_outcome a r t c)"
proof (rule settles_once_weaker [OF once])
  show "attempts_good X (emit_load_outcome a r t c)"
    using once pre by (intro attempts_good_emit) (auto simp: settles_once_def)
qed (simp_all add: load_once_emit)

lemma settles_once_active:
  assumes "settles_once b prior epoch X c" and "attempts_good Y (c\<lparr>active_load_attempt := v\<rparr>)"
  shows "settles_once b prior epoch Y (c\<lparr>active_load_attempt := v\<rparr>)"
  by (rule settles_once_keeps [OF assms]) simp_all

lemma settles_once_mapping:
  assumes "settles_once b prior epoch X c" and "attempts_good Y (c\<lparr>playlist_entry_attempts := m\<rparr>)"
  shows "settles_once b prior epoch Y (c\<lparr>playlist_entry_attempts := m\<rparr>)"
  by (rule settles_once_keeps [OF assms]) simp_all

lemma settles_once_terminate:
  assumes once: "settles_once b prior epoch X c" and x: "attempt_of c a = Some x"
      "\<not> attempt_is_terminal (la_state x)"
    and X: "X \<subseteq> {a}" "a \<notin> X \<or> la_playlist_entry_id x = None"
  shows "settles_once b prior epoch {} (terminate_attempt a out x c)"
proof (rule settles_once_weaker [OF once])
  show "attempts_good {} (terminate_attempt a out x c)"
    using once x X by (intro attempts_good_terminate) (auto simp: settles_once_def)
  assume ok: "attempts_ok X c" and load: "load_once b prior epoch c"
  let ?d = "detach_terminal_attempt a out x c"
  let ?t = "queue_event (LoadAttemptTerminal a (la_media_generation x) out) ?d"
  let ?e = "modify_attempt a (\<lambda>y. y\<lparr>la_physical_terminal_sequence := Some (eo_sequence (fst ?t))\<rparr>) (snd ?t)"
  have of: "attempt_of ?e b' = (if b' = a
      then Some (x\<lparr>la_state := Terminal out, la_reconcile_until_tick := None,
        la_file_loaded_deadline_tick := None, la_physical_terminal_sequence := Some (eo_sequence (fst ?t))\<rparr>)
      else attempt_of c b')" for b'
    using x(1) by (simp add: detach_fields)
  have fx: "load_outcomes b (effects ?e) = load_outcomes b (effects c)"
    using load_outcomes_view [OF attempt_view_queue_event [of _ ?d]]
    by (simp add: detach_terminal_attempt_def Let_def modify_attempt_def split: option.split)
  have e: "load_once b prior epoch ?e"
    using x(1) fx
    by (intro load_once_same [OF load])
      (auto simp: of same_settlement_def same_load_def detach_fields)
  have e': "load_once b prior epoch (emit_load_outcome a r t ?e)" if "la_semantic_load_result x = None" for r t
    using unsettled_record [OF ok x(1) that]
    by (intro load_once_emit_at [OF e]) (unfold of, auto)
  show "load_once b prior epoch (terminate_attempt a out x c)"
    using e e' by (simp add: terminate_attempt_def Let_def split_def)
qed (simp add: terminate_fields)

lemma settles_once_insert:
  assumes once: "settles_once b prior epoch {} c" and id: "la_id x = fst (allocate_load_attempt_id c)"
    and fresh: "attempts_ok {} c \<Longrightarrow> fresh_attempt c x" and X: "la_playlist_entry_id x = None \<or> la_id x \<in> X"
  shows "settles_once b prior epoch X (insert_attempt x c)"
proof -
  have good: "attempts_good X (insert_attempt x c)"
    using assms by (intro attempts_good_insert) (auto simp: settles_once_def)
  have "load_once b prior epoch (insert_attempt x c)" if "next_load_attempt_id (insert_attempt x c) < u64_max"
  proof -
    have room: "next_load_attempt_id c < u64_max" by (rule insert_attempt_next [OF that])
    with once have ok: "attempts_ok {} c" and load: "load_once b prior epoch c"
      by (simp_all add: settles_once_def attempts_good_def)
    have none: "attempt_of c (la_id x) = None"
      using attempts_okD [OF ok, of "la_id x"]
      by (cases "attempt_of c (la_id x)") (auto simp: record_ok_def id allocate_load_attempt_id_def Let_def)
    have of: "attempt_of (insert_attempt x c) b' = (if b' = la_id x then Some x else attempt_of c b')" for b'
      by (simp add: insert_attempt_def attempt_of_def)
    have epoch: "attachment_epoch (insert_attempt x c) = attachment_epoch c"
      by (simp add: insert_attempt_def allocate_load_attempt_id_def Let_def)
    show ?thesis
      using load none fresh [OF ok]
      by (cases "b = la_id x")
        (auto simp: load_once_def of epoch published_load_def fresh_attempt_def split: option.splits)
  qed
  with good show ?thesis by (simp add: settles_once_def)
qed

interpretation loads: attempt_invariant "settles_once b prior epoch" for b prior epoch
proof (unfold_locales, goal_cases)
  case (1 c c' X)
  then show ?case by (rule settles_once_view)
next
  case (2 X c)
  then show ?case by (simp add: settles_once_def attempts_good_def)
next
  case (3 c X)
  then show ?case by (auto simp: settles_once_def attempts_good_def attempts_ok_weaken)
next
  case (4 X c a r t)
  then show ?case by (rule settles_once_emit) auto
next
  case (5 X c a f)
  then show ?case by (rule settles_once_edit) auto
next
  case (6 X c p x a z)
  then show ?case by (rule settles_once_supersede)
next
  case (7 c a x pe)
  then show ?case by (rule settles_once_bind) auto
next
  case (8 c a)
  then show ?case
    by (intro settles_once_active attempts_good_activate) (auto simp: settles_once_def)
next
  case (9 X c)
  then show ?case
    by (intro settles_once_active attempts_good_deactivate) (auto simp: settles_once_def)
next
  case (10 X c a x out)
  then show ?case by (rule settles_once_terminate)
next
  case (11 c x)
  then show ?case by (intro settles_once_insert) auto
next
  case (12 c x)
  then show ?case by (intro settles_once_insert) auto
next
  case (13 a c pe)
  then show ?case
    by (intro settles_once_mapping attempts_good_publish) (auto simp: settles_once_def)
qed

section \<open>Inputs\<close>

lemma attempt_of_extended:
  "attempt_of (PlayerLifecycleState.extend s x) = attempt_of s"
  "attempt_of (PlayerLifecycleState.truncate c) = attempt_of c"
  "next_load_attempt_id (PlayerLifecycleState.extend s x) = next_load_attempt_id s"
  "next_load_attempt_id (PlayerLifecycleState.truncate c) = next_load_attempt_id c"
  by (simp_all add: attempt_of_def [abs_def] PlayerLifecycleState.defs)

lemma settles_once_start:
  assumes "attempts_good {} s"
  shows "settles_once a (attempt_of s a) (attachment_epoch s) {}
    (PlayerLifecycleState.extend s (reducer_context.fields []))" (is "settles_once _ _ _ _ ?c")
proof -
  have good: "attempts_good {} ?c"
    by (rule iffD2 [OF attempts_good_cong [OF attempt_fields_extend(1)] assms])
  have none: "load_outcomes a [] = []" and refl: "same_load x x" for x
    by (simp_all add: load_outcomes_def same_load_def)
  have "published_load e x []" if "la_semantic_load_result x = None" for e x
    using that by (simp add: published_load_def split: option.split)
  then have "load_once a (attempt_of s a) (attachment_epoch s) ?c"
    unfolding load_once_def attempt_of_extended extended_context none
    by (auto simp: refl split: option.split)
  with good show ?thesis by (simp add: settles_once_def)
qed

lemma reduce_load_once:
  assumes good: "attempts_good {} s" and input: "input \<noteq> AttachmentReplaced"
    and room: "next_load_attempt_id (fst (reduce_player_lifecycle s input)) < u64_max"
  shows "attempt_of s a = Some x \<Longrightarrow> la_semantic_load_result x \<noteq> None \<Longrightarrow>
      (\<exists>y. attempt_of (fst (reduce_player_lifecycle s input)) a = Some y \<and> same_settlement x y)
      \<and> load_outcomes a (snd (reduce_player_lifecycle s input)) = []"
    and "attempt_of s a = Some x \<Longrightarrow> la_semantic_load_result x = None \<Longrightarrow>
      \<exists>y. attempt_of (fst (reduce_player_lifecycle s input)) a = Some y \<and> same_load x y
        \<and> published_load (attachment_epoch s) y (load_outcomes a (snd (reduce_player_lifecycle s input)))"
    and "attempt_of s a = None \<Longrightarrow>
      (case attempt_of (fst (reduce_player_lifecycle s input)) a of
         None \<Rightarrow> load_outcomes a (snd (reduce_player_lifecycle s input)) = []
       | Some y \<Rightarrow> published_load (attachment_epoch s) y
           (load_outcomes a (snd (reduce_player_lifecycle s input))))"
proof -
  let ?c = "handle_input input (PlayerLifecycleState.extend s (reducer_context.fields []))"
  have s': "fst (reduce_player_lifecycle s input) = PlayerLifecycleState.truncate ?c"
    "snd (reduce_player_lifecycle s input) = effects ?c"
    by (simp_all add: reduce_player_lifecycle_def Let_def)
  have "settles_once a (attempt_of s a) (attachment_epoch s) {} ?c"
    by (rule loads.handle_input [OF input settles_once_start [OF good]])
  then have once: "load_once a (attempt_of s a) (attachment_epoch s) ?c"
    using room unfolding s' attempt_of_extended by (simp add: settles_once_def)
  show "attempt_of s a = Some x \<Longrightarrow> la_semantic_load_result x \<noteq> None \<Longrightarrow>
      (\<exists>y. attempt_of (fst (reduce_player_lifecycle s input)) a = Some y \<and> same_settlement x y)
      \<and> load_outcomes a (snd (reduce_player_lifecycle s input)) = []"
    and "attempt_of s a = Some x \<Longrightarrow> la_semantic_load_result x = None \<Longrightarrow>
      \<exists>y. attempt_of (fst (reduce_player_lifecycle s input)) a = Some y \<and> same_load x y
        \<and> published_load (attachment_epoch s) y (load_outcomes a (snd (reduce_player_lifecycle s input)))"
    and "attempt_of s a = None \<Longrightarrow>
      (case attempt_of (fst (reduce_player_lifecycle s input)) a of
         None \<Rightarrow> load_outcomes a (snd (reduce_player_lifecycle s input)) = []
       | Some y \<Rightarrow> published_load (attachment_epoch s) y
           (load_outcomes a (snd (reduce_player_lifecycle s input))))"
    using once unfolding s' attempt_of_extended
    by (auto simp: load_once_def split: option.split)
qed

section \<open>Replacing the attachment settles every attempt\<close>

lemma commit_terminates:
  obtains (unchanged) "commit_physical_attempt_terminal b out c = c"
      "\<And>z. attempt_of c b = Some z \<Longrightarrow> la_epoch z \<noteq> attachment_epoch c \<or> attempt_is_terminal (la_state z)"
  | (terminated) z q n where "attempt_of c b = Some z" "\<not> attempt_is_terminal (la_state z)"
      "\<And>a. attempt_of (commit_physical_attempt_terminal b out c) a =
        (if a = b then Some (terminal_record out q n z) else attempt_of c a)"
      "attachment_epoch (commit_physical_attempt_terminal b out c) = attachment_epoch c"
      "next_load_attempt_id (commit_physical_attempt_terminal b out c) = next_load_attempt_id c"
proof (cases "\<exists>z. attempt_of c b = Some z \<and> la_epoch z = attachment_epoch c \<and> \<not> attempt_is_terminal (la_state z)")
  case True
  then obtain z where z: "attempt_of c b = Some z" "\<not> attempt_is_terminal (la_state z)"
      "la_epoch z = attachment_epoch c" by blast
  obtain q n where "\<And>a. attempt_of (terminate_attempt b out z c) a =
      (if a = b then Some (terminal_record out q n z) else attempt_of c a)"
    using terminate_record [OF z(1), of out] by blast
  with z show thesis
    using attempt_view_fields(1,4,5) [OF attempt_view_commit [OF z, of out]]
    by (intro terminated) (simp_all add: terminate_fields)
next
  case False
  then show thesis
    by (intro unchanged) (auto simp: commit_physical_attempt_terminal_def split: option.split)
qed

lemma commit_all_next: "next_load_attempt_id (commit_all out ids c) = next_load_attempt_id c"
proof (induction ids rule: rev_induct)
  case (snoc b ids)
  then show ?case
    by (cases rule: commit_terminates [of b out "commit_all out ids c"]) (simp_all add: commit_all_def)
qed (simp add: commit_all_def)

lemma commit_all_record:
  assumes "attempt_of c a = Some x" "la_epoch x = attachment_epoch c"
  shows "attachment_epoch (commit_all out ids c) = attachment_epoch c
    \<and> (\<exists>y. attempt_of (commit_all out ids c) a = Some y
        \<and> (y = x \<or> (\<exists>q n. y = terminal_record out q n x))
        \<and> (a \<in> set ids \<longrightarrow> attempt_is_terminal (la_state y)))"
proof (induction ids rule: rev_induct)
  case Nil
  with assms show ?case by (simp add: commit_all_def)
next
  case (snoc b ids)
  let ?c = "commit_all out ids c"
  have step: "commit_all out (ids @ [b]) c = commit_physical_attempt_terminal b out ?c"
    by (simp add: commit_all_def)
  from snoc obtain y where y: "attachment_epoch ?c = attachment_epoch c" "attempt_of ?c a = Some y"
      "y = x \<or> (\<exists>q n. y = terminal_record out q n x)" "a \<in> set ids \<longrightarrow> attempt_is_terminal (la_state y)"
    by blast
  then have epoch: "la_epoch y = attachment_epoch ?c" using assms(2) by auto
  have "attachment_epoch (commit_physical_attempt_terminal b out ?c) = attachment_epoch c
      \<and> (\<exists>y. attempt_of (commit_physical_attempt_terminal b out ?c) a = Some y
        \<and> (y = x \<or> (\<exists>q n. y = terminal_record out q n x))
        \<and> (a \<in> set (ids @ [b]) \<longrightarrow> attempt_is_terminal (la_state y)))"
  proof (cases rule: commit_terminates [of b out ?c])
    case unchanged
    with y epoch show ?thesis by auto
  next
    case (terminated z q n)
    show ?thesis
    proof (cases "a = b")
      case True
      with terminated y have "z = x" by auto
      with True terminated y(1) show ?thesis
        by (intro conjI exI [of _ "terminal_record out q n x"]) auto
    qed (use terminated y in auto)
  qed
  then show ?case unfolding step .
qed

lemma attempt_view_fold_terminal:
  "attempt_view (fold (\<lambda>k. command_terminal k t) ks c) = attempt_view c"
  by (induction ks arbitrary: c) (simp_all add: attempt_frame)

lemma closing_context_attempt:
  assumes keyed: "attempts_keyed c" and x: "attempt_of c a = Some x" "la_epoch x = attachment_epoch c"
  shows "next_load_attempt_id (closing_context c) = next_load_attempt_id c"
    and "\<exists>y. attempt_of (closing_context c) a = Some y \<and> attempt_is_terminal (la_state y)
    \<and> (y = x \<or> (\<exists>q n. y = terminal_record PlayerPhysicalLoadOutcome.TransportDisconnected q n x))"
proof -
  define d where "d = fold (\<lambda>command_id. command_terminal command_id CommandSemanticState.TransportDisconnected)
      (open_command_ids (if gap_detected c \<and> recovery_snapshot c = None
        then c\<lparr>recovery_snapshot := Some (closing_snapshot_for_current_epoch c)\<rparr> else c))
      (if gap_detected c \<and> recovery_snapshot c = None
        then c\<lparr>recovery_snapshot := Some (closing_snapshot_for_current_epoch c)\<rparr> else c)"
  have view: "attempt_view d = attempt_view c"
    by (simp add: d_def attempt_view_fold_terminal attempt_frame)
  have closing: "closing_context c =
      commit_all PlayerPhysicalLoadOutcome.TransportDisconnected (open_attempt_ids d) d"
    by (simp add: closing_context_def d_def Let_def)
  have d: "attempt_of d a = Some x" "la_epoch x = attachment_epoch d" "load_attempts d = load_attempts c"
    using attempt_view_fields [OF view] x by simp_all
  have "a \<in> set (open_attempt_ids d)" if "\<not> attempt_is_terminal (la_state x)"
    using that keyed x(1) keyed_values [OF keyed, of x]
    by (auto simp: open_attempt_ids_def d(3) attempts_keyed_iff image_iff intro!: bexI [of _ x])
  with commit_all_record [OF d(1,2)]
  show "\<exists>y. attempt_of (closing_context c) a = Some y \<and> attempt_is_terminal (la_state y)
    \<and> (y = x \<or> (\<exists>q n. y = terminal_record PlayerPhysicalLoadOutcome.TransportDisconnected q n x))"
    unfolding closing by (metis terminal_record_simps(6) attempt_is_terminal.simps(1))
  show "next_load_attempt_id (closing_context c) = next_load_attempt_id c"
    using attempt_view_fields [OF view] by (simp add: closing commit_all_next)
qed

lemma attachment_replaced_load_effects:
  "load_outcomes a (effects (attachment_replaced c)) = load_outcomes a (effects (closing_context c))"
proof -
  have none: "load_outcomes a [RequestAuthoritativeSnapshot, RequestLifecycleReconciliation] = []"
    by (simp add: load_outcomes_def)
  have queue: "load_outcomes a (effects (snd (queue_event e c'))) = load_outcomes a (effects c')" for e c'
    by (rule load_outcomes_view) (rule attempt_view_queue_event)
  have open_epoch: "effects (open_next_epoch (retire_current_epoch_delivery c')) = effects c'" for c' :: reducer_context
    by (simp add: open_next_epoch_def retire_current_epoch_delivery_def Let_def)
  show ?thesis
    by (simp add: attachment_replaced_def close_epoch_closing Let_def push_effect_def none queue open_epoch)
qed

lemma reduce_replaced_loads:
  assumes good: "attempts_good {} s" and room: "next_load_attempt_id s < u64_max"
    and x: "attempt_of s a = Some x" "la_semantic_load_result x = None"
  shows "\<exists>q t. load_outcomes a (snd (reduce_player_lifecycle s AttachmentReplaced)) =
    [\<lparr>so_order = \<lparr>eo_epoch = attachment_epoch s, eo_sequence = q\<rparr>,
      so_outcome = LoadAttempt \<lparr>lo_epoch = la_epoch x, lo_attempt_id = la_id x,
        lo_media_generation = la_media_generation x, lo_command_id = la_command_id x,
        lo_requested_target = la_requested_target x, lo_loaded_target = t,
        lo_result = PlayerLoadAttemptResult.TransportDisconnected\<rparr>\<rparr>]"
proof -
  let ?c = "PlayerLifecycleState.extend s (reducer_context.fields [])"
  let ?d = "closing_context ?c"
  have ok: "attempts_ok {} s" "attempts_keyed s"
    using good room by (simp_all add: attempts_good_def)
  have c: "attempt_of ?c a = Some x" "la_epoch x = attachment_epoch ?c" "attempts_keyed ?c"
    using x(1) attempts_okD [OF ok(1) x(1)] ok(2) extended_context(2)
    by (simp_all add: attempt_of_extended record_ok_def extended_context)
      (simp add: attempts_keyed_def PlayerLifecycleState.defs)
  have fx: "snd (reduce_player_lifecycle s AttachmentReplaced) = effects (attachment_replaced ?c)"
    by (simp add: reduce_player_lifecycle_def Let_def)
  have "settles_once a (Some x) (attachment_epoch s) {} ?d"
    using loads.folding_inputs(4) [OF settles_once_start [OF good, of a]] x(1) by simp
  moreover have "next_load_attempt_id ?d < u64_max"
    using room closing_context_attempt(1) [OF c(3,1,2)] by (simp add: attempt_of_extended)
  ultimately have once: "load_once a (Some x) (attachment_epoch s) ?d" and ok': "attempts_ok {} ?d"
    by (simp_all add: settles_once_def attempts_good_def)
  obtain y where y: "attempt_of ?d a = Some y" "attempt_is_terminal (la_state y)"
      "y = x \<or> (\<exists>q n. y = terminal_record PlayerPhysicalLoadOutcome.TransportDisconnected q n x)"
    using closing_context_attempt(2) [OF c(3,1,2)] by blast
  have "la_semantic_load_result y \<noteq> None" "la_semantic_outcome_sequence y \<noteq> None"
    using attempts_okD [OF ok' y(1)] y(2)
    by (auto simp: record_ok_def attempt_local_ok_def attempt_results_ok_def)
  moreover from this y(3) x(2) have
    "la_semantic_load_result y = Some PlayerLoadAttemptResult.TransportDisconnected"
    by (auto simp: terminal_record_def emitted_record_def)
  ultimately show ?thesis
    using once y(1) x(2)
    by (auto simp: load_once_def fx attachment_replaced_load_effects published_load_def same_load_def)
qed

end
