(* ===== verification/Lifecycle_Chains.thy ===== *)
theory Lifecycle_Chains
  imports Lifecycle_Load_Outcomes
begin

text \<open>
  The two loops over \<open>superseded_by\<close> links end: every link goes to a larger attempt id, so a walk
  visits each attempt at most once and the fuel of the model is never exhausted.
\<close>

definition links_increase :: "'a lifecycle \<Rightarrow> bool" where
  "links_increase s \<longleftrightarrow>
     (\<forall>a x y. attempt_of s a = Some x \<longrightarrow> la_superseded_by x = Some y \<longrightarrow> a < y)"

definition ids_from :: "'a lifecycle \<Rightarrow> LoadAttemptId \<Rightarrow> nat" where
  "ids_from s a = length (filter (\<lambda>entry. a \<le> fst entry) (load_attempts s))"

lemma attempts_ok_links_increase: "attempts_ok X s \<Longrightarrow> links_increase s"
  by (auto simp: links_increase_def record_ok_def links_ok_def dest!: attempts_okD)

lemma filter_fewer: "(\<And>z. P z \<Longrightarrow> Q z) \<Longrightarrow> length (filter P xs) \<le> length (filter Q xs)"
  by (induction xs) (auto simp: le_SucI)

lemma filter_strictly_fewer:
  "z \<in> set xs \<Longrightarrow> Q z \<Longrightarrow> \<not> P z \<Longrightarrow> (\<And>z. P z \<Longrightarrow> Q z) \<Longrightarrow> length (filter P xs) < length (filter Q xs)"
  by (induction xs) (auto simp: less_Suc_eq_le filter_fewer intro: less_SucI)

lemma ids_from_less:
  assumes "attempt_of s a = Some x" "a < y"
  shows "ids_from s y < ids_from s a"
proof -
  have "(a, x) \<in> set (load_attempts s)"
    using assms(1) by (simp add: attempt_of_def bt_get_def map_of_SomeD)
  then show ?thesis
    unfolding ids_from_def by (rule filter_strictly_fewer) (use assms(2) in auto)
qed

lemma ids_from_fuel: "ids_from s a < chain_fuel s"
  by (simp add: ids_from_def chain_fuel_def less_Suc_eq_le)

lemma successor_walk_ends:
  assumes links: "links_increase s"
  shows "ids_from s a < fuel \<Longrightarrow> \<exists>r. successor_walk fuel s generation (Some a) = Some r"
proof (induction fuel arbitrary: a)
  case (Suc fuel)
  show ?case
  proof (cases "attempt_of s a")
    case (Some x)
    show ?thesis
    proof (cases "la_superseded_by x")
      case (Some b)
      with \<open>attempt_of s a = Some x\<close> links have "a < b" by (auto simp: links_increase_def)
      with Suc.IH [of b] Suc.prems ids_from_less [OF \<open>attempt_of s a = Some x\<close>] show ?thesis
        using Some \<open>attempt_of s a = Some x\<close> by fastforce
    qed (auto simp: Some)
  qed auto
qed simp

lemma generation_walk_ends:
  assumes links: "links_increase s"
  shows "ids_from s a < fuel \<Longrightarrow> \<exists>r. generation_walk fuel s a = Some r"
proof (induction fuel arbitrary: a)
  case (Suc fuel)
  have "\<exists>r. generation_walk fuel s b = Some r"
    if "attempt_of s a = Some x" "la_superseded_by x = Some b" for x b
    using Suc ids_from_less [OF that(1), of b] that links by (fastforce simp: links_increase_def)
  then show ?case by (auto split: option.split)
qed simp

lemma successor_walk_more:
  "successor_walk fuel s generation start = Some r \<Longrightarrow>
   successor_walk (fuel + n) s generation start = Some r"
proof (induction fuel arbitrary: start)
  case 0
  then show ?case by (cases start) simp_all
next
  case (Suc fuel)
  then show ?case by (cases start) (auto split: option.split option.split_asm if_splits)
qed

lemma generation_walk_more:
  "generation_walk fuel s a = Some r \<Longrightarrow> generation_walk (fuel + n) s a = Some r"
proof (induction fuel arbitrary: a)
  case (Suc fuel)
  then show ?case by (auto split: option.split option.split_asm)
qed simp

lemma attempts_ok_walks_end:
  assumes "attempts_ok X s"
  shows "\<exists>r. \<forall>n. successor_walk (chain_fuel s + n) s generation start = Some r"
    and "\<exists>r. \<forall>n. generation_walk (chain_fuel s + n) s a = Some r"
proof -
  note links = attempts_ok_links_increase [OF assms]
  have "\<exists>r. successor_walk (chain_fuel s) s generation start = Some r"
    using successor_walk_ends [OF links ids_from_fuel] by (cases start) auto
  then show "\<exists>r. \<forall>n. successor_walk (chain_fuel s + n) s generation start = Some r"
    using successor_walk_more by blast
  show "\<exists>r. \<forall>n. generation_walk (chain_fuel s + n) s a = Some r"
    using generation_walk_ends [OF links ids_from_fuel] generation_walk_more by blast
qed

end
