(* ===== verification/Lifecycle_Eval.thy ===== *)
theory Lifecycle_Eval
  imports Lifecycle_Chains
begin

text \<open>
  Runs from a fresh lifecycle, and their evaluation on concrete inputs: the defining equations of
  every operation, for the simplifier to compute with.
\<close>

abbreviation lifecycle_run ::
  "PlayerAttachmentEpoch \<Rightarrow> LifecycleStep list \<Rightarrow> PlayerLifecycleState \<times> LifecycleLogEntry list" where
  "lifecycle_run epoch steps \<equiv> run_steps lifecycle_step steps (new_state epoch)"

abbreviation final_state :: "PlayerAttachmentEpoch \<Rightarrow> LifecycleStep list \<Rightarrow> PlayerLifecycleState" where
  "final_state epoch steps \<equiv> fst (lifecycle_run epoch steps)"

abbreviation run_log :: "PlayerAttachmentEpoch \<Rightarrow> LifecycleStep list \<Rightarrow> LifecycleLogEntry list" where
  "run_log epoch steps \<equiv> snd (lifecycle_run epoch steps)"

lemmas lifecycle_eval =
  saturating_add_def bt_remove_def bt_modify_def bt_values_def bt_map_values_def bt_contains_def
  epoch_next_def apply_field_def apply_delta_def rebase_def MAX_PENDING_TELEMETRY_EVENTS_def
  INITIAL_RECONCILIATION_BACKOFF_TICKS_def MAX_RECONCILIATION_BACKOFF_TICKS_def
  ACCEPTED_LOAD_COMPLETION_TICKS_def QUIESCENT_LOAD_ATTEMPT_RETENTION_TICKS_def
  SEEK_TOMBSTONE_RETENTION_TICKS_def MAX_TERMINAL_ATTEMPT_TOMBSTONES_def
  MAX_RETIRED_COMMAND_TOMBSTONES_def MAX_RETIRED_SEEK_TOMBSTONES_def
  TERMINAL_TOMBSTONE_SEQUENCE_WINDOW_def SEEK_MATCH_TOLERANCE_SECONDS_def
  may_receive_lifecycle_def new_state_def push_effect_def attempt_of_def command_of_def
  attempt_for_command_def active_attempt_def active_media_generation_def
  attempt_for_playlist_entry_def strict_start_owner_def is_known_terminal_playlist_entry_def
  is_retired_command_def pending_semantic_outcome_count_def pending_event_count_def
  last_event_sequence_def provisional_eof_attempt_def requires_authoritative_snapshot_def
  retire_command_record_def push_retired_seek_tombstone_def acknowledged_by_def
  acknowledged_terminal_command_def acknowledged_terminal_attempt_def unlink_successor_def
  unlink_predecessor_def compact_attempt_def compact_seek_def retired_seek_ids_def
  referenced_commands_def compact_acknowledged_lifecycle_def prune_expired_seek_tombstones_def
  next_order_def schedule_reconciliation_def mark_gap_def telemetry_count_def queue_event_def
  retain_outcome_def delivery_is_empty_def has_deliverable_content_def uncovered_def
  covered_by_snapshot_def delivery_prune_snapshot_covered_events_def
  acknowledge_delivery_through_def delivery_acknowledge_through_def current_delivery_def
  store_delivery_def prune_snapshot_covered_events_def retire_current_epoch_delivery_def
  snapshot_field_of_def closing_snapshot_for_current_epoch_def delivery_sequences_def
  batch_of_delivery_def peek_event_batch_def
  allocate_load_attempt_id_def retain_only_selected_successor_claim_def modify_attempt_def
  modify_command_def modify_seek_def command_terminal_def emit_load_outcome_def bind_attempt_def
  demoted_state_def start_attempt_def has_proactive_unbound_load_attempt_def
  try_deferred_starts_def stop_reconciliation_without_proactive_work_def chain_fuel_def
  accepted_successor_exists_def current_media_generation_def detach_terminal_attempt_def
  settle_terminal_attempt_def announce_logical_terminal_def commit_physical_attempt_terminal_def
  awaiting_accepted_attempt_def unresolved_attempt_def stoppable_state_def
  finish_reconciliation_def retry_reconciliation_def commit_all_def reconcile_empty_playlist_def
  contradicted_attempts_def candidate_edges_def bind_unique_candidate_def
  start_current_entry_def reconcile_playlist_def new_command_def latest_open_attempt_def
  load_attempt_submitted_def supersede_predecessor_def external_attempt_def
  revoke_external_predecessor_def external_load_observed_def supersede_accepted_predecessor_def
  accept_submitting_attempt_def load_attempt_accepted_def load_attempt_rejected_def
  command_submitted_def is_pause_or_play_def command_accepted_def set_seek_state_def
  command_rejected_def command_superseded_def command_transport_disconnected_def
  command_completed_def expire_attempt_def owns_transport_after_start_def release_transport_def
  command_completion_not_observed_def start_file_def take_transport_def file_loaded_def
  end_file_def retained_end_of_file_def playlist_snapshot_def
  lifecycle_reconciliation_failed_def entry_attempt_def eof_observed_def playback_restart_def
  within_seek_tolerance_def seek_in_scope_def eof_contradicted_by_position_def
  position_observed_def seeking_observed_def phase_observed_def transport_delta_def
  local_file_changed_def seek_command_submitted_def seek_command_accepted_def
  seek_command_completion_not_observed_def event_gap_detected_def
  authoritative_snapshot_applied_def expired_load_attempts_def expire_load_attempt_def
  expired_quiescent_attempts_def timer_advanced_def open_command_ids_def open_attempt_ids_def
  transport_disconnected_def close_epoch_def open_next_epoch_def attachment_replaced_def
  reduce_player_lifecycle_def
  PlayerLifecycleState.defs reducer_context.defs

text \<open>
  The continuation of an acknowledgement under a name of its own, so that it is evaluated only
  once its state is known.
\<close>

definition finish_acknowledgement ::
  "PlayerEventBatch \<Rightarrow> PlayerAttachmentEpoch \<Rightarrow> 'a lifecycle \<Rightarrow> bool \<times> 'a lifecycle" where
  "finish_acknowledgement batch epoch s =
     (let s = prune_snapshot_covered_events s
      in (True, if sb_epoch (eb_boundary batch) = epoch
                then compact_acknowledged_lifecycle (sb_through (eb_boundary batch)) s else s))"

lemma acknowledge_eval:
  "acknowledge_event_batch token s =
     (case cached_batch s of
        None \<Rightarrow> (False, s)
      | Some batch \<Rightarrow>
          if eb_token batch \<noteq> token then (False, s)
          else (case retired_epoch_deliveries s of
                  delivery # rest \<Rightarrow>
                    if db_epoch delivery = eb_epoch batch
                    then finish_acknowledgement batch (attachment_epoch s)
                      (s\<lparr>cached_batch := None,
                         retired_epoch_deliveries :=
                           (let delivery = delivery_acknowledge_through (eb_boundary batch)
                                  (eb_snapshot batch \<noteq> None) delivery
                            in if delivery_is_empty delivery then rest else delivery # rest)\<rparr>)
                    else if eb_epoch batch = attachment_epoch s
                    then finish_acknowledgement batch (attachment_epoch s)
                      (store_delivery (acknowledge_delivery_through (eb_boundary batch)
                         (eb_snapshot batch \<noteq> None) (current_delivery s)) (s\<lparr>cached_batch := None\<rparr>))
                    else (False, s)
                | [] \<Rightarrow>
                    if eb_epoch batch = attachment_epoch s
                    then finish_acknowledgement batch (attachment_epoch s)
                      (store_delivery (acknowledge_delivery_through (eb_boundary batch)
                         (eb_snapshot batch \<noteq> None) (current_delivery s)) (s\<lparr>cached_batch := None\<rparr>))
                    else (False, s)))"
  by (simp add: acknowledge_event_batch_def finish_acknowledgement_def Let_def split: option.split list.split)

text \<open>
  A pair pattern is bound one component at a time, so that the simplifier evaluates the
  components before it enters the body.
\<close>

lemma let_pair_eval: "Let (a, b) (case_prod f) = (let x = a; y = b in f x y)"
  by simp

lemma let_value_eval: "NO_MATCH (case_prod g) f \<Longrightarrow> Let a f = f a"
  by simp

lemmas run_eval =
  let_pair_eval let_value_eval u64_max_def finish_acknowledgement_def acknowledge_eval run_steps_Cons below_saturation_def unsaturated_def logged_effects_def logged_deliveries_def
  List.map_filter_def order_below_max_def acknowledged_outcomes_def

section \<open>Invariants of runs\<close>

lemma delivery_inv_run: "below_saturation (run_log epoch steps) \<Longrightarrow> delivery_inv (final_state epoch steps)"
  by (rule consumer.log.holds_run [OF delivery_inv_new_state])

lemma commands_ok_run: "commands_ok (final_state epoch steps)"
  using commands_run.log.holds_run [of "new_state epoch" steps]
  by (simp add: commands_ok_def new_state_def)

lemma attempts_good_run: "attempts_good {} (final_state epoch steps)"
  using attempts_run.log.holds_run [of "new_state epoch" steps] by (simp add: attempts_good_new_state)

lemma attempts_ok_run:
  "next_load_attempt_id (final_state epoch steps) < u64_max \<Longrightarrow> attempts_ok {} (final_state epoch steps)"
  using attempts_good_run by (simp add: attempts_good_def)

section \<open>Inputs between a peek and its acknowledgement\<close>

lemma cached_batch_inputs:
  "cached_batch (fst (run_steps lifecycle_step (map Reduce inputs) s)) = cached_batch s"
  by (induction inputs arbitrary: s) (simp_all add: run_steps_Cons cached_batch_reduce split_def Let_def)

lemma cached_after_peek:
  "fst (peek_event_batch (final_state epoch steps)) = Some b \<Longrightarrow>
   cached_batch (final_state epoch (steps @ Peek # map Reduce inputs)) = Some b"
  by (simp add: run_steps_append run_steps_Cons cached_batch_inputs peek_caches)

end
