(* ===== verification/Lifecycle_Check_Proofs.thy ===== *)
theory Lifecycle_Check_Proofs
  imports Lifecycle_Checks Lifecycle_Eval
begin

text \<open>
  What the invariants of the reducer say about its own check: on every reachable state
  \<open>assert_invariants\<close> reports at most the violations listed in \<open>unprotected_messages\<close>, and each
  of the others is impossible.
\<close>

definition passes :: "check list \<Rightarrow> bool" where
  "passes checks = list_all (\<lambda>c. \<not> fst c) checks"

lemma passes_simps [simp]:
  "passes []" "passes (c # cs) \<longleftrightarrow> \<not> fst c \<and> passes cs" "passes (cs @ ds) \<longleftrightarrow> passes cs \<and> passes ds"
  by (auto simp: passes_def)

lemma passes_concat: "passes (concat css) \<longleftrightarrow> (\<forall>cs \<in> set css. passes cs)"
  by (induction css) auto

lemma first_violation_iff: "first_violation cs = Inr () \<longleftrightarrow> passes cs"
  by (induction cs rule: first_violation.induct) auto

text \<open>Checks that may fail, but only with one of the given messages.\<close>

definition fails_only :: "string set \<Rightarrow> check list \<Rightarrow> bool" where
  "fails_only M checks = list_all (\<lambda>c. fst c \<longrightarrow> snd c \<in> M) checks"

lemma fails_only_simps [simp]:
  "fails_only M []" "fails_only M (c # cs) \<longleftrightarrow> (fst c \<longrightarrow> snd c \<in> M) \<and> fails_only M cs"
  "fails_only M (cs @ ds) \<longleftrightarrow> fails_only M cs \<and> fails_only M ds"
  by (auto simp: fails_only_def)

lemma fails_only_concat: "fails_only M (concat css) \<longleftrightarrow> (\<forall>cs \<in> set css. fails_only M cs)"
  by (induction css) auto

lemma passes_fails_only: "passes cs \<Longrightarrow> fails_only M cs"
  by (simp add: passes_def fails_only_def list_all_iff)

lemma fails_only_mono: "fails_only M cs \<Longrightarrow> M \<subseteq> N \<Longrightarrow> fails_only N cs"
  by (auto simp: fails_only_def list_all_iff)

section \<open>Attempts and commands\<close>

lemma active_checks_pass:
  assumes "attempts_ok X s" shows "passes (active_checks s)"
proof (cases "active_load_attempt s")
  case (Some a)
  then obtain x where x: "attempt_of s a = Some x" "transport_owner x"
    using assms by (auto simp: attempts_ok_def active_ok_def)
  with attempts_okD [OF assms x(1)] Some show ?thesis
    by (simp add: active_checks_def transport_owner_def record_ok_def)
qed (simp add: active_checks_def)

lemma attempt_record_checks_pass:
  assumes "attempts_ok {} s" "attempt_of s a = Some x" shows "passes (attempt_record_checks s x)"
proof -
  note r = attempts_okD [OF assms]
  have "\<not> (\<not> attempt_is_terminal (la_state x) \<and> (case la_playlist_entry_id x of
      Some p \<Rightarrow> bt_get (playlist_entry_attempts s) p \<noteq> Some (la_id x) | None \<Rightarrow> False))"
    using r by (cases "la_playlist_entry_id x") (auto simp: record_ok_def)
  moreover have "attempt_results_ok x" "attempt_deadlines_ok x" "la_state x = Active \<longrightarrow> la_file_loaded_observed x"
    "la_epoch x = attachment_epoch s"
    using r by (auto simp: record_ok_def attempt_local_ok_def)
  ultimately show ?thesis
    unfolding attempt_record_checks_def passes_simps fst_conv attempt_results_ok_def attempt_deadlines_ok_def
    by (intro conjI passes_simps(1)) satx+
qed

lemma successor_checks_pass:
  assumes "attempts_ok {} s" "attempt_of s a = Some x" shows "passes (successor_checks s x)"
proof -
  note r = attempts_okD [OF assms]
  have "passes (case la_superseded_by x of None \<Rightarrow> []
      | Some b \<Rightarrow> (case attempt_of s b of
          None \<Rightarrow> [(True, ''attempt successor is missing'')]
        | Some z \<Rightarrow> [(la_id z = la_id x, ''attempt supersedes itself''),
            (la_replaced_attempt z \<noteq> Some (la_id x), ''attempt successor does not point back to predecessor''),
            (\<not> la_logical_ownership_revoked x, ''attempt successor did not revoke logical ownership'')]))"
  proof (cases "la_superseded_by x")
    case (Some b)
    then obtain z where z: "attempt_of s b = Some z" "la_replaced_attempt z = Some (la_id x)" "la_id x < b"
        "la_logical_ownership_revoked x"
      using r by (auto simp: record_ok_def links_ok_def)
    with attempts_okD [OF assms(1) z(1)] Some show ?thesis by (simp add: record_ok_def)
  qed simp
  then show ?thesis
    using r by (cases "la_state x") (simp_all add: successor_checks_def record_ok_def attempt_local_ok_def)
qed

lemma mapping_checks_pass:
  assumes ok: "attempts_ok {} s"
  shows "set entries \<subseteq> set (playlist_entry_attempts s) \<Longrightarrow> distinct (map fst entries) \<Longrightarrow>
    (\<And>a x. a \<in> set seen \<Longrightarrow> attempt_of s a = Some x \<Longrightarrow> la_playlist_entry_id x \<notin> Some ` set (map fst entries)) \<Longrightarrow>
    passes (mapping_checks seen s entries)"
proof (induction entries arbitrary: seen)
  case (Cons entry entries)
  obtain p a where entry: "entry = (p, a)" by (cases entry)
  have "bt_get (playlist_entry_attempts s) p = Some a"
    using Cons.prems(1) ok bt_entries_iff [of "playlist_entry_attempts s" p a]
    by (simp add: entry attempts_ok_def)
  then obtain x where x: "attempt_of s a = Some x" "\<not> attempt_is_terminal (la_state x)"
      "la_playlist_entry_id x = Some p"
    using ok unfolding attempts_ok_def mapping_ok_def by blast
  moreover have "a \<notin> set seen"
    using Cons.prems(3) [of a x] x by (auto simp: entry)
  moreover have "passes (mapping_checks (a # seen) s entries)"
  proof (rule Cons.IH)
    fix b y assume "b \<in> set (a # seen)" "attempt_of s b = Some y"
    with Cons.prems(2) Cons.prems(3) [of b y] x show "la_playlist_entry_id y \<notin> Some ` set (map fst entries)"
      by (cases "b = a") (auto simp: entry image_iff)
  qed (use Cons.prems in simp_all)
  ultimately show ?case
    using attempts_okD [OF ok x(1)] by (simp add: entry record_ok_def)
qed simp

lemma command_record_checks_pass:
  assumes "commands_ok s" "(k, command) \<in> set (commands s)"
  shows "passes (command_record_checks s k command)"
  using assms by (auto simp: commands_ok_def list_all_iff command_record_checks_def command_record_ok_def)


section \<open>Delivery\<close>

lemma ordered_stream_Cons:
  "ordered_stream e (x # xs) \<longleftrightarrow>
     eo_epoch x = e \<and> eo_sequence x \<noteq> 0 \<and> (\<forall>y \<in> set xs. eo_sequence x < eo_sequence y) \<and> ordered_stream e xs"
  by (auto simp: ordered_stream_def)

lemma ordered_stream_epoch: "ordered_stream e xs \<Longrightarrow> x \<in> set xs \<Longrightarrow> eo_epoch x = e"
  by (simp add: ordered_stream_def list_all_iff)

text \<open>A check of orders is entered with a bound below all of them and a set of other orders.\<close>

definition above :: "u64 option \<Rightarrow> PlayerEventOrder list \<Rightarrow> bool" where
  "above previous orders \<longleftrightarrow> (\<forall>q. previous = Some q \<longrightarrow> (\<forall>x \<in> set orders. q < eo_sequence x))"

lemma above_simps [simp]:
  "above None orders" "above previous []"
  "above (Some q) (x # orders) \<longleftrightarrow> q < eo_sequence x \<and> above (Some q) orders"
  by (auto simp: above_def)

lemma above_Cons_D: "above previous (x # orders) \<Longrightarrow> \<not> not_after previous (eo_sequence x)"
  by (auto simp: above_def not_after_def split: option.splits)

lemma ordered_stream_above: "ordered_stream e (x # xs) \<Longrightarrow> above (Some (eo_sequence x)) xs"
  by (simp add: ordered_stream_Cons above_def)

lemma ordered_stream_fresh: "ordered_stream e (x # xs) \<Longrightarrow> x \<notin> set xs"
  by (auto simp: ordered_stream_Cons)

lemma retired_event_checks_pass:
  "ordered_stream e (map se_order evs) \<Longrightarrow> above previous (map se_order evs)
   \<Longrightarrow> set (map se_order evs) \<inter> set items = {} \<Longrightarrow> passes (retired_event_checks e previous items evs)"
proof (induction evs arbitrary: previous items)
  case (Cons event evs)
  have "passes (retired_event_checks e (Some (eo_sequence (se_order event))) (se_order event # items) evs)"
    using Cons.prems ordered_stream_above [of e "se_order event"] ordered_stream_fresh [of e "se_order event"]
    by (intro Cons.IH) (auto simp: ordered_stream_Cons)
  with Cons.prems above_Cons_D [of previous "se_order event"] show ?case
    by (simp add: ordered_stream_Cons)
qed simp

lemma retired_outcome_checks_pass:
  "ordered_stream e (map so_order os) \<Longrightarrow> above previous (map so_order os)
   \<Longrightarrow> set (map so_order os) \<inter> set items = {}
   \<Longrightarrow> fails_only {''retired semantic payload crosses attachment epoch''}
         (retired_outcome_checks e previous items os)"
proof (induction os arbitrary: previous items)
  case (Cons outcome os)
  have "fails_only {''retired semantic payload crosses attachment epoch''}
      (retired_outcome_checks e (Some (eo_sequence (so_order outcome))) (so_order outcome # items) os)"
    using Cons.prems ordered_stream_above [of e "so_order outcome"] ordered_stream_fresh [of e "so_order outcome"]
    by (intro Cons.IH) (auto simp: ordered_stream_Cons)
  with Cons.prems above_Cons_D [of previous "so_order outcome"] show ?case
    by (simp add: ordered_stream_Cons)
qed simp

definition above_in_epoch :: "PlayerEventOrder option \<Rightarrow> PlayerEventOrder list \<Rightarrow> bool" where
  "above_in_epoch previous orders \<longleftrightarrow> above (map_option eo_sequence previous) orders"

lemma above_in_epoch_D: "above_in_epoch previous (x # orders) \<Longrightarrow> \<not> not_after_in_epoch previous x"
  by (auto simp: above_in_epoch_def above_def not_after_in_epoch_def split: option.splits)

lemma pending_event_checks_pass:
  "ordered_stream e (map se_order evs) \<Longrightarrow> above_in_epoch previous (map se_order evs)
   \<Longrightarrow> set (map se_order evs) \<inter> set items = {} \<Longrightarrow> passes (pending_event_checks e previous items evs)"
proof (induction evs arbitrary: previous items)
  case (Cons event evs)
  have "passes (pending_event_checks e (Some (se_order event)) (se_order event # items) evs)"
    using Cons.prems ordered_stream_above [of e "se_order event"] ordered_stream_fresh [of e "se_order event"]
    by (intro Cons.IH) (auto simp: ordered_stream_Cons above_in_epoch_def)
  with Cons.prems above_in_epoch_D [of previous "se_order event"] show ?case
    by (simp add: ordered_stream_Cons)
qed simp

definition settlement_messages :: "string set" where
  "settlement_messages =
     {''command outcome order crosses attachment epoch'', ''command has more than one retained terminal outcome'',
      ''load outcome order crosses attachment epoch'',
      ''load attempt has more than one retained semantic outcome''}"

lemma settlement_checks_fail: "fails_only settlement_messages (settlement_checks cs ls e outcome)"
  by (cases outcome) (simp_all add: settlement_checks_def settlement_messages_def)

lemma pending_outcome_checks_pass:
  "ordered_stream e (map so_order os) \<Longrightarrow> above_in_epoch previous (map so_order os)
   \<Longrightarrow> set (map so_order os) \<inter> set items = {}
   \<Longrightarrow> fails_only settlement_messages (pending_outcome_checks e previous cs ls items os)"
proof (induction os arbitrary: previous items cs ls)
  case (Cons outcome os)
  have "fails_only settlement_messages
      (pending_outcome_checks e (Some (so_order outcome)) cs ls (so_order outcome # items) os)" for cs ls
    using Cons.prems ordered_stream_above [of e "so_order outcome"] ordered_stream_fresh [of e "so_order outcome"]
    by (intro Cons.IH) (auto simp: ordered_stream_Cons above_in_epoch_def)
  with Cons.prems above_in_epoch_D [of previous "so_order outcome"] show ?case
    by (simp add: ordered_stream_Cons settlement_checks_fail)
qed simp

lemma snapshot_crosses_iff: "snapshot_crosses e snap \<longleftrightarrow> \<not> snapshot_of_epoch e snap"
  by (auto simp: snapshot_crosses_def snapshot_of_epoch_def split: option.split)

lemma delivery_items_set: "set (delivery_items d) = set (event_orders d) \<union> set (outcome_orders d)"
  by (auto simp: delivery_items_def event_orders_def outcome_orders_def)

lemma delivery_items_epoch: "delivery_ordered d \<Longrightarrow> x \<in> set (delivery_items d) \<Longrightarrow> eo_epoch x = db_epoch d"
  by (auto simp: delivery_ordered_def delivery_items_set dest: ordered_stream_epoch)

lemma delivery_streams_disjoint:
  "delivery_ordered d \<Longrightarrow> set (event_orders d) \<inter> set (outcome_orders d) = {}"
  by (auto simp: delivery_ordered_def)

lemma retired_delivery_checks_pass:
  "sorted_wrt (<) (map db_epoch ds) \<Longrightarrow> \<forall>d \<in> set ds. db_epoch d < attachment_epoch s \<and> delivery_ordered d
   \<Longrightarrow> \<forall>q. previous = Some q \<longrightarrow> (\<forall>d \<in> set ds. q < db_epoch d)
   \<Longrightarrow> \<forall>x \<in> set items. \<forall>d \<in> set ds. eo_epoch x < db_epoch d
   \<Longrightarrow> fails_only {''retired semantic payload crosses attachment epoch''}
         (retired_delivery_checks s previous items ds)"
proof (induction ds arbitrary: previous items)
  case (Cons d ds)
  note d = delivery_items_epoch [of d] delivery_items_set [of d] delivery_streams_disjoint [of d]
  have ordered: "delivery_ordered d" using Cons.prems by simp
  have fresh: "set (delivery_items d) \<inter> set items = {}"
    using Cons.prems(4) d(1) [OF ordered] by fastforce
  have rest: "fails_only {''retired semantic payload crosses attachment epoch''}
      (retired_delivery_checks s (Some (db_epoch d)) (delivery_items d @ items) ds)"
    using Cons.prems d(1) [OF ordered] by (intro Cons.IH) auto
  have events: "passes (retired_event_checks (db_epoch d) None items (db_pending_events d))"
    using ordered fresh d(2) by (intro retired_event_checks_pass) (auto simp: delivery_ordered_def event_orders_def)
  have outcomes: "fails_only {''retired semantic payload crosses attachment epoch''}
      (retired_outcome_checks (db_epoch d) None (rev (map se_order (db_pending_events d)) @ items)
        (db_retained_semantic_outcomes d))"
    using ordered fresh d(2) d(3) [OF ordered]
    by (intro retired_outcome_checks_pass) (auto simp: delivery_ordered_def event_orders_def outcome_orders_def)
  have "\<not> not_after previous (db_epoch d)" "db_epoch d \<noteq> attachment_epoch s"
    "\<not> snapshot_crosses (db_epoch d) (db_recovery_snapshot d)"
    using Cons.prems ordered
    by (auto simp: not_after_def snapshot_crosses_iff delivery_ordered_def split: option.splits)
  with rest passes_fails_only [OF events] outcomes show ?case by simp
qed simp

lemma delivery_checks_pass:
  assumes "delivery_inv s"
  shows "fails_only (insert ''retired semantic payload crosses attachment epoch'' settlement_messages) (delivery_checks s)"
proof -
  define items where "items = concat (map delivery_items (rev (retired_epoch_deliveries s)))"
  note inv = assms [unfolded delivery_inv_def buffers_def]
  have older: "\<forall>d \<in> set (retired_epoch_deliveries s). db_epoch d < attachment_epoch s \<and> delivery_ordered d"
    using inv by (auto simp: sorted_wrt_append current_delivery_def)
  have current: "delivery_ordered (current_delivery s)" using inv by simp
  have old_items: "\<forall>x \<in> set items. eo_epoch x < attachment_epoch s"
    using older by (auto simp: items_def dest!: delivery_items_epoch [rotated])
  have streams: "ordered_stream (attachment_epoch s) (map se_order (pending_events s))"
    "ordered_stream (attachment_epoch s) (map so_order (retained_semantic_outcomes s))"
    "set (map se_order (pending_events s)) \<inter> set (map so_order (retained_semantic_outcomes s)) = {}"
    using current delivery_streams_disjoint [OF current]
    by (auto simp: delivery_ordered_def event_orders_def outcome_orders_def current_delivery_def)
  have new: "set (map se_order (pending_events s)) \<inter> set items = {}"
    "set (map so_order (retained_semantic_outcomes s)) \<inter> set items = {}"
    using old_items ordered_stream_epoch [OF streams(1)] ordered_stream_epoch [OF streams(2)]
    by (metis disjoint_iff less_irrefl)+
  have "fails_only {''retired semantic payload crosses attachment epoch''}
      (retired_delivery_checks s None [] (retired_epoch_deliveries s))"
    using older inv by (intro retired_delivery_checks_pass) (auto simp: sorted_wrt_append)
  moreover have "passes (pending_event_checks (attachment_epoch s) None items (pending_events s))"
    by (rule pending_event_checks_pass [OF streams(1) _ new(1)]) (simp add: above_in_epoch_def)
  moreover have "fails_only settlement_messages (pending_outcome_checks (attachment_epoch s) None [] []
      (rev (map se_order (pending_events s)) @ items) (retained_semantic_outcomes s))"
    using streams(3) new(2) by (intro pending_outcome_checks_pass streams(2)) (auto simp: above_in_epoch_def)
  ultimately show ?thesis
    unfolding delivery_checks_def Let_def items_def [symmetric] fails_only_simps
    using passes_fails_only by (blast intro: fails_only_mono)
qed

lemma batch_checks_pass:
  assumes "delivery_inv s" shows "fails_only {''cached batch is not single-epoch''} (batch_checks s)"
  using assms
  by (auto simp: batch_checks_def delivery_inv_def buffers_def delivery_ordered_def current_delivery_def
      snapshot_crosses_iff split: option.split)

section \<open>The whole check\<close>

text \<open>The violations that the proved invariants do not exclude.\<close>

definition unprotected_messages :: "string set" where
  "unprotected_messages =
     {''more than one physical attempt is active'', ''active physical state disagrees with active_load_attempt'',
      ''logical terminal playback still has an active physical attempt'', ''attempt predecessor is missing'',
      ''attempt predecessor points to another successor'', ''load attempt command is missing'',
      ''load attempt command points to another effect'', ''load attempt command has another media generation'',
      ''load command attempt is missing'', ''load command attempt does not point back to command'',
      ''load command and attempt generations disagree'', ''seek ownership key disagrees with command identity'',
      ''seek ownership crosses attachment epoch'', ''seek ownership contains a non-finite target'',
      ''seek ownership command is missing'', ''seek ownership belongs to a non-seek command'',
      ''seek ownership generation disagrees with command'', ''seek ownership state disagrees with command state'',
      ''lifecycle tombstone bound is violated'', ''lifecycle tombstone identity is invalid'',
      ''retired semantic payload crosses attachment epoch'', ''cached batch is not single-epoch''}
     \<union> settlement_messages"

lemma predecessor_checks_fail:
  assumes "attempts_ok {} s" "attempt_of s a = Some x"
  shows "fails_only unprotected_messages (predecessor_checks s x)"
proof -
  have "la_id y \<noteq> la_id x" if "la_replaced_attempt x = Some p" "attempt_of s p = Some y" for p y
    using that attempts_okD [OF assms] attempts_okD [OF assms(1) that(2)] by (auto simp: record_ok_def links_ok_def)
  then show ?thesis
    by (auto simp: predecessor_checks_def unprotected_messages_def split: option.split)
qed

lemma link_checks_fail:
  "fails_only unprotected_messages (active_state_checks s)"
  "fails_only unprotected_messages (attempt_command_checks s x)"
  "fails_only unprotected_messages (load_command_checks s command)"
  "fails_only unprotected_messages (seek_checks s k owner)"
  "fails_only unprotected_messages (tombstone_checks s)"
  by (simp_all add: active_state_checks_def attempt_command_checks_def load_command_checks_def seek_checks_def
      tombstone_checks_def unprotected_messages_def Let_def split: option.split LifecycleCommandKind.split)

lemma attempt_checks_fail:
  assumes "attempts_ok {} s" "x \<in> set (bt_values (load_attempts s))"
  shows "fails_only unprotected_messages (attempt_checks s x)"
proof -
  obtain a where x: "attempt_of s a = Some x"
    using assms by (auto simp: bt_values_iff attempts_ok_def attempt_of_def)
  note facts = attempt_record_checks_pass [OF assms(1) x] successor_checks_pass [OF assms(1) x]
  show ?thesis
    using facts [THEN passes_fails_only] predecessor_checks_fail [OF assms(1) x]
    by (simp add: attempt_checks_def link_checks_fail)
qed

lemma fails_only_reports:
  "fails_only M cs \<Longrightarrow> first_violation cs = Inr () \<or> (\<exists>message\<in>M. first_violation cs = Inl message)"
  by (induction cs rule: first_violation.induct) auto

lemma only_unprotected_fail:
  assumes "attempts_ok {} s" "commands_ok s" "delivery_inv s"
  shows "fails_only unprotected_messages (invariant_checks s)"
proof -
  have attempts: "fails_only unprotected_messages (concat (map (attempt_checks s) (bt_values (load_attempts s))))"
    by (simp add: fails_only_concat attempt_checks_fail [OF assms(1)])
  have commands: "fails_only unprotected_messages (concat (map (\<lambda>(command_id, command).
      command_record_checks s command_id command @ load_command_checks s command) (commands s)))"
    using command_record_checks_pass [OF assms(2), THEN passes_fails_only]
    by (auto simp: fails_only_concat link_checks_fail)
  have seeks: "fails_only unprotected_messages
      (concat (map (\<lambda>(command_id, owner). seek_checks s command_id owner) (seek_ownership s)))"
    by (auto simp: fails_only_concat link_checks_fail)
  have mapping: "passes (mapping_checks [] s (playlist_entry_attempts s))"
    using assms(1) by (intro mapping_checks_pass) (auto simp: attempts_ok_def bt_wf_def strict_sorted_iff)
  have delivery: "fails_only unprotected_messages (delivery_checks s)" "fails_only unprotected_messages (batch_checks s)"
    by (rule fails_only_mono [OF delivery_checks_pass [OF assms(3)]] fails_only_mono [OF batch_checks_pass [OF assms(3)]],
        auto simp: unprotected_messages_def)+
  show ?thesis
    using active_checks_pass [OF assms(1), THEN passes_fails_only] mapping [THEN passes_fails_only]
      attempts commands seeks delivery
    by (simp add: invariant_checks_def link_checks_fail)
qed

lemmas check_eval =
  assert_invariants_def invariant_checks_def active_checks_def active_state_checks_def attempt_checks_def
  attempt_record_checks_def successor_checks_def predecessor_checks_def attempt_command_checks_def
  command_record_checks_def load_command_checks_def seek_checks_def tombstone_checks_def delivery_checks_def
  batch_checks_def settlement_checks_def snapshot_crosses_def delivery_items_def not_after_def
  not_after_in_epoch_def

end
