(* ===== verification/Lifecycle_Finality.thy ===== *)
theory Lifecycle_Finality
  imports Lifecycle_Load_Outcomes
begin

text \<open>
  Settled load attempts along whole runs: ids are never given out twice, so an attempt whose record
  acknowledgement or the replacement of the attachment has removed cannot come back, and nothing
  is published for it any more.
\<close>

section \<open>Ids that are gone\<close>

text \<open>The counter of ids has reached \<open>n\<close>, and the ids in \<open>A\<close> lie below it and have no record.\<close>

definition ids_gone :: "u64 \<Rightarrow> LoadAttemptId set \<Rightarrow> LoadAttemptId set \<Rightarrow> reducer_context \<Rightarrow> bool" where
  "ids_gone n A X c \<longleftrightarrow>
     attempts_good X c \<and> n \<le> next_load_attempt_id c \<and> next_load_attempt_id c \<le> u64_max
     \<and> (\<forall>a\<in>A. a < n \<and> attempt_of c a = None \<and> load_outcomes a (effects c) = [])"

lemma ids_gone_step:
  assumes "ids_gone n A X c" "attempts_good Y d" "next_load_attempt_id d = next_load_attempt_id c"
    and "\<And>a. attempt_of c a = None \<Longrightarrow> load_outcomes a (effects c) = [] \<Longrightarrow>
      attempt_of d a = None \<and> load_outcomes a (effects d) = []"
  shows "ids_gone n A Y d"
  using assms by (fastforce simp: ids_gone_def)

lemma ids_gone_insert:
  assumes gone: "ids_gone n A {} c" and id: "la_id x = fst (allocate_load_attempt_id c)"
    and fresh: "attempts_ok {} c \<Longrightarrow> fresh_attempt c x" and X: "la_playlist_entry_id x = None \<or> la_id x \<in> X"
  shows "ids_gone n A X (insert_attempt x c)"
proof -
  have "attempts_good X (insert_attempt x c)"
    using assms by (intro attempts_good_insert) (auto simp: ids_gone_def)
  moreover have "attempt_of (insert_attempt x c) a = (if a = la_id x then Some x else attempt_of c a)" for a
    by (simp add: insert_attempt_def attempt_of_def)
  ultimately show ?thesis
    using gone
    by (fastforce simp: ids_gone_def id insert_attempt_def allocate_load_attempt_id_def saturating_add_def
        u64_max_def Let_def)
qed

lemma load_outcomes_terminate:
  assumes "b \<noteq> a"
  shows "load_outcomes b (effects (terminate_attempt a out x c)) = load_outcomes b (effects c)"
proof -
  let ?d = "detach_terminal_attempt a out x c"
  have "load_outcomes b (effects (snd (queue_event e ?d))) = load_outcomes b (effects ?d)" for e
    by (rule load_outcomes_view) (rule attempt_view_queue_event)
  moreover have "effects ?d = effects c"
    by (simp add: detach_terminal_attempt_def Let_def modify_attempt_def split: option.split)
  ultimately show ?thesis
    using assms by (simp add: terminate_attempt_def Let_def split_def load_outcomes_emit split: option.split)
qed

interpretation gone: attempt_invariant "ids_gone n A" for n A
proof (unfold_locales, goal_cases)
  case (1 c c' X)
  then show ?case
    using attempts_good_view [of c c' X] attempt_view_fields [of c c'] load_outcomes_view [of c c']
    by (simp add: ids_gone_def)
next
  case (2 X c)
  then show ?case by (simp add: ids_gone_def attempts_good_def)
next
  case (3 c X)
  then show ?case by (auto simp: ids_gone_def attempts_good_def attempts_ok_weaken)
next
  case (4 X c a r t)
  show ?case
    by (rule ids_gone_step [OF 4(1) attempts_good_emit])
      (use 4 in \<open>auto simp: ids_gone_def attempt_of_emit load_outcomes_emit split: option.split\<close>)
next
  case (5 X c a f)
  show ?case
    by (rule ids_gone_step [OF 5(1) attempts_good_edit]) (use 5 in \<open>auto simp: ids_gone_def\<close>)
next
  case (6 X c p x a z)
  show ?case
    by (rule ids_gone_step [OF 6(1) attempts_good_supersede])
      (use 6 in \<open>auto simp: ids_gone_def attempt_of_supersede\<close>)
next
  case (7 c a x pe)
  show ?case
    by (rule ids_gone_step [OF 7(1) attempts_good_bind]) (use 7 in \<open>auto simp: ids_gone_def\<close>)
next
  case (8 c a)
  show ?case
    by (rule ids_gone_step [OF 8(1) attempts_good_activate]) (use 8 in \<open>auto simp: ids_gone_def\<close>)
next
  case (9 X c)
  show ?case
    by (rule ids_gone_step [OF 9(1) attempts_good_deactivate]) (use 9 in \<open>auto simp: ids_gone_def\<close>)
next
  case (10 X c a x out)
  obtain q m where "\<And>b. attempt_of (terminate_attempt a out x c) b =
      (if b = a then Some (terminal_record out q m x) else attempt_of c b)"
    using terminate_record [OF 10(2), of out] by blast
  note of = this
  show ?case
    by (rule ids_gone_step [OF 10(1) attempts_good_terminate])
      (use 10 in \<open>auto simp: ids_gone_def of terminate_fields load_outcomes_terminate\<close>)
next
  case (11 c x)
  then show ?case by (intro ids_gone_insert) auto
next
  case (12 c x)
  then show ?case by (intro ids_gone_insert) auto
next
  case (13 a c pe)
  show ?case
    by (rule ids_gone_step [OF 13(1) attempts_good_publish]) (use 13 in \<open>auto simp: ids_gone_def\<close>)
qed

section \<open>Inputs\<close>

lemma ids_gone_start:
  assumes "attempts_good {} s" "n \<le> next_load_attempt_id s" "next_load_attempt_id s \<le> u64_max"
    and "\<And>a. a \<in> A \<Longrightarrow> a < n \<and> attempt_of s a = None"
  shows "ids_gone n A {} (PlayerLifecycleState.extend s (reducer_context.fields []))" (is "ids_gone n A {} ?c")
proof -
  have "attempts_good {} ?c"
    by (rule iffD2 [OF attempts_good_cong [OF attempt_fields_extend(1)] assms(1)])
  with assms show ?thesis
    unfolding ids_gone_def attempt_of_extended extended_context by (simp add: load_outcomes_def)
qed

lemma attachment_replaced_next:
  "next_load_attempt_id (attachment_replaced c) = next_load_attempt_id (closing_context c)"
proof -
  have "next_load_attempt_id (snd (queue_event e c')) = next_load_attempt_id c'" for e c'
    using attempt_view_queue_event [of e c'] by (simp add: attempt_view_def)
  then show ?thesis
    by (simp add: attachment_replaced_def close_epoch_closing open_next_epoch_def
        retire_current_epoch_delivery_def push_effect_def Let_def)
qed

lemma reduce_gone:
  fixes input :: PlayerLifecycleInput
  assumes start: "attempts_good {} s" "next_load_attempt_id s \<le> u64_max"
  defines "s' \<equiv> fst (reduce_player_lifecycle s input)" and "fx \<equiv> snd (reduce_player_lifecycle s input)"
  shows "next_load_attempt_id s \<le> next_load_attempt_id s'" "next_load_attempt_id s' \<le> u64_max"
    and "attempt_of s a = None \<Longrightarrow> a < next_load_attempt_id s \<Longrightarrow>
      attempt_of s' a = None \<and> load_outcomes a fx = []"
proof -
  let ?c = "PlayerLifecycleState.extend s (reducer_context.fields [])"
  have *: "next_load_attempt_id s \<le> next_load_attempt_id s' \<and> next_load_attempt_id s' \<le> u64_max
      \<and> (\<forall>a\<in>A. attempt_of s' a = None \<and> load_outcomes a fx = [])"
    if "\<And>a. a \<in> A \<Longrightarrow> a < next_load_attempt_id s \<and> attempt_of s a = None" for A
  proof (cases "input = AttachmentReplaced")
    case True
    have "ids_gone (next_load_attempt_id s) A {} (closing_context ?c)"
      by (rule gone.folding_inputs(4) [OF ids_gone_start [OF start(1) _ start(2) that]]) simp_all
    with True show ?thesis
      by (auto simp: s'_def fx_def reduce_player_lifecycle_def Let_def ids_gone_def attempt_of_extended
          attachment_replaced_next attachment_replaced_load_effects attempt_of_def attachment_replaced_attempts)
  next
    case False
    have "ids_gone (next_load_attempt_id s) A {} (handle_input input ?c)"
      by (rule gone.handle_input [OF False ids_gone_start [OF start(1) _ start(2) that]]) simp_all
    then show ?thesis
      by (auto simp: s'_def fx_def reduce_player_lifecycle_def Let_def ids_gone_def attempt_of_extended)
  qed
  from * [of "{}"] show "next_load_attempt_id s \<le> next_load_attempt_id s'" "next_load_attempt_id s' \<le> u64_max"
    by simp_all
  from * [of "{a}"] show "attempt_of s a = None \<Longrightarrow> a < next_load_attempt_id s \<Longrightarrow>
      attempt_of s' a = None \<and> load_outcomes a fx = []"
    by simp
qed

text \<open>What a settled record is afterwards: removed, or settled in the same way.\<close>

definition settled_alike :: "LoadAttempt \<Rightarrow> LoadAttempt option \<Rightarrow> bool" where
  "settled_alike x now = (case now of None \<Rightarrow> True | Some y \<Rightarrow> same_settlement x y)"

lemma same_settlement_trans: "same_settlement x y \<Longrightarrow> same_settlement y z \<Longrightarrow> same_settlement x z"
  by (simp add: same_settlement_def same_load_def)

lemma settled_alike_trans: "same_settlement x y \<Longrightarrow> settled_alike y now \<Longrightarrow> settled_alike x now"
  by (auto simp: settled_alike_def intro: same_settlement_trans split: option.splits)

lemma reduce_settled:
  assumes good: "attempts_good {} s" and room: "next_load_attempt_id s < u64_max"
    "next_load_attempt_id (fst (reduce_player_lifecycle s input)) < u64_max"
    and x: "attempt_of s a = Some x" "la_semantic_load_result x \<noteq> None"
  shows "settled_alike x (attempt_of (fst (reduce_player_lifecycle s input)) a)
    \<and> load_outcomes a (snd (reduce_player_lifecycle s input)) = []"
proof (cases "input = AttachmentReplaced")
  case False
  with reduce_load_once(1) [OF good False room(2) x] show ?thesis
    by (auto simp: settled_alike_def)
next
  case True
  let ?c = "PlayerLifecycleState.extend s (reducer_context.fields [])"
  have keyed: "attempts_keyed ?c" "attempt_of ?c a = Some x" "la_epoch x = attachment_epoch ?c"
    using good room(1) x(1) attempts_okD [of "{}" s a x]
    by (simp_all add: attempt_of_extended record_ok_def extended_context attempts_good_def)
      (simp add: attempts_keyed_def PlayerLifecycleState.defs)
  have "settles_once a (Some x) (attachment_epoch s) {} (closing_context ?c)"
    using loads.folding_inputs(4) [OF settles_once_start [OF good, of a]] x(1) by simp
  moreover have "next_load_attempt_id (closing_context ?c) < u64_max"
    using room(1) closing_context_attempt(1) [OF keyed] by (simp add: attempt_of_extended)
  ultimately have "load_outcomes a (effects (closing_context ?c)) = []"
    using x(2) by (auto simp: settles_once_def load_once_def)
  with True show ?thesis
    by (simp add: reduce_player_lifecycle_def Let_def attempt_of_extended attachment_replaced_load_effects
        attempt_of_def attachment_replaced_attempts settled_alike_def)
qed

lemma replaced_settles_open_load:
  assumes good: "attempts_good {} s" and most: "next_load_attempt_id s \<le> u64_max"
    and x: "attempt_of s a = Some x" "la_semantic_load_result x = None"
    and room: "next_load_attempt_id (fst (reduce_player_lifecycle s AttachmentReplaced)) < u64_max"
  shows "attempt_of (fst (reduce_player_lifecycle s AttachmentReplaced)) a = None
    \<and> (\<exists>q. published_load (attachment_epoch s)
        (x\<lparr>la_semantic_load_result := Some PlayerLoadAttemptResult.TransportDisconnected,
           la_semantic_outcome_sequence := Some q\<rparr>)
        (load_outcomes a (snd (reduce_player_lifecycle s AttachmentReplaced))))"
proof -
  have "next_load_attempt_id s < u64_max"
    using reduce_gone(1) [OF good most, where input = AttachmentReplaced] room by simp
  from reduce_replaced_loads [OF good this x] show ?thesis
    by (auto simp: published_load_def reduce_player_lifecycle_def Let_def attempt_of_extended attempt_of_def
        attachment_replaced_attempts)
qed

section \<open>Peeks and acknowledgements\<close>

lemma attempt_of_fields: "attempt_fields s = attempt_fields t \<Longrightarrow> attempt_of s = attempt_of t"
  by (auto simp: attempt_fields_def attempt_of_def)

lemma unlinked_settlement [simp]: "same_settlement y (unlinked_record a x y)"
  by (simp add: unlinked_record_def same_settlement_def same_load_def Let_def)

text \<open>Compaction removes records or changes their links.\<close>

definition compacted :: "'a lifecycle \<Rightarrow> 'a lifecycle \<Rightarrow> bool" where
  "compacted s t \<longleftrightarrow>
     next_load_attempt_id t = next_load_attempt_id s
     \<and> (\<forall>a. case attempt_of s a of
             None \<Rightarrow> attempt_of t a = None | Some x \<Rightarrow> settled_alike x (attempt_of t a))"

lemma compacted_trans: "compacted s t \<Longrightarrow> compacted t u \<Longrightarrow> compacted s u"
proof -
  assume st: "compacted s t" and tu: "compacted t u"
  have "case attempt_of s a of None \<Rightarrow> attempt_of u a = None | Some x \<Rightarrow> settled_alike x (attempt_of u a)" for a
    using st [unfolded compacted_def, THEN conjunct2, rule_format, of a]
      tu [unfolded compacted_def, THEN conjunct2, rule_format, of a]
    by (cases "attempt_of s a"; cases "attempt_of t a"; cases "attempt_of u a")
      (auto simp: settled_alike_def intro: same_settlement_trans)
  with st tu show ?thesis by (simp add: compacted_def)
qed

lemma compacted_same: "attempt_fields t = attempt_fields s \<Longrightarrow> compacted s t"
  using attempt_of_fields [of t s]
  by (auto simp: compacted_def settled_alike_def attempt_fields_def split: option.split)

lemma compacted_attempt:
  assumes keyed: "attempts_keyed s"
  shows "compacted s (compact_attempt q b s)"
proof (cases "attempt_of s b")
  case (Some x)
  show ?thesis
    by (auto simp: compacted_def attempt_of_compact [OF keyed Some] settled_alike_def split: option.split)
qed (simp add: compacted_same compact_attempt_def)

lemma compacted_attempts: "attempts_keyed s \<Longrightarrow> compacted s (fold (compact_attempt q) ids s)"
  by (induction ids arbitrary: s)
    (auto intro: compacted_same compacted_trans [OF compacted_attempt] keyed_compact)

lemma compacted_acknowledged:
  assumes "attempts_keyed s"
  shows "compacted s (compact_acknowledged_lifecycle q s)"
proof -
  let ?ids = "map la_id (filter (acknowledged_terminal_attempt q) (bt_values (load_attempts s)))"
  have "attempt_fields (compact_acknowledged_lifecycle q s) = attempt_fields (fold (compact_attempt q) ?ids s)"
    by (simp add: compact_acknowledged_lifecycle_def Let_def fold_keeps [of attempt_fields])
  then show ?thesis
    using compacted_attempts [OF assms] compacted_same compacted_trans by blast
qed

lemma compacted_acknowledge:
  assumes "attempts_keyed s" shows "compacted s (snd (acknowledge_event_batch token s))"
proof -
  have finish: "compacted s (compact_acknowledged_lifecycle q t)"
    if "attempt_fields t = attempt_fields s" for q and t :: "'a lifecycle"
  proof -
    from that have "attempts_keyed t" using assms by (simp add: attempts_keyed_def attempt_fields_def)
    then show ?thesis
      by (rule compacted_trans [OF compacted_same [OF that] compacted_acknowledged])
  qed
  show ?thesis
    by (auto simp: acknowledge_event_batch_def Let_def compacted_same intro!: finish
        split: option.split list.split)
qed

lemma compacted_peek: "compacted s (snd (peek_event_batch s))"
  by (rule compacted_same, cases "cached_batch s") (simp_all add: peek_cached peek_uncached Let_def)

section \<open>Runs\<close>

text \<open>
  Up to the end of the counter, nothing was published for the settled attempt in the log, and its
  record is removed for good or settled as it was.
\<close>

definition stays_final :: "LoadAttemptId \<Rightarrow> LoadAttempt \<Rightarrow> LifecycleLogEntry list \<Rightarrow> PlayerLifecycleState \<Rightarrow> bool" where
  "stays_final a x tr s \<longleftrightarrow>
     attempts_good {} s \<and> next_load_attempt_id s \<le> u64_max
     \<and> (next_load_attempt_id s < u64_max \<longrightarrow>
         a < next_load_attempt_id s \<and> load_outcomes a (logged_effects tr) = [] \<and> settled_alike x (attempt_of s a))"

lemma stays_final_reduce:
  assumes final: "stays_final a x tr s" and x: "la_semantic_load_result x \<noteq> None"
  shows "stays_final a x (tr @ snd (lifecycle_step (Reduce input) s)) (fst (lifecycle_step (Reduce input) s))"
proof -
  let ?s = "fst (reduce_player_lifecycle s input)" and ?fx = "snd (reduce_player_lifecycle s input)"
  have good: "attempts_good {} s" "next_load_attempt_id s \<le> u64_max"
    using final by (simp_all add: stays_final_def)
  note later = reduce_gone [OF good, where input = input]
  have "a < next_load_attempt_id ?s \<and> load_outcomes a (logged_effects tr @ ?fx) = [] \<and> settled_alike x (attempt_of ?s a)"
    if room: "next_load_attempt_id ?s < u64_max"
  proof -
    have old: "next_load_attempt_id s < u64_max" using later(1) room by simp
    with final have a: "a < next_load_attempt_id s" "load_outcomes a (logged_effects tr) = []"
        "settled_alike x (attempt_of s a)"
      by (simp_all add: stays_final_def)
    show ?thesis
    proof (cases "attempt_of s a")
      case None
      with a later(1) later(3) [of a] show ?thesis by (simp add: settled_alike_def)
    next
      case (Some y)
      then have y: "same_settlement x y" using a(3) by (simp add: settled_alike_def)
      then have "la_semantic_load_result y \<noteq> None" using x by (simp add: same_settlement_def)
      from reduce_settled [OF good(1) old room Some this] show ?thesis
        using a(1,2) later(1) settled_alike_trans [OF y] by simp
    qed
  qed
  then show ?thesis
    using attempts_good_reduce [OF good(1)] later(2) by (simp add: stays_final_def split_def Let_def)
qed

lemma stays_final_compacted:
  assumes "stays_final a x tr s" "compacted s t" "attempts_good {} t" "logged_effects tr' = []"
  shows "stays_final a x (tr @ tr') t"
  using assms
  by (auto simp: stays_final_def compacted_def settled_alike_def intro: same_settlement_trans
      dest!: spec [of _ a] split: option.splits)

lemma stays_final_step:
  assumes final: "stays_final a x tr s" and x: "la_semantic_load_result x \<noteq> None"
  shows "stays_final a x (tr @ snd (lifecycle_step l s)) (fst (lifecycle_step l s))"
proof (cases l)
  case (Reduce input)
  then show ?thesis using stays_final_reduce [OF assms] by simp
next
  case Peek
  have "attempts_good {} (fst (lifecycle_step l s))"
    using final by (intro attempts_good_lifecycle_step) (simp add: stays_final_def)
  with Peek show ?thesis by (intro stays_final_compacted [OF final]) (simp_all add: compacted_peek)
next
  case (Acknowledge token)
  have good: "attempts_good {} s" using final by (simp add: stays_final_def)
  then have "attempts_good {} (fst (lifecycle_step l s))" "attempts_keyed s"
    by (simp_all add: attempts_good_lifecycle_step attempts_good_def [of _ s])
  with Acknowledge show ?thesis by (intro stays_final_compacted [OF final]) (simp_all add: compacted_acknowledge)
qed

interpretation finality: logged_invariant lifecycle_step "\<lambda>_. True"
    "\<lambda>tr s. la_semantic_load_result x \<noteq> None \<and> stays_final a x tr s" for a x
  by unfold_locales (auto intro: stays_final_step)

lemma next_id_at_most: "next_load_attempt_id (fst (run_steps lifecycle_step ls (new_state epoch))) \<le> u64_max"
proof (induction ls rule: rev_induct)
  case Nil
  show ?case by (simp add: new_state_def u64_max_def)
next
  case (snoc l ls)
  let ?s = "fst (run_steps lifecycle_step ls (new_state epoch))"
  have good: "attempts_good {} ?s" by (rule attempts_run.log.holds_run) (simp_all add: attempts_good_new_state)
  then have keyed: "attempts_keyed ?s" by (simp add: attempts_good_def)
  have "next_load_attempt_id (fst (lifecycle_step l ?s)) \<le> u64_max"
  proof (cases l)
    case (Reduce input)
    then show ?thesis using reduce_gone(2) [OF good snoc] by (simp add: split_def Let_def)
  next
    case Peek
    then show ?thesis using compacted_peek [of ?s] snoc by (simp add: compacted_def)
  next
    case (Acknowledge token)
    then show ?thesis using compacted_acknowledge [OF keyed] snoc by (simp add: compacted_def)
  qed
  then show ?case by (simp add: run_steps_append run_steps_Cons)
qed

lemma run_after_settled:
  assumes good: "attempts_good {} s" "next_load_attempt_id s \<le> u64_max"
    and x: "attempt_of s a = Some x" "la_semantic_load_result x \<noteq> None"
    and room: "next_load_attempt_id (fst (run_steps lifecycle_step later s)) < u64_max"
  shows "settled_alike x (attempt_of (fst (run_steps lifecycle_step later s)) a)
    \<and> load_outcomes a (logged_effects (snd (run_steps lifecycle_step later s))) = []"
proof -
  have "a < next_load_attempt_id s" if "next_load_attempt_id s < u64_max"
    using good(1) that attempts_okD [of "{}" s a x] x(1) by (auto simp: attempts_good_def record_ok_def)
  with good x have "stays_final a x [] s"
    by (auto simp: stays_final_def settled_alike_def load_outcomes_def)
  with finality.holds_run [of x a "[]" s later] x(2) room show ?thesis by (simp add: stays_final_def)
qed

end
