(* ===== verification/Room_Roster.thy ===== *)
theory Room_Roster
  imports Prelude "HOL-Library.List_Lexorder" "HOL-Library.Char_ord"
begin

text \<open>
  The server's room roster (\<open>room_roster.rs\<close>): rooms, their users and each user's readiness, as
  nested ordered maps that never keep an empty room. The abstract specification is one map from
  a room and a user to a readiness value; the locale states what a roster promises about it, and
  its client lemma extends the promises to every sequence of operations.
\<close>

section \<open>The roster\<close>

record RoomRoster =
  rooms :: "(string, (string, bool option) btree_map) btree_map"

datatype RoomRosterError = RoomMissing string | UserMissing string

definition default_roster :: RoomRoster where
  "default_roster = \<lparr>rooms = []\<rparr>"

definition join_room_with_ready :: "string \<Rightarrow> string \<Rightarrow> bool option \<Rightarrow> RoomRoster \<Rightarrow> RoomRoster" where
  "join_room_with_ready username room_name ready self =
     (let users = (case bt_get (rooms self) room_name of Some users \<Rightarrow> users | None \<Rightarrow> [])
      in self\<lparr>rooms := bt_insert room_name (bt_insert username ready users) (rooms self)\<rparr>)"

definition join_room :: "string \<Rightarrow> string \<Rightarrow> RoomRoster \<Rightarrow> RoomRoster" where
  "join_room username room_name self = join_room_with_ready username room_name None self"

definition leave_room :: "string \<Rightarrow> string \<Rightarrow> RoomRoster \<Rightarrow> (RoomRosterError + unit) \<times> RoomRoster" where
  "leave_room username room_name self =
     (case bt_get (rooms self) room_name of
        None \<Rightarrow> (Inl (RoomMissing room_name), self)
      | Some users \<Rightarrow>
          (case bt_get users username of
             None \<Rightarrow> (Inl (UserMissing username), self)
           | Some _ \<Rightarrow>
               (let users = bt_remove username users;
                    self = self\<lparr>rooms := bt_modify room_name (\<lambda>_. users) (rooms self)\<rparr>
                in (Inr (),
                    if users = [] then self\<lparr>rooms := bt_remove room_name (rooms self)\<rparr> else self))))"

definition set_ready :: "string \<Rightarrow> string \<Rightarrow> bool \<Rightarrow> RoomRoster \<Rightarrow> (RoomRosterError + unit) \<times> RoomRoster" where
  "set_ready username room_name ready self =
     (case bt_get (rooms self) room_name of
        None \<Rightarrow> (Inl (RoomMissing room_name), self)
      | Some users \<Rightarrow>
          (case bt_get users username of
             None \<Rightarrow> (Inl (UserMissing username), self)
           | Some _ \<Rightarrow>
               (Inr (), self\<lparr>rooms := bt_modify room_name
                  (bt_modify username (\<lambda>_. Some ready)) (rooms self)\<rparr>)))"

definition contains_room :: "RoomRoster \<Rightarrow> string \<Rightarrow> bool" where
  "contains_room self room_name = bt_contains (rooms self) room_name"

definition user_ready :: "string \<Rightarrow> string \<Rightarrow> RoomRoster \<Rightarrow> bool option" where
  "user_ready username room_name self =
     (case bt_get (rooms self) room_name of
        None \<Rightarrow> None
      | Some users \<Rightarrow> Option.bind (bt_get users username) id)"

section \<open>Abstract specification\<close>

text \<open>A membership maps a room and a user to the user's readiness, which may be unknown.\<close>

type_synonym membership = "string \<times> string \<rightharpoonup> bool option"

datatype RosterOp = Join string string "bool option" | Leave string string | SetReady string string bool

definition occupied :: "membership \<Rightarrow> string \<Rightarrow> bool" where
  "occupied M room \<longleftrightarrow> (\<exists>user. M (room, user) \<noteq> None)"

definition spec_change ::
  "string \<Rightarrow> string \<Rightarrow> bool option option \<Rightarrow> membership \<Rightarrow> (RoomRosterError + unit) \<times> membership" where
  "spec_change user room v M =
     (if \<not> occupied M room then (Inl (RoomMissing room), M)
      else if M (room, user) = None then (Inl (UserMissing user), M)
      else (Inr (), M((room, user) := v)))"

fun spec_apply :: "RosterOp \<Rightarrow> membership \<Rightarrow> (RoomRosterError + unit) \<times> membership" where
  "spec_apply (Join user room ready) M = (Inr (), M((room, user) \<mapsto> ready))"
| "spec_apply (Leave user room) M = spec_change user room None M"
| "spec_apply (SetReady user room ready) M = spec_change user room (Some (Some ready)) M"

fun roster_apply :: "RosterOp \<Rightarrow> RoomRoster \<Rightarrow> (RoomRosterError + unit) \<times> RoomRoster" where
  "roster_apply (Join user room ready) s = (Inr (), join_room_with_ready user room ready s)"
| "roster_apply (Leave user room) s = leave_room user room s"
| "roster_apply (SetReady user room ready) s = set_ready user room ready s"

text \<open>Operations in sequence, collecting their results.\<close>

primrec apply_all :: "('op \<Rightarrow> 's \<Rightarrow> 'r \<times> 's) \<Rightarrow> 'op list \<Rightarrow> 's \<Rightarrow> 'r list \<times> 's" where
  "apply_all f [] s = ([], s)"
| "apply_all f (x # xs) s =
     (let (r, s') = f x s; (rs, s'') = apply_all f xs s' in (r # rs, s''))"

locale data_refinement =
  fixes concrete :: "'op \<Rightarrow> 's \<Rightarrow> 'r \<times> 's"
    and spec :: "'op \<Rightarrow> 'm \<Rightarrow> 'r \<times> 'm"
    and invar :: "'s \<Rightarrow> bool"
    and abs :: "'s \<Rightarrow> 'm"
  assumes invar_apply: "invar s \<Longrightarrow> invar (snd (concrete x s))"
    and simulates: "invar s \<Longrightarrow> apsnd abs (concrete x s) = spec x (abs s)"
begin

lemma invar_all: "invar s \<Longrightarrow> invar (snd (apply_all concrete xs s))"
  by (induction xs arbitrary: s) (simp_all add: split_def Let_def invar_apply)

lemma simulates_all: "invar s \<Longrightarrow> apsnd abs (apply_all concrete xs s) = apply_all spec xs (abs s)"
proof (induction xs arbitrary: s)
  case (Cons x xs)
  note step = simulates [OF Cons.prems, of x, symmetric]
  from Cons.IH [OF invar_apply [OF Cons.prems], of x, symmetric] show ?case
    by (simp add: split_def Let_def step prod_eq_iff)
qed simp

end

section \<open>The roster implements it\<close>

definition roster_ok :: "RoomRoster \<Rightarrow> bool" where
  "roster_ok s \<longleftrightarrow> bt_wf (rooms s) \<and> list_all (\<lambda>(_, users). bt_wf users \<and> users \<noteq> []) (rooms s)"

definition roster_members :: "RoomRoster \<Rightarrow> membership" where
  "roster_members s = (\<lambda>(room, user). case bt_get (rooms s) room of
     None \<Rightarrow> None | Some users \<Rightarrow> bt_get users user)"

lemma roster_ok_iff:
  "roster_ok s \<longleftrightarrow> bt_wf (rooms s) \<and>
     (\<forall>room users. bt_get (rooms s) room = Some users \<longrightarrow> bt_wf users \<and> users \<noteq> [])"
  using bt_entries_iff [of "rooms s"] by (auto simp: roster_ok_def list_all_iff Ball_def)

lemma bt_insert_not_Nil [simp]: "bt_insert k v m \<noteq> []"
  by (cases "(k, v, m)" rule: bt_insert.cases) auto

lemma bt_modify_Nil_iff [simp]: "bt_modify k f m = [] \<longleftrightarrow> m = []"
  by (simp add: bt_modify_def)

lemma bt_nonempty: "m \<noteq> [] \<Longrightarrow> \<exists>k v. bt_get m k = Some v"
  by (cases m) auto

lemma roster_members_at:
  "roster_members s (room, user) =
     (case bt_get (rooms s) room of None \<Rightarrow> None | Some users \<Rightarrow> bt_get users user)"
  by (simp add: roster_members_def)

lemma occupied_members: "roster_ok s \<Longrightarrow> occupied (roster_members s) room \<longleftrightarrow> bt_get (rooms s) room \<noteq> None"
  by (force simp: occupied_def roster_members_at roster_ok_iff dest: bt_nonempty split: option.splits)

lemma roster_ok_join: "roster_ok s \<Longrightarrow> roster_ok (join_room_with_ready user room ready s)"
  by (auto simp: roster_ok_iff join_room_with_ready_def Let_def bt_wf_def [of "[_]"]
      split: option.splits if_splits)

lemma roster_ok_leave: "roster_ok s \<Longrightarrow> roster_ok (snd (leave_room user room s))"
  by (auto simp: roster_ok_iff leave_room_def Let_def split: option.splits if_splits)

lemma roster_ok_set_ready: "roster_ok s \<Longrightarrow> roster_ok (snd (set_ready user room ready s))"
  by (auto simp: roster_ok_iff set_ready_def split: option.splits if_splits)

lemma members_join:
  "roster_members (join_room_with_ready user room ready s) = (roster_members s)((room, user) \<mapsto> ready)"
  by (auto simp: fun_eq_iff roster_members_def join_room_with_ready_def Let_def split: option.splits)

lemma members_leave:
  assumes "roster_ok s"
  shows "apsnd roster_members (leave_room user room s) = spec_change user room None (roster_members s)"
proof (cases "bt_get (rooms s) room")
  case None
  then show ?thesis
    by (simp add: leave_room_def spec_change_def occupied_members [OF assms])
next
  case (Some users)
  have gone: "bt_get users u = None" if "bt_remove user users = []" "u \<noteq> user" for u
    using bt_get_remove [of user users u] that by simp
  from Some show ?thesis
    by (auto simp: leave_room_def spec_change_def occupied_members [OF assms] Let_def roster_members_at
        fun_eq_iff gone split: option.splits)
qed

lemma members_set_ready:
  assumes "roster_ok s"
  shows "apsnd roster_members (set_ready user room ready s)
    = spec_change user room (Some (Some ready)) (roster_members s)"
  by (auto simp: set_ready_def spec_change_def occupied_members [OF assms] roster_members_at
      fun_eq_iff split: option.splits)

interpretation roster: data_refinement roster_apply spec_apply roster_ok roster_members
proof (unfold_locales, goal_cases)
  case (1 s x)
  then show ?case
    by (cases x) (simp_all add: roster_ok_join roster_ok_leave roster_ok_set_ready)
next
  case (2 s x)
  then show ?case
    by (cases x) (simp_all add: members_join members_leave members_set_ready)
qed

lemma roster_ok_default: "roster_ok default_roster"
  by (simp add: roster_ok_def default_roster_def)

lemma members_default: "roster_members default_roster = Map.empty"
  by (simp add: roster_members_def default_roster_def fun_eq_iff)

section \<open>Departure undoes arrival\<close>

lemma bt_remove_absent: "bt_get m k = None \<Longrightarrow> bt_remove k m = m"
  by (induction m) (auto simp: bt_remove_def bt_get_def split: if_splits)

lemma bt_remove_insert: "bt_get m k = None \<Longrightarrow> bt_remove k (bt_insert k v m) = m"
proof (induction k v m rule: bt_insert.induct)
  case (2 k v k' v' m)
  then show ?case
    using bt_remove_absent [of m k] by (auto simp: bt_remove_def split: if_splits)
qed (simp add: bt_remove_def)

lemma bt_modify_absent: "bt_get m k = None \<Longrightarrow> bt_modify k f m = m"
  by (induction m) (auto simp: bt_modify_def split: if_splits)

lemma bt_modify_insert:
  "bt_wf m \<Longrightarrow> bt_get m k = Some w \<Longrightarrow> bt_modify k (\<lambda>_. w) (bt_insert k v m) = m"
proof (induction k v m rule: bt_insert.induct)
  case (2 k v k' v' m)
  have wf: "bt_wf m" using 2(2) by (simp add: bt_wf_def)
  have later: "\<And>q. bt_get m q \<noteq> None \<Longrightarrow> k' < q"
    using 2(2) by (auto simp: bt_wf_def bt_get_def map_of_eq_None_iff)
  show ?case
  proof (cases "k = k'")
    case True
    then have "bt_get m k = None" using later [of k] by (cases "bt_get m k") auto
    with True 2(3) bt_modify_absent [of m k] show ?thesis by (simp add: bt_modify_def)
  next
    case False
    with 2(3) later [of k] 2(1) wf show ?thesis by (auto simp: bt_modify_def)
  qed
qed simp

lemma leave_after_join:
  assumes "roster_ok s" "roster_members s (room, user) = None"
  shows "leave_room user room (join_room_with_ready user room ready s) = (Inr (), s)"
proof (cases "bt_get (rooms s) room")
  case None
  have "bt_remove room (bt_modify room f m) = bt_remove room m" for f and m :: "(string, (string, bool option) btree_map) btree_map"
    by (induction m) (auto simp: bt_remove_def bt_modify_def)
  moreover have "bt_remove user [(user, ready)] = []" by (simp add: bt_remove_def)
  ultimately show ?thesis
    using None by (simp add: leave_room_def join_room_with_ready_def Let_def bt_remove_insert)
next
  case (Some users)
  then have "bt_get users user = None" "users \<noteq> []" "bt_wf (rooms s)"
    using assms by (auto simp: roster_members_at roster_ok_iff)
  with Some show ?thesis
    by (simp add: leave_room_def join_room_with_ready_def Let_def bt_remove_insert bt_modify_insert)
qed

end
