(* ===== verification/Protocol_State.thy ===== *)
theory Protocol_State
  imports F64 "HOL-Library.List_Lexorder" "HOL-Library.Char_ord"
begin

text \<open>
  The protocol messages as far as the client's outbox reads them (\<open>sorotte-protocol\<close>), and the
  merge of a pending State message into a newer one (\<open>outbox.rs\<close>). JSON values are \<open>serde_json\<close>'s;
  the conversions between JSON and typed payloads are generated by \<open>serde\<close> and are collected in a
  record of functions that every operation which converts takes as an argument.
\<close>

section \<open>JSON values\<close>

datatype Number = PosInt u64 | NegInt int | Float f64

datatype Value =
    Null
  | Bool bool
  | Number Number
  | String string
  | Array "Value list"
  | Object "(string \<times> Value) list"

type_synonym json_map = "(string, Value) btree_map"

definition SOROTTE_PARTICIPANT_STATUS_V1 :: string where
  "SOROTTE_PARTICIPANT_STATUS_V1 = ''sorotteParticipantStatusV1''"

definition SOROTTE_PLAYBACK_BARRIER_V1 :: string where
  "SOROTTE_PLAYBACK_BARRIER_V1 = ''sorottePlaybackBarrierV1''"

definition SOROTTE_READINESS_V2 :: string where
  "SOROTTE_READINESS_V2 = ''sorotteReadinessV2''"

definition SOROTTE_TRANSPORT_REVISION :: string where
  "SOROTTE_TRANSPORT_REVISION = ''sorotteTransportRevision''"

section \<open>State messages\<close>

record PlaystatePayload =
  ps_position :: "f64 option"
  ps_paused :: "bool option"
  ps_do_seek :: "bool option"
  ps_set_by :: "string option"
  ps_extra :: json_map

record PingPayload =
  pg_latency_calculation :: "f64 option"
  pg_client_latency_calculation :: "f64 option"
  pg_client_rtt :: "f64 option"
  pg_server_rtt :: "f64 option"
  pg_extra :: json_map

record IgnoringOnTheFlyPayload =
  ig_server :: "nat option"
  ig_client :: "nat option"
  ig_extra :: json_map

record StatePayload =
  st_playstate :: "PlaystatePayload option"
  st_ping :: "PingPayload option"
  st_ignoring_on_the_fly :: "IgnoringOnTheFlyPayload option"
  st_extra :: json_map

definition default_state_payload :: StatePayload where
  "default_state_payload =
     \<lparr>st_playstate = None, st_ping = None, st_ignoring_on_the_fly = None, st_extra = []\<rparr>"

text \<open>
  Typed payloads that the outbox only passes on, or only asks whether they are there, are
  elements of a type \<open>'p\<close>.
\<close>

record 'p SetPayload =
  set_room :: "'p option"
  set_file :: "'p option"
  set_user :: "'p option"
  set_controller_auth :: "'p option"
  set_new_controlled_room :: "'p option"
  set_ready_payload :: "'p option"
  set_playlist_change :: "'p option"
  set_playlist_index :: "'p option"
  set_features :: "Value option"
  set_command_order :: "string list"
  set_extra :: json_map

datatype 'p ProtocolMessage =
    Hello 'p
  | Set "'p SetPayload"
  | List 'p
  | State StatePayload
  | Chat 'p
  | Error 'p
  | Tls 'p

record 'p PlaybackBarrierStateExtension =
  pb_ready :: "'p option"
  pb_started :: "'p option"
  pb_transport :: "'p option"

text \<open>\<open>from_value\<close> at the types the code decodes, and \<open>to_value\<close>.\<close>

record 'p serde =
  from_value_u64 :: "Value \<Rightarrow> string + u64"
  from_value_barrier_state :: "Value \<Rightarrow> string + 'p PlaybackBarrierStateExtension"
  from_value_barrier_set :: "Value \<Rightarrow> string + 'p"
  from_value_readiness_state :: "Value \<Rightarrow> string + 'p"
  from_value_readiness_set :: "Value \<Rightarrow> string + 'p"
  to_value :: "'p \<Rightarrow> Value"

text \<open>\<open>extra.get(key).cloned().map(from_value).transpose()\<close>.\<close>

definition decode_extension :: "string \<Rightarrow> (Value \<Rightarrow> string + 'x) \<Rightarrow> json_map \<Rightarrow> string + 'x option" where
  "decode_extension key from_value extra =
     (case bt_get extra key of
        None \<Rightarrow> Inr None
      | Some value \<Rightarrow> map_sum id Some (from_value value))"

fun decoded_some :: "string + 'x option \<Rightarrow> bool" where
  "decoded_some (Inr (Some _)) = True"
| "decoded_some _ = False"

definition playback_barrier_v1 ::
  "'p serde \<Rightarrow> StatePayload \<Rightarrow> string + 'p PlaybackBarrierStateExtension option" where
  "playback_barrier_v1 sd state =
     decode_extension SOROTTE_PLAYBACK_BARRIER_V1 (from_value_barrier_state sd) (st_extra state)"

definition transport_revision :: "'p serde \<Rightarrow> PlaystatePayload \<Rightarrow> string + u64 option" where
  "transport_revision sd playstate =
     (case bt_get (ps_extra playstate) SOROTTE_TRANSPORT_REVISION of
        None \<Rightarrow> Inr None
      | Some Null \<Rightarrow> Inr None
      | Some value \<Rightarrow> map_sum id Some (from_value_u64 sd value))"

fun is_playback_protocol_message :: "'p serde \<Rightarrow> 'p ProtocolMessage \<Rightarrow> bool" where
  "is_playback_protocol_message sd (Set payload) \<longleftrightarrow>
     set_file payload \<noteq> None \<or> set_ready_payload payload \<noteq> None
     \<or> set_playlist_change payload \<noteq> None \<or> set_playlist_index payload \<noteq> None
     \<or> decoded_some (decode_extension SOROTTE_PLAYBACK_BARRIER_V1 (from_value_barrier_set sd) (set_extra payload))
     \<or> decoded_some (decode_extension SOROTTE_READINESS_V2 (from_value_readiness_set sd) (set_extra payload))"
| "is_playback_protocol_message sd (State state) \<longleftrightarrow>
     st_playstate state \<noteq> None \<or> decoded_some (playback_barrier_v1 sd state)
     \<or> decoded_some (decode_extension SOROTTE_READINESS_V2 (from_value_readiness_state sd) (st_extra state))"
| "is_playback_protocol_message sd _ \<longleftrightarrow> False"

section \<open>Merging a pending State into a newer one\<close>

definition opt_or :: "'x option \<Rightarrow> 'x option \<Rightarrow> 'x option" where
  "opt_or a b = (case a of Some _ \<Rightarrow> a | None \<Rightarrow> b)"

definition merge_missing_entries :: "json_map \<Rightarrow> json_map \<Rightarrow> json_map" where
  "merge_missing_entries previous latest =
     fold (\<lambda>(key, value) m. if bt_contains m key then m else bt_insert key value m) previous latest"

text \<open>One of the three observations, written into the latest extension object if it is missing there.\<close>

definition merge_observation ::
  "'p serde \<Rightarrow> string \<Rightarrow> 'p option \<Rightarrow> 'p option \<Rightarrow> json_map \<Rightarrow> json_map" where
  "merge_observation sd key previous latest m =
     (case (latest, previous) of
        (None, Some observation) \<Rightarrow> bt_insert key (to_value sd observation) m
      | _ \<Rightarrow> m)"

definition merge_playback_barrier_observations ::
  "'p serde \<Rightarrow> StatePayload \<Rightarrow> StatePayload \<Rightarrow> StatePayload" where
  "merge_playback_barrier_observations sd previous latest =
     (case (playback_barrier_v1 sd previous, playback_barrier_v1 sd latest) of
        (Inr (Some previous_extension), Inr (Some latest_extension)) \<Rightarrow>
          (case bt_get (st_extra latest) SOROTTE_PLAYBACK_BARRIER_V1 of
             Some (Object latest_object) \<Rightarrow>
               (let latest_object = merge_observation sd ''ready'' (pb_ready previous_extension)
                      (pb_ready latest_extension) latest_object;
                    latest_object = merge_observation sd ''started'' (pb_started previous_extension)
                      (pb_started latest_extension) latest_object;
                    latest_object = merge_observation sd ''transport'' (pb_transport previous_extension)
                      (pb_transport latest_extension) latest_object
                in latest\<lparr>st_extra := bt_insert SOROTTE_PLAYBACK_BARRIER_V1 (Object latest_object)
                     (st_extra latest)\<rparr>)
           | _ \<Rightarrow> latest)
      | _ \<Rightarrow> latest)"

definition merge_playstate :: "'p serde \<Rightarrow> PlaystatePayload \<Rightarrow> PlaystatePayload \<Rightarrow> PlaystatePayload" where
  "merge_playstate sd previous latest =
     (case (transport_revision sd latest, transport_revision sd previous) of
        (Inr latest_revision, Inr previous_revision) \<Rightarrow>
          if latest_revision = previous_revision
          then latest\<lparr>ps_position := opt_or (ps_position latest) (ps_position previous),
                 ps_paused := opt_or (ps_paused latest) (ps_paused previous),
                 ps_do_seek := (if ps_do_seek previous = Some True then Some True
                                else opt_or (ps_do_seek latest) (ps_do_seek previous)),
                 ps_set_by := opt_or (ps_set_by latest) (ps_set_by previous),
                 ps_extra := merge_missing_entries (ps_extra previous) (ps_extra latest)\<rparr>
          else latest
      | _ \<Rightarrow> latest)"

definition merge_ping :: "PingPayload \<Rightarrow> PingPayload \<Rightarrow> PingPayload" where
  "merge_ping previous latest =
     latest\<lparr>pg_latency_calculation := opt_or (pg_latency_calculation latest) (pg_latency_calculation previous),
       pg_client_latency_calculation :=
         opt_or (pg_client_latency_calculation latest) (pg_client_latency_calculation previous),
       pg_client_rtt := opt_or (pg_client_rtt latest) (pg_client_rtt previous),
       pg_server_rtt := opt_or (pg_server_rtt latest) (pg_server_rtt previous),
       pg_extra := merge_missing_entries (pg_extra previous) (pg_extra latest)\<rparr>"

definition merge_ignoring :: "IgnoringOnTheFlyPayload \<Rightarrow> IgnoringOnTheFlyPayload \<Rightarrow> IgnoringOnTheFlyPayload" where
  "merge_ignoring previous latest =
     latest\<lparr>ig_server := opt_or (ig_server latest) (ig_server previous),
       ig_client := opt_or (ig_client latest) (ig_client previous),
       ig_extra := merge_missing_entries (ig_extra previous) (ig_extra latest)\<rparr>"

text \<open>A part of the State that only the previous message has is taken over whole.\<close>

definition merge_part :: "('x \<Rightarrow> 'x \<Rightarrow> 'x) \<Rightarrow> 'x option \<Rightarrow> 'x option \<Rightarrow> 'x option" where
  "merge_part merge previous latest =
     (case (previous, latest) of
        (Some p, Some l) \<Rightarrow> Some (merge p l)
      | (Some p, None) \<Rightarrow> Some p
      | (None, _) \<Rightarrow> latest)"

definition merge_pending_state_obligations ::
  "'p serde \<Rightarrow> StatePayload \<Rightarrow> StatePayload \<Rightarrow> StatePayload" where
  "merge_pending_state_obligations sd previous latest =
     (let latest = latest\<lparr>st_playstate := merge_part (merge_playstate sd) (st_playstate previous) (st_playstate latest)\<rparr>;
          latest = latest\<lparr>st_ping := merge_part merge_ping (st_ping previous) (st_ping latest)\<rparr>;
          latest = latest\<lparr>st_ignoring_on_the_fly :=
            merge_part merge_ignoring (st_ignoring_on_the_fly previous) (st_ignoring_on_the_fly latest)\<rparr>;
          latest = merge_playback_barrier_observations sd previous latest
      in latest\<lparr>st_extra := merge_missing_entries (st_extra previous) (st_extra latest)\<rparr>)"

section \<open>Laws of the merge\<close>

lemma opt_or_simps [simp]: "opt_or (Some x) b = Some x" "opt_or None b = b" "opt_or a None = a"
  by (simp_all add: opt_or_def split: option.split)

lemma bt_get_merge_missing:
  "distinct (map fst previous) \<Longrightarrow>
   bt_get (merge_missing_entries previous latest) k = opt_or (bt_get latest k) (bt_get previous k)"
proof (induction previous arbitrary: latest)
  case (Cons entry previous)
  obtain key v where entry: "entry = (key, v)" by (cases entry)
  have none: "bt_get previous key = None"
    using Cons.prems by (auto simp: entry bt_get_def map_of_eq_None_iff)
  show ?case
    using Cons none by (cases "bt_get latest key")
      (auto simp: merge_missing_entries_def entry bt_contains_def)
qed (simp add: merge_missing_entries_def)

lemma bt_wf_merge_missing: "bt_wf latest \<Longrightarrow> bt_wf (merge_missing_entries previous latest)"
  by (induction previous arbitrary: latest) (simp_all add: merge_missing_entries_def split_def bt_wf_insert)

lemma merge_part_some: "merge_part merge previous latest = None \<longleftrightarrow> previous = None \<and> latest = None"
  by (auto simp: merge_part_def split: option.split)

lemma merge_part_both: "merge_part merge (Some p) (Some l) = Some (merge p l)"
  by (simp add: merge_part_def)

lemma merge_barrier_other_fields [simp]:
  "st_playstate (merge_playback_barrier_observations sd previous latest) = st_playstate latest"
  "st_ping (merge_playback_barrier_observations sd previous latest) = st_ping latest"
  "st_ignoring_on_the_fly (merge_playback_barrier_observations sd previous latest) = st_ignoring_on_the_fly latest"
  by (simp_all add: merge_playback_barrier_observations_def Let_def split: sum.split option.split Value.split)

lemma bt_get_merge_barrier:
  "k \<noteq> SOROTTE_PLAYBACK_BARRIER_V1 \<Longrightarrow>
   bt_get (st_extra (merge_playback_barrier_observations sd previous latest)) k = bt_get (st_extra latest) k"
  by (simp add: merge_playback_barrier_observations_def Let_def split: sum.split option.split Value.split)

lemma merge_barrier_contains:
  "bt_contains (st_extra (merge_playback_barrier_observations sd previous latest)) k
     \<longleftrightarrow> bt_contains (st_extra latest) k"
  by (auto simp: merge_playback_barrier_observations_def bt_contains_def Let_def
      split: sum.split option.split Value.split)

end
