(* ===== verification/Protocol_Outbox.thy ===== *)
theory Protocol_Outbox
  imports Protocol_State Runs
begin

text \<open>
  The client's outboxes (\<open>outbox.rs\<close>): the queue of effects that a fallible adapter flushes, and
  the queue of protocol messages, which keeps durable commands until they are acknowledged, drops
  what is scoped to a lost connection, coalesces playback State and lends its front to the
  transport under a lease. An operation whose Rust code can panic returns an option; \<open>None\<close> is the
  panic. Lifecycle evidence goes to a process-wide sink, kept here as a log in the record.
\<close>

section \<open>Effects\<close>

record 'e EffectOutbox =
  eff_pending :: "'e list"

definition default_effects :: "'e EffectOutbox" where
  "default_effects = \<lparr>eff_pending = []\<rparr>"

definition effect_front :: "'e EffectOutbox \<Rightarrow> 'e option" where
  "effect_front self = (case eff_pending self of [] \<Rightarrow> None | e # _ \<Rightarrow> Some e)"

text \<open>An assignment through the reference that \<open>back_mut\<close> returns.\<close>

definition back_mut :: "('e \<Rightarrow> 'e) \<Rightarrow> 'e EffectOutbox \<Rightarrow> 'e EffectOutbox" where
  "back_mut f self =
     (if eff_pending self = [] then self
      else self\<lparr>eff_pending := butlast (eff_pending self) @ [f (last (eff_pending self))]\<rparr>)"

definition effect_push_back :: "'e \<Rightarrow> 'e EffectOutbox \<Rightarrow> 'e EffectOutbox" where
  "effect_push_back effect self = self\<lparr>eff_pending := eff_pending self @ [effect]\<rparr>"

definition effect_acknowledge_front :: "'e EffectOutbox \<Rightarrow> 'e option \<times> 'e EffectOutbox" where
  "effect_acknowledge_front self =
     (case eff_pending self of
        [] \<Rightarrow> (None, self)
      | e # rest \<Rightarrow> (Some e, self\<lparr>eff_pending := rest\<rparr>))"

definition drain :: "'e EffectOutbox \<Rightarrow> 'e list \<times> 'e EffectOutbox" where
  "drain self = (eff_pending self, self\<lparr>eff_pending := []\<rparr>)"

text \<open>\<open>deliver\<close> acts on a world of its own; the result of the loop is the error, the queue left and that world.\<close>

fun flush_loop :: "('w \<Rightarrow> 'e \<Rightarrow> ('err + unit) \<times> 'w) \<Rightarrow> 'w \<Rightarrow> 'e list \<Rightarrow> ('err + unit) \<times> 'e list \<times> 'w" where
  "flush_loop deliver w [] = (Inr (), [], w)"
| "flush_loop deliver w (effect # pending) =
     (case deliver w effect of
        (Inl err, w') \<Rightarrow> (Inl err, effect # pending, w')
      | (Inr _, w') \<Rightarrow> flush_loop deliver w' pending)"

definition try_flush ::
  "('w \<Rightarrow> 'e \<Rightarrow> ('err + unit) \<times> 'w) \<Rightarrow> 'w \<Rightarrow> 'e EffectOutbox \<Rightarrow> ('err + unit) \<times> 'e EffectOutbox \<times> 'w" where
  "try_flush deliver w self =
     (let (result, pending, w) = flush_loop deliver w (eff_pending self)
      in (result, self\<lparr>eff_pending := pending\<rparr>, w))"

section \<open>Protocol messages\<close>

text \<open>
  The fields in the order of the source: connection generation, room, local media generation,
  request nonce and cancelled; connection generation, room, membership epoch and cancelled; and
  generation and participant status cancelled.
\<close>

datatype ProtocolDelivery =
    Reliable
  | ConnectionScopedReliable u64 string u64 u64 bool
  | ConnectionRoomScopedReadinessIntent u64 string u64 bool
  | ConnectionScopedCausalState
  | ConnectionScopedState u64 bool

definition connection_scoped_state :: "u64 \<Rightarrow> ProtocolDelivery" where
  "connection_scoped_state generation = ConnectionScopedState generation False"

fun set_participant_status_cancelled :: "bool \<Rightarrow> ProtocolDelivery \<Rightarrow> ProtocolDelivery" where
  "set_participant_status_cancelled cancelled (ConnectionScopedState generation _) =
     ConnectionScopedState generation cancelled"
| "set_participant_status_cancelled cancelled delivery = delivery"

fun participant_status_is_cancelled :: "ProtocolDelivery \<Rightarrow> bool" where
  "participant_status_is_cancelled (ConnectionScopedState _ cancelled) = cancelled"
| "participant_status_is_cancelled _ = False"

datatype OutboxEvidence =
    UnstagedSuperseded nat
  | StagedSuperseded u64

record 'p ProtocolOutbox =
  ob_pending :: "'p ProtocolMessage list"
  ob_delivery :: "ProtocolDelivery list"
  ob_connection_generation :: u64
  ob_active_generation :: "u64 option"
  ob_next_lease :: u64
  ob_leased_front :: "u64 option"
  ob_evidence :: "OutboxEvidence list"

definition default_outbox :: "'p ProtocolOutbox" where
  "default_outbox =
     \<lparr>ob_pending = [], ob_delivery = [], ob_connection_generation = 0, ob_active_generation = None,
      ob_next_lease = 0, ob_leased_front = None, ob_evidence = []\<rparr>"

definition emit_unstaged_transaction_superseded :: "nat \<Rightarrow> 'p ProtocolOutbox \<Rightarrow> 'p ProtocolOutbox" where
  "emit_unstaged_transaction_superseded count self =
     (if count = 0 then self else self\<lparr>ob_evidence := ob_evidence self @ [UnstagedSuperseded count]\<rparr>)"

definition emit_staged_transaction_superseded :: "u64 \<Rightarrow> 'p ProtocolOutbox \<Rightarrow> 'p ProtocolOutbox" where
  "emit_staged_transaction_superseded lease self =
     self\<lparr>ob_evidence := ob_evidence self @ [StagedSuperseded lease]\<rparr>"

section \<open>Leases\<close>

definition front_for_delivery_with_status ::
  "'p ProtocolOutbox \<Rightarrow> (u64 \<times> 'p ProtocolMessage \<times> bool) option \<times> 'p ProtocolOutbox" where
  "front_for_delivery_with_status self =
     (case ob_pending self of
        [] \<Rightarrow> (None, self)
      | message # _ \<Rightarrow>
          (case ob_leased_front self of
             Some lease \<Rightarrow> (Some (lease, message, False), self)
           | None \<Rightarrow>
               (let lease = max (wrapping_add (ob_next_lease self) 1) 1
                in (Some (lease, message, True), self\<lparr>ob_next_lease := lease, ob_leased_front := Some lease\<rparr>))))"

definition leased_front_message :: "u64 \<Rightarrow> 'p ProtocolOutbox \<Rightarrow> 'p ProtocolMessage option" where
  "leased_front_message lease self =
     (if ob_leased_front self \<noteq> Some lease then None
      else case ob_pending self of [] \<Rightarrow> None | message # _ \<Rightarrow> Some message)"

definition insert_reliable ::
  "'p ProtocolMessage \<Rightarrow> ProtocolDelivery \<Rightarrow> 'p ProtocolOutbox \<Rightarrow> 'p ProtocolOutbox" where
  "insert_reliable message delivery self =
     self\<lparr>ob_pending := ob_pending self @ [message], ob_delivery := ob_delivery self @ [delivery]\<rparr>"

section \<open>Cancelling what a newer request supersedes\<close>

fun retain_loop ::
  "bool \<Rightarrow> (ProtocolDelivery \<Rightarrow> bool) \<Rightarrow> nat \<Rightarrow> 'm list \<Rightarrow> ProtocolDelivery list \<Rightarrow> 'm list \<times> ProtocolDelivery list" where
  "retain_loop preserve keep index (message # messages) (delivery # deliveries) =
     (let (ms, ds) = retain_loop preserve keep (Suc index) messages deliveries
      in if (preserve \<and> index = 0) \<or> keep delivery then (message # ms, delivery # ds) else (ms, ds))"
| "retain_loop preserve keep index _ _ = ([], [])"

definition retain_deliveries ::
  "bool \<Rightarrow> (ProtocolDelivery \<Rightarrow> bool) \<Rightarrow> 'p ProtocolOutbox \<Rightarrow> 'p ProtocolOutbox" where
  "retain_deliveries preserve_leased_front keep self =
     (let (messages, deliveries) =
            retain_loop (preserve_leased_front \<and> ob_leased_front self \<noteq> None) keep 0 (ob_pending self)
              (ob_delivery self)
      in self\<lparr>ob_pending := messages, ob_delivery := deliveries\<rparr>)"

definition front_matches :: "('x \<Rightarrow> bool) \<Rightarrow> 'x list \<Rightarrow> bool" where
  "front_matches p xs = (case xs of [] \<Rightarrow> False | x # _ \<Rightarrow> p x)"

definition staged_superseded :: "'p serde \<Rightarrow> (ProtocolDelivery \<Rightarrow> bool) \<Rightarrow> 'p ProtocolOutbox \<Rightarrow> bool" where
  "staged_superseded sd should_cancel self \<longleftrightarrow>
     ob_leased_front self \<noteq> None \<and> front_matches should_cancel (ob_delivery self)
     \<and> front_matches (is_playback_protocol_message sd) (ob_pending self)"

definition unstaged_superseded :: "'p serde \<Rightarrow> (ProtocolDelivery \<Rightarrow> bool) \<Rightarrow> 'p ProtocolOutbox \<Rightarrow> nat" where
  "unstaged_superseded sd should_cancel self =
     length (filter (\<lambda>(index, (message, delivery)).
         \<not> (ob_leased_front self \<noteq> None \<and> index = 0) \<and> should_cancel delivery
         \<and> is_playback_protocol_message sd message)
       (enumerate 0 (zip (ob_pending self) (ob_delivery self))))"

text \<open>The evidence that all three cancellations emit, from what they computed at their start.\<close>

definition emit_superseded :: "bool \<Rightarrow> u64 option \<Rightarrow> nat \<Rightarrow> 'p ProtocolOutbox \<Rightarrow> 'p ProtocolOutbox" where
  "emit_superseded staged leased unstaged self =
     emit_unstaged_transaction_superseded unstaged
       (case leased of
          Some lease \<Rightarrow> if staged then emit_staged_transaction_superseded lease self else self
        | None \<Rightarrow> self)"

fun cancel_intent :: "ProtocolDelivery \<Rightarrow> ProtocolDelivery" where
  "cancel_intent (ConnectionRoomScopedReadinessIntent generation room membership_epoch _) =
     ConnectionRoomScopedReadinessIntent generation room membership_epoch True"
| "cancel_intent delivery = delivery"

fun cancel_request :: "ProtocolDelivery \<Rightarrow> ProtocolDelivery" where
  "cancel_request (ConnectionScopedReliable generation room media_generation request_nonce _) =
     ConnectionScopedReliable generation room media_generation request_nonce True"
| "cancel_request delivery = delivery"

text \<open>A leased front that is to be cancelled keeps its bytes and is marked.\<close>

definition mark_leased_front ::
  "(ProtocolDelivery \<Rightarrow> bool) \<Rightarrow> (ProtocolDelivery \<Rightarrow> ProtocolDelivery) \<Rightarrow> 'p ProtocolOutbox \<Rightarrow> 'p ProtocolOutbox" where
  "mark_leased_front should_cancel mark self =
     (if ob_leased_front self \<noteq> None
      then (case ob_delivery self of
              delivery # rest \<Rightarrow> if should_cancel delivery then self\<lparr>ob_delivery := mark delivery # rest\<rparr> else self
            | [] \<Rightarrow> self)
      else self)"

definition invalidate_readiness_intents ::
  "'p serde \<Rightarrow> (ProtocolDelivery \<Rightarrow> bool) \<Rightarrow> 'p ProtocolOutbox \<Rightarrow> 'p ProtocolOutbox" where
  "invalidate_readiness_intents sd should_cancel self =
     (let leased = ob_leased_front self;
          staged = staged_superseded sd should_cancel self;
          unstaged = unstaged_superseded sd should_cancel self;
          self = mark_leased_front should_cancel cancel_intent self;
          self = retain_deliveries True (\<lambda>delivery. \<not> should_cancel delivery) self
      in emit_superseded staged leased unstaged self)"

definition invalidate_connection_scoped_reliable ::
  "'p serde \<Rightarrow> (ProtocolDelivery \<Rightarrow> bool) \<Rightarrow> 'p ProtocolOutbox \<Rightarrow> 'p ProtocolOutbox" where
  "invalidate_connection_scoped_reliable sd should_cancel self =
     (let leased = ob_leased_front self;
          staged = staged_superseded sd should_cancel self;
          unstaged = unstaged_superseded sd should_cancel self;
          self = mark_leased_front should_cancel cancel_request self;
          self = retain_deliveries True (\<lambda>delivery. \<not> should_cancel delivery) self
      in emit_superseded staged leased unstaged self)"

fun is_readiness_intent :: "ProtocolDelivery \<Rightarrow> bool" where
  "is_readiness_intent (ConnectionRoomScopedReadinessIntent _ _ _ _) = True"
| "is_readiness_intent _ = False"

fun is_scoped_request :: "ProtocolDelivery \<Rightarrow> bool" where
  "is_scoped_request (ConnectionScopedReliable _ _ _ _ _) = True"
| "is_scoped_request _ = False"

fun outside_scope :: "u64 \<Rightarrow> string \<Rightarrow> u64 \<Rightarrow> ProtocolDelivery \<Rightarrow> bool" where
  "outside_scope connection_generation room local_media_generation
       (ConnectionScopedReliable pending_connection_generation pending_room pending_generation request_nonce _) \<longleftrightarrow>
     pending_connection_generation \<noteq> connection_generation \<or> pending_room \<noteq> room
     \<or> pending_generation \<noteq> local_media_generation \<or> request_nonce = 0"
| "outside_scope _ _ _ _ \<longleftrightarrow> False"

definition cancel_readiness_intents :: "'p serde \<Rightarrow> 'p ProtocolOutbox \<Rightarrow> 'p ProtocolOutbox" where
  "cancel_readiness_intents sd self = invalidate_readiness_intents sd is_readiness_intent self"

definition cancel_connection_scoped_reliable :: "'p serde \<Rightarrow> 'p ProtocolOutbox \<Rightarrow> 'p ProtocolOutbox" where
  "cancel_connection_scoped_reliable sd self = invalidate_connection_scoped_reliable sd is_scoped_request self"

definition retain_connection_scoped_reliable_scope ::
  "'p serde \<Rightarrow> string \<Rightarrow> u64 \<Rightarrow> 'p ProtocolOutbox \<Rightarrow> 'p ProtocolOutbox" where
  "retain_connection_scoped_reliable_scope sd room local_media_generation self =
     invalidate_connection_scoped_reliable sd
       (outside_scope (ob_connection_generation self) room local_media_generation) self"

section \<open>Pushing\<close>

definition accepts_scoped :: "'p ProtocolOutbox \<Rightarrow> bool" where
  "accepts_scoped self \<longleftrightarrow> ob_active_generation self = Some (ob_connection_generation self)"

definition push_connection_scoped_reliable ::
  "'p serde \<Rightarrow> 'p ProtocolMessage \<Rightarrow> string \<Rightarrow> u64 \<Rightarrow> u64 \<Rightarrow> 'p ProtocolOutbox \<Rightarrow> bool \<times> 'p ProtocolOutbox" where
  "push_connection_scoped_reliable sd message room local_media_generation request_nonce self =
     (if \<not> accepts_scoped self then (False, self)
      else (True, insert_reliable message
              (ConnectionScopedReliable (ob_connection_generation self) room local_media_generation
                 request_nonce False) (cancel_connection_scoped_reliable sd self)))"

fun is_state :: "'p ProtocolMessage \<Rightarrow> bool" where
  "is_state (State _) = True"
| "is_state _ = False"

definition push_connection_scoped_causal_state ::
  "'p ProtocolMessage \<Rightarrow> 'p ProtocolOutbox \<Rightarrow> bool \<times> 'p ProtocolOutbox" where
  "push_connection_scoped_causal_state message self =
     (if \<not> accepts_scoped self \<or> \<not> is_state message then (False, self)
      else (True, insert_reliable message ConnectionScopedCausalState self))"

text \<open>
  \<open>trim().is_empty()\<close> on the UTF-8 bytes of a string: the number of bytes of a leading white space
  character, and whether nothing else follows.
\<close>

fun white_space_len :: "nat list \<Rightarrow> nat" where
  "white_space_len bs =
     (case bs of
        [] \<Rightarrow> 0
      | a # bs \<Rightarrow>
          if a \<in> {9, 10, 11, 12, 13, 32} then 1
          else (case bs of
                  [] \<Rightarrow> 0
                | b # bs \<Rightarrow>
                    if a = 194 \<and> b \<in> {133, 160} then 2
                    else (case bs of
                            [] \<Rightarrow> 0
                          | c # _ \<Rightarrow>
                              if a = 225 \<and> b = 154 \<and> c = 128
                                 \<or> a = 226 \<and> b = 128 \<and> (128 \<le> c \<and> c \<le> 138 \<or> c \<in> {168, 169, 175})
                                 \<or> a = 226 \<and> b = 129 \<and> c = 159
                                 \<or> a = 227 \<and> b = 128 \<and> c = 128
                              then 3 else 0)))"

declare white_space_len.simps [simp del]

fun only_white_space :: "nat list \<Rightarrow> bool" where
  "only_white_space [] = True"
| "only_white_space (b # bs) =
     (case white_space_len (b # bs) of
        0 \<Rightarrow> False
      | Suc n \<Rightarrow> only_white_space (drop n bs))"

definition trim_is_empty :: "string \<Rightarrow> bool" where
  "trim_is_empty text = only_white_space (map of_char text)"

definition push_readiness_intent ::
  "'p serde \<Rightarrow> 'p ProtocolMessage \<Rightarrow> string \<Rightarrow> u64 \<Rightarrow> 'p ProtocolOutbox \<Rightarrow> bool \<times> 'p ProtocolOutbox" where
  "push_readiness_intent sd message room membership_epoch self =
     (if \<not> accepts_scoped self \<or> trim_is_empty room \<or> membership_epoch = 0 then (False, self)
      else (True, insert_reliable message
              (ConnectionRoomScopedReadinessIntent (ob_connection_generation self) room membership_epoch False)
              (cancel_readiness_intents sd self)))"

section \<open>Participant status\<close>

definition remove_at :: "nat \<Rightarrow> 'x list \<Rightarrow> 'x list" where
  "remove_at index xs = take index xs @ drop (Suc index) xs"

definition get_at :: "nat \<Rightarrow> 'x list \<Rightarrow> 'x option" where
  "get_at index xs = (if index < length xs then Some (xs ! index) else None)"

definition strip_participant_status_at :: "nat \<Rightarrow> 'p ProtocolOutbox \<Rightarrow> 'p ProtocolOutbox" where
  "strip_participant_status_at index self =
     (let (remove_message, self) =
            (case get_at index (ob_pending self) of
               Some (State state) \<Rightarrow>
                 (let state = state\<lparr>st_extra := bt_remove SOROTTE_PARTICIPANT_STATUS_V1 (st_extra state)\<rparr>
                  in (state = default_state_payload,
                      self\<lparr>ob_pending := (ob_pending self)[index := State state]\<rparr>))
             | _ \<Rightarrow> (False, self))
      in if remove_message
         then self\<lparr>ob_pending := remove_at index (ob_pending self),
                   ob_delivery := remove_at index (ob_delivery self)\<rparr>
         else (case get_at index (ob_delivery self) of
                 Some delivery \<Rightarrow>
                   self\<lparr>ob_delivery := (ob_delivery self)[index := set_participant_status_cancelled False delivery]\<rparr>
               | None \<Rightarrow> self))"

fun is_scoped_state :: "ProtocolDelivery \<Rightarrow> bool" where
  "is_scoped_state (ConnectionScopedState _ _) = True"
| "is_scoped_state _ = False"

definition strip_unleased :: "bool \<Rightarrow> nat \<Rightarrow> 'p ProtocolOutbox \<Rightarrow> 'p ProtocolOutbox" where
  "strip_unleased front_is_leased index self =
     (if front_is_leased \<and> index = 0 then self
      else case get_at index (ob_delivery self) of
             Some delivery \<Rightarrow> if is_scoped_state delivery then strip_participant_status_at index self else self
           | None \<Rightarrow> self)"

definition cancel_pending_participant_status_reports :: "'p ProtocolOutbox \<Rightarrow> 'p ProtocolOutbox" where
  "cancel_pending_participant_status_reports self =
     (let front_is_leased = (ob_leased_front self \<noteq> None);
          self = (if front_is_leased
                  then (case ob_delivery self of
                          delivery # rest \<Rightarrow>
                            self\<lparr>ob_delivery := set_participant_status_cancelled True delivery # rest\<rparr>
                        | [] \<Rightarrow> self)
                  else self)
      in fold (strip_unleased front_is_leased) (rev [0..<length (ob_pending self)]) self)"

section \<open>Coalescing State\<close>

fun carries_participant_status :: "'p ProtocolMessage \<Rightarrow> bool" where
  "carries_participant_status (State state) = bt_contains (st_extra state) SOROTTE_PARTICIPANT_STATUS_V1"
| "carries_participant_status _ = False"

definition coalescible_tail :: "'p ProtocolOutbox \<Rightarrow> nat option" where
  "coalescible_tail self =
     (if ob_delivery self = [] then None
      else let index = length (ob_delivery self) - 1
           in case last (ob_delivery self) of
                ConnectionScopedState generation _ \<Rightarrow>
                  if generation = ob_connection_generation self
                     \<and> \<not> (index = 0 \<and> ob_leased_front self \<noteq> None)
                  then Some index else None
              | _ \<Rightarrow> None)"

fun merge_messages :: "'p serde \<Rightarrow> 'p ProtocolMessage \<Rightarrow> 'p ProtocolMessage \<Rightarrow> 'p ProtocolMessage" where
  "merge_messages sd (State previous) (State latest) =
     State (merge_pending_state_obligations sd previous latest)"
| "merge_messages sd _ message = message"

definition push_connection_scoped_state ::
  "'p serde \<Rightarrow> 'p ProtocolMessage \<Rightarrow> 'p ProtocolOutbox \<Rightarrow> (bool \<times> 'p ProtocolOutbox) option" where
  "push_connection_scoped_state sd message self =
     (if \<not> accepts_scoped self then Some (False, self)
      else
        (let self = (if carries_participant_status message
                     then cancel_pending_participant_status_reports self else self)
         in case coalescible_tail self of
              Some index \<Rightarrow>
                (case get_at index (ob_pending self) of
                   None \<Rightarrow> None
                 | Some previous \<Rightarrow>
                     (let superseded_playback = is_playback_protocol_message sd previous;
                          self = self\<lparr>ob_pending :=
                                   (ob_pending self)[index := merge_messages sd previous message]\<rparr>
                      in Some (True, if superseded_playback
                                     then emit_unstaged_transaction_superseded 1 self else self)))
            | None \<Rightarrow>
                Some (True, insert_reliable message
                        (connection_scoped_state (ob_connection_generation self)) self)))"

definition push_back :: "'p serde \<Rightarrow> 'p ProtocolMessage \<Rightarrow> 'p ProtocolOutbox \<Rightarrow> 'p ProtocolOutbox option" where
  "push_back sd message self =
     (if is_state message then map_option snd (push_connection_scoped_state sd message self)
      else Some (insert_reliable message Reliable self))"

section \<open>Connections and receipts\<close>

definition begin_connection_generation :: "'p serde \<Rightarrow> 'p ProtocolOutbox \<Rightarrow> 'p ProtocolOutbox" where
  "begin_connection_generation sd self =
     (let leased = ob_leased_front self;
          staged = staged_superseded sd (\<lambda>delivery. delivery \<noteq> Reliable) self;
          unstaged = unstaged_superseded sd (\<lambda>delivery. delivery \<noteq> Reliable) self;
          self = self\<lparr>ob_connection_generation := wrapping_add (ob_connection_generation self) 1,
                      ob_active_generation := None, ob_leased_front := None\<rparr>;
          self = retain_deliveries False (\<lambda>delivery. delivery = Reliable) self
      in emit_superseded staged leased unstaged self)"

definition activate_connection_generation :: "'p ProtocolOutbox \<Rightarrow> 'p ProtocolOutbox" where
  "activate_connection_generation self = self\<lparr>ob_active_generation := Some (ob_connection_generation self)\<rparr>"

definition acknowledge_front ::
  "u64 \<Rightarrow> 'p ProtocolOutbox \<Rightarrow> ('p ProtocolMessage option \<times> 'p ProtocolOutbox) option" where
  "acknowledge_front lease self =
     (if ob_leased_front self \<noteq> Some lease then Some (None, self)
      else case ob_pending self of
             [] \<Rightarrow> Some (None, self)
           | message # messages \<Rightarrow>
               (case ob_delivery self of
                  [] \<Rightarrow> None
                | _ # deliveries \<Rightarrow>
                    Some (Some message, self\<lparr>ob_pending := messages, ob_delivery := deliveries,
                            ob_leased_front := None\<rparr>)))"

fun is_cancelled_request :: "ProtocolDelivery \<Rightarrow> bool" where
  "is_cancelled_request (ConnectionScopedReliable _ _ _ _ cancelled) = cancelled"
| "is_cancelled_request (ConnectionRoomScopedReadinessIntent _ _ _ cancelled) = cancelled"
| "is_cancelled_request _ = False"

definition release_front :: "u64 \<Rightarrow> 'p ProtocolOutbox \<Rightarrow> bool \<times> 'p ProtocolOutbox" where
  "release_front lease self =
     (if ob_leased_front self \<noteq> Some lease then (False, self)
      else
        (let discard_cancelled = front_matches is_cancelled_request (ob_delivery self);
             strip_cancelled_participant_status = front_matches participant_status_is_cancelled (ob_delivery self);
             self = self\<lparr>ob_leased_front := None\<rparr>
         in (True,
             if discard_cancelled
             then self\<lparr>ob_pending := tl (ob_pending self), ob_delivery := tl (ob_delivery self)\<rparr>
             else if strip_cancelled_participant_status then strip_participant_status_at 0 self
             else self)))"

end
