(* ===== verification/Outbox_Entries.thy ===== *)
theory Outbox_Entries
  imports Protocol_Outbox
begin

text \<open>
  The protocol outbox as one queue. As long as the two queues of the record have the same length
  they are a list of entries, a message with its delivery, and every operation is a function on
  that list.
\<close>

type_synonym 'p entry = "'p ProtocolMessage \<times> ProtocolDelivery"

definition entries :: "'p ProtocolOutbox \<Rightarrow> 'p entry list" where
  "entries self = zip (ob_pending self) (ob_delivery self)"

definition balanced :: "'p ProtocolOutbox \<Rightarrow> bool" where
  "balanced self \<longleftrightarrow> length (ob_pending self) = length (ob_delivery self)"

named_theorems entry_simps "operations of the outbox on its entries"

lemma balancedI: "ob_pending self = map fst es \<Longrightarrow> ob_delivery self = map snd es \<Longrightarrow> balanced self \<and> entries self = es"
  by (simp add: balanced_def entries_def zip_map_fst_snd)

lemma balanced_queues:
  assumes "balanced self"
  shows "ob_pending self = map fst (entries self)" "ob_delivery self = map snd (entries self)"
  using assms by (simp_all add: balanced_def entries_def)

lemma entries_cong:
  "ob_pending a = ob_pending b \<Longrightarrow> ob_delivery a = ob_delivery b \<Longrightarrow> entries a = entries b"
  "ob_pending a = ob_pending b \<Longrightarrow> ob_delivery a = ob_delivery b \<Longrightarrow> balanced a = balanced b"
  by (simp_all add: entries_def balanced_def)

lemma entries_update [entry_simps]:
  "entries (self\<lparr>ob_connection_generation := g\<rparr>) = entries self"
  "entries (self\<lparr>ob_active_generation := a\<rparr>) = entries self"
  "entries (self\<lparr>ob_next_lease := n\<rparr>) = entries self"
  "entries (self\<lparr>ob_leased_front := l\<rparr>) = entries self"
  "entries (self\<lparr>ob_evidence := v\<rparr>) = entries self"
  "balanced (self\<lparr>ob_connection_generation := g\<rparr>) = balanced self"
  "balanced (self\<lparr>ob_active_generation := a\<rparr>) = balanced self"
  "balanced (self\<lparr>ob_next_lease := n\<rparr>) = balanced self"
  "balanced (self\<lparr>ob_leased_front := l\<rparr>) = balanced self"
  "balanced (self\<lparr>ob_evidence := v\<rparr>) = balanced self"
  by (simp_all add: entries_def balanced_def)

text \<open>What is not in the queues.\<close>

definition registers :: "'p ProtocolOutbox \<Rightarrow> u64 \<times> u64 option \<times> u64 \<times> u64 option" where
  "registers self =
     (ob_connection_generation self, ob_active_generation self, ob_next_lease self, ob_leased_front self)"

lemma registers_eq:
  "registers a = registers b \<longleftrightarrow>
     ob_connection_generation a = ob_connection_generation b \<and> ob_active_generation a = ob_active_generation b
     \<and> ob_next_lease a = ob_next_lease b \<and> ob_leased_front a = ob_leased_front b"
  by (simp add: registers_def)

lemma emit_superseded_frame [entry_simps]:
  "entries (emit_superseded staged leased unstaged self) = entries self"
  "balanced (emit_superseded staged leased unstaged self) = balanced self"
  "registers (emit_superseded staged leased unstaged self) = registers self"
  "entries (emit_unstaged_transaction_superseded count self) = entries self"
  "balanced (emit_unstaged_transaction_superseded count self) = balanced self"
  "registers (emit_unstaged_transaction_superseded count self) = registers self"
  by (simp_all add: emit_superseded_def emit_unstaged_transaction_superseded_def
      emit_staged_transaction_superseded_def registers_def entry_simps split: option.split)

section \<open>Retaining\<close>

definition retained :: "bool \<Rightarrow> (ProtocolDelivery \<Rightarrow> bool) \<Rightarrow> 'p entry list \<Rightarrow> 'p entry list" where
  "retained preserve keep es =
     (case es of
        [] \<Rightarrow> []
      | e # es \<Rightarrow> (if preserve \<or> keep (snd e) then [e] else []) @ filter (\<lambda>e. keep (snd e)) es)"

lemma retain_loop_Suc:
  "retain_loop preserve keep (Suc index) (map fst es) (map snd es)
     = (map fst (filter (\<lambda>e. keep (snd e)) es), map snd (filter (\<lambda>e. keep (snd e)) es))"
  by (induction es arbitrary: index) (simp_all add: Let_def)

lemma retain_loop_retained:
  "retain_loop preserve keep 0 (map fst es) (map snd es)
     = (map fst (retained preserve keep es), map snd (retained preserve keep es))"
  by (cases es) (simp_all add: retain_loop_Suc retained_def)

lemma retain_deliveries_entries [entry_simps]:
  assumes "balanced self"
  shows "balanced (retain_deliveries preserve keep self)"
    and "entries (retain_deliveries preserve keep self)
      = retained (preserve \<and> ob_leased_front self \<noteq> None) keep (entries self)"
    and "registers (retain_deliveries preserve keep self) = registers self"
proof -
  have queues: "ob_pending (retain_deliveries preserve keep self)
      = map fst (retained (preserve \<and> ob_leased_front self \<noteq> None) keep (entries self))"
    "ob_delivery (retain_deliveries preserve keep self)
      = map snd (retained (preserve \<and> ob_leased_front self \<noteq> None) keep (entries self))"
    by (simp_all add: retain_deliveries_def balanced_queues [OF assms] retain_loop_retained)
  then show "balanced (retain_deliveries preserve keep self)"
    "entries (retain_deliveries preserve keep self)
      = retained (preserve \<and> ob_leased_front self \<noteq> None) keep (entries self)"
    using balancedI by blast+
  show "registers (retain_deliveries preserve keep self) = registers self"
    by (simp add: retain_deliveries_def registers_def split_def Let_def)
qed

section \<open>Marking and inserting\<close>

definition on_front :: "('x \<Rightarrow> 'x) \<Rightarrow> 'x list \<Rightarrow> 'x list" where
  "on_front f xs = (case xs of [] \<Rightarrow> [] | x # xs \<Rightarrow> f x # xs)"

lemma mark_leased_front_entries [entry_simps]:
  assumes "balanced self"
  shows "balanced (mark_leased_front p mark self)"
    and "entries (mark_leased_front p mark self)
      = (if ob_leased_front self \<noteq> None
         then on_front (\<lambda>(m, d). (m, if p d then mark d else d)) (entries self) else entries self)"
    and "registers (mark_leased_front p mark self) = registers self"
  using assms
  by (cases "ob_pending self"; cases "ob_delivery self";
      auto simp: mark_leased_front_def balanced_def entries_def on_front_def registers_def)+

lemma insert_reliable_entries [entry_simps]:
  assumes "balanced self"
  shows "balanced (insert_reliable message delivery self)"
    and "entries (insert_reliable message delivery self) = entries self @ [(message, delivery)]"
    and "registers (insert_reliable message delivery self) = registers self"
  using assms by (simp_all add: insert_reliable_def balanced_def entries_def registers_def)

text \<open>The two cancellations, on a leased front and on the rest.\<close>

definition cancelled_entries ::
  "bool \<Rightarrow> (ProtocolDelivery \<Rightarrow> bool) \<Rightarrow> (ProtocolDelivery \<Rightarrow> ProtocolDelivery) \<Rightarrow> 'p entry list \<Rightarrow> 'p entry list" where
  "cancelled_entries leased p mark es =
     (if leased
      then (case es of [] \<Rightarrow> []
            | (m, d) # es \<Rightarrow> (m, if p d then mark d else d) # filter (\<lambda>e. \<not> p (snd e)) es)
      else filter (\<lambda>e. \<not> p (snd e)) es)"

lemma retained_marked:
  "retained leased (\<lambda>d. \<not> p d) (if leased then on_front (\<lambda>(m, d). (m, if p d then mark d else d)) es else es)
     = cancelled_entries leased p mark es"
  by (cases es) (auto simp: cancelled_entries_def retained_def on_front_def split_def)

lemma invalidate_entries [entry_simps]:
  assumes "balanced self"
  shows "balanced (invalidate_readiness_intents sd p self)"
    and "balanced (invalidate_connection_scoped_reliable sd p self)"
    and "entries (invalidate_readiness_intents sd p self)
      = cancelled_entries (ob_leased_front self \<noteq> None) p cancel_intent (entries self)"
    and "entries (invalidate_connection_scoped_reliable sd p self)
      = cancelled_entries (ob_leased_front self \<noteq> None) p cancel_request (entries self)"
    and "registers (invalidate_readiness_intents sd p self) = registers self"
    and "registers (invalidate_connection_scoped_reliable sd p self) = registers self"
proof -
  note mark = mark_leased_front_entries [OF assms, where p = p]
  have leased: "ob_leased_front (mark_leased_front p mark self) = ob_leased_front self" for mark
    using mark(3) [of mark] by (simp add: registers_eq)
  show "balanced (invalidate_readiness_intents sd p self)"
    "balanced (invalidate_connection_scoped_reliable sd p self)"
    "registers (invalidate_readiness_intents sd p self) = registers self"
    "registers (invalidate_connection_scoped_reliable sd p self) = registers self"
    by (simp_all add: invalidate_readiness_intents_def invalidate_connection_scoped_reliable_def Let_def
        entry_simps mark)
  show "entries (invalidate_readiness_intents sd p self)
      = cancelled_entries (ob_leased_front self \<noteq> None) p cancel_intent (entries self)"
    "entries (invalidate_connection_scoped_reliable sd p self)
      = cancelled_entries (ob_leased_front self \<noteq> None) p cancel_request (entries self)"
    using retained_marked [of "ob_leased_front self \<noteq> None" p _ "entries self"]
    by (simp_all add: invalidate_readiness_intents_def invalidate_connection_scoped_reliable_def Let_def
        entry_simps mark leased)
qed

section \<open>Stripping participant status\<close>

definition strip_entry :: "'p entry \<Rightarrow> 'p entry list" where
  "strip_entry e =
     (case fst e of
        State state \<Rightarrow>
          (let state = state\<lparr>st_extra := bt_remove SOROTTE_PARTICIPANT_STATUS_V1 (st_extra state)\<rparr>
           in if state = default_state_payload then []
              else [(State state, set_participant_status_cancelled False (snd e))])
      | message \<Rightarrow> [(message, set_participant_status_cancelled False (snd e))])"

definition strip_scoped :: "'p entry \<Rightarrow> 'p entry list" where
  "strip_scoped e = (if is_scoped_state (snd e) then strip_entry e else [e])"

lemma get_at_append: "get_at (length xs) (xs @ y # zs) = Some y"
  by (simp add: get_at_def)

lemma remove_at_append: "remove_at (length xs) (xs @ y # zs) = xs @ zs"
  by (simp add: remove_at_def)

lemma strip_at_entries:
  assumes "balanced self" "entries self = xs @ e # zs" "index = length xs"
  shows "balanced (strip_participant_status_at index self)
    \<and> entries (strip_participant_status_at index self) = xs @ strip_entry e @ zs"
proof -
  note queues = balanced_queues [OF assms(1), unfolded assms(2)]
  obtain m d where e: "e = (m, d)" by (cases e)
  have len: "length (map fst xs) = index" "length (map snd xs) = index" by (simp_all add: assms(3))
  note index = get_at_append [of "map fst xs", unfolded len] get_at_append [of "map snd xs", unfolded len]
    remove_at_append [of "map fst xs", unfolded len] remove_at_append [of "map snd xs", unfolded len]
    list_update_length [of "map fst xs", unfolded len] list_update_length [of "map snd xs", unfolded len]
  show ?thesis
    by (rule balancedI) (cases m; simp add: strip_participant_status_at_def index queues strip_entry_def e Let_def)+
qed

lemma strip_at_registers [entry_simps]: "registers (strip_participant_status_at index self) = registers self"
  by (simp add: strip_participant_status_at_def registers_def Let_def split_def
      split: option.split ProtocolMessage.split)

lemma strip_unleased_entries:
  assumes "balanced self" "entries self = xs @ e # zs" "index = length xs" "\<not> (leased \<and> index = 0)"
  shows "balanced (strip_unleased leased index self)
    \<and> entries (strip_unleased leased index self) = xs @ strip_scoped e @ zs"
proof -
  have "get_at index (ob_delivery self) = Some (snd e)"
    using balanced_queues(2) [OF assms(1)] get_at_append [of "map snd xs" "snd e" "map snd zs"]
    by (simp add: assms(2,3))
  with strip_at_entries [OF assms(1-3)] assms show ?thesis
    by (auto simp: strip_unleased_def strip_scoped_def)
qed

lemma strip_unleased_registers [entry_simps]: "registers (strip_unleased leased index self) = registers self"
  by (simp add: strip_unleased_def entry_simps split: option.split)

lemma fold_strip_registers [entry_simps]:
  "registers (fold (strip_unleased leased) is self) = registers self"
  by (induction "is" arbitrary: self) (simp_all add: entry_simps)

text \<open>The loop runs from the back, so a removal does not move the entries still to be visited.\<close>

lemma fold_strip_entries:
  "balanced self \<Longrightarrow> entries self = xs @ zs \<Longrightarrow>
   balanced (fold (strip_unleased False) (rev [0..<length xs]) self)
   \<and> entries (fold (strip_unleased False) (rev [0..<length xs]) self) = concat (map strip_scoped xs) @ zs"
proof (induction xs arbitrary: self zs rule: rev_induct)
  case (snoc e xs)
  note one = strip_unleased_entries [OF snoc.prems(1), of xs e zs "length xs" False]
  have "rev [0..<length (xs @ [e])] = length xs # rev [0..<length xs]" by simp
  with snoc.IH [of "strip_unleased False (length xs) self" "strip_scoped e @ zs"] one snoc.prems(2)
  show ?case by simp
qed simp

lemma fold_strip_leased:
  "balanced self \<Longrightarrow> entries self = x # xs @ zs \<Longrightarrow>
   balanced (fold (strip_unleased True) (rev [0..<Suc (length xs)]) self)
   \<and> entries (fold (strip_unleased True) (rev [0..<Suc (length xs)]) self) = x # concat (map strip_scoped xs) @ zs"
proof (induction xs arbitrary: self zs rule: rev_induct)
  case Nil
  then show ?case by (simp add: strip_unleased_def)
next
  case (snoc e xs)
  note one = strip_unleased_entries [OF snoc.prems(1), of "x # xs" e zs "Suc (length xs)" True]
  have "rev [0..<Suc (length (xs @ [e]))] = Suc (length xs) # rev [0..<Suc (length xs)]" by simp
  with snoc.IH [of "strip_unleased True (Suc (length xs)) self" "strip_scoped e @ zs"] one snoc.prems(2)
  show ?case by simp
qed

definition status_cancelled_entries :: "bool \<Rightarrow> 'p entry list \<Rightarrow> 'p entry list" where
  "status_cancelled_entries leased es =
     (if leased
      then (case es of [] \<Rightarrow> []
            | (m, d) # es \<Rightarrow> (m, set_participant_status_cancelled True d) # concat (map strip_scoped es))
      else concat (map strip_scoped es))"

lemma cancel_status_entries [entry_simps]:
  assumes "balanced self"
  shows "balanced (cancel_pending_participant_status_reports self)"
    and "entries (cancel_pending_participant_status_reports self)
      = status_cancelled_entries (ob_leased_front self \<noteq> None) (entries self)"
    and "registers (cancel_pending_participant_status_reports self) = registers self"
proof -
  have "balanced (cancel_pending_participant_status_reports self)
    \<and> entries (cancel_pending_participant_status_reports self)
      = status_cancelled_entries (ob_leased_front self \<noteq> None) (entries self)"
  proof (cases "ob_leased_front self")
    case None
    have "length (ob_pending self) = length (entries self)" using balanced_queues(1) [OF assms] by simp
    with fold_strip_entries [OF assms, of "entries self" "[]"] None show ?thesis
      by (simp add: cancel_pending_participant_status_reports_def status_cancelled_entries_def)
  next
    case (Some lease)
    show ?thesis
    proof (cases "entries self")
      case Nil
      with Some assms show ?thesis
        by (auto simp: cancel_pending_participant_status_reports_def status_cancelled_entries_def
            balanced_def entries_def)
    next
      case (Cons e es)
      obtain m d where e: "e = (m, d)" by (cases e)
      let ?marked = "self\<lparr>ob_delivery := set_participant_status_cancelled True d # map snd es\<rparr>"
      have queues: "ob_pending self = m # map fst es" "ob_delivery self = d # map snd es"
        using balanced_queues [OF assms] by (simp_all add: Cons e)
      have marked: "balanced ?marked" "entries ?marked = (m, set_participant_status_cancelled True d) # es @ []"
        by (simp_all add: balanced_def entries_def queues zip_map_fst_snd)
      have "cancel_pending_participant_status_reports self
          = fold (strip_unleased True) (rev [0..<Suc (length es)]) ?marked"
        by (simp add: cancel_pending_participant_status_reports_def Some queues)
      with fold_strip_leased [OF marked] Some Cons show ?thesis
        by (simp add: status_cancelled_entries_def e)
    qed
  qed
  then show "balanced (cancel_pending_participant_status_reports self)"
    "entries (cancel_pending_participant_status_reports self)
      = status_cancelled_entries (ob_leased_front self \<noteq> None) (entries self)"
    by blast+
  have "registers (cancel_pending_participant_status_reports self)
      = registers (case ob_delivery self of [] \<Rightarrow> self
          | delivery # rest \<Rightarrow> if ob_leased_front self \<noteq> None
              then self\<lparr>ob_delivery := set_participant_status_cancelled True delivery # rest\<rparr> else self)"
    by (simp add: cancel_pending_participant_status_reports_def Let_def entry_simps split: list.split)
  also have "\<dots> = registers self" by (simp add: registers_def split: list.split)
  finally show "registers (cancel_pending_participant_status_reports self) = registers self" .
qed

end
