(* ===== verification/Outbox_Inv.thy ===== *)
theory Outbox_Inv
  imports Outbox_Entries
begin

text \<open>
  The invariant of the protocol outbox, kept by every operation from an empty outbox: the two
  queues stay aligned, so no operation panics; what is scoped to a connection belongs to the
  current one; only a leased front can be cancelled; and at most one live playback request, one
  live readiness intent and one live participant status report are queued.
\<close>

section \<open>The invariant\<close>

fun delivery_generation :: "ProtocolDelivery \<Rightarrow> u64 option" where
  "delivery_generation (ConnectionScopedReliable generation _ _ _ _) = Some generation"
| "delivery_generation (ConnectionRoomScopedReadinessIntent generation _ _ _) = Some generation"
| "delivery_generation (ConnectionScopedState generation _) = Some generation"
| "delivery_generation _ = None"

definition is_cancelled :: "ProtocolDelivery \<Rightarrow> bool" where
  "is_cancelled d \<longleftrightarrow> is_cancelled_request d \<or> participant_status_is_cancelled d"

definition live_request :: "'p entry \<Rightarrow> bool" where
  "live_request e \<longleftrightarrow> is_scoped_request (snd e) \<and> \<not> is_cancelled (snd e)"

definition live_intent :: "'p entry \<Rightarrow> bool" where
  "live_intent e \<longleftrightarrow> is_readiness_intent (snd e) \<and> \<not> is_cancelled (snd e)"

definition live_status :: "'p entry \<Rightarrow> bool" where
  "live_status e \<longleftrightarrow> is_scoped_state (snd e) \<and> \<not> is_cancelled (snd e) \<and> carries_participant_status (fst e)"

definition at_most_one :: "('x \<Rightarrow> bool) \<Rightarrow> 'x list \<Rightarrow> bool" where
  "at_most_one p xs \<longleftrightarrow> length (filter p xs) \<le> 1"

definition entries_ok :: "u64 \<Rightarrow> bool \<Rightarrow> 'p entry list \<Rightarrow> bool" where
  "entries_ok generation leased es \<longleftrightarrow>
     list_all (\<lambda>e. delivery_generation (snd e) \<in> {None, Some generation}) es
     \<and> list_all (\<lambda>e. \<not> is_cancelled (snd e)) (if leased then tl es else es)
     \<and> at_most_one live_request es \<and> at_most_one live_intent es \<and> at_most_one live_status es"

definition outbox_ok :: "'p ProtocolOutbox \<Rightarrow> bool" where
  "outbox_ok self \<longleftrightarrow>
     balanced self \<and> (ob_leased_front self \<noteq> None \<longrightarrow> entries self \<noteq> [])
     \<and> ob_active_generation self \<in> {None, Some (ob_connection_generation self)}
     \<and> (ob_active_generation self = None \<longrightarrow> list_all (\<lambda>e. snd e = Reliable) (entries self))
     \<and> entries_ok (ob_connection_generation self) (ob_leased_front self \<noteq> None) (entries self)"

section \<open>Lists\<close>

lemma at_most_one_simps [simp]:
  "at_most_one p []"
  "at_most_one p (x # xs) \<longleftrightarrow> (if p x then filter p xs = [] else at_most_one p xs)"
  by (auto simp: at_most_one_def)

lemma at_most_one_filter: "at_most_one p xs \<Longrightarrow> at_most_one p (filter q xs)"
proof -
  have "length (filter p (filter q xs)) \<le> length (filter p xs)"
    by (induction xs) auto
  then show "at_most_one p xs \<Longrightarrow> at_most_one p (filter q xs)" by (simp add: at_most_one_def)
qed

lemma at_most_one_append_other: "\<not> p x \<Longrightarrow> at_most_one p (xs @ [x]) \<longleftrightarrow> at_most_one p xs"
  by (simp add: at_most_one_def)

lemma at_most_one_append_only: "filter p xs = [] \<Longrightarrow> at_most_one p (xs @ [x])"
  by (simp add: at_most_one_def)

lemma at_most_one_fewer: "length (filter p xs) \<le> length (filter p ys) \<Longrightarrow> at_most_one p ys \<Longrightarrow> at_most_one p xs"
  by (simp add: at_most_one_def)

section \<open>Cancelling\<close>

definition cancels :: "(ProtocolDelivery \<Rightarrow> ProtocolDelivery) \<Rightarrow> bool" where
  "cancels mark \<longleftrightarrow> (\<forall>d. delivery_generation (mark d) = delivery_generation d
     \<and> (is_scoped_request (mark d) = is_scoped_request d) \<and> (is_readiness_intent (mark d) = is_readiness_intent d)
     \<and> (is_scoped_state (mark d) = is_scoped_state d) \<and> (is_cancelled d \<longrightarrow> is_cancelled (mark d)))"

lemma cancels_marks [simp]: "cancels cancel_intent" "cancels cancel_request"
  "cancels (set_participant_status_cancelled True)"
proof -
  have "delivery_generation (cancel_intent d) = delivery_generation d
     \<and> is_scoped_request (cancel_intent d) = is_scoped_request d \<and> is_readiness_intent (cancel_intent d) = is_readiness_intent d
     \<and> is_scoped_state (cancel_intent d) = is_scoped_state d \<and> (is_cancelled d \<longrightarrow> is_cancelled (cancel_intent d))"
    "delivery_generation (cancel_request d) = delivery_generation d
     \<and> is_scoped_request (cancel_request d) = is_scoped_request d \<and> is_readiness_intent (cancel_request d) = is_readiness_intent d
     \<and> is_scoped_state (cancel_request d) = is_scoped_state d \<and> (is_cancelled d \<longrightarrow> is_cancelled (cancel_request d))"
    "delivery_generation (set_participant_status_cancelled True d) = delivery_generation d
     \<and> is_scoped_request (set_participant_status_cancelled True d) = is_scoped_request d
     \<and> is_readiness_intent (set_participant_status_cancelled True d) = is_readiness_intent d
     \<and> is_scoped_state (set_participant_status_cancelled True d) = is_scoped_state d
     \<and> (is_cancelled d \<longrightarrow> is_cancelled (set_participant_status_cancelled True d))" for d
    by (cases d; simp add: is_cancelled_def)+
  then show "cancels cancel_intent" "cancels cancel_request" "cancels (set_participant_status_cancelled True)"
    by (simp_all add: cancels_def)
qed

lemma cancels_live:
  assumes "cancels mark"
  shows "live_request (m, mark d) \<Longrightarrow> live_request (m, d)"
    and "live_intent (m, mark d) \<Longrightarrow> live_intent (m, d)"
    and "live_status (m, mark d) \<Longrightarrow> live_status (m, d)"
    and "delivery_generation (mark d) = delivery_generation d"
  using assms unfolding cancels_def live_request_def live_intent_def live_status_def by auto

lemma at_most_one_front:
  "(p x \<Longrightarrow> p y) \<Longrightarrow> at_most_one p (y # xs) \<Longrightarrow> at_most_one p (x # filter q xs)"
  using at_most_one_filter [of p xs q] by (auto split: if_splits simp: filter_empty_conv at_most_one_def)

lemma entries_ok_filter:
  "entries_ok g leased es \<Longrightarrow> \<not> leased \<Longrightarrow> entries_ok g leased (filter q es)"
  by (auto simp: entries_ok_def list_all_iff at_most_one_filter)

lemma entries_ok_cancelled:
  assumes "entries_ok g leased es" "cancels mark"
  shows "entries_ok g leased (cancelled_entries leased p mark es)"
proof (cases leased)
  case True
  show ?thesis
  proof (cases es)
    case (Cons e es')
    obtain m d where e: "e = (m, d)" by (cases e)
    define d' where "d' = (if p d then mark d else d)"
    note live = cancels_live [OF assms(2)]
    have ok: "at_most_one live_request ((m, d) # es')" "at_most_one live_intent ((m, d) # es')"
      "at_most_one live_status ((m, d) # es')"
      "delivery_generation d \<in> {None, Some g}" "list_all (\<lambda>e. delivery_generation (snd e) \<in> {None, Some g}) es'"
      "list_all (\<lambda>e. \<not> is_cancelled (snd e)) es'"
      using assms(1) True by (simp_all add: entries_ok_def Cons e del: at_most_one_simps)
    have few: "at_most_one q ((m, d') # filter (\<lambda>e. \<not> p (snd e)) es')"
      if "at_most_one q ((m, d) # es')" "q (m, mark d) \<Longrightarrow> q (m, d)" for q
      by (rule at_most_one_front [OF _ that(1)]) (use that(2) in \<open>simp add: d'_def split: if_splits\<close>)
    have "at_most_one live_request ((m, d') # filter (\<lambda>e. \<not> p (snd e)) es')"
      by (rule few [OF ok(1) live(1)])
    moreover have "at_most_one live_intent ((m, d') # filter (\<lambda>e. \<not> p (snd e)) es')"
      by (rule few [OF ok(2) live(2)])
    moreover have "at_most_one live_status ((m, d') # filter (\<lambda>e. \<not> p (snd e)) es')"
      by (rule few [OF ok(3) live(3)])
    moreover have "delivery_generation d' = delivery_generation d" using live(4) by (simp add: d'_def)
    ultimately show ?thesis
      using ok(4-6) True
      by (auto simp: cancelled_entries_def Cons e entries_ok_def d'_def [symmetric] list_all_iff
          simp del: at_most_one_simps)
  qed (simp add: cancelled_entries_def entries_ok_def)
next
  case False
  with entries_ok_filter [OF assms(1)] show ?thesis by (simp add: cancelled_entries_def)
qed

lemma entries_ok_append:
  assumes "entries_ok g leased es" "leased \<longrightarrow> es \<noteq> []"
    and "delivery_generation d \<in> {None, Some g}" "\<not> is_cancelled d"
    and "live_request (m, d) \<Longrightarrow> filter live_request es = []"
    and "live_intent (m, d) \<Longrightarrow> filter live_intent es = []"
    and "live_status (m, d) \<Longrightarrow> filter live_status es = []"
  shows "entries_ok g leased (es @ [(m, d)])"
proof -
  have "at_most_one p (es @ [(m, d)])" if "at_most_one p es" "p (m, d) \<Longrightarrow> filter p es = []" for p
    using that at_most_one_append_other [of p "(m, d)" es] at_most_one_append_only [of p es] by blast
  with assms show ?thesis
    by (auto simp: entries_ok_def)
qed

section \<open>Participant status\<close>

lemma carries_stripped: "\<not> carries_participant_status (State (state\<lparr>st_extra := bt_remove SOROTTE_PARTICIPANT_STATUS_V1 es\<rparr>))"
  by (simp add: bt_contains_def)

lemma strip_scoped_laws:
  assumes "e' \<in> set (strip_scoped e)"
  shows "delivery_generation (snd e') = delivery_generation (snd e)"
    and "is_cancelled (snd e') \<Longrightarrow> is_cancelled (snd e)"
    and "\<not> live_status e'"
    and "live_request e' \<longleftrightarrow> live_request e" and "live_intent e' \<longleftrightarrow> live_intent e"
    and "snd e = Reliable \<Longrightarrow> e' = e" and "snd e' = Reliable \<longleftrightarrow> snd e = Reliable"
proof -
  obtain m d where e: "e = (m, d)" by (cases e)
  have stripped: "snd e' = set_participant_status_cancelled False d \<and> \<not> carries_participant_status (fst e')"
    if "is_scoped_state d"
    using assms that carries_stripped
    by (auto simp: strip_scoped_def strip_entry_def e Let_def split: if_splits ProtocolMessage.splits)
  have kept: "e' = e" if "\<not> is_scoped_state d" using assms that by (simp add: strip_scoped_def e)
  show "delivery_generation (snd e') = delivery_generation (snd e)"
    "is_cancelled (snd e') \<Longrightarrow> is_cancelled (snd e)" "\<not> live_status e'"
    "live_request e' \<longleftrightarrow> live_request e" "live_intent e' \<longleftrightarrow> live_intent e"
    "snd e = Reliable \<Longrightarrow> e' = e" "snd e' = Reliable \<longleftrightarrow> snd e = Reliable"
    using stripped kept
    by (cases d; auto simp: e is_cancelled_def live_status_def live_request_def live_intent_def)+
qed

lemma status_mark_laws:
  "delivery_generation (set_participant_status_cancelled b d) = delivery_generation d"
  "is_scoped_request (set_participant_status_cancelled b d) = is_scoped_request d"
  "is_readiness_intent (set_participant_status_cancelled b d) = is_readiness_intent d"
  "is_cancelled_request (set_participant_status_cancelled b d) = is_cancelled_request d"
  "is_scoped_request d \<Longrightarrow> \<not> participant_status_is_cancelled (set_participant_status_cancelled b d)"
  "is_readiness_intent d \<Longrightarrow> \<not> participant_status_is_cancelled (set_participant_status_cancelled b d)"
  "is_scoped_request d \<Longrightarrow> \<not> participant_status_is_cancelled d"
  "is_readiness_intent d \<Longrightarrow> \<not> participant_status_is_cancelled d"
  "set_participant_status_cancelled b d = Reliable \<longleftrightarrow> d = Reliable"
  by (cases d; simp)+

lemma strip_scoped_length: "length (strip_scoped e) \<le> 1"
  by (auto simp: strip_scoped_def strip_entry_def Let_def split: ProtocolMessage.split)

lemma strip_scoped_filter:
  assumes "\<And>e'. e' \<in> set (strip_scoped e) \<Longrightarrow> p e' \<longleftrightarrow> p e"
  shows "length (filter p (strip_scoped e)) \<le> (if p e then 1 else 0)"
  using assms strip_scoped_length [of e] by (cases "strip_scoped e") (auto split: if_splits)

lemma concat_strip_filter:
  assumes "\<And>e e'. e' \<in> set (strip_scoped e) \<Longrightarrow> p e' \<longleftrightarrow> p e"
  shows "length (filter p (concat (map strip_scoped es))) \<le> length (filter p es)"
proof (induction es)
  case (Cons e es)
  with strip_scoped_filter [of e p] assms show ?case by (cases "p e") auto
qed simp

lemma strip_scoped_no_status: "filter live_status (concat (map strip_scoped es)) = []"
  by (auto simp: filter_empty_conv strip_scoped_laws(3))

lemma status_cancelled_laws:
  shows status_cancelled_none: "filter live_status (status_cancelled_entries leased es) = []"
    and status_cancelled_ok: "entries_ok g leased es \<Longrightarrow> entries_ok g leased (status_cancelled_entries leased es)"
    and status_cancelled_nonempty: "leased \<Longrightarrow> es \<noteq> [] \<Longrightarrow> status_cancelled_entries leased es \<noteq> []"
proof -
  have front: "\<not> live_status (m, set_participant_status_cancelled True d)" for m :: "'p ProtocolMessage" and d
    by (cases d) (simp_all add: live_status_def is_cancelled_def)
  show none: "filter live_status (status_cancelled_entries leased es) = []"
    by (auto simp: status_cancelled_entries_def strip_scoped_no_status front split: list.split)
  show "leased \<Longrightarrow> es \<noteq> [] \<Longrightarrow> status_cancelled_entries leased es \<noteq> []"
    by (cases es) (auto simp: status_cancelled_entries_def)
  assume ok: "entries_ok g leased es"
  have rest: "list_all (\<lambda>e. delivery_generation (snd e) \<in> {None, Some g}) (concat (map strip_scoped xs))"
    if "list_all (\<lambda>e. delivery_generation (snd e) \<in> {None, Some g}) xs" for xs :: "'p entry list"
    using that by (auto simp: list_all_iff strip_scoped_laws(1))
  have live: "list_all (\<lambda>e. \<not> is_cancelled (snd e)) (concat (map strip_scoped xs))"
    if "list_all (\<lambda>e. \<not> is_cancelled (snd e)) xs" for xs :: "'p entry list"
    using that by (auto simp: list_all_iff dest: strip_scoped_laws(2))
  have one: "at_most_one p (concat (map strip_scoped xs))"
    if "at_most_one p xs" "\<And>e e'. e' \<in> set (strip_scoped e) \<Longrightarrow> p e' \<longleftrightarrow> p e"
    for p and xs :: "'p entry list"
    by (rule at_most_one_fewer [OF concat_strip_filter that(1)]) (rule that(2))
  note kinds = strip_scoped_laws(4,5)
  show "entries_ok g leased (status_cancelled_entries leased es)"
  proof (cases leased)
    case False
    have "at_most_one live_status (concat (map strip_scoped es))"
      by (simp add: at_most_one_def strip_scoped_no_status)
    moreover have "at_most_one live_request (concat (map strip_scoped es))"
      by (rule one) (use ok kinds in \<open>simp_all add: entries_ok_def\<close>)
    moreover have "at_most_one live_intent (concat (map strip_scoped es))"
      by (rule one) (use ok kinds in \<open>simp_all add: entries_ok_def\<close>)
    ultimately show ?thesis
      using False ok rest [of es] live [of es] by (simp add: entries_ok_def status_cancelled_entries_def)
  next
    case True
    show ?thesis
    proof (cases es)
      case (Cons e xs)
      obtain m d where e: "e = (m, d)" by (cases e)
      have ok': "at_most_one live_request ((m, d) # xs)" "at_most_one live_intent ((m, d) # xs)"
        "delivery_generation d \<in> {None, Some g}" "list_all (\<lambda>e. delivery_generation (snd e) \<in> {None, Some g}) xs"
        "list_all (\<lambda>e. \<not> is_cancelled (snd e)) xs"
        using ok True by (simp_all add: entries_ok_def Cons e del: at_most_one_simps)
      define d' where "d' = set_participant_status_cancelled True d"
      have d': "delivery_generation d' = delivery_generation d" "live_request (m, d') \<longleftrightarrow> live_request (m, d)"
        "live_intent (m, d') \<longleftrightarrow> live_intent (m, d)"
        by (auto simp: d'_def live_request_def live_intent_def is_cancelled_def status_mark_laws)
      have dead: "\<not> live_status (m, d')" unfolding d'_def by (rule front)
      have few: "at_most_one p ((m, d') # concat (map strip_scoped xs))"
        if "at_most_one p ((m, d) # xs)" "p (m, d') \<longleftrightarrow> p (m, d)"
          "\<And>e e'. e' \<in> set (strip_scoped e) \<Longrightarrow> p e' \<longleftrightarrow> p e" for p
        using that(1,2) concat_strip_filter [of p xs, OF that(3)] by (simp add: at_most_one_def split: if_splits)
      have "at_most_one live_status ((m, d') # concat (map strip_scoped xs))"
        by (simp add: dead at_most_one_def strip_scoped_no_status)
      with few [OF ok'(1)] few [OF ok'(2)] rest [OF ok'(4)] live [OF ok'(5)] ok'(3) True show ?thesis
        by (simp add: entries_ok_def status_cancelled_entries_def Cons e d'_def [symmetric] d' kinds
            del: at_most_one_simps)
    qed (use ok True in \<open>simp add: status_cancelled_entries_def entries_ok_def\<close>)
  qed
qed

end
