(* ===== verification/Outbox_Runs.thy ===== *)
theory Outbox_Runs
  imports Outbox_Inv
begin

text \<open>
  Sequences of outbox operations. Every operation keeps the invariant, so none panics; durable
  messages leave the queue only by acknowledgement and in order; and while a lease is out, the
  message it names stays at the front, byte for byte.
\<close>

section \<open>Operations that leave durable messages and leases alone\<close>

definition reliable_messages :: "'p ProtocolOutbox \<Rightarrow> 'p ProtocolMessage list" where
  "reliable_messages self = map fst (filter (\<lambda>e. snd e = Reliable) (entries self))"

definition front_message :: "'p entry list \<Rightarrow> 'p ProtocolMessage option" where
  "front_message es = (case es of [] \<Rightarrow> None | e # _ \<Rightarrow> Some (fst e))"

lemma leased_front_entries:
  "balanced self \<Longrightarrow> leased_front_message lease self
     = (if ob_leased_front self = Some lease then front_message (entries self) else None)"
  by (cases "entries self") (simp_all add: leased_front_message_def front_message_def balanced_queues)

definition keeps :: "'p ProtocolOutbox \<Rightarrow> 'p ProtocolOutbox \<Rightarrow> bool" where
  "keeps self self' \<longleftrightarrow>
     outbox_ok self' \<and> reliable_messages self' = reliable_messages self \<and> registers self' = registers self
     \<and> (ob_leased_front self \<noteq> None \<longrightarrow> front_message (entries self') = front_message (entries self))"

lemma keeps_refl: "outbox_ok self \<Longrightarrow> keeps self self"
  by (simp add: keeps_def)

lemma keeps_trans: "keeps a b \<Longrightarrow> keeps b c \<Longrightarrow> keeps a c"
  by (simp add: keeps_def registers_eq)

lemma outbox_ok_cong:
  "balanced a = balanced b \<Longrightarrow> entries a = entries b \<Longrightarrow> registers a = registers b \<Longrightarrow> outbox_ok a = outbox_ok b"
  by (simp add: outbox_ok_def registers_eq)

lemma keeps_emit: "keeps a b \<Longrightarrow> keeps a (emit_unstaged_transaction_superseded count b)"
  using outbox_ok_cong [of "emit_unstaged_transaction_superseded count b" b]
  by (simp add: keeps_def reliable_messages_def entry_simps)

lemma keeps_leased:
  "outbox_ok self \<Longrightarrow> keeps self self' \<Longrightarrow> leased_front_message lease self' = leased_front_message lease self"
  by (auto simp: keeps_def leased_front_entries outbox_ok_def registers_eq)

lemma keepsI:
  assumes ok: "outbox_ok self" and "balanced self'" "registers self' = registers self"
    and "entries_ok (ob_connection_generation self) (ob_leased_front self \<noteq> None) (entries self')"
    and "filter (\<lambda>e. snd e = Reliable) (entries self') = filter (\<lambda>e. snd e = Reliable) (entries self)"
    and "ob_active_generation self = None \<Longrightarrow> list_all (\<lambda>e. snd e = Reliable) (entries self')"
    and "ob_leased_front self \<noteq> None \<Longrightarrow> front_message (entries self') = front_message (entries self)"
  shows "keeps self self'"
proof -
  have "entries self' \<noteq> []" if "ob_leased_front self \<noteq> None"
    using assms(7) that ok by (auto simp: front_message_def outbox_ok_def split: list.splits)
  with assms show ?thesis
    by (simp add: keeps_def outbox_ok_def reliable_messages_def registers_eq)
qed

lemma cancelled_entries_laws:
  assumes "\<not> p Reliable" "\<And>d. mark d = Reliable \<longleftrightarrow> d = Reliable"
  shows "filter (\<lambda>e. snd e = Reliable) (cancelled_entries leased p mark es) = filter (\<lambda>e. snd e = Reliable) es"
    and "list_all (\<lambda>e. snd e = Reliable) es \<Longrightarrow> list_all (\<lambda>e. snd e = Reliable) (cancelled_entries leased p mark es)"
    and "leased \<Longrightarrow> front_message (cancelled_entries leased p mark es) = front_message es"
proof -
  have "filter (\<lambda>e. snd e = Reliable) (filter (\<lambda>e. \<not> p (snd e)) xs) = filter (\<lambda>e. snd e = Reliable) xs"
    for xs :: "'p entry list"
    using assms(1) by (induction xs) auto
  then show "filter (\<lambda>e. snd e = Reliable) (cancelled_entries leased p mark es) = filter (\<lambda>e. snd e = Reliable) es"
    using assms by (cases es) (auto simp: cancelled_entries_def)
  show "list_all (\<lambda>e. snd e = Reliable) es \<Longrightarrow> list_all (\<lambda>e. snd e = Reliable) (cancelled_entries leased p mark es)"
    using assms by (cases es) (auto simp: cancelled_entries_def list_all_iff)
  show "leased \<Longrightarrow> front_message (cancelled_entries leased p mark es) = front_message es"
    by (cases es) (auto simp: cancelled_entries_def front_message_def)
qed

lemma mark_reliable:
  "cancel_intent d = Reliable \<longleftrightarrow> d = Reliable" "cancel_request d = Reliable \<longleftrightarrow> d = Reliable"
  by (cases d; simp)+

lemma invalidate_keeps:
  assumes "outbox_ok self" "\<not> p Reliable"
  shows "keeps self (invalidate_readiness_intents sd p self)"
    and "keeps self (invalidate_connection_scoped_reliable sd p self)"
proof -
  have balanced: "balanced self" and ok: "entries_ok (ob_connection_generation self) (ob_leased_front self \<noteq> None) (entries self)"
    and inactive: "ob_active_generation self = None \<Longrightarrow> list_all (\<lambda>e. snd e = Reliable) (entries self)"
    using assms(1) by (simp_all add: outbox_ok_def)
  note laws = cancelled_entries_laws [where p = p and mark = cancel_intent, OF assms(2) mark_reliable(1)]
    cancelled_entries_laws [where p = p and mark = cancel_request, OF assms(2) mark_reliable(2)]
  show "keeps self (invalidate_readiness_intents sd p self)"
    by (rule keepsI [OF assms(1)])
      (simp_all add: entry_simps balanced laws entries_ok_cancelled [OF ok] inactive del: not_None_eq)
  show "keeps self (invalidate_connection_scoped_reliable sd p self)"
    by (rule keepsI [OF assms(1)])
      (simp_all add: entry_simps balanced laws entries_ok_cancelled [OF ok] inactive del: not_None_eq)
qed

lemma filter_cancelled:
  assumes "\<And>m d. p d \<Longrightarrow> \<not> q (m, mark d)" "\<And>e. \<not> p (snd e) \<Longrightarrow> \<not> q e"
  shows "filter q (cancelled_entries leased p mark es) = []"
  using assms(1) by (cases es) (fastforce simp: cancelled_entries_def filter_empty_conv assms(2))+

lemma cancelled_none:
  "filter live_request (cancelled_entries leased is_scoped_request cancel_request es) = []"
  "filter live_intent (cancelled_entries leased is_readiness_intent cancel_intent es) = []"
proof -
  have "\<not> live_request (m, cancel_request d)" if "is_scoped_request d" for m :: "'p ProtocolMessage" and d
    using that by (cases d) (simp_all add: live_request_def is_cancelled_def)
  then show "filter live_request (cancelled_entries leased is_scoped_request cancel_request es) = []"
    by (rule filter_cancelled) (simp_all add: live_request_def)
  have "\<not> live_intent (m, cancel_intent d)" if "is_readiness_intent d" for m :: "'p ProtocolMessage" and d
    using that by (cases d) (simp_all add: live_intent_def is_cancelled_def)
  then show "filter live_intent (cancelled_entries leased is_readiness_intent cancel_intent es) = []"
    by (rule filter_cancelled) (simp_all add: live_intent_def)
qed

lemma insert_keeps:
  assumes "outbox_ok self" "accepts_scoped self" "d \<noteq> Reliable" "\<not> is_cancelled d"
    and "delivery_generation d \<in> {None, Some (ob_connection_generation self)}"
    and "live_request (m, d) \<Longrightarrow> filter live_request (entries self) = []"
    and "live_intent (m, d) \<Longrightarrow> filter live_intent (entries self) = []"
    and "live_status (m, d) \<Longrightarrow> filter live_status (entries self) = []"
  shows "keeps self (insert_reliable m d self)"
proof -
  have balanced: "balanced self" and front: "ob_leased_front self \<noteq> None \<longrightarrow> entries self \<noteq> []"
    and ok: "entries_ok (ob_connection_generation self) (ob_leased_front self \<noteq> None) (entries self)"
    using assms(1) by (simp_all add: outbox_ok_def)
  show ?thesis
  proof (rule keepsI [OF assms(1)])
    show "entries_ok (ob_connection_generation self) (ob_leased_front self \<noteq> None) (entries (insert_reliable m d self))"
      unfolding insert_reliable_entries(2) [OF balanced] by (rule entries_ok_append [OF ok front assms(5,4,6-8)])
    show "ob_leased_front self \<noteq> None \<Longrightarrow>
      front_message (entries (insert_reliable m d self)) = front_message (entries self)"
      using front by (cases "entries self") (simp_all add: entry_simps balanced front_message_def)
  qed (use assms(2,3) in \<open>simp_all add: entry_simps balanced accepts_scoped_def\<close>)
qed

section \<open>Participant status and coalescing\<close>

lemma strip_scoped_one: "filter (\<lambda>e. snd e = Reliable) (strip_scoped e) = filter (\<lambda>e. snd e = Reliable) [e]"
  using strip_scoped_laws(7) [of _ e] by (cases "snd e = Reliable") (auto simp: strip_scoped_def filter_empty_conv)

lemma strip_scoped_reliable:
  "filter (\<lambda>e. snd e = Reliable) (concat (map strip_scoped es)) = filter (\<lambda>e. snd e = Reliable) es"
proof (induction es)
  case (Cons e es)
  then show ?case by (simp add: strip_scoped_one)
qed simp

lemma cancel_status_keeps:
  assumes "outbox_ok self"
  shows "keeps self (cancel_pending_participant_status_reports self)"
proof -
  have balanced: "balanced self" and ok: "entries_ok (ob_connection_generation self) (ob_leased_front self \<noteq> None) (entries self)"
    and inactive: "ob_active_generation self = None \<Longrightarrow> list_all (\<lambda>e. snd e = Reliable) (entries self)"
    using assms by (simp_all add: outbox_ok_def)
  have rel: "filter (\<lambda>e. snd e = Reliable) (status_cancelled_entries leased es) = filter (\<lambda>e. snd e = Reliable) es"
    for leased and es :: "'a entry list"
    by (cases es) (auto simp: status_cancelled_entries_def strip_scoped_reliable strip_scoped_one status_mark_laws)
  have all: "list_all (\<lambda>e. snd e = Reliable) (status_cancelled_entries leased es)"
    if "list_all (\<lambda>e. snd e = Reliable) es" for leased and es :: "'a entry list"
  proof -
    have "concat (map strip_scoped xs) = xs" if "list_all (\<lambda>e. snd e = Reliable) xs" for xs :: "'a entry list"
      using that by (induction xs) (auto simp: strip_scoped_def)
    with that show ?thesis
      by (cases es) (auto simp: status_cancelled_entries_def strip_scoped_def status_mark_laws)
  qed
  have front: "front_message (status_cancelled_entries True es) = front_message es" for es :: "'a entry list"
    by (cases es) (auto simp: status_cancelled_entries_def front_message_def)
  show ?thesis
    by (rule keepsI [OF assms])
      (use front in \<open>simp_all add: entry_simps balanced rel all inactive status_cancelled_ok [OF ok]
        del: not_None_eq\<close>)
qed

lemma bt_contains_merge_missing:
  "bt_contains (merge_missing_entries previous latest) k \<longleftrightarrow> bt_contains previous k \<or> bt_contains latest k"
proof (induction previous arbitrary: latest)
  case (Cons entry previous)
  then show ?case
    by (cases entry) (auto simp: merge_missing_entries_def bt_contains_def)
qed (simp add: merge_missing_entries_def bt_contains_def)

lemma merge_carries_status:
  "carries_participant_status (merge_messages sd previous message)
     \<Longrightarrow> carries_participant_status previous \<or> carries_participant_status message"
  by (cases previous; cases message)
    (auto simp: merge_pending_state_obligations_def Let_def bt_contains_merge_missing merge_barrier_contains)

lemma coalescible_tail_entries:
  assumes "balanced self" "coalescible_tail self = Some index"
  obtains es m d where "entries self = es @ [(m, d)]" "index = length es" "is_scoped_state d"
    "ob_leased_front self \<noteq> None \<longrightarrow> es \<noteq> []"
proof -
  have "ob_delivery self \<noteq> []" using assms(2) by (auto simp: coalescible_tail_def split: if_splits)
  then have "entries self \<noteq> []" using balanced_queues(2) [OF assms(1)] by auto
  then obtain es m d where es: "entries self = es @ [(m, d)]" by (cases "entries self" rule: rev_cases) auto
  show thesis
  proof (rule that [OF es])
    show "index = length es" "is_scoped_state d" "ob_leased_front self \<noteq> None \<longrightarrow> es \<noteq> []"
      using assms(2) balanced_queues(2) [OF assms(1)]
      by (auto simp: coalescible_tail_def es Let_def split: ProtocolDelivery.splits if_splits)
  qed
qed

lemma coalesce_keeps:
  assumes "outbox_ok self" "accepts_scoped self" "entries self = es @ [(m, d)]" "is_scoped_state d"
    and "ob_leased_front self \<noteq> None \<longrightarrow> es \<noteq> []"
    and "live_status (m', d) \<Longrightarrow> live_status (m, d) \<or> filter live_status es = []"
  shows "keeps self (self\<lparr>ob_pending := (ob_pending self)[length es := m']\<rparr>)" (is "keeps self ?o")
proof -
  have balanced: "balanced self" and ok: "entries_ok (ob_connection_generation self) (ob_leased_front self \<noteq> None) (entries self)"
    using assms(1) by (simp_all add: outbox_ok_def)
  have queues: "ob_pending ?o = map fst (es @ [(m', d)])" "ob_delivery ?o = map snd (es @ [(m', d)])"
    using balanced_queues [OF balanced] list_update_length [of "map fst es" m "[]" m']
    by (simp_all add: assms(3))
  have o: "balanced ?o" "entries ?o = es @ [(m', d)]" using balancedI [OF queues] by simp_all
  have same: "live_request (m', d) = live_request (m, d)" "live_intent (m', d) = live_intent (m, d)"
    by (simp_all add: live_request_def live_intent_def)
  have status: "at_most_one live_status (es @ [(m', d)])"
    using ok assms(6) by (auto simp: entries_ok_def assms(3) at_most_one_def)
  have notrel: "d \<noteq> Reliable" using assms(4) by auto
  show ?thesis
  proof (rule keepsI [OF assms(1) o(1)])
    show "entries_ok (ob_connection_generation self) (ob_leased_front self \<noteq> None) (entries ?o)"
      using ok status assms(5) by (auto simp: entries_ok_def o assms(3) at_most_one_def same)
    show "ob_leased_front self \<noteq> None \<Longrightarrow> front_message (entries ?o) = front_message (entries self)"
      using assms(5) unfolding o(2) assms(3) by (cases es) (auto simp: front_message_def)
  qed (use notrel assms(2) in \<open>simp_all add: o assms(3) registers_def accepts_scoped_def\<close>)
qed


lemma push_state_keeps:
  assumes "outbox_ok self"
  obtains accepted self' where "push_connection_scoped_state sd message self = Some (accepted, self')"
    "keeps self self'" "accepted \<longleftrightarrow> accepts_scoped self"
proof (cases "accepts_scoped self")
  case False
  with keeps_refl [OF assms] show thesis by (intro that) (auto simp: push_connection_scoped_state_def)
next
  case True
  define o1 where "o1 = (if carries_participant_status message
    then cancel_pending_participant_status_reports self else self)"
  have k1: "keeps self o1" using keeps_refl [OF assms] cancel_status_keeps [OF assms] by (simp add: o1_def)
  then have ok1: "outbox_ok o1" and accepts1: "accepts_scoped o1"
    using True by (simp_all add: keeps_def accepts_scoped_def registers_eq)
  then have balanced: "balanced o1" by (simp add: outbox_ok_def)
  have quiet: "filter live_status (entries o1) = []" if "carries_participant_status message"
    using that assms cancel_status_entries(2) [of self] by (simp add: o1_def outbox_ok_def status_cancelled_none)
  show thesis
  proof (cases "coalescible_tail o1")
    case None
    have "keeps o1 (insert_reliable message (connection_scoped_state (ob_connection_generation o1)) o1)"
      using quiet
      by (intro insert_keeps [OF ok1 accepts1])
        (auto simp: connection_scoped_state_def is_cancelled_def live_request_def live_intent_def live_status_def)
    then have "keeps self (insert_reliable message (connection_scoped_state (ob_connection_generation o1)) o1)"
      by (rule keeps_trans [OF k1])
    then show thesis
      by (rule that [rotated]) (simp_all add: push_connection_scoped_state_def True o1_def [symmetric] None)
  next
    case (Some index)
    obtain es m d where tail: "entries o1 = es @ [(m, d)]" "index = length es" "is_scoped_state d"
        "ob_leased_front o1 \<noteq> None \<longrightarrow> es \<noteq> []"
      using coalescible_tail_entries [OF balanced Some] by metis
    have previous: "get_at index (ob_pending o1) = Some m"
      using get_at_append [of "map fst es" m "[]"] balanced_queues(1) [OF balanced] by (simp add: tail)
    let ?o = "o1\<lparr>ob_pending := (ob_pending o1)[length es := merge_messages sd m message]\<rparr>"
    have "live_status (m, d) \<or> filter live_status es = []" if "live_status (merge_messages sd m message, d)"
      using that quiet merge_carries_status [of sd m message] by (auto simp: live_status_def tail(1))
    then have "keeps o1 ?o" by (rule coalesce_keeps [OF ok1 accepts1 tail(1,3,4)])
    then have k: "keeps self ?o" by (rule keeps_trans [OF k1])
    then have "keeps self (emit_unstaged_transaction_superseded 1 ?o)" by (rule keeps_emit)
    with k have "keeps self (if is_playback_protocol_message sd m
        then emit_unstaged_transaction_superseded 1 ?o else ?o)" by simp
    then show thesis
      by (rule that [rotated]) (simp_all add: push_connection_scoped_state_def True o1_def [symmetric] Some
          previous [unfolded tail(2)] tail(2))
  qed
qed

lemma push_scoped_keeps:
  assumes "outbox_ok self"
  shows "keeps self (snd (push_connection_scoped_reliable sd message room media nonce self))"
    and "keeps self (snd (push_readiness_intent sd message room epoch self))"
    and "keeps self (snd (push_connection_scoped_causal_state message self))"
proof -
  note refl = keeps_refl [OF assms]
  have request: "keeps self (cancel_connection_scoped_reliable sd self)"
    and intent: "keeps self (cancel_readiness_intents sd self)"
    by (simp_all add: cancel_connection_scoped_reliable_def cancel_readiness_intents_def invalidate_keeps [OF assms])
  have gone: "filter live_request (entries (cancel_connection_scoped_reliable sd self)) = []"
    "filter live_intent (entries (cancel_readiness_intents sd self)) = []"
    using assms by (simp_all add: cancel_connection_scoped_reliable_def cancel_readiness_intents_def
        entry_simps outbox_ok_def cancelled_none)
  have kept: "outbox_ok o' \<and> accepts_scoped o' = accepts_scoped self
      \<and> ob_connection_generation o' = ob_connection_generation self" if "keeps self o'" for o'
    using that by (simp add: keeps_def accepts_scoped_def registers_eq)
  show "keeps self (snd (push_connection_scoped_reliable sd message room media nonce self))"
    using kept [OF request] gone(1)
    by (auto simp: push_connection_scoped_reliable_def refl is_cancelled_def live_intent_def live_status_def
        intro!: keeps_trans [OF request] insert_keeps)
  show "keeps self (snd (push_readiness_intent sd message room epoch self))"
    using kept [OF intent] gone(2)
    by (auto simp: push_readiness_intent_def refl is_cancelled_def live_request_def live_status_def
        intro!: keeps_trans [OF intent] insert_keeps)
  show "keeps self (snd (push_connection_scoped_causal_state message self))"
    using assms
    by (auto simp: push_connection_scoped_causal_state_def refl is_cancelled_def live_request_def live_intent_def
        live_status_def intro!: insert_keeps)
qed

section \<open>Durable messages, connections and receipts\<close>

lemma insert_durable:
  assumes "outbox_ok self"
  shows "outbox_ok (insert_reliable message Reliable self)"
    and "reliable_messages (insert_reliable message Reliable self) = reliable_messages self @ [message]"
    and "leased_front_message lease self \<noteq> None \<Longrightarrow>
      leased_front_message lease (insert_reliable message Reliable self) = leased_front_message lease self"
proof -
  have balanced: "balanced self" and front: "ob_leased_front self \<noteq> None \<longrightarrow> entries self \<noteq> []"
    and ok: "entries_ok (ob_connection_generation self) (ob_leased_front self \<noteq> None) (entries self)"
    using assms by (simp_all add: outbox_ok_def)
  have "registers (insert_reliable message Reliable self) = registers self" using balanced by (simp add: entry_simps)
  then have regs: "ob_connection_generation (insert_reliable message Reliable self) = ob_connection_generation self"
    "ob_active_generation (insert_reliable message Reliable self) = ob_active_generation self"
    "ob_leased_front (insert_reliable message Reliable self) = ob_leased_front self"
    by (simp_all add: registers_eq)
  have "entries_ok (ob_connection_generation self) (ob_leased_front self \<noteq> None) (entries self @ [(message, Reliable)])"
    by (rule entries_ok_append [OF ok front])
      (simp_all add: is_cancelled_def live_request_def live_intent_def live_status_def)
  with assms balanced show "outbox_ok (insert_reliable message Reliable self)"
    by (simp add: outbox_ok_def entry_simps regs)
  show "reliable_messages (insert_reliable message Reliable self) = reliable_messages self @ [message]"
    using balanced by (simp add: reliable_messages_def entry_simps)
  show "leased_front_message lease (insert_reliable message Reliable self) = leased_front_message lease self"
    if "leased_front_message lease self \<noteq> None"
    using that balanced
    by (cases "entries self") (simp_all add: leased_front_entries entry_simps regs front_message_def split: if_splits)
qed

lemma begin_connection:
  assumes "outbox_ok self"
  shows "outbox_ok (begin_connection_generation sd self)"
    and "entries (begin_connection_generation sd self) = filter (\<lambda>e. snd e = Reliable) (entries self)"
    and "ob_leased_front (begin_connection_generation sd self) = None"
    and "ob_active_generation (begin_connection_generation sd self) = None"
    and "ob_connection_generation (begin_connection_generation sd self) = wrapping_add (ob_connection_generation self) 1"
    and "ob_next_lease (begin_connection_generation sd self) = ob_next_lease self"
    and "balanced (begin_connection_generation sd self)"
proof -
  let ?reset = "self\<lparr>ob_connection_generation := wrapping_add (ob_connection_generation self) 1,
      ob_active_generation := None, ob_leased_front := None\<rparr>"
  have balanced: "balanced self" using assms by (simp add: outbox_ok_def)
  have reset: "balanced ?reset" "entries ?reset = entries self"
    using balanced by (simp_all add: balanced_def entries_def)
  have "registers (begin_connection_generation sd self) = registers ?reset"
    using reset by (simp add: begin_connection_generation_def Let_def entry_simps)
  then show regs: "ob_leased_front (begin_connection_generation sd self) = None"
    "ob_active_generation (begin_connection_generation sd self) = None"
    "ob_connection_generation (begin_connection_generation sd self) = wrapping_add (ob_connection_generation self) 1"
    "ob_next_lease (begin_connection_generation sd self) = ob_next_lease self"
    by (simp_all add: registers_eq)
  have "retained False keep es = filter (\<lambda>e. keep (snd e)) es" for keep and es :: "'a entry list"
    by (cases es) (simp_all add: retained_def)
  then show es: "entries (begin_connection_generation sd self) = filter (\<lambda>e. snd e = Reliable) (entries self)"
    using reset by (simp add: begin_connection_generation_def Let_def entry_simps)
  show b: "balanced (begin_connection_generation sd self)"
    using reset by (simp add: begin_connection_generation_def Let_def entry_simps)
  have "at_most_one p (filter (\<lambda>e. snd e = Reliable) (entries self))" if "\<And>m. \<not> p (m, Reliable)" for p
  proof -
    have "filter p (filter (\<lambda>e. snd e = Reliable) (entries self)) = []"
      using that by (auto simp: filter_empty_conv)
    then show ?thesis by (simp add: at_most_one_def del: filter_filter)
  qed
  then show "outbox_ok (begin_connection_generation sd self)"
    using b
    by (auto simp: outbox_ok_def regs es entries_ok_def list_all_iff is_cancelled_def live_request_def
        live_intent_def live_status_def)
qed

lemma entries_ok_unlease: "entries_ok g True (e # es) \<Longrightarrow> \<not> is_cancelled (snd e) \<Longrightarrow> entries_ok g False (e # es)"
  by (simp add: entries_ok_def)

lemma entries_ok_tl: "entries_ok g True (e # es) \<Longrightarrow> entries_ok g False es"
  by (auto simp: entries_ok_def at_most_one_def split: if_splits)

lemma entries_ok_strip_front:
  assumes "entries_ok g True (e # es)" "participant_status_is_cancelled (snd e)"
  shows "entries_ok g False (strip_entry e @ es)"
proof -
  obtain m generation where e: "e = (m, ConnectionScopedState generation True)"
    using assms(2) by (cases e; cases "snd e") auto
  have strip: "strip_scoped e = strip_entry e" by (simp add: strip_scoped_def e)
  have one: "at_most_one p (strip_entry e @ es)"
    if "at_most_one p (e # es)" "\<And>e'. e' \<in> set (strip_entry e) \<Longrightarrow> \<not> p e'" for p
  proof -
    have "filter p (strip_entry e) = []" using that(2) by (auto simp: filter_empty_conv)
    with that(1) show ?thesis by (auto simp: at_most_one_def split: if_splits)
  qed
  have dead: "\<not> live_request e'" "\<not> live_intent e'" "\<not> live_status e'" if "e' \<in> set (strip_entry e)" for e'
  proof -
    have "e' \<in> set (strip_scoped e)" using that by (simp add: strip)
    from strip_scoped_laws(3-5) [OF this] show "\<not> live_request e'" "\<not> live_intent e'" "\<not> live_status e'"
      by (simp_all add: e live_request_def live_intent_def)
  qed
  have fresh: "delivery_generation (snd e') = Some generation \<and> \<not> is_cancelled (snd e')" if "e' \<in> set (strip_entry e)" for e'
    using that by (auto simp: strip_entry_def e Let_def is_cancelled_def split: if_splits ProtocolMessage.splits)
  have ok: "at_most_one live_request (e # es)" "at_most_one live_intent (e # es)" "at_most_one live_status (e # es)"
    using assms(1) unfolding entries_ok_def by blast+
  have "list_all (\<lambda>e. \<not> is_cancelled (snd e)) (strip_entry e @ es)"
    "list_all (\<lambda>e. delivery_generation (snd e) \<in> {None, Some g}) (strip_entry e @ es)"
    using assms(1) fresh by (auto simp: entries_ok_def list_all_iff e)
  with one [OF ok(1) dead(1)] one [OF ok(2) dead(2)] one [OF ok(3) dead(3)] show ?thesis
    by (simp add: entries_ok_def)
qed


section \<open>Steps and runs\<close>

datatype 'p OutboxStep =
    DeliverFront
  | PushBack "'p ProtocolMessage"
  | PushRequest "'p ProtocolMessage" string u64 u64
  | PushCausal "'p ProtocolMessage"
  | PushIntent "'p ProtocolMessage" string u64
  | PushState "'p ProtocolMessage"
  | CancelIntents
  | CancelRequests
  | RetainScope string u64
  | CancelStatus
  | BeginConnection
  | ActivateConnection
  | AcknowledgeFront u64
  | ReleaseFront u64

datatype 'p OutboxLog = Enqueued "'p ProtocolMessage" | Delivered "'p ProtocolMessage" | Panicked

text \<open>
  A step logs a durable message that was queued, a durable message whose acknowledgement was
  accepted, and a panic.
\<close>

fun outbox_step :: "'p serde \<Rightarrow> 'p OutboxStep \<Rightarrow> 'p ProtocolOutbox \<Rightarrow> 'p ProtocolOutbox \<times> 'p OutboxLog list" where
  "outbox_step sd DeliverFront self = (snd (front_for_delivery_with_status self), [])"
| "outbox_step sd (PushBack message) self =
     (case push_back sd message self of
        None \<Rightarrow> (self, [Panicked])
      | Some self' \<Rightarrow> (self', if is_state message then [] else [Enqueued message]))"
| "outbox_step sd (PushRequest message room media_generation nonce) self =
     (snd (push_connection_scoped_reliable sd message room media_generation nonce self), [])"
| "outbox_step sd (PushCausal message) self = (snd (push_connection_scoped_causal_state message self), [])"
| "outbox_step sd (PushIntent message room epoch) self = (snd (push_readiness_intent sd message room epoch self), [])"
| "outbox_step sd (PushState message) self =
     (case push_connection_scoped_state sd message self of
        None \<Rightarrow> (self, [Panicked])
      | Some (_, self') \<Rightarrow> (self', []))"
| "outbox_step sd CancelIntents self = (cancel_readiness_intents sd self, [])"
| "outbox_step sd CancelRequests self = (cancel_connection_scoped_reliable sd self, [])"
| "outbox_step sd (RetainScope room media_generation) self =
     (retain_connection_scoped_reliable_scope sd room media_generation self, [])"
| "outbox_step sd CancelStatus self = (cancel_pending_participant_status_reports self, [])"
| "outbox_step sd BeginConnection self = (begin_connection_generation sd self, [])"
| "outbox_step sd ActivateConnection self = (activate_connection_generation self, [])"
| "outbox_step sd (AcknowledgeFront lease) self =
     (case acknowledge_front lease self of
        None \<Rightarrow> (self, [Panicked])
      | Some (None, self') \<Rightarrow> (self', [])
      | Some (Some message, self') \<Rightarrow>
          (self', if front_matches (\<lambda>d. d = Reliable) (ob_delivery self) then [Delivered message] else []))"
| "outbox_step sd (ReleaseFront lease) self = (snd (release_front lease self), [])"

definition enqueued_messages :: "'p OutboxLog list \<Rightarrow> 'p ProtocolMessage list" where
  "enqueued_messages tr = List.map_filter (\<lambda>l. case l of Enqueued m \<Rightarrow> Some m | _ \<Rightarrow> None) tr"

definition delivered_messages :: "'p OutboxLog list \<Rightarrow> 'p ProtocolMessage list" where
  "delivered_messages tr = List.map_filter (\<lambda>l. case l of Delivered m \<Rightarrow> Some m | _ \<Rightarrow> None) tr"

lemma log_simps [simp]:
  "enqueued_messages [] = []" "delivered_messages [] = []"
  "enqueued_messages [Enqueued m] = [m]" "delivered_messages [Enqueued m] = []"
  "enqueued_messages [Delivered m] = []" "delivered_messages [Delivered m] = [m]"
  "enqueued_messages (l @ l') = enqueued_messages l @ enqueued_messages l'"
  "delivered_messages (l @ l') = delivered_messages l @ delivered_messages l'"
  by (simp_all add: enqueued_messages_def delivered_messages_def List.map_filter_def)

definition releases_lease :: "u64 \<Rightarrow> 'p OutboxStep \<Rightarrow> bool" where
  "releases_lease lease l \<longleftrightarrow> l \<in> {BeginConnection, AcknowledgeFront lease, ReleaseFront lease}"

text \<open>What one step does to the invariant, the durable messages, the log and a lease.\<close>

definition step_law :: "'p ProtocolOutbox \<Rightarrow> 'p OutboxStep \<Rightarrow> 'p ProtocolOutbox \<times> 'p OutboxLog list \<Rightarrow> bool" where
  "step_law self l r \<longleftrightarrow>
     outbox_ok (fst r) \<and> Panicked \<notin> set (snd r)
     \<and> delivered_messages (snd r) @ reliable_messages (fst r) = reliable_messages self @ enqueued_messages (snd r)
     \<and> (\<forall>lease. leased_front_message lease self \<noteq> None \<and> \<not> releases_lease lease l
          \<longrightarrow> leased_front_message lease (fst r) = leased_front_message lease self)"

lemma keeps_step_law: "outbox_ok self \<Longrightarrow> keeps self self' \<Longrightarrow> step_law self l (self', [])"
  by (simp add: step_law_def keeps_leased) (simp add: keeps_def)

lemma outbox_ok_registers:
  "outbox_ok self \<Longrightarrow> ob_pending self \<noteq> [] \<Longrightarrow> ob_leased_front self = None \<Longrightarrow>
   outbox_ok (self\<lparr>ob_next_lease := n, ob_leased_front := Some n\<rparr>)"
  "outbox_ok self \<Longrightarrow> outbox_ok (activate_connection_generation self)"
  by (auto simp: outbox_ok_def entries_ok_def entry_simps activate_connection_generation_def balanced_queues
      list_all_iff dest: list.set_sel(2) [rotated])

lemma deliver_step: "outbox_ok self \<Longrightarrow> step_law self DeliverFront (outbox_step sd DeliverFront self)"
  using outbox_ok_registers(1) [of self]
  by (auto simp: step_law_def front_for_delivery_with_status_def Let_def reliable_messages_def entry_simps
      leased_front_message_def split: list.split option.split)

lemma activate_step: "outbox_ok self \<Longrightarrow> step_law self ActivateConnection (outbox_step sd ActivateConnection self)"
  using outbox_ok_registers(2) [of self]
  by (simp add: step_law_def activate_connection_generation_def reliable_messages_def entry_simps
      leased_front_message_def)

lemma push_back_step: "outbox_ok self \<Longrightarrow> step_law self (PushBack m) (outbox_step sd (PushBack m) self)"
proof (cases "is_state m")
  case True
  assume ok: "outbox_ok self"
  obtain a self' where "push_connection_scoped_state sd m self = Some (a, self')" "keeps self self'"
    using push_state_keeps [OF ok] by metis
  with True keeps_step_law [OF ok] show ?thesis by (simp add: push_back_def)
next
  case False
  then show "outbox_ok self \<Longrightarrow> ?thesis"
    by (simp add: push_back_def step_law_def insert_durable)
qed

lemma acknowledge_step:
  assumes "outbox_ok self"
  shows "step_law self (AcknowledgeFront lease) (outbox_step sd (AcknowledgeFront lease) self)"
proof (cases "ob_leased_front self = Some lease")
  case False
  with assms show ?thesis by (simp add: acknowledge_front_def step_law_def)
next
  case True
  then obtain e es where es: "entries self = e # es"
    using assms by (cases "entries self") (simp_all add: outbox_ok_def)
  have balanced: "balanced self" using assms by (simp add: outbox_ok_def)
  let ?o = "self\<lparr>ob_pending := map fst es, ob_delivery := map snd es, ob_leased_front := None\<rparr>"
  have ack: "acknowledge_front lease self = Some (Some (fst e), ?o)"
    by (simp add: acknowledge_front_def True balanced_queues [OF balanced] es)
  have o: "balanced ?o" "entries ?o = es" by (simp_all add: balanced_def entries_def zip_map_fst_snd)
  have "outbox_ok ?o"
    using assms True entries_ok_tl [of "ob_connection_generation self" e es] by (simp add: outbox_ok_def o es)
  moreover have "leased_front_message l ?o = leased_front_message l self"
    if "leased_front_message l self \<noteq> None" "l \<noteq> lease" for l
    using that True by (simp add: leased_front_message_def)
  ultimately show ?thesis
    by (auto simp: step_law_def ack front_matches_def balanced_queues [OF balanced] es reliable_messages_def o
        releases_lease_def)
qed

lemma release_step:
  assumes "outbox_ok self"
  shows "step_law self (ReleaseFront lease) (outbox_step sd (ReleaseFront lease) self)"
proof (cases "ob_leased_front self = Some lease")
  case False
  with assms show ?thesis by (simp add: release_front_def step_law_def)
next
  case True
  then obtain e es where es: "entries self = e # es"
    using assms by (cases "entries self") (simp_all add: outbox_ok_def)
  have balanced: "balanced self" and ok: "entries_ok (ob_connection_generation self) True (e # es)"
    and active: "ob_active_generation self \<in> {None, Some (ob_connection_generation self)}"
      "ob_active_generation self = None \<longrightarrow> list_all (\<lambda>e. snd e = Reliable) (e # es)"
    using assms True by (simp_all add: outbox_ok_def es)
  let ?o = "self\<lparr>ob_leased_front := None\<rparr>" and ?r = "snd (release_front lease self)"
  have o: "balanced ?o" "entries ?o = e # es" using balanced es by (simp_all add: entry_simps)
  define es' where "es' = (if is_cancelled_request (snd e) then es
    else if participant_status_is_cancelled (snd e) then strip_entry e @ es else e # es)"
  note strip = strip_at_entries [OF o(1), of "[]" e es 0]
  have tails: "balanced (?o\<lparr>ob_pending := tl (ob_pending self), ob_delivery := tl (ob_delivery self)\<rparr>)
      \<and> entries (?o\<lparr>ob_pending := tl (ob_pending self), ob_delivery := tl (ob_delivery self)\<rparr>) = es"
    by (rule balancedI) (simp_all add: balanced_queues [OF balanced] es)
  have r: "balanced ?r" "entries ?r = es'" "registers ?r = registers ?o"
    using tails strip o
    by (simp_all add: release_front_def True front_matches_def balanced_queues [OF balanced] es es'_def Let_def entry_simps)
      (simp_all add: registers_def)
  have "entries_ok (ob_connection_generation self) False es'"
    using entries_ok_tl [OF ok] entries_ok_unlease [OF ok] entries_ok_strip_front [OF ok]
    by (simp add: es'_def is_cancelled_def)
  moreover have plain: "filter (\<lambda>e. snd e = Reliable) es' = filter (\<lambda>e. snd e = Reliable) (e # es)"
  proof -
    have "filter (\<lambda>e. snd e = Reliable) (strip_entry e) = []" if "participant_status_is_cancelled (snd e)"
    proof -
      have "is_scoped_state (snd e)" "snd e \<noteq> Reliable" using that by (cases "snd e"; simp)+
      with strip_scoped_one [of e] show ?thesis by (simp add: strip_scoped_def)
    qed
    moreover have "snd e \<noteq> Reliable" if "is_cancelled (snd e)" using that by (auto simp: is_cancelled_def)
    ultimately show ?thesis by (auto simp: es'_def is_cancelled_def)
  qed
  moreover have "list_all (\<lambda>e. snd e = Reliable) es'" if "ob_active_generation self = None"
    using active(2) that by (auto simp: es'_def)
  ultimately have "outbox_ok ?r"
    using r active(1) by (simp add: outbox_ok_def registers_eq)
  moreover have "l = lease" if "leased_front_message l self \<noteq> None" for l
    using that True by (simp add: leased_front_message_def split: if_splits)
  ultimately show ?thesis
    using plain by (auto simp: step_law_def reliable_messages_def r(2) es releases_lease_def)
qed

theorem outbox_step_law:
  assumes "outbox_ok self"
  shows "step_law self l (outbox_step sd l self)"
proof (cases l)
  case (PushState m)
  obtain a self' where "push_connection_scoped_state sd m self = Some (a, self')" "keeps self self'"
    using push_state_keeps [OF assms] by metis
  with PushState keeps_step_law [OF assms] show ?thesis by simp
next
  case BeginConnection
  then show ?thesis
    by (simp add: step_law_def begin_connection [OF assms] reliable_messages_def releases_lease_def)
qed (use assms in \<open>simp_all add: deliver_step activate_step push_back_step acknowledge_step release_step
    keeps_step_law push_scoped_keeps cancel_status_keeps cancel_readiness_intents_def
    cancel_connection_scoped_reliable_def retain_connection_scoped_reliable_scope_def invalidate_keeps
    del: outbox_step.simps(1,2,12,13,14)\<close>)

lemma default_outbox_ok: "outbox_ok default_outbox"
  by (simp add: outbox_ok_def default_outbox_def balanced_def entries_def entries_ok_def)

interpretation outbox: fifo_outbox "outbox_step sd" "\<lambda>_. True" outbox_ok reliable_messages enqueued_messages
    delivered_messages for sd
  using outbox_step_law [of _ _ sd] by unfold_locales (auto simp: step_law_def)

lemma outbox_ok_run: "outbox_ok (fst (run_steps (outbox_step sd) ls default_outbox))"
  using outbox.log.holds_run [OF default_outbox_ok] by simp

end
