(* ===== verification/Outbox_Leases.thy ===== *)
theory Outbox_Leases
  imports Outbox_Runs
begin

text \<open>
  Leases over whole runs: a lease in use keeps its message at the front, and a lease issued before
  a reconnection is never accepted again. Then the laws of the effect queue's flush and of the
  merge of State messages that the coalescing applies.
\<close>

section \<open>Leases in use\<close>

lemma leased_run:
  "outbox_ok self \<Longrightarrow> leased_front_message lease self = Some message \<Longrightarrow>
   list_all (\<lambda>l. \<not> releases_lease lease l) ls \<Longrightarrow>
   leased_front_message lease (fst (run_steps (outbox_step sd) ls self)) = Some message"
proof (induction ls arbitrary: self)
  case (Cons l ls)
  from outbox_step_law [OF Cons.prems(1), of l sd] Cons.prems
  have "outbox_ok (fst (outbox_step sd l self))"
    "leased_front_message lease (fst (outbox_step sd l self)) = Some message"
    by (auto simp: step_law_def)
  from Cons.IH [OF this] Cons.prems(3) show ?case by (simp add: run_steps_Cons)
qed simp

lemma panic_free_run:
  "outbox_ok self \<Longrightarrow> Panicked \<notin> set (snd (run_steps (outbox_step sd) ls self))"
proof (induction ls arbitrary: self)
  case (Cons l ls)
  from outbox_step_law [OF Cons.prems, of l sd] Cons.IH show ?case
    by (auto simp: step_law_def run_steps_Cons)
qed simp

section \<open>Leases of an earlier connection\<close>

text \<open>A step either leaves the lease counter alone and issues nothing, or issues the next number.\<close>

definition lease_step :: "'p ProtocolOutbox \<Rightarrow> 'p OutboxStep \<Rightarrow> 'p ProtocolOutbox \<Rightarrow> bool" where
  "lease_step self l self' \<longleftrightarrow>
     ob_next_lease self' = ob_next_lease self \<and> ob_leased_front self' \<in> {ob_leased_front self, None}
     \<or> l = DeliverFront \<and> ob_next_lease self' = ob_next_lease self + 1
       \<and> ob_leased_front self' = Some (ob_next_lease self + 1)"

lemma lease_step_keeps: "keeps self self' \<Longrightarrow> lease_step self l self'"
  by (simp add: lease_step_def keeps_def registers_eq)

lemma lease_step_law:
  assumes ok: "outbox_ok self" and room: "l = DeliverFront \<Longrightarrow> ob_next_lease self < u64_max"
  shows "lease_step self l (fst (outbox_step sd l self))"
proof (cases l)
  case DeliverFront
  then have "max (wrapping_add (ob_next_lease self) 1) 1 = ob_next_lease self + 1"
    using room by (simp add: wrapping_add_def u64_max_def)
  with DeliverFront show ?thesis
    by (auto simp: lease_step_def front_for_delivery_with_status_def Let_def split: list.split option.split)
next
  case (PushState m)
  obtain a self' where "push_connection_scoped_state sd m self = Some (a, self')" "keeps self self'"
    using push_state_keeps [OF ok] by metis
  with PushState show ?thesis by (simp add: lease_step_keeps)
next
  case (PushBack m)
  obtain a self' where "push_connection_scoped_state sd m self = Some (a, self')" "keeps self self'"
    using push_state_keeps [OF ok] by metis
  moreover have "lease_step self l (insert_reliable m Reliable self)"
    by (simp add: lease_step_def insert_reliable_def)
  ultimately show ?thesis using PushBack by (simp add: push_back_def lease_step_keeps)
next
  case (AcknowledgeFront lease)
  then show ?thesis
    by (auto simp: acknowledge_front_def lease_step_def split: list.split)
next
  case (ReleaseFront lease)
  have "registers (snd (release_front lease self)) \<in> {registers self, registers (self\<lparr>ob_leased_front := None\<rparr>)}"
    by (simp add: release_front_def Let_def entry_simps) (simp add: registers_def)
  with ReleaseFront show ?thesis by (auto simp: lease_step_def registers_eq)
next
  case BeginConnection
  then show ?thesis by (simp add: lease_step_def begin_connection [OF ok])
next
  case ActivateConnection
  then show ?thesis by (simp add: lease_step_def activate_connection_generation_def)
qed (use ok in \<open>simp_all add: lease_step_keeps push_scoped_keeps cancel_status_keeps cancel_readiness_intents_def
    cancel_connection_scoped_reliable_def retain_connection_scoped_reliable_scope_def invalidate_keeps\<close>)

definition deliveries :: "'p OutboxStep list \<Rightarrow> nat" where
  "deliveries ls = length (filter (\<lambda>l. l = DeliverFront) ls)"

lemma later_leases:
  "outbox_ok self \<Longrightarrow> ob_next_lease self + deliveries ls \<le> u64_max \<Longrightarrow> n \<le> ob_next_lease self \<Longrightarrow>
   (\<And>x. ob_leased_front self = Some x \<Longrightarrow> n < x) \<Longrightarrow>
   ob_leased_front (fst (run_steps (outbox_step sd) ls self)) = Some lease \<Longrightarrow> n < lease"
proof (induction ls arbitrary: self)
  case (Cons l ls)
  let ?self = "fst (outbox_step sd l self)"
  have step: "lease_step self l ?self"
    by (rule lease_step_law [OF Cons.prems(1)]) (use Cons.prems(2) in \<open>simp add: deliveries_def\<close>)
  have ok: "outbox_ok ?self" using outbox_step_law [OF Cons.prems(1)] by (simp add: step_law_def)
  show ?case
  proof (rule Cons.IH [OF ok])
    show "ob_next_lease ?self + deliveries ls \<le> u64_max"
      using step Cons.prems(2) by (auto simp: lease_step_def deliveries_def split: if_splits)
    show "n \<le> ob_next_lease ?self" using step Cons.prems(3) by (auto simp: lease_step_def)
    show "n < x" if "ob_leased_front ?self = Some x" for x
      using step that Cons.prems(3,4) by (auto simp: lease_step_def)
  qed (use Cons.prems(5) in \<open>simp add: run_steps_Cons\<close>)
qed simp

lemma receipt_refused:
  assumes "ob_leased_front self \<noteq> Some lease"
  shows "acknowledge_front lease self = Some (None, self)" and "release_front lease self = (False, self)"
  using assms by (simp_all add: acknowledge_front_def release_front_def)

section \<open>Flushing effects\<close>

fun accepts_all :: "('w \<Rightarrow> 'e \<Rightarrow> ('err + unit) \<times> 'w) \<Rightarrow> 'w \<Rightarrow> 'e list \<Rightarrow> 'w \<Rightarrow> bool" where
  "accepts_all deliver w [] w' \<longleftrightarrow> w = w'"
| "accepts_all deliver w (effect # es) w' \<longleftrightarrow>
     (case deliver w effect of (Inl _, _) \<Rightarrow> False | (Inr _, w1) \<Rightarrow> accepts_all deliver w1 es w')"

definition flush_law ::
  "('w \<Rightarrow> 'e \<Rightarrow> ('err + unit) \<times> 'w) \<Rightarrow> 'w \<Rightarrow> 'e list \<Rightarrow> ('err + unit) \<times> 'e list \<times> 'w \<Rightarrow> bool" where
  "flush_law deliver w es r \<longleftrightarrow>
     (case r of (result, rest, w') \<Rightarrow>
        \<exists>flushed w1. es = flushed @ rest \<and> accepts_all deliver w flushed w1 \<and>
          (case result of
             Inr _ \<Rightarrow> rest = [] \<and> w1 = w'
           | Inl err \<Rightarrow> \<exists>effect tail. rest = effect # tail \<and> deliver w1 effect = (Inl err, w')))"

lemma flush_law_Cons:
  "deliver w e = (Inr u, w1) \<Longrightarrow> flush_law deliver w1 es r \<Longrightarrow> flush_law deliver w (e # es) r"
proof -
  assume d: "deliver w e = (Inr u, w1)" and law: "flush_law deliver w1 es r"
  obtain result rest w' where r: "r = (result, rest, w')" by (cases r)
  from law obtain flushed w2 where f: "es = flushed @ rest" "accepts_all deliver w1 flushed w2"
      "case result of Inr _ \<Rightarrow> rest = [] \<and> w2 = w'
        | Inl err \<Rightarrow> \<exists>effect tail. rest = effect # tail \<and> deliver w2 effect = (Inl err, w')"
    by (auto simp: flush_law_def r)
  then show ?thesis by (auto simp: flush_law_def r d intro!: exI [of _ "e # flushed"] exI [of _ w2])
qed

lemma flush_loop_law: "flush_law deliver w es (flush_loop deliver w es)"
proof (induction deliver w es rule: flush_loop.induct)
  case (2 deliver w effect pending)
  obtain r w1 where d: "deliver w effect = (r, w1)" by (cases "deliver w effect")
  show ?case
  proof (cases r)
    case (Inl err)
    then show ?thesis by (auto simp: d flush_law_def intro!: exI [of _ "[]"])
  next
    case (Inr u)
    with 2 d flush_law_Cons [of deliver w effect u w1] show ?thesis by simp
  qed
qed (simp add: flush_law_def)

section \<open>Merging State messages\<close>

lemma merged_extra:
  assumes "bt_wf (st_extra previous)" "k \<noteq> SOROTTE_PLAYBACK_BARRIER_V1"
  shows "bt_get (st_extra (merge_pending_state_obligations sd previous latest)) k
    = opt_or (bt_get (st_extra latest) k) (bt_get (st_extra previous) k)"
  using assms(2) bt_wf_distinct [OF assms(1)]
  by (simp add: merge_pending_state_obligations_def Let_def bt_get_merge_missing bt_get_merge_barrier)

lemma merged_parts:
  "st_playstate (merge_pending_state_obligations sd previous latest)
     = merge_part (merge_playstate sd) (st_playstate previous) (st_playstate latest)"
  "st_ping (merge_pending_state_obligations sd previous latest)
     = merge_part merge_ping (st_ping previous) (st_ping latest)"
  "st_ignoring_on_the_fly (merge_pending_state_obligations sd previous latest)
     = merge_part merge_ignoring (st_ignoring_on_the_fly previous) (st_ignoring_on_the_fly latest)"
  by (simp_all add: merge_pending_state_obligations_def Let_def)

lemma bt_get_merge_observation:
  "bt_get (merge_observation sd key previous latest m) k
     = (if k = key \<and> latest = None then opt_or (map_option (to_value sd) previous) (bt_get m k) else bt_get m k)"
  by (auto simp: merge_observation_def split: option.split)

text \<open>The JSON member that the merged extension object has for an observation.\<close>

definition kept_observation :: "'p serde \<Rightarrow> 'p option \<Rightarrow> 'p option \<Rightarrow> Value option \<Rightarrow> Value option" where
  "kept_observation sd previous latest member =
     (if latest = None then opt_or (map_option (to_value sd) previous) member else member)"

lemma merged_barrier:
  assumes "playback_barrier_v1 sd previous = Inr (Some p)" "playback_barrier_v1 sd latest = Inr (Some l)"
    and "bt_get (st_extra latest) SOROTTE_PLAYBACK_BARRIER_V1 = Some (Object members)"
    and "bt_wf (st_extra previous)"
  shows "\<exists>merged. bt_get (st_extra (merge_pending_state_obligations sd previous latest)) SOROTTE_PLAYBACK_BARRIER_V1
      = Some (Object merged)
    \<and> bt_get merged ''ready'' = kept_observation sd (pb_ready p) (pb_ready l) (bt_get members ''ready'')
    \<and> bt_get merged ''started'' = kept_observation sd (pb_started p) (pb_started l) (bt_get members ''started'')
    \<and> bt_get merged ''transport''
        = kept_observation sd (pb_transport p) (pb_transport l) (bt_get members ''transport'')"
proof -
  have "playback_barrier_v1 sd (latest\<lparr>st_playstate := a, st_ping := b, st_ignoring_on_the_fly := c\<rparr>) = Inr (Some l)"
    for a b c using assms(2) by (simp add: playback_barrier_v1_def)
  then have "bt_get (st_extra (merge_pending_state_obligations sd previous latest)) SOROTTE_PLAYBACK_BARRIER_V1
      = Some (Object (merge_observation sd ''transport'' (pb_transport p) (pb_transport l)
          (merge_observation sd ''started'' (pb_started p) (pb_started l)
            (merge_observation sd ''ready'' (pb_ready p) (pb_ready l) members))))"
    using assms(1,3) bt_wf_distinct [OF assms(4)]
    by (simp add: merge_pending_state_obligations_def Let_def bt_get_merge_missing
        merge_playback_barrier_observations_def)
  then show ?thesis
    by (simp add: bt_get_merge_observation kept_observation_def)
qed

end
