(* ===== verification/Outbox_Properties.thy ===== *)
theory Outbox_Properties
  imports Outbox_Leases
begin

text \<open>
  What the client's outboxes promise: durable messages are delivered exactly once and in order
  across reconnections, the queue never panics, a leased message stays as it is, a receipt of an
  earlier connection is refused, and coalescing drops no obligation of the State it replaces.
\<close>

abbreviation outbox_run :: "'p serde \<Rightarrow> 'p OutboxStep list \<Rightarrow> 'p ProtocolOutbox \<times> 'p OutboxLog list" where
  "outbox_run sd steps \<equiv> run_steps (outbox_step sd) steps default_outbox"

abbreviation final_outbox :: "'p serde \<Rightarrow> 'p OutboxStep list \<Rightarrow> 'p ProtocolOutbox" where
  "final_outbox sd steps \<equiv> fst (outbox_run sd steps)"

text \<open>Conversions for the concrete runs below: payloads are numbers, and JSON numbers stand for them.\<close>

fun sample_number :: "Value \<Rightarrow> string + nat" where
  "sample_number (Number (PosInt n)) = Inr n"
| "sample_number _ = Inl ''expected an unsigned integer''"

definition sample_member :: "json_map \<Rightarrow> string \<Rightarrow> nat option" where
  "sample_member members key =
     (case bt_get members key of Some (Number (PosInt n)) \<Rightarrow> Some n | _ \<Rightarrow> None)"

fun sample_barrier :: "Value \<Rightarrow> string + nat PlaybackBarrierStateExtension" where
  "sample_barrier (Object members) =
     Inr \<lparr>pb_ready = sample_member members ''ready'', pb_started = sample_member members ''started'',
       pb_transport = sample_member members ''transport''\<rparr>"
| "sample_barrier _ = Inl ''expected an object''"

definition sample_serde :: "nat serde" where
  "sample_serde =
     \<lparr>from_value_u64 = sample_number, from_value_barrier_state = sample_barrier,
      from_value_barrier_set = sample_number, from_value_readiness_state = sample_number,
      from_value_readiness_set = sample_number, to_value = (\<lambda>n. Number (PosInt n))\<rparr>"

lemmas outbox_eval =
  run_steps_Cons default_outbox_def push_back_def insert_reliable_def front_for_delivery_with_status_def
  leased_front_message_def wrapping_add_def u64_max_def cancel_readiness_intents_def
  invalidate_readiness_intents_def staged_superseded_def unstaged_superseded_def mark_leased_front_def
  retain_deliveries_def emit_superseded_def emit_unstaged_transaction_superseded_def acknowledge_front_def
  front_matches_def releases_lease_def begin_connection_generation_def deliveries_def

section \<open>Durable messages\<close>

text \<open>
  C25. Durable messages are delivered exactly once and in order: for every sequence of operations
  on a new outbox, with State, playback requests, readiness intents, cancellations, reconnections,
  leases, releases and stale receipts in any order, the durable messages whose acknowledgement was
  accepted, followed by those still queued, are the durable messages pushed, in push order.
\<close>
theorem durable_messages_delivered_once_in_order:
  "delivered_messages (snd (outbox_run sd steps)) @ reliable_messages (final_outbox sd steps)
     = enqueued_messages (snd (outbox_run sd steps))"
  using outbox.fifo_run [OF default_outbox_ok, of sd steps]
  by (simp add: reliable_messages_def default_outbox_def entries_def)

text \<open>
  C26. The outbox never panics and stays well formed: after every sequence of operations the two
  queues are aligned, whatever is scoped to a connection belongs to the current one, nothing but a
  leased front is cancelled, and there is at most one live playback request, one live readiness
  intent and one live participant status report.
\<close>
theorem outbox_never_panics:
  "Panicked \<notin> set (snd (outbox_run sd steps)) \<and> outbox_ok (final_outbox sd steps)"
  using panic_free_run [OF default_outbox_ok] outbox_ok_run by blast


section \<open>Leases\<close>

text \<open>
  C28. A leased message is stable: as long as the lease is neither acknowledged nor released and
  the connection is not replaced, the message it was given for stays at the front unchanged,
  whatever is pushed, coalesced, superseded or cancelled meanwhile.
\<close>
theorem leased_message_is_stable:
  assumes "leased_front_message lease (final_outbox sd steps) = Some message"
    and "list_all (\<lambda>l. \<not> releases_lease lease l) later"
  shows "leased_front_message lease (final_outbox sd (steps @ later)) = Some message"
  using leased_run [OF outbox_ok_run assms] by (simp add: run_steps_append)

theorem leased_message_is_stable_witness:
  "leased_front_message 1 (final_outbox sample_serde
     ([PushBack (Chat 1), DeliverFront] @ [PushBack (Chat 2), CancelIntents, AcknowledgeFront 9])) = Some (Chat 1)"
  by (rule leased_message_is_stable) (simp_all add: outbox_eval)

text \<open>
  A receipt of an earlier connection is refused: a lease number issued before a reconnection
  is neither acknowledged nor released afterwards, whatever happens in between, as long as the lease
  counter does not wrap around; refusing it changes nothing.
\<close>
theorem stale_receipt_is_refused:
  assumes "lease \<le> ob_next_lease (final_outbox sd steps)"
    and "ob_next_lease (final_outbox sd steps) + deliveries later \<le> u64_max"
  shows "acknowledge_front lease (final_outbox sd (steps @ BeginConnection # later))
      = Some (None, final_outbox sd (steps @ BeginConnection # later))
    \<and> release_front lease (final_outbox sd (steps @ BeginConnection # later))
      = (False, final_outbox sd (steps @ BeginConnection # later))"
proof -
  let ?o = "begin_connection_generation sd (final_outbox sd steps)"
  note facts = begin_connection [OF outbox_ok_run, of sd sd steps]
  have run: "final_outbox sd (steps @ BeginConnection # later) = fst (run_steps (outbox_step sd) later ?o)"
    by (simp add: run_steps_append run_steps_Cons)
  have "ob_leased_front (fst (run_steps (outbox_step sd) later ?o)) \<noteq> Some lease"
    using later_leases [OF facts(1), of later lease sd lease] assms by (auto simp: facts(3,6))
  from receipt_refused [OF this] show ?thesis unfolding run by simp
qed

theorem stale_receipt_is_refused_witness:
  "acknowledge_front 1 (final_outbox sample_serde
     ([PushBack (Chat 1), DeliverFront] @ BeginConnection # [DeliverFront]))
   = Some (None, final_outbox sample_serde ([PushBack (Chat 1), DeliverFront] @ BeginConnection # [DeliverFront]))"
  by (rule conjunct1 [OF stale_receipt_is_refused]) (simp_all add: outbox_eval)

section \<open>Coalescing\<close>

text \<open>
  C30. The loop that withdraws participant status, which walks the queue backwards and removes
  entries as it goes, does what the forward definition says: a leased front is only marked, every
  other State scoped to the connection loses its status report, and one that has nothing else left
  is removed.
\<close>
theorem status_cancellation_equals_forward_definition:
  "entries (cancel_pending_participant_status_reports (final_outbox sd steps))
     = status_cancelled_entries (ob_leased_front (final_outbox sd steps) \<noteq> None) (entries (final_outbox sd steps))
   \<and> filter live_status (entries (cancel_pending_participant_status_reports (final_outbox sd steps))) = []"
  using cancel_status_entries(2) [of "final_outbox sd steps"] outbox_ok_run [of sd steps]
  by (simp add: outbox_ok_def status_cancelled_none)

text \<open>
  C31. What coalescing keeps of the State it replaces: each part of the message is there if either
  message had it. A playstate of only one message is taken over whole. Of two playstates with equal
  transport revisions the newer position, pause flag and author win, the older ones fill the gaps,
  and a seek pending in either is never lost; if the revisions differ or one cannot be decoded, the
  newer playstate stands as it is, so an old seek does not get into a new revision. Every extension but
  the playback barrier, which is merged member by member, is the newer one's, or the older one's if
  the newer message has none.
\<close>
theorem coalescing_keeps_obligations:
  assumes "bt_wf (st_extra previous)"
  shows "(st_playstate (merge_pending_state_obligations sd previous latest) = None
        \<longleftrightarrow> st_playstate previous = None \<and> st_playstate latest = None)
    \<and> (st_ping (merge_pending_state_obligations sd previous latest) = None
        \<longleftrightarrow> st_ping previous = None \<and> st_ping latest = None)
    \<and> (st_ignoring_on_the_fly (merge_pending_state_obligations sd previous latest) = None
        \<longleftrightarrow> st_ignoring_on_the_fly previous = None \<and> st_ignoring_on_the_fly latest = None)
    \<and> (\<forall>k. k \<noteq> SOROTTE_PLAYBACK_BARRIER_V1 \<longrightarrow>
        bt_get (st_extra (merge_pending_state_obligations sd previous latest)) k
          = opt_or (bt_get (st_extra latest) k) (bt_get (st_extra previous) k))
    \<and> (\<forall>p l r. st_playstate previous = Some p \<and> st_playstate latest = Some l
          \<and> transport_revision sd p = Inr r \<and> transport_revision sd l = Inr r \<longrightarrow>
        (\<exists>m. st_playstate (merge_pending_state_obligations sd previous latest) = Some m
          \<and> ps_position m = opt_or (ps_position l) (ps_position p)
          \<and> ps_paused m = opt_or (ps_paused l) (ps_paused p)
          \<and> ps_set_by m = opt_or (ps_set_by l) (ps_set_by p)
          \<and> (ps_do_seek p = Some True \<longrightarrow> ps_do_seek m = Some True)
          \<and> (ps_do_seek l = Some True \<longrightarrow> ps_do_seek m = Some True)))
    \<and> (\<forall>p l. st_playstate previous = Some p \<and> st_playstate latest = Some l
          \<and> (\<nexists>r. transport_revision sd p = Inr r \<and> transport_revision sd l = Inr r) \<longrightarrow>
        st_playstate (merge_pending_state_obligations sd previous latest) = Some l)
    \<and> (st_playstate latest = None \<longrightarrow>
        st_playstate (merge_pending_state_obligations sd previous latest) = st_playstate previous)
    \<and> (st_playstate previous = None \<longrightarrow>
        st_playstate (merge_pending_state_obligations sd previous latest) = st_playstate latest)"
proof -
  have alone: "merge_part f None y = y" "merge_part f x None = x" for f x y
    by (simp_all add: merge_part_def split: option.split)
  show ?thesis
    using merged_extra [OF assms]
    by (intro conjI)
      (auto simp: merged_parts merge_part_some merge_part_both alone merge_playstate_def split: sum.split)
qed

abbreviation seek_state :: StatePayload where
  "seek_state \<equiv> default_state_payload\<lparr>st_playstate := Some
     \<lparr>ps_position = Some (Fin 10), ps_paused = None, ps_do_seek = Some True, ps_set_by = None, ps_extra = []\<rparr>\<rparr>"

abbreviation pause_state :: StatePayload where
  "pause_state \<equiv> default_state_payload\<lparr>st_playstate := Some
     \<lparr>ps_position = None, ps_paused = Some True, ps_do_seek = None, ps_set_by = None, ps_extra = []\<rparr>\<rparr>"

theorem coalescing_keeps_obligations_witness:
  "\<exists>m. st_playstate (merge_pending_state_obligations sample_serde seek_state pause_state) = Some m
     \<and> ps_position m = Some (Fin 10) \<and> ps_paused m = Some True \<and> ps_do_seek m = Some True"
proof -
  have "bt_wf (st_extra seek_state)" by (simp add: default_state_payload_def)
  note kept = coalescing_keeps_obligations [OF this, where sd = sample_serde and latest = pause_state]
  show ?thesis
    using kept [THEN conjunct2, THEN conjunct2, THEN conjunct2, THEN conjunct2]
    by (auto simp: transport_revision_def)
qed

text \<open>
  Playback barrier observations survive coalescing: when both messages carry a decodable
  extension, the merged extension object has, for readiness, start and transport alike, the
  newer observation if there is one and else the older one.
\<close>
theorem coalescing_keeps_barrier_observations:
  assumes "playback_barrier_v1 sd previous = Inr (Some p)" "playback_barrier_v1 sd latest = Inr (Some l)"
    and "bt_get (st_extra latest) SOROTTE_PLAYBACK_BARRIER_V1 = Some (Object members)"
    and "bt_wf (st_extra previous)"
  shows "\<exists>merged. bt_get (st_extra (merge_pending_state_obligations sd previous latest)) SOROTTE_PLAYBACK_BARRIER_V1
      = Some (Object merged)
    \<and> bt_get merged ''ready'' = kept_observation sd (pb_ready p) (pb_ready l) (bt_get members ''ready'')
    \<and> bt_get merged ''started'' = kept_observation sd (pb_started p) (pb_started l) (bt_get members ''started'')
    \<and> bt_get merged ''transport''
        = kept_observation sd (pb_transport p) (pb_transport l) (bt_get members ''transport'')"
  using assms by (rule merged_barrier)

abbreviation barrier_state :: "string \<Rightarrow> nat \<Rightarrow> StatePayload" where
  "barrier_state key n \<equiv> default_state_payload\<lparr>st_extra :=
     [(SOROTTE_PLAYBACK_BARRIER_V1, Object [(key, Number (PosInt n))])]\<rparr>"

theorem coalescing_keeps_barrier_observations_witness:
  "\<exists>merged. bt_get (st_extra (merge_pending_state_obligations sample_serde
        (barrier_state ''ready'' 3) (barrier_state ''started'' 4))) SOROTTE_PLAYBACK_BARRIER_V1 = Some (Object merged)
    \<and> bt_get merged ''ready'' = Some (Number (PosInt 3)) \<and> bt_get merged ''started'' = Some (Number (PosInt 4))"
proof -
  have "playback_barrier_v1 sample_serde (barrier_state ''ready'' 3)
      = Inr (Some \<lparr>pb_ready = Some 3, pb_started = None, pb_transport = None\<rparr>)"
    "playback_barrier_v1 sample_serde (barrier_state ''started'' 4)
      = Inr (Some \<lparr>pb_ready = None, pb_started = Some 4, pb_transport = None\<rparr>)"
    "bt_get (st_extra (barrier_state ''started'' 4)) SOROTTE_PLAYBACK_BARRIER_V1
      = Some (Object [(''started'', Number (PosInt 4))])"
    "bt_wf (st_extra (barrier_state ''ready'' 3))"
    by (simp_all add: playback_barrier_v1_def decode_extension_def sample_serde_def sample_member_def bt_wf_def)
  from coalescing_keeps_barrier_observations [OF this] show ?thesis
    by (auto simp: kept_observation_def sample_serde_def)
qed

section \<open>Effects\<close>

text \<open>
  Flushing delivers in order and stops at the first failure: a prefix of the effects has been
  delivered successfully, one after the other; on success nothing is left, and on an error the
  effect that failed and all after it stay queued.
\<close>
theorem flush_stops_at_first_failure:
  "flush_law deliver w (eff_pending self)
     (fst (try_flush deliver w self), eff_pending (fst (snd (try_flush deliver w self))),
      snd (snd (try_flush deliver w self)))"
  using flush_loop_law [of deliver w "eff_pending self"] by (simp add: try_flush_def Let_def split_def)

end
