(* ===== verification/Player_Transition.thy ===== *)
theory Player_Transition
  imports Player_Api
begin

text \<open>
  The classifier of \<open>sorotte-client-core/src/player_transition.rs\<close>. It keeps the pause and play
  commands Sorotte issued in the current media and adapter scope and decides, for every logical
  pause state the player reports, whether a command owns the change, whether it is technical, or
  whether the user acted in the player. Operations on \<open>&mut self\<close> return their result and the
  new classifier; the \<open>expect\<close> of \<open>classify\<close> is the result \<open>None\<close>.
\<close>

section \<open>Commands\<close>

datatype PlayerCommandCause =
  LocalUserPlaybackControl | RemoteRoomSynchronization | AutomaticReadinessStart | ReadinessGateHold
  | RoomBufferingPolicy | SeekPreparation | DesyncCorrection | Recovery | MediaLoading
  | PlaylistTransition | TransportRefresh

datatype PlayerCommandCompletion =
  Pending | Completed f64 | TimedOut f64 | Failed f64 | Superseded f64

fun terminal_at_seconds :: "PlayerCommandCompletion \<Rightarrow> f64 option" where
  "terminal_at_seconds PlayerCommandCompletion.Pending = None"
| "terminal_at_seconds (PlayerCommandCompletion.Completed at_seconds) = Some at_seconds"
| "terminal_at_seconds (PlayerCommandCompletion.TimedOut at_seconds) = Some at_seconds"
| "terminal_at_seconds (PlayerCommandCompletion.Failed at_seconds) = Some at_seconds"
| "terminal_at_seconds (PlayerCommandCompletion.Superseded at_seconds) = Some at_seconds"

record PlayerCommandRegistration =
  pr_command_id :: PlayerCommandId
  pr_media_generation :: u64
  pr_adapter_epoch :: u64
  pr_cause :: PlayerCommandCause
  pr_desired_paused :: bool
  pr_issued_at_seconds :: f64
  pr_completion :: PlayerCommandCompletion

definition new_registration ::
  "PlayerCommandId \<Rightarrow> u64 \<Rightarrow> u64 \<Rightarrow> PlayerCommandCause \<Rightarrow> bool \<Rightarrow> f64 \<Rightarrow> PlayerCommandRegistration" where
  "new_registration command_id media_generation adapter_epoch cause desired_paused issued_at_seconds =
     \<lparr>pr_command_id = command_id, pr_media_generation = media_generation,
      pr_adapter_epoch = adapter_epoch, pr_cause = cause, pr_desired_paused = desired_paused,
      pr_issued_at_seconds = issued_at_seconds, pr_completion = PlayerCommandCompletion.Pending\<rparr>"

record PlayerTransitionClassifierConfig =
  tc_stable_confirmation_seconds :: f64
  tc_command_observation_grace_seconds :: f64
  tc_pending_command_timeout_seconds :: f64
  tc_unknown_origin_timeout_seconds :: f64

definition default_transition_config :: PlayerTransitionClassifierConfig where
  "default_transition_config =
     \<lparr>tc_stable_confirmation_seconds = round_f64 (1 / 10), tc_command_observation_grace_seconds = Fin 1,
      tc_pending_command_timeout_seconds = Fin 5, tc_unknown_origin_timeout_seconds = Fin 1\<rparr>"

section \<open>The context of an observation\<close>

datatype PlayerTransitionTechnicalReason =
  Empty | Loading | Prebuffering | Rebuffering | Seeking | Ended | Failed | CachePause
  | MediaTransition | Recovery | SeekPreparation | RoomBufferingPolicy | PlaybackBarrier
  | Synchronization

record PlayerTransitionContext =
  cx_phase :: "PlayerTransportPhase option"
  cx_paused_for_cache :: bool
  cx_seeking :: bool
  cx_media_transition_active :: bool
  cx_recovery_active :: bool
  cx_seek_preparation_active :: bool
  cx_room_buffering_policy_active :: bool
  cx_playback_barrier_active :: bool
  cx_synchronization_active :: bool

definition new_context :: "PlayerTransportPhase option \<Rightarrow> PlayerTransitionContext" where
  "new_context phase =
     \<lparr>cx_phase = phase, cx_paused_for_cache = False, cx_seeking = False,
      cx_media_transition_active = False, cx_recovery_active = False,
      cx_seek_preparation_active = False, cx_room_buffering_policy_active = False,
      cx_playback_barrier_active = False, cx_synchronization_active = False\<rparr>"

definition with_paused_for_cache :: "bool \<Rightarrow> PlayerTransitionContext \<Rightarrow> PlayerTransitionContext" where
  "with_paused_for_cache active self = self\<lparr>cx_paused_for_cache := active\<rparr>"

definition with_seeking :: "bool \<Rightarrow> PlayerTransitionContext \<Rightarrow> PlayerTransitionContext" where
  "with_seeking active self = self\<lparr>cx_seeking := active\<rparr>"

definition with_media_transition :: "bool \<Rightarrow> PlayerTransitionContext \<Rightarrow> PlayerTransitionContext" where
  "with_media_transition active self = self\<lparr>cx_media_transition_active := active\<rparr>"

definition with_recovery :: "bool \<Rightarrow> PlayerTransitionContext \<Rightarrow> PlayerTransitionContext" where
  "with_recovery active self = self\<lparr>cx_recovery_active := active\<rparr>"

definition with_seek_preparation :: "bool \<Rightarrow> PlayerTransitionContext \<Rightarrow> PlayerTransitionContext" where
  "with_seek_preparation active self = self\<lparr>cx_seek_preparation_active := active\<rparr>"

definition with_room_buffering_policy :: "bool \<Rightarrow> PlayerTransitionContext \<Rightarrow> PlayerTransitionContext" where
  "with_room_buffering_policy active self = self\<lparr>cx_room_buffering_policy_active := active\<rparr>"

definition with_playback_barrier :: "bool \<Rightarrow> PlayerTransitionContext \<Rightarrow> PlayerTransitionContext" where
  "with_playback_barrier active self = self\<lparr>cx_playback_barrier_active := active\<rparr>"

definition with_synchronization :: "bool \<Rightarrow> PlayerTransitionContext \<Rightarrow> PlayerTransitionContext" where
  "with_synchronization active self = self\<lparr>cx_synchronization_active := active\<rparr>"

fun phase_reason :: "PlayerTransportPhase option \<Rightarrow> PlayerTransitionTechnicalReason option" where
  "phase_reason (Some PlayerTransportPhase.Empty) = Some PlayerTransitionTechnicalReason.Empty"
| "phase_reason (Some PlayerTransportPhase.Loading) = Some PlayerTransitionTechnicalReason.Loading"
| "phase_reason (Some PlayerTransportPhase.Prebuffering) = Some PlayerTransitionTechnicalReason.Prebuffering"
| "phase_reason (Some PlayerTransportPhase.Rebuffering) = Some PlayerTransitionTechnicalReason.Rebuffering"
| "phase_reason (Some PlayerTransportPhase.Seeking) = Some PlayerTransitionTechnicalReason.Seeking"
| "phase_reason (Some PlayerTransportPhase.Ended) = Some PlayerTransitionTechnicalReason.Ended"
| "phase_reason (Some PlayerTransportPhase.Failed) = Some PlayerTransitionTechnicalReason.Failed"
| "phase_reason (Some PlayerTransportPhase.ReadyPaused) = None"
| "phase_reason (Some PlayerTransportPhase.Playing) = None"
| "phase_reason None = None"

definition technical_reason :: "PlayerTransitionContext \<Rightarrow> PlayerTransitionTechnicalReason option" where
  "technical_reason self =
     (if cx_paused_for_cache self then Some PlayerTransitionTechnicalReason.CachePause
      else if cx_seeking self then Some PlayerTransitionTechnicalReason.Seeking
      else if cx_media_transition_active self then Some PlayerTransitionTechnicalReason.MediaTransition
      else if cx_recovery_active self then Some PlayerTransitionTechnicalReason.Recovery
      else if cx_seek_preparation_active self then Some PlayerTransitionTechnicalReason.SeekPreparation
      else if cx_room_buffering_policy_active self
        then Some PlayerTransitionTechnicalReason.RoomBufferingPolicy
      else if cx_playback_barrier_active self then Some PlayerTransitionTechnicalReason.PlaybackBarrier
      else if cx_synchronization_active self then Some PlayerTransitionTechnicalReason.Synchronization
      else phase_reason (cx_phase self))"

definition stable_for :: "PlayerTransitionContext \<Rightarrow> bool \<Rightarrow> bool" where
  "stable_for self logical_paused \<longleftrightarrow>
     (cx_phase self = Some PlayerTransportPhase.ReadyPaused \<and> logical_paused
      \<or> cx_phase self = Some PlayerTransportPhase.Playing \<and> \<not> logical_paused)
     \<and> technical_reason self = None"

record PlayerLogicalPauseObservation =
  po_media_generation :: u64
  po_adapter_epoch :: u64
  po_observed_at_seconds :: f64
  po_logical_paused :: bool
  po_context :: PlayerTransitionContext

definition new_observation ::
  "u64 \<Rightarrow> u64 \<Rightarrow> f64 \<Rightarrow> bool \<Rightarrow> PlayerTransitionContext \<Rightarrow> PlayerLogicalPauseObservation" where
  "new_observation media_generation adapter_epoch observed_at_seconds logical_paused ctx =
     \<lparr>po_media_generation = media_generation, po_adapter_epoch = adapter_epoch,
      po_observed_at_seconds = observed_at_seconds, po_logical_paused = logical_paused,
      po_context = ctx\<rparr>"

section \<open>Classifications\<close>

datatype NativePlayerAction = Play | Pause

definition from_paused :: "bool \<Rightarrow> NativePlayerAction" where
  "from_paused paused = (if paused then NativePlayerAction.Pause else NativePlayerAction.Play)"

datatype PlayerTransitionUnknownReason =
  InitialObservation | ActiveCommandDidNotMatch | AmbiguousCommandMatch | UnstableTransitionTimedOut

datatype PlayerTransitionIgnoredReason =
  NoActiveScope | ScopeMismatch | InvalidTimestamp | NonMonotonicTimestamp

datatype PlayerTransitionClassification =
  OwnedCommand PlayerCommandId PlayerCommandCause PlayerCommandCompletion
  | Technical NativePlayerAction PlayerTransitionTechnicalReason
  | AwaitingStability NativePlayerAction f64
  | NativePlayerGesture NativePlayerAction
  | UnknownOrigin NativePlayerAction PlayerTransitionUnknownReason
  | Duplicate
  | Ignored PlayerTransitionIgnoredReason

section \<open>The state of the classifier\<close>

text \<open>The key of a registered command; the derived order compares the adapter epoch first.\<close>

datatype PlayerCommandKey = PlayerCommandKey (ck_adapter_epoch: u64) (ck_command_id: PlayerCommandId)

instantiation PlayerCommandKey :: linorder
begin

definition less_eq_PlayerCommandKey :: "PlayerCommandKey \<Rightarrow> PlayerCommandKey \<Rightarrow> bool" where
  "a \<le> b \<longleftrightarrow> ck_adapter_epoch a < ck_adapter_epoch b
     \<or> ck_adapter_epoch a = ck_adapter_epoch b \<and> ck_command_id a \<le> ck_command_id b"

definition less_PlayerCommandKey :: "PlayerCommandKey \<Rightarrow> PlayerCommandKey \<Rightarrow> bool" where
  "a < b \<longleftrightarrow> ck_adapter_epoch a < ck_adapter_epoch b
     \<or> ck_adapter_epoch a = ck_adapter_epoch b \<and> ck_command_id a < ck_command_id b"

instance
  by standard (auto simp: less_eq_PlayerCommandKey_def less_PlayerCommandKey_def PlayerCommandKey.expand)

end

record RegisteredCommand =
  rc_registration :: PlayerCommandRegistration
  rc_ownership_deadline_seconds :: "f64 option"
  rc_observation_matched :: bool

fun is_superseded :: "PlayerCommandCompletion \<Rightarrow> bool" where
  "is_superseded (PlayerCommandCompletion.Superseded _) = True"
| "is_superseded _ = False"

definition within_deadline :: "RegisteredCommand \<Rightarrow> f64 \<Rightarrow> bool" where
  "within_deadline self now =
     (case rc_ownership_deadline_seconds self of None \<Rightarrow> True | Some deadline \<Rightarrow> f64_le now deadline)"

definition matchable_at :: "RegisteredCommand \<Rightarrow> f64 \<Rightarrow> bool" where
  "matchable_at self observed_at_seconds \<longleftrightarrow>
     \<not> rc_observation_matched self
     \<and> \<not> is_superseded (pr_completion (rc_registration self))
     \<and> f64_le (pr_issued_at_seconds (rc_registration self)) observed_at_seconds
     \<and> within_deadline self observed_at_seconds"

definition active_at :: "RegisteredCommand \<Rightarrow> f64 \<Rightarrow> bool" where
  "active_at self observed_at_seconds \<longleftrightarrow>
     \<not> rc_observation_matched self
     \<and> f64_le (pr_issued_at_seconds (rc_registration self)) observed_at_seconds
     \<and> within_deadline self observed_at_seconds"

record PendingStableEdge =
  pe_logical_paused :: bool
  pe_first_observed_at_seconds :: f64

datatype CommandMatch = NoMatch | One PlayerCommandKey | Ambiguous

record PlayerTransitionClassifier =
  ct_config :: PlayerTransitionClassifierConfig
  ct_active_media_generation :: "u64 option"
  ct_active_adapter_epoch :: "u64 option"
  ct_commands :: "(PlayerCommandKey, RegisteredCommand) btree_map"
  ct_accepted_logical_paused :: "bool option"
  ct_last_observed_at_seconds :: "f64 option"
  ct_last_observed_logical_paused :: "bool option"
  ct_pending_edge :: "PendingStableEdge option"

definition normalized_nonnegative_seconds :: "f64 \<Rightarrow> f64 \<Rightarrow> f64" where
  "normalized_nonnegative_seconds seconds fallback =
     (if f64_is_finite seconds \<and> f64_le (Fin 0) seconds then seconds else fallback)"

definition valid_completion :: "PlayerCommandCompletion \<Rightarrow> f64 \<Rightarrow> bool" where
  "valid_completion completion issued_at_seconds =
     (case terminal_at_seconds completion of
        None \<Rightarrow> True
      | Some at_seconds \<Rightarrow> f64_is_finite at_seconds \<and> f64_le issued_at_seconds at_seconds)"

definition new_classifier :: "PlayerTransitionClassifierConfig \<Rightarrow> PlayerTransitionClassifier" where
  "new_classifier config =
     (let defaults = default_transition_config;
          stable_confirmation_seconds = normalized_nonnegative_seconds
            (tc_stable_confirmation_seconds config) (tc_stable_confirmation_seconds defaults);
          command_observation_grace_seconds = normalized_nonnegative_seconds
            (tc_command_observation_grace_seconds config) (tc_command_observation_grace_seconds defaults);
          pending_command_timeout_seconds = normalized_nonnegative_seconds
            (tc_pending_command_timeout_seconds config) (tc_pending_command_timeout_seconds defaults);
          unknown_origin_timeout_seconds = f64_max (normalized_nonnegative_seconds
            (tc_unknown_origin_timeout_seconds config) (tc_unknown_origin_timeout_seconds defaults))
            stable_confirmation_seconds
      in \<lparr>ct_config =
            \<lparr>tc_stable_confirmation_seconds = stable_confirmation_seconds,
             tc_command_observation_grace_seconds = command_observation_grace_seconds,
             tc_pending_command_timeout_seconds = pending_command_timeout_seconds,
             tc_unknown_origin_timeout_seconds = unknown_origin_timeout_seconds\<rparr>,
          ct_active_media_generation = None, ct_active_adapter_epoch = None, ct_commands = [],
          ct_accepted_logical_paused = None, ct_last_observed_at_seconds = None,
          ct_last_observed_logical_paused = None, ct_pending_edge = None\<rparr>)"

section \<open>Operations\<close>

definition accept_transition :: "bool \<Rightarrow> PlayerTransitionClassifier \<Rightarrow> PlayerTransitionClassifier" where
  "accept_transition logical_paused self =
     self\<lparr>ct_accepted_logical_paused := Some logical_paused, ct_pending_edge := None\<rparr>"

definition begin_scope :: "u64 \<Rightarrow> u64 \<Rightarrow> PlayerTransitionClassifier \<Rightarrow> bool \<times> PlayerTransitionClassifier" where
  "begin_scope media_generation adapter_epoch self =
     (if media_generation = 0 \<or> adapter_epoch = 0 then (False, self)
      else (True, self\<lparr>ct_active_media_generation := Some media_generation,
              ct_active_adapter_epoch := Some adapter_epoch, ct_commands := [],
              ct_accepted_logical_paused := None, ct_last_observed_at_seconds := None,
              ct_last_observed_logical_paused := None, ct_pending_edge := None\<rparr>))"

definition registration_key :: "PlayerCommandRegistration \<Rightarrow> PlayerCommandKey" where
  "registration_key registration =
     PlayerCommandKey (pr_adapter_epoch registration) (pr_command_id registration)"

definition pending_deadline :: "PlayerTransitionClassifier \<Rightarrow> PlayerCommandRegistration \<Rightarrow> f64" where
  "pending_deadline self registration =
     f64_add (pr_issued_at_seconds registration) (tc_pending_command_timeout_seconds (ct_config self))"

definition grace_deadline :: "PlayerTransitionClassifier \<Rightarrow> f64 \<Rightarrow> f64" where
  "grace_deadline self at_seconds = f64_add at_seconds (tc_command_observation_grace_seconds (ct_config self))"

definition registration_refused :: "PlayerCommandRegistration \<Rightarrow> PlayerTransitionClassifier \<Rightarrow> bool" where
  "registration_refused registration self \<longleftrightarrow>
     Some (pr_media_generation registration) \<noteq> ct_active_media_generation self
     \<or> Some (pr_adapter_epoch registration) \<noteq> ct_active_adapter_epoch self
     \<or> pr_media_generation registration = 0
     \<or> pr_adapter_epoch registration = 0
     \<or> \<not> f64_is_finite (pr_issued_at_seconds registration)
     \<or> pr_command_id registration = 0
     \<or> \<not> valid_completion (pr_completion registration) (pr_issued_at_seconds registration)
     \<or> (case terminal_at_seconds (pr_completion registration) of
          None \<Rightarrow> False
        | Some at_seconds \<Rightarrow> f64_lt (pending_deadline self registration) at_seconds)"

definition register_command ::
  "PlayerCommandRegistration \<Rightarrow> PlayerTransitionClassifier \<Rightarrow> bool \<times> PlayerTransitionClassifier" where
  "register_command registration self =
     (if registration_refused registration self then (False, self)
      else let key = registration_key registration
      in if bt_contains (ct_commands self) key then (False, self)
         else (True, self\<lparr>ct_commands := bt_insert key
           \<lparr>rc_registration = registration,
            rc_ownership_deadline_seconds =
              Some (case terminal_at_seconds (pr_completion registration) of
                 None \<Rightarrow> pending_deadline self registration
               | Some at_seconds \<Rightarrow> grace_deadline self at_seconds),
            rc_observation_matched = False\<rparr> (ct_commands self)\<rparr>))"

definition completion_refused :: "f64 \<Rightarrow> RegisteredCommand \<Rightarrow> PlayerTransitionClassifier \<Rightarrow> bool" where
  "completion_refused at_seconds command self \<longleftrightarrow>
     (let registration = rc_registration command;
          current_terminal = terminal_at_seconds (pr_completion registration)
      in \<not> f64_is_finite at_seconds
         \<or> f64_lt at_seconds (pr_issued_at_seconds registration)
         \<or> (current_terminal = None \<and> f64_lt (pending_deadline self registration) at_seconds)
         \<or> (current_terminal \<noteq> None
            \<and> (case rc_ownership_deadline_seconds command of
                 None \<Rightarrow> False | Some deadline \<Rightarrow> f64_lt deadline at_seconds))
         \<or> (case current_terminal of None \<Rightarrow> False | Some current \<Rightarrow> f64_lt at_seconds current))"

definition completed_command ::
  "PlayerCommandCompletion \<Rightarrow> f64 \<Rightarrow> PlayerTransitionClassifier \<Rightarrow> RegisteredCommand \<Rightarrow> RegisteredCommand" where
  "completed_command completion at_seconds self command =
     (let previous_terminal_at = terminal_at_seconds (pr_completion (rc_registration command));
          deadline = grace_deadline self at_seconds
      in command\<lparr>
           rc_registration := (rc_registration command)\<lparr>pr_completion := completion\<rparr>,
           rc_ownership_deadline_seconds := Some
             (if previous_terminal_at \<noteq> None
              then (case rc_ownership_deadline_seconds command of
                      None \<Rightarrow> deadline | Some current \<Rightarrow> f64_max current deadline)
              else deadline)\<rparr>)"

definition update_command_completion ::
  "u64 \<Rightarrow> PlayerCommandId \<Rightarrow> PlayerCommandCompletion \<Rightarrow> PlayerTransitionClassifier
     \<Rightarrow> bool \<times> PlayerTransitionClassifier" where
  "update_command_completion adapter_epoch command_id completion self =
     (let key = PlayerCommandKey adapter_epoch command_id
      in case bt_get (ct_commands self) key of
           None \<Rightarrow> (False, self)
         | Some command \<Rightarrow>
             (case terminal_at_seconds completion of
                None \<Rightarrow> (False, self)
              | Some at_seconds \<Rightarrow>
                  if completion_refused at_seconds command self then (False, self)
                  else (True, self\<lparr>ct_commands :=
                    bt_modify key (completed_command completion at_seconds self) (ct_commands self)\<rparr>)))"

definition supersedable :: "PlayerCommandCause \<Rightarrow> f64 \<Rightarrow> RegisteredCommand \<Rightarrow> bool" where
  "supersedable cause at_seconds command \<longleftrightarrow>
     \<not> rc_observation_matched command
     \<and> pr_cause (rc_registration command) = cause
     \<and> f64_le (pr_issued_at_seconds (rc_registration command)) at_seconds"

primrec supersede_keys ::
  "f64 \<Rightarrow> PlayerCommandKey list \<Rightarrow> nat \<times> PlayerTransitionClassifier \<Rightarrow> nat \<times> PlayerTransitionClassifier" where
  "supersede_keys at_seconds [] acc = acc"
| "supersede_keys at_seconds (key # keys) acc =
     (let (superseded, self) = acc;
          (updated, self') = update_command_completion (ck_adapter_epoch key) (ck_command_id key)
            (PlayerCommandCompletion.Superseded at_seconds) self
      in supersede_keys at_seconds keys (if updated then superseded + 1 else superseded, self'))"

definition supersede_unmatched_commands ::
  "PlayerCommandCause \<Rightarrow> f64 \<Rightarrow> PlayerTransitionClassifier \<Rightarrow> nat \<times> PlayerTransitionClassifier" where
  "supersede_unmatched_commands cause at_seconds self =
     (if \<not> f64_is_finite at_seconds then (0, self)
      else supersede_keys at_seconds
        (map fst (filter (\<lambda>(_, command). supersedable cause at_seconds command) (ct_commands self)))
        (0, self))"

definition command_registration ::
  "u64 \<Rightarrow> PlayerCommandId \<Rightarrow> PlayerTransitionClassifier \<Rightarrow> PlayerCommandRegistration option" where
  "command_registration adapter_epoch command_id self =
     map_option rc_registration (bt_get (ct_commands self) (PlayerCommandKey adapter_epoch command_id))"

section \<open>Matching an observation with a command\<close>

definition could_match :: "PlayerLogicalPauseObservation \<Rightarrow> RegisteredCommand \<Rightarrow> bool" where
  "could_match observation command \<longleftrightarrow>
     (let registration = rc_registration command
      in \<not> (pr_media_generation registration \<noteq> po_media_generation observation
            \<or> pr_adapter_epoch registration \<noteq> po_adapter_epoch observation
            \<or> pr_desired_paused registration \<noteq> po_logical_paused observation
            \<or> \<not> matchable_at command (po_observed_at_seconds observation)))"

text \<open>One iteration of the loop of \<open>matching_command\<close>, on its two variables \<open>selected\<close> and \<open>ambiguous\<close>.\<close>

definition select_command ::
  "PlayerLogicalPauseObservation \<Rightarrow> PlayerCommandKey \<times> RegisteredCommand
     \<Rightarrow> (PlayerCommandKey \<times> f64) option \<times> bool \<Rightarrow> (PlayerCommandKey \<times> f64) option \<times> bool" where
  "select_command observation entry acc =
     (let (key, command) = entry; (selected, ambiguous) = acc;
          issued_at_seconds = pr_issued_at_seconds (rc_registration command);
          newest = (Some (key, issued_at_seconds), False)
      in if \<not> could_match observation command then acc
         else case selected of
             None \<Rightarrow> newest
           | Some (_, issued_at) \<Rightarrow>
               if f64_lt issued_at_seconds issued_at then acc
               else if f64_eq issued_at_seconds issued_at then (selected, True)
               else newest)"

definition matching_command ::
  "PlayerLogicalPauseObservation \<Rightarrow> PlayerTransitionClassifier \<Rightarrow> CommandMatch" where
  "matching_command observation self =
     (let (selected, ambiguous) = fold (select_command observation) (ct_commands self) (None, False)
      in if ambiguous then Ambiguous
         else case selected of None \<Rightarrow> NoMatch | Some (key, _) \<Rightarrow> One key)"

definition has_active_unmatched_command :: "f64 \<Rightarrow> PlayerTransitionClassifier \<Rightarrow> bool" where
  "has_active_unmatched_command observed_at_seconds self =
     list_ex (\<lambda>command. active_at command observed_at_seconds) (bt_values (ct_commands self))"

section \<open>Classification\<close>

text \<open>\<open>classify\<close> from its end backwards: an observation that differs from the accepted state.\<close>

definition classify_edge ::
  "PlayerLogicalPauseObservation \<Rightarrow> PlayerTransitionClassifier
     \<Rightarrow> PlayerTransitionClassification \<times> PlayerTransitionClassifier" where
  "classify_edge observation self =
     (let paused = po_logical_paused observation;
          pending = (case ct_pending_edge self of
              Some pending \<Rightarrow>
                if pe_logical_paused pending = paused then pending
                else \<lparr>pe_logical_paused = paused,
                      pe_first_observed_at_seconds = po_observed_at_seconds observation\<rparr>
            | None \<Rightarrow> \<lparr>pe_logical_paused = paused,
                pe_first_observed_at_seconds = po_observed_at_seconds observation\<rparr>);
          self = self\<lparr>ct_pending_edge := Some pending\<rparr>;
          stable = stable_for (po_context observation) paused;
          stable_elapsed = f64_sub (po_observed_at_seconds observation) (pe_first_observed_at_seconds pending)
      in if stable \<and> f64_le (tc_stable_confirmation_seconds (ct_config self)) stable_elapsed
         then (NativePlayerGesture (from_paused paused), accept_transition paused self)
         else if f64_le (tc_unknown_origin_timeout_seconds (ct_config self)) stable_elapsed
         then (UnknownOrigin (from_paused paused) UnstableTransitionTimedOut, accept_transition paused self)
         else (AwaitingStability (from_paused paused) (pe_first_observed_at_seconds pending), self))"

text \<open>What follows when the context gives no technical reason to accept the observed state.\<close>

definition classify_untechnical ::
  "PlayerLogicalPauseObservation \<Rightarrow> PlayerTransitionClassifier
     \<Rightarrow> PlayerTransitionClassification \<times> PlayerTransitionClassifier" where
  "classify_untechnical observation self =
     (let paused = po_logical_paused observation
      in if has_active_unmatched_command (po_observed_at_seconds observation) self
         then (UnknownOrigin (from_paused paused) ActiveCommandDidNotMatch, accept_transition paused self)
         else case ct_accepted_logical_paused self of
             None \<Rightarrow> (UnknownOrigin (from_paused paused) InitialObservation, accept_transition paused self)
           | Some accepted \<Rightarrow>
               if paused = accepted then (Duplicate, self\<lparr>ct_pending_edge := None\<rparr>)
               else classify_edge observation self)"

definition classify_unowned ::
  "PlayerLogicalPauseObservation \<Rightarrow> PlayerTransitionClassifier
     \<Rightarrow> PlayerTransitionClassification \<times> PlayerTransitionClassifier" where
  "classify_unowned observation self =
     (let paused = po_logical_paused observation
      in case technical_reason (po_context observation) of
           None \<Rightarrow> classify_untechnical observation self
         | Some reason \<Rightarrow>
             if reason \<noteq> PlayerTransitionTechnicalReason.PlaybackBarrier \<or> paused
             then (if ct_accepted_logical_paused self = Some paused \<and> ct_pending_edge self = None
                   then (Duplicate, self)
                   else (Technical (from_paused paused) reason, accept_transition paused self))
             else classify_untechnical observation self)"

definition classify_observed ::
  "PlayerLogicalPauseObservation \<Rightarrow> PlayerTransitionClassifier
     \<Rightarrow> (PlayerTransitionClassification \<times> PlayerTransitionClassifier) option" where
  "classify_observed observation self =
     (let paused = po_logical_paused observation;
          self = self\<lparr>ct_last_observed_at_seconds := Some (po_observed_at_seconds observation),
                   ct_last_observed_logical_paused := Some paused\<rparr>
      in case matching_command observation self of
           One key \<Rightarrow>
             (case bt_get (ct_commands self) key of
                None \<Rightarrow> None
              | Some command \<Rightarrow>
                  let self = self\<lparr>ct_commands := bt_modify key
                               (\<lambda>command. command\<lparr>rc_observation_matched := True\<rparr>) (ct_commands self)\<rparr>;
                      registration = rc_registration command
                  in Some (OwnedCommand (pr_command_id registration) (pr_cause registration)
                             (pr_completion registration), accept_transition paused self))
         | Ambiguous \<Rightarrow>
             Some (UnknownOrigin (from_paused paused) AmbiguousCommandMatch, accept_transition paused self)
         | NoMatch \<Rightarrow> Some (classify_unowned observation self))"

text \<open>The answer to an observation that is not taken: the early returns of \<open>classify\<close>.\<close>

definition refused_observation ::
  "PlayerLogicalPauseObservation \<Rightarrow> PlayerTransitionClassifier \<Rightarrow> PlayerTransitionClassification option" where
  "refused_observation observation self =
     (let at_seconds = po_observed_at_seconds observation
      in if ct_active_media_generation self = None \<or> ct_active_adapter_epoch self = None
         then Some (Ignored NoActiveScope)
         else if ct_active_media_generation self \<noteq> Some (po_media_generation observation)
           \<or> ct_active_adapter_epoch self \<noteq> Some (po_adapter_epoch observation)
         then Some (Ignored ScopeMismatch)
         else if \<not> f64_is_finite at_seconds then Some (Ignored InvalidTimestamp)
         else case ct_last_observed_at_seconds self of
             None \<Rightarrow> None
           | Some last_observed_at_seconds \<Rightarrow>
               if f64_le at_seconds last_observed_at_seconds
               then (if f64_eq at_seconds last_observed_at_seconds
                       \<and> ct_last_observed_logical_paused self = Some (po_logical_paused observation)
                     then Some Duplicate else Some (Ignored NonMonotonicTimestamp))
               else None)"

definition classify ::
  "PlayerLogicalPauseObservation \<Rightarrow> PlayerTransitionClassifier
     \<Rightarrow> (PlayerTransitionClassification \<times> PlayerTransitionClassifier) option" where
  "classify observation self =
     (case refused_observation observation self of
        Some classification \<Rightarrow> Some (classification, self)
      | None \<Rightarrow> classify_observed observation self)"

section \<open>Pending edges, time and pruning\<close>

definition confirm_pending_native_play ::
  "PlayerTransitionClassifier \<Rightarrow> PlayerTransitionClassification option \<times> PlayerTransitionClassifier" where
  "confirm_pending_native_play self =
     (case ct_pending_edge self of
        None \<Rightarrow> (None, self)
      | Some pending \<Rightarrow>
          if pe_logical_paused pending \<noteq> False \<or> ct_last_observed_logical_paused self \<noteq> Some False
          then (None, self)
          else (Some (NativePlayerGesture NativePlayerAction.Play), accept_transition False self))"

definition pending_native_play_first_observed_at_seconds :: "PlayerTransitionClassifier \<Rightarrow> f64 option" where
  "pending_native_play_first_observed_at_seconds self =
     (case ct_pending_edge self of
        None \<Rightarrow> None
      | Some pending \<Rightarrow>
          if \<not> pe_logical_paused pending then Some (pe_first_observed_at_seconds pending) else None)"

definition pending_native_pause_first_observed_at_seconds :: "PlayerTransitionClassifier \<Rightarrow> f64 option" where
  "pending_native_pause_first_observed_at_seconds self =
     (case ct_pending_edge self of
        None \<Rightarrow> None
      | Some pending \<Rightarrow>
          if pe_logical_paused pending then Some (pe_first_observed_at_seconds pending) else None)"

definition invalidate_pending_native_pause ::
  "PlayerTransitionClassifier \<Rightarrow> bool \<times> PlayerTransitionClassifier" where
  "invalidate_pending_native_pause self =
     (if pending_native_pause_first_observed_at_seconds self = None then (False, self)
      else (True, accept_transition True self))"

definition invalidate_pending_native_play ::
  "PlayerTransitionClassifier \<Rightarrow> bool \<times> PlayerTransitionClassifier" where
  "invalidate_pending_native_play self =
     (case ct_pending_edge self of
        None \<Rightarrow> (False, self)
      | Some pending \<Rightarrow>
          if pe_logical_paused pending then (False, self) else (True, accept_transition False self))"

definition tick ::
  "f64 \<Rightarrow> PlayerTransitionClassifier \<Rightarrow> PlayerTransitionClassification option \<times> PlayerTransitionClassifier" where
  "tick now_seconds self =
     (if \<not> f64_is_finite now_seconds then (None, self)
      else case ct_pending_edge self of
          None \<Rightarrow> (None, self)
        | Some pending \<Rightarrow>
            if f64_lt (f64_sub now_seconds (pe_first_observed_at_seconds pending))
                 (tc_unknown_origin_timeout_seconds (ct_config self))
            then (None, self)
            else (Some (UnknownOrigin (from_paused (pe_logical_paused pending)) UnstableTransitionTimedOut),
                  accept_transition (pe_logical_paused pending) self))"

definition prune_commands :: "f64 \<Rightarrow> PlayerTransitionClassifier \<Rightarrow> PlayerTransitionClassifier" where
  "prune_commands now_seconds self =
     (if \<not> f64_is_finite now_seconds then self
      else self\<lparr>ct_commands := filter (\<lambda>(_, command). within_deadline command now_seconds) (ct_commands self)\<rparr>)"

end
