(* ===== verification/Player_Transition_Runs.thy ===== *)
theory Player_Transition_Runs
  imports Player_Transition Runs
begin

text \<open>
  Sequences of operations on the classifier, the invariant they keep, and three laws over them: the
  loop of \<open>matching_command\<close> finds the single latest candidate, a registration owns at most one
  observation, and a pending edge is an uninterrupted tail of the observations of its scope.
\<close>

section \<open>The single latest candidate\<close>

definition latest :: "('a \<Rightarrow> f64) \<Rightarrow> 'a list \<Rightarrow> 'a list" where
  "latest time xs = filter (\<lambda>x. list_all (\<lambda>y. f64_le (time y) (time x)) xs) xs"

abbreviation issued_at :: "PlayerCommandKey \<times> RegisteredCommand \<Rightarrow> f64" where
  "issued_at entry \<equiv> pr_issued_at_seconds (rc_registration (snd entry))"

definition candidates ::
  "PlayerLogicalPauseObservation \<Rightarrow> PlayerTransitionClassifier \<Rightarrow> (PlayerCommandKey \<times> RegisteredCommand) list" where
  "candidates observation self = filter (\<lambda>(_, command). could_match observation command) (ct_commands self)"

definition single_latest :: "(PlayerCommandKey \<times> RegisteredCommand) list \<Rightarrow> CommandMatch" where
  "single_latest entries =
     (case latest issued_at entries of [] \<Rightarrow> NoMatch | [entry] \<Rightarrow> One (fst entry) | _ \<Rightarrow> Ambiguous)"

lemma latest_Nil [simp]: "latest time [] = []"
  by (simp add: latest_def)

lemma latest_time:
  "x \<in> set (latest time xs) \<Longrightarrow> x \<in> set xs \<and> (\<forall>y\<in>set xs. f64_le (time y) (time x))"
  by (simp add: latest_def list_all_iff)

lemma latest_snoc_below:
  assumes "x \<in> set (latest time xs)" "f64_lt (time y) (time x)"
  shows "latest time (xs @ [y]) = latest time xs"
proof -
  have "f64_le (time y) (time z)" if "\<forall>w\<in>set xs. f64_le (time w) (time z)" for z
    using that latest_time [OF assms(1)] f64_less_imp_le [OF assms(2)] f64_le_trans by blast
  then show ?thesis
    using latest_time [OF assms(1)] f64_less_imp_le [OF assms(2)]
    by (auto simp: latest_def list_all_iff intro!: filter_cong)
qed

lemma latest_snoc_same:
  assumes "x \<in> set (latest time xs)" "time y = time x" "time x \<noteq> NaN"
  shows "latest time (xs @ [y]) = latest time xs @ [y]"
proof -
  have "f64_le (time y) (time z)" if "\<forall>w\<in>set xs. f64_le (time w) (time z)" for z
    using that assms(2) latest_time [OF assms(1)] by auto
  then show ?thesis
    using latest_time [OF assms(1)] assms(2,3) by (auto simp: latest_def list_all_iff intro!: filter_cong)
qed

lemma latest_snoc_above:
  assumes "x \<in> set (latest time xs)" "f64_lt (time x) (time y)"
  shows "latest time (xs @ [y]) = [y]"
proof -
  have "f64_lt (time z) (time y)" if "z \<in> set xs" for z
    using latest_time [OF assms(1)] that f64_le_less_trans [OF _ assms(2)] by blast
  moreover have "time y \<noteq> NaN"
    using assms(2) by (cases "time x"; cases "time y") auto
  ultimately show ?thesis
    by (auto simp: latest_def list_all_iff filter_empty_conv dest: f64_less_imp_le)
qed

text \<open>What the loop variables hold after a prefix of the commands.\<close>

definition selection :: "(PlayerCommandKey \<times> RegisteredCommand) list \<Rightarrow> (PlayerCommandKey \<times> f64) option \<times> bool" where
  "selection entries =
     (case latest issued_at entries of
        [] \<Rightarrow> (None, False)
      | entry # others \<Rightarrow> (Some (fst entry, issued_at entry), others \<noteq> []))"

lemma latest_nonempty:
  assumes "list_all (\<lambda>x. f64_is_finite (time x)) xs" "xs \<noteq> []"
  shows "latest time xs \<noteq> []"
  using assms
proof (induction xs rule: rev_induct)
  case (snoc y xs)
  show ?case
  proof (cases "xs = []")
    case True
    with snoc.prems show ?thesis by (simp add: latest_def f64_finite_not_NaN)
  next
    case False
    with snoc obtain x where x: "x \<in> set (latest time xs)"
      by (cases "latest time xs") auto
    with snoc.prems obtain a b where "time x = Fin a" "time y = Fin b"
      using latest_time [OF x] by (auto simp: list_all_iff f64_is_finite_iff)
    then consider "f64_lt (time y) (time x)" | "time y = time x" "time x \<noteq> NaN" | "f64_lt (time x) (time y)"
      by fastforce
    then show ?thesis
      using latest_snoc_below [OF x] latest_snoc_same [OF x] latest_snoc_above [OF x] x by cases auto
  qed
qed simp

lemma selection_snoc:
  assumes finite: "list_all (\<lambda>x. f64_is_finite (issued_at x)) (xs @ [y])"
    and match: "could_match observation (snd y)"
  shows "select_command observation y (selection xs) = selection (xs @ [y])"
proof (cases "latest issued_at xs")
  case Nil
  with finite latest_nonempty [of issued_at xs] have "xs = []" by auto
  with finite match show ?thesis
    by (cases y) (simp add: selection_def select_command_def latest_def f64_finite_not_NaN)
next
  case (Cons x others)
  then have x: "x \<in> set (latest issued_at xs)" by simp
  with finite obtain a b where times: "issued_at x = Fin a" "issued_at y = Fin b"
    using latest_time [OF x] by (auto simp: list_all_iff f64_is_finite_iff)
  consider "b < a" | "b = a" | "a < b" by linarith
  then show ?thesis
    using latest_snoc_below [OF x, of y] latest_snoc_same [OF x, of y] latest_snoc_above [OF x, of y]
      times match Cons
    by cases (cases y, auto simp: selection_def select_command_def f64_eq_def)+
qed

lemma fold_selection:
  assumes "list_all (\<lambda>x. f64_is_finite (issued_at x)) entries"
  shows "fold (select_command observation) entries (None, False)
     = selection (filter (\<lambda>(_, command). could_match observation command) entries)"
  using assms
proof (induction entries rule: rev_induct)
  case Nil
  show ?case by (simp add: selection_def)
next
  case (snoc y xs)
  have "select_command observation y acc = acc" if "\<not> could_match observation (snd y)" for acc
    using that by (simp add: select_command_def split_def)
  with snoc show ?case
    by (auto simp: split_def list_all_iff intro!: selection_snoc)
qed

lemma matching_command_latest:
  assumes "list_all (\<lambda>x. f64_is_finite (issued_at x)) (ct_commands self)"
  shows "matching_command observation self = single_latest (candidates observation self)"
  using fold_selection [OF assms, of observation]
  by (auto simp: matching_command_def single_latest_def candidates_def selection_def split: list.splits)

section \<open>The invariant\<close>

definition config_ok :: "PlayerTransitionClassifierConfig \<Rightarrow> bool" where
  "config_ok config \<longleftrightarrow>
     list_all (\<lambda>seconds. f64_is_finite seconds \<and> f64_le (Fin 0) seconds)
       [tc_stable_confirmation_seconds config, tc_command_observation_grace_seconds config,
        tc_pending_command_timeout_seconds config, tc_unknown_origin_timeout_seconds config]
     \<and> f64_le (tc_stable_confirmation_seconds config) (tc_unknown_origin_timeout_seconds config)"

text \<open>
  A registered command belongs to the current scope, and a deadline bounds its ownership: the
  pending timeout until it reports a terminal result, at least the grace window after that result.
\<close>

definition command_ok :: "PlayerTransitionClassifier \<Rightarrow> PlayerCommandKey \<Rightarrow> RegisteredCommand \<Rightarrow> bool" where
  "command_ok self key command \<longleftrightarrow>
     (let registration = rc_registration command
      in key = registration_key registration
         \<and> ct_active_media_generation self = Some (pr_media_generation registration)
         \<and> ct_active_adapter_epoch self = Some (pr_adapter_epoch registration)
         \<and> f64_is_finite (pr_issued_at_seconds registration)
         \<and> valid_completion (pr_completion registration) (pr_issued_at_seconds registration)
         \<and> (case (rc_ownership_deadline_seconds command, terminal_at_seconds (pr_completion registration)) of
              (None, _) \<Rightarrow> False
            | (Some deadline, None) \<Rightarrow> deadline = pending_deadline self registration
            | (Some deadline, Some at_seconds) \<Rightarrow> f64_le (grace_deadline self at_seconds) deadline))"

definition registry_ok :: "PlayerTransitionClassifier \<Rightarrow> bool" where
  "registry_ok self \<longleftrightarrow>
     bt_wf (ct_commands self) \<and> list_all (\<lambda>(key, command). command_ok self key command) (ct_commands self)"

definition edge_ok :: "PlayerTransitionClassifier \<Rightarrow> bool" where
  "edge_ok self \<longleftrightarrow>
     (case ct_pending_edge self of
        None \<Rightarrow> True
      | Some edge \<Rightarrow>
          ct_accepted_logical_paused self = Some (\<not> pe_logical_paused edge)
          \<and> ct_last_observed_logical_paused self = Some (pe_logical_paused edge)
          \<and> (case ct_last_observed_at_seconds self of
               None \<Rightarrow> False | Some at_seconds \<Rightarrow> f64_le (pe_first_observed_at_seconds edge) at_seconds))"

definition classifier_ok :: "PlayerTransitionClassifier \<Rightarrow> bool" where
  "classifier_ok self \<longleftrightarrow> config_ok (ct_config self) \<and> registry_ok self \<and> edge_ok self"

lemma registry_ok_iff:
  "registry_ok self \<longleftrightarrow> bt_wf (ct_commands self)
     \<and> (\<forall>key command. bt_get (ct_commands self) key = Some command \<longrightarrow> command_ok self key command)"
  by (auto simp: registry_ok_def list_all_iff bt_entries_iff)

definition scope_of :: "PlayerTransitionClassifier \<Rightarrow> PlayerTransitionClassifierConfig \<times> u64 option \<times> u64 option" where
  "scope_of self = (ct_config self, ct_active_media_generation self, ct_active_adapter_epoch self)"

lemma command_ok_cong: "scope_of a = scope_of b \<Longrightarrow> command_ok a = command_ok b"
  by (intro ext) (simp add: scope_of_def command_ok_def pending_deadline_def grace_deadline_def Let_def split: option.split)

lemma registry_ok_cong:
  "scope_of a = scope_of b \<Longrightarrow> ct_commands a = ct_commands b \<Longrightarrow> registry_ok a = registry_ok b"
  using command_ok_cong [of a b] by (simp add: registry_ok_def)

lemma rounded_seconds: "round_f64 0 = Fin 0" "round_f64 (1 / 2) = Fin (1 / 2)"
  "round_f64 (1 / 10) = Fin (3602879701896397 / 36028797018963968)"
proof -
  have "quotient_of (1 / 2) = (1, 2)" "quotient_of (1 / 10) = (1, 10)"
    by code_simp+
  then have "binary_exponent (1 / 2) = - 1" "binary_exponent (1 / 10) = - 4"
    by (simp_all add: binary_exponent_def bit_length.simps pow2_def)
  moreover have "\<lfloor>36028797018963968 / 5 :: rat\<rfloor> = 7205759403792793"
    by (simp add: floor_eq_iff)
  ultimately show "round_f64 0 = Fin 0" "round_f64 (1 / 2) = Fin (1 / 2)"
    "round_f64 (1 / 10) = Fin (3602879701896397 / 36028797018963968)"
    by (simp_all add: round_f64_def round_half_even_def Let_def pow2_def)
qed

lemma config_ok_new: "config_ok (ct_config (new_classifier config))"
proof -
  have normal: "\<exists>r\<ge>0. normalized_nonnegative_seconds s (Fin d) = Fin r" if "0 \<le> d" for s d
    using that by (cases s) (auto simp: normalized_nonnegative_seconds_def)
  obtain a where "0 \<le> a"
    "normalized_nonnegative_seconds (tc_stable_confirmation_seconds config) (round_f64 (1 / 10)) = Fin a"
    using normal [of "3602879701896397 / 36028797018963968" "tc_stable_confirmation_seconds config"]
    by (auto simp: rounded_seconds)
  moreover obtain b where "0 \<le> b"
    "normalized_nonnegative_seconds (tc_command_observation_grace_seconds config) (Fin 1) = Fin b"
    using normal [of 1 "tc_command_observation_grace_seconds config"] by auto
  moreover obtain c where "0 \<le> c"
    "normalized_nonnegative_seconds (tc_pending_command_timeout_seconds config) (Fin 5) = Fin c"
    using normal [of 5 "tc_pending_command_timeout_seconds config"] by auto
  moreover obtain d where "0 \<le> d"
    "normalized_nonnegative_seconds (tc_unknown_origin_timeout_seconds config) (Fin 1) = Fin d"
    using normal [of 1 "tc_unknown_origin_timeout_seconds config"] by auto
  ultimately show ?thesis
    by (auto simp: new_classifier_def default_transition_config_def Let_def config_ok_def f64_max_def)
qed

lemma classifier_ok_new: "classifier_ok (new_classifier config)"
  using config_ok_new [of config]
  by (simp add: classifier_ok_def) (simp add: new_classifier_def Let_def registry_ok_def edge_ok_def)

section \<open>Operations on the registry keep the invariant\<close>

lemma seconds_not_NaN:
  "config_ok (ct_config self) \<Longrightarrow> f64_is_finite s \<Longrightarrow> grace_deadline self s \<noteq> NaN"
  by (simp add: config_ok_def grace_deadline_def f64_add_finite_not_NaN)

lemma begin_scope_ok: "classifier_ok self \<Longrightarrow> classifier_ok (snd (begin_scope generation epoch self))"
  by (cases "generation = 0 \<or> epoch = 0")
    (auto simp: classifier_ok_def begin_scope_def registry_ok_def edge_ok_def)

lemma edge_ok_commands [simp]: "edge_ok (self\<lparr>ct_commands := commands\<rparr>) = edge_ok self"
  by (simp add: edge_ok_def split: option.split)

lemma classifier_ok_commands:
  assumes "classifier_ok self" "bt_wf commands"
    and "\<And>key command. bt_get commands key = Some command \<Longrightarrow> command_ok self key command"
  shows "classifier_ok (self\<lparr>ct_commands := commands\<rparr>)"
  using assms command_ok_cong [of "self\<lparr>ct_commands := commands\<rparr>" self]
  by (simp add: classifier_ok_def registry_ok_iff scope_of_def)

lemma classifier_ok_command:
  "classifier_ok self \<Longrightarrow> bt_get (ct_commands self) key = Some command \<Longrightarrow> command_ok self key command"
  by (simp add: classifier_ok_def registry_ok_iff)

lemma classifier_ok_wf: "classifier_ok self \<Longrightarrow> bt_wf (ct_commands self)"
  by (simp add: classifier_ok_def registry_ok_iff)

lemma register_command_ok:
  assumes ok: "classifier_ok self"
  shows "classifier_ok (snd (register_command registration self))"
proof -
  define command where "command = \<lparr>rc_registration = registration,
    rc_ownership_deadline_seconds = Some (case terminal_at_seconds (pr_completion registration) of
        None \<Rightarrow> pending_deadline self registration | Some at_seconds \<Rightarrow> grace_deadline self at_seconds),
    rc_observation_matched = False\<rparr>"
  have "command_ok self (registration_key registration) command"
    if "\<not> registration_refused registration self"
    using that ok seconds_not_NaN [of self]
    by (auto simp: registration_refused_def command_ok_def command_def valid_completion_def
        classifier_ok_def split: option.splits)
  then show ?thesis
    using ok classifier_ok_wf [OF ok] classifier_ok_command [OF ok]
    by (auto simp: register_command_def Let_def simp flip: command_def intro!: classifier_ok_commands
        split: if_splits)
qed

lemma completed_command_ok:
  assumes "classifier_ok self" "command_ok self key command"
    and "terminal_at_seconds completion = Some at_seconds" "\<not> completion_refused at_seconds command self"
  shows "command_ok self key (completed_command completion at_seconds self command)"
proof -
  have "grace_deadline self at_seconds \<noteq> NaN"
    using assms by (auto simp: completion_refused_def Let_def classifier_ok_def seconds_not_NaN)
  moreover have "f64_le (pr_issued_at_seconds (rc_registration command)) at_seconds"
    using assms(2,4) f64_not_le [of "pr_issued_at_seconds (rc_registration command)" at_seconds]
    by (auto simp: completion_refused_def command_ok_def Let_def f64_finite_not_NaN)
  ultimately show ?thesis
    using assms(2,3,4)
    by (auto simp: command_ok_def completed_command_def completion_refused_def Let_def valid_completion_def
        registration_key_def f64_max_ge split: option.splits)
qed

lemma update_command_completion_ok:
  assumes ok: "classifier_ok self"
  shows "classifier_ok (snd (update_command_completion epoch command_id completion self))"
  using classifier_ok_wf [OF ok] classifier_ok_command [OF ok] completed_command_ok [OF ok] ok
  by (auto simp: update_command_completion_def Let_def split: option.splits if_splits
      intro!: classifier_ok_commands)

lemma supersede_keys_ok:
  "classifier_ok (snd acc) \<Longrightarrow> classifier_ok (snd (supersede_keys at_seconds keys acc))"
  by (induction keys arbitrary: acc)
    (simp_all add: split_def Let_def update_command_completion_ok)

lemma supersede_unmatched_commands_ok:
  "classifier_ok self \<Longrightarrow> classifier_ok (snd (supersede_unmatched_commands cause at_seconds self))"
  by (simp add: supersede_unmatched_commands_def supersede_keys_ok)

lemma prune_commands_ok: "classifier_ok self \<Longrightarrow> classifier_ok (prune_commands now self)"
  using classifier_ok_wf [of self] classifier_ok_command [of self]
  by (auto simp: prune_commands_def bt_get_filter bt_wf_filter intro!: classifier_ok_commands)

section \<open>What an observation changes\<close>

definition marked_matched :: "PlayerCommandKey \<Rightarrow> PlayerTransitionClassifier \<Rightarrow> (PlayerCommandKey, RegisteredCommand) btree_map" where
  "marked_matched key self =
     bt_modify key (\<lambda>command. command\<lparr>rc_observation_matched := True\<rparr>) (ct_commands self)"

fun is_owned :: "PlayerTransitionClassification \<Rightarrow> bool" where
  "is_owned (OwnedCommand _ _ _) = True"
| "is_owned _ = False"

fun is_ignored :: "PlayerTransitionClassification \<Rightarrow> bool" where
  "is_ignored (Ignored _) = True"
| "is_ignored _ = False"

text \<open>An observation that is taken either settles the edge or leaves one towards its own state pending.\<close>

definition edge_follows ::
  "PlayerLogicalPauseObservation \<Rightarrow> PlayerTransitionClassifier \<Rightarrow> PlayerTransitionClassifier \<Rightarrow> bool" where
  "edge_follows observation self self' \<longleftrightarrow>
     (let paused = po_logical_paused observation; at_seconds = po_observed_at_seconds observation
      in ct_last_observed_at_seconds self' = Some at_seconds
         \<and> ct_last_observed_logical_paused self' = Some paused
         \<and> (case ct_pending_edge self' of
              None \<Rightarrow> ct_accepted_logical_paused self' = Some paused
            | Some edge \<Rightarrow>
                ct_accepted_logical_paused self' = Some (\<not> paused)
                \<and> ct_accepted_logical_paused self = Some (\<not> paused)
                \<and> pe_logical_paused edge = paused
                \<and> (ct_pending_edge self = Some edge \<or> pe_first_observed_at_seconds edge = at_seconds)))"

lemma scope_of_updates [simp]:
  "scope_of (accept_transition p self) = scope_of self" "ct_commands (accept_transition p self) = ct_commands self"
  "scope_of (self\<lparr>ct_pending_edge := e\<rparr>) = scope_of self"
  "scope_of (self\<lparr>ct_commands := m\<rparr>) = scope_of self"
  "scope_of (self\<lparr>ct_last_observed_at_seconds := t, ct_last_observed_logical_paused := q\<rparr>) = scope_of self"
  by (simp_all add: scope_of_def accept_transition_def)

lemma edge_follows_accept:
  "ct_last_observed_at_seconds self' = Some (po_observed_at_seconds observation) \<Longrightarrow>
   ct_last_observed_logical_paused self' = Some (po_logical_paused observation) \<Longrightarrow>
   edge_follows observation self (accept_transition (po_logical_paused observation) self')"
  by (simp add: edge_follows_def accept_transition_def)

lemma classify_edge_effect:
  assumes "classify_edge observation self = (c, self')"
    and "ct_last_observed_at_seconds self = Some (po_observed_at_seconds observation)"
    and "ct_last_observed_logical_paused self = Some (po_logical_paused observation)"
    and "ct_accepted_logical_paused self = Some (\<not> po_logical_paused observation)"
  shows "scope_of self' = scope_of self \<and> ct_commands self' = ct_commands self
    \<and> edge_follows observation self self' \<and> \<not> is_owned c \<and> \<not> is_ignored c"
proof -
  define edge where "edge = (case ct_pending_edge self of
      Some pending \<Rightarrow>
        if pe_logical_paused pending = po_logical_paused observation then pending
        else \<lparr>pe_logical_paused = po_logical_paused observation,
              pe_first_observed_at_seconds = po_observed_at_seconds observation\<rparr>
    | None \<Rightarrow> \<lparr>pe_logical_paused = po_logical_paused observation,
        pe_first_observed_at_seconds = po_observed_at_seconds observation\<rparr>)"
  have edge: "pe_logical_paused edge = po_logical_paused observation"
    "ct_pending_edge self = Some edge \<or> pe_first_observed_at_seconds edge = po_observed_at_seconds observation"
    by (simp_all add: edge_def split: option.splits)
  from assms(1) have result:
    "self' = accept_transition (po_logical_paused observation) (self\<lparr>ct_pending_edge := Some edge\<rparr>)
     \<or> self' = self\<lparr>ct_pending_edge := Some edge\<rparr>" "\<not> is_owned c \<and> \<not> is_ignored c"
    by (simp_all add: classify_edge_def Let_def flip: edge_def split: if_splits) auto
  have "edge_follows observation self (self\<lparr>ct_pending_edge := Some edge\<rparr>)"
    using assms(2-4) edge by (simp add: edge_follows_def)
  moreover have "edge_follows observation self
      (accept_transition (po_logical_paused observation) (self\<lparr>ct_pending_edge := Some edge\<rparr>))"
    by (rule edge_follows_accept) (simp_all add: assms)
  ultimately show ?thesis using result by auto
qed

lemma classify_untechnical_effect:
  assumes "classify_untechnical observation self = (c, self')"
    and "ct_last_observed_at_seconds self = Some (po_observed_at_seconds observation)"
    and "ct_last_observed_logical_paused self = Some (po_logical_paused observation)"
  shows "scope_of self' = scope_of self \<and> ct_commands self' = ct_commands self
    \<and> edge_follows observation self self' \<and> \<not> is_owned c \<and> \<not> is_ignored c"
proof (cases "ct_accepted_logical_paused self")
  case None
  with assms(1) edge_follows_accept [OF assms(2,3), of self] show ?thesis
    by (auto simp: classify_untechnical_def Let_def split: if_splits)
next
  case (Some accepted)
  have "edge_follows observation self (self\<lparr>ct_pending_edge := None\<rparr>)" if "po_logical_paused observation = accepted"
    using assms(2,3) Some that by (simp add: edge_follows_def)
  with Some assms(1) edge_follows_accept [OF assms(2,3), of self]
    classify_edge_effect [OF _ assms(2,3), of c self'] show ?thesis
    by (auto simp: classify_untechnical_def Let_def split: if_splits)
qed

lemma classify_unowned_effect:
  assumes "classify_unowned observation self = (c, self')"
    and "ct_last_observed_at_seconds self = Some (po_observed_at_seconds observation)"
    and "ct_last_observed_logical_paused self = Some (po_logical_paused observation)"
  shows "scope_of self' = scope_of self \<and> ct_commands self' = ct_commands self
    \<and> edge_follows observation self self' \<and> \<not> is_owned c \<and> \<not> is_ignored c"
proof (cases "classify_untechnical observation self = (c, self')")
  case True
  from classify_untechnical_effect [OF this assms(2,3)] show ?thesis .
next
  case False
  have "edge_follows observation self self"
    if "ct_accepted_logical_paused self = Some (po_logical_paused observation)" "ct_pending_edge self = None"
    using assms(2,3) that by (simp add: edge_follows_def)
  with False assms(1) edge_follows_accept [OF assms(2,3), of self] show ?thesis
    by (auto simp: classify_unowned_def Let_def split: if_splits option.splits)
qed

lemma single_latest_One: "single_latest entries = One key \<Longrightarrow> \<exists>command. (key, command) \<in> set entries"
  using latest_time [of _ issued_at entries]
  by (fastforce simp: single_latest_def split: list.splits)

lemma registry_finite: "registry_ok self \<Longrightarrow> list_all (\<lambda>x. f64_is_finite (issued_at x)) (ct_commands self)"
  by (auto simp: registry_ok_def list_all_iff command_ok_def Let_def)

lemma matched_command:
  assumes "registry_ok self" "matching_command observation self = One key"
  obtains command where "bt_get (ct_commands self) key = Some command" "could_match observation command"
proof -
  have "single_latest (candidates observation self) = One key"
    using matching_command_latest [OF registry_finite] assms by metis
  then obtain command where "(key, command) \<in> set (candidates observation self)"
    using single_latest_One by blast
  with assms(1) that show thesis
    by (auto simp: candidates_def registry_ok_iff bt_entries_iff)
qed

lemma classify_observed_effect:
  assumes "registry_ok self"
  obtains c self' where "classify_observed observation self = Some (c, self')"
    and "scope_of self' = scope_of self" "edge_follows observation self self'" "\<not> is_ignored c"
    and "ct_commands self' = ct_commands self \<and> \<not> is_owned c
       \<or> (\<exists>key command. bt_get (ct_commands self) key = Some command \<and> could_match observation command
            \<and> ct_commands self' = marked_matched key self
            \<and> c = OwnedCommand (pr_command_id (rc_registration command)) (pr_cause (rc_registration command))
                (pr_completion (rc_registration command)))"
proof -
  define seen where "seen = self\<lparr>ct_last_observed_at_seconds := Some (po_observed_at_seconds observation),
    ct_last_observed_logical_paused := Some (po_logical_paused observation)\<rparr>"
  have seen: "scope_of seen = scope_of self" "ct_commands seen = ct_commands self"
    "\<And>a b. edge_follows observation seen b \<Longrightarrow> edge_follows observation self b"
    "ct_last_observed_at_seconds seen = Some (po_observed_at_seconds observation)"
    "ct_last_observed_logical_paused seen = Some (po_logical_paused observation)"
    by (auto simp: seen_def edge_follows_def Let_def split: option.splits)
  have ok: "registry_ok seen"
    using assms registry_ok_cong [of seen self] seen by simp
  show thesis
  proof (cases "matching_command observation seen")
    case NoMatch
    obtain c self' where result: "classify_unowned observation seen = (c, self')" by fastforce
    from classify_unowned_effect [OF result seen(4,5)] result NoMatch seen show thesis
      by (intro that [of c self']) (auto simp: classify_observed_def Let_def simp flip: seen_def)
  next
    case Ambiguous
    with seen edge_follows_accept [OF seen(4,5), of self] show thesis
      by (intro that) (auto simp: classify_observed_def Let_def simp flip: seen_def)
  next
    case (One key)
    from matched_command [OF ok One] obtain command where command:
      "bt_get (ct_commands seen) key = Some command" "could_match observation command" .
    let ?result = "accept_transition (po_logical_paused observation) (seen\<lparr>ct_commands := marked_matched key self\<rparr>)"
    have result: "classify_observed observation self =
      Some (OwnedCommand (pr_command_id (rc_registration command)) (pr_cause (rc_registration command))
        (pr_completion (rc_registration command)), ?result)"
      using One command seen(2) by (simp add: classify_observed_def Let_def marked_matched_def flip: seen_def)
    show thesis
    proof (rule that [OF result])
      show "edge_follows observation self ?result"
        by (rule edge_follows_accept) (simp_all add: seen)
    qed (use command seen in auto)
  qed
qed

lemma classify_taken:
  assumes "classifier_ok self" "refused_observation observation self = None"
    and "classify observation self = Some (c, self')"
  shows "scope_of self' = scope_of self \<and> edge_follows observation self self' \<and> \<not> is_ignored c
    \<and> (ct_commands self' = ct_commands self \<and> \<not> is_owned c
       \<or> (\<exists>key command. bt_get (ct_commands self) key = Some command \<and> could_match observation command
            \<and> ct_commands self' = marked_matched key self
            \<and> c = OwnedCommand (pr_command_id (rc_registration command)) (pr_cause (rc_registration command))
                (pr_completion (rc_registration command))))"
proof -
  have "registry_ok self" using assms(1) by (simp add: classifier_ok_def)
  then show ?thesis
  proof (rule classify_observed_effect [where observation = observation])
    fix c' r
    assume "classify_observed observation self = Some (c', r)" "scope_of r = scope_of self"
      "edge_follows observation self r" "\<not> is_ignored c'"
      "ct_commands r = ct_commands self \<and> \<not> is_owned c'
       \<or> (\<exists>key command. bt_get (ct_commands self) key = Some command \<and> could_match observation command
            \<and> ct_commands r = marked_matched key self
            \<and> c' = OwnedCommand (pr_command_id (rc_registration command)) (pr_cause (rc_registration command))
                (pr_completion (rc_registration command)))"
    with assms(2,3) show ?thesis by (simp add: classify_def)
  qed
qed

lemma edge_follows_ok:
  assumes "edge_ok self" "edge_follows observation self self'" "refused_observation observation self = None"
  shows "edge_ok self'"
proof -
  define at_seconds where "at_seconds = po_observed_at_seconds observation"
  have finite: "f64_is_finite at_seconds"
    using assms(3) by (auto simp: refused_observation_def Let_def at_seconds_def split: if_splits)
  have later: "f64_le first at_seconds" if "ct_last_observed_at_seconds self = Some last" "f64_le first last" for first last
  proof -
    have "\<not> f64_le at_seconds last"
      using assms(3) that(1) by (auto simp: refused_observation_def Let_def at_seconds_def split: if_splits)
    moreover have "last \<noteq> NaN" using that(2) by (cases first; cases last) auto
    ultimately show ?thesis
      using that(2) f64_not_le [of at_seconds last] finite
      by (metis f64_finite_not_NaN f64_le_less_trans f64_less_imp_le)
  qed
  show ?thesis
    using assms(1,2) later f64_finite_not_NaN [OF finite]
    by (auto simp: edge_ok_def edge_follows_def Let_def at_seconds_def split: option.splits)
qed

lemma classify_ok:
  assumes ok: "classifier_ok self"
  obtains c self' where "classify observation self = Some (c, self')" "classifier_ok self'"
proof (cases "refused_observation observation self")
  case None
  have registry: "registry_ok self" using ok by (simp add: classifier_ok_def)
  from classify_observed_effect [OF this, of observation] obtain c self' where
    result: "classify_observed observation self = Some (c, self')"
      "scope_of self' = scope_of self" "edge_follows observation self self'"
      "ct_commands self' = ct_commands self \<or> (\<exists>key. ct_commands self' = marked_matched key self)"
    by metis
  have "command_ok self key (command\<lparr>rc_observation_matched := True\<rparr>) = command_ok self key command" for key command
    by (simp add: command_ok_def)
  with registry result(2,4) command_ok_cong [of self' self] have "registry_ok self'"
    by (auto simp: registry_ok_iff marked_matched_def split: if_splits)
  moreover have "edge_ok self'" "config_ok (ct_config self')"
    using ok edge_follows_ok [OF _ result(3) None] result(2) by (simp_all add: classifier_ok_def scope_of_def)
  ultimately show thesis
    using that None result(1) by (simp add: classify_def classifier_ok_def)
qed (use ok that in \<open>simp add: classify_def\<close>)

lemma accept_transition_ok: "classifier_ok self \<Longrightarrow> classifier_ok (accept_transition paused self)"
  using registry_ok_cong [of "accept_transition paused self" self]
  by (simp add: classifier_ok_def) (simp add: accept_transition_def edge_ok_def)

section \<open>Runs\<close>

datatype TransitionStep =
  BeginScope u64 u64
  | RegisterCommand PlayerCommandRegistration
  | UpdateCommandCompletion u64 PlayerCommandId PlayerCommandCompletion
  | SupersedeUnmatchedCommands PlayerCommandCause f64
  | Classify PlayerLogicalPauseObservation
  | ConfirmPendingNativePlay
  | InvalidatePendingNativePause
  | InvalidatePendingNativePlay
  | Tick f64
  | PruneCommands f64

text \<open>What a run shows: scopes begun, commands registered, answers to observations, edges settled without one.\<close>

datatype TransitionLog =
  ScopeBegun
  | CommandRegistered PlayerCommandKey
  | Classified PlayerLogicalPauseObservation PlayerTransitionClassification
  | Settled PlayerTransitionClassification
  | ClassifierPanicked

definition settled_log :: "PlayerTransitionClassification option \<Rightarrow> TransitionLog list" where
  "settled_log answer = (case answer of None \<Rightarrow> [] | Some c \<Rightarrow> [Settled c])"

fun transition_step :: "TransitionStep \<Rightarrow> PlayerTransitionClassifier \<Rightarrow> PlayerTransitionClassifier \<times> TransitionLog list" where
  "transition_step (BeginScope generation epoch) self =
     (let (begun, self') = begin_scope generation epoch self in (self', if begun then [ScopeBegun] else []))"
| "transition_step (RegisterCommand registration) self =
     (let (registered, self') = register_command registration self
      in (self', if registered then [CommandRegistered (registration_key registration)] else []))"
| "transition_step (UpdateCommandCompletion epoch command_id completion) self =
     (snd (update_command_completion epoch command_id completion self), [])"
| "transition_step (SupersedeUnmatchedCommands cause at_seconds) self =
     (snd (supersede_unmatched_commands cause at_seconds self), [])"
| "transition_step (Classify observation) self =
     (case classify observation self of
        None \<Rightarrow> (self, [ClassifierPanicked])
      | Some (c, self') \<Rightarrow> (self', [Classified observation c]))"
| "transition_step ConfirmPendingNativePlay self =
     (let (answer, self') = confirm_pending_native_play self in (self', settled_log answer))"
| "transition_step InvalidatePendingNativePause self = (snd (invalidate_pending_native_pause self), [])"
| "transition_step InvalidatePendingNativePlay self = (snd (invalidate_pending_native_play self), [])"
| "transition_step (Tick now) self = (let (answer, self') = tick now self in (self', settled_log answer))"
| "transition_step (PruneCommands now) self = (prune_commands now self, [])"

lemma classifier_ok_step:
  assumes ok: "classifier_ok self"
  shows "classifier_ok (fst (transition_step l self)) \<and> ClassifierPanicked \<notin> set (snd (transition_step l self))"
proof (cases l)
  case (Classify observation)
  from classify_ok [OF ok, of observation] obtain c self' where
    "classify observation self = Some (c, self')" "classifier_ok self'" .
  with Classify show ?thesis by simp
qed (use ok in \<open>auto simp: split_def Let_def settled_log_def begin_scope_ok register_command_ok
      update_command_completion_ok supersede_unmatched_commands_ok prune_commands_ok
      confirm_pending_native_play_def invalidate_pending_native_pause_def
      invalidate_pending_native_play_def tick_def accept_transition_ok split: option.splits\<close>)

definition panic_free :: "TransitionLog list \<Rightarrow> bool" where
  "panic_free tr \<longleftrightarrow> ClassifierPanicked \<notin> set tr"

interpretation classifier: logged_invariant transition_step "\<lambda>_. True" "\<lambda>tr self. classifier_ok self \<and> panic_free tr"
  by unfold_locales (use classifier_ok_step in \<open>auto simp: panic_free_def\<close>)

end
