(* ===== verification/Player_Transition_Properties.thy ===== *)
theory Player_Transition_Properties
  imports Player_Transition_Runs
begin

text \<open>
  What the classifier promises over every sequence of operations: it never panics, matching picks
  the single latest candidate, a registration owns at most one observation, and a native gesture
  needs a confirmed edge that no registered command could own.
\<close>

abbreviation transition_run ::
  "PlayerTransitionClassifierConfig \<Rightarrow> TransitionStep list \<Rightarrow> PlayerTransitionClassifier \<times> TransitionLog list" where
  "transition_run config steps \<equiv> run_steps transition_step steps (new_classifier config)"

abbreviation final_classifier :: "PlayerTransitionClassifierConfig \<Rightarrow> TransitionStep list \<Rightarrow> PlayerTransitionClassifier" where
  "final_classifier config steps \<equiv> fst (transition_run config steps)"

lemma classifier_ok_run: "classifier_ok (final_classifier config steps) \<and> panic_free (snd (transition_run config steps))"
  using classifier.holds_run [of "new_classifier config" "[]" steps]
  by (simp add: classifier_ok_new panic_free_def)

section \<open>Fields the operations leave alone\<close>

definition edge_fields :: "PlayerTransitionClassifier \<Rightarrow> bool option \<times> PendingStableEdge option" where
  "edge_fields self = (ct_accepted_logical_paused self, ct_pending_edge self)"

definition open_claim :: "PlayerTransitionClassifier \<Rightarrow> PlayerCommandKey \<Rightarrow> nat" where
  "open_claim self key =
     (case bt_get (ct_commands self) key of
        None \<Rightarrow> 0 | Some command \<Rightarrow> if rc_observation_matched command then 0 else 1)"

lemma register_command_frame:
  "edge_fields (snd (register_command registration self)) = edge_fields self"
  "open_claim (snd (register_command registration self)) key
     = open_claim self key
       + (if fst (register_command registration self) \<and> key = registration_key registration then 1 else 0)"
  by (simp_all add: register_command_def Let_def edge_fields_def open_claim_def bt_contains_def
      del: not_None_eq not_Some_eq)

lemma update_command_completion_frame:
  "edge_fields (snd (update_command_completion epoch command_id completion self)) = edge_fields self"
  "open_claim (snd (update_command_completion epoch command_id completion self)) = open_claim self"
  by (auto simp: update_command_completion_def edge_fields_def open_claim_def completed_command_def Let_def
      split: option.splits)

lemma supersede_keys_frame:
  "edge_fields (snd (supersede_keys at_seconds keys acc)) = edge_fields (snd acc)
   \<and> open_claim (snd (supersede_keys at_seconds keys acc)) = open_claim (snd acc)"
  by (induction keys arbitrary: acc) (simp_all add: split_def Let_def update_command_completion_frame)

lemma supersede_frame:
  "edge_fields (snd (supersede_unmatched_commands cause at_seconds self)) = edge_fields self"
  "open_claim (snd (supersede_unmatched_commands cause at_seconds self)) = open_claim self"
  using supersede_keys_frame by (simp_all add: supersede_unmatched_commands_def)

lemma prune_commands_frame:
  "edge_fields (prune_commands now self) = edge_fields self"
  "classifier_ok self \<Longrightarrow> open_claim (prune_commands now self) key \<le> open_claim self key"
  using bt_get_filter [OF classifier_ok_wf, of self]
  by (auto simp: prune_commands_def edge_fields_def open_claim_def split: option.splits)

lemma accept_transition_frame:
  "edge_fields (accept_transition paused self) = (Some paused, None)"
  "open_claim (accept_transition paused self) = open_claim self"
  by (auto simp: accept_transition_def edge_fields_def open_claim_def)

lemmas transition_frame =
  register_command_frame update_command_completion_frame supersede_frame prune_commands_frame
  accept_transition_frame

section \<open>A registration owns at most one observation\<close>

fun owns :: "PlayerCommandKey \<Rightarrow> TransitionLog \<Rightarrow> bool" where
  "owns key (Classified observation (OwnedCommand command_id _ _)) \<longleftrightarrow>
     key = PlayerCommandKey (po_adapter_epoch observation) command_id"
| "owns _ _ = False"

definition owned_count :: "PlayerCommandKey \<Rightarrow> TransitionLog list \<Rightarrow> nat" where
  "owned_count key tr = length (filter (owns key) tr)"

definition registered_count :: "PlayerCommandKey \<Rightarrow> TransitionLog list \<Rightarrow> nat" where
  "registered_count key tr = length (filter (\<lambda>l. l = CommandRegistered key) tr)"

lemma counts_append:
  "owned_count key (tr @ tr') = owned_count key tr + owned_count key tr'"
  "registered_count key (tr @ tr') = registered_count key tr + registered_count key tr'"
  by (simp_all add: owned_count_def registered_count_def)

lemma not_owned: "\<not> is_owned c \<Longrightarrow> \<not> owns key (Classified observation c)"
  by (cases c) simp_all

lemma classify_claims:
  assumes ok: "classifier_ok self" and result: "classify observation self = Some (c, self')"
  shows "owned_count key [Classified observation c] + open_claim self' key \<le> open_claim self key"
proof (cases "refused_observation observation self")
  case (Some answer)
  then have "\<not> is_owned answer"
    by (auto simp: refused_observation_def Let_def split: if_splits option.splits)
  with Some result not_owned show ?thesis by (auto simp: classify_def owned_count_def)
next
  case None
  from classify_taken [OF ok None result]
  consider "ct_commands self' = ct_commands self" "\<not> is_owned c"
    | key' command where "bt_get (ct_commands self) key' = Some command" "could_match observation command"
      "ct_commands self' = marked_matched key' self"
      "c = OwnedCommand (pr_command_id (rc_registration command)) (pr_cause (rc_registration command))
         (pr_completion (rc_registration command))"
    by auto
  then show ?thesis
  proof cases
    case 1
    with not_owned show ?thesis by (simp add: owned_count_def open_claim_def)
  next
    case 2
    from classifier_ok_command [OF ok 2(1)] 2(2)
    have "key' = PlayerCommandKey (po_adapter_epoch observation) (pr_command_id (rc_registration command))"
      by (auto simp: command_ok_def Let_def could_match_def registration_key_def)
    with 2 show ?thesis
      by (auto simp: owned_count_def open_claim_def marked_matched_def could_match_def matchable_at_def Let_def
          split: option.splits)
  qed
qed

definition claims_counted :: "TransitionLog list \<Rightarrow> PlayerTransitionClassifier \<Rightarrow> bool" where
  "claims_counted tr self \<longleftrightarrow> (\<forall>key. owned_count key tr + open_claim self key \<le> registered_count key tr)"

lemma counts_quiet [simp]:
  "owned_count key [] = 0" "registered_count key [] = 0"
  "owned_count key (settled_log a) = 0" "registered_count key (settled_log a) = 0"
  "owned_count key [ScopeBegun] = 0" "registered_count key [ScopeBegun] = 0"
  "owned_count key [CommandRegistered k] = 0" "registered_count key [Classified ob c] = 0"
  "registered_count key [CommandRegistered k] = (if k = key then 1 else 0)"
  by (auto simp: owned_count_def registered_count_def settled_log_def split: option.splits)

lemma claims_step:
  assumes ok: "classifier_ok self"
  shows "owned_count key (snd (transition_step l self)) + open_claim (fst (transition_step l self)) key
    \<le> open_claim self key + registered_count key (snd (transition_step l self))"
proof (cases l)
  case (Classify observation)
  from classify_ok [OF ok, of observation] obtain c self' where
    result: "classify observation self = Some (c, self')" .
  with Classify classify_claims [OF ok result] show ?thesis by simp
next
  case (BeginScope generation epoch)
  then show ?thesis by (auto simp: begin_scope_def open_claim_def Let_def)
qed (use ok in \<open>auto simp: split_def Let_def transition_frame confirm_pending_native_play_def
      invalidate_pending_native_pause_def invalidate_pending_native_play_def tick_def split: option.splits\<close>)

interpretation claims: logged_invariant transition_step "\<lambda>_. True"
  "\<lambda>tr self. classifier_ok self \<and> claims_counted tr self"
proof unfold_locales
  fix tr self l
  assume holds: "classifier_ok self \<and> claims_counted tr self"
  have "owned_count key (tr @ snd (transition_step l self)) + open_claim (fst (transition_step l self)) key
    \<le> registered_count key (tr @ snd (transition_step l self))" for key
  proof -
    have "owned_count key tr + open_claim self key \<le> registered_count key tr"
      using holds by (simp add: claims_counted_def)
    with claims_step [of self key l] holds show ?thesis by (simp add: counts_append)
  qed
  with classifier_ok_step [of self l] holds
  show "classifier_ok (fst (transition_step l self))
    \<and> claims_counted (tr @ snd (transition_step l self)) (fst (transition_step l self))"
    by (simp add: claims_counted_def)
qed simp

section \<open>A pending edge is a tail of the observations of its scope\<close>

fun scope_step :: "(f64 \<times> bool) list \<Rightarrow> TransitionLog \<Rightarrow> (f64 \<times> bool) list" where
  "scope_step seen ScopeBegun = []"
| "scope_step seen (Classified observation c) =
     (if is_ignored c then seen
      else seen @ [(po_observed_at_seconds observation, po_logical_paused observation)])"
| "scope_step seen _ = seen"

text \<open>The time and the state of the observations taken since the last scope began.\<close>

definition scope_observations :: "TransitionLog list \<Rightarrow> (f64 \<times> bool) list" where
  "scope_observations tr = foldl scope_step [] tr"

text \<open>
  The state changed to \<open>paused\<close> with the observation at \<open>first\<close>, after the other state had been
  observed in the same scope, and has not been observed to change since.
\<close>

definition edge_since :: "(f64 \<times> bool) list \<Rightarrow> bool \<Rightarrow> f64 \<Rightarrow> bool" where
  "edge_since seen paused first \<longleftrightarrow>
     (\<exists>before after. seen = before @ (first, paused) # after
        \<and> (\<exists>at_seconds. (at_seconds, \<not> paused) \<in> set before)
        \<and> list_all (\<lambda>observed. snd observed = paused) after)"

definition edge_traced :: "(f64 \<times> bool) list \<Rightarrow> PlayerTransitionClassifier \<Rightarrow> bool" where
  "edge_traced seen self \<longleftrightarrow>
     (\<forall>paused. ct_accepted_logical_paused self = Some paused \<longrightarrow> paused \<in> snd ` set seen)
     \<and> (\<forall>edge. ct_pending_edge self = Some edge \<longrightarrow>
          edge_since seen (pe_logical_paused edge) (pe_first_observed_at_seconds edge))"

lemma edge_traced_cong: "edge_fields a = edge_fields b \<Longrightarrow> edge_traced seen a = edge_traced seen b"
  by (simp add: edge_fields_def edge_traced_def)

lemmas edge_traced_quiet =
  edge_traced_cong [OF register_command_frame(1)] edge_traced_cong [OF update_command_completion_frame(1)]
  edge_traced_cong [OF supersede_frame(1)] edge_traced_cong [OF prune_commands_frame(1)]

lemma edge_since_append: "edge_since seen paused first \<Longrightarrow> edge_since (seen @ [(at_seconds, paused)]) paused first"
  by (fastforce simp: edge_since_def)

lemma edge_since_new:
  "(\<not> paused) \<in> snd ` set seen \<Longrightarrow> edge_since (seen @ [(at_seconds, paused)]) paused at_seconds"
  unfolding edge_since_def by (rule exI [of _ seen], rule exI [of _ "[]"]) auto

lemma edge_since_seen: "edge_since seen paused first \<Longrightarrow> paused \<in> snd ` set seen"
  by (force simp: edge_since_def)

lemma edge_traced_accept:
  "edge_traced seen self \<Longrightarrow> ct_pending_edge self = Some edge \<Longrightarrow> pe_logical_paused edge = paused \<Longrightarrow>
   edge_traced seen (accept_transition paused self)"
  using edge_since_seen by (auto simp: edge_traced_def accept_transition_def)

lemma edge_traced_follows:
  assumes traced: "edge_traced seen self" and "edge_follows observation self self'"
  shows "edge_traced (seen @ [(po_observed_at_seconds observation, po_logical_paused observation)]) self'"
proof (cases "ct_pending_edge self'")
  case None
  with assms show ?thesis by (auto simp: edge_traced_def edge_follows_def Let_def)
next
  case (Some edge)
  with assms have other: "(\<not> po_logical_paused observation) \<in> snd ` set seen"
    by (simp add: edge_traced_def edge_follows_def Let_def)
  from Some assms have "edge_since (seen @ [(po_observed_at_seconds observation, po_logical_paused observation)])
      (pe_logical_paused edge) (pe_first_observed_at_seconds edge)"
    using edge_since_new [OF other] edge_since_append [of seen "po_logical_paused observation"]
    by (auto simp: edge_traced_def edge_follows_def Let_def)
  with Some assms other show ?thesis
    by (auto simp: edge_traced_def edge_follows_def Let_def)
qed

lemma edge_traced_again:
  assumes "edge_traced seen self" "edge_ok self"
    and "ct_last_observed_logical_paused self = Some paused"
  shows "edge_traced (seen @ [(at_seconds, paused)]) self"
  using assms edge_since_append by (auto simp: edge_traced_def edge_ok_def split: option.splits)

lemma edge_traced_classify:
  assumes ok: "classifier_ok self" and traced: "edge_traced seen self"
    and result: "classify observation self = Some (c, self')"
  shows "edge_traced (scope_step seen (Classified observation c)) self'"
proof (cases "refused_observation observation self")
  case None
  with classify_taken [OF ok None result] edge_traced_follows [OF traced] show ?thesis by simp
next
  case (Some answer)
  with result have "self' = self" "c = answer" by (simp_all add: classify_def)
  moreover have "is_ignored answer \<or> ct_last_observed_logical_paused self = Some (po_logical_paused observation)"
    using Some by (auto simp: refused_observation_def Let_def split: if_splits option.splits)
  ultimately show ?thesis
    using traced edge_traced_again [OF traced] ok by (auto simp: classifier_ok_def)
qed

lemma edge_traced_step:
  assumes ok: "classifier_ok self" and traced: "edge_traced seen self"
  shows "edge_traced (foldl scope_step seen (snd (transition_step l self))) (fst (transition_step l self))"
proof (cases l)
  case (Classify observation)
  from classify_ok [OF ok, of observation] obtain c self' where
    result: "classify observation self = Some (c, self')" .
  with Classify edge_traced_classify [OF ok traced result] show ?thesis by simp
next
  case (BeginScope generation epoch)
  with traced show ?thesis by (auto simp: begin_scope_def edge_traced_def)
next
  case ConfirmPendingNativePlay
  with traced edge_traced_accept [OF traced] show ?thesis
    by (auto simp: confirm_pending_native_play_def settled_log_def split: option.splits)
next
  case (Tick now)
  with traced edge_traced_accept [OF traced] show ?thesis
    by (auto simp: tick_def settled_log_def split: option.splits)
next
  case InvalidatePendingNativePause
  with traced edge_traced_accept [OF traced] show ?thesis
    by (auto simp: invalidate_pending_native_pause_def pending_native_pause_first_observed_at_seconds_def
        split: option.splits)
next
  case InvalidatePendingNativePlay
  with traced edge_traced_accept [OF traced] show ?thesis
    by (auto simp: invalidate_pending_native_play_def split: option.splits)
next
  case (RegisterCommand registration)
  with traced edge_traced_quiet show ?thesis by (auto simp: split_def Let_def)
qed (use traced in \<open>simp_all add: edge_traced_quiet\<close>)

interpretation edges: logged_invariant transition_step "\<lambda>_. True"
  "\<lambda>tr self. classifier_ok self \<and> edge_traced (scope_observations tr) self"
  by unfold_locales (use classifier_ok_step edge_traced_step in \<open>simp_all add: scope_observations_def\<close>)

section \<open>Gestures\<close>

fun reported_gesture :: "TransitionLog \<Rightarrow> NativePlayerAction option" where
  "reported_gesture (Classified _ (NativePlayerGesture action)) = Some action"
| "reported_gesture (Settled (NativePlayerGesture action)) = Some action"
| "reported_gesture _ = None"

definition reported_gestures :: "TransitionLog list \<Rightarrow> NativePlayerAction list" where
  "reported_gestures tr = List.map_filter reported_gesture tr"

lemma classify_gesture:
  assumes ok: "classifier_ok self" and result: "classify observation self = Some (NativePlayerGesture action, self')"
  shows "action = from_paused (po_logical_paused observation)
    \<and> stable_for (po_context observation) (po_logical_paused observation)
    \<and> \<not> has_active_unmatched_command (po_observed_at_seconds observation) self
    \<and> ct_accepted_logical_paused self = Some (\<not> po_logical_paused observation)
    \<and> (\<exists>first. (case ct_pending_edge self of
           None \<Rightarrow> first = po_observed_at_seconds observation
         | Some edge \<Rightarrow> pe_logical_paused edge = po_logical_paused observation
             \<and> first = pe_first_observed_at_seconds edge)
         \<and> f64_le (tc_stable_confirmation_seconds (ct_config self))
             (f64_sub (po_observed_at_seconds observation) first))"
proof -
  define seen where "seen = self\<lparr>ct_last_observed_at_seconds := Some (po_observed_at_seconds observation),
    ct_last_observed_logical_paused := Some (po_logical_paused observation)\<rparr>"
  have "refused_observation observation self = None"
  proof (cases "refused_observation observation self")
    case (Some answer)
    then have "answer \<noteq> NativePlayerGesture action"
      by (auto simp: refused_observation_def Let_def split: if_splits option.splits)
    with Some result show ?thesis by (simp add: classify_def)
  qed
  with result have "classify_unowned observation seen = (NativePlayerGesture action, self')"
    by (auto simp: classify_def classify_observed_def Let_def simp flip: seen_def
        split: CommandMatch.splits option.splits)
  then have edge: "classify_edge observation seen = (NativePlayerGesture action, self')"
    and "\<not> has_active_unmatched_command (po_observed_at_seconds observation) seen"
    and "ct_accepted_logical_paused seen = Some (\<not> po_logical_paused observation)"
    by (auto simp: classify_unowned_def classify_untechnical_def Let_def split: option.splits if_splits)
  then have quiet: "\<not> has_active_unmatched_command (po_observed_at_seconds observation) self"
    and accepted: "ct_accepted_logical_paused self = Some (\<not> po_logical_paused observation)"
    by (simp_all add: seen_def has_active_unmatched_command_def)
  have "pe_logical_paused e = po_logical_paused observation" if "ct_pending_edge self = Some e" for e
    using ok accepted that by (auto simp: classifier_ok_def edge_ok_def)
  with edge quiet accepted show ?thesis
    by (auto simp: classify_edge_def Let_def seen_def split: if_splits option.splits)
qed

lemma edge_traced_run:
  "classifier_ok (final_classifier config steps)
   \<and> edge_traced (scope_observations (snd (transition_run config steps))) (final_classifier config steps)"
  using edges.holds_run [of "new_classifier config" "[]" steps] classifier_ok_new
  by (simp add: scope_observations_def edge_traced_def new_classifier_def Let_def)

lemma confirm_gesture:
  "fst (confirm_pending_native_play self) = Some c \<Longrightarrow>
     c = NativePlayerGesture NativePlayerAction.Play
     \<and> (\<exists>edge. ct_pending_edge self = Some edge \<and> \<not> pe_logical_paused edge)"
  by (auto simp: confirm_pending_native_play_def split: option.splits if_splits)

text \<open>The step that reported a gesture, and what it saw: a confirming observation or an explicit promotion.\<close>

definition confirmed_by :: "TransitionStep \<Rightarrow> PlayerTransitionClassifier \<Rightarrow> bool \<Rightarrow> f64 \<Rightarrow> bool" where
  "confirmed_by l self paused first =
     (case l of
        Classify observation \<Rightarrow>
          po_logical_paused observation = paused
          \<and> stable_for (po_context observation) paused
          \<and> list_all (\<lambda>command. \<not> active_at command (po_observed_at_seconds observation))
              (bt_values (ct_commands self))
          \<and> f64_le (tc_stable_confirmation_seconds (ct_config self))
              (f64_sub (po_observed_at_seconds observation) first)
      | ConfirmPendingNativePlay \<Rightarrow> \<not> paused
      | _ \<Rightarrow> False)"

lemma gesture_step:
  assumes ok: "classifier_ok self" and traced: "edge_traced seen self"
    and gesture: "action \<in> set (reported_gestures (snd (transition_step l self)))"
  shows "\<exists>paused first. action = from_paused paused \<and> confirmed_by l self paused first
    \<and> edge_since (foldl scope_step seen (snd (transition_step l self))) paused first"
proof (cases l)
  case (Classify observation)
  from classify_ok [OF ok, of observation] obtain c self' where
    result: "classify observation self = Some (c, self')" .
  with Classify gesture have c: "c = NativePlayerGesture action"
    by (cases c) (auto simp: reported_gestures_def List.map_filter_def)
  define paused where "paused = po_logical_paused observation"
  note facts = classify_gesture [OF ok result [unfolded c], folded paused_def]
  then have "edge_since (seen @ [(po_observed_at_seconds observation, paused)]) paused (po_observed_at_seconds observation)"
    using traced by (intro edge_since_new) (simp add: edge_traced_def)
  with facts traced edge_since_append [of seen paused] obtain first where
    "f64_le (tc_stable_confirmation_seconds (ct_config self)) (f64_sub (po_observed_at_seconds observation) first)"
    "edge_since (seen @ [(po_observed_at_seconds observation, paused)]) paused first"
    by (cases "ct_pending_edge self") (auto simp: edge_traced_def)
  moreover have "action = from_paused paused" using facts by simp
  moreover have "stable_for (po_context observation) paused"
    "list_all (\<lambda>command. \<not> active_at command (po_observed_at_seconds observation)) (bt_values (ct_commands self))"
    using facts by (auto simp: has_active_unmatched_command_def list_ex_iff list_all_iff)
  ultimately have "\<exists>first. action = from_paused paused \<and> confirmed_by l self paused first
      \<and> edge_since (seen @ [(po_observed_at_seconds observation, paused)]) paused first"
    by (auto simp: confirmed_by_def Classify paused_def)
  with Classify result c show ?thesis by (auto simp: paused_def)
next
  case ConfirmPendingNativePlay
  with gesture obtain c where c: "fst (confirm_pending_native_play self) = Some c"
    by (cases "fst (confirm_pending_native_play self)")
      (auto simp: settled_log_def reported_gestures_def List.map_filter_def split_def Let_def)
  from confirm_gesture [OF c] obtain edge where
    edge: "c = NativePlayerGesture NativePlayerAction.Play" "ct_pending_edge self = Some edge"
      "\<not> pe_logical_paused edge" by blast
  with ConfirmPendingNativePlay gesture c have "action = from_paused False"
    by (auto simp: settled_log_def reported_gestures_def List.map_filter_def split_def Let_def from_paused_def)
  moreover have "edge_since seen False (pe_first_observed_at_seconds edge)"
    using traced edge by (simp add: edge_traced_def)
  ultimately show ?thesis
    using ConfirmPendingNativePlay c by (auto simp: confirmed_by_def split_def Let_def settled_log_def)
next
  case (Tick now)
  with gesture show ?thesis
    by (auto simp: tick_def settled_log_def reported_gestures_def List.map_filter_def split: option.splits if_splits)
qed (use gesture in \<open>auto simp: reported_gestures_def List.map_filter_def split_def Let_def\<close>)

section \<open>Properties\<close>

abbreviation sample_observation :: "rat \<Rightarrow> bool \<Rightarrow> PlayerTransportPhase option \<Rightarrow> TransitionStep" where
  "sample_observation at_seconds paused phase \<equiv>
     Classify (new_observation 7 3 (Fin at_seconds) paused (new_context phase))"

abbreviation sample_edge :: "TransitionStep list" where
  "sample_edge \<equiv> [BeginScope 7 3, sample_observation 1 True (Some PlayerTransportPhase.ReadyPaused),
     sample_observation 2 False (Some PlayerTransportPhase.Playing)]"

lemmas transition_eval =
  run_steps_Cons new_classifier_def default_transition_config_def normalized_nonnegative_seconds_def f64_max_def
  rounded_seconds begin_scope_def new_observation_def new_context_def classify_def refused_observation_def
  classify_observed_def matching_command_def classify_unowned_def classify_untechnical_def classify_edge_def technical_reason_def
  stable_for_def has_active_unmatched_command_def bt_values_def accept_transition_def from_paused_def
  f64_sub_def reported_gestures_def List.map_filter_def settled_log_def Let_def

text \<open>
  C35. A gesture of the user is reported only for an edge that nothing else explains. Whenever a
  step after any sequence of operations reports a play or pause gesture, the player's state has
  changed in the current scope from the other state, which was observed there before, and has not
  been observed to change back; and either the reporting observation is stable, no registered
  command that has not been matched could own it, and the confirmation window has passed since the
  change, or the gesture is a play that was promoted explicitly.
\<close>
theorem native_gesture_has_unowned_edge:
  assumes "action \<in> set (reported_gestures (snd (transition_step l (final_classifier config steps))))"
  shows "\<exists>paused first. action = from_paused paused
    \<and> confirmed_by l (final_classifier config steps) paused first
    \<and> edge_since (scope_observations (snd (transition_run config (steps @ [l])))) paused first"
  using gesture_step [OF _ _ assms] edge_traced_run
  by (auto simp: run_steps_append run_steps_Cons scope_observations_def)

theorem native_gesture_has_unowned_edge_witness:
  "\<exists>paused first. NativePlayerAction.Play = from_paused paused
    \<and> confirmed_by (sample_observation (5 / 2) False (Some PlayerTransportPhase.Playing))
        (final_classifier default_transition_config sample_edge) paused first
    \<and> edge_since (scope_observations (snd (transition_run default_transition_config
        (sample_edge @ [sample_observation (5 / 2) False (Some PlayerTransportPhase.Playing)])))) paused first"
proof (rule native_gesture_has_unowned_edge)
  show "NativePlayerAction.Play \<in> set (reported_gestures (snd (transition_step
      (sample_observation (5 / 2) False (Some PlayerTransportPhase.Playing))
      (final_classifier default_transition_config sample_edge))))"
    by (simp add: transition_eval)
qed

text \<open>
  C36. The classifier never panics and stays well formed: after every sequence of operations, with
  any configuration, the command selected for an observation is still registered, the registered
  commands belong to the current scope and own observations only up to a deadline, the configured
  windows are finite and ordered, and a pending edge leads away from the accepted state.
\<close>
theorem classifier_invariant_of_runs:
  "ClassifierPanicked \<notin> set (snd (transition_run config steps)) \<and> classifier_ok (final_classifier config steps)"
  using classifier_ok_run by (simp add: panic_free_def)

text \<open>
  C37. Matching an observation, one pass over the registry that keeps a selection and an ambiguity
  flag, answers with the single candidate issued last: no match when there is no candidate, and
  ambiguous when several candidates share the latest issue time.
\<close>
theorem matching_command_is_single_latest:
  "matching_command observation (final_classifier config steps)
     = single_latest (candidates observation (final_classifier config steps))"
  using classifier_ok_run matching_command_latest [OF registry_finite]
  by (simp add: classifier_ok_def)

text \<open>
  C38. A registered command owns at most one observation: in every sequence of operations, a key is
  named as the owner of an observation no more often than it was registered.
\<close>
theorem registration_owns_at_most_one_observation:
  "owned_count key (snd (transition_run config steps)) \<le> registered_count key (snd (transition_run config steps))"
proof -
  have "claims_counted [] (new_classifier config)"
    by (simp add: claims_counted_def open_claim_def new_classifier_def Let_def)
  with claims.holds_run [of "new_classifier config" "[]" steps] classifier_ok_new
  have "claims_counted (snd (transition_run config steps)) (final_classifier config steps)" by simp
  then show ?thesis by (auto simp: claims_counted_def intro: add_leD1)
qed

text \<open>
  One stable observation is enough for a gesture: after a pause was observed, an observation of
  playing that reports no phase, which is not stable, starts the confirmation window, and the first
  stable observation of playing after it is reported as a gesture of the user.
\<close>
theorem gesture_from_one_stable_observation:
  "reported_gestures (snd (transition_run default_transition_config
      [BeginScope 7 3, sample_observation 1 True (Some PlayerTransportPhase.ReadyPaused),
       sample_observation 2 False None, sample_observation (5 / 2) False (Some PlayerTransportPhase.Playing)]))
     = [NativePlayerAction.Play]
   \<and> \<not> stable_for (new_context None) False"
  by (simp add: transition_eval)

end
