(* ===== verification/Server_Resources.thy ===== *)
theory Server_Resources
  imports Prelude "HOL-Library.Word" "HOL-Library.Monad_Syntax"
begin

text \<open>
  Admission of connections and byte budgets of the server, \<open>sorotte-server/src/resources.rs\<close>. The
  admission counters are behind a mutex, so every operation on them is one step; \<open>None\<close> is the panic
  of an arithmetic overflow. The byte budgets are atomic counters shared by all peers: there every
  access to a counter is a step of its own, and the steps of different reservations interleave.
\<close>

section \<open>Limits\<close>

type_synonym usize = nat

record ServerResourceLimits =
  rl_active_connections :: usize
  rl_unauthenticated_connections :: usize
  rl_connections_per_address :: usize
  rl_queued_bytes_per_peer :: usize
  rl_queued_bytes_total :: usize

definition default_limits :: ServerResourceLimits where
  "default_limits =
     \<lparr>rl_active_connections = 1024, rl_unauthenticated_connections = 128, rl_connections_per_address = 128,
      rl_queued_bytes_per_peer = 4 * 1024 * 1024, rl_queued_bytes_total = 64 * 1024 * 1024\<rparr>"

datatype io_error = InvalidInput string

definition validate :: "ServerResourceLimits \<Rightarrow> io_error + ServerResourceLimits" where
  "validate self =
     (if rl_active_connections self = 0
         \<or> rl_unauthenticated_connections self = 0
         \<or> rl_connections_per_address self = 0
         \<or> rl_queued_bytes_per_peer self < 1024
         \<or> rl_queued_bytes_total self < rl_queued_bytes_per_peer self
      then Inl (InvalidInput
        ''server resource limits must be positive; byte limits require 1024 <= per-peer <= total'')
      else Inr self)"

text \<open>
  A value of the environment is absent, not UTF-8 (\<open>Some None\<close>) or a string. \<open>str::parse\<close> of an
  unsigned integer takes decimal digits with an optional plus sign, at least one digit, in range.
\<close>

type_synonym environment = "string \<Rightarrow> string option option"

definition digit_of :: "char \<Rightarrow> nat option" where
  "digit_of c = (let code = of_char c :: nat in if 48 \<le> code \<and> code \<le> 57 then Some (code - 48) else None)"

fun parse_digits :: "nat \<Rightarrow> string \<Rightarrow> usize option" where
  "parse_digits acc [] = Some acc"
| "parse_digits acc (c # cs) =
     do {
       digit \<leftarrow> digit_of c;
       (if acc * 10 + digit \<le> u64_max then parse_digits (acc * 10 + digit) cs else None)
     }"

definition parse_usize :: "string \<Rightarrow> usize option" where
  "parse_usize s =
     (let digits = (case s of c # cs \<Rightarrow> if c = CHR ''+'' then cs else s | [] \<Rightarrow> [])
      in if digits = [] then None else parse_digits 0 digits)"

definition read_limit :: "environment \<Rightarrow> string \<Rightarrow> usize \<Rightarrow> io_error + usize" where
  "read_limit env name target =
     (case env name of
        None \<Rightarrow> Inr target
      | Some content \<Rightarrow>
          (case Option.bind content parse_usize of
             None \<Rightarrow> Inl (InvalidInput (name @ '' must be a positive integer''))
           | Some parsed \<Rightarrow> Inr parsed))"

definition from_environment :: "environment \<Rightarrow> io_error + ServerResourceLimits" where
  "from_environment env =
     (case read_limit env ''SOROTTE_SERVER_MAX_CONNECTIONS'' (rl_active_connections default_limits) of
        Inl e \<Rightarrow> Inl e
      | Inr active \<Rightarrow>
     case read_limit env ''SOROTTE_SERVER_MAX_UNAUTHENTICATED_CONNECTIONS''
            (rl_unauthenticated_connections default_limits) of
        Inl e \<Rightarrow> Inl e
      | Inr unauthenticated \<Rightarrow>
     case read_limit env ''SOROTTE_SERVER_MAX_CONNECTIONS_PER_ADDRESS''
            (rl_connections_per_address default_limits) of
        Inl e \<Rightarrow> Inl e
      | Inr per_address \<Rightarrow>
     case read_limit env ''SOROTTE_SERVER_MAX_QUEUED_BYTES_PER_PEER''
            (rl_queued_bytes_per_peer default_limits) of
        Inl e \<Rightarrow> Inl e
      | Inr per_peer \<Rightarrow>
     case read_limit env ''SOROTTE_SERVER_MAX_QUEUED_BYTES_TOTAL'' (rl_queued_bytes_total default_limits) of
        Inl e \<Rightarrow> Inl e
      | Inr in_total \<Rightarrow>
          validate \<lparr>rl_active_connections = active, rl_unauthenticated_connections = unauthenticated,
            rl_connections_per_address = per_address, rl_queued_bytes_per_peer = per_peer,
            rl_queued_bytes_total = in_total\<rparr>)"

section \<open>Admission\<close>

datatype IpAddr = V4 "32 word" | V6 "128 word"

text \<open>The derived order: every IPv4 address before every IPv6 address, then by value.\<close>

fun ip_less_eq :: "IpAddr \<Rightarrow> IpAddr \<Rightarrow> bool" where
  "ip_less_eq (V4 a) (V4 b) = (a \<le> b)"
| "ip_less_eq (V4 _) (V6 _) = True"
| "ip_less_eq (V6 _) (V4 _) = False"
| "ip_less_eq (V6 a) (V6 b) = (a \<le> b)"

instantiation IpAddr :: linorder
begin

definition less_eq_IpAddr :: "IpAddr \<Rightarrow> IpAddr \<Rightarrow> bool" where
  "a \<le> b \<longleftrightarrow> ip_less_eq a b"

definition less_IpAddr :: "IpAddr \<Rightarrow> IpAddr \<Rightarrow> bool" where
  "a < b \<longleftrightarrow> ip_less_eq a b \<and> \<not> ip_less_eq b a"

instance
proof
  fix a b c :: IpAddr
  show "a < b \<longleftrightarrow> a \<le> b \<and> \<not> b \<le> a" by (simp add: less_eq_IpAddr_def less_IpAddr_def)
  show "a \<le> a" by (cases a) (simp_all add: less_eq_IpAddr_def)
  show "a \<le> b \<Longrightarrow> b \<le> c \<Longrightarrow> a \<le> c" by (cases a; cases b; cases c) (simp_all add: less_eq_IpAddr_def)
  show "a \<le> b \<Longrightarrow> b \<le> a \<Longrightarrow> a = b" by (cases a; cases b) (simp_all add: less_eq_IpAddr_def)
  show "a \<le> b \<or> b \<le> a" by (cases a; cases b) (auto simp: less_eq_IpAddr_def)
qed

end

text \<open>\<open>Ipv6Addr::to_ipv4_mapped\<close>: the addresses of \<open>::ffff:0:0/96\<close>.\<close>

definition to_ipv4_mapped :: "128 word \<Rightarrow> (32 word) option" where
  "to_ipv4_mapped address = (if drop_bit 32 address = 0xffff then Some (ucast address) else None)"

definition normalized_address :: "IpAddr \<Rightarrow> IpAddr" where
  "normalized_address address =
     (case address of
        V6 v6 \<Rightarrow> (case to_ipv4_mapped v6 of Some v4 \<Rightarrow> V4 v4 | None \<Rightarrow> V6 v6)
      | V4 v4 \<Rightarrow> V4 v4)"

record Admission =
  ad_active :: usize
  ad_unauthenticated :: usize
  ad_addresses :: "(IpAddr, usize) btree_map"
  ad_rejected :: usize

definition default_admission :: Admission where
  "default_admission = \<lparr>ad_active = 0, ad_unauthenticated = 0, ad_addresses = [], ad_rejected = 0\<rparr>"

record ConnectionPermit =
  cp_address :: IpAddr
  cp_unauthenticated :: bool

definition usize_incr :: "usize \<Rightarrow> usize option" where
  "usize_incr v = (if v < u64_max then Some (v + 1) else None)"

definition usize_decr :: "usize \<Rightarrow> usize option" where
  "usize_decr v = (if v = 0 then None else Some (v - 1))"

definition address_count :: "Admission \<Rightarrow> IpAddr \<Rightarrow> usize" where
  "address_count state address = (case bt_get (ad_addresses state) address of None \<Rightarrow> 0 | Some count \<Rightarrow> count)"

definition admit ::
  "ServerResourceLimits \<Rightarrow> IpAddr \<Rightarrow> Admission \<Rightarrow> (ConnectionPermit option \<times> Admission) option" where
  "admit limits address state =
     (let address = normalized_address address
      in if rl_active_connections limits \<le> ad_active state
            \<or> rl_unauthenticated_connections limits \<le> ad_unauthenticated state
            \<or> rl_connections_per_address limits \<le> address_count state address
         then Some (None, state\<lparr>ad_rejected := saturating_add (ad_rejected state) 1\<rparr>)
         else do {
           active \<leftarrow> usize_incr (ad_active state);
           unauthenticated \<leftarrow> usize_incr (ad_unauthenticated state);
           count \<leftarrow> usize_incr (address_count state address);
           Some (Some \<lparr>cp_address = address, cp_unauthenticated = True\<rparr>,
             state\<lparr>ad_active := active, ad_unauthenticated := unauthenticated,
                   ad_addresses := bt_insert address count (ad_addresses state)\<rparr>)
         })"

definition authenticated :: "ConnectionPermit \<Rightarrow> Admission \<Rightarrow> (ConnectionPermit \<times> Admission) option" where
  "authenticated self admission =
     (if cp_unauthenticated self
      then do {
        unauthenticated \<leftarrow> usize_decr (ad_unauthenticated admission);
        Some (self\<lparr>cp_unauthenticated := False\<rparr>, admission\<lparr>ad_unauthenticated := unauthenticated\<rparr>)
      }
      else Some (self, admission))"

definition drop_permit :: "ConnectionPermit \<Rightarrow> Admission \<Rightarrow> Admission option" where
  "drop_permit self state =
     do {
       active \<leftarrow> usize_decr (ad_active state);
       unauthenticated \<leftarrow>
         (if cp_unauthenticated self then usize_decr (ad_unauthenticated state)
          else Some (ad_unauthenticated state));
       addresses \<leftarrow>
         (case bt_get (ad_addresses state) (cp_address self) of
            None \<Rightarrow> Some (ad_addresses state)
          | Some count \<Rightarrow> do {
              count \<leftarrow> usize_decr count;
              Some (if count = 0 then bt_remove (cp_address self) (ad_addresses state)
                    else bt_insert (cp_address self) count (ad_addresses state))
            });
       Some (state\<lparr>ad_active := active, ad_unauthenticated := unauthenticated, ad_addresses := addresses\<rparr>)
     }"

section \<open>Byte budgets\<close>

text \<open>\<open>fetch_sub\<close> wraps around; \<open>try_update\<close> leaves the counter alone when its function gives nothing.\<close>

definition wrapping_sub :: "usize \<Rightarrow> usize \<Rightarrow> usize" where
  "wrapping_sub a b = (a + (u64_max + 1) - b) mod (u64_max + 1)"

definition reserve_counter :: "usize \<Rightarrow> usize \<Rightarrow> usize \<Rightarrow> usize option" where
  "reserve_counter counter amount limit =
     (if counter + amount \<le> u64_max \<and> counter + amount \<le> limit then Some (counter + amount) else None)"

text \<open>The counters: the total and its peak in \<open>NetworkResources\<close>, one counter per \<open>PeerByteBudget\<close>.\<close>

record ByteCounters =
  bc_total :: usize
  bc_peak :: usize
  bc_peers :: "usize list"

datatype ReservePoint = ReservePeer | ReserveTotal | RollBack | RecordPeak usize

datatype ReserveAnswer = Running ReservePoint | Granted | Denied

definition sub_peer :: "nat \<Rightarrow> usize \<Rightarrow> ByteCounters \<Rightarrow> ByteCounters" where
  "sub_peer peer amount counters =
     counters\<lparr>bc_peers := (bc_peers counters)[peer := wrapping_sub (bc_peers counters ! peer) amount]\<rparr>"

definition sub_total :: "usize \<Rightarrow> ByteCounters \<Rightarrow> ByteCounters" where
  "sub_total amount counters = counters\<lparr>bc_total := wrapping_sub (bc_total counters) amount\<rparr>"

text \<open>The atomic accesses of \<open>PeerByteBudget::reserve\<close>, one per point.\<close>

fun reserve_step ::
  "ServerResourceLimits \<Rightarrow> nat \<Rightarrow> usize \<Rightarrow> ReservePoint \<Rightarrow> ByteCounters \<Rightarrow> ByteCounters \<times> ReserveAnswer" where
  "reserve_step limits peer bytes ReservePeer counters =
     (case reserve_counter (bc_peers counters ! peer) bytes (rl_queued_bytes_per_peer limits) of
        None \<Rightarrow> (counters, Denied)
      | Some reserved \<Rightarrow>
          (counters\<lparr>bc_peers := (bc_peers counters)[peer := reserved]\<rparr>, Running ReserveTotal))"
| "reserve_step limits peer bytes ReserveTotal counters =
     (case reserve_counter (bc_total counters) bytes (rl_queued_bytes_total limits) of
        None \<Rightarrow> (counters, Running RollBack)
      | Some new_total \<Rightarrow> (counters\<lparr>bc_total := new_total\<rparr>, Running (RecordPeak new_total)))"
| "reserve_step limits peer bytes RollBack counters = (sub_peer peer bytes counters, Denied)"
| "reserve_step limits peer bytes (RecordPeak new_total) counters =
     (counters\<lparr>bc_peak := max (bc_peak counters) new_total\<rparr>, Granted)"

text \<open>
  A reservation over its life: being reserved, held with its bytes, growing or shrinking in
  \<open>resize\<close>, being dropped. Growth is a second reservation whose bytes the owner takes over; the
  emptied one is dropped before the owner's size is set.
\<close>

datatype ByteTask =
  Reserving nat usize ReservePoint
  | Held nat usize
  | Growing nat usize usize ReservePoint
  | GrowthDropPeer nat usize usize
  | GrowthDropTotal nat usize usize
  | ShrinkPeer nat usize usize
  | ShrinkTotal nat usize usize
  | DropPeer nat usize
  | DropTotal nat usize
  | Finished

fun advance :: "ServerResourceLimits \<Rightarrow> ByteTask \<Rightarrow> ByteCounters \<Rightarrow> ByteCounters \<times> ByteTask" where
  "advance limits (Reserving peer bytes point) counters =
     (let (counters', answer) = reserve_step limits peer bytes point counters
      in (counters', case answer of
            Running point' \<Rightarrow> Reserving peer bytes point' | Granted \<Rightarrow> Held peer bytes | Denied \<Rightarrow> Finished))"
| "advance limits (Growing peer bytes growth point) counters =
     (let (counters', answer) = reserve_step limits peer growth point counters
      in (counters', case answer of
            Running point' \<Rightarrow> Growing peer bytes growth point'
          | Granted \<Rightarrow> GrowthDropPeer peer bytes growth
          | Denied \<Rightarrow> Held peer bytes))"
| "advance limits (GrowthDropPeer peer bytes growth) counters =
     (sub_peer peer 0 counters, GrowthDropTotal peer bytes growth)"
| "advance limits (GrowthDropTotal peer bytes growth) counters =
     (sub_total 0 counters, Held peer (bytes + growth))"
| "advance limits (ShrinkPeer peer bytes smaller) counters =
     (sub_peer peer (bytes - smaller) counters, ShrinkTotal peer bytes smaller)"
| "advance limits (ShrinkTotal peer bytes smaller) counters =
     (sub_total (bytes - smaller) counters, Held peer smaller)"
| "advance limits (DropPeer peer bytes) counters = (sub_peer peer bytes counters, DropTotal peer bytes)"
| "advance limits (DropTotal peer bytes) counters = (sub_total bytes counters, Finished)"
| "advance limits (Held peer bytes) counters = (counters, Held peer bytes)"
| "advance limits Finished counters = (counters, Finished)"

definition resize_call :: "nat \<Rightarrow> usize \<Rightarrow> usize \<Rightarrow> ByteTask" where
  "resize_call peer held bytes =
     (if held < bytes then Growing peer held (bytes - held) ReservePeer
      else if bytes = held then Held peer held
      else ShrinkPeer peer held bytes)"

section \<open>Snapshot\<close>

record ServerResourceSnapshot =
  rs_active_connections :: usize
  rs_unauthenticated_connections :: usize
  rs_address_buckets :: usize
  rs_rejected_connections :: usize
  rs_queued_bytes :: usize
  rs_peak_queued_bytes :: usize

definition resource_snapshot :: "Admission \<Rightarrow> ByteCounters \<Rightarrow> ServerResourceSnapshot" where
  "resource_snapshot state counters =
     \<lparr>rs_active_connections = ad_active state, rs_unauthenticated_connections = ad_unauthenticated state,
      rs_address_buckets = length (ad_addresses state), rs_rejected_connections = ad_rejected state,
      rs_queued_bytes = bc_total counters, rs_peak_queued_bytes = bc_peak counters\<rparr>"

end
