(* ===== verification/Server_Resource_Runs.thy ===== *)
theory Server_Resource_Runs
  imports Server_Resources Runs
begin

text \<open>
  Connections and byte reservations over time. Admissions, authentications and closed connections
  come in any order; the atomic steps of byte reservations interleave in any order, as a step
  relation with its reachable states.
\<close>

section \<open>Connections\<close>

text \<open>The live permits are those not yet dropped; an operation names one by its position.\<close>

record ConnectionTable =
  cn_admission :: Admission
  cn_permits :: "ConnectionPermit list"

datatype ConnectionStep = Admit IpAddr | Authenticate nat | Close nat

datatype ConnectionLog = AdmissionPanicked | ConnectionRejected IpAddr

definition remove_nth :: "nat \<Rightarrow> 'a list \<Rightarrow> 'a list" where
  "remove_nth n xs = take n xs @ drop (Suc n) xs"

fun connection_step ::
  "ServerResourceLimits \<Rightarrow> ConnectionStep \<Rightarrow> ConnectionTable \<Rightarrow> ConnectionTable \<times> ConnectionLog list" where
  "connection_step limits (Admit address) table =
     (case admit limits address (cn_admission table) of
        None \<Rightarrow> (table, [AdmissionPanicked])
      | Some (None, state) \<Rightarrow> (table\<lparr>cn_admission := state\<rparr>, [ConnectionRejected address])
      | Some (Some permit, state) \<Rightarrow>
          (table\<lparr>cn_admission := state, cn_permits := cn_permits table @ [permit]\<rparr>, []))"
| "connection_step limits (Authenticate n) table =
     (if n < length (cn_permits table)
      then (case authenticated (cn_permits table ! n) (cn_admission table) of
              None \<Rightarrow> (table, [AdmissionPanicked])
            | Some (permit, state) \<Rightarrow>
                (table\<lparr>cn_admission := state, cn_permits := (cn_permits table)[n := permit]\<rparr>, []))
      else (table, []))"
| "connection_step limits (Close n) table =
     (if n < length (cn_permits table)
      then (case drop_permit (cn_permits table ! n) (cn_admission table) of
              None \<Rightarrow> (table, [AdmissionPanicked])
            | Some state \<Rightarrow>
                (table\<lparr>cn_admission := state, cn_permits := remove_nth n (cn_permits table)\<rparr>, []))
      else (table, []))"

definition no_connections :: ConnectionTable where
  "no_connections = \<lparr>cn_admission = default_admission, cn_permits = []\<rparr>"

definition unauthenticated_permits :: "ConnectionPermit list \<Rightarrow> nat" where
  "unauthenticated_permits permits = length (filter cp_unauthenticated permits)"

definition permits_of :: "IpAddr \<Rightarrow> ConnectionPermit list \<Rightarrow> nat" where
  "permits_of address permits = length (filter (\<lambda>permit. cp_address permit = address) permits)"

text \<open>The counters count the live permits exactly, with no bucket for an address without one.\<close>

definition admission_ok :: "ServerResourceLimits \<Rightarrow> Admission \<Rightarrow> ConnectionPermit list \<Rightarrow> bool" where
  "admission_ok limits state permits \<longleftrightarrow>
     ad_active state = length permits
     \<and> ad_unauthenticated state = unauthenticated_permits permits
     \<and> bt_wf (ad_addresses state)
     \<and> (\<forall>address. bt_get (ad_addresses state) address
          = (if permits_of address permits = 0 then None else Some (permits_of address permits)))
     \<and> ad_active state \<le> rl_active_connections limits
     \<and> ad_unauthenticated state \<le> rl_unauthenticated_connections limits
     \<and> (\<forall>address. permits_of address permits \<le> rl_connections_per_address limits)"

definition table_ok :: "ServerResourceLimits \<Rightarrow> ConnectionTable \<Rightarrow> bool" where
  "table_ok limits table \<longleftrightarrow>
     rl_active_connections limits \<le> u64_max \<and> admission_ok limits (cn_admission table) (cn_permits table)"

lemma permit_counts_append:
  "unauthenticated_permits (ps @ qs) = unauthenticated_permits ps + unauthenticated_permits qs"
  "permits_of address (ps @ qs) = permits_of address ps + permits_of address qs"
  by (simp_all add: unauthenticated_permits_def permits_of_def)

lemma permit_counts_simps [simp]:
  "unauthenticated_permits [] = 0" "permits_of address [] = 0"
  "unauthenticated_permits (p # ps) = (if cp_unauthenticated p then 1 else 0) + unauthenticated_permits ps"
  "permits_of address (p # ps) = (if cp_address p = address then 1 else 0) + permits_of address ps"
  by (simp_all add: unauthenticated_permits_def permits_of_def)

lemma permit_counts_le:
  "unauthenticated_permits ps \<le> length ps" "permits_of address ps \<le> length ps"
  by (simp_all add: unauthenticated_permits_def permits_of_def)

text \<open>The permits around the one an operation names.\<close>

lemma split_at:
  assumes "n < length xs"
  obtains before after where "xs = before @ xs ! n # after" "length before = n"
    "\<And>y. xs[n := y] = before @ y # after" "remove_nth n xs = before @ after"
proof
  show "xs = take n xs @ xs ! n # drop (Suc n) xs" using assms by (rule id_take_nth_drop)
  show "length (take n xs) = n" using assms by simp
  show "xs[n := y] = take n xs @ y # drop (Suc n) xs" for y using assms by (rule upd_conv_take_nth_drop)
  show "remove_nth n xs = take n xs @ drop (Suc n) xs" by (simp add: remove_nth_def)
qed

lemma admit_ok:
  assumes ok: "admission_ok limits state permits" and fits: "rl_active_connections limits \<le> u64_max"
  shows "\<exists>permit state'. admit limits address state = Some (permit, state')
    \<and> admission_ok limits state' (permits @ (case permit of None \<Rightarrow> [] | Some p \<Rightarrow> [p]))"
proof -
  define addr where "addr = normalized_address address"
  have "address_count state addr = permits_of addr permits"
    using ok by (simp add: admission_ok_def address_count_def)
  moreover have "permits_of addr permits \<le> ad_active state" "ad_unauthenticated state \<le> ad_active state"
    using ok permit_counts_le by (simp_all add: admission_ok_def)
  ultimately show ?thesis
    using ok fits
    by (auto simp: admit_def Let_def admission_ok_def usize_incr_def permit_counts_append bt_wf_insert
        simp flip: addr_def)
qed

lemma authenticated_ok:
  assumes "admission_ok limits state (before @ p # after)"
  shows "\<exists>p' state'. authenticated p state = Some (p', state') \<and> admission_ok limits state' (before @ p' # after)"
  using assms
  by (cases "cp_unauthenticated p")
    (auto simp: authenticated_def usize_decr_def admission_ok_def permit_counts_append)

lemma drop_permit_ok:
  assumes ok: "admission_ok limits state (before @ p # after)"
  shows "\<exists>state'. drop_permit p state = Some state' \<and> admission_ok limits state' (before @ after)"
proof -
  define k where "k = permits_of (cp_address p) (before @ after)"
  have get: "bt_get (ad_addresses state) (cp_address p) = Some (Suc k)"
    using ok by (simp add: admission_ok_def permit_counts_append k_def)
  define addresses where "addresses = (if k = 0 then bt_remove (cp_address p) (ad_addresses state)
    else bt_insert (cp_address p) k (ad_addresses state))"
  define unauthenticated where "unauthenticated = unauthenticated_permits (before @ after)"
  have result: "drop_permit p state = Some (state\<lparr>ad_active := length (before @ after),
      ad_unauthenticated := unauthenticated, ad_addresses := addresses\<rparr>)"
    using ok get
    by (auto simp: drop_permit_def usize_decr_def admission_ok_def permit_counts_append addresses_def
        unauthenticated_def)
  have addresses: "bt_get addresses address
      = (if permits_of address (before @ after) = 0 then None else Some (permits_of address (before @ after)))" for address
    using ok by (auto simp: addresses_def k_def admission_ok_def permit_counts_append)
  have "bt_wf addresses"
    using ok by (auto simp: addresses_def admission_ok_def)
  moreover have "permits_of address (before @ after) \<le> rl_connections_per_address limits" for address
  proof -
    have "permits_of address (before @ p # after) \<le> rl_connections_per_address limits"
      using ok by (simp add: admission_ok_def)
    then show ?thesis by (simp add: permit_counts_append)
  qed
  ultimately show ?thesis
    using ok addresses by (auto simp: result admission_ok_def unauthenticated_def permit_counts_append)
qed

lemma connection_step_ok:
  assumes ok: "table_ok limits table"
  shows "table_ok limits (fst (connection_step limits l table))
    \<and> AdmissionPanicked \<notin> set (snd (connection_step limits l table))"
proof (cases l)
  case (Admit address)
  with ok admit_ok [of limits "cn_admission table" "cn_permits table" address] show ?thesis
    by (auto simp: table_ok_def split: option.splits)
next
  case (Authenticate n)
  show ?thesis
  proof (cases "n < length (cn_permits table)")
    case True
    then obtain before after where split: "cn_permits table = before @ cn_permits table ! n # after"
      "\<And>y. (cn_permits table)[n := y] = before @ y # after"
      by (rule split_at) blast
    with authenticated_ok [of limits "cn_admission table" before "cn_permits table ! n" after] ok
      Authenticate True show ?thesis
      by (auto simp: table_ok_def)
  qed (use ok Authenticate in simp)
next
  case (Close n)
  show ?thesis
  proof (cases "n < length (cn_permits table)")
    case True
    then obtain before after where split: "cn_permits table = before @ cn_permits table ! n # after"
      "remove_nth n (cn_permits table) = before @ after"
      by (rule split_at) blast
    with drop_permit_ok [of limits "cn_admission table" before "cn_permits table ! n" after] ok
      Close True show ?thesis
      by (auto simp: table_ok_def)
  qed (use ok Close in simp)
qed

interpretation admission: logged_invariant "connection_step limits" "\<lambda>_. True"
  "\<lambda>tr table. table_ok limits table \<and> AdmissionPanicked \<notin> set tr" for limits
  by unfold_locales (use connection_step_ok [of limits] in \<open>simp_all del: connection_step.simps\<close>)

lemma no_connections_ok: "rl_active_connections limits \<le> u64_max \<Longrightarrow> table_ok limits no_connections"
  by (simp add: table_ok_def admission_ok_def no_connections_def default_admission_def)

section \<open>Interleaved byte reservations\<close>

record ByteSystem =
  by_counters :: ByteCounters
  by_tasks :: "ByteTask list"

definition no_reservations :: ByteSystem where
  "no_reservations = \<lparr>by_counters = \<lparr>bc_total = 0, bc_peak = 0, bc_peers = []\<rparr>, by_tasks = []\<rparr>"

text \<open>
  A step opens a budget for a peer, starts a reservation, resizes or drops one that is held, or lets
  one reservation do its next access to a counter.
\<close>

inductive byte_step :: "ServerResourceLimits \<Rightarrow> ByteSystem \<Rightarrow> ByteSystem \<Rightarrow> bool" for limits where
  new_peer: "byte_step limits s (s\<lparr>by_counters := (by_counters s)\<lparr>bc_peers := bc_peers (by_counters s) @ [0]\<rparr>\<rparr>)"
| reserve: "peer < length (bc_peers (by_counters s)) \<Longrightarrow>
    byte_step limits s (s\<lparr>by_tasks := by_tasks s @ [Reserving peer bytes ReservePeer]\<rparr>)"
| resize: "i < length (by_tasks s) \<Longrightarrow> by_tasks s ! i = Held peer held \<Longrightarrow>
    byte_step limits s (s\<lparr>by_tasks := (by_tasks s)[i := resize_call peer held bytes]\<rparr>)"
| release: "i < length (by_tasks s) \<Longrightarrow> by_tasks s ! i = Held peer held \<Longrightarrow>
    byte_step limits s (s\<lparr>by_tasks := (by_tasks s)[i := DropPeer peer held]\<rparr>)"
| advances: "i < length (by_tasks s) \<Longrightarrow> advance limits (by_tasks s ! i) (by_counters s) = (counters, task) \<Longrightarrow>
    byte_step limits s (s\<lparr>by_counters := counters, by_tasks := (by_tasks s)[i := task]\<rparr>)"

inductive byte_reachable :: "ServerResourceLimits \<Rightarrow> ByteSystem \<Rightarrow> bool" for limits where
  start: "byte_reachable limits no_reservations"
| step: "byte_reachable limits s \<Longrightarrow> byte_step limits s s' \<Longrightarrow> byte_reachable limits s'"

section \<open>What a reservation has in the counters\<close>

fun point_peer :: "ReservePoint \<Rightarrow> nat \<Rightarrow> nat" where
  "point_peer ReservePeer bytes = 0"
| "point_peer _ bytes = bytes"

fun point_total :: "ReservePoint \<Rightarrow> nat \<Rightarrow> nat" where
  "point_total (RecordPeak _) bytes = bytes"
| "point_total _ bytes = 0"

fun task_peer :: "ByteTask \<Rightarrow> nat option" where
  "task_peer (Reserving peer _ _) = Some peer"
| "task_peer (Held peer _) = Some peer"
| "task_peer (Growing peer _ _ _) = Some peer"
| "task_peer (GrowthDropPeer peer _ _) = Some peer"
| "task_peer (GrowthDropTotal peer _ _) = Some peer"
| "task_peer (ShrinkPeer peer _ _) = Some peer"
| "task_peer (ShrinkTotal peer _ _) = Some peer"
| "task_peer (DropPeer peer _) = Some peer"
| "task_peer (DropTotal peer _) = Some peer"
| "task_peer Finished = None"

fun in_peer :: "ByteTask \<Rightarrow> nat" where
  "in_peer (Reserving _ bytes point) = point_peer point bytes"
| "in_peer (Held _ bytes) = bytes"
| "in_peer (Growing _ bytes growth point) = bytes + point_peer point growth"
| "in_peer (GrowthDropPeer _ bytes growth) = bytes + growth"
| "in_peer (GrowthDropTotal _ bytes growth) = bytes + growth"
| "in_peer (ShrinkPeer _ bytes smaller) = bytes"
| "in_peer (ShrinkTotal _ bytes smaller) = smaller"
| "in_peer (DropPeer _ bytes) = bytes"
| "in_peer (DropTotal _ bytes) = 0"
| "in_peer Finished = 0"

fun in_total :: "ByteTask \<Rightarrow> nat" where
  "in_total (Reserving _ bytes point) = point_total point bytes"
| "in_total (Held _ bytes) = bytes"
| "in_total (Growing _ bytes growth point) = bytes + point_total point growth"
| "in_total (GrowthDropPeer _ bytes growth) = bytes + growth"
| "in_total (GrowthDropTotal _ bytes growth) = bytes + growth"
| "in_total (ShrinkPeer _ bytes smaller) = bytes"
| "in_total (ShrinkTotal _ bytes smaller) = bytes"
| "in_total (DropPeer _ bytes) = bytes"
| "in_total (DropTotal _ bytes) = bytes"
| "in_total Finished = 0"

definition peer_share :: "nat \<Rightarrow> ByteTask \<Rightarrow> nat" where
  "peer_share peer task = (if task_peer task = Some peer then in_peer task else 0)"

text \<open>A size to shrink to is smaller, and a total to record has passed the limit check.\<close>

fun task_ok :: "ServerResourceLimits \<Rightarrow> ByteTask \<Rightarrow> bool" where
  "task_ok limits (ShrinkPeer _ bytes smaller) \<longleftrightarrow> smaller \<le> bytes"
| "task_ok limits (ShrinkTotal _ bytes smaller) \<longleftrightarrow> smaller \<le> bytes"
| "task_ok limits (Reserving _ _ (RecordPeak reached)) \<longleftrightarrow> reached \<le> rl_queued_bytes_total limits"
| "task_ok limits (Growing _ _ _ (RecordPeak reached)) \<longleftrightarrow> reached \<le> rl_queued_bytes_total limits"
| "task_ok limits _ \<longleftrightarrow> True"

definition counters_ok :: "ServerResourceLimits \<Rightarrow> ByteCounters \<Rightarrow> bool" where
  "counters_ok limits counters \<longleftrightarrow>
     bc_total counters \<le> min (rl_queued_bytes_total limits) u64_max
     \<and> bc_peak counters \<le> rl_queued_bytes_total limits
     \<and> list_all (\<lambda>bytes. bytes \<le> min (rl_queued_bytes_per_peer limits) u64_max) (bc_peers counters)"

definition bytes_ok :: "ServerResourceLimits \<Rightarrow> ByteSystem \<Rightarrow> bool" where
  "bytes_ok limits s \<longleftrightarrow>
     counters_ok limits (by_counters s)
     \<and> list_all (task_ok limits) (by_tasks s)
     \<and> list_all (\<lambda>task. \<forall>peer. task_peer task = Some peer \<longrightarrow> peer < length (bc_peers (by_counters s))) (by_tasks s)
     \<and> bc_total (by_counters s) = (\<Sum>task\<leftarrow>by_tasks s. in_total task)
     \<and> (\<forall>peer < length (bc_peers (by_counters s)).
          bc_peers (by_counters s) ! peer = (\<Sum>task\<leftarrow>by_tasks s. peer_share peer task))"

lemma wrapping_sub_exact: "b \<le> a \<Longrightarrow> a \<le> u64_max \<Longrightarrow> wrapping_sub a b = a - b"
  by (simp add: wrapping_sub_def mod_if)

definition point_ok :: "ServerResourceLimits \<Rightarrow> ReservePoint \<Rightarrow> bool" where
  "point_ok limits point = (case point of RecordPeak reached \<Rightarrow> reached \<le> rl_queued_bytes_total limits | _ \<Rightarrow> True)"

fun answer_peer :: "ReserveAnswer \<Rightarrow> nat \<Rightarrow> nat" where
  "answer_peer (Running point) bytes = point_peer point bytes"
| "answer_peer Granted bytes = bytes"
| "answer_peer Denied bytes = 0"

fun answer_total :: "ReserveAnswer \<Rightarrow> nat \<Rightarrow> nat" where
  "answer_total (Running point) bytes = point_total point bytes"
| "answer_total Granted bytes = bytes"
| "answer_total Denied bytes = 0"

fun answer_ok :: "ServerResourceLimits \<Rightarrow> ReserveAnswer \<Rightarrow> bool" where
  "answer_ok limits (Running point) = point_ok limits point"
| "answer_ok limits _ = True"

text \<open>An access moves the counters by exactly what it moves the share of its reservation.\<close>

definition moves ::
  "ServerResourceLimits \<Rightarrow> nat \<Rightarrow> nat \<times> nat \<Rightarrow> ByteCounters \<Rightarrow> nat \<times> nat \<Rightarrow> ByteCounters \<Rightarrow> bool" where
  "moves limits peer shares c shares' c' \<longleftrightarrow>
     counters_ok limits c'
     \<and> (\<exists>v. bc_peers c' = (bc_peers c)[peer := v] \<and> v + fst shares = bc_peers c ! peer + fst shares')
     \<and> bc_total c' + snd shares = bc_total c + snd shares'"

lemma counters_ok_peer:
  "counters_ok limits c \<Longrightarrow> peer < length (bc_peers c) \<Longrightarrow>
     bc_peers c ! peer \<le> min (rl_queued_bytes_per_peer limits) u64_max"
  by (simp add: counters_ok_def list_all_length)

lemma counters_ok_set_peer:
  "counters_ok limits c \<Longrightarrow> v \<le> min (rl_queued_bytes_per_peer limits) u64_max \<Longrightarrow>
     counters_ok limits (c\<lparr>bc_peers := (bc_peers c)[peer := v]\<rparr>)"
  by (auto simp: counters_ok_def list_all_iff dest!: set_update_subset_insert [THEN subsetD])

lemma moves_sub_peer:
  assumes "counters_ok limits c" "peer < length (bc_peers c)" "amount \<le> bc_peers c ! peer"
    and "fst shares = fst shares' + amount" "snd shares = snd shares'"
  shows "moves limits peer shares c shares' (sub_peer peer amount c)"
proof -
  have exact: "wrapping_sub (bc_peers c ! peer) amount = bc_peers c ! peer - amount"
    using assms counters_ok_peer [OF assms(1,2)] by (intro wrapping_sub_exact) simp_all
  then have "counters_ok limits (sub_peer peer amount c)"
    using assms counters_ok_peer [OF assms(1,2)] by (auto simp: sub_peer_def intro!: counters_ok_set_peer)
  with exact assms show ?thesis by (auto simp: moves_def sub_peer_def)
qed

lemma moves_sub_total:
  assumes "counters_ok limits c" "amount \<le> bc_total c"
    and "fst shares = fst shares'" "snd shares = snd shares' + amount"
  shows "moves limits peer shares c shares' (sub_total amount c)"
proof -
  have "wrapping_sub (bc_total c) amount = bc_total c - amount"
    using assms by (intro wrapping_sub_exact) (simp_all add: counters_ok_def)
  with assms show ?thesis
    by (auto simp: moves_def sub_total_def counters_ok_def intro!: exI [of _ "bc_peers c ! peer"])
qed

lemma reserve_step_moves:
  assumes ok: "counters_ok limits c" "peer < length (bc_peers c)" "point_ok limits point"
    and shares: "point_peer point bytes \<le> bc_peers c ! peer"
    and result: "reserve_step limits peer bytes point c = (c', answer)"
  shows "moves limits peer (point_peer point bytes, point_total point bytes) c
      (answer_peer answer bytes, answer_total answer bytes) c' \<and> answer_ok limits answer"
proof (cases point)
  case ReservePeer
  with result ok counters_ok_set_peer [OF ok(1)] show ?thesis
    by (auto simp: reserve_counter_def moves_def point_ok_def split: if_splits
        intro!: exI [of _ "bc_peers c ! peer"])
next
  case ReserveTotal
  with result ok show ?thesis
    by (auto simp: reserve_counter_def moves_def point_ok_def counters_ok_def split: if_splits
        intro!: exI [of _ "bc_peers c ! peer"])
next
  case RollBack
  with result shares have "moves limits peer (bytes, 0) c (0, 0) (sub_peer peer bytes c)"
    by (intro moves_sub_peer ok) simp_all
  with RollBack result show ?thesis by auto
next
  case (RecordPeak reached)
  with result ok show ?thesis
    by (auto simp: moves_def point_ok_def counters_ok_def intro!: exI [of _ "bc_peers c ! peer"])
qed

lemma moves_offset: "moves limits peer (a, b) c (a', b') c' \<Longrightarrow> moves limits peer (k + a, k + b) c (k + a', k + b') c'"
  by (auto simp: moves_def)

lemma moves_same: "counters_ok limits c \<Longrightarrow> moves limits peer shares c shares c"
  by (auto simp: moves_def intro!: exI [of _ "bc_peers c ! peer"])

lemma advance_reserving:
  assumes "counters_ok limits c" "peer < length (bc_peers c)" "point_ok limits point"
    and "point_peer point amount \<le> bc_peers c ! peer"
  obtains c' answer where "reserve_step limits peer amount point c = (c', answer)" "answer_ok limits answer"
    "moves limits peer (point_peer point amount, point_total point amount) c
       (answer_peer answer amount, answer_total answer amount) c'"
  using reserve_step_moves [OF assms] by fastforce

lemma point_task_ok:
  "task_ok limits (Reserving peer bytes point) = point_ok limits point"
  "task_ok limits (Growing peer bytes growth point) = point_ok limits point"
  by (cases point; simp add: point_ok_def)+

lemma advance_moves:
  assumes ok: "counters_ok limits c" "peer < length (bc_peers c)"
    and task: "task_peer task = Some peer" "task_ok limits task"
    and shares: "in_peer task \<le> bc_peers c ! peer" "in_total task \<le> bc_total c"
    and result: "advance limits task c = (c', task')"
  shows "moves limits peer (in_peer task, in_total task) c (in_peer task', in_total task') c'
    \<and> task_ok limits task' \<and> (task_peer task' = Some peer \<or> task' = Finished)"
proof (cases task)
  case (Reserving peer' bytes point)
  with task shares advance_reserving [OF ok, of point bytes] obtain d answer where
    "reserve_step limits peer bytes point c = (d, answer)" "answer_ok limits answer"
    "moves limits peer (point_peer point bytes, point_total point bytes) c
       (answer_peer answer bytes, answer_total answer bytes) d"
    by (auto simp: point_task_ok)
  with Reserving task(1) result show ?thesis by (cases answer) (auto simp: point_task_ok)
next
  case (Growing peer' bytes growth point)
  with task shares advance_reserving [OF ok, of point growth] obtain d answer where
    "reserve_step limits peer growth point c = (d, answer)" "answer_ok limits answer"
    and moves: "moves limits peer (point_peer point growth, point_total point growth) c
       (answer_peer answer growth, answer_total answer growth) d"
    by (auto simp: point_task_ok)
  with Growing task(1) result moves_offset [OF moves, of bytes] show ?thesis
    by (cases answer) (auto simp: point_task_ok)
next
  case (Held peer' bytes)
  with task result moves_same [OF ok(1)] show ?thesis by auto
qed (use assms in \<open>auto intro!: moves_sub_peer moves_sub_total\<close>)

section \<open>Every interleaving keeps the counters exact\<close>

lemma bytes_ok_task:
  assumes "bytes_ok limits s" "by_tasks s = before @ task # after"
  shows "task_ok limits task" "in_total task \<le> bc_total (by_counters s)"
    "task_peer task = Some peer \<Longrightarrow> peer < length (bc_peers (by_counters s))"
    "task_peer task = Some peer \<Longrightarrow> in_peer task \<le> bc_peers (by_counters s) ! peer"
  using assms by (simp_all add: bytes_ok_def peer_share_def)

lemma bytes_ok_replace:
  assumes ok: "bytes_ok limits s" and tasks: "by_tasks s = before @ task # after"
    and peer: "task_peer task = Some peer" "task_peer task' = Some peer \<or> task' = Finished" "task_ok limits task'"
    and moves: "moves limits peer (in_peer task, in_total task) (by_counters s) (in_peer task', in_total task') c'"
  shows "bytes_ok limits (s\<lparr>by_counters := c', by_tasks := before @ task' # after\<rparr>)"
proof -
  from moves obtain v where v: "bc_peers c' = (bc_peers (by_counters s))[peer := v]"
    "v + in_peer task = bc_peers (by_counters s) ! peer + in_peer task'"
    "bc_total c' + in_total task = bc_total (by_counters s) + in_total task'" "counters_ok limits c'"
    by (auto simp: moves_def)
  have share: "peer_share peer task = in_peer task" "peer_share peer task' = in_peer task'"
    using peer by (auto simp: peer_share_def)
  have other: "peer_share q task = 0" "peer_share q task' = 0" if "q \<noteq> peer" for q
    using peer that by (auto simp: peer_share_def)
  have "bc_peers c' ! q = (\<Sum>t\<leftarrow>before @ task' # after. peer_share q t)" if "q < length (bc_peers c')" for q
    using ok tasks v(1,2) that share other [of q]
    by (cases "q = peer") (auto simp: bytes_ok_def)
  with ok tasks v peer share show ?thesis
    by (auto simp: bytes_ok_def)
qed

lemma bytes_ok_advance:
  assumes ok: "bytes_ok limits s" and i: "i < length (by_tasks s)"
    and result: "advance limits (by_tasks s ! i) (by_counters s) = (c', task')"
  shows "bytes_ok limits (s\<lparr>by_counters := c', by_tasks := (by_tasks s)[i := task']\<rparr>)"
proof -
  define task where "task = by_tasks s ! i"
  from i obtain before after where split: "by_tasks s = before @ task # after"
    "\<And>y. (by_tasks s)[i := y] = before @ y # after"
    unfolding task_def by (rule split_at) blast
  note facts = bytes_ok_task [OF ok split(1)]
  show ?thesis
  proof (cases "task_peer task")
    case None
    then have "task = Finished" by (cases task) simp_all
    with result have "c' = by_counters s" "task' = task" by (simp_all flip: task_def)
    moreover have "(by_tasks s)[i := task] = by_tasks s" by (simp add: task_def)
    ultimately show ?thesis using ok by simp
  next
    case (Some peer)
    have "counters_ok limits (by_counters s)" using ok by (simp add: bytes_ok_def)
    from advance_moves [OF this facts(3) [OF Some] Some facts(1) facts(4) [OF Some] facts(2)]
      result bytes_ok_replace [OF ok split(1) Some]
    show ?thesis by (simp add: split(2) task_def [symmetric])
  qed
qed

lemma resize_call_laws:
  "in_peer (resize_call peer held bytes) = held" "in_total (resize_call peer held bytes) = held"
  "task_peer (resize_call peer held bytes) = Some peer" "task_ok limits (resize_call peer held bytes)"
  by (simp_all add: resize_call_def)

lemma bytes_ok_call:
  assumes ok: "bytes_ok limits s" and i: "i < length (by_tasks s)" "by_tasks s ! i = Held peer held"
    and call: "in_peer task' = held" "in_total task' = held" "task_peer task' = Some peer" "task_ok limits task'"
  shows "bytes_ok limits (s\<lparr>by_tasks := (by_tasks s)[i := task']\<rparr>)"
proof -
  from i obtain before after where split: "by_tasks s = before @ Held peer held # after"
    "\<And>y. (by_tasks s)[i := y] = before @ y # after"
    by (metis split_at)
  have "moves limits peer (held, held) (by_counters s) (held, held) (by_counters s)"
    using ok by (intro moves_same) (simp add: bytes_ok_def)
  with bytes_ok_replace [OF ok split(1), of peer task' "by_counters s"] call show ?thesis
    by (simp add: split(2))
qed

lemma bytes_ok_step: "byte_step limits s s' \<Longrightarrow> bytes_ok limits s \<Longrightarrow> bytes_ok limits s'"
proof (induction rule: byte_step.induct)
  case (new_peer s)
  have "(\<Sum>task\<leftarrow>by_tasks s. peer_share (length (bc_peers (by_counters s))) task) = 0"
    using new_peer by (auto simp: bytes_ok_def peer_share_def list_all_iff)
  with new_peer show ?case
    by (auto simp: bytes_ok_def counters_ok_def list_all_iff nth_append less_Suc_eq)
next
  case (reserve peer s bytes)
  then show ?case by (auto simp: bytes_ok_def peer_share_def)
next
  case (resize i s peer held bytes)
  then show ?case by (intro bytes_ok_call) (simp_all add: resize_call_laws)
next
  case (release i s peer held)
  then show ?case by (intro bytes_ok_call) simp_all
next
  case (advances i s counters task)
  then show ?case by (intro bytes_ok_advance)
qed

lemma bytes_ok_reachable: "byte_reachable limits s \<Longrightarrow> bytes_ok limits s"
proof (induction rule: byte_reachable.induct)
  case start
  show ?case by (simp add: bytes_ok_def counters_ok_def no_reservations_def)
qed (rule bytes_ok_step)

section \<open>Schedules\<close>

text \<open>An executable reading of the step relation; a label that does not apply changes nothing.\<close>

datatype ByteLabel = NewPeer | CallReserve nat usize | CallResize nat usize | CallDrop nat | Advance nat

fun byte_do :: "ServerResourceLimits \<Rightarrow> ByteLabel \<Rightarrow> ByteSystem \<Rightarrow> ByteSystem" where
  "byte_do limits NewPeer s = s\<lparr>by_counters := (by_counters s)\<lparr>bc_peers := bc_peers (by_counters s) @ [0]\<rparr>\<rparr>"
| "byte_do limits (CallReserve peer bytes) s =
     (if peer < length (bc_peers (by_counters s))
      then s\<lparr>by_tasks := by_tasks s @ [Reserving peer bytes ReservePeer]\<rparr> else s)"
| "byte_do limits (CallResize i bytes) s =
     (if i < length (by_tasks s)
      then (case by_tasks s ! i of
              Held peer held \<Rightarrow> s\<lparr>by_tasks := (by_tasks s)[i := resize_call peer held bytes]\<rparr> | _ \<Rightarrow> s)
      else s)"
| "byte_do limits (CallDrop i) s =
     (if i < length (by_tasks s)
      then (case by_tasks s ! i of Held peer held \<Rightarrow> s\<lparr>by_tasks := (by_tasks s)[i := DropPeer peer held]\<rparr> | _ \<Rightarrow> s)
      else s)"
| "byte_do limits (Advance i) s =
     (if i < length (by_tasks s)
      then (let (counters, task) = advance limits (by_tasks s ! i) (by_counters s)
            in s\<lparr>by_counters := counters, by_tasks := (by_tasks s)[i := task]\<rparr>)
      else s)"

lemma byte_do_step: "byte_do limits l s = s \<or> byte_step limits s (byte_do limits l s)"
  by (cases l) (auto simp: split_def Let_def intro: byte_step.intros split: ByteTask.splits)

definition byte_run :: "ServerResourceLimits \<Rightarrow> ByteLabel list \<Rightarrow> ByteSystem" where
  "byte_run limits labels = fold (byte_do limits) labels no_reservations"

lemma byte_run_reachable: "byte_reachable limits (byte_run limits labels)"
proof -
  have "byte_reachable limits s \<Longrightarrow> byte_reachable limits (fold (byte_do limits) labels s)" for s
  proof (induction labels arbitrary: s)
    case (Cons l labels)
    have "byte_reachable limits (byte_do limits l s)"
      using byte_do_step [of limits l s] Cons.prems byte_reachable.step by metis
    then show ?case by (simp add: Cons.IH)
  qed simp
  then show ?thesis by (simp add: byte_run_def byte_reachable.start)
qed

fun is_idle :: "ByteTask \<Rightarrow> bool" where
  "is_idle (Held _ _) = True"
| "is_idle Finished = True"
| "is_idle _ = False"

fun held_bytes :: "ByteTask \<Rightarrow> nat" where
  "held_bytes (Held _ bytes) = bytes"
| "held_bytes _ = 0"

definition held_by :: "nat \<Rightarrow> ByteTask \<Rightarrow> nat" where
  "held_by peer task = (if task_peer task = Some peer then held_bytes task else 0)"

lemma held_within_shares: "held_bytes task \<le> in_total task" "held_by peer task \<le> peer_share peer task"
  by (cases task; simp add: held_by_def peer_share_def)+

lemma idle_shares:
  "is_idle task \<Longrightarrow> in_total task = held_bytes task" "is_idle task \<Longrightarrow> peer_share peer task = held_by peer task"
  by (cases task; simp add: held_by_def peer_share_def)+

text \<open>How many accesses the running call of a reservation has left, whatever the others do.\<close>

fun point_left :: "ReservePoint \<Rightarrow> nat" where
  "point_left ReservePeer = 3"
| "point_left ReserveTotal = 2"
| "point_left _ = 1"

fun calls_left :: "ByteTask \<Rightarrow> nat" where
  "calls_left (Reserving _ _ point) = point_left point"
| "calls_left (Growing _ _ _ point) = point_left point + 2"
| "calls_left (GrowthDropPeer _ _ _) = 2"
| "calls_left (GrowthDropTotal _ _ _) = 1"
| "calls_left (ShrinkPeer _ _ _) = 2"
| "calls_left (ShrinkTotal _ _ _) = 1"
| "calls_left (DropPeer _ _) = 2"
| "calls_left (DropTotal _ _) = 1"
| "calls_left _ = 0"

lemma reserve_step_left:
  "reserve_step limits peer bytes point c = (c', Running point') \<Longrightarrow> point_left point' < point_left point"
  by (cases point) (auto split: option.splits)

lemma advance_left: "\<not> is_idle task \<Longrightarrow> calls_left (snd (advance limits task c)) < calls_left task"
proof (cases task)
  case (Reserving peer bytes point)
  obtain c' answer where "reserve_step limits peer bytes point c = (c', answer)" by fastforce
  with Reserving reserve_step_left [of limits peer bytes point c c'] show ?thesis
    by (cases answer; cases point) (auto split: option.splits)
next
  case (Growing peer bytes growth point)
  obtain c' answer where "reserve_step limits peer growth point c = (c', answer)" by fastforce
  with Growing reserve_step_left [of limits peer growth point c c'] show ?thesis
    by (cases answer; cases point) (auto split: option.splits)
qed auto

section \<open>Properties\<close>

definition sample_limits :: ServerResourceLimits where
  "sample_limits = default_limits\<lparr>rl_queued_bytes_per_peer := 1024, rl_queued_bytes_total := 1536\<rparr>"

text \<open>Two peers reserve 900 and 700 bytes of a total of 1536; the second is refused and rolls back.\<close>

abbreviation sample_schedule :: "ByteLabel list" where
  "sample_schedule \<equiv> [NewPeer, NewPeer, CallReserve 0 900, CallReserve 1 700, Advance 1, Advance 0, Advance 0,
     Advance 1, Advance 0, Advance 1]"

lemmas schedule_eval =
  byte_run_def no_reservations_def sample_limits_def default_limits_def reserve_counter_def u64_max_def
  sub_peer_def sub_total_def wrapping_sub_def resize_call_def

text \<open>
  C5. Byte budgets are never oversubscribed, however the accesses of concurrent reservations
  interleave: in every reachable state the total and its recorded peak are within the limit of the
  server and every peer's counter within the limit of a peer, and the reservations held, of all
  peers and of one peer, are covered by the counter they were taken from.
\<close>
theorem byte_budgets_never_oversubscribed:
  assumes "byte_reachable limits s"
  shows "bc_total (by_counters s) \<le> rl_queued_bytes_total limits
    \<and> bc_peak (by_counters s) \<le> rl_queued_bytes_total limits
    \<and> (\<Sum>task\<leftarrow>by_tasks s. held_bytes task) \<le> bc_total (by_counters s)
    \<and> (\<forall>peer < length (bc_peers (by_counters s)).
         bc_peers (by_counters s) ! peer \<le> rl_queued_bytes_per_peer limits
         \<and> (\<Sum>task\<leftarrow>by_tasks s. held_by peer task) \<le> bc_peers (by_counters s) ! peer)"
  using bytes_ok_reachable [OF assms] counters_ok_peer [of limits "by_counters s"]
  by (auto simp: bytes_ok_def counters_ok_def intro!: sum_list_mono held_within_shares)

theorem byte_budgets_never_oversubscribed_witness:
  "bc_total (by_counters (byte_run sample_limits sample_schedule)) = 900
   \<and> bc_total (by_counters (byte_run sample_limits sample_schedule)) \<le> rl_queued_bytes_total sample_limits"
  using byte_budgets_never_oversubscribed [OF byte_run_reachable [of sample_limits sample_schedule]]
  by (simp add: schedule_eval)

text \<open>
  C15. No byte leaks: whenever no call is running, after any interleaving of reservations, refused
  reservations with their roll back, resizes and releases, the total and every peer's counter are
  exactly the bytes of the reservations held; with none held, all counters are zero.
\<close>
theorem idle_counters_equal_held_bytes:
  assumes "byte_reachable limits s" "list_all is_idle (by_tasks s)"
  shows "bc_total (by_counters s) = (\<Sum>task\<leftarrow>by_tasks s. held_bytes task)
    \<and> (\<forall>peer < length (bc_peers (by_counters s)).
         bc_peers (by_counters s) ! peer = (\<Sum>task\<leftarrow>by_tasks s. held_by peer task))"
proof -
  have "map in_total (by_tasks s) = map held_bytes (by_tasks s)"
    "map (peer_share peer) (by_tasks s) = map (held_by peer) (by_tasks s)" for peer
    using assms(2) by (simp_all add: list_all_iff idle_shares)
  with bytes_ok_reachable [OF assms(1)] show ?thesis by (simp add: bytes_ok_def)
qed

theorem idle_counters_equal_held_bytes_witness:
  "list_all is_idle (by_tasks (byte_run sample_limits sample_schedule))
   \<and> bc_total (by_counters (byte_run sample_limits sample_schedule))
     = (\<Sum>task\<leftarrow>by_tasks (byte_run sample_limits sample_schedule). held_bytes task)"
proof -
  have idle: "list_all is_idle (by_tasks (byte_run sample_limits sample_schedule))"
    by (simp add: schedule_eval)
  from idle_counters_equal_held_bytes [OF byte_run_reachable idle] idle show ?thesis by simp
qed

text \<open>
  C40. Admission counts exactly the connections that are open: after any sequence of admissions,
  authentications and closings, the counters and the buckets per address are those of the live
  permits and within their limits, addresses without a permit have no bucket, and no counter was
  driven below zero or past its range.
\<close>
theorem admission_counts_live_connections:
  assumes "rl_active_connections limits \<le> u64_max"
  shows "AdmissionPanicked \<notin> set (snd (run_steps (connection_step limits) steps no_connections))
    \<and> admission_ok limits (cn_admission (fst (run_steps (connection_step limits) steps no_connections)))
        (cn_permits (fst (run_steps (connection_step limits) steps no_connections)))"
  using admission.holds_run [of limits no_connections "[]" steps] no_connections_ok [OF assms]
  by (simp add: table_ok_def)

theorem admission_counts_live_connections_witness:
  "rl_active_connections default_limits \<le> u64_max
   \<and> AdmissionPanicked \<notin> set (snd (run_steps (connection_step default_limits)
       [Admit (V4 1), Admit (V6 0xffff00000001), Authenticate 0, Close 1, Close 0] no_connections))"
  using admission_counts_live_connections [of default_limits
      "[Admit (V4 1), Admit (V6 0xffff00000001), Authenticate 0, Close 1, Close 0]"]
  by (simp add: default_limits_def u64_max_def del: connection_step.simps)

end
