(* ===== verification/Spec2Isabelle.thy ===== *)
theory Spec2Isabelle
  imports Playback_Properties Lifecycle_Check_Proofs Lifecycle_Finality Room_Roster Outbox_Properties Player_Transition_Properties
    Server_Resource_Runs
begin

text \<open>
  Verification of Sorotte, a client and server for watching media together.

  \<^bold>\<open>The program.\<close> A client drives a media player, shares what the player does with a room on a
  server, and applies what others do. Its player adapter (\<open>crates/sorotte-player-mpv\<close>) turns the
  player's asynchronous and unreliable event stream into ordered events and exactly-once outcomes;
  the core of that adapter is the lifecycle reducer of \<open>lifecycle.rs\<close>, a state machine over load
  attempts, commands, seeks, playlist reconciliation and attachment epochs. The client core
  (\<open>crates/sorotte-client-core\<close>) turns outcomes into protocol messages and queues them in the
  outboxes of \<open>outbox.rs\<close>, which a transport drains; its classifier (\<open>player_transition.rs\<close>)
  decides whether a pause or play the player reports was asked for by Sorotte, is technical, or is
  a gesture of the user in the player. Its playback coordinator (\<open>playback_coordinator.rs\<close>) takes what
  the room wants and what the player reports and decides which commands the player gets: pause and
  play, seeks into parts that are not buffered yet, and the recovery of a client that fell behind.
  The server (\<open>crates/sorotte-server\<close>) keeps
  the members of its rooms in the roster of \<open>room_roster.rs\<close>; it admits connections and accounts
  for the bytes queued for each peer with the counters of \<open>resources.rs\<close>.

  \<^bold>\<open>Theories.\<close>
  \<^item> \<open>Prelude\<close>: \<open>u64\<close> arithmetic as the code asks for it, \<open>BTreeMap\<close> as a key-sorted list. \<open>F64\<close>:
    binary64 with rounding to nearest even. \<open>F64_Order\<close>: the rest of its interface, the total order,
    and monotone and exact rounding.
  \<^item> \<open>Player_Api\<close>: the vocabulary of \<open>sorotte-player-api/src/lib.rs\<close> that crosses the adapter
    boundary.
  \<^item> \<open>Lifecycle_Types\<close>, \<open>Lifecycle_Compaction\<close>, \<open>Lifecycle_Delivery\<close>, \<open>Lifecycle_Ops\<close> and
    \<open>Lifecycle_Reducer\<close>: the state \<open>PlayerLifecycleState\<close>, its queues, batches and acknowledgements,
    and one definition per input of \<open>reduce_player_lifecycle\<close>. The reducer's mutable state and the
    list of effects it fills are one record, \<open>reducer_context\<close>. \<open>Lifecycle_Checks\<close>: the debug check
    \<open>assert_invariants\<close>.
  \<^item> \<open>Runs\<close>: sequences of steps with a log, and the contracts of an invariant and of a
    first-in first-out outbox as locales. The lifecycle reducer, the protocol outbox and the
    classifier interpret them.
  \<^item> \<open>Lifecycle_Frame\<close>, \<open>Lifecycle_Order\<close>, \<open>Lifecycle_Batches\<close>, \<open>Lifecycle_Emission\<close>: what an input
    does to delivery, stated once in the locale \<open>delivery_invariant\<close>, and its interpretations: order
    of the queues, nothing lost or repeated, strictly increasing orders, bounded telemetry.
  \<^item> \<open>Lifecycle_Commands\<close>, \<open>Lifecycle_Attempts\<close>, \<open>Lifecycle_Attempt_Inv\<close>, \<open>Lifecycle_Attempt_Runs\<close>,
    \<open>Lifecycle_Load_Outcomes\<close>, \<open>Lifecycle_Chains\<close>: the same for commands and for load attempts,
    with one outcome per command and per attempt and the end of the walks along successor links.
    \<open>Lifecycle_Finality\<close>: ids of attempts are never given out again, so a settled attempt stays
    settled through acknowledgements and replacements of the attachment.
    \<open>Lifecycle_Check_Proofs\<close>: which messages the debug check can still report. \<open>Lifecycle_Eval\<close>:
    runs from a fresh state and their evaluation.
  \<^item> \<open>Protocol_State\<close>, \<open>Protocol_Outbox\<close>: messages, the merge of State messages, the effect queue and
    the protocol outbox. \<open>Outbox_Entries\<close>, \<open>Outbox_Inv\<close>, \<open>Outbox_Runs\<close>, \<open>Outbox_Leases\<close>: its
    operations as functions on one list of entries, its invariant, the law of one step and the
    laws of runs. \<open>Outbox_Properties\<close>: what they add up to.
  \<^item> \<open>Player_Transition\<close>: the classifier, its registry of commands and its pending edge.
    \<open>Player_Transition_Runs\<close>: the loop that matches a command, the invariant, and one step.
    \<open>Player_Transition_Properties\<close>: laws of its runs, as interpretations of the locale
    \<open>logged_invariant\<close>, and the properties.
  \<^item> \<open>Playback_Types\<close>, \<open>Playback_Seek\<close>, \<open>Playback_Coordinator\<close>, \<open>Playback_Preparation\<close> and
    \<open>Playback_Operations\<close>: the coordinator, one definition per function of \<open>playback_coordinator.rs\<close>
    and per stage of its long ones; the vector of actions an operation returns is the last field of
    the state, and an operation that can reach \<open>clamp\<close> or \<open>expect\<close> returns an option, \<open>None\<close> being
    the panic. \<open>Playback_Steps\<close>: guarded small steps as an inductive relation; \<open>Playback_Traces\<close> and
    \<open>Playback_Calls\<close>: every operation is a sequence of them and returns. \<open>Playback_Runs\<close>: the
    invariants, checked once per step, and the calls of a client as data. \<open>Playback_Config\<close>: the
    normalized configuration. \<open>Playback_Invariants\<close>: runs of calls that may panic, in the locale
    \<open>panic_free_steps\<close>, which the coordinator interprets twice. \<open>Playback_Pause\<close>: the pause of a
    paused room. \<open>Playback_Examples\<close>: evaluated runs. \<open>Playback_Properties\<close>: the properties.
  \<^item> \<open>Room_Roster\<close>: the roster, its specification as a map and the refinement, through the locale
    \<open>data_refinement\<close>.
  \<^item> \<open>Server_Resources\<close>: limits, admission and byte budgets. \<open>Server_Resource_Runs\<close>: admission over any
    sequence of connections, and the atomic accesses of concurrent byte reservations as a step
    relation with its reachable states; the interleaving is that of the individual counters, each of
    which is updated in one total order.
  \<^item> This theory: the properties of the reducer and of the roster.

  \<^bold>\<open>Bounds.\<close> Properties that speak about the order of delivery assume that no counter of a published
  order has reached the end of \<open>u64\<close> (\<open>below_saturation\<close>), those about attempts that the attempt
  counter has not; the counters saturate in the code, and beyond that point orders repeat. The two
  loops along successor links take as fuel one more than the number of attempts; the links lead to
  younger attempts only, so this is always enough (C20). The lease counter of the outbox wraps
  around; the refusal of stale receipts assumes that it has not, and C9 assumes that the counter of
  command ids has not reached its end. C24 and C27 assume the
  same of the counter of recovery episodes. C40 assumes that the limit on connections is a \<open>usize\<close>, which is
  64 bits wide here.

  \<^bold>\<open>Parameters.\<close> The conversions that \<open>serde\<close> generates between JSON and typed payloads are functions in
  the record \<open>serde\<close>; no property assumes anything about them beyond the hypotheses it states.

  \<^bold>\<open>Not modelled.\<close> Sockets, processes, TLS, the database and the user interface; the JSON codec; the
  client session; the server's handlers, readiness and playback barrier;
  media matching and the Plex client. Of the modelled files, \<open>Debug\<close> output, builders and the
  projections used by tests are left out. Zeros of both signs are one \<open>f64\<close> value, and lifecycle
  evidence is a log without the process-wide transaction numbers.
\<close>

text \<open>Short runs on which the witnesses evaluate the properties.\<close>

abbreviation rejected_pause :: "LifecycleStep list" where
  "rejected_pause \<equiv>
     [Reduce (CommandSubmitted 7 None LifecycleCommandKind.Pause),
      Reduce (CommandRejected 1 7 PlayerCommandFailureKind.Unknown), Peek,
      Acknowledge \<lparr>at_epoch = 1, at_value = 1\<rparr>]"

abbreviation open_pause :: "LifecycleStep list" where
  "open_pause \<equiv>
     [Reduce (CommandSubmitted 7 None LifecycleCommandKind.Pause),
      Reduce (CommandRejected 1 7 PlayerCommandFailureKind.Unknown)]"

abbreviation pause_batch :: PlayerEventBatch where
  "pause_batch \<equiv>
     \<lparr>eb_epoch = 1, eb_boundary = \<lparr>sb_epoch = 1, sb_through = 1\<rparr>, eb_snapshot = None, eb_events = [],
      eb_semantic_outcomes =
        [\<lparr>so_order = \<lparr>eo_epoch = 1, eo_sequence = 1\<rparr>,
          so_outcome = Command \<lparr>co_epoch = 1, co_command_id = 7, co_media_generation = None,
            co_result = PlayerCommandSemanticResult.Failed PlayerCommandFailureKind.Unknown\<rparr>\<rparr>],
      eb_token = \<lparr>at_epoch = 1, at_value = 1\<rparr>\<rparr>"

abbreviation submitted_load :: "LifecycleStep list" where
  "submitted_load \<equiv> [Reduce (LoadAttemptSubmitted None 2 ''b'' {})]"

abbreviation rejected_load :: "LifecycleStep list" where
  "rejected_load \<equiv>
     [Reduce (LoadAttemptSubmitted None 2 ''b'' {}),
      Reduce (LoadAttemptRejected 1 1 PlayerCommandFailureKind.Unknown)]"

abbreviation dangling_predecessor :: "LifecycleStep list" where
  "dangling_predecessor \<equiv>
     [Reduce (ExternalLoadObserved 1 1 5 ''a'' True), Reduce (LoadAttemptSubmitted None 2 ''b'' {}),
      Reduce (EndFile 1 5 PlayerPhysicalLoadOutcome.Ended), Peek, Acknowledge \<lparr>at_epoch = 1, at_value = 1\<rparr>]"

abbreviation contested_start :: "LifecycleStep list" where
  "contested_start \<equiv>
     [Reduce (LoadAttemptSubmitted None 2 ''b'' {}), Reduce (LoadAttemptAccepted 1 1),
      Reduce (ExternalLoadObserved 1 1 5 ''a'' False),
      Reduce (PlaylistSnapshot 1
        [\<lparr>pe_id = 5, pe_original_filename = Some ''a'', pe_current = True\<rparr>,
         \<lparr>pe_id = 6, pe_original_filename = Some ''b'', pe_current = False\<rparr>] None),
      Reduce (FileLoaded 1 (Some 6) None), Reduce (StartFile 1 5)]"

abbreviation generically_accepted_seek :: "LifecycleStep list" where
  "generically_accepted_seek \<equiv>
     [Reduce (SeekCommandSubmitted 7 1 (Fin 10) (Fin 10) 0), Reduce (CommandAccepted 1 7)]"

section \<open>Delivery of events and outcomes\<close>

text \<open>
  C1. Exactly-once, in-order delivery: along every sequence of inputs, peeks and acknowledgements
  from a fresh lifecycle, what the consumer has been given by accepted acknowledgements, followed
  by what is still pending, is exactly the list of outcomes the reducer has emitted, in order,
  none lost and none repeated, across gaps, compaction and attachment replacement.
\<close>
theorem outcomes_delivered_once_in_order:
  assumes "below_saturation (run_log epoch steps)"
  shows "logged_deliveries (run_log epoch steps) @ pending_outcomes (final_state epoch steps)
    = emitted_outcomes (logged_effects (run_log epoch steps))"
  using consumer.fifo_run [OF delivery_inv_new_state assms] by (simp add: pending_outcomes_new_state)

theorem outcomes_delivered_once_in_order_witness:
  "length (logged_deliveries (run_log 1 rejected_pause)) = 1
   \<and> logged_deliveries (run_log 1 rejected_pause) @ pending_outcomes (final_state 1 rejected_pause)
     = emitted_outcomes (logged_effects (run_log 1 rejected_pause))"
proof -
  have safe: "below_saturation (run_log 1 rejected_pause)"
    and one: "length (logged_deliveries (run_log 1 rejected_pause)) = 1"
    by (simp_all add: lifecycle_eval run_eval cong: let_weak_cong)
  show ?thesis
    using outcomes_delivered_once_in_order [OF safe] one by simp
qed

text \<open>
  C2. The delivery invariant holds after every run: retired epochs in attachment order, strictly
  increasing and pairwise different sequence numbers in every queue, each of its own epoch, and a
  frozen batch that covers exactly the prefix its acknowledgement removes.
\<close>
theorem delivery_invariant_of_runs:
  assumes "below_saturation (run_log epoch steps)"
  shows "delivery_inv (final_state epoch steps)"
  using assms by (rule delivery_inv_run)

theorem delivery_invariant_of_runs_witness: "delivery_inv (final_state 1 rejected_pause)"
  by (rule delivery_invariant_of_runs) (simp add: lifecycle_eval run_eval cong: let_weak_cong)

text \<open>
  C3. Everything ever published, events and outcomes alike, carries strictly increasing
  epoch-and-sequence orders, so no two publications of a run have the same order.
\<close>
theorem published_orders_increase:
  assumes "below_saturation (run_log epoch steps)"
  shows "sorted_wrt order_less (emitted_orders (logged_effects (run_log epoch steps)))"
  using emission_run.holds_run [of "[]" "new_state epoch" steps] assms
  by (simp add: run_orders_def orders_before_def new_state_def emitted_orders_def)

theorem published_orders_increase_witness:
  "emitted_orders (logged_effects (run_log 1 rejected_pause)) \<noteq> []
   \<and> sorted_wrt order_less (emitted_orders (logged_effects (run_log 1 rejected_pause)))"
proof -
  have safe: "below_saturation (run_log 1 rejected_pause)"
    and some: "emitted_orders (logged_effects (run_log 1 rejected_pause)) \<noteq> []"
    by (simp_all add: lifecycle_eval run_eval emitted_orders_def cong: let_weak_cong)
  show ?thesis using published_orders_increase [OF safe] some by simp
qed

text \<open>
  C4. Telemetry is bounded: after every run, each delivery buffer holds at most 64 transport
  deltas, whatever the inputs and even after counters have saturated.
\<close>
theorem telemetry_never_exceeds_bound: "telemetry_bounded (final_state epoch steps)"
  using telemetry_run.log.holds_run [of "new_state epoch" steps]
  by (simp add: telemetry_bounded_def new_state_def current_delivery_def telemetry_count_def buffers_def
      MAX_PENDING_TELEMETRY_EVENTS_def)

text \<open>
  Every single input appends to the pending outcomes exactly the outcomes it emits, in the
  order it emits them, and touches none of the earlier ones: the reducer refines an append-only
  queue. No hypothesis is needed, the counters may even have saturated.
\<close>
lemma reduce_appends_outcomes:
  "pending_outcomes (fst (reduce_player_lifecycle s input))
     = pending_outcomes s @ emitted_outcomes (snd (reduce_player_lifecycle s input))"
  by (rule pending_outcomes_reduce)

text \<open>
  C6. A batch handed out is frozen: whatever inputs arrive between two peeks, the second one
  returns the same batch, byte for byte, until it is acknowledged.
\<close>
theorem peeked_batch_is_frozen:
  assumes "fst (peek_event_batch (final_state epoch steps)) = Some b"
  shows "fst (peek_event_batch (final_state epoch (steps @ Peek # map Reduce inputs))) = Some b"
  using peek_cached [OF cached_after_peek [OF assms, of inputs]] by simp

theorem peeked_batch_is_frozen_witness:
  "fst (peek_event_batch (final_state 1 (open_pause @ Peek # map Reduce
     [CommandSubmitted 8 None LifecycleCommandKind.Play, AttachmentReplaced]))) = Some pause_batch"
  by (rule peeked_batch_is_frozen) (simp add: lifecycle_eval run_eval cong: let_weak_cong)

text \<open>
  An acknowledgement of anything but the batch handed out last, a stale token, a token of
  another epoch, or any token when no batch is out, is refused and changes nothing.
\<close>
theorem foreign_acknowledgement_refused:
  assumes "\<forall>b. cached_batch s = Some b \<longrightarrow> eb_token b \<noteq> token"
  shows "acknowledge_event_batch token s = (False, s)"
  using assms by (intro acknowledge_other_token) (cases "cached_batch s"; auto)

theorem foreign_acknowledgement_refused_witness:
  "acknowledge_event_batch \<lparr>at_epoch = 1, at_value = 2\<rparr> (final_state 1 (open_pause @ [Peek]))
     = (False, final_state 1 (open_pause @ [Peek]))"
  by (rule foreign_acknowledgement_refused) (simp add: lifecycle_eval run_eval cong: let_weak_cong)

text \<open>
  C8. The batch handed out last can always be acknowledged: after any inputs in between, its
  token is accepted, exactly its outcomes leave the front of the pending ones, and the next peek
  starts a new batch.
\<close>
theorem peeked_batch_can_be_acknowledged:
  fixes epoch steps inputs
  assumes "fst (peek_event_batch (final_state epoch steps)) = Some b"
    and "below_saturation (run_log epoch (steps @ Peek # map Reduce inputs))"
  shows "case acknowledge_event_batch (eb_token b) (final_state epoch (steps @ Peek # map Reduce inputs)) of
    (accepted, s') \<Rightarrow> accepted \<and> cached_batch s' = None
      \<and> pending_outcomes (final_state epoch (steps @ Peek # map Reduce inputs))
          = eb_semantic_outcomes b @ pending_outcomes s'"
  using acknowledge_result [OF delivery_inv_run [OF assms(2)] cached_after_peek [OF assms(1)]]
  by (simp add: split_def)

theorem peeked_batch_can_be_acknowledged_witness:
  "case acknowledge_event_batch (eb_token pause_batch)
        (final_state 1 (open_pause @ Peek # map Reduce [CommandSubmitted 8 None LifecycleCommandKind.Play, AttachmentReplaced])) of
    (accepted, s') \<Rightarrow> accepted \<and> cached_batch s' = None
      \<and> pending_outcomes (final_state 1 (open_pause @ Peek # map Reduce
            [CommandSubmitted 8 None LifecycleCommandKind.Play, AttachmentReplaced]))
          = eb_semantic_outcomes pause_batch @ pending_outcomes s'"
  by (rule peeked_batch_can_be_acknowledged; simp add: lifecycle_eval run_eval cong: let_weak_cong)

section \<open>Commands\<close>


text \<open>
  C10. Exactly one outcome per command. Every input but the replacement of the attachment keeps the
  identity of a command that was not settled and publishes for it exactly the outcome that its record
  carries afterwards: none while it stays open, one when it settles. The replacement of the
  attachment empties the command table and publishes for a command that was open exactly the
  outcome of its record settled as disconnected, and nothing for an unknown one.
\<close>
theorem command_settles_with_one_outcome:
  assumes "\<not> was_settled (command_of (final_state epoch steps) k)"
  shows "if input = AttachmentReplaced
    then commands (fst (reduce_player_lifecycle (final_state epoch steps) input)) = []
      \<and> (\<exists>sequence. command_outcomes k (snd (reduce_player_lifecycle (final_state epoch steps) input))
          = outcome_of_record (attachment_epoch (final_state epoch steps))
              (map_option (settle_record CommandSemanticState.TransportDisconnected sequence)
                (command_of (final_state epoch steps) k)))
    else identity_kept (command_of (final_state epoch steps) k)
        (command_of (fst (reduce_player_lifecycle (final_state epoch steps) input)) k)
      \<and> command_outcomes k (snd (reduce_player_lifecycle (final_state epoch steps) input))
        = outcome_of_record (attachment_epoch (final_state epoch steps))
            (command_of (fst (reduce_player_lifecycle (final_state epoch steps) input)) k)"
  using reduce_published_once(3) [OF commands_ok_run _ assms, of input]
    replaced_settles_open_command [OF commands_ok_run assms] by simp

theorem command_settles_with_one_outcome_witness:
  "length (command_outcomes 7 (snd (reduce_player_lifecycle
       (final_state 1 [Reduce (CommandSubmitted 7 None LifecycleCommandKind.Pause)])
       (CommandRejected 1 7 PlayerCommandFailureKind.Unknown)))) = 1
   \<and> command_outcomes 7 (snd (reduce_player_lifecycle
       (final_state 1 [Reduce (CommandSubmitted 7 None LifecycleCommandKind.Pause)])
       (CommandRejected 1 7 PlayerCommandFailureKind.Unknown)))
     = outcome_of_record (attachment_epoch (final_state 1 [Reduce (CommandSubmitted 7 None LifecycleCommandKind.Pause)]))
         (command_of (fst (reduce_player_lifecycle (final_state 1 [Reduce (CommandSubmitted 7 None LifecycleCommandKind.Pause)])
            (CommandRejected 1 7 PlayerCommandFailureKind.Unknown))) 7)"
proof -
  let ?s = "final_state 1 [Reduce (CommandSubmitted 7 None LifecycleCommandKind.Pause)]"
    and ?input = "CommandRejected 1 7 PlayerCommandFailureKind.Unknown"
  have "?input \<noteq> AttachmentReplaced" "\<not> was_settled (command_of ?s 7)"
    and one: "length (outcome_of_record (attachment_epoch ?s)
      (command_of (fst (reduce_player_lifecycle ?s ?input)) 7)) = 1"
    by (simp_all add: lifecycle_eval run_eval was_settled_def outcome_of_record_def settled_outcome_def
        cong: let_weak_cong)
  from command_settles_with_one_outcome [OF this(2), of ?input] this(1) one show ?thesis by simp
qed

text \<open>
  C11. A settled command is final: no input but the replacement of the attachment changes its
  record or publishes another outcome for it, however late the player answers.
\<close>
theorem settled_command_is_final:
  assumes "input \<noteq> AttachmentReplaced" and "was_settled (command_of (final_state epoch steps) k)"
  shows "command_of (fst (reduce_player_lifecycle (final_state epoch steps) input)) k
      = command_of (final_state epoch steps) k
    \<and> command_outcomes k (snd (reduce_player_lifecycle (final_state epoch steps) input)) = []"
  by (rule reduce_published_once(2) [OF commands_ok_run assms])

theorem settled_command_is_final_witness:
  "command_of (fst (reduce_player_lifecycle (final_state 1 open_pause) (CommandCompleted 1 7))) 7
      = command_of (final_state 1 open_pause) 7
   \<and> command_outcomes 7 (snd (reduce_player_lifecycle (final_state 1 open_pause) (CommandCompleted 1 7))) = []"
  by (rule settled_command_is_final; simp add: lifecycle_eval run_eval was_settled_def cong: let_weak_cong)

section \<open>Load attempts\<close>

text \<open>
  C16. After every run the load attempts are consistent: every record is filed under its own id,
  in the current epoch, with its result, terminal sequence and deadlines in step with its state;
  live attempts and playlist entries map to each other one to one; successor links lead to
  younger attempts that point back; and the attempt that owns the transport exists, is live and
  is bound to a playlist entry. The counter of attempts must not have reached the end of \<open>u64\<close>.
\<close>
theorem attempts_invariant_of_runs:
  assumes "next_load_attempt_id (final_state epoch steps) < u64_max"
  shows "attempts_ok {} (final_state epoch steps)"
  using assms by (rule attempts_ok_run)

theorem attempts_invariant_of_runs_witness: "attempts_ok {} (final_state 1 rejected_load)"
  by (rule attempts_invariant_of_runs) (simp add: lifecycle_eval run_eval cong: let_weak_cong)

text \<open>
  C17. Exactly one outcome per load attempt, as long as the counter of attempts has not reached the
  end of \<open>u64\<close>. Every input but the replacement of the attachment keeps the identity of an attempt
  without a result and publishes for it exactly what its record says afterwards: nothing while
  the result is open, one outcome when it is settled. The replacement of the attachment removes the
  record and publishes exactly one outcome for it: that the transport disconnected.
\<close>
theorem load_settles_with_one_outcome:
  assumes "next_load_attempt_id (fst (reduce_player_lifecycle (final_state epoch steps) input)) < u64_max"
    and "attempt_of (final_state epoch steps) a = Some x" and "la_semantic_load_result x = None"
  shows "if input = AttachmentReplaced
    then attempt_of (fst (reduce_player_lifecycle (final_state epoch steps) input)) a = None
      \<and> (\<exists>sequence. published_load (attachment_epoch (final_state epoch steps))
          (x\<lparr>la_semantic_load_result := Some PlayerLoadAttemptResult.TransportDisconnected,
             la_semantic_outcome_sequence := Some sequence\<rparr>)
          (load_outcomes a (snd (reduce_player_lifecycle (final_state epoch steps) input))))
    else \<exists>y. attempt_of (fst (reduce_player_lifecycle (final_state epoch steps) input)) a = Some y
      \<and> same_load x y
      \<and> published_load (attachment_epoch (final_state epoch steps)) y
          (load_outcomes a (snd (reduce_player_lifecycle (final_state epoch steps) input)))"
  using reduce_load_once(2) [OF attempts_good_run _ assms(1) assms(2,3)]
    replaced_settles_open_load [OF attempts_good_run next_id_at_most assms(2,3)] assms(1)
  by (cases "input = AttachmentReplaced") simp_all

theorem load_settles_with_one_outcome_witness:
  "\<exists>x y. attempt_of (final_state 1 submitted_load) 1 = Some x
    \<and> attempt_of (fst (reduce_player_lifecycle (final_state 1 submitted_load)
         (LoadAttemptRejected 1 1 PlayerCommandFailureKind.Unknown))) 1 = Some y
    \<and> same_load x y
    \<and> published_load (attachment_epoch (final_state 1 submitted_load)) y
        (load_outcomes 1 (snd (reduce_player_lifecycle (final_state 1 submitted_load)
           (LoadAttemptRejected 1 1 PlayerCommandFailureKind.Unknown))))"
proof -
  obtain x where x: "attempt_of (final_state 1 submitted_load) 1 = Some x" "la_semantic_load_result x = None"
    by (simp add: lifecycle_eval run_eval cong: let_weak_cong)
  have "next_load_attempt_id (fst (reduce_player_lifecycle (final_state 1 submitted_load)
      (LoadAttemptRejected 1 1 PlayerCommandFailureKind.Unknown))) < u64_max"
    by (simp add: lifecycle_eval run_eval cong: let_weak_cong)
  from load_settles_with_one_outcome [OF this x] x(1) show ?thesis by simp
qed

text \<open>
  C18. A settled load attempt is final: whatever inputs, peeks and acknowledgements follow, the
  replacement of the attachment included, nothing is published for it any more, and its record keeps
  its identity, its result and the sequence of its outcome until it is removed. Ids are never given
  out again, so this holds after the removal too; the counter of attempts must not have reached the
  end of \<open>u64\<close>.
\<close>
theorem settled_load_is_final:
  assumes "next_load_attempt_id (final_state epoch (steps @ later)) < u64_max"
    and "attempt_of (final_state epoch steps) a = Some x" and "la_semantic_load_result x \<noteq> None"
  shows "load_outcomes a (logged_effects (snd (run_steps lifecycle_step later (final_state epoch steps)))) = []
    \<and> (case attempt_of (final_state epoch (steps @ later)) a of
         None \<Rightarrow> True
       | Some y \<Rightarrow> same_load x y \<and> la_semantic_load_result y = la_semantic_load_result x
           \<and> la_semantic_outcome_sequence y = la_semantic_outcome_sequence x)"
  using run_after_settled [OF attempts_good_run next_id_at_most assms(2,3), of later] assms(1)
  by (auto simp: run_steps_append settled_alike_def same_settlement_def split: option.splits)

theorem settled_load_is_final_witness:
  "load_outcomes 1 (logged_effects (snd (run_steps lifecycle_step
      [Reduce (PlayerLifecycleInput.TransportDisconnected 1), Peek, Reduce AttachmentReplaced]
      (final_state 1 rejected_load)))) = []"
proof -
  obtain x where x: "attempt_of (final_state 1 rejected_load) 1 = Some x" "la_semantic_load_result x \<noteq> None"
    by (simp add: lifecycle_eval run_eval cong: let_weak_cong)
  show ?thesis
    by (rule conjunct1 [OF settled_load_is_final [OF _ x]])
      (simp add: lifecycle_eval run_eval cong: let_weak_cong)
qed

text \<open>
  C20. The two loops that follow successor links always end: in every reachable state the number
  of load attempts is fuel enough, and any more fuel gives the same answer, so the loop the code
  runs without a bound returns it.
\<close>
theorem successor_walks_terminate:
  assumes "next_load_attempt_id (final_state epoch steps) < u64_max"
  shows "(\<exists>r. \<forall>n. successor_walk (chain_fuel (final_state epoch steps) + n) (final_state epoch steps)
        generation start = Some r)
    \<and> (\<exists>r. \<forall>n. generation_walk (chain_fuel (final_state epoch steps) + n) (final_state epoch steps) a = Some r)"
  using attempts_ok_walks_end [OF attempts_ok_run [OF assms]] by blast

theorem successor_walks_terminate_witness:
  "\<exists>r. generation_walk (chain_fuel (final_state 1 submitted_load) + 0) (final_state 1 submitted_load) 1 = Some r"
proof -
  have "next_load_attempt_id (final_state 1 submitted_load) < u64_max"
    by (simp add: lifecycle_eval run_eval cong: let_weak_cong)
  from conjunct2 [OF successor_walks_terminate [OF this]] show ?thesis by blast
qed

section \<open>The reducer's own check\<close>

text \<open>
  C21. The check that debug builds run after every input: on every reachable state a check fails only
  if its message is listed in \<open>unprotected_messages\<close>, and \<open>assert_invariants\<close> passes or reports one of
  those. So none of the checks of the active attempt, of the playlist mapping, of attempt records
  and successor links, of command records, of delivery order, duplication and epochs, and of
  recovery snapshots can fail, behind whatever other violation.
\<close>
theorem reported_violations_are_unprotected:
  assumes "below_saturation (run_log epoch steps)"
    and "next_load_attempt_id (final_state epoch steps) < u64_max"
  shows "(\<forall>(violated, message)\<in>set (invariant_checks (final_state epoch steps)).
        violated \<longrightarrow> message \<in> unprotected_messages)
    \<and> (assert_invariants (final_state epoch steps) = Inr ()
       \<or> (\<exists>message\<in>unprotected_messages. assert_invariants (final_state epoch steps) = Inl message))"
proof -
  note only = only_unprotected_fail [OF attempts_ok_run [OF assms(2)] commands_ok_run delivery_inv_run [OF assms(1)]]
  from only fails_only_reports [OF only] show ?thesis
    by (auto simp: fails_only_def list_all_iff assert_invariants_def)
qed

theorem reported_violations_are_unprotected_witness:
  "assert_invariants (final_state 1 generically_accepted_seek)
     = Inl ''seek ownership state disagrees with command state''
   \<and> ''seek ownership state disagrees with command state'' \<in> unprotected_messages"
proof -
  have "below_saturation (run_log 1 generically_accepted_seek)"
    "next_load_attempt_id (final_state 1 generically_accepted_seek) < u64_max"
    by (simp_all add: lifecycle_eval run_eval cong: let_weak_cong)
  note run = this
  have "assert_invariants (final_state 1 generically_accepted_seek)
      = Inl ''seek ownership state disagrees with command state''"
    by (simp add: check_eval lifecycle_eval run_eval cong: let_weak_cong)
  with conjunct2 [OF reported_violations_are_unprotected [OF run]] show ?thesis by auto
qed

text \<open>
  A run that fails the check: a load replaces an external one, and before it is accepted the
  external one ends and its end is acknowledged. Compaction removes the ended attempt, which never
  recorded a successor, while the new attempt still names it as its predecessor.
\<close>
lemma compaction_leaves_dangling_predecessor:
  "assert_invariants (final_state 1 dangling_predecessor) = Inl ''attempt predecessor is missing''"
  by (simp add: check_eval lifecycle_eval run_eval cong: let_weak_cong)

text \<open>
  A run that fails the check: after one entry was loaded, the start of another entry takes the
  transport, and the record of the first stays active without owning it.
\<close>
lemma started_entry_leaves_active_attempt:
  "assert_invariants (final_state 1 contested_start)
     = Inl ''active physical state disagrees with active_load_attempt''"
  by (simp add: check_eval lifecycle_eval run_eval cong: let_weak_cong)

text \<open>
  A run that fails the check: a seek command accepted through the generic acceptance input is
  accepted itself, but its seek ownership stays submitted.
\<close>
lemma accepted_seek_keeps_submitted_ownership:
  "assert_invariants (final_state 1 generically_accepted_seek)
     = Inl ''seek ownership state disagrees with command state''"
  by (simp add: check_eval lifecycle_eval run_eval cong: let_weak_cong)

section \<open>The server's room roster\<close>

text \<open>
  C13. The roster implements its specification: for every sequence of joins, departures and
  readiness changes from an empty roster, the results, errors included, and the memberships are
  those of the abstract map.
\<close>
theorem roster_refines_membership_map:
  "apsnd roster_members (apply_all roster_apply ops default_roster) = apply_all spec_apply ops Map.empty"
  using roster.simulates_all [OF roster_ok_default] by (simp add: members_default)

text \<open>
  No empty room survives: after every sequence of operations a room is listed exactly if
  somebody is in it, and the readiness reported is the one the membership map has.
\<close>
theorem roster_lists_exactly_occupied_rooms:
  "(contains_room (snd (apply_all roster_apply ops default_roster)) room \<longleftrightarrow>
     (\<exists>user. roster_members (snd (apply_all roster_apply ops default_roster)) (room, user) \<noteq> None))
   \<and> user_ready user room (snd (apply_all roster_apply ops default_roster))
     = Option.bind (roster_members (snd (apply_all roster_apply ops default_roster)) (room, user)) id"
  using occupied_members [OF roster.invar_all [OF roster_ok_default], of ops room]
  by (simp add: contains_room_def bt_contains_def occupied_def user_ready_def roster_members_at
      split: option.split)

text \<open>
  A refused operation reports what is missing, the room before the user, and leaves the
  roster exactly as it was.
\<close>
lemma refused_roster_operation_changes_nothing:
  "leave_room user room s =
     (if \<not> contains_room s room then (Inl (RoomMissing room), s)
      else if roster_members s (room, user) = None then (Inl (UserMissing user), s)
      else (Inr (), snd (leave_room user room s)))
   \<and> set_ready user room ready s =
     (if \<not> contains_room s room then (Inl (RoomMissing room), s)
      else if roster_members s (room, user) = None then (Inl (UserMissing user), s)
      else (Inr (), snd (set_ready user room ready s)))"
  by (auto simp: leave_room_def set_ready_def contains_room_def bt_contains_def roster_members_at
      Let_def split: option.split)

text \<open>
  C34. Leaving undoes joining: if a user is not in a room, joining it and leaving again gives back
  the same roster, the room itself included.
\<close>
theorem departure_undoes_arrival:
  assumes "roster_members (snd (apply_all roster_apply ops default_roster)) (room, user) = None"
  shows "leave_room user room (join_room_with_ready user room ready (snd (apply_all roster_apply ops default_roster)))
    = (Inr (), snd (apply_all roster_apply ops default_roster))"
  by (rule leave_after_join [OF roster.invar_all [OF roster_ok_default] assms])

theorem departure_undoes_arrival_witness:
  "leave_room ''a'' ''r'' (join_room_with_ready ''a'' ''r'' None
      (snd (apply_all roster_apply [Join ''b'' ''r'' None] default_roster)))
    = (Inr (), snd (apply_all roster_apply [Join ''b'' ''r'' None] default_roster))"
  by (rule departure_undoes_arrival)
    (simp add: roster_members_at join_room_with_ready_def default_roster_def)

end
